(* ===== verification/Prelude.thy ===== *)
theory Prelude imports Main begin

text \<open>
  Shared vocabulary of the development: the exception classes of
  \<^verbatim>\<open>fatbuildr/errors.py\<close> with their inheritance relation, the results of
  fallible operations, Python dictionaries with their insertion order, and the
  generic lemmas the components share.

  A Python expression that may raise is a value of \<open>'a res\<close>: \<open>Inl e\<close> when the
  exception \<open>e\<close> propagates, \<open>Inr v\<close> when it returns \<open>v\<close>. The text of a message is
  not modelled, its class is.
\<close>

section \<open>Exceptions\<close>

datatype exn =
    FatbuildrRuntimeError | FatbuildrTaskExecutionError | FatbuildrKeyringError
  | FatbuildrServerError | FatbuildrServerPermissionError
  | FatbuildrServerInstanceError | FatbuildrServerRegistryError
  | FatbuildrPipelineError | FatbuildrRegistryError | FatbuildrTokenError
  | FatbuildrArtifactError | FatbuildrSystemConfigurationError
  | RuntimeErr | KeyErr | ValueErr | IndexErr | TypeErr | AttributeErr
  | FileNotFoundErr | FileExistsErr | OSErr | StructErr | AssertionErr
  | NotImplementedErr | RecursionErr | UnboundLocalErr | NoOptionErr
  | NoSectionErr | DBusLibErr | JWTErr | StopIterationErr | InterpolationErr | SystemExit nat

text \<open>The direct base class of the classes that \<^verbatim>\<open>errors.py\<close> declares, when it is one
  of the same module.\<close>

fun base_class :: "exn \<Rightarrow> exn option" where
  "base_class FatbuildrTaskExecutionError = Some FatbuildrRuntimeError"
| "base_class FatbuildrKeyringError = Some FatbuildrRuntimeError"
| "base_class FatbuildrServerPermissionError = Some FatbuildrServerError"
| "base_class FatbuildrServerInstanceError = Some FatbuildrServerError"
| "base_class FatbuildrServerRegistryError = Some FatbuildrServerError"
| "base_class FileNotFoundErr = Some OSErr"
| "base_class FileExistsErr = Some OSErr"
| "base_class NotImplementedErr = Some RuntimeErr"
| "base_class RecursionErr = Some RuntimeErr"
| "base_class _ = None"

text \<open>\<open>is_a e c\<close>: a clause \<^verbatim>\<open>except c\<close> catches \<open>e\<close>. The inheritance is one level deep.\<close>

definition is_a :: "exn \<Rightarrow> exn \<Rightarrow> bool" where
  "is_a e c \<longleftrightarrow> e = c \<or> base_class e = Some c"

section \<open>Results\<close>

type_synonym 'a res = "exn + 'a"

definition rbind :: "'a res \<Rightarrow> ('a \<Rightarrow> 'b res) \<Rightarrow> 'b res" where
  "rbind r f = (case r of Inl e \<Rightarrow> Inl e | Inr x \<Rightarrow> f x)"

definition rcatch :: "'a res \<Rightarrow> (exn \<Rightarrow> bool) \<Rightarrow> (exn \<Rightarrow> 'a res) \<Rightarrow> 'a res" where
  "rcatch r p h = (case r of Inl e \<Rightarrow> (if p e then h e else Inl e) | Inr x \<Rightarrow> Inr x)"

definition rmap :: "('a \<Rightarrow> 'b) \<Rightarrow> 'a res \<Rightarrow> 'b res" where
  "rmap f r = rbind r (\<lambda>x. Inr (f x))"

text \<open>A comprehension whose body may raise: left to right, stopped by the first error.\<close>

fun rmapM :: "('a \<Rightarrow> 'b res) \<Rightarrow> 'a list \<Rightarrow> 'b list res" where
  "rmapM f [] = Inr []"
| "rmapM f (x # xs) = rbind (f x) (\<lambda>y. rbind (rmapM f xs) (\<lambda>ys. Inr (y # ys)))"

text \<open>A loop over a list that updates a state and may raise.\<close>

fun rfold :: "('a \<Rightarrow> 's \<Rightarrow> 's res) \<Rightarrow> 'a list \<Rightarrow> 's \<Rightarrow> 's res" where
  "rfold f [] s = Inr s"
| "rfold f (x # xs) s = rbind (f x s) (rfold f xs)"

named_theorems res_simps "computation rules of results"

lemma rbind_simps [simp, res_simps]:
  "rbind (Inl e) f = Inl e" "rbind (Inr x) f = f x"
  by (simp_all add: rbind_def)

lemma rcatch_simps [simp, res_simps]:
  "rcatch (Inr x) p h = Inr x"
  "p e \<Longrightarrow> rcatch (Inl e) p h = h e"
  "\<not> p e \<Longrightarrow> rcatch (Inl e) p h = Inl e"
  by (simp_all add: rcatch_def)

lemma rmap_simps [simp, res_simps]:
  "rmap f (Inl e) = Inl e" "rmap f (Inr x) = Inr (f x)"
  by (simp_all add: rmap_def)

lemma rbind_Inr_conv: "rbind r f = Inr y \<longleftrightarrow> (\<exists>x. r = Inr x \<and> f x = Inr y)"
  by (cases r) auto

lemma rbind_Inl_conv:
  "rbind r f = Inl e \<longleftrightarrow> r = Inl e \<or> (\<exists>x. r = Inr x \<and> f x = Inl e)"
  by (cases r) auto

lemma rbind_assoc: "rbind (rbind r f) g = rbind r (\<lambda>x. rbind (f x) g)"
  by (cases r) auto

lemma rbind_cong [fundef_cong]:
  "r = r' \<Longrightarrow> (\<And>x. r' = Inr x \<Longrightarrow> f x = g x) \<Longrightarrow> rbind r f = rbind r' g"
  by (cases r') auto

lemma rmap_Inr_conv: "rmap f r = Inr y \<longleftrightarrow> (\<exists>x. r = Inr x \<and> y = f x)"
  by (cases r) auto

lemma rmapM_Inr_list_all2: "rmapM f xs = Inr ys \<longleftrightarrow> list_all2 (\<lambda>x y. f x = Inr y) xs ys"
  by (induction xs arbitrary: ys) (auto simp: rbind_Inr_conv list_all2_Cons1)

lemma rmapM_Inr_map: "(\<And>x. x \<in> set xs \<Longrightarrow> f x = Inr (g x)) \<Longrightarrow> rmapM f xs = Inr (map g xs)"
  by (induction xs) auto

lemma rfold_append: "rfold f (xs @ ys) s = rbind (rfold f xs s) (rfold f ys)"
  by (induction xs arbitrary: s) (auto simp: rbind_assoc rbind_def split: sum.splits)

lemma rfold_invariant:
  "\<lbrakk>rfold f xs s = Inr t; I s; \<And>x s t. x \<in> set xs \<Longrightarrow> f x s = Inr t \<Longrightarrow> I s \<Longrightarrow> I t\<rbrakk> \<Longrightarrow> I t"
proof (induction xs arbitrary: s)
  case (Cons x xs)
  then obtain u where "f x s = Inr u" "rfold f xs u = Inr t"
    by (auto simp: rbind_Inr_conv)
  with Cons show ?case
    by (metis list.set_intros)
qed simp

section \<open>State and exceptions\<close>

text \<open>Code that changes a state and may raise: the changes made before the exception stay.\<close>

type_synonym ('s, 'a) act = "'s \<Rightarrow> 'a res \<times> 's"

definition sret :: "'a \<Rightarrow> ('s, 'a) act" where
  "sret x s = (Inr x, s)"

definition sbind :: "('s, 'a) act \<Rightarrow> ('a \<Rightarrow> ('s, 'b) act) \<Rightarrow> ('s, 'b) act" where
  "sbind m f s = (case m s of (Inl e, s') \<Rightarrow> (Inl e, s') | (Inr x, s') \<Rightarrow> f x s')"

definition slift :: "'a res \<Rightarrow> ('s, 'a) act" where
  "slift r s = (r, s)"

definition smodify :: "('s \<Rightarrow> 's) \<Rightarrow> ('s, unit) act" where
  "smodify f s = (Inr (), f s)"

text \<open>An operation on a part of the state, which changes nothing when it fails.\<close>

definition spart :: "('s \<Rightarrow> 'p) \<Rightarrow> ('p \<Rightarrow> 's \<Rightarrow> 's) \<Rightarrow> ('p \<Rightarrow> 'p res) \<Rightarrow> ('s, unit) act" where
  "spart prj upd f s = (case f (prj s) of Inl e \<Rightarrow> (Inl e, s) | Inr p \<Rightarrow> (Inr (), upd p s))"

definition scatch :: "('s, 'a) act \<Rightarrow> (exn \<Rightarrow> bool) \<Rightarrow> (exn \<Rightarrow> ('s, 'a) act) \<Rightarrow> ('s, 'a) act" where
  "scatch m p h s = (case m s of (Inl e, s') \<Rightarrow> (if p e then h e s' else (Inl e, s')) | (Inr x, s') \<Rightarrow> (Inr x, s'))"

fun sfor :: "('a \<Rightarrow> ('s, unit) act) \<Rightarrow> 'a list \<Rightarrow> ('s, unit) act" where
  "sfor f [] = sret ()"
| "sfor f (x # xs) = sbind (f x) (\<lambda>_. sfor f xs)"

named_theorems act_simps "computation rules of actions"

lemma sret_apply [act_simps]: "sret x s = (Inr x, s)"
  by (simp add: sret_def)

lemma slift_apply [act_simps]: "slift r s = (r, s)"
  by (simp add: slift_def)

lemma smodify_apply [act_simps]: "smodify f s = (Inr (), f s)"
  by (simp add: smodify_def)

lemma sbind_apply [act_simps]:
  "m s = (Inr x, s') \<Longrightarrow> sbind m f s = f x s'" "m s = (Inl e, s') \<Longrightarrow> sbind m f s = (Inl e, s')"
  by (simp_all add: sbind_def)

lemma spart_apply [act_simps]:
  "f (prj s) = Inr p \<Longrightarrow> spart prj upd f s = (Inr (), upd p s)"
  "f (prj s) = Inl e \<Longrightarrow> spart prj upd f s = (Inl e, s)"
  by (simp_all add: spart_def)

lemma sbind_Inr_conv: "sbind m f s = (Inr y, t) \<longleftrightarrow> (\<exists>x u. m s = (Inr x, u) \<and> f x u = (Inr y, t))"
  by (auto simp: sbind_def split: sum.splits prod.splits)

section \<open>Dictionaries\<close>

text \<open>A Python dictionary keeps its keys in insertion order, which its iteration
  shows: an association list with distinct keys. Assigning an existing key keeps its
  position.\<close>

type_synonym ('k, 'v) dict = "('k \<times> 'v) list"

definition dict_get :: "('k, 'v) dict \<Rightarrow> 'k \<Rightarrow> 'v option" where
  "dict_get d k = map_of d k"

definition dict_item :: "('k, 'v) dict \<Rightarrow> 'k \<Rightarrow> 'v res" where
  "dict_item d k = (case map_of d k of None \<Rightarrow> Inl KeyErr | Some v \<Rightarrow> Inr v)"

definition dict_has :: "('k, 'v) dict \<Rightarrow> 'k \<Rightarrow> bool" where
  "dict_has d k \<longleftrightarrow> map_of d k \<noteq> None"

definition dict_keys :: "('k, 'v) dict \<Rightarrow> 'k list" where
  "dict_keys d = map fst d"

fun dict_set :: "('k, 'v) dict \<Rightarrow> 'k \<Rightarrow> 'v \<Rightarrow> ('k, 'v) dict" where
  "dict_set [] k v = [(k, v)]"
| "dict_set ((k', v') # d) k v = (if k' = k then (k, v) # d else (k', v') # dict_set d k v)"

fun dict_del :: "('k, 'v) dict \<Rightarrow> 'k \<Rightarrow> ('k, 'v) dict" where
  "dict_del [] k = []"
| "dict_del ((k', v') # d) k = (if k' = k then d else (k', v') # dict_del d k)"

lemma dict_get_set [simp]: "dict_get (dict_set d k v) k' = (if k' = k then Some v else dict_get d k')"
  by (induction d k v rule: dict_set.induct) (auto simp: dict_get_def)

lemma dict_has_set [simp]: "dict_has (dict_set d k v) k' \<longleftrightarrow> k' = k \<or> dict_has d k'"
  using dict_get_set [of d k v k'] by (auto simp: dict_has_def dict_get_def split: if_splits)

lemma dict_item_set [simp]:
  "dict_item (dict_set d k v) k' = (if k' = k then Inr v else dict_item d k')"
  using dict_get_set [of d k v k'] by (auto simp: dict_item_def dict_get_def split: if_splits)

lemma set_keys_dict_set: "set (dict_keys (dict_set d k v)) = insert k (set (dict_keys d))"
  by (induction d k v rule: dict_set.induct) (auto simp: dict_keys_def)

lemma distinct_dict_set: "distinct (dict_keys d) \<Longrightarrow> distinct (dict_keys (dict_set d k v))"
proof (induction d k v rule: dict_set.induct)
  case (2 k' v' d k v)
  then show ?case
    using set_keys_dict_set [of d k v] by (auto simp: dict_keys_def)
qed (simp add: dict_keys_def)

lemma dict_has_keys: "dict_has d k \<longleftrightarrow> k \<in> set (dict_keys d)"
  by (auto simp: dict_has_def dict_keys_def map_of_eq_None_iff)

section \<open>Lists\<close>

text \<open>The loop \<^verbatim>\<open>if x not in xs: xs.append(x)\<close>.\<close>

definition add_new :: "'a \<Rightarrow> 'a list \<Rightarrow> 'a list" where
  "add_new x xs = (if x \<in> set xs then xs else xs @ [x])"

lemma set_add_new [simp]: "set (add_new x xs) = insert x (set xs)"
  by (auto simp: add_new_def)

lemma distinct_add_new [simp]: "distinct xs \<Longrightarrow> distinct (add_new x xs)"
  by (auto simp: add_new_def)

text \<open>\<^verbatim>\<open>xs.remove(x)\<close> on a list: the first occurrence, \<^verbatim>\<open>ValueError\<close> when absent.\<close>

definition list_remove :: "'a \<Rightarrow> 'a list \<Rightarrow> 'a list res" where
  "list_remove x xs = (if x \<in> set xs then Inr (remove1 x xs) else Inl ValueErr)"

text \<open>Indexing with a non-negative index.\<close>

definition list_item :: "'a list \<Rightarrow> nat \<Rightarrow> 'a res" where
  "list_item xs i = (if i < length xs then Inr (xs ! i) else Inl IndexErr)"

end
