(* ===== verification/PyStr.thy ===== *)
theory PyStr imports Prelude "HOL-Library.Sublist" begin

text \<open>
  The methods of Python's \<^verbatim>\<open>str\<close> (and \<^verbatim>\<open>bytes\<close>) that the code calls, over
  \<open>string\<close>, a list of characters. Code points beyond 255 do not occur in the model.
  Each definition follows the documented behaviour of the method on every input.
\<close>

section \<open>Splitting and joining\<close>

text \<open>\<^verbatim>\<open>s.split(c)\<close>: at every occurrence, empty parts kept; never an empty list.\<close>

fun split_on :: "char \<Rightarrow> string \<Rightarrow> string list" where
  "split_on c [] = [[]]"
| "split_on c (x # xs) =
     (if x = c then [] # split_on c xs
      else (case split_on c xs of [] \<Rightarrow> [[x]] | y # ys \<Rightarrow> (x # y) # ys))"

text \<open>\<^verbatim>\<open>s.split(c, n)\<close>: at most \<open>n\<close> cuts, from the left.\<close>

fun split_max :: "char \<Rightarrow> nat \<Rightarrow> string \<Rightarrow> string list" where
  "split_max c n [] = [[]]"
| "split_max c 0 (x # xs) = [x # xs]"
| "split_max c (Suc n) (x # xs) =
     (if x = c then [] # split_max c n xs
      else (case split_max c (Suc n) xs of [] \<Rightarrow> [[x]] | y # ys \<Rightarrow> (x # y) # ys))"

text \<open>\<^verbatim>\<open>s.rsplit(c, n)\<close>: at most \<open>n\<close> cuts, from the right.\<close>

definition rsplit_max :: "char \<Rightarrow> nat \<Rightarrow> string \<Rightarrow> string list" where
  "rsplit_max c n s = rev (map rev (split_max c n (rev s)))"

text \<open>\<^verbatim>\<open>sep.join(parts)\<close>.\<close>

fun str_join :: "string \<Rightarrow> string list \<Rightarrow> string" where
  "str_join sep [] = []"
| "str_join sep [x] = x"
| "str_join sep (x # y # xs) = x @ sep @ str_join sep (y # xs)"

lemma split_on_ne [simp]: "split_on c s \<noteq> []"
  by (induction s) (auto split: list.splits)

lemma split_max_ne [simp]: "split_max c n s \<noteq> []"
  by (induction c n s rule: split_max.induct) (auto split: list.splits)

lemma rsplit_max_ne [simp]: "rsplit_max c n s \<noteq> []"
  by (simp add: rsplit_max_def)

lemma str_join_Cons: "xs \<noteq> [] \<Longrightarrow> str_join sep (x # xs) = x @ sep @ str_join sep xs"
  by (cases xs) auto

lemma str_join_split_on [simp]: "str_join [c] (split_on c s) = s"
proof (induction s)
  case (Cons x xs)
  then show ?case
    by (cases "split_on c xs") (auto simp: str_join_Cons elim: list.exhaust, metis str_join.simps(2,3) append_Cons neq_Nil_conv)
qed simp

lemma split_on_parts: "p \<in> set (split_on c s) \<Longrightarrow> c \<notin> set p"
proof (induction s arbitrary: p)
  case (Cons x xs)
  then show ?case
    by (cases "split_on c xs") (auto split: if_splits)
qed simp

lemma split_on_notin [simp]: "c \<notin> set s \<Longrightarrow> split_on c s = [s]"
  by (induction s) auto

lemma split_on_append: "c \<notin> set a \<Longrightarrow> split_on c (a @ c # b) = a # split_on c b"
  by (induction a) auto

lemma split_on_join:
  "xs \<noteq> [] \<Longrightarrow> (\<And>x. x \<in> set xs \<Longrightarrow> c \<notin> set x) \<Longrightarrow> split_on c (str_join [c] xs) = xs"
proof (induction xs)
  case (Cons x xs)
  then show ?case
    by (cases "xs = []") (auto simp: str_join_Cons split_on_append)
qed simp

lemma split_max_0 [simp]: "split_max c 0 s = [s]"
  by (cases s) auto

lemma split_max_notin [simp]: "c \<notin> set s \<Longrightarrow> split_max c n s = [s]"
  by (induction c n s rule: split_max.induct) auto

lemma split_max_append: "c \<notin> set a \<Longrightarrow> split_max c (Suc n) (a @ c # b) = a # split_max c n b"
  by (induction a) auto

lemma length_split_max: "length (split_max c n s) \<le> Suc n"
  by (induction c n s rule: split_max.induct) (auto split: list.splits)

lemma str_join_split_max [simp]: "str_join [c] (split_max c n s) = s"
proof (induction c n s rule: split_max.induct)
  case (3 c n x xs)
  show ?case
  proof (cases "x = c")
    case True
    with 3 show ?thesis by (simp add: str_join_Cons)
  next
    case False
    obtain y ys where ys: "split_max c (Suc n) xs = y # ys"
      using split_max_ne by (metis neq_Nil_conv)
    with 3 False show ?thesis by (cases ys) auto
  qed
qed auto

text \<open>The first cut of a string that holds the separator, at its first occurrence.\<close>

lemma split_max_1:
  "c \<in> set s \<Longrightarrow> \<exists>a b. s = a @ c # b \<and> c \<notin> set a \<and> split_max c (Suc n) s = a # split_max c n b"
  by (metis split_list_first split_max_append)

lemma rsplit_max_append: "c \<notin> set b \<Longrightarrow> rsplit_max c (Suc n) (a @ c # b) = rsplit_max c n a @ [b]"
  by (simp add: rsplit_max_def split_max_append)

lemma rsplit_max_0 [simp]: "rsplit_max c 0 s = [s]"
  by (simp add: rsplit_max_def)

lemma rsplit_max_notin [simp]: "c \<notin> set s \<Longrightarrow> rsplit_max c n s = [s]"
  by (simp add: rsplit_max_def)

section \<open>Tests and strips\<close>

definition startswith :: "string \<Rightarrow> string \<Rightarrow> bool" where
  "startswith s p \<longleftrightarrow> take (length p) s = p"

definition endswith :: "string \<Rightarrow> string \<Rightarrow> bool" where
  "endswith s p \<longleftrightarrow> startswith (rev s) (rev p)"

text \<open>\<^verbatim>\<open>p in s\<close> on strings.\<close>

fun str_in :: "string \<Rightarrow> string \<Rightarrow> bool" where
  "str_in p [] = (p = [])"
| "str_in p (x # xs) = (startswith (x # xs) p \<or> str_in p xs)"

definition is_space :: "char \<Rightarrow> bool" where
  "is_space c \<longleftrightarrow> of_char c \<in> {9, 10, 11, 12, 13, 28, 29, 30, 31, 32, 133, 160 :: nat}"

definition str_lstrip :: "string \<Rightarrow> string" where
  "str_lstrip s = dropWhile is_space s"

definition str_strip :: "string \<Rightarrow> string" where
  "str_strip s = rev (dropWhile is_space (rev (dropWhile is_space s)))"

definition str_strip_char :: "char \<Rightarrow> string \<Rightarrow> string" where
  "str_strip_char c s = rev (dropWhile (\<lambda>x. x = c) (rev (dropWhile (\<lambda>x. x = c) s)))"

definition str_rstrip_char :: "char \<Rightarrow> string \<Rightarrow> string" where
  "str_rstrip_char c s = rev (dropWhile (\<lambda>x. x = c) (rev s))"

text \<open>\<^verbatim>\<open>s.lower()\<close>, on the letters of ASCII.\<close>

definition lower_char :: "char \<Rightarrow> char" where
  "lower_char c = (let n = (of_char c :: nat) in if 65 \<le> n \<and> n \<le> 90 then char_of (n + 32) else c)"

definition replace_char :: "char \<Rightarrow> char \<Rightarrow> string \<Rightarrow> string" where
  "replace_char a b s = map (\<lambda>x. if x = a then b else x) s"

text \<open>\<^verbatim>\<open>s[-1]\<close>-style access is never used; \<^verbatim>\<open>parts[-1]\<close> is, on the result of a split.\<close>

lemma startswith_iff: "startswith s p \<longleftrightarrow> (\<exists>t. s = p @ t)"
  by (auto simp: startswith_def) (metis append_take_drop_id)

lemma startswith_append [simp]: "startswith (p @ t) p"
  by (simp add: startswith_def)

lemma endswith_iff: "endswith s p \<longleftrightarrow> (\<exists>t. s = t @ p)"
  unfolding endswith_def startswith_iff by (metis rev_append rev_rev_ident)

lemma str_in_iff: "str_in p s \<longleftrightarrow> (\<exists>a b. s = a @ p @ b)"
proof (induction s)
  case (Cons x xs)
  show ?case
  proof
    assume "str_in p (x # xs)"
    then consider "startswith (x # xs) p" | "str_in p xs" by auto
    then show "\<exists>a b. x # xs = a @ p @ b"
      using Cons.IH by cases (metis startswith_iff append_Nil, metis append_Cons)
  next
    assume "\<exists>a b. x # xs = a @ p @ b"
    then obtain a b where ab: "x # xs = a @ p @ b" by blast
    show "str_in p (x # xs)"
    proof (cases a)
      case Nil
      with ab have "startswith (x # xs) p" by (metis startswith_iff append_Nil)
      then show ?thesis by simp
    next
      case (Cons a0 as)
      with ab have "xs = as @ p @ b" by simp
      with Cons.IH show ?thesis by auto
    qed
  qed
qed auto

lemma is_space_blank [simp]: "is_space CHR '' ''"
  by (simp add: is_space_def)

section \<open>Decimal numbers\<close>

definition digit_char :: "nat \<Rightarrow> char" where
  "digit_char d = char_of (48 + d)"

fun nat_str :: "nat \<Rightarrow> string" where
  "nat_str n = (if n < 10 then [digit_char n] else nat_str (n div 10) @ [digit_char (n mod 10)])"

declare nat_str.simps [simp del]

text \<open>\<^verbatim>\<open>str(i)\<close> of an integer.\<close>

definition int_str :: "int \<Rightarrow> string" where
  "int_str i = (if i < 0 then CHR ''-'' # nat_str (nat (- i)) else nat_str (nat i))"

definition is_digit :: "char \<Rightarrow> bool" where
  "is_digit c \<longleftrightarrow> 48 \<le> (of_char c :: nat) \<and> (of_char c :: nat) \<le> 57"

definition digit_val :: "char \<Rightarrow> nat" where
  "digit_val c = of_char c - 48"

text \<open>\<^verbatim>\<open>int(s)\<close> on a nonempty string of digits, as the regular expressions deliver it.\<close>

definition digits_val :: "string \<Rightarrow> nat" where
  "digits_val s = foldl (\<lambda>n c. 10 * n + digit_val c) 0 s"

text \<open>\<^verbatim>\<open>int(s)\<close> on any string: surrounding blanks, one optional sign, digits; the
  separator \<^verbatim>\<open>_\<close> between digits that Python also takes is left out.\<close>

definition py_int :: "string \<Rightarrow> int res" where
  "py_int s =
     (let t = str_strip s;
          neg = (t \<noteq> [] \<and> hd t = CHR ''-'');
          u = (if t \<noteq> [] \<and> hd t \<in> {CHR ''-'', CHR ''+''} then tl t else t)
      in if u \<noteq> [] \<and> list_all is_digit u
         then Inr (if neg then - int (digits_val u) else int (digits_val u))
         else Inl ValueErr)"

lemma digit_char_of [simp]: "d < 10 \<Longrightarrow> (of_char (digit_char d) :: nat) = 48 + d"
  by (simp add: digit_char_def)

lemma is_digit_digit_char [simp]: "d < 10 \<Longrightarrow> is_digit (digit_char d)"
  by (simp add: is_digit_def)

lemma digit_val_char [simp]: "d < 10 \<Longrightarrow> digit_val (digit_char d) = d"
  by (simp add: digit_val_def)

lemma nat_str_ne [simp]: "nat_str n \<noteq> []"
  by (subst nat_str.simps) simp

lemma nat_str_digits: "list_all is_digit (nat_str n)"
proof (induction n rule: nat_str.induct)
  case (1 n)
  then show ?case by (cases "n < 10") (simp_all add: nat_str.simps [of n])
qed

lemma digits_val_snoc [simp]: "digits_val (s @ [c]) = 10 * digits_val s + digit_val c"
  by (simp add: digits_val_def)

lemma digits_val_nat_str [simp]: "digits_val (nat_str n) = n"
proof (induction n rule: nat_str.induct)
  case (1 n)
  show ?case
  proof (cases "n < 10")
    case True
    then show ?thesis by (simp add: nat_str.simps [of n] digits_val_def)
  next
    case False
    with 1 show ?thesis by (simp add: nat_str.simps [of n])
  qed
qed

lemma nat_str_inject [simp]: "nat_str m = nat_str n \<longleftrightarrow> m = n"
  by (metis digits_val_nat_str)

section \<open>Names and slices\<close>

text \<open>\<^verbatim>\<open>Path(name).stem\<close>: the name up to its last dot, unless that dot is the first or the
  last character.\<close>

definition path_stem :: "string \<Rightarrow> string" where
  "path_stem name =
     (let ps = rsplit_max CHR ''.'' 1 name
      in if length ps = 2 \<and> ps ! 0 \<noteq> [] \<and> ps ! 1 \<noteq> [] then ps ! 0 else name)"

lemma path_stem_nodot: "CHR ''.'' \<notin> set name \<Longrightarrow> path_stem name = name"
  by (simp add: path_stem_def)

text \<open>The slice \<^verbatim>\<open>xs[:n]\<close>, a negative bound counting from the end.\<close>

definition py_take :: "int \<Rightarrow> 'a list \<Rightarrow> 'a list" where
  "py_take n xs = (if 0 \<le> n then take (nat n) xs else take (length xs - nat (- n)) xs)"

end
