(* ===== verification/Specifics.thy ===== *)
theory Specifics imports PyStr begin

text \<open>
  \<^verbatim>\<open>fatbuildr/specifics.py\<close>: the map between the normalized names of the architectures
  and the names each format uses, as \<^verbatim>\<open>ArchMap\<close> computes it.
\<close>

definition FORMATS_ARCH_MAP :: "(string, (string \<times> string) list) dict" where
  "FORMATS_ARCH_MAP =
     [(''deb'', [(''src'', ''source''), (''noarch'', ''all''),
                 (''x86_64'', ''amd64''), (''aarch64'', ''arm64'')])]"

definition FORMATS_ARCH_DIR :: "(string, (string \<times> string) list) dict" where
  "FORMATS_ARCH_DIR = [(''rpm'', [(''src'', ''source'')])]"

text \<open>The two loops over the pairs, with their early returns.\<close>

fun native_loop :: "(string \<times> string) list \<Rightarrow> string \<Rightarrow> string" where
  "native_loop [] arch = arch"
| "native_loop ((normalized, native) # ps) arch =
     (if arch = normalized then native else native_loop ps arch)"

fun normalized_loop :: "(string \<times> string) list \<Rightarrow> string \<Rightarrow> string" where
  "normalized_loop [] arch = arch"
| "normalized_loop ((normalized, native) # ps) arch =
     (if arch = native then normalized else normalized_loop ps arch)"

definition ArchMap_native_in :: "(string, (string \<times> string) list) dict \<Rightarrow> string \<Rightarrow> string \<Rightarrow> string" where
  "ArchMap_native_in formats_map fmt arch =
     (case dict_get formats_map fmt of None \<Rightarrow> arch | Some ps \<Rightarrow> native_loop ps arch)"

definition ArchMap_normalized_in :: "(string, (string \<times> string) list) dict \<Rightarrow> string \<Rightarrow> string \<Rightarrow> string" where
  "ArchMap_normalized_in formats_map fmt arch =
     (case dict_get formats_map fmt of None \<Rightarrow> arch | Some ps \<Rightarrow> normalized_loop ps arch)"

definition archmap_native :: "string \<Rightarrow> string \<Rightarrow> string" where
  "archmap_native fmt arch = ArchMap_native_in FORMATS_ARCH_MAP fmt arch"

definition archmap_normalized :: "string \<Rightarrow> string \<Rightarrow> string" where
  "archmap_normalized fmt arch = ArchMap_normalized_in FORMATS_ARCH_MAP fmt arch"

definition archmap_nativedir :: "string \<Rightarrow> string \<Rightarrow> string" where
  "archmap_nativedir fmt arch = ArchMap_native_in FORMATS_ARCH_DIR fmt arch"

text \<open>A table without a repeated native name, none of whose natives is also a normalized
  name of another row, is inverted by the second loop.\<close>

lemma normalized_loop_native:
  "distinct (map snd ps) \<Longrightarrow> (n, a) \<in> set ps \<Longrightarrow> normalized_loop ps a = n"
proof (induction ps)
  case (Cons p ps)
  then show ?case by (cases p) (auto simp: rev_image_eqI)
qed simp

lemma native_loop_cases: "(arch, native_loop ps arch) \<in> set ps \<or> native_loop ps arch = arch"
  by (induction ps arch rule: native_loop.induct) auto

lemma normalized_loop_notin: "a \<notin> snd ` set ps \<Longrightarrow> normalized_loop ps a = a"
  by (induction ps) auto

lemma normalized_native_loop:
  assumes "distinct (map snd ps)" and "arch \<notin> snd ` set ps"
  shows "normalized_loop ps (native_loop ps arch) = arch"
  using native_loop_cases [of arch ps] normalized_loop_native [OF assms(1)] normalized_loop_notin [OF assms(2)]
  by auto

text \<open>Going to the native name and back returns every architecture that is not itself one of the
  native names of the format.\<close>

text \<open>\<^verbatim>\<open>ArchMap.normalized\<close> inverts \<^verbatim>\<open>ArchMap.native\<close> for the deb and every other format,
  for every architecture except the four native Debian names (\<^verbatim>\<open>source\<close>, \<^verbatim>\<open>all\<close>, \<^verbatim>\<open>amd64\<close>,
  \<^verbatim>\<open>arm64\<close>) in the deb format, which normalize to another name.\<close>

theorem archmap_roundtrip:
  assumes "fmt = ''deb'' \<longrightarrow> arch \<notin> {''source'', ''all'', ''amd64'', ''arm64''}"
  shows "archmap_normalized fmt (archmap_native fmt arch) = arch"
proof (cases "fmt = ''deb''")
  case True
  with assms show ?thesis
    unfolding archmap_normalized_def archmap_native_def ArchMap_normalized_in_def
      ArchMap_native_in_def FORMATS_ARCH_MAP_def dict_get_def
    by (simp only: map_of.simps fst_conv snd_conv fun_upd_same option.case)
      (rule normalized_native_loop; auto)
next
  case False
  then show ?thesis
    by (simp add: archmap_normalized_def archmap_native_def ArchMap_normalized_in_def
        ArchMap_native_in_def FORMATS_ARCH_MAP_def dict_get_def)
qed

theorem archmap_roundtrip_witness:
  "archmap_native ''deb'' ''x86_64'' = ''amd64''
   \<and> archmap_normalized ''deb'' (archmap_native ''deb'' ''x86_64'') = ''x86_64''"
  using archmap_roundtrip [of "''deb''" "''x86_64''"]
  by (simp add: archmap_native_def ArchMap_native_in_def FORMATS_ARCH_MAP_def dict_get_def)

end
