(* ===== verification/PyRegex.thy ===== *)
theory PyRegex imports PyStr begin

text \<open>
  The part of Python's \<^verbatim>\<open>re\<close> module that the code uses: a backtracking matcher with
  named groups, greedy and lazy repetition of one character class, options, and the two
  entry points \<^verbatim>\<open>re.match\<close> and \<^verbatim>\<open>re.search\<close>. The matcher returns every way to match, in the
  order in which backtracking tries them, and Python's answer is the first.
\<close>

section \<open>Expressions and the matcher\<close>

datatype regex =
    Lit string
  | One "char \<Rightarrow> bool"
  | Plus "char \<Rightarrow> bool"
  | PlusLazy "char \<Rightarrow> bool"
  | Opt regex
  | RSeq regex regex
  | RAlt regex regex
  | Grp string regex
  | Eos

type_synonym groups = "(string \<times> string) list"

definition rx_dot :: "char \<Rightarrow> bool" where
  "rx_dot c \<longleftrightarrow> c \<noteq> CHR 0x0A"

definition rx_word :: "char \<Rightarrow> bool" where
  "rx_word c \<longleftrightarrow> is_digit c \<or> (let n = (of_char c :: nat) in 65 \<le> n \<and> n \<le> 90 \<or> 97 \<le> n \<and> n \<le> 122 \<or> n = 95)"

definition rx_lower :: "char \<Rightarrow> bool" where
  "rx_lower c \<longleftrightarrow> (let n = (of_char c :: nat) in 97 \<le> n \<and> n \<le> 122)"

text \<open>What is left after one, two, \<open>\<dots>\<close> characters of a class.\<close>

fun runs :: "(char \<Rightarrow> bool) \<Rightarrow> string \<Rightarrow> string list" where
  "runs P [] = []"
| "runs P (c # cs) = (if P c then cs # runs P cs else [])"

fun rx :: "regex \<Rightarrow> groups \<times> string \<Rightarrow> (groups \<times> string) list" where
  "rx (Lit w) (g, s) = (if startswith s w then [(g, drop (length w) s)] else [])"
| "rx (One P) (g, s) = (case s of [] \<Rightarrow> [] | c # cs \<Rightarrow> if P c then [(g, cs)] else [])"
| "rx (Plus P) (g, s) = map (Pair g) (rev (runs P s))"
| "rx (PlusLazy P) (g, s) = map (Pair g) (runs P s)"
| "rx (Opt r) (g, s) = rx r (g, s) @ [(g, s)]"
| "rx (RSeq r1 r2) (g, s) = concat (map (rx r2) (rx r1 (g, s)))"
| "rx (RAlt r1 r2) (g, s) = rx r1 (g, s) @ rx r2 (g, s)"
| "rx (Grp n r) (g, s) =
     map (\<lambda>(g', s'). ((n, take (length s - length s') s) # g', s')) (rx r (g, s))"
| "rx Eos (g, s) = (if s = [] \<or> s = [CHR 0x0A] then [(g, s)] else [])"

definition re_match :: "regex \<Rightarrow> string \<Rightarrow> groups option" where
  "re_match r s = (case rx r ([], s) of [] \<Rightarrow> None | (g, _) # _ \<Rightarrow> Some g)"

fun re_search :: "regex \<Rightarrow> string \<Rightarrow> groups option" where
  "re_search r [] = re_match r []"
| "re_search r (c # s) =
     (case re_match r (c # s) of None \<Rightarrow> re_search r s | Some g \<Rightarrow> Some g)"

text \<open>\<^verbatim>\<open>m.group(n)\<close>: \<^verbatim>\<open>None\<close> for a group that took no part in the match.\<close>

definition group :: "groups \<Rightarrow> string \<Rightarrow> string option" where
  "group g n = map_of g n"

section \<open>Lemmas\<close>

lemma runs_all: "list_all P a \<Longrightarrow> runs P (a @ t) = map (\<lambda>r. r @ t) (runs P a) @ runs P t"
  by (induction a) auto

lemma runs_last: "list_all P a \<Longrightarrow> a \<noteq> [] \<Longrightarrow> \<exists>xs. runs P a = xs @ [[]]"
proof (induction a)
  case (Cons c cs)
  show ?case
  proof (cases "cs = []")
    case True
    with Cons.prems show ?thesis by simp
  next
    case False
    with Cons obtain xs where "runs P cs = xs @ [[]]" by auto
    with Cons.prems show ?thesis by (intro exI [of _ "cs # xs"]) simp
  qed
qed simp

lemma runs_suffix: "t \<in> set (runs P s) \<Longrightarrow> \<exists>a. a \<noteq> [] \<and> s = a @ t \<and> list_all P a"
proof (induction s)
  case (Cons c cs)
  then show ?case
  proof (cases "t = cs")
    case True
    with Cons.prems show ?thesis by (intro exI [of _ "[c]"]) (auto split: if_splits)
  next
    case False
    with Cons.prems have "t \<in> set (runs P cs)" and "P c" by (auto split: if_splits)
    with Cons.IH obtain a where "a \<noteq> []" "cs = a @ t" "list_all P a" by blast
    with \<open>P c\<close> show ?thesis by (intro exI [of _ "c # a"]) auto
  qed
qed simp

text \<open>Every match consumes a prefix: the matcher never invents text.\<close>

lemma rx_suffix: "(g', s') \<in> set (rx r (g, s)) \<Longrightarrow> \<exists>a. s = a @ s'"
proof (induction r "(g, s)" arbitrary: g s g' s' rule: rx.induct)
  case (1 w g s)
  then show ?case by (auto simp: startswith_iff split: if_splits)
next
  case (3 P g s)
  then show ?case by (auto dest!: runs_suffix)
next
  case (4 P g s)
  then show ?case by (auto dest!: runs_suffix)
next
  case (6 r1 r2 g s)
  then obtain g1 s1 where 1: "(g1, s1) \<in> set (rx r1 (g, s))" "(g', s') \<in> set (rx r2 (g1, s1))"
    by auto
  with 6(1) obtain a where a: "s = a @ s1" by blast
  from 6(2) [OF 1] obtain b where "s1 = b @ s'" by blast
  with a show ?case by auto
qed (auto split: list.splits if_splits)

lemma re_search_match: "re_match r s = Some g \<Longrightarrow> re_search r s = Some g"
  by (cases s) auto

text \<open>A greedy class stops at the first character outside it.\<close>

lemma rev_runs_stop:
  assumes "list_all P a" and "a \<noteq> []" and "t = [] \<or> \<not> P (hd t)"
  shows "\<exists>xs. rev (runs P (a @ t)) = t # xs"
proof -
  have t: "runs P t = []" using assms(3) by (cases t) auto
  obtain xs where xs: "runs P a = xs @ [[]]" using runs_last [OF assms(1,2)] by blast
  show ?thesis
    by (intro exI [of _ "rev (map (\<lambda>r. r @ t) xs)"]) (simp add: runs_all [OF assms(1)] t xs)
qed

text \<open>\<^verbatim>\<open>(.+)-(.+)\<close> on a string whose last separator is known: the greedy first group
  takes everything before it.\<close>

definition rx_two :: "string \<Rightarrow> char \<Rightarrow> string \<Rightarrow> regex" where
  "rx_two m c n = RSeq (Grp m (Plus rx_dot)) (RSeq (Lit [c]) (Grp n (Plus rx_dot)))"

lemma rx_two_skip:
  assumes "c \<notin> set b"
  shows "concat (map (\<lambda>s'. rx (RSeq (Lit [c]) r) (h s', s')) (rev (runs P b))) = []"
proof -
  have "rx (RSeq (Lit [c]) r) (h s', s') = []" if "s' \<in> set (runs P b)" for s'
    using runs_suffix [OF that] assms by (auto simp: startswith_iff)
  then show ?thesis by (auto simp: concat_eq_Nil_conv)
qed

lemma re_match_two:
  assumes "a \<noteq> []" and "b \<noteq> []" and "c \<notin> set b" and "c \<noteq> CHR 0x0A"
    and "list_all rx_dot a" and "list_all rx_dot b"
  shows "re_match (rx_two m c n) (a @ c # b) = Some [(n, b), (m, a)]"
proof -
  let ?s = "a @ c # b"
  let ?r2 = "RSeq (Lit [c]) (Grp n (Plus rx_dot))"
  let ?h = "\<lambda>s'. [(m, take (length ?s - length s') ?s)]"
  have c: "rx_dot c" using assms(4) by (simp add: rx_dot_def)
  obtain xs where xs: "runs rx_dot a = xs @ [[]]" using runs_last assms by blast
  obtain ys where ys: "rev (runs rx_dot b) = [] # ys"
    using rev_runs_stop [of rx_dot b "[]"] assms by auto
  have rev: "rev (runs rx_dot ?s) =
      rev (runs rx_dot b) @ [b] @ (c # b) # rev (map (\<lambda>r. r @ c # b) xs)"
    using assms xs c by (simp add: runs_all)
  have "rx (rx_two m c n) ([], ?s) = concat (map (\<lambda>s'. rx ?r2 (?h s', s')) (rev (runs rx_dot ?s)))"
    by (simp add: rx_two_def comp_def)
  also have "\<dots> = concat (map (\<lambda>s'. rx ?r2 (?h s', s')) (rev (runs rx_dot b)))
      @ rx ?r2 (?h b, b) @ rx ?r2 (?h (c # b), c # b)
      @ concat (map (\<lambda>s'. rx ?r2 (?h s', s')) (rev (map (\<lambda>r. r @ c # b) xs)))"
    by (simp only: rev map_append concat_append list.map concat.simps append_assoc append_Nil2)
  also have "\<dots> = rx ?r2 (?h (c # b), c # b)
      @ concat (map (\<lambda>s'. rx ?r2 (?h s', s')) (rev (map (\<lambda>r. r @ c # b) xs)))"
  proof -
    have "rx ?r2 (?h b, b) = []" using assms(3) by (cases b) (auto simp: startswith_def)
    then show ?thesis by (simp only: rx_two_skip [OF assms(3)] append_Nil)
  qed
  finally have *: "rx (rx_two m c n) ([], ?s) = rx ?r2 (?h (c # b), c # b)
      @ concat (map (\<lambda>s'. rx ?r2 (?h s', s')) (rev (map (\<lambda>r. r @ c # b) xs)))" .
  have "rx ?r2 (?h (c # b), c # b) = ([(n, b), (m, a)], []) # map (\<lambda>s'. ((n, take (length b - length s') b) # [(m, a)], s')) ys"
    by (simp add: startswith_def ys comp_def)
  then show ?thesis by (simp add: re_match_def *)
qed

end
