(* ===== verification/Versions.thy ===== *)
theory Versions imports PyRegex begin

text \<open>
  \<^verbatim>\<open>ArtifactVersion\<close> of \<^verbatim>\<open>fatbuildr/registry/formats/__init__.py\<close>: the parser of version
  strings, their printer and the comparison that ignores the build number. The two
  regular expressions are written as the source has them and run by the matcher of
  \<^verbatim>\<open>PyRegex\<close>; neither is anchored at the end, as in the source.
\<close>

record artifact_version =
  ver_main :: string
  ver_release :: string
  ver_dist :: "string option"
  ver_build :: int

definition VERSION_REGEX :: regex where
  "VERSION_REGEX = RSeq (Grp ''main'' (Plus rx_dot))
     (RSeq (Lit ''-'') (Grp ''release'' (Plus rx_dot)))"

definition RELEASE_REGEX :: regex where
  "RELEASE_REGEX = RSeq (Grp ''release'' (PlusLazy rx_dot))
     (RSeq (Opt (RSeq (Lit ''.'') (Grp ''dist'' (Plus rx_word))))
           (Opt (RSeq (Lit ''+build'') (Grp ''build'' (Plus is_digit)))))"

text \<open>The second half of \<^verbatim>\<open>__init__\<close>: \<^verbatim>\<open>release_re.group\<close> on \<^verbatim>\<open>None\<close> would raise
  \<^verbatim>\<open>AttributeError\<close>.\<close>

definition parse_release :: "string \<Rightarrow> string \<Rightarrow> artifact_version res" where
  "parse_release main release =
     (case re_match RELEASE_REGEX release of
        None \<Rightarrow> Inl AttributeErr
      | Some g \<Rightarrow>
          (case group g ''release'' of
             None \<Rightarrow> Inl AttributeErr
           | Some rel \<Rightarrow>
               Inr \<lparr>ver_main = main, ver_release = rel, ver_dist = group g ''dist'',
                    ver_build = (case group g ''build'' of
                                   None \<Rightarrow> -1 | Some b \<Rightarrow> int (digits_val b))\<rparr>))"

definition ArtifactVersion_init :: "string \<Rightarrow> artifact_version res" where
  "ArtifactVersion_init value =
     (case re_match VERSION_REGEX value of
        None \<Rightarrow> Inl RuntimeErr
      | Some g \<Rightarrow>
          (case (group g ''main'', group g ''release'') of
             (Some main, Some release) \<Rightarrow> parse_release main release
           | _ \<Rightarrow> Inl AttributeErr))"

definition version_eq :: "artifact_version \<Rightarrow> artifact_version \<Rightarrow> bool" where
  "version_eq v w \<longleftrightarrow> ver_main v = ver_main w \<and> ver_release v = ver_release w \<and> ver_dist v = ver_dist w"

definition version_major :: "artifact_version \<Rightarrow> int res" where
  "version_major v = py_int (hd (split_on CHR ''.'' (ver_main v)))"

definition version_fullrelease :: "artifact_version \<Rightarrow> string" where
  "version_fullrelease v =
     ver_release v
     @ (case ver_dist v of None \<Rightarrow> [] | Some d \<Rightarrow> CHR ''.'' # d)
     @ (if 0 \<le> ver_build v then ''+build'' @ int_str (ver_build v) else [])"

definition version_full :: "artifact_version \<Rightarrow> string" where
  "version_full v = ver_main v @ ''-'' @ version_fullrelease v"

section \<open>Parsing\<close>

lemma VERSION_REGEX_two: "VERSION_REGEX = rx_two ''main'' CHR ''-'' ''release''"
  by (simp add: VERSION_REGEX_def rx_two_def)

lemma ArtifactVersion_init_split:
  assumes "main \<noteq> []" "rel \<noteq> []" "CHR ''-'' \<notin> set rel" "list_all rx_dot main" "list_all rx_dot rel"
  shows "ArtifactVersion_init (main @ CHR ''-'' # rel) = parse_release main rel"
  using re_match_two [of main rel "CHR ''-''" "''main''" "''release''"] assms
  by (simp add: ArtifactVersion_init_def VERSION_REGEX_two group_def)

lemma rx_release_head:
  assumes "rx_dot c"
  shows "rx RELEASE_REGEX ([], c # s) =
    concat (map (rx (RSeq (Opt (RSeq (Lit ''.'') (Grp ''dist'' (Plus rx_word))))
           (Opt (RSeq (Lit ''+build'') (Grp ''build'' (Plus is_digit))))))
      (([(''release'', [c])], s) #
       map (\<lambda>t. ([(''release'', take (Suc (length s) - length t) (c # s))], t)) (runs rx_dot s)))"
  using assms by (simp add: RELEASE_REGEX_def comp_def Suc_diff_le)

text \<open>What follows the one character that the lazy group takes first.\<close>

definition rx_tail :: regex where
  "rx_tail = RSeq (Opt (RSeq (Lit ''.'') (Grp ''dist'' (Plus rx_word))))
           (Opt (RSeq (Lit ''+build'') (Grp ''build'' (Plus is_digit))))"

lemma rx_opt_ne: "rx (Opt r) st \<noteq> []"
  by (cases st) simp

lemma rx_tail_ne: "rx rx_tail st \<noteq> []"
  by (cases st) (simp add: rx_tail_def)

lemma parse_release_tail:
  assumes "rx_dot c" and "rx rx_tail ([(''release'', [c])], s) = (g, t) # gs"
  shows "parse_release main (c # s) =
    (case group g ''release'' of None \<Rightarrow> Inl AttributeErr
     | Some rel \<Rightarrow> Inr \<lparr>ver_main = main, ver_release = rel, ver_dist = group g ''dist'',
         ver_build = (case group g ''build'' of None \<Rightarrow> -1 | Some b \<Rightarrow> int (digits_val b))\<rparr>)"
  using assms rx_release_head [OF assms(1), of s]
  by (simp add: parse_release_def re_match_def flip: rx_tail_def)

lemma list_all_digit_word: "list_all is_digit s \<Longrightarrow> list_all rx_word s"
  by (auto simp: list_all_iff rx_word_def)

lemma is_digit_dot: "is_digit c \<Longrightarrow> rx_dot c"
  by (auto simp: is_digit_def rx_dot_def)


section \<open>Printing and parsing\<close>

lemma list_all_int_str: "0 \<le> b \<Longrightarrow> list_all is_digit (int_str b)"
  by (simp add: int_str_def nat_str_digits)

lemma digits_val_int_str: "0 \<le> b \<Longrightarrow> int (digits_val (int_str b)) = b"
  by (simp add: int_str_def)

lemma int_str_ne: "int_str b \<noteq> []"
  by (simp add: int_str_def)

lemma rx_plus_all:
  assumes "list_all P a" "a \<noteq> []" "t = [] \<or> \<not> P (hd t)"
  shows "\<exists>rest. rx (Grp n (Plus P)) (g, a @ t) = ((n, a) # g, t) # rest"
proof -
  obtain xs where "rev (runs P (a @ t)) = t # xs" using rev_runs_stop [OF assms] by blast
  then show ?thesis by simp
qed

lemma rx_opt_first:
  "rx r st = x # xs \<Longrightarrow> \<exists>rest. rx (Opt r) st = x # rest"
  by (cases st) simp

lemma rx_seq_first:
  "rx r1 st = x # xs \<Longrightarrow> rx r2 x = y # ys \<Longrightarrow> \<exists>rest. rx (RSeq r1 r2) st = y # rest"
  by (cases st) simp

lemma rx_lit_first: "rx (Lit w) (g, w @ t) = [(g, t)]"
  by simp

text \<open>The optional build suffix.\<close>

definition build_suffix :: "int \<Rightarrow> string" where
  "build_suffix b = (if 0 \<le> b then ''+build'' @ int_str b else [])"

lemma rx_build_suffix:
  assumes "-1 \<le> b"
  shows "\<exists>rest. rx (Opt (RSeq (Lit ''+build'') (Grp ''build'' (Plus is_digit)))) (g, build_suffix b)
    = (if 0 \<le> b then (''build'', int_str b) # g else g, []) # rest"
proof (cases "0 \<le> b")
  case True
  obtain r where r: "rx (Grp ''build'' (Plus is_digit)) (g, int_str b) = ((''build'', int_str b) # g, []) # r"
    using rx_plus_all [OF list_all_int_str [OF True] int_str_ne, of "[]" "''build''" g]
    by (auto simp del: rx.simps)
  have "rx (Lit ''+build'') (g, ''+build'' @ int_str b) = [(g, int_str b)]" by (rule rx_lit_first)
  from rx_seq_first [OF this r] obtain q
    where "rx (RSeq (Lit ''+build'') (Grp ''build'' (Plus is_digit))) (g, ''+build'' @ int_str b)
      = ((''build'', int_str b) # g, []) # q" by blast
  from rx_opt_first [OF this] True show ?thesis by (simp add: build_suffix_def)
next
  case False
  then show ?thesis by (simp add: build_suffix_def startswith_def)
qed

lemma rx_dist_suffix:
  assumes "d \<noteq> []" "list_all rx_word d" "t = [] \<or> \<not> rx_word (hd t)"
  shows "\<exists>rest. rx (Opt (RSeq (Lit ''.'') (Grp ''dist'' (Plus rx_word)))) (g, CHR ''.'' # d @ t)
    = ((''dist'', d) # g, t) # rest"
proof -
  obtain r where r: "rx (Grp ''dist'' (Plus rx_word)) (g, d @ t) = ((''dist'', d) # g, t) # r"
    using rx_plus_all [OF assms(2,1,3)] by blast
  have "rx (Lit ''.'') (g, CHR ''.'' # d @ t) = [(g, d @ t)]" using rx_lit_first [of "''.''" g "d @ t"] by simp
  from rx_seq_first [OF this r] obtain q
    where "rx (RSeq (Lit ''.'') (Grp ''dist'' (Plus rx_word))) (g, CHR ''.'' # d @ t)
      = ((''dist'', d) # g, t) # q" by blast
  from rx_opt_first [OF this] show ?thesis .
qed

lemma rx_no_dist: "t = [] \<or> hd t \<noteq> CHR ''.'' \<Longrightarrow>
  rx (Opt (RSeq (Lit ''.'') (Grp ''dist'' (Plus rx_word)))) (g, t) = [(g, t)]"
  by (cases t) (auto simp: startswith_def)

lemma build_suffix_hd: "build_suffix b = [] \<or> hd (build_suffix b) = CHR ''+''"
  by (simp add: build_suffix_def)

text \<open>Well-formed versions: what \<^verbatim>\<open>fullversion\<close>, the distribution tags and the build counter
  produce when the release is one character.\<close>

definition wf_version :: "artifact_version \<Rightarrow> bool" where
  "wf_version v \<longleftrightarrow>
     ver_main v \<noteq> [] \<and> list_all rx_dot (ver_main v)
     \<and> length (ver_release v) = 1 \<and> list_all rx_dot (ver_release v) \<and> ver_release v \<noteq> ''-''
     \<and> (case ver_dist v of None \<Rightarrow> True | Some d \<Rightarrow> d \<noteq> [] \<and> list_all rx_word d)
     \<and> -1 \<le> ver_build v"

lemma word_no_dash: "list_all rx_word d \<Longrightarrow> CHR ''-'' \<notin> set d"
  by (auto simp: list_all_iff rx_word_def is_digit_def)

lemma word_dot: "list_all rx_word d \<Longrightarrow> list_all rx_dot d"
  by (auto simp: list_all_iff rx_word_def is_digit_def rx_dot_def)

lemma digits_no_dash: "list_all is_digit d \<Longrightarrow> CHR ''-'' \<notin> set d"
  by (auto simp: list_all_iff is_digit_def)

lemma build_suffix_chars:
  "CHR ''-'' \<notin> set (build_suffix b)" "list_all rx_dot (build_suffix b)"
  using digits_no_dash [OF list_all_int_str, of b] word_dot [OF list_all_digit_word [OF list_all_int_str], of b]
  by (auto simp: build_suffix_def rx_dot_def)

lemma rx_tail_wf:
  assumes "case dist of None \<Rightarrow> True | Some d \<Rightarrow> d \<noteq> [] \<and> list_all rx_word d" and "-1 \<le> b"
  shows "\<exists>rest. rx rx_tail (g, (case dist of None \<Rightarrow> [] | Some d \<Rightarrow> CHR ''.'' # d) @ build_suffix b)
    = ((if 0 \<le> b then [(''build'', int_str b)] else [])
        @ (case dist of None \<Rightarrow> [] | Some d \<Rightarrow> [(''dist'', d)]) @ g, []) # rest"
proof -
  let ?t = "build_suffix b"
  let ?g = "(case dist of None \<Rightarrow> [] | Some d \<Rightarrow> [(''dist'', d)]) @ g"
  have "\<exists>r. rx (Opt (RSeq (Lit ''.'') (Grp ''dist'' (Plus rx_word))))
      (g, (case dist of None \<Rightarrow> [] | Some d \<Rightarrow> CHR ''.'' # d) @ ?t) = (?g, ?t) # r"
  proof (cases dist)
    case None
    then show ?thesis using rx_no_dist [of ?t g] build_suffix_hd [of b] by (auto simp del: rx.simps)
  next
    case (Some d)
    have "?t = [] \<or> \<not> rx_word (hd ?t)"
      using build_suffix_hd [of b] by (auto simp: rx_word_def is_digit_def)
    with Some assms show ?thesis using rx_dist_suffix [of d ?t g] by (auto simp del: rx.simps)
  qed
  then obtain r where "rx (Opt (RSeq (Lit ''.'') (Grp ''dist'' (Plus rx_word))))
      (g, (case dist of None \<Rightarrow> [] | Some d \<Rightarrow> CHR ''.'' # d) @ ?t) = (?g, ?t) # r" by blast
  moreover obtain q where "rx (Opt (RSeq (Lit ''+build'') (Grp ''build'' (Plus is_digit)))) (?g, ?t)
    = (if 0 \<le> b then (''build'', int_str b) # ?g else ?g, []) # q"
    using rx_build_suffix [OF assms(2)] by blast
  ultimately show ?thesis unfolding rx_tail_def by (auto dest: rx_seq_first simp del: rx.simps)
qed

text \<open>Parsing a printed version gives it back, for every version whose release is a single
  character: main version with dashes, optional distribution tag, optional build number.\<close>

theorem version_roundtrip:
  assumes "wf_version v"
  shows "ArtifactVersion_init (version_full v) = Inr v"
proof -
  obtain c where c: "ver_release v = [c]" and cd: "rx_dot c" "c \<noteq> CHR ''-''"
    using assms by (cases "ver_release v") (auto simp: wf_version_def)
  let ?s = "(case ver_dist v of None \<Rightarrow> [] | Some d \<Rightarrow> CHR ''.'' # d) @ build_suffix (ver_build v)"
  have s: "version_full v = ver_main v @ CHR ''-'' # c # ?s"
    by (simp add: version_full_def version_fullrelease_def c build_suffix_def)
  have d: "case ver_dist v of None \<Rightarrow> True | Some d \<Rightarrow> d \<noteq> [] \<and> list_all rx_word d" and b: "-1 \<le> ver_build v"
    using assms by (auto simp: wf_version_def)
  have "CHR ''-'' \<notin> set (c # ?s)" "list_all rx_dot (c # ?s)"
    using d cd build_suffix_chars [of "ver_build v"]
    by (auto split: option.splits dest: word_no_dash word_dot simp: rx_dot_def)
  then have "ArtifactVersion_init (version_full v) = parse_release (ver_main v) (c # ?s)"
    unfolding s using assms by (intro ArtifactVersion_init_split) (auto simp: wf_version_def)
  also obtain q where "rx rx_tail ([(''release'', [c])], ?s) =
      ((if 0 \<le> ver_build v then [(''build'', int_str (ver_build v))] else [])
        @ (case ver_dist v of None \<Rightarrow> [] | Some d \<Rightarrow> [(''dist'', d)]) @ [(''release'', [c])], []) # q"
    using rx_tail_wf [OF d b] by blast
  from parse_release_tail [OF cd(1) this]
  have "parse_release (ver_main v) (c # ?s) = Inr v"
    using c b by (auto simp: group_def digits_val_int_str split: option.splits intro!: artifact_version.equality)
  finally show ?thesis .
qed

theorem version_roundtrip_witness:
  "ArtifactVersion_init ''1.2-rc1-3.el8+build12''
     = Inr \<lparr>ver_main = ''1.2-rc1'', ver_release = ''3'', ver_dist = Some ''el8'', ver_build = 12\<rparr>"
proof -
  let ?v = "\<lparr>ver_main = ''1.2-rc1'', ver_release = ''3'', ver_dist = Some ''el8'', ver_build = 12\<rparr>"
  have "wf_version ?v"
    by (simp add: wf_version_def rx_dot_def rx_word_def is_digit_def)
  then have "ArtifactVersion_init (version_full ?v) = Inr ?v" by (rule version_roundtrip)
  moreover have "version_full ?v = ''1.2-rc1-3.el8+build12''"
    by code_simp
  ultimately show ?thesis by simp
qed

text \<open>The release of a version is cut to its first character when it is longer, unless
  the rest is a distribution tag or a build suffix: the unanchored lazy group of
  \<^verbatim>\<open>RELEASE_REGEX\<close> stops after one character, and the tag and the build number that may
  follow are lost.\<close>

theorem version_release_truncated:
  assumes "main \<noteq> []" and "list_all rx_dot main"
    and "list_all rx_dot (c # d # rel)" and "CHR ''-'' \<notin> set (c # d # rel)"
    and "d \<notin> {CHR ''.'', CHR ''+''}"
  shows "ArtifactVersion_init (main @ ''-'' @ c # d # rel)
    = Inr \<lparr>ver_main = main, ver_release = [c], ver_dist = None, ver_build = -1\<rparr>"
proof -
  have "ArtifactVersion_init (main @ CHR ''-'' # c # d # rel) = parse_release main (c # d # rel)"
    using assms by (intro ArtifactVersion_init_split) auto
  moreover have "rx rx_tail ([(''release'', [c])], d # rel) = [([(''release'', [c])], d # rel)]"
    using assms(5) by (simp add: rx_tail_def startswith_def)
  ultimately show ?thesis
    using parse_release_tail [of c "d # rel"] assms(3) by (simp add: group_def)
qed

theorem version_release_truncated_witness:
  "ArtifactVersion_init ''1.2-10.el8+build3''
     = Inr \<lparr>ver_main = ''1.2'', ver_release = ''1'', ver_dist = None, ver_build = -1\<rparr>"
  using version_release_truncated [of "''1.2''" "CHR ''1''" "CHR ''0''" "''.el8+build3''"]
  by (simp add: rx_dot_def)

end
