(* ===== verification/Exports.thy ===== *)
theory Exports imports PyStr begin

text \<open>
  \<^verbatim>\<open>fatbuildr/protocols/exports.py\<close> and \<^verbatim>\<open>fatbuildr/protocols/crawler.py\<close>: the fields that tasks
  and types export, their conversion to wire values and back, and the registry of tasks and
  types. An object is its class name with its attributes (\<open>PObj\<close>); the computed properties that
  a class exports are attributes of the model. Times are microseconds since the epoch. The set of
  fields of a class, which Python iterates in an arbitrary order, is a list without repetition.
\<close>

section \<open>Values and fields\<close>

datatype pyval =
    PNone | PBool bool | PInt int | PStr string | PTime int | PPath string
  | PList "pyval list" | PDict "(string \<times> pyval) list" | PObj string "(string \<times> pyval) list"

text \<open>The native type of a field: \<open>TExp c\<close> is an \<^verbatim>\<open>ExportableType\<close> class, \<open>TListExp c\<close> the
  type \<^verbatim>\<open>List[c]\<close> of one and \<open>TListStr\<close> is \<^verbatim>\<open>List[str]\<close>.\<close>

datatype ntype = TStr | TInt | TBool | TDatetime | TPath | TExp string | TListExp string | TListStr

record field =
  f_name :: string
  f_type :: ntype
  f_archived :: bool
  f_histid :: bool

definition ExportableField :: "string \<Rightarrow> ntype \<Rightarrow> field" where
  "ExportableField n t = \<lparr>f_name = n, f_type = t, f_archived = True, f_histid = False\<rparr>"

definition ExportableTaskField :: "string \<Rightarrow> ntype \<Rightarrow> bool \<Rightarrow> bool \<Rightarrow> field" where
  "ExportableTaskField n t archived histid =
     \<lparr>f_name = n, f_type = t, f_archived = archived, f_histid = histid\<rparr>"

definition wire_type :: "ntype \<Rightarrow> ntype" where
  "wire_type t = (case t of TDatetime \<Rightarrow> TInt | TPath \<Rightarrow> TStr | _ \<Rightarrow> t)"

definition getattr :: "(string \<times> pyval) list \<Rightarrow> string \<Rightarrow> pyval res" where
  "getattr attrs n = (case map_of attrs n of None \<Rightarrow> Inl AttributeErr | Some v \<Rightarrow> Inr v)"

text \<open>\<^verbatim>\<open>int(x.timestamp())\<close> truncates toward zero.\<close>

definition us_seconds :: "int \<Rightarrow> int" where
  "us_seconds us = (if 0 \<le> us then us div 1000000 else - ((- us) div 1000000))"

text \<open>\<^verbatim>\<open>str(Path(s))\<close> for a POSIX path: empty components and \<^verbatim>\<open>.\<close> are dropped, the empty
  path is \<^verbatim>\<open>.\<close>, exactly two leading slashes are kept.\<close>

definition path_norm :: "string \<Rightarrow> string" where
  "path_norm s =
     (let root = (if startswith s ''//'' \<and> \<not> startswith s ''///'' then ''//''
                  else if startswith s ''/'' then ''/'' else []);
          parts = filter (\<lambda>p. p \<noteq> [] \<and> p \<noteq> ''.'') (split_on CHR ''/'' s);
          r = root @ str_join ''/'' parts
      in if r = [] then ''.'' else r)"

section \<open>Conversions\<close>

text \<open>The class table gives the fields of each exportable class.\<close>

type_synonym classes = "string \<Rightarrow> field list"

lemma rmapM_cong [fundef_cong]:
  "xs = ys \<Longrightarrow> (\<And>x. x \<in> set ys \<Longrightarrow> f x = g x) \<Longrightarrow> rmapM f xs = rmapM g ys"
proof (induction ys arbitrary: xs)
  case (Cons y ys)
  then have "rmapM f ys = rmapM g ys" by simp
  with Cons.prems show ?case by simp
qed simp

lemma size_map_of: "map_of attrs n = Some v \<Longrightarrow> size v < Suc (size_list (size_prod (\<lambda>_. 0) size) attrs)"
  by (induction attrs) (auto split: if_splits)

lemma size_pyval_list: "x \<in> set vs \<Longrightarrow> size x < Suc (size_list size (vs :: pyval list))"
  by (induction vs) auto

function field_export :: "classes \<Rightarrow> ntype \<Rightarrow> pyval \<Rightarrow> pyval res" where
  "field_export C t v =
     (if v = PNone then Inr PNone
      else case t of
        TDatetime \<Rightarrow> (case v of PTime us \<Rightarrow> Inr (PInt (us_seconds us)) | _ \<Rightarrow> Inl AttributeErr)
      | TPath \<Rightarrow> (case v of PPath p \<Rightarrow> Inr (PStr p) | PStr s \<Rightarrow> Inr (PStr s) | _ \<Rightarrow> Inl TypeErr)
      | TExp c \<Rightarrow>
          (case v of
             PObj c' attrs \<Rightarrow>
               rmap PDict (rmapM (\<lambda>f. case map_of attrs (f_name f) of
                    None \<Rightarrow> Inl AttributeErr
                  | Some a \<Rightarrow> rmap (Pair (f_name f)) (field_export C (f_type f) a)) (C c'))
           | _ \<Rightarrow> Inl AttributeErr)
      | TListExp c \<Rightarrow>
          (case v of
             PList vs \<Rightarrow> rmap PList (rmapM (field_export C (TExp c)) vs)
           | _ \<Rightarrow> Inl TypeErr)
      | _ \<Rightarrow> Inr v)"
  by pat_completeness auto
termination
proof (relation "measure (\<lambda>(C, t, v). size v)", goal_cases)
  case 1
  then show ?case by simp
next
  case (2 C t v x c attrs f a)
  then show ?case
    using size_map_of [of attrs "f_name f" a] by simp
next
  case (3 C t v x vs y)
  then show ?case
    using size_pyval_list [of y vs] by simp
qed

declare field_export.simps [simp del]

text \<open>\<^verbatim>\<open>ExportableType.export\<close>: all the exported fields of the object's class.\<close>

definition object_export :: "classes \<Rightarrow> string \<Rightarrow> (string \<times> pyval) list \<Rightarrow> pyval res" where
  "object_export C c attrs = field_export C (TExp c) (PObj c attrs)"

text \<open>\<^verbatim>\<open>field.native(value=v)\<close>. The constructor of an exportable class is called with the wire
  values as keyword arguments.\<close>

definition ctor_call :: "(string \<Rightarrow> (string \<times> pyval) list \<Rightarrow> pyval res) \<Rightarrow> string \<Rightarrow> pyval \<Rightarrow> pyval res" where
  "ctor_call ctor c v = (case v of PDict d \<Rightarrow> ctor c d | _ \<Rightarrow> Inl TypeErr)"

definition native_convert ::
  "(string \<Rightarrow> (string \<times> pyval) list \<Rightarrow> pyval res) \<Rightarrow> ntype \<Rightarrow> pyval \<Rightarrow> pyval res" where
  "native_convert ctor t v =
     (case t of
        TDatetime \<Rightarrow> (case v of PInt i \<Rightarrow> Inr (PTime (i * 1000000)) | _ \<Rightarrow> Inl TypeErr)
      | TPath \<Rightarrow> (case v of PStr s \<Rightarrow> Inr (PPath (path_norm s)) | PPath p \<Rightarrow> Inr (PPath p) | _ \<Rightarrow> Inl TypeErr)
      | TExp c \<Rightarrow> ctor_call ctor c v
      | TListExp c \<Rightarrow>
          (case v of PList vs \<Rightarrow> rmap PList (rmapM (ctor_call ctor c) vs) | _ \<Rightarrow> Inl TypeErr)
      | _ \<Rightarrow> Inr v)"

definition field_native_value ::
  "(string \<Rightarrow> (string \<times> pyval) list \<Rightarrow> pyval res) \<Rightarrow> ntype \<Rightarrow> pyval \<Rightarrow> pyval res" where
  "field_native_value ctor t v =
     (if v = PNone then Inl AssertionErr else native_convert ctor t v)"

text \<open>\<^verbatim>\<open>field.native(obj)\<close>: the value is the object's attribute, a \<^verbatim>\<open>None\<close> included.\<close>

definition field_native_obj ::
  "(string \<Rightarrow> (string \<times> pyval) list \<Rightarrow> pyval res) \<Rightarrow> field \<Rightarrow> (string \<times> pyval) list \<Rightarrow> pyval res" where
  "field_native_obj ctor f attrs =
     rbind (getattr attrs (f_name f)) (native_convert ctor (f_type f))"

section \<open>The protocol registry\<close>

text \<open>\<^verbatim>\<open>_tasks\<close> and \<^verbatim>\<open>_types\<close>. The loader of a task is its class unless another is given;
  a task's fields are the base fields and its own (a set union).\<close>

record 'l protocol_registry =
  pr_tasks :: "(string, 'l \<times> field list) dict"
  pr_types :: "(string, 'l \<times> field list) dict"

definition BASEFIELDS :: "field list" where
  "BASEFIELDS =
     [ExportableTaskField ''id'' TStr False False,
      ExportableTaskField ''user'' TStr True False,
      ExportableTaskField ''name'' TStr True False,
      ExportableTaskField ''submission'' TDatetime True False,
      ExportableTaskField ''place'' TPath False False,
      ExportableTaskField ''state'' TStr False False,
      ExportableTaskField ''result'' TStr True False,
      ExportableTaskField ''io'' (TExp ''TaskIO'') False False]"

definition register_task ::
  "string \<Rightarrow> 'l \<Rightarrow> 'l option \<Rightarrow> field list \<Rightarrow> 'l protocol_registry \<Rightarrow> 'l protocol_registry" where
  "register_task task_name cls loader exfields r =
     r\<lparr>pr_tasks := dict_set (pr_tasks r) task_name
         ((case loader of None \<Rightarrow> cls | Some l \<Rightarrow> l), BASEFIELDS @ exfields)\<rparr>"

definition task_fields :: "'l protocol_registry \<Rightarrow> string \<Rightarrow> field list res" where
  "task_fields r task = rmap snd (dict_item (pr_tasks r) task)"

definition task_loader :: "'l protocol_registry \<Rightarrow> string \<Rightarrow> 'l res" where
  "task_loader r task = rmap fst (dict_item (pr_tasks r) task)"

definition register_type :: "string \<Rightarrow> 'l \<Rightarrow> field list \<Rightarrow> 'l protocol_registry \<Rightarrow> 'l protocol_registry" where
  "register_type type_name cls exfields r =
     r\<lparr>pr_types := dict_set (pr_types r) type_name (cls, exfields)\<rparr>"

definition reg_type_fields :: "'l protocol_registry \<Rightarrow> string \<Rightarrow> field list res" where
  "reg_type_fields r type = rmap snd (dict_item (pr_types r) type)"

definition reg_type_loader :: "'l protocol_registry \<Rightarrow> string \<Rightarrow> 'l res" where
  "reg_type_loader r type = rmap fst (dict_item (pr_types r) type)"

end
