(* ===== verification/Wire.thy ===== *)
theory Wire imports Exports begin

text \<open>
  The two wire formats: D-Bus structures (\<^verbatim>\<open>fatbuildr/protocols/dbus/__init__.py\<close>) and JSON
  (\<^verbatim>\<open>fatbuildr/protocols/http/__init__.py\<close>), over the tables that \<^verbatim>\<open>register_protocols\<close>
  of \<^verbatim>\<open>fatbuildr/protocols/crawler.py\<close> fills. A D-Bus structure is a \<open>PDict\<close>; the variant of a
  value is the value itself when it has the declared type, which is what \<^verbatim>\<open>get_variant\<close> checks.
  Strings are their UTF-8 bytes, so the mark of a null string has three.
\<close>

section \<open>The tables\<close>

definition type_exfields :: "(string, field list) dict" where
  "type_exfields =
     [(''RunningInstance'',
        [ExportableField ''id'' TStr, ExportableField ''name'' TStr, ExportableField ''userid'' TStr]),
      (''ArtifactSourceArchive'', [ExportableField ''id'' TStr, ExportableField ''path'' TPath]),
      (''RegistryArtifact'',
        [ExportableField ''name'' TStr, ExportableField ''architecture'' TStr,
         ExportableField ''version'' TStr, ExportableField ''size'' TInt]),
      (''ChangelogEntry'',
        [ExportableField ''version'' TStr, ExportableField ''author'' TStr,
         ExportableField ''date'' TInt, ExportableField ''changes'' TListStr]),
      (''ArtifactMember'',
        [ExportableField ''path'' TStr, ExportableField ''type'' TStr, ExportableField ''size'' TInt]),
      (''KeyringMasterKey'',
        [ExportableField ''userid'' TStr, ExportableField ''id'' TStr,
         ExportableField ''fingerprint'' TStr, ExportableField ''algo'' TStr,
         ExportableField ''expires'' TStr, ExportableField ''creation'' TStr,
         ExportableField ''last_update'' TStr, ExportableField ''subkey'' (TExp ''KeyringSubKey'')]),
      (''KeyringSubKey'',
        [ExportableField ''fingerprint'' TStr, ExportableField ''algo'' TStr,
         ExportableField ''expires'' TStr, ExportableField ''creation'' TStr]),
      (''TaskIO'',
        [ExportableField ''interactive'' TBool, ExportableField ''console'' TPath,
         ExportableField ''journal'' (TExp ''TaskJournal'')]),
      (''TaskJournal'', [ExportableField ''path'' TPath])]"

text \<open>Tasks: class, optional loader, own fields.\<close>

definition build_exfields :: "field list" where
  "build_exfields =
     [ExportableTaskField ''format'' TStr True True,
      ExportableTaskField ''distribution'' TStr True True,
      ExportableTaskField ''architectures'' TListStr True False,
      ExportableTaskField ''archives'' (TListExp ''ArtifactSourceArchive'') True False,
      ExportableTaskField ''derivative'' TStr True True,
      ExportableTaskField ''artifact'' TStr True True,
      ExportableTaskField ''author'' TStr True False,
      ExportableTaskField ''email'' TStr True False,
      ExportableTaskField ''message'' TStr True False]"

definition deletion_exfields :: "field list" where
  "deletion_exfields =
     [ExportableTaskField ''format'' TStr True False,
      ExportableTaskField ''distribution'' TStr True False,
      ExportableTaskField ''derivative'' TStr True False,
      ExportableTaskField ''artifact'' (TExp ''RegistryArtifact'') True False]"

definition renewal_exfields :: "field list" where
  "renewal_exfields = [ExportableTaskField ''duration'' TStr True False]"

definition image_creation_exfields :: "field list" where
  "image_creation_exfields =
     [ExportableTaskField ''format'' TStr True False, ExportableTaskField ''force'' TBool True False]"

definition image_update_exfields :: "field list" where
  "image_update_exfields = [ExportableTaskField ''format'' TStr True False]"

definition image_shell_exfields :: "field list" where
  "image_shell_exfields =
     [ExportableTaskField ''format'' TStr True False, ExportableTaskField ''term'' TStr True False,
      ExportableTaskField ''command'' TListStr True False]"

definition env_exfields :: "field list" where
  "env_exfields =
     [ExportableTaskField ''format'' TStr True False,
      ExportableTaskField ''environment'' TStr True False,
      ExportableTaskField ''architecture'' TStr True False]"

definition env_shell_exfields :: "field list" where
  "env_shell_exfields =
     [ExportableTaskField ''format'' TStr True False,
      ExportableTaskField ''environment'' TStr True False,
      ExportableTaskField ''architecture'' TStr True False,
      ExportableTaskField ''term'' TStr True False,
      ExportableTaskField ''command'' TListStr True False]"

definition protocol_tasks :: "(string \<times> string \<times> string option \<times> field list) list" where
  "protocol_tasks =
     [(''artifact build'', ''ArtifactBuild'', Some ''BuildFactory.generate'', build_exfields),
      (''artifact deletion'', ''RegistryArtifactDeletionTask'', None, deletion_exfields),
      (''keyring creation'', ''KeyringCreationTask'', None, []),
      (''keyring renewal'', ''KeyringRenewalTask'', None, renewal_exfields),
      (''history purge'', ''HistoryPurgeTask'', None, []),
      (''image creation'', ''ImageCreationTask'', None, image_creation_exfields),
      (''image update'', ''ImageUpdateTask'', None, image_update_exfields),
      (''image shell'', ''ImageShellTask'', None, image_shell_exfields),
      (''image build environment creation'', ''ImageEnvironmentCreationTask'', None, env_exfields),
      (''image build environment update'', ''ImageEnvironmentUpdateTask'', None, env_exfields),
      (''image build environment shell'', ''ImageEnvironmentShellTask'', None, env_shell_exfields)]"

definition register_protocols :: "string protocol_registry" where
  "register_protocols =
     fold (\<lambda>(n, fs) r. register_type n n fs r) type_exfields
       (fold (\<lambda>(n, cls, loader, fs) r. register_task n cls loader fs r) protocol_tasks
          \<lparr>pr_tasks = [], pr_types = []\<rparr>)"

text \<open>The fields of a class, none for a name that is not registered.\<close>

definition registered_classes :: classes where
  "registered_classes c = (case reg_type_fields register_protocols c of Inl _ \<Rightarrow> [] | Inr fs \<Rightarrow> fs)"

text \<open>\<^verbatim>\<open>TYPES_MAP\<close> of the two modules: the wire class of a native class.\<close>

definition dbus_types_map :: "(string \<times> string) list" where
  "dbus_types_map =
     [(''RunningInstance'', ''DBusInstance''), (''ArtifactSourceArchive'', ''DBusSourceArchive''),
      (''RegistryArtifact'', ''DBusArtifact''), (''ChangelogEntry'', ''DBusChangelogEntry''),
      (''ArtifactMember'', ''DBusArtifactMember''), (''KeyringMasterKey'', ''DBusKeyring''),
      (''KeyringSubKey'', ''DBusKeyringSubKey''), (''TaskIO'', ''DBusTaskIO''),
      (''TaskJournal'', ''DBusTaskJournal'')]"

definition json_types_map :: "(string \<times> string \<times> string) list" where
  "json_types_map =
     [(''RunningInstance'', ''DBusInstance'', ''JsonInstance''),
      (''ArtifactSourceArchive'', ''DBusSourceArchive'', ''JsonSourceArchive''),
      (''RegistryArtifact'', ''DBusArtifact'', ''JsonArtifact''),
      (''ChangelogEntry'', ''DBusChangelogEntry'', ''JsonChangelogEntry''),
      (''ArtifactMember'', ''DBusArtifactMember'', ''JsonArtifactMember''),
      (''TaskIO'', ''DBusTaskIO'', ''JsonTaskIO''), (''TaskJournal'', ''DBusTaskJournal'', ''JsonTaskJournal'')]"

definition dbus_type :: "string \<Rightarrow> string res" where
  "dbus_type type_name =
     (case map_of dbus_types_map type_name of None \<Rightarrow> Inl RuntimeErr | Some d \<Rightarrow> Inr d)"

definition native_type :: "string \<Rightarrow> string res" where
  "native_type type =
     (case find (\<lambda>(n, d). d = type) dbus_types_map of None \<Rightarrow> Inl RuntimeErr | Some (n, _) \<Rightarrow> Inr n)"

definition type_fields :: "string \<Rightarrow> field list res" where
  "type_fields type = rbind (native_type type) (reg_type_fields register_protocols)"

definition native_json_type :: "string \<Rightarrow> string res" where
  "native_json_type n =
     (case find (\<lambda>(n', d, j). n' = n) json_types_map of None \<Rightarrow> Inl RuntimeErr | Some (_, _, j) \<Rightarrow> Inr j)"

definition dbus_json_type :: "string \<Rightarrow> string res" where
  "dbus_json_type d =
     (case find (\<lambda>(n, d', j). d' = d) json_types_map of None \<Rightarrow> Inl RuntimeErr | Some (_, _, j) \<Rightarrow> Inr j)"

definition json_type_fields :: "string \<Rightarrow> field list res" where
  "json_type_fields type =
     (case find (\<lambda>(n, d, j). j = type) json_types_map of
        None \<Rightarrow> Inl RuntimeErr
      | Some (n, _, _) \<Rightarrow> reg_type_fields register_protocols n)"

section \<open>D-Bus structures\<close>

definition dbus_null :: string where
  "dbus_null = [CHR 0xE2, CHR 0x88, CHR 0x85]"

definition null_str :: string where
  "null_str = ''null''"

definition valueornull :: "string option \<Rightarrow> string" where
  "valueornull value = (case value of None \<Rightarrow> null_str | Some v \<Rightarrow> if v = [] then null_str else v)"

definition valueornone :: "string \<Rightarrow> string option" where
  "valueornone value = (if value = null_str then None else Some value)"

text \<open>\<^verbatim>\<open>get_variant(t, v)\<close>: the value must have the wire type \<open>t\<close>.\<close>

definition variant :: "ntype \<Rightarrow> pyval \<Rightarrow> pyval res" where
  "variant t v =
     (case (t, v) of
        (TStr, PStr _) \<Rightarrow> Inr v
      | (TInt, PInt _) \<Rightarrow> Inr v
      | (TBool, PBool _) \<Rightarrow> Inr v
      | (TExp _, PDict _) \<Rightarrow> Inr v
      | (TListExp _, PList _) \<Rightarrow> Inr v
      | (TListStr, PList _) \<Rightarrow> Inr v
      | _ \<Rightarrow> Inl TypeErr)"

text \<open>One field of \<^verbatim>\<open>to_structure\<close>: a null value becomes \<open>-1\<close> or the mark, a nested object
  its structure, a list of objects the list of their structures, anything else its export.\<close>

function to_wire :: "ntype \<Rightarrow> pyval \<Rightarrow> pyval res" where
  "to_wire t v =
     (if v = PNone then variant (wire_type t) (if wire_type t = TInt then PInt (-1) else PStr dbus_null)
      else case wire_type t of
        TExp c \<Rightarrow>
          rbind (dbus_type c) (\<lambda>d. rbind (type_fields d) (\<lambda>fs.
            (case v of
               PObj c' attrs \<Rightarrow>
                 rmap PDict (rmapM (\<lambda>f. case map_of attrs (f_name f) of
                    None \<Rightarrow> Inl AttributeErr
                  | Some a \<Rightarrow> rmap (Pair (f_name f)) (to_wire (f_type f) a)) fs)
             | _ \<Rightarrow> Inl AttributeErr)))
      | TListExp c \<Rightarrow>
          (case v of
             PList vs \<Rightarrow> rmap PList (rmapM (to_wire (TExp c)) vs)
           | _ \<Rightarrow> Inl TypeErr)
      | w \<Rightarrow> rbind (field_export registered_classes t v) (variant w))"
  by pat_completeness auto
termination
proof (relation "measure (\<lambda>(t, v). size v)", goal_cases)
  case 1
  then show ?case by simp
next
  case (2 t v c d fs c' attrs f a)
  then show ?case
    using size_map_of [of attrs "f_name f" a] by simp
next
  case (3 t v c vs y)
  then show ?case
    using size_pyval_list [of y vs] by simp
qed

declare to_wire.simps [simp del]

definition struct_item :: "pyval \<Rightarrow> string \<Rightarrow> pyval res" where
  "struct_item s n = (case s of PDict d \<Rightarrow> dict_item d n | _ \<Rightarrow> Inl TypeErr)"

text \<open>One field of \<^verbatim>\<open>from_structure\<close>. A nested structure becomes an object of the D-Bus class
  of the field.\<close>

function from_wire :: "ntype \<Rightarrow> pyval \<Rightarrow> pyval res" where
  "from_wire t w =
     (if wire_type t = TInt \<and> w = PInt (-1) \<or> wire_type t = TStr \<and> w = PStr dbus_null then Inr PNone
      else case wire_type t of
        TExp c \<Rightarrow>
          rbind (dbus_type c) (\<lambda>d. rbind (type_fields d) (\<lambda>fs.
            (case w of
               PDict st \<Rightarrow>
                 rmap (PObj d) (rmapM (\<lambda>f. case map_of st (f_name f) of
                    None \<Rightarrow> Inl KeyErr
                  | Some a \<Rightarrow> rmap (Pair (f_name f)) (from_wire (f_type f) a)) fs)
             | _ \<Rightarrow> Inl TypeErr)))
      | TListExp c \<Rightarrow>
          (case w of
             PList ws \<Rightarrow> rmap PList (rmapM (from_wire (TExp c)) ws)
           | _ \<Rightarrow> Inl TypeErr)
      | _ \<Rightarrow> field_native_value (\<lambda>_ _. Inl TypeErr) t w)"
  by pat_completeness auto
termination
proof (relation "measure (\<lambda>(t, v). size v)", goal_cases)
  case 1
  then show ?case by simp
next
  case (2 t w c d fs st f a)
  then show ?case
    using size_map_of [of st "f_name f" a] by simp
next
  case (3 t w c ws y)
  then show ?case
    using size_pyval_list [of y ws] by simp
qed

declare from_wire.simps [simp del]

text \<open>\<^verbatim>\<open>DBusRunnableTask\<close>: the fields come from the task's name.\<close>

definition fields_to_structure :: "field list \<Rightarrow> (string \<times> pyval) list \<Rightarrow> pyval res" where
  "fields_to_structure fs attrs =
     rmap PDict (rmapM (\<lambda>f. rbind (getattr attrs (f_name f))
       (\<lambda>a. rmap (Pair (f_name f)) (to_wire (f_type f) a))) fs)"

definition fields_from_structure :: "field list \<Rightarrow> pyval \<Rightarrow> (string \<times> pyval) list res" where
  "fields_from_structure fs s =
     rmapM (\<lambda>f. rbind (struct_item s (f_name f))
       (\<lambda>w. rmap (Pair (f_name f)) (from_wire (f_type f) w))) fs"

definition str_of :: "pyval \<Rightarrow> string res" where
  "str_of v = (case v of PStr s \<Rightarrow> Inr s | _ \<Rightarrow> Inl KeyErr)"

definition task_to_structure :: "(string \<times> pyval) list \<Rightarrow> pyval res" where
  "task_to_structure attrs =
     rbind (rbind (getattr attrs ''name'') str_of) (\<lambda>name.
     rbind (task_fields register_protocols name) (\<lambda>fs. fields_to_structure fs attrs))"

definition task_from_structure :: "pyval \<Rightarrow> (string \<times> pyval) list res" where
  "task_from_structure s =
     rbind (rbind (struct_item s ''name'') str_of) (\<lambda>name.
     rbind (task_fields register_protocols name) (\<lambda>fs. fields_from_structure fs s))"

section \<open>What arrives\<close>

text \<open>\<open>carried t v v'\<close>: a value \<open>v\<close> of a field of type \<open>t\<close> is one the wire can carry, and the
  receiver must see \<open>v'\<close>: the same value, or for an object the object of the D-Bus class with
  the exported fields.\<close>

inductive carried :: "ntype \<Rightarrow> pyval \<Rightarrow> pyval \<Rightarrow> bool" where
  null: "wire_type t = TStr \<or> wire_type t = TInt \<Longrightarrow> carried t PNone PNone"
| str: "s \<noteq> dbus_null \<Longrightarrow> carried TStr (PStr s) (PStr s)"
| int: "i \<noteq> -1 \<Longrightarrow> carried TInt (PInt i) (PInt i)"
| bool: "carried TBool (PBool b) (PBool b)"
| time: "sec \<noteq> -1 \<Longrightarrow> carried TDatetime (PTime (sec * 1000000)) (PTime (sec * 1000000))"
| path: "path_norm p = p \<Longrightarrow> p \<noteq> dbus_null \<Longrightarrow> carried TPath (PPath p) (PPath p)"
| liststr: "carried TListStr (PList vs) (PList vs)"
| exp: "\<lbrakk>dbus_type c = Inr d; type_fields d = Inr fs;
         list_all2 (\<lambda>f (n, b). n = f_name f
            \<and> (\<exists>a. map_of attrs n = Some a \<and> carried (f_type f) a b)) fs attrs'\<rbrakk>
        \<Longrightarrow> carried (TExp c) (PObj c' attrs) (PObj d attrs')"
| listexp: "list_all2 (carried (TExp c)) vs vs' \<Longrightarrow> carried (TListExp c) (PList vs) (PList vs')"

lemma reg_fields_member:
  "rmap snd (dict_item d n) = Inr fs \<Longrightarrow> \<exists>l. (n, l, fs) \<in> set d"
  by (auto simp: dict_item_def rmap_Inr_conv dest: map_of_SomeD split: option.splits)

lemma all_types_distinct:
  "list_all (\<lambda>(n, l, fs). distinct (map f_name fs)) (pr_types register_protocols)"
  by code_simp

lemma all_tasks_distinct:
  "list_all (\<lambda>(n, l, fs). distinct (map f_name fs) \<and> ExportableTaskField ''name'' TStr True False \<in> set fs)
     (pr_tasks register_protocols)"
  by code_simp

lemma type_fields_distinct: "type_fields d = Inr fs \<Longrightarrow> distinct (map f_name fs)"
  using all_types_distinct
  by (fastforce simp: type_fields_def rbind_Inr_conv reg_type_fields_def list_all_iff
      dest: reg_fields_member)

lemma task_fields_wf:
  "task_fields register_protocols n = Inr fs \<Longrightarrow>
     distinct (map f_name fs) \<and> ExportableTaskField ''name'' TStr True False \<in> set fs"
  using all_tasks_distinct
  by (fastforce simp: task_fields_def list_all_iff dest: reg_fields_member)

text \<open>Sending field after field and reading the fields back by name, for any pair of conversions
  of one field: \<open>send\<close> and \<open>recv\<close>.\<close>

definition send_fields ::
  "(ntype \<Rightarrow> pyval \<Rightarrow> pyval res) \<Rightarrow> (string \<times> pyval) list \<Rightarrow> field list \<Rightarrow> (string \<times> pyval) list res" where
  "send_fields send attrs fs = rmapM (\<lambda>f. case map_of attrs (f_name f) of None \<Rightarrow> Inl AttributeErr
     | Some a \<Rightarrow> rmap (Pair (f_name f)) (send (f_type f) a)) fs"

definition recv_fields ::
  "(ntype \<Rightarrow> pyval \<Rightarrow> pyval res) \<Rightarrow> (string \<times> pyval) list \<Rightarrow> field list \<Rightarrow> (string \<times> pyval) list res" where
  "recv_fields recv st fs = rmapM (\<lambda>f. case map_of st (f_name f) of None \<Rightarrow> Inl KeyErr
     | Some a \<Rightarrow> rmap (Pair (f_name f)) (recv (f_type f) a)) fs"

definition field_carried ::
  "(ntype \<Rightarrow> pyval \<Rightarrow> pyval res) \<Rightarrow> (ntype \<Rightarrow> pyval \<Rightarrow> pyval res) \<Rightarrow> (string \<times> pyval) list
     \<Rightarrow> field \<Rightarrow> string \<times> pyval \<Rightarrow> bool" where
  "field_carried send recv attrs f nb \<longleftrightarrow> fst nb = f_name f \<and>
     (\<exists>a w. map_of attrs (f_name f) = Some a \<and> send (f_type f) a = Inr w \<and> recv (f_type f) w = Inr (snd nb))"

lemma recv_fields_skip:
  "(n, w) # st = st' \<Longrightarrow> n \<notin> f_name ` set fs \<Longrightarrow> recv_fields recv st' fs = recv_fields recv st fs"
  unfolding recv_fields_def by (rule rmapM_cong) auto

lemma fields_roundtrip:
  assumes "list_all2 (field_carried send recv attrs) fs attrs'" and "distinct (map f_name fs)"
  shows "\<exists>ws. send_fields send attrs fs = Inr ws \<and> recv_fields recv ws fs = Inr attrs'"
  using assms
proof (induction fs arbitrary: attrs')
  case (Cons f fs)
  then obtain nb attrs0 where nb: "attrs' = nb # attrs0" "field_carried send recv attrs f nb"
    and tl: "list_all2 (field_carried send recv attrs) fs attrs0"
    by (auto simp: list_all2_Cons1)
  from nb obtain b where attrs': "attrs' = (f_name f, b) # attrs0"
    by (cases nb) (auto simp: field_carried_def)
  from Cons.prems(1) attrs' obtain a w where a: "map_of attrs (f_name f) = Some a"
    and w: "send (f_type f) a = Inr w" "recv (f_type f) w = Inr b"
    by (auto simp: field_carried_def)
  from Cons.IH [OF tl] Cons.prems(2) obtain ws where
    ws: "send_fields send attrs fs = Inr ws" "recv_fields recv ws fs = Inr attrs0" by auto
  have "recv_fields recv ((f_name f, w) # ws) fs = Inr attrs0"
    using recv_fields_skip [of "f_name f" w ws _ fs recv] Cons.prems(2) ws(2) by auto
  with ws(1) show ?case
    by (intro exI [of _ "(f_name f, w) # ws"]) (simp add: send_fields_def recv_fields_def a w attrs')
qed (simp add: send_fields_def recv_fields_def)

lemma send_fields_map_of:
  assumes "send_fields send attrs fs = Inr ws" and "distinct (map f_name fs)" and "f \<in> set fs"
  shows "\<exists>a w. map_of attrs (f_name f) = Some a \<and> send (f_type f) a = Inr w \<and> map_of ws (f_name f) = Some w"
  using assms
proof (induction fs arbitrary: ws)
  case (Cons g fs)
  then show ?case
    by (cases "f = g")
      (auto simp: send_fields_def rbind_Inr_conv rmap_Inr_conv rev_image_eqI split: option.splits)
qed simp

lemma us_seconds_whole [simp]: "us_seconds (sec * 1000000) = sec"
proof -
  have "- (sec * 1000000) = (- sec) * 1000000" by simp
  then have "- (sec * 1000000) div 1000000 = - sec"
    by (metis nonzero_mult_div_cancel_right zero_neq_numeral)
  then show ?thesis by (simp add: us_seconds_def)
qed

lemma list_roundtrip:
  "list_all2 (\<lambda>v v'. \<exists>w. f v = Inr w \<and> g w = Inr v') vs vs' \<Longrightarrow>
     \<exists>ws. rmapM f vs = Inr ws \<and> rmapM g ws = Inr vs'"
  by (induction vs vs' rule: list_all2_induct) auto

lemma wire_roundtrip: "carried t v v' \<Longrightarrow> \<exists>w. to_wire t v = Inr w \<and> from_wire t w = Inr v'"
proof (induction rule: carried.induct)
  case (exp c d fs attrs attrs' c')
  have "list_all2 (field_carried to_wire from_wire attrs) fs attrs'"
    using exp(3) by (rule list_all2_mono) (auto simp: field_carried_def)
  from fields_roundtrip [OF this type_fields_distinct [OF exp(2)]]
  obtain ws where "send_fields to_wire attrs fs = Inr ws" "recv_fields from_wire ws fs = Inr attrs'" by blast
  then show ?case
    by (simp add: to_wire.simps [of "TExp c"] from_wire.simps [of "TExp c"] wire_type_def exp(1,2)
        send_fields_def recv_fields_def)
next
  case (listexp c vs vs')
  from listexp have "list_all2 (\<lambda>v v'. \<exists>w. to_wire (TExp c) v = Inr w \<and> from_wire (TExp c) w = Inr v') vs vs'"
    by (auto elim!: list_all2_mono)
  from list_roundtrip [OF this] obtain ws
    where "rmapM (to_wire (TExp c)) vs = Inr ws" "rmapM (from_wire (TExp c)) ws = Inr vs'" by blast
  then show ?case
    by (simp add: to_wire.simps [of "TListExp c"] from_wire.simps [of "TListExp c"] wire_type_def)
qed (auto simp: to_wire.simps from_wire.simps wire_type_def variant_def field_export.simps
    field_native_value_def native_convert_def dbus_null_def split: ntype.splits)

section \<open>Tasks over the bus\<close>

lemma fields_from_structure_recv:
  "fields_from_structure fs (PDict st) = recv_fields from_wire st fs"
  unfolding fields_from_structure_def recv_fields_def
  by (rule rmapM_cong) (auto simp: struct_item_def dict_item_def split: option.splits)

lemma fields_to_structure_send:
  "fields_to_structure fs attrs = rmap PDict (send_fields to_wire attrs fs)"
  unfolding fields_to_structure_def send_fields_def
  by (rule arg_cong [where f = "rmap PDict"], rule rmapM_cong) (auto simp: getattr_def split: option.splits)

lemma dbus_task_trip:
  assumes "map_of attrs ''name'' = Some (PStr name)"
    and "task_fields register_protocols name = Inr fs"
    and "list_all2 (\<lambda>f (n, b). n = f_name f
           \<and> (\<exists>a. map_of attrs n = Some a \<and> carried (f_type f) a b)) fs attrs'"
  shows "\<exists>st. task_to_structure attrs = Inr st \<and> task_from_structure st = Inr attrs'"
proof -
  have "list_all2 (field_carried to_wire from_wire attrs) fs attrs'"
    using assms(3) by (rule list_all2_mono) (auto simp: field_carried_def dest: wire_roundtrip)
  from fields_roundtrip [OF this] task_fields_wf [OF assms(2)] obtain ws where
    ws: "send_fields to_wire attrs fs = Inr ws" "recv_fields from_wire ws fs = Inr attrs'" by blast
  have "map_of ws ''name'' = Some (PStr name)"
    using send_fields_map_of [OF ws(1), of "ExportableTaskField ''name'' TStr True False"]
      task_fields_wf [OF assms(2)] assms(1)
    by (auto simp: ExportableTaskField_def to_wire.simps wire_type_def field_export.simps variant_def)
  then show ?thesis
    using assms(1,2) ws
    by (simp add: task_to_structure_def task_from_structure_def getattr_def str_of_def
        fields_to_structure_send fields_from_structure_recv
        struct_item_def [of _ "''name''"] dict_item_def)
qed


definition example_task :: "(string \<times> pyval) list" where
  "example_task =
     [(''id'', PStr ''t1''), (''user'', PNone), (''name'', PStr ''artifact deletion''),
      (''submission'', PTime 1000000), (''place'', PPath ''/w/t1''), (''state'', PStr ''pending''),
      (''result'', PStr ''unknown''),
      (''io'', PObj ''TaskIO'' [(''interactive'', PBool False), (''console'', PPath ''/w/t1/console.sock''),
                               (''journal'', PObj ''TaskJournal'' [(''path'', PPath ''/w/t1/task.journal'')])]),
      (''format'', PStr ''deb''), (''distribution'', PStr ''sid''), (''derivative'', PStr ''main''),
      (''artifact'', PObj ''RegistryArtifact'' [(''name'', PStr ''foo''), (''architecture'', PStr ''src''),
                                             (''version'', PStr ''1-1''), (''size'', PInt 7)])]"

definition example_received :: "(string \<times> pyval) list" where
  "example_received =
     [(''id'', PStr ''t1''), (''user'', PNone), (''name'', PStr ''artifact deletion''),
      (''submission'', PTime 1000000), (''place'', PPath ''/w/t1''), (''state'', PStr ''pending''),
      (''result'', PStr ''unknown''),
      (''io'', PObj ''DBusTaskIO'' [(''interactive'', PBool False), (''console'', PPath ''/w/t1/console.sock''),
                               (''journal'', PObj ''DBusTaskJournal'' [(''path'', PPath ''/w/t1/task.journal'')])]),
      (''format'', PStr ''deb''), (''distribution'', PStr ''sid''), (''derivative'', PStr ''main''),
      (''artifact'', PObj ''DBusArtifact'' [(''name'', PStr ''foo''), (''architecture'', PStr ''src''),
                                             (''version'', PStr ''1-1''), (''size'', PInt 7)])]"

lemma example_classes:
  "dbus_type ''TaskIO'' = Inr ''DBusTaskIO''" "dbus_type ''TaskJournal'' = Inr ''DBusTaskJournal''"
  "dbus_type ''RegistryArtifact'' = Inr ''DBusArtifact''"
  "type_fields ''DBusTaskIO'' = Inr [ExportableField ''interactive'' TBool, ExportableField ''console'' TPath,
         ExportableField ''journal'' (TExp ''TaskJournal'')]"
  "type_fields ''DBusTaskJournal'' = Inr [ExportableField ''path'' TPath]"
  "type_fields ''DBusArtifact'' = Inr [ExportableField ''name'' TStr, ExportableField ''architecture'' TStr,
         ExportableField ''version'' TStr, ExportableField ''size'' TInt]"
  "task_fields register_protocols ''artifact deletion'' = Inr (BASEFIELDS @ deletion_exfields)"
  by code_simp+

lemma example_paths:
  "path_norm ''/w/t1'' = ''/w/t1''" "path_norm ''/w/t1/console.sock'' = ''/w/t1/console.sock''"
  "path_norm ''/w/t1/task.journal'' = ''/w/t1/task.journal''"
  by code_simp+


section \<open>JSON\<close>

text \<open>One field of \<^verbatim>\<open>JsonData.export\<close>: an object of a D-Bus class is exported through its JSON
  class, a list of exportable objects element by element, anything else by the field.\<close>

function json_export :: "ntype \<Rightarrow> pyval \<Rightarrow> pyval res" where
  "json_export t v =
     (case v of
        PObj d attrs \<Rightarrow>
          rbind (dbus_json_type d) (\<lambda>j. rbind (json_type_fields j) (\<lambda>fs.
            rmap PDict (rmapM (\<lambda>f. case map_of attrs (f_name f) of
                None \<Rightarrow> Inl AttributeErr
              | Some a \<Rightarrow> rmap (Pair (f_name f)) (json_export (f_type f) a)) fs)))
      | _ \<Rightarrow>
          (case wire_type t of
             TListExp c \<Rightarrow>
               (case v of
                  PList vs \<Rightarrow> rmap PList (rmapM (\<lambda>x. case x of
                       PObj d attrs \<Rightarrow> json_export (TExp c) x | _ \<Rightarrow> Inl RuntimeErr) vs)
                | _ \<Rightarrow> Inl TypeErr)
           | _ \<Rightarrow> field_export registered_classes t v))"
  by pat_completeness auto
termination
by (relation "measure (\<lambda>(t, v). size v)")
    (auto dest: size_map_of size_pyval_list)

declare json_export.simps [simp del]

text \<open>The constructors that \<^verbatim>\<open>field.native\<close> may call on a list of exportable objects: the only
  exported list is that of source archives, whose constructor keeps the two values it is given.\<close>

definition list_ctor :: "string \<Rightarrow> (string \<times> pyval) list \<Rightarrow> pyval res" where
  "list_ctor c d =
     (if c = ''ArtifactSourceArchive'' \<and> map fst d = [''id'', ''path''] then Inr (PObj c d) else Inl TypeErr)"

text \<open>One field of \<^verbatim>\<open>load_from_json\<close>.\<close>

function json_load :: "ntype \<Rightarrow> pyval \<Rightarrow> pyval res" where
  "json_load t w =
     (case wire_type t of
        TExp c \<Rightarrow>
          rbind (native_json_type c) (\<lambda>j. rbind (json_type_fields j) (\<lambda>fs.
            (case w of
               PDict st \<Rightarrow>
                 rmap (PObj j) (rmapM (\<lambda>f. case map_of st (f_name f) of
                    None \<Rightarrow> Inl KeyErr
                  | Some a \<Rightarrow> rmap (Pair (f_name f)) (json_load (f_type f) a)) fs)
             | _ \<Rightarrow> Inl TypeErr)))
      | _ \<Rightarrow> field_native_value list_ctor t w)"
  by pat_completeness auto
termination
proof (relation "measure (\<lambda>(t, v). size v)", goal_cases)
  case 1
  then show ?case by simp
next
  case (2 t w c j fs st f a)
  then show ?case
    using size_map_of [of st "f_name f" a] by simp
qed

declare json_load.simps [simp del]

definition json_export_fields :: "field list \<Rightarrow> (string \<times> pyval) list \<Rightarrow> pyval res" where
  "json_export_fields fs attrs = rmap PDict (send_fields json_export attrs fs)"

definition json_load_fields :: "field list \<Rightarrow> (string \<times> pyval) list \<Rightarrow> (string \<times> pyval) list res" where
  "json_load_fields fs st = recv_fields json_load st fs"

definition task_to_json :: "(string \<times> pyval) list \<Rightarrow> pyval res" where
  "task_to_json attrs =
     rbind (rbind (getattr attrs ''name'') str_of) (\<lambda>name.
     rbind (task_fields register_protocols name) (\<lambda>fs. json_export_fields fs attrs))"

definition task_from_json :: "pyval \<Rightarrow> (string \<times> pyval) list res" where
  "task_from_json s =
     rbind (rbind (struct_item s ''name'') str_of) (\<lambda>name.
     rbind (task_fields register_protocols name) (\<lambda>fs.
       case s of PDict st \<Rightarrow> json_load_fields fs st | _ \<Rightarrow> Inl TypeErr))"

text \<open>What the HTTP client sees of a value the HTTP server received over D-Bus. JSON carries every
  number and string; no null is carried, and the path of an archive in a list stays a string.\<close>

inductive json_carried :: "ntype \<Rightarrow> pyval \<Rightarrow> pyval \<Rightarrow> bool" where
  str: "json_carried TStr (PStr s) (PStr s)"
| int: "json_carried TInt (PInt i) (PInt i)"
| bool: "json_carried TBool (PBool b) (PBool b)"
| time: "json_carried TDatetime (PTime (sec * 1000000)) (PTime (sec * 1000000))"
| path: "path_norm p = p \<Longrightarrow> json_carried TPath (PPath p) (PPath p)"
| liststr: "json_carried TListStr (PList vs) (PList vs)"
| exp: "\<lbrakk>dbus_type c = Inr d; dbus_json_type d = Inr j; native_json_type c = Inr j; json_type_fields j = Inr fs;
         list_all2 (\<lambda>f (n, b). n = f_name f
            \<and> (\<exists>a. map_of attrs n = Some a \<and> json_carried (f_type f) a b)) fs attrs'\<rbrakk>
        \<Longrightarrow> json_carried (TExp c) (PObj d attrs) (PObj j attrs')"
| archives: "vs = map (\<lambda>(i, p). PObj ''DBusSourceArchive'' [(''id'', PStr i), (''path'', PPath p)]) ips \<Longrightarrow>
        json_carried (TListExp ''ArtifactSourceArchive'') (PList vs)
          (PList (map (\<lambda>(i, p). PObj ''ArtifactSourceArchive'' [(''id'', PStr i), (''path'', PStr p)]) ips))"

lemma json_type_fields_distinct: "json_type_fields j = Inr fs \<Longrightarrow> distinct (map f_name fs)"
  using all_types_distinct
  by (fastforce simp: json_type_fields_def reg_type_fields_def list_all_iff
      dest: reg_fields_member split: option.splits)

lemma archive_classes:
  "dbus_json_type ''DBusSourceArchive'' = Inr ''JsonSourceArchive''"
  "json_type_fields ''JsonSourceArchive'' = Inr [ExportableField ''id'' TStr, ExportableField ''path'' TPath]"
  by code_simp+

lemma json_archive_export:
  "json_export t (PObj ''DBusSourceArchive'' [(''id'', PStr i), (''path'', PPath p)])
     = Inr (PDict [(''id'', PStr i), (''path'', PStr p)])"
  by (simp add: json_export.simps archive_classes ExportableField_def field_export.simps wire_type_def)

lemma json_roundtrip: "json_carried t v v' \<Longrightarrow> \<exists>w. json_export t v = Inr w \<and> json_load t w = Inr v'"
proof (induction rule: json_carried.induct)
  case (exp c d j fs attrs attrs')
  have "list_all2 (field_carried json_export json_load attrs) fs attrs'"
    using exp(5) by (rule list_all2_mono) (auto simp: field_carried_def)
  from fields_roundtrip [OF this json_type_fields_distinct [OF exp(4)]]
  obtain ws where "send_fields json_export attrs fs = Inr ws" "recv_fields json_load ws fs = Inr attrs'" by blast
  then show ?case
    by (simp add: json_export.simps [of "TExp c"] json_load.simps [of "TExp c"] wire_type_def exp(2-4)
        send_fields_def recv_fields_def)
next
  case (archives vs ips)
  let ?ws = "map (\<lambda>(i, p). PDict [(''id'', PStr i), (''path'', PStr p)]) ips"
  have "rmapM (\<lambda>x. case x of PObj d attrs \<Rightarrow> json_export (TExp ''ArtifactSourceArchive'') x
      | _ \<Rightarrow> Inl RuntimeErr) vs = Inr ?ws"
    unfolding archives by (induction ips) (auto simp: json_archive_export)
  then have "json_export (TListExp ''ArtifactSourceArchive'') (PList vs) = Inr (PList ?ws)"
    by (simp add: json_export.simps [of "TListExp c" for c] wire_type_def)
  moreover have "rmapM (ctor_call list_ctor ''ArtifactSourceArchive'') ?ws = Inr (map (\<lambda>(i, p).
      PObj ''ArtifactSourceArchive'' [(''id'', PStr i), (''path'', PStr p)]) ips)"
    by (induction ips) (auto simp: ctor_call_def list_ctor_def)
  then have "json_load (TListExp ''ArtifactSourceArchive'') (PList ?ws) = Inr (PList
      (map (\<lambda>(i, p). PObj ''ArtifactSourceArchive'' [(''id'', PStr i), (''path'', PStr p)]) ips))"
    by (simp add: json_load.simps wire_type_def field_native_value_def native_convert_def)
  ultimately show ?case by blast
qed (auto simp: json_export.simps json_load.simps wire_type_def field_export.simps
    field_native_value_def native_convert_def)

lemma json_task_trip:
  assumes "map_of attrs ''name'' = Some (PStr name)"
    and "task_fields register_protocols name = Inr fs"
    and "list_all2 (\<lambda>f (n, b). n = f_name f
           \<and> (\<exists>a. map_of attrs n = Some a \<and> json_carried (f_type f) a b)) fs attrs'"
  shows "\<exists>v. task_to_json attrs = Inr v \<and> task_from_json v = Inr attrs'"
proof -
  have "list_all2 (field_carried json_export json_load attrs) fs attrs'"
    using assms(3) by (rule list_all2_mono) (auto simp: field_carried_def dest: json_roundtrip)
  from fields_roundtrip [OF this] task_fields_wf [OF assms(2)] obtain ws where
    ws: "send_fields json_export attrs fs = Inr ws" "recv_fields json_load ws fs = Inr attrs'" by blast
  have "map_of ws ''name'' = Some (PStr name)"
    using send_fields_map_of [OF ws(1), of "ExportableTaskField ''name'' TStr True False"]
      task_fields_wf [OF assms(2)] assms(1)
    by (auto simp: ExportableTaskField_def json_export.simps wire_type_def field_export.simps)
  then show ?thesis
    using assms(1,2) ws
    by (simp add: task_to_json_def task_from_json_def getattr_def str_of_def
        json_export_fields_def json_load_fields_def struct_item_def [of _ "''name''"] dict_item_def)
qed

text \<open>A task the HTTP server serves as JSON loads in the HTTP client with the same fields,
  for every kind of task the registry knows, when none of its fields is null.\<close>

theorem json_task_roundtrip:
  assumes "map_of attrs ''name'' = Some (PStr name)"
    and "task_fields register_protocols name = Inr fs"
    and "list_all2 (\<lambda>f (n, b). n = f_name f
           \<and> (\<exists>a. map_of attrs n = Some a \<and> json_carried (f_type f) a b)) fs attrs'"
  shows "rbind (task_to_json attrs) task_from_json = Inr attrs'"
  using json_task_trip [OF assms] by (elim exE conjE) simp

theorem json_task_roundtrip_witness:
  "rbind (task_to_json
     [(''id'', PStr ''t1''), (''user'', PStr ''u''), (''name'', PStr ''history purge''),
      (''submission'', PTime 1000000), (''place'', PPath ''/w/t1''), (''state'', PStr ''pending''),
      (''result'', PStr ''unknown''),
      (''io'', PObj ''DBusTaskIO'' [(''interactive'', PBool False), (''console'', PPath ''/w/t1''),
         (''journal'', PObj ''DBusTaskJournal'' [(''path'', PPath ''/w/t1'')])])]) task_from_json
   = Inr [(''id'', PStr ''t1''), (''user'', PStr ''u''), (''name'', PStr ''history purge''),
      (''submission'', PTime 1000000), (''place'', PPath ''/w/t1''), (''state'', PStr ''pending''),
      (''result'', PStr ''unknown''),
      (''io'', PObj ''JsonTaskIO'' [(''interactive'', PBool False), (''console'', PPath ''/w/t1''),
         (''journal'', PObj ''JsonTaskJournal'' [(''path'', PPath ''/w/t1'')])])]"
proof -
  have c: "dbus_json_type ''DBusTaskIO'' = Inr ''JsonTaskIO''" "native_json_type ''TaskIO'' = Inr ''JsonTaskIO''"
    "dbus_json_type ''DBusTaskJournal'' = Inr ''JsonTaskJournal''" "native_json_type ''TaskJournal'' = Inr ''JsonTaskJournal''"
    "json_type_fields ''JsonTaskIO'' = Inr [ExportableField ''interactive'' TBool, ExportableField ''console'' TPath,
         ExportableField ''journal'' (TExp ''TaskJournal'')]"
    "json_type_fields ''JsonTaskJournal'' = Inr [ExportableField ''path'' TPath]"
    by code_simp+
  have journal: "json_carried (TExp ''TaskJournal'') (PObj ''DBusTaskJournal'' [(''path'', PPath ''/w/t1'')])
      (PObj ''JsonTaskJournal'' [(''path'', PPath ''/w/t1'')])"
    by (rule json_carried.exp [OF example_classes(2) c(3,4,6)])
      (auto simp: ExportableField_def example_paths intro!: json_carried.path)
  have io: "json_carried (TExp ''TaskIO'') (PObj ''DBusTaskIO'' [(''interactive'', PBool False),
         (''console'', PPath ''/w/t1''), (''journal'', PObj ''DBusTaskJournal'' [(''path'', PPath ''/w/t1'')])])
      (PObj ''JsonTaskIO'' [(''interactive'', PBool False), (''console'', PPath ''/w/t1''),
         (''journal'', PObj ''JsonTaskJournal'' [(''path'', PPath ''/w/t1'')])])"
    by (rule json_carried.exp [OF example_classes(1) c(1,2,5)])
      (auto simp: ExportableField_def example_paths intro!: json_carried.path json_carried.bool journal)
  have f: "task_fields register_protocols ''history purge'' = Inr BASEFIELDS" by code_simp
  show ?thesis
    by (rule json_task_roundtrip [OF _ f])
      (use json_carried.time [of 1] in \<open>simp_all add: BASEFIELDS_def ExportableTaskField_def io json_carried.str
         json_carried.path example_paths\<close>)
qed

definition dbus_artifact :: "string \<Rightarrow> string \<Rightarrow> string \<Rightarrow> int \<Rightarrow> pyval" where
  "dbus_artifact n a v sz =
     PObj ''RegistryArtifact'' [(''name'', PStr n), (''architecture'', PStr a), (''version'', PStr v), (''size'', PInt sz)]"

text \<open>An artifact whose size was unknown (\<open>-1\<close>, the default of \<^verbatim>\<open>RegistryArtifact\<close>) comes out
  of D-Bus with a null size, is served as JSON with a null, and the HTTP client raises
  \<^verbatim>\<open>AssertionError\<close> when it loads it.\<close>

theorem json_unknown_size_rejected:
  assumes "dbus_null \<notin> {n, a, v}"
  shows "rbind (rbind (rbind (to_wire (TExp ''RegistryArtifact'') (dbus_artifact n a v (-1)))
       (from_wire (TExp ''RegistryArtifact''))) (json_export (TExp ''RegistryArtifact'')))
       (json_load (TExp ''RegistryArtifact'')) = Inl AssertionErr"
proof -
  have c: "dbus_json_type ''DBusArtifact'' = Inr ''JsonArtifact''" "native_json_type ''RegistryArtifact'' = Inr ''JsonArtifact''"
    "json_type_fields ''JsonArtifact'' = Inr [ExportableField ''name'' TStr, ExportableField ''architecture'' TStr,
         ExportableField ''version'' TStr, ExportableField ''size'' TInt]"
    by code_simp+
  show ?thesis using assms
    by (simp add: dbus_artifact_def to_wire.simps from_wire.simps json_export.simps json_load.simps
        example_classes c wire_type_def variant_def field_export.simps field_native_value_def
        native_convert_def ExportableField_def)
qed

text \<open>An artifact whose size was unknown (\<open>-1\<close>, the default of \<^verbatim>\<open>RegistryArtifact\<close>) comes out
  of D-Bus with a null size, is served as JSON with a null, and the HTTP client raises
  \<^verbatim>\<open>AssertionError\<close> when it loads it.\<close>

theorem json_unknown_size_rejected_witness:
  "rbind (rbind (rbind (to_wire (TExp ''RegistryArtifact'') (dbus_artifact ''foo'' ''src'' ''1-1'' (-1)))
       (from_wire (TExp ''RegistryArtifact''))) (json_export (TExp ''RegistryArtifact'')))
       (json_load (TExp ''RegistryArtifact'')) = Inl AssertionErr"
  by (rule json_unknown_size_rejected) (simp add: dbus_null_def)

end
