(* ===== verification/FileSys.thy ===== *)
theory FileSys imports PyStr begin

text \<open>
  The part of a file system the code touches, as \<^verbatim>\<open>pathlib\<close>, \<^verbatim>\<open>os\<close> and \<^verbatim>\<open>shutil\<close> offer
  it: a tree of directories and regular files, addressed by the list of its path
  components. A path's operations return the new tree or the exception the library
  raises. Symbolic links, permissions and concurrent changes by other processes are not
  modelled. The laws that the clients use are the locale \<open>file_store\<close>, interpreted
  on the tree at the end.
\<close>

datatype node = File string | Dir "(string \<times> node) list"

type_synonym path = "string list"

section \<open>Access\<close>

fun lookup :: "path \<Rightarrow> node \<Rightarrow> node option" where
  "lookup [] n = Some n"
| "lookup (x # xs) (File c) = None"
| "lookup (x # xs) (Dir es) = (case map_of es x of None \<Rightarrow> None | Some m \<Rightarrow> lookup xs m)"

text \<open>Replace or create the entry at a path whose parent is a directory.\<close>

fun put :: "path \<Rightarrow> node \<Rightarrow> node \<Rightarrow> node res" where
  "put [] m n = Inr m"
| "put (x # xs) m (File c) = Inl OSErr"
| "put [x] m (Dir es) = Inr (Dir (dict_set es x m))"
| "put (x # y # ys) m (Dir es) =
     (case map_of es x of
        None \<Rightarrow> Inl FileNotFoundErr
      | Some k \<Rightarrow> rmap (\<lambda>k'. Dir (dict_set es x k')) (put (y # ys) m k))"

text \<open>Remove the entry at a path.\<close>

fun del :: "path \<Rightarrow> node \<Rightarrow> node res" where
  "del [] n = Inl OSErr"
| "del (x # xs) (File c) = Inl OSErr"
| "del [x] (Dir es) =
     (if dict_has es x then Inr (Dir (filter (\<lambda>e. fst e \<noteq> x) es)) else Inl FileNotFoundErr)"
| "del (x # y # ys) (Dir es) =
     (case map_of es x of
        None \<Rightarrow> Inl FileNotFoundErr
      | Some k \<Rightarrow> rmap (\<lambda>k'. Dir (dict_set es x k')) (del (y # ys) k))"

definition fs_exists :: "node \<Rightarrow> path \<Rightarrow> bool" where
  "fs_exists n p \<longleftrightarrow> lookup p n \<noteq> None"

definition fs_is_dir :: "node \<Rightarrow> path \<Rightarrow> bool" where
  "fs_is_dir n p = (case lookup p n of Some (Dir _) \<Rightarrow> True | _ \<Rightarrow> False)"

definition fs_is_file :: "node \<Rightarrow> path \<Rightarrow> bool" where
  "fs_is_file n p = (case lookup p n of Some (File _) \<Rightarrow> True | _ \<Rightarrow> False)"

text \<open>\<^verbatim>\<open>p.iterdir()\<close>: the names in the order in which the directory lists them.\<close>

definition fs_iterdir :: "node \<Rightarrow> path \<Rightarrow> string list res" where
  "fs_iterdir n p =
     (case lookup p n of
        None \<Rightarrow> Inl FileNotFoundErr
      | Some (File _) \<Rightarrow> Inl OSErr
      | Some (Dir es) \<Rightarrow> Inr (map fst es))"

definition fs_read :: "node \<Rightarrow> path \<Rightarrow> string res" where
  "fs_read n p =
     (case lookup p n of
        None \<Rightarrow> Inl FileNotFoundErr
      | Some (File c) \<Rightarrow> Inr c
      | Some (Dir _) \<Rightarrow> Inl OSErr)"

text \<open>\<^verbatim>\<open>open(p, 'w')\<close> and the write that follows.\<close>

definition fs_write :: "path \<Rightarrow> string \<Rightarrow> node \<Rightarrow> node res" where
  "fs_write p c n = (if fs_is_dir n p then Inl OSErr else put p (File c) n)"

definition fs_mkdir :: "path \<Rightarrow> node \<Rightarrow> node res" where
  "fs_mkdir p n = (if fs_exists n p then Inl FileExistsErr else put p (Dir []) n)"

definition fs_unlink :: "path \<Rightarrow> node \<Rightarrow> node res" where
  "fs_unlink p n = (if fs_is_dir n p then Inl OSErr else del p n)"

text \<open>\<^verbatim>\<open>shutil.rmtree(p)\<close>.\<close>

definition fs_rmtree :: "path \<Rightarrow> node \<Rightarrow> node res" where
  "fs_rmtree p n = (if fs_is_file n p then Inl OSErr else del p n)"

section \<open>Laws of the tree\<close>

text \<open>Two paths neither of which leads through the other.\<close>

definition apart :: "path \<Rightarrow> path \<Rightarrow> bool" where
  "apart p q \<longleftrightarrow> \<not> prefix p q \<and> \<not> prefix q p"

lemma map_of_dict_set: "map_of (dict_set d k v) k' = (if k' = k then Some v else map_of d k')"
  using dict_get_set [of d k v k'] by (simp add: dict_get_def)

lemma map_of_filter_ne: "map_of (filter (\<lambda>e. fst e \<noteq> x) es) y = (if y = x then None else map_of es y)"
  by (induction es) auto

lemma lookup_put_same: "put p m n = Inr n' \<Longrightarrow> lookup p n' = Some m"
  by (induction p m n arbitrary: n' rule: put.induct)
    (auto simp: map_of_dict_set rmap_Inr_conv split: option.splits)

lemma lookup_put_apart: "put p m n = Inr n' \<Longrightarrow> apart p q \<Longrightarrow> lookup q n' = lookup q n"
proof (induction p m n arbitrary: n' q rule: put.induct)
  case (3 x m es)
  then show ?case by (cases q) (auto simp: map_of_dict_set apart_def)
next
  case (4 x y ys m es)
  then show ?case
    by (cases q) (auto simp: map_of_dict_set rmap_Inr_conv apart_def split: option.splits)
qed (auto simp: apart_def)

lemma lookup_del_same: "del p n = Inr n' \<Longrightarrow> lookup p n' = None"
  by (induction p n arbitrary: n' rule: del.induct)
    (auto simp: map_of_dict_set map_of_filter_ne rmap_Inr_conv split: option.splits if_splits)

lemma lookup_del_apart: "del p n = Inr n' \<Longrightarrow> apart p q \<Longrightarrow> lookup q n' = lookup q n"
proof (induction p n arbitrary: n' q rule: del.induct)
  case (3 x es)
  then show ?case by (cases q) (auto simp: map_of_filter_ne apart_def split: if_splits)
next
  case (4 x y ys es)
  then show ?case
    by (cases q) (auto simp: map_of_dict_set rmap_Inr_conv apart_def split: option.splits)
qed (auto simp: apart_def)

text \<open>An entry that exists can be removed, unless it is the root.\<close>

lemma del_ok: "p \<noteq> [] \<Longrightarrow> lookup p n = Some m \<Longrightarrow> \<exists>n'. del p n = Inr n'"
  by (induction p n rule: del.induct)
    (auto simp: dict_has_def split: option.splits)

lemma del_missing: "del p n = Inr n' \<Longrightarrow> lookup p n \<noteq> None"
  by (induction p n arbitrary: n' rule: del.induct)
    (auto simp: dict_has_def rmap_Inr_conv split: option.splits if_splits)

lemma del_no_file: "lookup p n = None \<Longrightarrow> \<exists>e. del p n = Inl e \<and> is_a e OSErr"
  by (induction p n rule: del.induct)
    (auto simp: dict_has_def is_a_def split: option.splits)

lemma rmtree_Inr_del: "fs_rmtree p n = Inr n' \<Longrightarrow> del p n = Inr n'"
  by (simp add: fs_rmtree_def split: if_splits)

lemma unlink_Inr_del: "fs_unlink p n = Inr n' \<Longrightarrow> del p n = Inr n'"
  by (simp add: fs_unlink_def split: if_splits)

lemma write_Inr_put: "fs_write p c n = Inr n' \<Longrightarrow> put p (File c) n = Inr n'"
  by (simp add: fs_write_def split: if_splits)

lemma mkdir_Inr_put: "fs_mkdir p n = Inr n' \<Longrightarrow> put p (Dir []) n = Inr n'"
  by (simp add: fs_mkdir_def split: if_splits)

lemma apart_sym: "apart p q \<longleftrightarrow> apart q p"
  by (auto simp: apart_def)

lemma apart_append [simp]: "apart (p @ a) (p @ b) \<longleftrightarrow> apart a b"
  by (simp add: apart_def)

lemma apart_single [simp]: "apart [a] [b] \<longleftrightarrow> a \<noteq> b"
  by (auto simp: apart_def)

lemma apart_Cons_single [simp]: "apart (p @ [a]) (p @ [b]) \<longleftrightarrow> a \<noteq> b"
  by simp

lemma fs_is_dir_lookup: "fs_is_dir n p \<longleftrightarrow> (\<exists>es. lookup p n = Some (Dir es))"
  by (auto simp: fs_is_dir_def split: option.splits node.splits)

lemma rmtree_ok: "p \<noteq> [] \<Longrightarrow> fs_is_dir n p \<Longrightarrow> \<exists>n'. fs_rmtree p n = Inr n'"
  using del_ok by (fastforce simp: fs_is_dir_lookup fs_rmtree_def fs_is_file_def)

lemma lookup_append: "lookup (p @ q) n = (case lookup p n of None \<Rightarrow> None | Some m \<Rightarrow> lookup q m)"
  by (induction p n rule: lookup.induct) (auto split: option.splits)

text \<open>An entry of an existing directory can be written; the directory then shows it.\<close>

lemma put_child:
  "lookup p n = Some (Dir es) \<Longrightarrow> \<exists>n'. put (p @ [x]) m n = Inr n' \<and> lookup p n' = Some (Dir (dict_set es x m))"
proof (induction p n rule: lookup.induct)
  case (3 y ys ds)
  then obtain k where k: "map_of ds y = Some k" "lookup ys k = Some (Dir es)"
    by (auto split: option.splits)
  from 3(1) [OF k] obtain k' where k': "put (ys @ [x]) m k = Inr k'" "lookup ys k' = Some (Dir (dict_set es x m))"
    by blast
  obtain z zs where "ys @ [x] = z # zs" by (cases ys) auto
  with k k' show ?case by (auto simp: map_of_dict_set)
qed auto

lemma del_child:
  "lookup p n = Some (Dir es) \<Longrightarrow> dict_has es x \<Longrightarrow>
     \<exists>n'. del (p @ [x]) n = Inr n' \<and> lookup p n' = Some (Dir (filter (\<lambda>e. fst e \<noteq> x) es))"
proof (induction p n rule: lookup.induct)
  case (3 y ys ds)
  then obtain k where k: "map_of ds y = Some k" "lookup ys k = Some (Dir es)"
    by (auto split: option.splits)
  from 3(1) [OF k 3(3)] obtain k' where k': "del (ys @ [x]) k = Inr k'"
    "lookup ys k' = Some (Dir (filter (\<lambda>e. fst e \<noteq> x) es))" by blast
  obtain z zs where "ys @ [x] = z # zs" by (cases ys) auto
  with k k' show ?case by (auto simp: map_of_dict_set)
qed auto

lemma del_child_missing:
  "lookup p n = Some (Dir es) \<Longrightarrow> \<not> dict_has es x \<Longrightarrow> del (p @ [x]) n = Inl FileNotFoundErr"
proof (induction p n rule: lookup.induct)
  case (3 y ys ds)
  then obtain k where k: "map_of ds y = Some k" "lookup ys k = Some (Dir es)"
    by (auto split: option.splits)
  obtain z zs where "ys @ [x] = z # zs" by (cases ys) auto
  with 3(1) [OF k 3(3)] k show ?case by auto
qed auto

lemma lookup_child:
  "lookup p n = Some (Dir es) \<Longrightarrow> lookup (p @ [x]) n = map_of es x"
  by (auto simp: lookup_append split: option.splits)

section \<open>Interface\<close>

text \<open>What the clients rely on: an entry written or removed is what its own path shows
  afterwards, and every path apart from it shows what it showed before.\<close>

locale file_store =
  fixes look :: "path \<Rightarrow> 'n \<Rightarrow> 'e option"
    and store :: "path \<Rightarrow> 'e \<Rightarrow> 'n \<Rightarrow> 'n res"
    and drop_entry :: "path \<Rightarrow> 'n \<Rightarrow> 'n res"
  assumes store_same: "store p m n = Inr n' \<Longrightarrow> look p n' = Some m"
    and store_apart: "store p m n = Inr n' \<Longrightarrow> apart p q \<Longrightarrow> look q n' = look q n"
    and drop_same: "drop_entry p n = Inr n' \<Longrightarrow> look p n' = None"
    and drop_apart: "drop_entry p n = Inr n' \<Longrightarrow> apart p q \<Longrightarrow> look q n' = look q n"
    and drop_ok: "p \<noteq> [] \<Longrightarrow> look p n = Some m \<Longrightarrow> \<exists>n'. drop_entry p n = Inr n'"
begin

text \<open>Removing one after the other the entries of a list of paths.\<close>

lemma drop_all_apart:
  "rfold drop_entry ps n = Inr n' \<Longrightarrow> (\<And>p. p \<in> set ps \<Longrightarrow> apart p q) \<Longrightarrow> look q n' = look q n"
proof (induction ps arbitrary: n)
  case (Cons p ps)
  then obtain n1 where n1: "drop_entry p n = Inr n1" "rfold drop_entry ps n1 = Inr n'"
    by (auto simp: rbind_Inr_conv)
  have "look q n' = look q n1" using Cons n1(2) by simp
  also have "\<dots> = look q n" using drop_apart [OF n1(1)] Cons.prems(2) by simp
  finally show ?case .
qed simp

lemma drop_all_same:
  assumes "rfold drop_entry ps n = Inr n'" and "p \<in> set ps"
    and "\<And>p q. p \<in> set ps \<Longrightarrow> q \<in> set ps \<Longrightarrow> p = q \<or> apart p q" and "distinct ps"
  shows "look p n' = None"
  using assms
proof (induction ps arbitrary: n)
  case (Cons x xs)
  then obtain n1 where n1: "drop_entry x n = Inr n1" "rfold drop_entry xs n1 = Inr n'"
    by (auto simp: rbind_Inr_conv)
  show ?case
  proof (cases "p = x")
    case True
    have "apart q x" if "q \<in> set xs" for q
      using Cons.prems(3) [of q x] Cons.prems(4) that by auto
    with True drop_all_apart [OF n1(2)] drop_same [OF n1(1)] show ?thesis by simp
  next
    case False
    with Cons n1(2) show ?thesis by auto
  qed
qed simp

lemma drop_all_ok:
  assumes "\<And>p. p \<in> set ps \<Longrightarrow> p \<noteq> [] \<and> look p n \<noteq> None"
    and "\<And>p q. p \<in> set ps \<Longrightarrow> q \<in> set ps \<Longrightarrow> p = q \<or> apart p q" and "distinct ps"
  shows "\<exists>n'. rfold drop_entry ps n = Inr n'"
  using assms
proof (induction ps arbitrary: n)
  case (Cons x xs)
  then obtain n1 where n1: "drop_entry x n = Inr n1" using drop_ok by fastforce
  have "look p n1 \<noteq> None" if "p \<in> set xs" for p
  proof -
    have "apart x p" using Cons.prems(2) [of x p] Cons.prems(3) that by auto
    with drop_apart [OF n1] Cons.prems(1) that show ?thesis by simp
  qed
  with Cons.IH [of n1] Cons.prems show ?case by (auto simp: n1)
qed simp

end

interpretation tree: file_store lookup put del
  by unfold_locales (fact lookup_put_same lookup_put_apart lookup_del_same lookup_del_apart del_ok)+

end
