(* ===== verification/PurgePolicies.thy ===== *)
theory PurgePolicies imports FileSys PyRegex Exports begin

text \<open>
  The four purge policies of \<^verbatim>\<open>fatbuildr/history.py\<close>: their constructors, which parse the
  configured value, and their \<^verbatim>\<open>run\<close>, which removes workspaces from the file system while it
  walks the tasks from the most recent to the oldest. Times are microseconds since the epoch.
  The contract of a policy is the locale \<open>purge_policy\<close>: which tasks it removes, as a function
  of the tasks and of the sizes of their workspaces.
\<close>

section \<open>Tasks and removal\<close>

record archived_task =
  at_id :: string
  at_name :: string
  at_submission :: int
  at_place :: path
  at_histid :: string
  at_attrs :: "(string \<times> pyval) list"

record purge_state =
  ps_fs :: node
  ps_removed :: nat
  ps_retrieved :: nat

primrec node_size :: "node \<Rightarrow> nat" where
  "node_size (File c) = length c"
| "node_size (Dir es) = sum_list (map snd (map (map_prod id node_size) es))"

definition directory_size :: "node \<Rightarrow> path \<Rightarrow> nat res" where
  "directory_size fs p =
     (case lookup p fs of
        None \<Rightarrow> Inl FileNotFoundErr
      | Some (File _) \<Rightarrow> Inl OSErr
      | Some (Dir es) \<Rightarrow> Inr (node_size (Dir es)))"

definition purge_remove :: "archived_task \<Rightarrow> purge_state \<Rightarrow> purge_state res" where
  "purge_remove task st =
     rbind (directory_size (ps_fs st) (at_place task)) (\<lambda>sz.
     rbind (fs_rmtree (at_place task) (ps_fs st)) (\<lambda>fs.
     Inr \<lparr>ps_fs = fs, ps_removed = Suc (ps_removed st), ps_retrieved = ps_retrieved st + sz\<rparr>))"

section \<open>The policies\<close>

text \<open>\<^verbatim>\<open>older\<close>: a number and a unit; the limit is a date.\<close>

definition OLDER_REGEX :: regex where
  "OLDER_REGEX = RSeq (Grp ''1'' (Plus is_digit)) (Grp ''2'' (One rx_lower))"

definition HistoryPurgeOlder_init :: "int \<Rightarrow> string \<Rightarrow> int res" where
  "HistoryPurgeOlder_init now value =
     (case re_search OLDER_REGEX value of
        None \<Rightarrow> Inl FatbuildrSystemConfigurationError
      | Some g \<Rightarrow>
          (let quantity = int (digits_val (the (group g ''1'')));
               unit = the (group g ''2'')
           in rmap (\<lambda>multiplier. now - quantity * multiplier * 1000000)
                (if unit = ''h'' then Inr 3600
                 else if unit = ''d'' then Inr 86400
                 else if unit = ''m'' then Inr (86400 * 30)
                 else if unit = ''y'' then Inr (86400 * 365)
                 else Inl FatbuildrSystemConfigurationError)))"

fun older_run :: "int \<Rightarrow> archived_task list \<Rightarrow> purge_state \<Rightarrow> purge_state res" where
  "older_run value [] st = Inr st"
| "older_run value (task # tasks) st =
     (if at_submission task < value
      then rbind (purge_remove task st) (older_run value tasks)
      else older_run value tasks st)"

text \<open>\<^verbatim>\<open>last\<close> and \<^verbatim>\<open>each\<close>: a number of tasks.\<close>

definition HistoryPurgeLast_init :: "string \<Rightarrow> int res" where
  "HistoryPurgeLast_init value =
     rcatch (py_int value) (\<lambda>e. is_a e ValueErr) (\<lambda>_. Inl FatbuildrSystemConfigurationError)"

fun last_loop :: "int \<Rightarrow> int \<Rightarrow> archived_task list \<Rightarrow> purge_state \<Rightarrow> purge_state res" where
  "last_loop value kept [] st = Inr st"
| "last_loop value kept (task # tasks) st =
     (if kept < value then last_loop value (kept + 1) tasks st
      else rbind (purge_remove task st) (last_loop value kept tasks))"

definition last_run :: "int \<Rightarrow> archived_task list \<Rightarrow> purge_state \<Rightarrow> purge_state res" where
  "last_run value tasks st = last_loop value 0 tasks st"

definition HistoryPurgeEach_init :: "string \<Rightarrow> int res" where
  "HistoryPurgeEach_init value =
     rcatch (py_int value) (\<lambda>e. is_a e ValueErr) (\<lambda>_. Inl FatbuildrSystemConfigurationError)"

fun each_loop ::
  "int \<Rightarrow> (string, int) dict \<Rightarrow> archived_task list \<Rightarrow> purge_state \<Rightarrow> purge_state res" where
  "each_loop value counts [] st = Inr st"
| "each_loop value counts (task # tasks) st =
     (let n = (case dict_get counts (at_histid task) of None \<Rightarrow> 1 | Some n \<Rightarrow> n + 1);
          counts' = dict_set counts (at_histid task) n
      in if n > value then rbind (purge_remove task st) (each_loop value counts' tasks)
         else each_loop value counts' tasks st)"

definition each_run :: "int \<Rightarrow> archived_task list \<Rightarrow> purge_state \<Rightarrow> purge_state res" where
  "each_run value tasks st = each_loop value [] tasks st"

text \<open>\<^verbatim>\<open>size\<close>: a number of bytes. \<^verbatim>\<open>float(...)\<close> reads the digits, then one more character and
  digits, the unescaped dot of the expression: a decimal point, an exponent or a separator, else
  it is no number. The result is a fraction.\<close>

definition SIZE_REGEX :: regex where
  "SIZE_REGEX =
     RSeq (Grp ''1'' (RSeq (Plus is_digit) (Opt (Grp ''2'' (RSeq (One rx_dot) (Plus is_digit))))))
       (Grp ''3'' (RAlt (Lit ''TB'') (RAlt (Lit ''Tb'') (RAlt (Lit ''GB'') (RAlt (Lit ''Gb'')
          (RAlt (Lit ''MB'') (Lit ''Mb'')))))))"

definition float_of :: "string \<Rightarrow> (nat \<times> nat) res" where
  "float_of s =
     (let a = takeWhile is_digit s; r = dropWhile is_digit s
      in if r = [] then Inr (digits_val a, 1)
         else let c = hd r; b = tl r
              in if c = CHR ''.'' then Inr (digits_val a * 10 ^ length b + digits_val b, 10 ^ length b)
                 else if c = CHR ''e'' \<or> c = CHR ''E'' then Inr (digits_val a * 10 ^ digits_val b, 1)
                 else if c = CHR ''_'' then Inr (digits_val (a @ b), 1)
                 else Inl ValueErr)"

definition HistoryPurgeSize_init :: "string \<Rightarrow> nat res" where
  "HistoryPurgeSize_init value =
     (case re_search SIZE_REGEX value of
        None \<Rightarrow> Inl FatbuildrSystemConfigurationError
      | Some g \<Rightarrow>
          rbind (float_of (the (group g ''1''))) (\<lambda>(num, den).
            (let unit = the (group g ''3'')
             in rmap (\<lambda>multiplier. num * multiplier div den)
                  (if unit = ''Mb'' then Inr (10 ^ 6 div 8)
                   else if unit = ''MB'' then Inr (1024 ^ 2)
                   else if unit = ''Gb'' then Inr (10 ^ 9 div 8)
                   else if unit = ''GB'' then Inr (1024 ^ 3)
                   else if unit = ''Tb'' then Inr (10 ^ 12 div 8)
                   else if unit = ''TB'' then Inr (1024 ^ 4)
                   else Inl FatbuildrSystemConfigurationError))))"

text \<open>The measure grows until it reaches the limit; from the task that reaches it on, every task is
  removed.\<close>

fun size_loop :: "nat \<Rightarrow> nat \<Rightarrow> archived_task list \<Rightarrow> purge_state \<Rightarrow> purge_state res" where
  "size_loop value measured [] st = Inr st"
| "size_loop value measured (task # tasks) st =
     rbind (if measured < value
            then rmap (\<lambda>sz. measured + sz) (directory_size (ps_fs st) (at_place task))
            else Inr measured) (\<lambda>measured'.
       if value \<le> measured' then rbind (purge_remove task st) (size_loop value measured' tasks)
       else size_loop value measured' tasks st)"

definition size_run :: "nat \<Rightarrow> archived_task list \<Rightarrow> purge_state \<Rightarrow> purge_state res" where
  "size_run value tasks st = size_loop value 0 tasks st"

text \<open>\<^verbatim>\<open>HistoryPurgeFactory.get\<close>; a policy object is its class with its value.\<close>

datatype purge_object = PurgeOlder int | PurgeLast int | PurgeEach int | PurgeSize nat

definition HistoryPurgeFactory_get :: "int \<Rightarrow> string \<Rightarrow> string \<Rightarrow> purge_object res" where
  "HistoryPurgeFactory_get now policy value =
     (if policy = ''older'' then rmap PurgeOlder (HistoryPurgeOlder_init now value)
      else if policy = ''last'' then rmap PurgeLast (HistoryPurgeLast_init value)
      else if policy = ''each'' then rmap PurgeEach (HistoryPurgeEach_init value)
      else if policy = ''size'' then rmap PurgeSize (HistoryPurgeSize_init value)
      else Inl FatbuildrSystemConfigurationError)"

fun purge_run :: "purge_object \<Rightarrow> archived_task list \<Rightarrow> purge_state \<Rightarrow> purge_state res" where
  "purge_run (PurgeOlder v) = older_run v"
| "purge_run (PurgeLast v) = last_run v"
| "purge_run (PurgeEach v) = each_run v"
| "purge_run (PurgeSize v) = size_run v"

section \<open>Removing a list of workspaces\<close>

definition size_at :: "node \<Rightarrow> archived_task \<Rightarrow> nat" where
  "size_at fs t = (case lookup (at_place t) fs of Some n \<Rightarrow> node_size n | None \<Rightarrow> 0)"

text \<open>The tasks of a history: their workspaces are directories, no two of them overlap.\<close>

definition tasks_ok :: "archived_task list \<Rightarrow> node \<Rightarrow> bool" where
  "tasks_ok ts fs \<longleftrightarrow>
     distinct (map at_place ts)
     \<and> (\<forall>t \<in> set ts. at_place t \<noteq> [] \<and> fs_is_dir fs (at_place t))
     \<and> (\<forall>t \<in> set ts. \<forall>u \<in> set ts. at_place t = at_place u \<or> apart (at_place t) (at_place u))"

lemma tasks_ok_Cons:
  "tasks_ok (t # ts) fs \<Longrightarrow> tasks_ok ts fs \<and> at_place t \<noteq> [] \<and> fs_is_dir fs (at_place t)
     \<and> (\<forall>u \<in> set ts. apart (at_place t) (at_place u))"
  unfolding tasks_ok_def by (auto simp: image_iff)

lemma subseq_facts:
  assumes "subseq us ts"
  shows "set us \<subseteq> set ts" and "distinct (map f ts) \<Longrightarrow> distinct (map f us)"
proof -
  obtain N where N: "us = nths ts N" using assms by (auto simp: subseq_conv_nths)
  then show "set us \<subseteq> set ts" by (simp add: set_nths_subset)
  have "map f us = nths (map f ts) N" by (simp add: N nths_map)
  then show "distinct (map f ts) \<Longrightarrow> distinct (map f us)" by (simp add: distinct_nthsI)
qed

lemma tasks_ok_subseq: "subseq us ts \<Longrightarrow> tasks_ok ts fs \<Longrightarrow> tasks_ok us fs"
  using subseq_facts [of us ts] unfolding tasks_ok_def by blast

lemma directory_size_at: "fs_is_dir fs (at_place t) \<Longrightarrow> directory_size fs (at_place t) = Inr (size_at fs t)"
  by (auto simp: fs_is_dir_lookup directory_size_def size_at_def)

lemma purge_remove_ok:
  assumes "at_place t \<noteq> []" and "fs_is_dir (ps_fs st) (at_place t)"
  shows "\<exists>fs'. del (at_place t) (ps_fs st) = Inr fs' \<and> purge_remove t st
    = Inr \<lparr>ps_fs = fs', ps_removed = Suc (ps_removed st), ps_retrieved = ps_retrieved st + size_at (ps_fs st) t\<rparr>"
proof -
  obtain fs' where "fs_rmtree (at_place t) (ps_fs st) = Inr fs'"
    using rmtree_ok [OF assms] by blast
  then show ?thesis
    using assms(2) by (auto simp: purge_remove_def directory_size_at dest: rmtree_Inr_del)
qed

text \<open>Removing a workspace changes nothing that the other tasks can see.\<close>

lemma tasks_ok_del:
  assumes "tasks_ok (t # ts) fs" and "del (at_place t) fs = Inr fs'"
  shows "tasks_ok ts fs'" and "\<And>u. u \<in> set ts \<Longrightarrow> size_at fs' u = size_at fs u"
proof -
  have same: "lookup (at_place u) fs' = lookup (at_place u) fs" if "u \<in> set ts" for u
    using lookup_del_apart [OF assms(2)] tasks_ok_Cons [OF assms(1)] that by blast
  then show "\<And>u. u \<in> set ts \<Longrightarrow> size_at fs' u = size_at fs u" by (simp add: size_at_def)
  from same show "tasks_ok ts fs'"
    using tasks_ok_Cons [OF assms(1)] by (auto simp: tasks_ok_def fs_is_dir_def)
qed

lemma purge_all:
  assumes "tasks_ok vs (ps_fs st)"
  shows "\<exists>st'. rfold purge_remove vs st = Inr st'
    \<and> rfold del (map at_place vs) (ps_fs st) = Inr (ps_fs st')
    \<and> ps_removed st' = ps_removed st + length vs
    \<and> ps_retrieved st' = ps_retrieved st + sum_list (map (size_at (ps_fs st)) vs)"
  using assms
proof (induction vs arbitrary: st)
  case (Cons t vs)
  obtain fs' where fs': "del (at_place t) (ps_fs st) = Inr fs'"
    and st1: "purge_remove t st = Inr \<lparr>ps_fs = fs', ps_removed = Suc (ps_removed st),
      ps_retrieved = ps_retrieved st + size_at (ps_fs st) t\<rparr>" (is "_ = Inr ?st1")
    using purge_remove_ok tasks_ok_Cons [OF Cons.prems] by blast
  have "map (size_at fs') vs = map (size_at (ps_fs st)) vs"
    using tasks_ok_del(2) [OF Cons.prems fs'] by simp
  with Cons.IH [of ?st1] tasks_ok_del(1) [OF Cons.prems fs'] show ?case
    by (auto simp: fs' st1)
qed simp

section \<open>The contract of a policy\<close>

locale purge_policy =
  fixes run :: "archived_task list \<Rightarrow> purge_state \<Rightarrow> purge_state res"
    and victims :: "(archived_task \<Rightarrow> nat) \<Rightarrow> archived_task list \<Rightarrow> archived_task list"
  assumes victims_subseq: "subseq (victims sz ts) ts"
    and run_victims: "tasks_ok ts (ps_fs st) \<Longrightarrow>
      run ts st = rfold purge_remove (victims (size_at (ps_fs st)) ts) st"
begin

text \<open>A policy does not fail on a well-formed history, removes exactly its victims, reports their
  number and size, and touches no path apart from their workspaces.\<close>

lemma run_spec:
  assumes "tasks_ok ts (ps_fs st)"
  shows "\<exists>st'. run ts st = Inr st'
    \<and> (\<forall>t \<in> set (victims (size_at (ps_fs st)) ts). lookup (at_place t) (ps_fs st') = None)
    \<and> (\<forall>p. (\<forall>t \<in> set (victims (size_at (ps_fs st)) ts). apart (at_place t) p) \<longrightarrow>
          lookup p (ps_fs st') = lookup p (ps_fs st))
    \<and> ps_removed st' = ps_removed st + length (victims (size_at (ps_fs st)) ts)
    \<and> ps_retrieved st' = ps_retrieved st
        + sum_list (map (size_at (ps_fs st)) (victims (size_at (ps_fs st)) ts))"
proof -
  let ?vs = "victims (size_at (ps_fs st)) ts"
  have ok: "tasks_ok ?vs (ps_fs st)" using tasks_ok_subseq [OF victims_subseq assms] .
  obtain st' where st': "rfold purge_remove ?vs st = Inr st'"
    and d: "rfold del (map at_place ?vs) (ps_fs st) = Inr (ps_fs st')"
    and n: "ps_removed st' = ps_removed st + length ?vs"
      "ps_retrieved st' = ps_retrieved st + sum_list (map (size_at (ps_fs st)) ?vs)"
    using purge_all [OF ok] by blast
  have gone: "lookup (at_place t) (ps_fs st') = None" if "t \<in> set ?vs" for t
  proof (rule tree.drop_all_same [OF d])
    show "at_place t \<in> set (map at_place ?vs)" using that by simp
    show "distinct (map at_place ?vs)" using ok by (simp add: tasks_ok_def)
    show "p = q \<or> apart p q" if "p \<in> set (map at_place ?vs)" "q \<in> set (map at_place ?vs)" for p q
      using ok that unfolding tasks_ok_def set_map by blast
  qed
  have "lookup p (ps_fs st') = lookup p (ps_fs st)" if "\<forall>t \<in> set ?vs. apart (at_place t) p" for p
    using tree.drop_all_apart [OF d, of p] that by auto
  with gone n st' show ?thesis using run_victims [OF assms] by auto
qed

text \<open>In particular every task that is no victim keeps its workspace.\<close>

lemma run_keeps:
  assumes "tasks_ok ts (ps_fs st)" and "run ts st = Inr st'"
    and "t \<in> set ts" and "t \<notin> set (victims (size_at (ps_fs st)) ts)"
  shows "lookup (at_place t) (ps_fs st') = lookup (at_place t) (ps_fs st)"
proof -
  have "apart (at_place u) (at_place t)" if "u \<in> set (victims (size_at (ps_fs st)) ts)" for u
  proof -
    have u: "u \<in> set ts" using subseq_facts(1) [OF victims_subseq] that by blast
    have "u \<noteq> t" using that assms(4) by blast
    then have "at_place u \<noteq> at_place t"
      using assms(1) u assms(3) unfolding tasks_ok_def by (auto simp: distinct_map dest: inj_onD)
    then show ?thesis using assms(1,3) u unfolding tasks_ok_def by blast
  qed
  then show ?thesis using run_spec [OF assms(1)] assms(2) by auto
qed

end

subsection \<open>The four policies keep it\<close>

lemma older_run_victims: "older_run v ts st = rfold purge_remove (filter (\<lambda>t. at_submission t < v) ts) st"
  by (induction v ts st rule: older_run.induct) (auto intro!: rbind_cong)

interpretation older: purge_policy "older_run v" "\<lambda>sz ts. filter (\<lambda>t. at_submission t < v) ts" for v
  by unfold_locales (auto simp: older_run_victims)

lemma last_loop_all: "v \<le> kept \<Longrightarrow> last_loop v kept ts st = rfold purge_remove ts st"
  by (induction v kept ts st rule: last_loop.induct) (auto intro!: rbind_cong)

lemma last_loop_victims:
  "last_loop v kept ts st = rfold purge_remove (drop (nat (v - kept)) ts) st"
proof (induction v kept ts st rule: last_loop.induct)
  case (2 v kept t ts st)
  show ?case
  proof (cases "kept < v")
    case True
    then have "nat (v - kept) = Suc (nat (v - (kept + 1)))" by simp
    with True 2 show ?thesis by simp
  next
    case False
    then show ?thesis using last_loop_all [of v kept "t # ts" st] by simp
  qed
qed simp

interpretation last_p: purge_policy "last_run v" "\<lambda>sz ts. drop (nat v) ts" for v
  by unfold_locales (auto simp: last_run_def last_loop_victims suffix_drop suffix_imp_subseq)

text \<open>How many of the first \<open>i\<close> tasks have the history identifier \<open>h\<close>.\<close>

definition count_hist :: "string \<Rightarrow> archived_task list \<Rightarrow> int" where
  "count_hist h ts = int (length (filter (\<lambda>t. at_histid t = h) ts))"

fun each_spec :: "int \<Rightarrow> archived_task list \<Rightarrow> archived_task list \<Rightarrow> archived_task list" where
  "each_spec v seen [] = []"
| "each_spec v seen (t # ts) =
     (if v \<le> count_hist (at_histid t) seen then t # each_spec v (seen @ [t]) ts
      else each_spec v (seen @ [t]) ts)"

lemma subseq_each_spec: "subseq (each_spec v seen ts) ts"
  by (induction v seen ts rule: each_spec.induct) auto

definition counts_of :: "(string, int) dict \<Rightarrow> archived_task list \<Rightarrow> bool" where
  "counts_of d seen \<longleftrightarrow> (\<forall>h. (case dict_get d h of None \<Rightarrow> 0 | Some n \<Rightarrow> n) = count_hist h seen)"

lemma each_loop_victims:
  "counts_of d seen \<Longrightarrow> each_loop v d ts st = rfold purge_remove (each_spec v seen ts) st"
proof (induction ts arbitrary: d seen st)
  case (Cons t ts)
  let ?n = "case dict_get d (at_histid t) of None \<Rightarrow> 1 | Some n \<Rightarrow> n + 1"
  have n: "?n = count_hist (at_histid t) seen + 1"
    using Cons.prems by (auto simp: counts_of_def split: option.splits dest: spec [of _ "at_histid t"])
  have "counts_of (dict_set d (at_histid t) ?n) (seen @ [t])"
    using Cons.prems unfolding n by (auto simp: counts_of_def count_hist_def)
  note IH = Cons.IH [OF this, unfolded n]
  show ?case
    by (cases "v \<le> count_hist (at_histid t) seen")
      (simp_all add: Let_def n IH rbind_def split: sum.splits)
qed simp

interpretation each: purge_policy "each_run v" "\<lambda>sz ts. each_spec v [] ts" for v
  by unfold_locales
    (auto simp: each_run_def subseq_each_spec intro!: each_loop_victims simp: counts_of_def count_hist_def dict_get_def)

text \<open>The tasks that the size policy keeps: the longest prefix whose total size stays below the
  limit.\<close>

fun size_keep :: "nat \<Rightarrow> (archived_task \<Rightarrow> nat) \<Rightarrow> nat \<Rightarrow> archived_task list \<Rightarrow> nat" where
  "size_keep v sz acc [] = 0"
| "size_keep v sz acc (t # ts) =
     (if acc < v \<and> acc + sz t < v then Suc (size_keep v sz (acc + sz t) ts) else 0)"

lemma size_loop_all:
  "v \<le> acc \<Longrightarrow> size_loop v acc ts st = rfold purge_remove ts st"
proof (induction ts arbitrary: st)
  case (Cons t ts)
  then show ?case by (auto intro!: rbind_cong)
qed simp

lemma size_keep_cong: "(\<And>t. t \<in> set ts \<Longrightarrow> f t = g t) \<Longrightarrow> size_keep v f acc ts = size_keep v g acc ts"
  by (induction ts arbitrary: acc) auto

lemma size_loop_victims:
  "tasks_ok ts (ps_fs st) \<Longrightarrow>
     size_loop v acc ts st = rfold purge_remove (drop (size_keep v (size_at (ps_fs st)) acc ts) ts) st"
proof (induction ts arbitrary: acc st)
  case (Cons t ts)
  note ok = tasks_ok_Cons [OF Cons.prems]
  let ?s = "size_at (ps_fs st) t"
  have sz: "directory_size (ps_fs st) (at_place t) = Inr ?s"
    using ok by (simp add: directory_size_at)
  consider "v \<le> acc" | "acc < v" "v \<le> acc + ?s" | "acc < v" "acc + ?s < v" by linarith
  then show ?case
  proof cases
    case 1
    then show ?thesis using size_loop_all [of v acc "t # ts" st] by simp
  next
    case 2
    then show ?thesis by (auto simp: sz size_loop_all intro!: rbind_cong)
  next
    case 3
    with Cons.IH [of st "acc + ?s"] ok show ?thesis by (simp add: sz)
  qed
qed simp

interpretation size_p: purge_policy "size_run v" "\<lambda>sz ts. drop (size_keep v sz 0 ts) ts" for v
  by unfold_locales (auto simp: size_run_def size_loop_victims suffix_drop suffix_imp_subseq)

end
