(* ===== verification/History.thy ===== *)
theory History imports PurgePolicies Wire begin

text \<open>
  The history of \<^verbatim>\<open>fatbuildr/history.py\<close>: task forms saved in the workspaces, archived tasks
  loaded from them, the dump of the history and its purge. PyYAML is a parameter (\<open>yaml_dump\<close>
  and \<open>yaml_load\<close>); the queue is the list of identifiers that \<^verbatim>\<open>fullqueue\<close> returns.
\<close>

section \<open>Archived tasks\<close>

text \<open>The constructors called on the archived fields of an exportable type: \<^verbatim>\<open>RegistryArtifact\<close>,
  whose size has a default, and \<^verbatim>\<open>ArtifactSourceArchive\<close>.\<close>

definition native_ctor :: "string \<Rightarrow> (string \<times> pyval) list \<Rightarrow> pyval res" where
  "native_ctor c d =
     (if c = ''RegistryArtifact'' \<and> set (map fst d) \<subseteq> {''name'', ''architecture'', ''version'', ''size''}
         \<and> dict_has d ''name'' \<and> dict_has d ''architecture'' \<and> dict_has d ''version''
      then Inr (PObj c (if dict_has d ''size'' then d else d @ [(''size'', PInt (-1))]))
      else if c = ''ArtifactSourceArchive'' \<and> set (map fst d) = {''id'', ''path''} then Inr (PObj c d)
      else Inl TypeErr)"

text \<open>The attributes that \<^verbatim>\<open>RunnableTask.__init__\<close> sets on an archived task, then every field of
  the form that is not yet an attribute.\<close>

definition archived_base :: "string \<Rightarrow> string \<Rightarrow> pyval \<Rightarrow> path \<Rightarrow> pyval \<Rightarrow> (string \<times> pyval) list" where
  "archived_base task_id name user place submission =
     [(''TASK_NAME'', PStr name), (''name'', PStr name), (''id'', PStr task_id), (''user'', user),
      (''place'', PPath (CHR ''/'' # str_join ''/'' place)), (''state'', PStr ''finished''),
      (''result'', PStr ''unknown''), (''submission'', submission)]"

definition set_missing :: "(string \<times> pyval) list \<Rightarrow> (string \<times> pyval) list \<Rightarrow> (string \<times> pyval) list" where
  "set_missing kwargs attrs = fold (\<lambda>(k, v) a. if dict_has a k then a else dict_set a k v) kwargs attrs"

definition join_item :: "pyval \<Rightarrow> string res" where
  "join_item v = (case v of PStr s \<Rightarrow> Inr s | _ \<Rightarrow> Inl TypeErr)"

definition time_of :: "pyval \<Rightarrow> int res" where
  "time_of v = (case v of PTime us \<Rightarrow> Inr us | _ \<Rightarrow> Inl TypeErr)"

definition histid_of :: "field list \<Rightarrow> string \<Rightarrow> (string \<times> pyval) list \<Rightarrow> string res" where
  "histid_of fs task_name attrs =
     rmap (\<lambda>parts. str_join ''-'' (task_name # parts))
       (rmapM (\<lambda>f. rbind (getattr attrs (f_name f)) join_item) (filter f_histid fs))"

definition ArchivedTask_init :: "string \<Rightarrow> path \<Rightarrow> (string \<times> pyval) list \<Rightarrow> archived_task res" where
  "ArchivedTask_init task_id place kwargs =
     rbind (rbind (dict_item kwargs ''name'') join_item) (\<lambda>name.
     rbind (dict_item kwargs ''user'') (\<lambda>user.
     rbind (dict_item kwargs ''submission'') (\<lambda>submission.
     rbind (task_fields register_protocols name) (\<lambda>fs.
     (let attrs = set_missing kwargs (archived_base task_id name user place submission)
      in rbind (histid_of fs name attrs) (\<lambda>histid.
         rmap (\<lambda>us. \<lparr>at_id = task_id, at_name = name, at_submission = us, at_place = place,
                       at_histid = histid, at_attrs = attrs\<rparr>) (time_of submission)))))))"

section \<open>Forms\<close>

definition YML_FILE :: string where
  "YML_FILE = ''task.yml''"

text \<open>\<^verbatim>\<open>HistoryManager.save_task\<close>: the archived fields, exported, in the form of the
  workspace.\<close>

definition form_fields :: "(string \<times> pyval) list \<Rightarrow> (string \<times> pyval) list res" where
  "form_fields attrs =
     rbind (rbind (getattr attrs ''name'') str_of) (\<lambda>name.
     rbind (task_fields register_protocols name) (\<lambda>fs.
       rmapM (\<lambda>f. rbind (getattr attrs (f_name f))
          (\<lambda>v. rmap (Pair (f_name f)) (field_export registered_classes (f_type f) v)))
        (filter f_archived fs)))"

definition save_task ::
  "((string \<times> pyval) list \<Rightarrow> string) \<Rightarrow> (string \<times> pyval) list \<Rightarrow> path \<Rightarrow> node \<Rightarrow> node res" where
  "save_task yaml_dump attrs place fs =
     rbind (form_fields attrs) (\<lambda>form. fs_write (place @ [YML_FILE]) (yaml_dump form) fs)"

text \<open>\<^verbatim>\<open>TaskForm.fromArchive\<close>: the form's attributes are the keys of the YAML mapping.\<close>

definition fromArchive :: "(string \<Rightarrow> pyval res) \<Rightarrow> node \<Rightarrow> path \<Rightarrow> (string \<times> pyval) list res" where
  "fromArchive yaml_load fs dir =
     rbind (fs_read fs (dir @ [YML_FILE])) (\<lambda>txt.
     rbind (yaml_load txt) (\<lambda>d. case d of PDict form \<Rightarrow> Inr form | _ \<Rightarrow> Inl TypeErr))"

definition form_key :: "pyval \<Rightarrow> string res" where
  "form_key v = (case v of PStr s \<Rightarrow> Inr s | PList _ \<Rightarrow> Inl TypeErr | PDict _ \<Rightarrow> Inl TypeErr | _ \<Rightarrow> Inl KeyErr)"

definition form_native :: "(string \<times> pyval) list \<Rightarrow> (string \<times> pyval) list res" where
  "form_native form =
     rbind (rbind (getattr form ''name'') form_key) (\<lambda>name.
     rbind (task_fields register_protocols name) (\<lambda>fs.
       rmapM (\<lambda>f. rmap (Pair (f_name f)) (field_native_obj native_ctor f form)) (filter f_archived fs)))"

definition load_archive :: "(string \<Rightarrow> pyval res) \<Rightarrow> node \<Rightarrow> path \<Rightarrow> string \<Rightarrow> archived_task res" where
  "load_archive yaml_load fs dir name =
     rbind (fromArchive yaml_load fs (dir @ [name])) (\<lambda>form.
     rbind (form_native form) (\<lambda>kwargs. ArchivedTask_init (path_stem name) (dir @ [name]) kwargs))"

section \<open>Dump and purge\<close>

definition dump_step ::
  "(string \<Rightarrow> pyval res) \<Rightarrow> string list \<Rightarrow> path \<Rightarrow> bool \<Rightarrow> string \<Rightarrow> node \<times> archived_task list
     \<Rightarrow> (node \<times> archived_task list) res" where
  "dump_step yaml_load queued dir remove_malformed name = (\<lambda>(fs, tasks).
     if \<not> fs_is_dir fs (dir @ [name]) then Inr (fs, tasks)
     else if name \<in> set queued then Inr (fs, tasks)
     else (case load_archive yaml_load fs dir name of
             Inr task \<Rightarrow> Inr (fs, tasks @ [task])
           | Inl err \<Rightarrow>
               (if is_a err FileNotFoundErr then
                  (if remove_malformed then rmap (\<lambda>fs'. (fs', tasks)) (fs_rmtree (dir @ [name]) fs)
                   else Inr (fs, tasks))
                else if is_a err AttributeErr \<or> is_a err KeyErr then Inr (fs, tasks)
                else Inl err)))"

definition history_dump ::
  "(string \<Rightarrow> pyval res) \<Rightarrow> string list \<Rightarrow> path \<Rightarrow> int \<Rightarrow> bool \<Rightarrow> node \<Rightarrow> (node \<times> archived_task list) res" where
  "history_dump yaml_load queued dir limit remove_malformed fs =
     (if \<not> fs_exists fs dir then Inr (fs, [])
      else rbind (fs_iterdir fs dir) (\<lambda>names.
        rmap (\<lambda>(fs', tasks).
          (let sorted = sort_key (\<lambda>t. - at_submission t) tasks
           in (fs', if limit \<noteq> 0 then py_take limit sorted else sorted)))
        (rfold (dump_step yaml_load queued dir remove_malformed) names (fs, []))))"

definition history_purge ::
  "(string \<Rightarrow> pyval res) \<Rightarrow> string list \<Rightarrow> path \<Rightarrow> int \<Rightarrow> string \<Rightarrow> string \<Rightarrow> node \<Rightarrow> purge_state res" where
  "history_purge yaml_load queued dir now policy value fs =
     rbind (history_dump yaml_load queued dir 0 True fs) (\<lambda>(fs', tasks).
     rbind (HistoryPurgeFactory_get now policy value) (\<lambda>p.
       purge_run p tasks \<lparr>ps_fs = fs', ps_removed = 0, ps_retrieved = 0\<rparr>))"

section \<open>Lemmas on the dump\<close>

text \<open>What the loop over the directory maintains: the loaded tasks are workspaces of the history
  that are not queued, each one a directory, no two of them the same; and whatever is apart from
  every unqueued workspace is untouched.\<close>

definition dump_inv :: "string list \<Rightarrow> path \<Rightarrow> string set \<Rightarrow> node \<Rightarrow> node \<times> archived_task list \<Rightarrow> bool" where
  "dump_inv queued dir done fs0 = (\<lambda>(fs, tasks).
     (\<forall>t \<in> set tasks. \<exists>n \<in> done. n \<notin> set queued \<and> at_place t = dir @ [n] \<and> fs_is_dir fs (dir @ [n]))
     \<and> distinct (map at_place tasks)
     \<and> (\<forall>p. (\<forall>n \<in> done. n \<notin> set queued \<longrightarrow> apart (dir @ [n]) p) \<longrightarrow> lookup p fs = lookup p fs0))"

lemma load_archive_place:
  "load_archive yaml_load fs dir name = Inr t \<Longrightarrow> at_place t = dir @ [name]"
  by (auto simp: load_archive_def ArchivedTask_init_def Let_def rbind_Inr_conv rmap_Inr_conv)

lemma dump_step_inv:
  assumes "dump_step yaml_load queued dir rm name st = Inr st'"
    and "dump_inv queued dir done fs0 st" and "name \<notin> done"
  shows "dump_inv queued dir (insert name done) fs0 st'"
proof -
  obtain fs tasks where st: "st = (fs, tasks)" by (cases st)
  have inv: "\<forall>t \<in> set tasks. \<exists>n \<in> done. n \<notin> set queued \<and> at_place t = dir @ [n] \<and> fs_is_dir fs (dir @ [n])"
    and dist: "distinct (map at_place tasks)"
    and same: "\<And>p. (\<forall>n \<in> done. n \<notin> set queued \<longrightarrow> apart (dir @ [n]) p) \<Longrightarrow> lookup p fs = lookup p fs0"
    using assms(2) by (auto simp: dump_inv_def st)
  have skip: "dump_inv queued dir (insert name done) fs0 (fs, tasks)"
    using inv dist same by (auto simp: dump_inv_def)
  show ?thesis
  proof (cases "\<not> fs_is_dir fs (dir @ [name]) \<or> name \<in> set queued")
    case True
    with assms(1) skip show ?thesis by (auto simp: dump_step_def st split: if_splits)
  next
    case False
    show ?thesis
    proof (cases "load_archive yaml_load fs dir name")
      case (Inr t)
      note pl = load_archive_place [OF Inr]
      have "at_place t \<notin> at_place ` set tasks" using inv assms(3) pl by fastforce
      with False Inr assms(1) inv dist same pl show ?thesis
        by (auto simp: dump_step_def dump_inv_def st)
    next
      case (Inl e)
      show ?thesis
      proof (cases "st' = (fs, tasks)")
        case True
        with skip show ?thesis by simp
      next
        case ne: False
        then obtain fs' where fs': "fs_rmtree (dir @ [name]) fs = Inr fs'" "st' = (fs', tasks)"
          using assms(1) False Inl by (auto simp: dump_step_def st rmap_Inr_conv split: if_splits)
        have ap: "lookup p fs' = lookup p fs" if "apart (dir @ [name]) p" for p
          using lookup_del_apart [OF rmtree_Inr_del [OF fs'(1)] that] .
        have "fs_is_dir fs' (dir @ [n])" if "n \<in> done" "fs_is_dir fs (dir @ [n])" for n
        proof -
          have "name \<noteq> n" using that(1) assms(3) by auto
          with ap [of "dir @ [n]"] that show ?thesis by (simp add: fs_is_dir_def)
        qed
        with inv dist same ap False show ?thesis
          by (fastforce simp: dump_inv_def fs'(2))
      qed
    qed
  qed
qed

lemma dump_loop_inv:
  "\<lbrakk>rfold (dump_step yaml_load queued dir rm) names st = Inr st'; dump_inv queued dir done fs0 st;
    distinct names; set names \<inter> done = {}\<rbrakk> \<Longrightarrow> dump_inv queued dir (done \<union> set names) fs0 st'"
proof (induction names arbitrary: st "done")
  case (Cons n names)
  then obtain st1 where st1: "dump_step yaml_load queued dir rm n st = Inr st1"
    "rfold (dump_step yaml_load queued dir rm) names st1 = Inr st'"
    by (auto simp: rbind_Inr_conv)
  have "dump_inv queued dir (insert n done) fs0 st1"
    using dump_step_inv [OF st1(1) Cons.prems(2)] Cons.prems(4) by auto
  from Cons.IH [OF st1(2) this] Cons.prems show ?case by auto
qed simp

text \<open>A directory lists a name once.\<close>

definition dir_ok :: "node \<Rightarrow> path \<Rightarrow> bool" where
  "dir_ok fs dir \<longleftrightarrow> (case lookup dir fs of Some (Dir es) \<Rightarrow> distinct (map fst es) | _ \<Rightarrow> True)"

lemma dump_facts:
  assumes "history_dump yaml_load queued dir 0 rm fs = Inr (fs', ts)" and "dir_ok fs dir"
  shows "tasks_ok ts fs'"
    and "\<And>t. t \<in> set ts \<Longrightarrow> \<exists>n. n \<notin> set queued \<and> at_place t = dir @ [n]"
    and "\<And>p. (\<And>n. n \<notin> set queued \<Longrightarrow> apart (dir @ [n]) p) \<Longrightarrow> lookup p fs' = lookup p fs"
    and "sorted (map (\<lambda>t. - at_submission t) ts)"
proof -
  have "\<exists>names. dump_inv queued dir (set names) fs (fs', ts) \<and> sorted (map (\<lambda>t. - at_submission t) ts)"
  proof (cases "fs_exists fs dir")
    case False
    with assms(1) show ?thesis by (auto simp: history_dump_def dump_inv_def intro: exI [of _ "[]"])
  next
    case True
    with assms(1) obtain names tasks where names: "fs_iterdir fs dir = Inr names"
      and fold: "rfold (dump_step yaml_load queued dir rm) names (fs, []) = Inr (fs', tasks)"
      and ts: "ts = sort_key (\<lambda>t. - at_submission t) tasks"
      by (auto simp: history_dump_def rbind_Inr_conv rmap_Inr_conv Let_def)
    have "distinct names" using assms(2) names
      by (auto simp: dir_ok_def fs_iterdir_def split: option.splits node.splits)
    then have "dump_inv queued dir (set names) fs (fs', tasks)"
      using dump_loop_inv [OF fold, of "{}" fs] by (simp add: dump_inv_def)
    then have "dump_inv queued dir (set names) fs (fs', ts)"
      by (auto simp: dump_inv_def ts distinct_map)
    then show ?thesis using ts by auto
  qed
  then obtain names where inv: "dump_inv queued dir (set names) fs (fs', ts)"
    and sorted: "sorted (map (\<lambda>t. - at_submission t) ts)" by blast
  show "sorted (map (\<lambda>t. - at_submission t) ts)" by (rule sorted)
  show place: "\<exists>n. n \<notin> set queued \<and> at_place t = dir @ [n]" if "t \<in> set ts" for t
    using inv that by (auto simp: dump_inv_def)
  show "lookup p fs' = lookup p fs" if "\<And>n. n \<notin> set queued \<Longrightarrow> apart (dir @ [n]) p" for p
    using inv that by (auto simp: dump_inv_def)
  show "tasks_ok ts fs'"
    unfolding tasks_ok_def
  proof (intro conjI ballI)
    show "distinct (map at_place ts)" using inv by (simp add: dump_inv_def)
    show "at_place t \<noteq> []" if "t \<in> set ts" for t using place [OF that] by auto
    show "fs_is_dir fs' (at_place t)" if "t \<in> set ts" for t using inv that by (fastforce simp: dump_inv_def)
    show "at_place t = at_place u \<or> apart (at_place t) (at_place u)" if "t \<in> set ts" "u \<in> set ts" for t u
      using place [OF that(1)] place [OF that(2)] by auto
  qed
qed

text \<open>Whatever the policy, a run on a well-formed history leaves every path apart from the tasks'
  workspaces as it is.\<close>

lemma purge_run_apart:
  assumes "tasks_ok ts (ps_fs st)" and "purge_run p ts st = Inr st'"
    and "\<And>t. t \<in> set ts \<Longrightarrow> apart (at_place t) q"
  shows "lookup q (ps_fs st') = lookup q (ps_fs st)"
proof -
  have *: "lookup q (ps_fs st') = lookup q (ps_fs st)"
    if "purge_policy run victims" and "run ts st = Inr st'" for run victims
  proof -
    have "subseq (victims (size_at (ps_fs st)) ts) ts" using that(1) by (rule purge_policy.victims_subseq)
    then have "\<forall>t \<in> set (victims (size_at (ps_fs st)) ts). apart (at_place t) q"
      using subseq_facts(1) assms(3) by blast
    then show ?thesis using purge_policy.run_spec [OF that(1) assms(1)] that(2) by auto
  qed
  show ?thesis
    using assms(2) * [OF older.purge_policy_axioms] * [OF last_p.purge_policy_axioms]
      * [OF each.purge_policy_axioms] * [OF size_p.purge_policy_axioms]
    by (cases p) auto
qed

section \<open>Saving and loading a task\<close>

text \<open>\<open>archived_as t a b\<close>: the attribute \<open>a\<close> of a task, of type \<open>t\<close>, comes back from the
  archive as \<open>b\<close>. Plain values are kept, null included; times have whole seconds; the path of a
  source archive comes back as a string.\<close>

inductive archived_as :: "ntype \<Rightarrow> pyval \<Rightarrow> pyval \<Rightarrow> bool" where
  plain: "t \<in> {TStr, TInt, TBool, TListStr} \<Longrightarrow> archived_as t v v"
| time: "archived_as TDatetime (PTime (sec * 1000000)) (PTime (sec * 1000000))"
| artifact: "archived_as (TExp ''RegistryArtifact'')
     (PObj ''RegistryArtifact'' [(''name'', n), (''architecture'', a), (''version'', v), (''size'', sz)])
     (PObj ''RegistryArtifact'' [(''name'', n), (''architecture'', a), (''version'', v), (''size'', sz)])"
| archives: "archived_as (TListExp ''ArtifactSourceArchive'')
     (PList (map (\<lambda>(i, p). PObj ''ArtifactSourceArchive'' [(''id'', PStr i), (''path'', PPath p)]) ips))
     (PList (map (\<lambda>(i, p). PObj ''ArtifactSourceArchive'' [(''id'', PStr i), (''path'', PStr p)]) ips))"

lemma archive_class_fields:
  "registered_classes ''RegistryArtifact'' = [ExportableField ''name'' TStr, ExportableField ''architecture'' TStr,
     ExportableField ''version'' TStr, ExportableField ''size'' TInt]"
  "registered_classes ''ArtifactSourceArchive'' = [ExportableField ''id'' TStr, ExportableField ''path'' TPath]"
  by code_simp+

lemma archived_as_roundtrip:
  "archived_as t a b \<Longrightarrow> \<exists>w. field_export registered_classes t a = Inr w \<and> native_convert native_ctor t w = Inr b"
proof (induction rule: archived_as.induct)
  case (artifact n a v sz)
  have "field_export registered_classes t x = Inr x" if "t = TStr \<or> t = TInt" for t x
    using that by (auto simp: field_export.simps)
  then show ?case
    by (simp add: field_export.simps [of _ "TExp c" for c] archive_class_fields native_convert_def ctor_call_def
        native_ctor_def ExportableField_def dict_has_def)
next
  case (archives ips)
  let ?ws = "map (\<lambda>(i, p). PDict [(''id'', PStr i), (''path'', PStr p)]) ips"
  have "rmapM (field_export registered_classes (TExp ''ArtifactSourceArchive''))
      (map (\<lambda>(i, p). PObj ''ArtifactSourceArchive'' [(''id'', PStr i), (''path'', PPath p)]) ips) = Inr ?ws"
    by (induction ips) (auto simp: field_export.simps archive_class_fields ExportableField_def)
  moreover have "rmapM (ctor_call native_ctor ''ArtifactSourceArchive'') ?ws = Inr
      (map (\<lambda>(i, p). PObj ''ArtifactSourceArchive'' [(''id'', PStr i), (''path'', PStr p)]) ips)"
    by (induction ips) (auto simp: ctor_call_def native_ctor_def)
  ultimately show ?case
    by (simp add: field_export.simps [of _ "TListExp c" for c] native_convert_def)
qed (auto simp: field_export.simps native_convert_def)

lemma form_fields_send:
  "rmapM (\<lambda>f. rbind (getattr attrs (f_name f))
      (\<lambda>v. rmap (Pair (f_name f)) (field_export registered_classes (f_type f) v))) fs
   = send_fields (field_export registered_classes) attrs fs"
  unfolding send_fields_def by (rule rmapM_cong) (auto simp: getattr_def split: option.splits)

lemma form_native_recv:
  assumes "recv_fields (native_convert native_ctor) st fs = Inr kw" and "map_of d = map_of st"
  shows "rmapM (\<lambda>f. rmap (Pair (f_name f)) (field_native_obj native_ctor f d)) fs = Inr kw"
  using assms(1) unfolding recv_fields_def rmapM_Inr_list_all2
  by (rule list_all2_mono) (auto simp: field_native_obj_def getattr_def assms(2) split: option.splits)

lemma map_of_set_missing:
  "map_of (set_missing kw base) k = (case map_of base k of None \<Rightarrow> map_of kw k | Some v \<Rightarrow> Some v)"
  unfolding set_missing_def
proof (induction kw arbitrary: base)
  case (Cons kv kw)
  obtain k' v where kv: "kv = (k', v)" by (cases kv)
  show ?case
    by (cases "map_of base k'")
      (simp_all add: Cons.IH kv dict_has_def [of base] map_of_dict_set split: option.splits)
qed (simp split: option.splits)

lemma task_table_facts:
  "list_all (\<lambda>(n, l, fs).
      ExportableTaskField ''name'' TStr True False \<in> set fs \<and> ExportableTaskField ''user'' TStr True False \<in> set fs
      \<and> ExportableTaskField ''submission'' TDatetime True False \<in> set fs
      \<and> list_all (\<lambda>f. f_histid f \<longrightarrow> f_type f = TStr \<and> f_archived f
          \<and> f_name f \<notin> {''TASK_NAME'', ''name'', ''id'', ''user'', ''place'', ''state'', ''result'', ''submission''}) fs
      \<and> list_all (\<lambda>f. f_archived f \<longrightarrow> f_name f \<notin> {''TASK_NAME'', ''id'', ''place'', ''state''}) fs)
     (pr_tasks register_protocols)"
  by code_simp

lemma task_fields_facts:
  assumes "task_fields register_protocols name = Inr fs"
  shows "ExportableTaskField ''name'' TStr True False \<in> set fs" "ExportableTaskField ''user'' TStr True False \<in> set fs"
    "ExportableTaskField ''submission'' TDatetime True False \<in> set fs"
    "\<And>f. f \<in> set fs \<Longrightarrow> f_histid f \<Longrightarrow> f_type f = TStr \<and> f_archived f
       \<and> f_name f \<notin> {''TASK_NAME'', ''name'', ''id'', ''user'', ''place'', ''state'', ''result'', ''submission''}"
    "\<And>f. f \<in> set fs \<Longrightarrow> f_archived f \<Longrightarrow> f_name f \<notin> {''TASK_NAME'', ''id'', ''place'', ''state''}"
  using task_table_facts reg_fields_member [of "pr_tasks register_protocols" name fs] assms
  by (fastforce simp: task_fields_def list_all_iff)+

lemma list_all2_map_of:
  assumes "list_all2 (\<lambda>f nb. fst nb = f_name f \<and> R f (snd nb)) fs kw"
    and "distinct (map f_name fs)" and "f \<in> set fs"
  shows "\<exists>b. map_of kw (f_name f) = Some b \<and> R f b"
  using assms
proof (induction fs kw rule: list_all2_induct)
  case (Cons g fs nb kw)
  then show ?case by (cases nb; cases "f = g") (auto simp: rev_image_eqI)
qed simp

lemma distinct_archived: "distinct (map f_name fs) \<Longrightarrow> distinct (map f_name (filter P fs))"
  by (simp add: distinct_map_filter)

section \<open>Properties\<close>

text \<open>The purge never touches a live task: whatever the policy, its value and the content of
  the history directory, the workspace of a task that the queue reports as pending or running, with
  everything below it, is the same after a purge as before.\<close>

theorem purge_spares_queue:
  assumes "history_purge yaml_load queued dir now policy value fs = Inr st"
    and "dir_ok fs dir" and "task_id \<in> set queued"
  shows "lookup (dir @ task_id # rest) (ps_fs st) = lookup (dir @ task_id # rest) fs"
proof -
  obtain fs' ts p where dump: "history_dump yaml_load queued dir 0 True fs = Inr (fs', ts)"
    and run: "purge_run p ts \<lparr>ps_fs = fs', ps_removed = 0, ps_retrieved = 0\<rparr> = Inr st"
    using assms(1) by (auto simp: history_purge_def rbind_Inr_conv)
  note facts = dump_facts [OF dump assms(2)]
  have ap: "apart (dir @ [n]) (dir @ task_id # rest)" if "n \<notin> set queued" for n
    using that assms(3) by (auto simp: apart_def)
  have "lookup (dir @ task_id # rest) (ps_fs st) = lookup (dir @ task_id # rest) fs'"
  proof -
    have "apart (at_place t) (dir @ task_id # rest)" if "t \<in> set ts" for t
      using facts(2) [OF that] ap by metis
    then show ?thesis using purge_run_apart [OF _ run] facts(1) by simp
  qed
  also have "\<dots> = lookup (dir @ task_id # rest) fs"
    using facts(3) ap by blast
  finally show ?thesis .
qed

text \<open>The dump lists the unqueued archived tasks from the most recent to the oldest, each one
  the content of a directory of the history, and never a queued one.\<close>

theorem dump_sorted_unqueued:
  assumes "history_dump yaml_load queued dir 0 rm fs = Inr (fs', ts)" and "dir_ok fs dir"
  shows "sorted (map (\<lambda>t. - at_submission t) ts) \<and> distinct (map at_place ts)
    \<and> (\<forall>t \<in> set ts. \<exists>n. n \<notin> set queued \<and> at_place t = dir @ [n] \<and> fs_is_dir fs' (dir @ [n]))"
  using dump_facts(1,2,4) [OF assms] unfolding tasks_ok_def by force

text \<open>The \<^verbatim>\<open>last\<close> policy: the \<open>n\<close> most recent tasks keep their workspace, all others lose it,
  and the report counts the removed ones and their bytes.\<close>

theorem purge_last_spec:
  assumes "tasks_ok ts fs"
  shows "\<exists>st. purge_run (PurgeLast n) ts \<lparr>ps_fs = fs, ps_removed = 0, ps_retrieved = 0\<rparr> = Inr st
    \<and> (\<forall>t \<in> set (take (nat n) ts). lookup (at_place t) (ps_fs st) = lookup (at_place t) fs)
    \<and> (\<forall>t \<in> set (drop (nat n) ts). lookup (at_place t) (ps_fs st) = None)
    \<and> ps_removed st = length ts - nat n
    \<and> ps_retrieved st = sum_list (map (size_at fs) (drop (nat n) ts))"
proof -
  let ?st = "\<lparr>ps_fs = fs, ps_removed = 0, ps_retrieved = 0\<rparr>"
  have ok: "tasks_ok ts (ps_fs ?st)" using assms by simp
  have "t \<in> set ts \<and> t \<notin> set (drop (nat n) ts)" if "t \<in> set (take (nat n) ts)" for t
    using that set_take_disj_set_drop_if_distinct [of ts "nat n" "nat n"] assms
    by (auto simp: tasks_ok_def distinct_map dest: in_set_takeD)
  moreover obtain st where st: "last_run n ts ?st = Inr st"
    and gone: "\<forall>t \<in> set (drop (nat n) ts). lookup (at_place t) (ps_fs st) = None"
    and count: "ps_removed st = length ts - nat n"
      "ps_retrieved st = sum_list (map (size_at fs) (drop (nat n) ts))"
    using last_p.run_spec [OF ok, of n] by auto
  ultimately have "\<forall>t \<in> set (take (nat n) ts). lookup (at_place t) (ps_fs st) = lookup (at_place t) fs"
    using last_p.run_keeps [OF ok st] by simp
  with st gone count show ?thesis by simp
qed

lemma each_spec_mem:
  "distinct (seen @ ts) \<Longrightarrow> i < length ts \<Longrightarrow>
     ts ! i \<in> set (each_spec v seen ts) \<longleftrightarrow> v \<le> count_hist (at_histid (ts ! i)) (seen @ take i ts)"
proof (induction v seen ts arbitrary: i rule: each_spec.induct)
  case (2 v seen t ts)
  show ?case
  proof (cases i)
    case 0
    have "t \<notin> set (each_spec v (seen @ [t]) ts)"
      using subseq_facts(1) [OF subseq_each_spec] 2(3) by fastforce
    with 0 show ?thesis by auto
  next
    case (Suc j)
    have "ts ! j \<noteq> t" using 2(3,4) Suc by (auto simp: in_set_conv_nth)
    with 2 Suc show ?thesis by (cases "v \<le> count_hist (at_histid t) seen") auto
  qed
qed simp

text \<open>The \<^verbatim>\<open>each\<close> policy: a task keeps its workspace exactly when fewer than \<open>n\<close> of the tasks
  before it (the more recent ones) share its history identifier.\<close>

theorem purge_each_spec:
  assumes "tasks_ok ts fs"
  shows "\<exists>st. purge_run (PurgeEach n) ts \<lparr>ps_fs = fs, ps_removed = 0, ps_retrieved = 0\<rparr> = Inr st
    \<and> (\<forall>i < length ts. lookup (at_place (ts ! i)) (ps_fs st) =
         (if count_hist (at_histid (ts ! i)) (take i ts) < n then lookup (at_place (ts ! i)) fs else None))"
proof -
  let ?st = "\<lparr>ps_fs = fs, ps_removed = 0, ps_retrieved = 0\<rparr>"
  have ok: "tasks_ok ts (ps_fs ?st)" using assms by simp
  have "distinct ([] @ ts)" using assms by (simp add: tasks_ok_def distinct_map)
  note mem = each_spec_mem [OF this, of _ n, simplified]
  obtain st where st: "each_run n ts ?st = Inr st"
    and gone: "\<And>t. t \<in> set (each_spec n [] ts) \<Longrightarrow> lookup (at_place t) (ps_fs st) = None"
    using each.run_spec [OF ok, of n] by auto
  have "lookup (at_place (ts ! i)) (ps_fs st) =
      (if count_hist (at_histid (ts ! i)) (take i ts) < n then lookup (at_place (ts ! i)) fs else None)"
    if "i < length ts" for i
    using gone [of "ts ! i"] each.run_keeps [OF ok st, of "ts ! i"] mem [OF that] that by auto
  with st show ?thesis by auto
qed

lemma size_keep_bounds:
  "acc < v \<Longrightarrow> acc + sum_list (map sz (take (size_keep v sz acc ts) ts)) < v
    \<and> (size_keep v sz acc ts < length ts \<longrightarrow>
        v \<le> acc + sum_list (map sz (take (Suc (size_keep v sz acc ts)) ts)))"
proof (induction ts arbitrary: acc)
  case (Cons t ts)
  show ?case
  proof (cases "acc + sz t < v")
    case True
    from Cons.IH [OF True] Cons.prems True show ?thesis by (simp add: add.assoc)
  next
    case False
    with Cons.prems show ?thesis by simp
  qed
qed simp

text \<open>The \<^verbatim>\<open>size\<close> policy keeps a prefix of the history, the most recent tasks, whose total
  size is below the limit, and no longer prefix is: the total with the first removed task reaches it.\<close>

theorem purge_size_spec:
  assumes "tasks_ok ts fs" and "0 < limit"
  shows "\<exists>st k. purge_run (PurgeSize limit) ts \<lparr>ps_fs = fs, ps_removed = 0, ps_retrieved = 0\<rparr> = Inr st
    \<and> (\<forall>t \<in> set (take k ts). lookup (at_place t) (ps_fs st) = lookup (at_place t) fs)
    \<and> (\<forall>t \<in> set (drop k ts). lookup (at_place t) (ps_fs st) = None)
    \<and> sum_list (map (size_at fs) (take k ts)) < limit
    \<and> (k < length ts \<longrightarrow> limit \<le> sum_list (map (size_at fs) (take (Suc k) ts)))"
proof -
  let ?st = "\<lparr>ps_fs = fs, ps_removed = 0, ps_retrieved = 0\<rparr>" and ?k = "size_keep limit (size_at fs) 0 ts"
  have ok: "tasks_ok ts (ps_fs ?st)" using assms by simp
  have "t \<in> set ts \<and> t \<notin> set (drop ?k ts)" if "t \<in> set (take ?k ts)" for t
    using that set_take_disj_set_drop_if_distinct [of ts ?k ?k] assms
    by (auto simp: tasks_ok_def distinct_map dest: in_set_takeD)
  moreover obtain st where st: "size_run limit ts ?st = Inr st"
    and gone: "\<And>t. t \<in> set (drop ?k ts) \<Longrightarrow> lookup (at_place t) (ps_fs st) = None"
    using size_p.run_spec [OF ok, of limit] by auto
  ultimately have "lookup (at_place t) (ps_fs st) = lookup (at_place t) fs" if "t \<in> set (take ?k ts)" for t
    using size_p.run_keeps [OF ok st] that by simp
  with st gone size_keep_bounds [OF assms(2), of "size_at fs" ts] show ?thesis
    by (intro exI [of _ st] exI [of _ ?k]) simp
qed

lemma histid_of_strings:
  assumes "\<And>f. f \<in> set flds \<Longrightarrow> f_histid f \<Longrightarrow> \<exists>s. getattr attrs (f_name f) = Inr (PStr s)"
  shows "\<exists>h. histid_of flds name attrs = Inr h"
proof -
  obtain s where s: "\<And>f. f \<in> set flds \<Longrightarrow> f_histid f \<Longrightarrow> getattr attrs (f_name f) = Inr (PStr (s f))"
    using assms by metis
  have "rmapM (\<lambda>f. rbind (getattr attrs (f_name f)) join_item) (filter f_histid flds)
     = Inr (map s (filter f_histid flds))"
    by (rule rmapM_Inr_map) (auto simp: join_item_def s)
  then show ?thesis by (simp add: histid_of_def)
qed

lemma form_native_sent:
  assumes "task_fields register_protocols name = Inr flds" and "map_of attrs ''name'' = Some (PStr name)"
    and "distinct (map f_name (filter f_archived flds))"
    and "send_fields (field_export registered_classes) attrs (filter f_archived flds) = Inr form"
    and "recv_fields (native_convert native_ctor) form (filter f_archived flds) = Inr kw"
    and "map_of d = map_of form"
  shows "form_native d = Inr kw"
proof -
  have "map_of form ''name'' = Some (PStr name)"
    using send_fields_map_of [OF assms(4,3), of "ExportableTaskField ''name'' TStr True False"]
      task_fields_facts(1) [OF assms(1)] assms(2)
    by (auto simp: ExportableTaskField_def field_export.simps)
  then show ?thesis
    using assms(1) form_native_recv [OF assms(5,6)]
    by (simp add: form_native_def getattr_def assms(6) form_key_def)
qed


section \<open>Witnesses\<close>

definition hist_fs :: node where
  "hist_fs = Dir [(''w'', Dir [(''t1'', Dir [(''task.yml'', File ''1'')]), (''t2'', Dir [(''task.yml'', File ''22'')]),
     (''t3'', Dir [(''log'', File ''abc'')]), (''t4'', Dir [(''log'', File ''d'')])])]"

definition hist_yaml :: "string \<Rightarrow> pyval res" where
  "hist_yaml txt = Inr (PDict [(''name'', PStr ''history purge''), (''user'', PNone),
     (''submission'', PInt (int (length txt))), (''result'', PStr ''success'')])"

lemma hist_purge_example:
  "history_purge hist_yaml [''t3''] [''w''] 0 ''last'' ''1'' hist_fs =
     Inr \<lparr>ps_fs = Dir [(''w'', Dir [(''t2'', Dir [(''task.yml'', File ''22'')]), (''t3'', Dir [(''log'', File ''abc'')])])],
          ps_removed = 1, ps_retrieved = 1\<rparr>"
  by code_simp

theorem purge_spares_queue_witness:
  "history_purge hist_yaml [''t3''] [''w''] 0 ''last'' ''1'' hist_fs =
     Inr \<lparr>ps_fs = Dir [(''w'', Dir [(''t2'', Dir [(''task.yml'', File ''22'')]), (''t3'', Dir [(''log'', File ''abc'')])])],
          ps_removed = 1, ps_retrieved = 1\<rparr>
   \<and> lookup [''w'', ''t3'', ''log''] (Dir [(''w'', Dir [(''t2'', Dir [(''task.yml'', File ''22'')]),
        (''t3'', Dir [(''log'', File ''abc'')])])]) = lookup [''w'', ''t3'', ''log''] hist_fs"
  using purge_spares_queue [OF hist_purge_example, of "''t3''" "[''log'']"] hist_purge_example
  by (simp add: dir_ok_def hist_fs_def)

lemma hist_dump_example:
  "rmap (\<lambda>(fs, ts). (fs, map at_id ts)) (history_dump hist_yaml [''t3''] [''w''] 0 False hist_fs)
     = Inr (hist_fs, [''t2'', ''t1''])"
  by code_simp

theorem dump_sorted_unqueued_witness:
  "\<exists>ts. history_dump hist_yaml [''t3''] [''w''] 0 False hist_fs = Inr (hist_fs, ts) \<and> map at_id ts = [''t2'', ''t1'']
     \<and> sorted (map (\<lambda>t. - at_submission t) ts)"
proof -
  obtain ts where ts: "history_dump hist_yaml [''t3''] [''w''] 0 False hist_fs = Inr (hist_fs, ts)"
    "map at_id ts = [''t2'', ''t1'']" using hist_dump_example by (auto simp: rmap_Inr_conv)
  have "dir_ok hist_fs [''w'']" by (simp add: dir_ok_def hist_fs_def)
  from dump_sorted_unqueued [OF ts(1) this] ts show ?thesis by (intro exI [of _ ts]) simp
qed

definition hist_task :: "string \<Rightarrow> int \<Rightarrow> string \<Rightarrow> archived_task" where
  "hist_task i sub h = \<lparr>at_id = i, at_name = ''history purge'', at_submission = sub, at_place = [''w'', i],
     at_histid = h, at_attrs = []\<rparr>"

definition hist_tasks :: "archived_task list" where
  "hist_tasks = [hist_task ''t3'' 9 ''a'', hist_task ''t2'' 5 ''a'', hist_task ''t1'' 4 ''b'']"

lemma hist_tasks_ok: "tasks_ok hist_tasks hist_fs"
  by (simp add: tasks_ok_def hist_tasks_def hist_task_def hist_fs_def fs_is_dir_def apart_def)

theorem purge_last_spec_witness:
  "\<exists>st. purge_run (PurgeLast 2) hist_tasks \<lparr>ps_fs = hist_fs, ps_removed = 0, ps_retrieved = 0\<rparr> = Inr st
    \<and> lookup [''w'', ''t3''] (ps_fs st) = Some (Dir [(''log'', File ''abc'')])
    \<and> lookup [''w'', ''t1''] (ps_fs st) = None \<and> ps_removed st = 1 \<and> ps_retrieved st = 1"
  using purge_last_spec [OF hist_tasks_ok, of 2]
  by (auto simp: hist_tasks_def hist_task_def hist_fs_def size_at_def numeral_2_eq_2)

theorem purge_each_spec_witness:
  "\<exists>st. purge_run (PurgeEach 1) hist_tasks \<lparr>ps_fs = hist_fs, ps_removed = 0, ps_retrieved = 0\<rparr> = Inr st
    \<and> lookup [''w'', ''t1''] (ps_fs st) = Some (Dir [(''task.yml'', File ''1'')])
    \<and> lookup [''w'', ''t2''] (ps_fs st) = None"
proof -
  obtain st where st: "purge_run (PurgeEach 1) hist_tasks \<lparr>ps_fs = hist_fs, ps_removed = 0, ps_retrieved = 0\<rparr> = Inr st"
    and *: "\<And>i. i < length hist_tasks \<Longrightarrow> lookup (at_place (hist_tasks ! i)) (ps_fs st) =
      (if count_hist (at_histid (hist_tasks ! i)) (take i hist_tasks) < 1
       then lookup (at_place (hist_tasks ! i)) hist_fs else None)"
    using purge_each_spec [OF hist_tasks_ok, of 1] by blast
  show ?thesis
    using st * [of 1] * [of 2]
    by (simp add: hist_tasks_def hist_task_def hist_fs_def count_hist_def numeral_2_eq_2)
qed

theorem purge_size_spec_witness:
  "\<exists>st k. purge_run (PurgeSize 4) hist_tasks \<lparr>ps_fs = hist_fs, ps_removed = 0, ps_retrieved = 0\<rparr> = Inr st
    \<and> sum_list (map (size_at hist_fs) (take k hist_tasks)) < 4
    \<and> (k < length hist_tasks \<longrightarrow> 4 \<le> sum_list (map (size_at hist_fs) (take (Suc k) hist_tasks)))"
  using purge_size_spec [OF hist_tasks_ok, of 4] by (simp add: Let_def) blast


end
