(* ===== verification/ConsoleProto.thy ===== *)
theory ConsoleProto imports PyStr begin

text \<open>
  The console protocol of \<^verbatim>\<open>fatbuildr/console/__init__.py\<close>: messages with a fixed header
  (\<^verbatim>\<open>struct\<close> format \<^verbatim>\<open>HI\<close>: a 16 bit command, two bytes of padding, a 32 bit size, in the
  little-endian native layout), and the functions of \<^verbatim>\<open>console/client.py\<close> that read them from
  a file, a socket or the chunks of an HTTP response. Byte strings are \<open>string\<close>; \<^verbatim>\<open>decode\<close>
  of a log entry is the identity on its bytes. What the protocol needs of a reader is the locale
  \<open>byte_reader\<close>.
\<close>

section \<open>Fixed-width integers\<close>

fun le_bytes :: "nat \<Rightarrow> nat \<Rightarrow> string" where
  "le_bytes 0 v = []"
| "le_bytes (Suc n) v = char_of (v mod 256) # le_bytes n (v div 256)"

fun le_val :: "string \<Rightarrow> nat" where
  "le_val [] = 0"
| "le_val (c # cs) = of_char c + 256 * le_val cs"

lemma length_le_bytes [simp]: "length (le_bytes n v) = n"
  by (induction n arbitrary: v) auto

lemma le_val_bytes: "v < 256 ^ n \<Longrightarrow> le_val (le_bytes n v) = v"
proof (induction n arbitrary: v)
  case (Suc n)
  then have "v div 256 < 256 ^ n" by (simp add: less_mult_imp_div_less)
  with Suc.IH show ?case by simp
qed simp

lemma le_val_bound: "le_val s < 256 ^ length s"
proof (induction s)
  case (Cons c s)
  have "(of_char c :: nat) < 256" by simp
  then have "of_char c + 256 * le_val s < 256 * (le_val s + 1)" by simp
  also have "\<dots> \<le> 256 * 256 ^ length s" using Cons by (intro mult_le_mono2) simp
  finally show ?case by simp
qed simp

section \<open>Messages\<close>

record console_message =
  cm_cmd :: nat
  cm_data :: "string option"

definition CMD_LOG :: nat where "CMD_LOG = 0"
definition CMD_BYTES :: nat where "CMD_BYTES = 1"
definition CMD_RAW_ENABLE :: nat where "CMD_RAW_ENABLE = 2"
definition CMD_RAW_DISABLE :: nat where "CMD_RAW_DISABLE = 3"
definition CMD_WINCH :: nat where "CMD_WINCH = 4"

definition ConsoleMessage :: "nat \<Rightarrow> string option \<Rightarrow> console_message" where
  "ConsoleMessage cmd data = \<lparr>cm_cmd = cmd, cm_data = data\<rparr>"

definition data_bytes :: "console_message \<Rightarrow> string" where
  "data_bytes m = (case cm_data m of None \<Rightarrow> [] | Some d \<Rightarrow> d)"

definition cm_size :: "console_message \<Rightarrow> nat" where
  "cm_size m = length (data_bytes m)"

definition IS_LOG :: "console_message \<Rightarrow> bool" where "IS_LOG m \<longleftrightarrow> cm_cmd m = CMD_LOG"
definition IS_BYTES :: "console_message \<Rightarrow> bool" where "IS_BYTES m \<longleftrightarrow> cm_cmd m = CMD_BYTES"
definition IS_RAW_ENABLE :: "console_message \<Rightarrow> bool" where "IS_RAW_ENABLE m \<longleftrightarrow> cm_cmd m = CMD_RAW_ENABLE"
definition IS_RAW_DISABLE :: "console_message \<Rightarrow> bool" where "IS_RAW_DISABLE m \<longleftrightarrow> cm_cmd m = CMD_RAW_DISABLE"
definition IS_WINCH :: "console_message \<Rightarrow> bool" where "IS_WINCH m \<longleftrightarrow> cm_cmd m = CMD_WINCH"

text \<open>\<^verbatim>\<open>struct.pack('HI', cmd, size)\<close> and \<^verbatim>\<open>struct.unpack('HI', buffer)\<close>.\<close>

definition pack_HI :: "nat \<Rightarrow> nat \<Rightarrow> string res" where
  "pack_HI cmd sz =
     (if cmd < 2 ^ 16 \<and> sz < 2 ^ 32
      then Inr (le_bytes 2 cmd @ [CHR 0x00, CHR 0x00] @ le_bytes 4 sz) else Inl StructErr)"

definition unpack_HI :: "string \<Rightarrow> (nat \<times> nat) res" where
  "unpack_HI b =
     (if length b = 8 then Inr (le_val (take 2 b), le_val (drop 4 b)) else Inl StructErr)"

definition raw :: "console_message \<Rightarrow> string res" where
  "raw m = rmap (\<lambda>buffer. buffer @ data_bytes m) (pack_HI (cm_cmd m) (cm_size m))"

text \<open>\<^verbatim>\<open>ConsoleMessage.read\<close> with any reader.\<close>

definition ConsoleMessage_read :: "(nat \<Rightarrow> 'r \<Rightarrow> string \<times> 'r) \<Rightarrow> 'r \<Rightarrow> console_message option res \<times> 'r" where
  "ConsoleMessage_read reader r =
     (let (buffer, r1) = reader 8 r
      in if length buffer = 0 then (Inr None, r1)
         else (case unpack_HI buffer of
                 Inl e \<Rightarrow> (Inl e, r1)
               | Inr (cmd, sz) \<Rightarrow>
                   if sz \<noteq> 0 then (let (data, r2) = reader sz r1 in (Inr (Some (ConsoleMessage cmd (Some data))), r2))
                   else (Inr (Some (ConsoleMessage cmd None)), r1)))"

section \<open>The generator\<close>

definition is_task_end_log_entry :: "string \<Rightarrow> bool res" where
  "is_task_end_log_entry entry =
     rmap (\<lambda>msg. startswith msg ''Task failed'' \<or> startswith msg ''Task succeeded'')
       (list_item (split_on CHR '':'' entry) 1)"

definition is_task_end_msg :: "console_message \<Rightarrow> bool res" where
  "is_task_end_msg m =
     (if IS_LOG m then (case cm_data m of None \<Rightarrow> Inl AttributeErr | Some d \<Rightarrow> is_task_end_log_entry d)
      else Inr False)"

text \<open>\<^verbatim>\<open>_console_generator\<close>: the messages it yields, and how it ends. The fuel bounds the number of
  messages; \<open>RecursionErr\<close> stands for its exhaustion, which the lemmas exclude.\<close>

fun console_generator ::
  "nat \<Rightarrow> (nat \<Rightarrow> 'r \<Rightarrow> string \<times> 'r) \<Rightarrow> 'r \<Rightarrow> console_message list \<times> unit res" where
  "console_generator 0 reader r = ([], Inl RecursionErr)"
| "console_generator (Suc n) reader r =
     (case ConsoleMessage_read reader r of
        (Inl e, _) \<Rightarrow> ([], Inl e)
      | (Inr None, _) \<Rightarrow> ([], Inr ())
      | (Inr (Some m), r') \<Rightarrow>
          (case is_task_end_msg m of
             Inl e \<Rightarrow> ([m], Inl e)
           | Inr True \<Rightarrow> ([m], Inr ())
           | Inr False \<Rightarrow>
               (let (ms, out) = console_generator n reader r' in (m # ms, out))))"

section \<open>Readers\<close>

text \<open>\<^verbatim>\<open>os.read(fd, n)\<close> on a regular file: what is left of it.\<close>

definition file_reader :: "nat \<Rightarrow> string \<Rightarrow> string \<times> string" where
  "file_reader n s = (take n s, drop n s)"

text \<open>\<^verbatim>\<open>connection.recv(n)\<close>: the next segment or its beginning; nothing once the peer has
  closed.\<close>

fun recv :: "nat \<Rightarrow> string list \<Rightarrow> string \<times> string list" where
  "recv n [] = ([], [])"
| "recv n (c # cs) = (take n c, if n < length c then drop n c # cs else cs)"

text \<open>The reader of \<^verbatim>\<open>console_unix_client\<close>: after two receptions in a row that bring nothing it
  gives up with an empty result. (The source tests \<^verbatim>\<open>retries == 2\<close>; the counter starts at zero and
  grows by one.)\<close>

lemma recv_left:
  "length (concat (snd (recv n cs))) + length (fst (recv n cs)) = length (concat cs)"
  by (cases cs) auto

lemma recv_join: "fst (recv n cs) @ concat (snd (recv n cs)) = concat cs"
  by (cases cs) auto

function unix_loop :: "nat \<Rightarrow> string \<Rightarrow> nat \<Rightarrow> nat \<Rightarrow> string list \<Rightarrow> string \<times> string list" where
  "unix_loop sz data prev retries cs =
     (if length data < sz then
        (if length data = prev then
           (if 2 \<le> retries + 1 then ([], cs)
            else (let (d, cs') = recv (sz - length data) cs
                  in unix_loop sz (data @ d) prev (retries + 1) cs'))
         else (let (d, cs') = recv (sz - length data) cs
               in unix_loop sz (data @ d) (length data) 0 cs'))
      else (data, cs))"
  by pat_completeness auto
termination
proof (relation "measures [\<lambda>(sz, data, prev, retries, cs). length (concat cs),
    \<lambda>(sz, data, prev, retries, cs). if length data = prev then 2 - retries else 3]", goal_cases)
  case 1
  then show ?case by simp
next
  case (2 sz data prev retries cs p d cs')
  have "length (concat cs') + length d = length (concat cs)"
    using recv_left [of "sz - length data" cs] 2 by (simp add: prod_eq_iff)
  with 2 show ?case by (cases d) auto
next
  case (3 sz data prev retries cs p d cs')
  have "length (concat cs') + length d = length (concat cs)"
    using recv_left [of "sz - length data" cs] 3 by (simp add: prod_eq_iff)
  with 3 show ?case by (cases d) auto
qed

declare unix_loop.simps [simp del]

definition unix_reader :: "nat \<Rightarrow> string list \<Rightarrow> string \<times> string list" where
  "unix_reader sz cs = (let (d, cs') = recv sz cs in unix_loop sz d 0 0 cs')"

text \<open>The reader of \<^verbatim>\<open>tty_client_console\<close> receives until it has enough: it does not return when
  the peer closes before that, which is the value \<^const>\<open>None\<close>.\<close>

partial_function (option) tty_loop :: "nat \<Rightarrow> string \<Rightarrow> string list \<Rightarrow> (string \<times> string list) option" where
  "tty_loop n data cs =
     (if length data < n then tty_loop n (data @ fst (recv (n - length data) cs)) (snd (recv (n - length data) cs))
      else Some (data, cs))"

definition tty_reader :: "nat \<Rightarrow> string list \<Rightarrow> (string \<times> string list) option" where
  "tty_reader n cs = tty_loop n (fst (recv n cs)) (snd (recv n cs))"

text \<open>The reader of \<^verbatim>\<open>console_http_client\<close>: a buffer, then the chunks of the response. A chunk
  error is reported and the loop goes on with the old buffer, but the iterator is then exhausted.\<close>

datatype http_item = Chunk string | ChunkError

fun http_loop :: "nat \<Rightarrow> string \<Rightarrow> string \<Rightarrow> http_item list \<Rightarrow> string \<times> string \<times> http_item list" where
  "http_loop n chunk buffer items =
     (if n = 0 then (chunk, buffer, items)
      else if n \<le> length buffer then (chunk @ take n buffer, drop n buffer, items)
      else (case items of
              [] \<Rightarrow> ([], buffer, [])
            | Chunk c # its \<Rightarrow> http_loop (n - length buffer) (chunk @ buffer) c its
            | ChunkError # its \<Rightarrow> http_loop (n - length buffer) (chunk @ buffer) buffer []))"

declare http_loop.simps [simp del]

definition http_reader :: "nat \<Rightarrow> string \<times> http_item list \<Rightarrow> string \<times> string \<times> http_item list" where
  "http_reader n st = http_loop n [] (fst st) (snd st)"

section \<open>What the protocol needs of a reader\<close>

locale byte_reader =
  fixes read :: "nat \<Rightarrow> 'r \<Rightarrow> string \<times> 'r" and remaining :: "'r \<Rightarrow> string" and good :: "'r \<Rightarrow> bool"
  assumes read_enough: "good r \<Longrightarrow> 0 < n \<Longrightarrow> n \<le> length (remaining r) \<Longrightarrow>
      \<exists>r'. read n r = (take n (remaining r), r') \<and> remaining r' = drop n (remaining r) \<and> good r'"
    and read_end: "good r \<Longrightarrow> 0 < n \<Longrightarrow> remaining r = [] \<Longrightarrow> \<exists>r'. read n r = ([], r')"

text \<open>A message as the constructor makes it from nonempty data or none, and the bytes of a list of
  messages.\<close>

definition wf_message :: "console_message \<Rightarrow> bool" where
  "wf_message m \<longleftrightarrow> cm_data m \<noteq> Some [] \<and> cm_cmd m < 2 ^ 16 \<and> cm_size m < 2 ^ 32"

definition frame :: "console_message \<Rightarrow> string" where
  "frame m = le_bytes 2 (cm_cmd m) @ [CHR 0x00, CHR 0x00] @ le_bytes 4 (cm_size m) @ data_bytes m"

lemma raw_frame: "wf_message m \<Longrightarrow> raw m = Inr (frame m)"
  by (simp add: wf_message_def raw_def pack_HI_def frame_def)

definition frames :: "console_message list \<Rightarrow> string" where
  "frames ms = concat (map frame ms)"

text \<open>The prefix that a client sees: up to the first message that ends the task.\<close>

fun until_end :: "console_message list \<Rightarrow> console_message list" where
  "until_end [] = []"
| "until_end (m # ms) = (if is_task_end_msg m = Inr True then [m] else m # until_end ms)"

definition header :: "nat \<Rightarrow> nat \<Rightarrow> string" where
  "header cmd sz = le_bytes 2 cmd @ [CHR 0x00, CHR 0x00] @ le_bytes 4 sz"

lemma length_header [simp]: "length (header cmd sz) = 8"
  by (simp add: header_def)

lemma frame_header: "frame m = header (cm_cmd m) (cm_size m) @ data_bytes m"
  by (simp add: frame_def header_def)

lemma unpack_header:
  assumes "wf_message m"
  shows "unpack_HI (header (cm_cmd m) (cm_size m)) = Inr (cm_cmd m, cm_size m)"
  using assms le_val_bytes [of "cm_cmd m" 2] le_val_bytes [of "cm_size m" 4]
  by (simp add: unpack_HI_def wf_message_def header_def)

context byte_reader begin

lemma read_message:
  assumes "wf_message m" and "good r" and "remaining r = frame m @ t"
  shows "\<exists>r'. ConsoleMessage_read read r = (Inr (Some m), r') \<and> remaining r' = t \<and> good r'"
proof -
  let ?h = "header (cm_cmd m) (cm_size m)"
  obtain r1 where r1: "read 8 r = (?h, r1)" "remaining r1 = data_bytes m @ t" "good r1"
    using read_enough [OF assms(2), of 8] assms(3) by (auto simp: frame_header)
  have ne: "?h \<noteq> []" using length_header [of "cm_cmd m" "cm_size m"] by (metis list.size(3) zero_neq_numeral)
  show ?thesis
  proof (cases "cm_data m")
    case None
    then have "cm_size m = 0" by (simp add: cm_size_def data_bytes_def)
    with r1 ne unpack_header [OF assms(1)] None show ?thesis
      by (simp add: ConsoleMessage_read_def ConsoleMessage_def data_bytes_def)
  next
    case (Some d)
    then have d: "data_bytes m = d" "d \<noteq> []" "cm_size m = length d"
      using assms(1) by (auto simp: data_bytes_def cm_size_def wf_message_def)
    from read_enough [OF r1(3), of "length d"] d r1(2) obtain r2
      where r2: "read (length d) r1 = (d, r2)" "remaining r2 = t" "good r2" by auto
    have m: "m = \<lparr>cm_cmd = cm_cmd m, cm_data = Some d\<rparr>" using Some by (cases m) simp
    show ?thesis
      using r1(1) r2 ne unpack_header [OF assms(1)] d m
      by (simp add: ConsoleMessage_read_def ConsoleMessage_def)
  qed
qed

lemma read_eof:
  assumes "good r" and "remaining r = []"
  shows "\<exists>r'. ConsoleMessage_read read r = (Inr None, r')"
  using read_end [OF assms(1), of 8] assms(2) by (auto simp: ConsoleMessage_read_def)

text \<open>Whatever the reader, the generator yields the messages that were framed, up to the end of the
  task, and stops without error.\<close>

lemma generator_frames:
  assumes "\<And>m. m \<in> set ms \<Longrightarrow> wf_message m \<and> (\<exists>b. is_task_end_msg m = Inr b)"
    and "good r" and "remaining r = frames ms" and "length ms < fuel"
  shows "console_generator fuel read r = (until_end ms, Inr ())"
  using assms
proof (induction ms arbitrary: r fuel)
  case Nil
  then obtain r' where "ConsoleMessage_read read r = (Inr None, r')"
    using read_eof by (auto simp: frames_def)
  with Nil show ?case by (cases fuel) auto
next
  case (Cons m ms)
  from Cons.prems(4) obtain n where n: "fuel = Suc n" "length ms < n" by (cases fuel) auto
  obtain r' where r': "ConsoleMessage_read read r = (Inr (Some m), r')" "remaining r' = frames ms" "good r'"
    using read_message [of m r "frames ms"] Cons.prems(1-3) by (auto simp: frames_def)
  obtain b where b: "is_task_end_msg m = Inr b" using Cons.prems(1) by auto
  have "console_generator n read r' = (until_end ms, Inr ())"
    using Cons.IH [OF _ r'(3,2) n(2)] Cons.prems(1) by simp
  with n r' b show ?case by (cases b) simp_all
qed

end

section \<open>The readers of the code keep it\<close>

interpretation file_io: byte_reader file_reader "\<lambda>s. s" "\<lambda>_. True"
  by unfold_locales (auto simp: file_reader_def)

lemma recv_step:
  assumes "[] \<notin> set cs" and "cs \<noteq> []" and "0 < n"
  shows "fst (recv n cs) \<noteq> []" "fst (recv n cs) @ concat (snd (recv n cs)) = concat cs"
    "[] \<notin> set (snd (recv n cs))" "length (fst (recv n cs)) \<le> n"
  using assms by (cases cs; auto)+

lemma unix_loop_enough:
  assumes "[] \<notin> set cs" and "n \<le> length data + length (concat cs)" and "prev < length data \<or> n \<le> length data"
    and "length data \<le> n"
  shows "\<exists>cs'. unix_loop n data prev retries cs = (data @ take (n - length data) (concat cs), cs')
    \<and> concat cs' = drop (n - length data) (concat cs) \<and> [] \<notin> set cs'"
  using assms
proof (induction n data prev retries cs rule: unix_loop.induct)
  case (1 n data prev retries cs)
  show ?case
  proof (cases "length data < n")
    case False
    with 1(6) have "length data = n" by simp
    then show ?thesis using 1(3) by (subst unix_loop.simps) simp
  next
    case True
    let ?d = "fst (recv (n - length data) cs)" and ?cs = "snd (recv (n - length data) cs)"
    have ne: "cs \<noteq> []" using True 1(4) by auto
    have pos: "0 < n - length data" using True by simp
    note step = recv_step [OF 1(3) ne pos]
    have len: "length (?d @ concat ?cs) = length (concat cs)" using step(2) by simp
    have np: "length data \<noteq> prev" using True 1(5) by auto
    have eq: "unix_loop n data prev retries cs = unix_loop n (data @ ?d) (length data) 0 ?cs"
      using True np by (subst unix_loop.simps) (simp add: case_prod_beta)
    have a: "n \<le> length (data @ ?d) + length (concat ?cs)" using len 1(4) by simp
    have b: "length data < length (data @ ?d) \<or> n \<le> length (data @ ?d)" using step(1) by simp
    have c: "length (data @ ?d) \<le> n" using step(4) True by simp
    from 1(2) [OF True np refl prod.collapse step(3) a b c]
    obtain cs' where "unix_loop n (data @ ?d) (length data) 0 ?cs =
        ((data @ ?d) @ take (n - length (data @ ?d)) (concat ?cs), cs')"
      "concat cs' = drop (n - length (data @ ?d)) (concat ?cs)" "[] \<notin> set cs'" by blast
    moreover have "take (n - length data) (concat cs) = ?d @ take (n - length (data @ ?d)) (concat ?cs)"
      "drop (n - length data) (concat cs) = drop (n - length (data @ ?d)) (concat ?cs)"
      unfolding step(2) [symmetric] using step(4) by simp_all
    ultimately show ?thesis using eq by auto
  qed
qed

lemma unix_loop_end: "0 < n \<Longrightarrow> unix_loop n [] 0 0 [] = ([], [])"
  by (subst unix_loop.simps, simp, subst unix_loop.simps, simp)

interpretation unix_io: byte_reader unix_reader concat "\<lambda>cs. [] \<notin> set cs"
proof
  fix n :: nat and cs :: "string list"
  assume good: "[] \<notin> set cs" and n: "0 < n" and enough: "n \<le> length (concat cs)"
  have ne: "cs \<noteq> []" using n enough by auto
  let ?d = "fst (recv n cs)" and ?cs = "snd (recv n cs)"
  note step = recv_step [OF good ne n]
  have len: "n \<le> length ?d + length (concat ?cs)" using enough step(2) by (metis length_append)
  obtain cs' where "unix_loop n ?d 0 0 ?cs = (?d @ take (n - length ?d) (concat ?cs), cs')"
    "concat cs' = drop (n - length ?d) (concat ?cs)" "[] \<notin> set cs'"
    using unix_loop_enough [OF step(3) len, of 0 0] step(1,4) by auto
  moreover have "take n (concat cs) = ?d @ take (n - length ?d) (concat ?cs)"
    "drop n (concat cs) = drop (n - length ?d) (concat ?cs)"
    unfolding step(2) [symmetric] using step(4) by simp_all
  ultimately show "\<exists>r'. unix_reader n cs = (take n (concat cs), r') \<and> concat r' = drop n (concat cs) \<and> [] \<notin> set r'"
    by (simp add: unix_reader_def case_prod_beta)
next
  fix n :: nat and cs :: "string list"
  assume "[] \<notin> set cs" "0 < n" "concat cs = []"
  then have "cs = []" by (cases cs) auto
  then show "\<exists>r'. unix_reader n cs = ([], r')" using \<open>0 < n\<close> by (simp add: unix_reader_def unix_loop_end)
qed

text \<open>The bytes left in an HTTP response without transfer errors.\<close>

fun items_bytes :: "http_item list \<Rightarrow> string" where
  "items_bytes [] = []"
| "items_bytes (Chunk c # its) = c @ items_bytes its"
| "items_bytes (ChunkError # its) = []"

lemma http_loop_enough:
  assumes "n \<le> length (buffer @ items_bytes items)" and "ChunkError \<notin> set items"
  shows "\<exists>b its. http_loop n chunk buffer items = (chunk @ take n (buffer @ items_bytes items), b, its)
    \<and> b @ items_bytes its = drop n (buffer @ items_bytes items) \<and> ChunkError \<notin> set its"
  using assms
proof (induction items arbitrary: n chunk buffer)
  case Nil
  then show ?case by (subst http_loop.simps) auto
next
  case (Cons i its)
  then obtain c where i: "i = Chunk c" by (cases i) auto
  show ?case
  proof (cases "n \<le> length buffer")
    case True
    with Cons.prems i show ?thesis by (subst http_loop.simps) auto
  next
    case False
    with Cons.prems i have "n - length buffer \<le> length (c @ items_bytes its)" by simp
    from Cons.IH [OF this, of "chunk @ buffer"] Cons.prems False i show ?thesis
      by (subst http_loop.simps) auto
  qed
qed

lemma http_loop_end:
  assumes "0 < n" and "buffer @ items_bytes items = []" and "ChunkError \<notin> set items"
  shows "fst (http_loop n [] buffer items) = []"
  using assms
proof (induction items arbitrary: buffer)
  case Nil
  then show ?case by (subst http_loop.simps) simp
next
  case (Cons i its)
  then obtain c where i: "i = Chunk c" by (cases i) auto
  with Cons show ?case by (subst http_loop.simps) auto
qed

interpretation http_io: byte_reader http_reader "\<lambda>(b, its). b @ items_bytes its" "\<lambda>(b, its). ChunkError \<notin> set its"
proof
  fix n :: nat and r :: "string \<times> http_item list"
  assume "case r of (b, its) \<Rightarrow> ChunkError \<notin> set its" "n \<le> length (case r of (b, its) \<Rightarrow> b @ items_bytes its)"
  then show "\<exists>r'. http_reader n r = (take n (case r of (b, its) \<Rightarrow> b @ items_bytes its), r')
      \<and> (case r' of (b, its) \<Rightarrow> b @ items_bytes its) = drop n (case r of (b, its) \<Rightarrow> b @ items_bytes its)
      \<and> (case r' of (b, its) \<Rightarrow> ChunkError \<notin> set its)"
    using http_loop_enough [of n "fst r" "snd r" "[]"] by (cases r) (auto simp: http_reader_def)
next
  fix n :: nat and r :: "string \<times> http_item list"
  assume "case r of (b, its) \<Rightarrow> ChunkError \<notin> set its" "0 < n" "(case r of (b, its) \<Rightarrow> b @ items_bytes its) = []"
  then have "fst (http_reader n r) = []"
    using http_loop_end [of n "fst r" "snd r"] by (cases r) (simp add: http_reader_def)
  then show "\<exists>r'. http_reader n r = ([], r')" by (cases "http_reader n r") simp
qed

text \<open>The reader of the interactive client returns exactly when enough bytes come.\<close>

lemma tty_loop_some:
  assumes "tty_loop n data cs = Some y"
  shows "n \<le> length data + length (concat cs)"
proof (rule tty_loop.raw_induct [where P = "\<lambda>n data cs y. n \<le> length data + length (concat cs)", OF _ assms])
  fix f :: "nat \<Rightarrow> string \<Rightarrow> string list \<Rightarrow> (string \<times> string list) option" and n data cs y
  assume IH: "\<And>n data cs y. f n data cs = Some y \<Longrightarrow> n \<le> length data + length (concat cs)"
    and body: "(if length data < n then f n (data @ fst (recv (n - length data) cs)) (snd (recv (n - length data) cs))
      else Some (data, cs)) = Some y"
  show "n \<le> length data + length (concat cs)"
  proof (cases "length data < n")
    case True
    with body have "f n (data @ fst (recv (n - length data) cs)) (snd (recv (n - length data) cs)) = Some y" by simp
    from IH [OF this] show ?thesis using recv_left [of "n - length data" cs] by simp
  qed simp
qed

lemma tty_loop_enough:
  assumes "[] \<notin> set cs" and "length data \<le> n" and "n \<le> length data + length (concat cs)"
  shows "\<exists>cs'. tty_loop n data cs = Some (data @ take (n - length data) (concat cs), cs')"
  using assms
proof (induction "length (concat cs)" arbitrary: data cs rule: less_induct)
  case less
  show ?case
  proof (cases "length data < n")
    case False
    with less.prems(2) show ?thesis by (subst tty_loop.simps) simp
  next
    case True
    let ?d = "fst (recv (n - length data) cs)" and ?cs = "snd (recv (n - length data) cs)"
    have ne: "cs \<noteq> []" and pos: "0 < n - length data" using True less.prems(3) by auto
    note step = recv_step [OF less.prems(1) ne pos]
    have len: "length ?d + length (concat ?cs) = length (concat cs)" using step(2) by (metis length_append)
    have "length (concat ?cs) < length (concat cs)" using len step(1) by (cases ?d) auto
    moreover have "length (data @ ?d) \<le> n" "n \<le> length (data @ ?d) + length (concat ?cs)"
      using step(4) True len less.prems(3) by simp_all
    ultimately obtain cs' where cs': "tty_loop n (data @ ?d) ?cs =
        Some ((data @ ?d) @ take (n - length (data @ ?d)) (concat ?cs), cs')"
      using less.hyps [OF _ step(3)] by blast
    have "take (n - length data) (concat cs) = ?d @ take (n - length (data @ ?d)) (concat ?cs)"
      unfolding step(2) [symmetric] using step(4) by simp
    with cs' True show ?thesis by (subst tty_loop.simps) simp
  qed
qed

section \<open>Properties\<close>

text \<open>A stream of messages: well formed, and each log entry has the shape the end test needs.\<close>

definition good_stream :: "console_message list \<Rightarrow> bool" where
  "good_stream ms \<longleftrightarrow> (\<forall>m \<in> set ms. wf_message m \<and> (\<exists>b. is_task_end_msg m = Inr b))"

text \<open>C27. What the server frames, every client reads back: from a journal file, from a socket that
  delivers the bytes in any segments, and from an HTTP response cut into any chunks, the generator
  yields the same messages, up to the one that ends the task, and stops without error.\<close>

theorem console_stream_roundtrip:
  assumes "good_stream ms" and "length ms < fuel"
    and "[] \<notin> set segments" and "concat segments = frames ms"
    and "ChunkError \<notin> set items" and "buffer @ items_bytes items = frames ms"
  shows "console_generator fuel file_reader (frames ms) = (until_end ms, Inr ())
    \<and> console_generator fuel unix_reader segments = (until_end ms, Inr ())
    \<and> console_generator fuel http_reader (buffer, items) = (until_end ms, Inr ())"
  using file_io.generator_frames [of ms "frames ms" fuel] unix_io.generator_frames [of ms segments fuel]
    http_io.generator_frames [of ms "(buffer, items)" fuel] assms
  by (auto simp: good_stream_def)

text \<open>The interactive client's read of \<open>n\<close> bytes ends exactly when the server sends that many
  before it closes: with enough bytes, cut in any segments, it returns them; otherwise the loop never
  returns.\<close>

theorem tty_reader_blocks:
  assumes "[] \<notin> set segments" and "0 < n"
  shows "if n \<le> length (concat segments)
    then \<exists>rest. tty_reader n segments = Some (take n (concat segments), rest)
    else tty_reader n segments = None"
proof -
  let ?d = "fst (recv n segments)" and ?cs = "snd (recv n segments)"
  have len: "length ?d + length (concat ?cs) = length (concat segments)"
    using recv_left [of n segments] by simp
  have none: "tty_reader n segments = None" if "length (concat segments) < n"
    using tty_loop_some [of n ?d ?cs] len that by (cases "tty_loop n ?d ?cs") (auto simp: tty_reader_def)
  have "\<exists>rest. tty_reader n segments = Some (take n (concat segments), rest)" if "n \<le> length (concat segments)"
  proof -
    have "segments \<noteq> []" using that assms(2) by auto
    note step = recv_step [OF assms(1) this assms(2)]
    have "n \<le> length ?d + length (concat ?cs)" using len that by simp
    from tty_loop_enough [OF step(3,4) this]
    obtain cs' where "tty_loop n ?d ?cs = Some (?d @ take (n - length ?d) (concat ?cs), cs')" by blast
    moreover have "take n (concat segments) = ?d @ take (n - length ?d) (concat ?cs)"
      unfolding step(2) [symmetric] using step(4) by simp
    ultimately show ?thesis by (simp add: tty_reader_def)
  qed
  with none show ?thesis by auto
qed

section \<open>Witnesses\<close>

definition demo_messages :: "console_message list" where
  "demo_messages = [ConsoleMessage CMD_BYTES (Some ''ok''), ConsoleMessage CMD_LOG (Some ''20:Task succeeded'')]"

lemma demo_messages_good: "good_stream demo_messages"
proof -
  have "is_task_end_msg (ConsoleMessage CMD_BYTES (Some ''ok'')) = Inr False"
    "is_task_end_msg (ConsoleMessage CMD_LOG (Some ''20:Task succeeded'')) = Inr True"
    by code_simp+
  then have "\<exists>b. is_task_end_msg (ConsoleMessage CMD_BYTES (Some ''ok'')) = Inr b"
    "\<exists>b. is_task_end_msg (ConsoleMessage CMD_LOG (Some ''20:Task succeeded'')) = Inr b" by blast+
  moreover have "wf_message (ConsoleMessage CMD_BYTES (Some ''ok''))"
    "wf_message (ConsoleMessage CMD_LOG (Some ''20:Task succeeded''))"
    by (simp_all add: wf_message_def ConsoleMessage_def cm_size_def data_bytes_def CMD_BYTES_def CMD_LOG_def)
  ultimately show ?thesis by (simp only: good_stream_def demo_messages_def) simp
qed

theorem console_stream_roundtrip_witness:
  "console_generator 3 file_reader (frames demo_messages) = (demo_messages, Inr ())
   \<and> console_generator 3 unix_reader [take 5 (frames demo_messages), drop 5 (frames demo_messages)] = (demo_messages, Inr ())
   \<and> console_generator 3 http_reader (take 9 (frames demo_messages), [Chunk (drop 9 (frames demo_messages))]) = (demo_messages, Inr ())"
proof -
  have "until_end demo_messages = demo_messages" by code_simp
  moreover have "[] \<notin> set [take 5 (frames demo_messages), drop 5 (frames demo_messages)]" by code_simp
  ultimately show ?thesis
    using console_stream_roundtrip [OF demo_messages_good, of 3
        "[take 5 (frames demo_messages), drop 5 (frames demo_messages)]" "[Chunk (drop 9 (frames demo_messages))]"
        "take 9 (frames demo_messages)"]
    by (simp add: demo_messages_def)
qed

theorem tty_reader_blocks_witness:
  "(\<exists>rest. tty_reader 3 [''ab'', ''cd''] = Some (''abc'', rest)) \<and> tty_reader 5 [''ab'', ''cd''] = None"
  using tty_reader_blocks [of "[''ab'', ''cd'']" 3] tty_reader_blocks [of "[''ab'', ''cd'']" 5] by simp

end
