(* ===== verification/Dispatch.thy ===== *)
theory Dispatch imports ConsoleProto begin

text \<open>
  The server side of the console: \<^verbatim>\<open>TaskJournal.replay\<close> and the event loop of
  \<^verbatim>\<open>TaskIO._dispatch\<close> in \<^verbatim>\<open>fatbuildr/tasks/__init__.py\<close>, which copies the logs and the output of
  a task to its journal and to every connected client, and the event loop of \<^verbatim>\<open>tty_runcmd\<close> in
  \<^verbatim>\<open>fatbuildr/console/server.py\<close>, which runs a command on a pseudo-terminal. The loops are folds
  over the events that \<^verbatim>\<open>epoll\<close> delivers; a connection is the bytes sent to it.
\<close>

section \<open>Journal and dispatch\<close>

text \<open>\<^verbatim>\<open>replay\<close>: what is sent, and how the loop ends. The fuel bounds the messages.\<close>

fun journal_replay :: "nat \<Rightarrow> string \<Rightarrow> string \<times> unit res" where
  "journal_replay 0 s = ([], Inl RecursionErr)"
| "journal_replay (Suc n) s =
     (case ConsoleMessage_read file_reader s of
        (Inl e, _) \<Rightarrow> ([], Inl e)
      | (Inr None, _) \<Rightarrow> ([], Inr ())
      | (Inr (Some msg), s') \<Rightarrow>
          (case raw msg of
             Inl e \<Rightarrow> ([], Inl e)
           | Inr b \<Rightarrow> (let (sent, out) = journal_replay n s' in (b @ sent, out))))"

record task_io =
  io_interactive :: bool
  io_journal :: string
  io_conns :: "(nat, string) dict"
  io_input :: string
  io_log_pipe :: string
  io_output_pipe :: string

definition io_start :: "bool \<Rightarrow> task_io" where
  "io_start interactive = \<lparr>io_interactive = interactive, io_journal = [], io_conns = [], io_input = [],
     io_log_pipe = [], io_output_pipe = []\<rparr>"

text \<open>The events: a client connects or hangs up, one of the two pipes has data, a client sends data;
  and the two writers of the pipes, the log handler and the running command.\<close>

datatype io_event =
    EvAccept nat | EvHangup nat | EvLog | EvOutput | EvClient string
  | WriteLog string | WriteOutput string

definition broadcast :: "string \<Rightarrow> (nat, string) dict \<Rightarrow> (nat, string) dict" where
  "broadcast data conns = map (\<lambda>(fd, sent). (fd, sent @ data)) conns"

definition journal_and_broadcast :: "string \<Rightarrow> task_io \<Rightarrow> task_io" where
  "journal_and_broadcast data io =
     io\<lparr>io_conns := broadcast data (io_conns io), io_journal := io_journal io @ data\<rparr>"

definition dispatch_event :: "io_event \<Rightarrow> task_io \<Rightarrow> task_io res" where
  "dispatch_event ev io =
     (case ev of
        EvAccept fd \<Rightarrow>
          (case journal_replay (Suc (length (io_journal io))) (io_journal io) of
             (sent, Inr _) \<Rightarrow> Inr (io\<lparr>io_conns := dict_set (io_conns io) fd sent\<rparr>)
           | (_, Inl e) \<Rightarrow> Inl e)
      | EvHangup fd \<Rightarrow>
          (if dict_has (io_conns io) fd then Inr (io\<lparr>io_conns := dict_del (io_conns io) fd\<rparr>) else Inl KeyErr)
      | EvLog \<Rightarrow>
          Inr (journal_and_broadcast (take 2048 (io_log_pipe io))
                 (io\<lparr>io_log_pipe := drop 2048 (io_log_pipe io)\<rparr>))
      | EvOutput \<Rightarrow>
          (let data = take 2048 (io_output_pipe io);
               io' = io\<lparr>io_output_pipe := drop 2048 (io_output_pipe io)\<rparr>
           in if io_interactive io then Inr (journal_and_broadcast data io')
              else rmap (\<lambda>d. journal_and_broadcast d io') (raw (ConsoleMessage CMD_BYTES (Some data))))
      | EvClient data \<Rightarrow>
          Inr (if io_interactive io then io\<lparr>io_input := io_input io @ take 2048 data\<rparr> else io)
      | WriteLog data \<Rightarrow> Inr (io\<lparr>io_log_pipe := io_log_pipe io @ data\<rparr>)
      | WriteOutput data \<Rightarrow> Inr (io\<lparr>io_output_pipe := io_output_pipe io @ data\<rparr>))"

text \<open>The loop stops silently on \<^verbatim>\<open>RuntimeError\<close>; any other exception ends the thread.\<close>

definition dispatch_run :: "io_event list \<Rightarrow> task_io \<Rightarrow> task_io res" where
  "dispatch_run evs io = rfold dispatch_event evs io"

section \<open>Lemmas\<close>

lemma frames_append: "frames (a @ b) = frames a @ frames b"
  by (simp add: frames_def)

lemma frame_length: "8 \<le> length (frame m)"
  by (simp add: frame_def)

lemma frames_length: "length ms \<le> length (frames ms)"
proof (induction ms)
  case (Cons m ms)
  then show ?case using frame_length [of m] by (simp add: frames_def)
qed (simp add: frames_def)

text \<open>A journal of whole messages is replayed as it is.\<close>

lemma replay_frames:
  "(\<And>m. m \<in> set ms \<Longrightarrow> wf_message m) \<Longrightarrow> length ms < n \<Longrightarrow> journal_replay n (frames ms) = (frames ms, Inr ())"
proof (induction ms arbitrary: n)
  case Nil
  then obtain k where k: "n = Suc k" by (cases n) auto
  obtain r where "ConsoleMessage_read file_reader [] = (Inr None, r)" using file_io.read_eof [of "[]"] by auto
  with k show ?case by (simp add: frames_def)
next
  case (Cons m ms)
  then obtain k where k: "n = Suc k" "length ms < k" by (cases n) auto
  have m: "wf_message m" using Cons.prems(1) by simp
  obtain r' where "ConsoleMessage_read file_reader (frames (m # ms)) = (Inr (Some m), r')" "r' = frames ms"
    using file_io.read_message [OF m, of "frames (m # ms)" "frames ms"] by (auto simp: frames_def)
  with Cons k raw_frame [OF m] show ?case by (simp add: frames_def)
qed

text \<open>The messages that a nonempty piece of a command's output becomes.\<close>

lemma raw_bytes:
  assumes "data \<noteq> []" and "length data < 2 ^ 32"
  shows "wf_message (ConsoleMessage CMD_BYTES (Some data))"
    and "raw (ConsoleMessage CMD_BYTES (Some data)) = Inr (frames [ConsoleMessage CMD_BYTES (Some data)])"
proof -
  show "wf_message (ConsoleMessage CMD_BYTES (Some data))"
    using assms by (simp add: wf_message_def ConsoleMessage_def cm_size_def data_bytes_def CMD_BYTES_def)
  from raw_frame [OF this] show "raw (ConsoleMessage CMD_BYTES (Some data)) = Inr (frames [ConsoleMessage CMD_BYTES (Some data)])"
    by (simp add: frames_def)
qed

definition whole :: "string \<Rightarrow> bool" where
  "whole s \<longleftrightarrow> (\<exists>ms. (\<forall>m \<in> set ms. wf_message m) \<and> s = frames ms)"

lemma whole_Nil [simp]: "whole []"
  unfolding whole_def by (rule exI [of _ "[]"]) (simp add: frames_def)

lemma whole_append: "whole a \<Longrightarrow> whole b \<Longrightarrow> whole (a @ b)"
  unfolding whole_def by (metis frames_append Un_iff set_append)

lemma whole_bytes:
  "data \<noteq> [] \<Longrightarrow> length data < 2 ^ 32 \<Longrightarrow> \<exists>b. raw (ConsoleMessage CMD_BYTES (Some data)) = Inr b \<and> whole b"
  using raw_bytes [of data] unfolding whole_def by (metis empty_iff empty_set set_ConsD)

lemma replay_whole: "whole s \<Longrightarrow> journal_replay (Suc (length s)) s = (s, Inr ())"
  unfolding whole_def using replay_frames frames_length by (metis le_imp_less_Suc)

text \<open>The invariant: journal and pipes hold whole messages (the output pipe of a command that is not
  interactive holds any bytes), and every client has received the whole journal.\<close>

definition io_inv :: "task_io \<Rightarrow> bool" where
  "io_inv io \<longleftrightarrow>
     whole (io_journal io) \<and> whole (io_log_pipe io) \<and> (io_interactive io \<longrightarrow> whole (io_output_pipe io))
     \<and> (\<forall>(fd, sent) \<in> set (io_conns io). sent = io_journal io)"

text \<open>The events under which the pipes are read at message boundaries: whole messages are written, and a
  pipe that carries messages never holds more than one read takes. A hangup is of a known client.\<close>

definition fits :: "io_event \<Rightarrow> task_io \<Rightarrow> bool" where
  "fits ev io \<longleftrightarrow>
     (case ev of
        EvHangup fd \<Rightarrow> dict_has (io_conns io) fd
      | EvLog \<Rightarrow> length (io_log_pipe io) \<le> 2048
      | EvOutput \<Rightarrow> io_output_pipe io \<noteq> [] \<and> (io_interactive io \<longrightarrow> length (io_output_pipe io) \<le> 2048)
      | WriteLog data \<Rightarrow> whole data
      | WriteOutput data \<Rightarrow> (io_interactive io \<longrightarrow> whole data)
      | _ \<Rightarrow> True)"

fun all_fit :: "io_event list \<Rightarrow> task_io \<Rightarrow> bool" where
  "all_fit [] io \<longleftrightarrow> True"
| "all_fit (ev # evs) io \<longleftrightarrow> fits ev io \<and> (case dispatch_event ev io of Inl _ \<Rightarrow> True | Inr io' \<Rightarrow> all_fit evs io')"

lemma set_dict_set_subset: "set (dict_set d k v) \<subseteq> insert (k, v) (set d)"
  by (induction d k v rule: dict_set.induct) auto

lemma set_dict_del_subset: "set (dict_del d k) \<subseteq> set d"
  by (induction d k rule: dict_del.induct) auto

lemma inv_journal_and_broadcast:
  "io_inv io \<Longrightarrow> whole data \<Longrightarrow> io_inv (journal_and_broadcast data io)"
  by (auto simp: io_inv_def journal_and_broadcast_def broadcast_def whole_append)

lemma dispatch_event_ok:
  assumes "io_inv io" and "fits ev io"
  shows "\<exists>io'. dispatch_event ev io = Inr io' \<and> io_inv io'"
proof (cases ev)
  case (EvAccept fd)
  have "journal_replay (Suc (length (io_journal io))) (io_journal io) = (io_journal io, Inr ())"
    using assms(1) replay_whole by (simp add: io_inv_def)
  with EvAccept assms(1) set_dict_set_subset [of "io_conns io" fd "io_journal io"] show ?thesis
    by (auto simp: dispatch_event_def io_inv_def)
next
  case (EvHangup fd)
  with assms set_dict_del_subset [of "io_conns io" fd] show ?thesis
    by (auto simp: dispatch_event_def io_inv_def fits_def)
next
  case EvLog
  let ?io = "io\<lparr>io_log_pipe := []\<rparr>"
  have "io_inv ?io" using assms(1) by (simp add: io_inv_def)
  from inv_journal_and_broadcast [OF this, of "io_log_pipe io"] EvLog assms show ?thesis
    by (auto simp: dispatch_event_def io_inv_def fits_def)
next
  case EvOutput
  show ?thesis
  proof (cases "io_interactive io")
    case True
    let ?io = "io\<lparr>io_output_pipe := []\<rparr>"
    have "io_inv ?io" using assms(1) by (simp add: io_inv_def)
    from inv_journal_and_broadcast [OF this, of "io_output_pipe io"] EvOutput assms True show ?thesis
      by (auto simp: dispatch_event_def io_inv_def fits_def Let_def)
  next
    case False
    let ?io = "io\<lparr>io_output_pipe := drop 2048 (io_output_pipe io)\<rparr>"
    have i: "io_inv ?io" using assms(1) False by (simp add: io_inv_def)
    have "take 2048 (io_output_pipe io) \<noteq> []" using assms(2) EvOutput by (simp add: fits_def)
    moreover have "length (take 2048 (io_output_pipe io)) < 2 ^ 32" by (simp add: min_less_iff_disj)
    ultimately obtain b where "raw (ConsoleMessage CMD_BYTES (Some (take 2048 (io_output_pipe io)))) = Inr b" "whole b"
      using whole_bytes by blast
    with inv_journal_and_broadcast [OF i] EvOutput False show ?thesis
      by (simp add: dispatch_event_def Let_def)
  qed
qed (use assms in \<open>auto simp: dispatch_event_def io_inv_def fits_def whole_append\<close>)

lemma dispatch_run_ok:
  "io_inv io \<Longrightarrow> all_fit evs io \<Longrightarrow> \<exists>io'. dispatch_run evs io = Inr io' \<and> io_inv io'"
  unfolding dispatch_run_def
proof (induction evs arbitrary: io)
  case (Cons ev evs)
  obtain io1 where "dispatch_event ev io = Inr io1" "io_inv io1"
    using dispatch_event_ok [of io ev] Cons.prems by auto
  with Cons show ?case by auto
qed auto

section \<open>A pseudo-terminal\<close>

text \<open>The loop of \<^verbatim>\<open>tty_runcmd\<close>: an event of the input pipe carries the bytes readable on it, one
  of the master the output of the command; the hangup flag comes with either.\<close>

datatype tty_fd = FdInput | FdMaster | FdOther

record tty_event =
  ev_fd :: tty_fd
  ev_hup :: bool
  ev_data :: string

record tty_state =
  tt_out :: string
  tt_pty :: string
  tt_winsz :: "(nat \<times> nat) option"

definition tty_write :: "console_message \<Rightarrow> tty_state \<Rightarrow> tty_state res" where
  "tty_write msg st = rmap (\<lambda>b. st\<lparr>tt_out := tt_out st @ b\<rparr>) (raw msg)"

definition unpack_HH :: "string option \<Rightarrow> (nat \<times> nat) res" where
  "unpack_HH d =
     (case d of
        None \<Rightarrow> Inl TypeErr
      | Some b \<Rightarrow> if length b = 4 then Inr (le_val (take 2 b), le_val (drop 2 b)) else Inl StructErr)"

definition tty_event_step :: "tty_event \<Rightarrow> tty_state \<Rightarrow> tty_state res" where
  "tty_event_step ev st =
     (if ev_hup ev then Inl RuntimeErr
      else (case ev_fd ev of
        FdInput \<Rightarrow>
          (case ConsoleMessage_read file_reader (ev_data ev) of
             (Inl e, _) \<Rightarrow> Inl e
           | (Inr None, _) \<Rightarrow> Inl AttributeErr
           | (Inr (Some msg), _) \<Rightarrow>
               if IS_WINCH msg then rmap (\<lambda>rc. st\<lparr>tt_winsz := Some rc\<rparr>) (unpack_HH (cm_data msg))
               else if IS_BYTES msg then
                 (case cm_data msg of None \<Rightarrow> Inl TypeErr | Some d \<Rightarrow> Inr (st\<lparr>tt_pty := tt_pty st @ d\<rparr>))
               else Inr st)
      | FdMaster \<Rightarrow> tty_write (ConsoleMessage CMD_BYTES (Some (take 1024 (ev_data ev)))) st
      | FdOther \<Rightarrow> Inl RuntimeErr))"

text \<open>\<^verbatim>\<open>RuntimeError\<close> leaves the loop and the rest of the function follows.\<close>

fun tty_loop_events :: "tty_event list \<Rightarrow> tty_state \<Rightarrow> tty_state res" where
  "tty_loop_events [] st = Inr st"
| "tty_loop_events (ev # evs) st =
     (case tty_event_step ev st of
        Inr st' \<Rightarrow> tty_loop_events evs st'
      | Inl e \<Rightarrow> if is_a e RuntimeErr then Inr st else Inl e)"

definition tty_runcmd :: "tty_event list \<Rightarrow> tty_state res" where
  "tty_runcmd evs =
     rbind (tty_write (ConsoleMessage CMD_RAW_ENABLE None) \<lparr>tt_out = [], tt_pty = [], tt_winsz = None\<rparr>) (\<lambda>st.
     rbind (tty_loop_events evs st) (\<lambda>st.
       tty_write (ConsoleMessage CMD_RAW_DISABLE None) st))"

lemma tty_loop_master:
  assumes "\<forall>ev \<in> set evs. \<not> ev_hup ev \<and> ev_fd ev = FdMaster \<and> ev_data ev \<noteq> [] \<and> length (ev_data ev) \<le> 1024"
    and "ev_hup hup"
  shows "tty_loop_events (evs @ hup # rest) st =
    Inr (st\<lparr>tt_out := tt_out st @ frames (map (\<lambda>ev. ConsoleMessage CMD_BYTES (Some (ev_data ev))) evs)\<rparr>)"
  using assms
proof (induction evs arbitrary: st)
  case Nil
  then show ?case by (simp add: tty_event_step_def is_a_def frames_def)
next
  case (Cons ev evs)
  have "ev_data ev \<noteq> []" "length (ev_data ev) < 2 ^ 32" "length (ev_data ev) \<le> 1024"
    using Cons.prems(1) by auto
  then have "tty_event_step ev st = Inr (st\<lparr>tt_out := tt_out st @ frame (ConsoleMessage CMD_BYTES (Some (ev_data ev)))\<rparr>)"
    using raw_bytes(2) [of "ev_data ev"] Cons.prems(1)
    by (simp add: tty_event_step_def tty_write_def frames_def)
  then have "tty_loop_events ((ev # evs) @ hup # rest) st = tty_loop_events (evs @ hup # rest)
      (st\<lparr>tt_out := tt_out st @ frame (ConsoleMessage CMD_BYTES (Some (ev_data ev)))\<rparr>)" by simp
  also have "\<dots> = Inr (st\<lparr>tt_out := (tt_out st @ frame (ConsoleMessage CMD_BYTES (Some (ev_data ev))))
      @ frames (map (\<lambda>ev. ConsoleMessage CMD_BYTES (Some (ev_data ev))) evs)\<rparr>)"
    by (subst Cons.IH) (use Cons.prems in simp_all)
  finally show ?case by (simp add: frames_def)
qed

lemma tty_write_plain:
  "cmd < 2 ^ 16 \<Longrightarrow> tty_write (ConsoleMessage cmd None) st =
     Inr (st\<lparr>tt_out := tt_out st @ frame (ConsoleMessage cmd None)\<rparr>)"
  using raw_frame [of "ConsoleMessage cmd None"]
  by (simp add: tty_write_def wf_message_def ConsoleMessage_def cm_size_def data_bytes_def)

section \<open>Properties\<close>

text \<open>Every console client sees the whole output of a task: when messages are written whole and
  a pipe that carries messages is read before it holds more than one read takes, the dispatch thread
  never fails, the journal is a sequence of whole messages, and every connected client, whenever it
  connected, has been sent exactly the journal.\<close>

theorem dispatch_broadcasts:
  assumes "all_fit evs (io_start interactive)"
  shows "\<exists>io ms. dispatch_run evs (io_start interactive) = Inr io
    \<and> (\<forall>m \<in> set ms. wf_message m) \<and> io_journal io = frames ms
    \<and> (\<forall>(fd, sent) \<in> set (io_conns io). sent = frames ms)"
proof -
  have "io_inv (io_start interactive)" by (simp add: io_start_def io_inv_def)
  from dispatch_run_ok [OF this assms] show ?thesis
    unfolding io_inv_def whole_def by fastforce
qed

lemma char_of_differs: "frame (ConsoleMessage CMD_BYTES (Some d)) = CHR 0x01 # tl (frame (ConsoleMessage CMD_BYTES (Some d)))"
proof -
  have "char_of (Suc 0) = CHR 0x01" by code_simp
  then show ?thesis by (simp add: frame_def ConsoleMessage_def CMD_BYTES_def numeral_2_eq_2)
qed

text \<open>Beyond that bound the stream breaks: when a log record does not fit in one read of the log
  pipe and the command's output is read in between, the client's message for the log record holds
  bytes of the output's header in place of the rest of the record.\<close>

theorem dispatch_split_corrupts:
  assumes "m = ConsoleMessage CMD_LOG (Some entry)" and "wf_message m"
    and "2040 < length entry" and "entry ! 2040 \<noteq> CHR 0x01"
    and "out \<noteq> []" and "length out \<le> 2048"
  shows "\<exists>io r data. dispatch_run [WriteLog (frame m), EvLog, WriteOutput out, EvOutput, EvLog] (io_start False) = Inr io
    \<and> ConsoleMessage_read file_reader (io_journal io) = (Inr (Some (ConsoleMessage CMD_LOG (Some data))), r)
    \<and> data \<noteq> entry"
proof -
  let ?o = "frame (ConsoleMessage CMD_BYTES (Some out))"
  have fm: "frame m = header CMD_LOG (length entry) @ entry"
    by (simp add: frame_header assms(1) ConsoleMessage_def cm_size_def data_bytes_def)
  have len: "length entry < 2 ^ 32" using assms(1,2) by (simp add: wf_message_def ConsoleMessage_def cm_size_def data_bytes_def)
  have raw: "raw (ConsoleMessage CMD_BYTES (Some out)) = Inr ?o"
    using raw_bytes(2) [OF assms(5)] assms(6) by (simp add: frames_def)
  let ?j = "take 2048 (frame m) @ ?o @ take 2048 (drop 2048 (frame m))"
  have run: "\<exists>io. dispatch_run [WriteLog (frame m), EvLog, WriteOutput out, EvOutput, EvLog] (io_start False) = Inr io
      \<and> io_journal io = ?j"
    using assms(6) raw
    by (simp add: dispatch_run_def dispatch_event_def io_start_def journal_and_broadcast_def Let_def)
  have j: "?j = header CMD_LOG (length entry) @ take 2040 entry @ ?o @ take 2048 (drop 2048 (frame m))"
    by (simp add: fm)
  let ?data = "take (length entry) (take 2040 entry @ ?o @ take 2048 (drop 2048 (frame m)))"
  have unp: "unpack_HI (header CMD_LOG (length entry)) = Inr (CMD_LOG, length entry)"
    using unpack_header [OF assms(2)] by (simp add: assms(1) ConsoleMessage_def cm_size_def data_bytes_def)
  have "header CMD_LOG (length entry) \<noteq> []" using length_header [of CMD_LOG "length entry"]
    by (metis list.size(3) zero_neq_numeral)
  moreover have ne: "entry \<noteq> []" using assms(3) by auto
  ultimately have read: "ConsoleMessage_read file_reader ?j = (Inr (Some (ConsoleMessage CMD_LOG (Some ?data))),
      drop (length entry) (take 2040 entry @ ?o @ take 2048 (drop 2048 (frame m))))"
    unfolding j using unp assms(3) ne by (simp add: ConsoleMessage_read_def file_reader_def)
  obtain os where os: "?o = CHR 0x01 # os" using char_of_differs by blast
  have "?data ! 2040 = ?o ! 0"
    unfolding os using assms(3) by (simp add: nth_append)
  also have "\<dots> = CHR 0x01" by (simp add: os)
  finally have "?data \<noteq> entry" using assms(4) by auto
  with run read show ?thesis by metis
qed

text \<open>On a pseudo-terminal, what a command writes before the hangup of the terminal reaches the
  clients in order, between the switch to raw mode and the switch back; output that arrives together
  with the hangup is lost.\<close>

theorem tty_output:
  assumes "\<forall>ev \<in> set evs. \<not> ev_hup ev \<and> ev_fd ev = FdMaster \<and> ev_data ev \<noteq> [] \<and> length (ev_data ev) \<le> 1024"
  shows "\<exists>st. tty_runcmd (evs @ \<lparr>ev_fd = FdMaster, ev_hup = True, ev_data = unread\<rparr> # rest) = Inr st
    \<and> tt_out st = frames ([ConsoleMessage CMD_RAW_ENABLE None]
        @ map (\<lambda>ev. ConsoleMessage CMD_BYTES (Some (ev_data ev))) evs @ [ConsoleMessage CMD_RAW_DISABLE None])"
  using tty_loop_master [of evs "\<lparr>ev_fd = FdMaster, ev_hup = True, ev_data = unread\<rparr>" rest] assms
  by (simp add: tty_runcmd_def tty_write_plain CMD_RAW_ENABLE_def CMD_RAW_DISABLE_def frames_def)

section \<open>Witnesses\<close>

theorem dispatch_broadcasts_witness:
  "\<exists>io. dispatch_run [EvAccept 5, WriteOutput ''ok'', EvOutput, EvAccept 7] (io_start False) = Inr io
     \<and> (\<forall>(fd, sent) \<in> set (io_conns io). sent = io_journal io)"
proof -
  let ?evs = "[EvAccept 5, WriteOutput ''ok'', EvOutput, EvAccept 7]"
  let ?m = "frame (ConsoleMessage CMD_BYTES (Some ''ok''))"
  have "dispatch_event (EvAccept 5) (io_start False) = Inr (io_start False\<lparr>io_conns := [(5, [])]\<rparr>)"
    "dispatch_event EvOutput (io_start False\<lparr>io_conns := [(5, [])], io_output_pipe := ''ok''\<rparr>)
       = Inr (io_start False\<lparr>io_conns := [(5, ?m)], io_journal := ?m\<rparr>)"
  proof -
    show "dispatch_event (EvAccept 5) (io_start False) = Inr (io_start False\<lparr>io_conns := [(5, [])]\<rparr>)" by code_simp
    show "dispatch_event EvOutput (io_start False\<lparr>io_conns := [(5, [])], io_output_pipe := ''ok''\<rparr>)
       = Inr (io_start False\<lparr>io_conns := [(5, ?m)], io_journal := ?m\<rparr>)"
      using raw_bytes(2) [of "''ok''"]
      by (simp add: dispatch_event_def io_start_def journal_and_broadcast_def broadcast_def frames_def)
  qed
  then have "all_fit ?evs (io_start False)"
    by (simp add: fits_def io_start_def dispatch_event_def [of "WriteOutput ''ok''"] split: sum.splits)
  from dispatch_broadcasts [OF this] obtain io ms where
    *: "dispatch_run ?evs (io_start False) = Inr io" "io_journal io = frames ms"
      "\<forall>(fd, sent) \<in> set (io_conns io). sent = frames ms" by blast
  show ?thesis using * by auto
qed

text \<open>Beyond that bound the stream breaks: when a log record does not fit in one read of the log
  pipe and the command's output is read in between, the client's message for the log record holds
  bytes of the output's header in place of the rest of the record.\<close>

theorem dispatch_split_corrupts_witness:
  "\<exists>io r data. dispatch_run [WriteLog (frame (ConsoleMessage CMD_LOG (Some (replicate 3000 CHR ''a'')))), EvLog,
       WriteOutput ''x'', EvOutput, EvLog] (io_start False) = Inr io
    \<and> ConsoleMessage_read file_reader (io_journal io) = (Inr (Some (ConsoleMessage CMD_LOG (Some data))), r)
    \<and> data \<noteq> replicate 3000 CHR ''a''"
  by (rule dispatch_split_corrupts [OF refl])
    (simp_all add: wf_message_def ConsoleMessage_def cm_size_def data_bytes_def CMD_LOG_def)

theorem tty_output_witness:
  "\<exists>st. tty_runcmd [\<lparr>ev_fd = FdMaster, ev_hup = False, ev_data = ''hi''\<rparr>,
       \<lparr>ev_fd = FdMaster, ev_hup = True, ev_data = ''lost''\<rparr>] = Inr st
    \<and> tt_out st = frames [ConsoleMessage CMD_RAW_ENABLE None, ConsoleMessage CMD_BYTES (Some ''hi''),
        ConsoleMessage CMD_RAW_DISABLE None]"
  using tty_output [of "[\<lparr>ev_fd = FdMaster, ev_hup = False, ev_data = ''hi''\<rparr>]" "''lost''" "[]"] by simp

end
