(* ===== verification/Archive.thy ===== *)
theory Archive imports FileSys Exports "HOL-Library.List_Lexorder" "HOL-Library.Char_ord" begin

text \<open>
  \<^verbatim>\<open>fatbuildr/archive.py\<close> and the extraction of sources of \<^verbatim>\<open>fatbuildr/utils.py\<close>. An archive
  is the list of its members in the order of the file: \<^verbatim>\<open>zipfile\<close> keeps the trailing slash of a
  directory's name, \<^verbatim>\<open>tarfile\<close> removes it. Members are extracted into the tree of the theory
  \<open>FileSys\<close>; links, owners, modes and times are left out, except for the order in which the
  attributes of the directories are set. The absolute path of the output directory is the list of
  its components.
\<close>

section \<open>Members and paths\<close>

record zip_member =
  zi_filename :: string
  zi_date_time :: "nat list"
  zi_content :: string

record tar_member =
  ti_name :: string
  ti_isdir :: bool
  ti_mode :: nat
  ti_mtime :: int
  ti_content :: string

definition zi_is_dir :: "zip_member \<Rightarrow> bool" where
  "zi_is_dir m \<longleftrightarrow> endswith (zi_filename m) ''/''"

text \<open>The components of a path, and \<^verbatim>\<open>base.joinpath(s)\<close>: an absolute argument replaces the base.\<close>

definition path_parts :: "string \<Rightarrow> path" where
  "path_parts s = filter (\<lambda>p. p \<noteq> [] \<and> p \<noteq> ''.'') (split_on CHR ''/'' s)"

definition joinpath :: "path \<Rightarrow> string \<Rightarrow> path" where
  "joinpath base s = (if startswith s ''/'' then path_parts s else base @ path_parts s)"

definition count_char :: "char \<Rightarrow> string \<Rightarrow> nat" where
  "count_char c s = length (filter (\<lambda>x. x = c) s)"

section \<open>Zip files\<close>

definition zip_toplevel :: "zip_member \<Rightarrow> bool" where
  "zip_toplevel m \<longleftrightarrow> CHR ''/'' \<notin> set (butlast (zi_filename m))"

definition zip_subdir :: "zip_member list \<Rightarrow> string res" where
  "zip_subdir ms =
     (case filter zip_toplevel ms of
        [] \<Rightarrow> Inl UnboundLocalErr
      | m # _ \<Rightarrow> if zi_is_dir m then Inr (butlast (zi_filename m)) else Inl RuntimeErr)"

text \<open>The loops of \<^verbatim>\<open>has_single_toplevel\<close>, with their flag.\<close>

fun single_toplevel :: "('m \<Rightarrow> bool) \<Rightarrow> bool \<Rightarrow> 'm list \<Rightarrow> bool" where
  "single_toplevel P already_found [] = True"
| "single_toplevel P already_found (m # ms) =
     (if P m then (if already_found then False else single_toplevel P True ms)
      else single_toplevel P already_found ms)"

definition zip_has_single_toplevel :: "zip_member list \<Rightarrow> bool" where
  "zip_has_single_toplevel = single_toplevel zip_toplevel False"

definition zip_arcname :: "zip_member \<Rightarrow> string" where
  "zip_arcname m =
     str_join ''/'' (filter (\<lambda>x. x \<notin> {[], ''.'', ''..''}) (split_on CHR ''/'' (zi_filename m)))"

text \<open>Where a member goes, if it is not skipped.\<close>

definition zip_extracted_path :: "path \<Rightarrow> nat \<Rightarrow> zip_member \<Rightarrow> path option" where
  "zip_extracted_path output strip m =
     (if strip \<noteq> 0 then
        (if count_char CHR ''/'' (zip_arcname m) < strip then None
         else Some (joinpath output (List.last (split_max CHR ''/'' strip (zip_arcname m)))))
      else Some (joinpath output (zip_arcname m)))"

definition zip_extract_member :: "path \<Rightarrow> nat \<Rightarrow> zip_member \<Rightarrow> node \<Rightarrow> node res" where
  "zip_extract_member output strip m fs =
     (case zip_extracted_path output strip m of
        None \<Rightarrow> Inr fs
      | Some p \<Rightarrow>
          (if zi_is_dir m then (if fs_is_dir fs p then Inr fs else fs_mkdir p fs)
           else fs_write p (zi_content m) fs))"

definition zip_extractall :: "path \<Rightarrow> nat \<Rightarrow> zip_member list \<Rightarrow> node \<Rightarrow> node res" where
  "zip_extractall output strip ms = rfold (zip_extract_member output strip) ms"

section \<open>Tarballs\<close>

definition tar_toplevel :: "tar_member \<Rightarrow> bool" where
  "tar_toplevel m \<longleftrightarrow> CHR ''/'' \<notin> set (ti_name m)"

definition tar_subdir :: "tar_member list \<Rightarrow> string res" where
  "tar_subdir ms =
     (case filter tar_toplevel ms of
        [] \<Rightarrow> Inl UnboundLocalErr
      | m # _ \<Rightarrow> if ti_isdir m then Inr (ti_name m) else Inl RuntimeErr)"

definition tar_has_single_toplevel :: "tar_member list \<Rightarrow> bool" where
  "tar_has_single_toplevel = single_toplevel tar_toplevel False"

definition tar_unsafe :: "tar_member \<Rightarrow> bool" where
  "tar_unsafe m \<longleftrightarrow> startswith (ti_name m) ''/'' \<or> str_in ''..'' (ti_name m)"

definition tar_extracted_path :: "path \<Rightarrow> nat \<Rightarrow> tar_member \<Rightarrow> path option" where
  "tar_extracted_path output strip m =
     (if tar_unsafe m then None
      else if strip \<noteq> 0 then
        (if count_char CHR ''/'' (ti_name m) < strip then None
         else Some (joinpath output (List.last (split_max CHR ''/'' strip (ti_name m)))))
      else Some (joinpath output (ti_name m)))"

text \<open>\<^verbatim>\<open>TarFile._extract_member\<close> of the standard library: the missing parents are made, an
  existing directory is kept.\<close>

definition mkdir_missing :: "path \<Rightarrow> node \<Rightarrow> node res" where
  "mkdir_missing p fs = (if fs_exists fs p then Inr fs else fs_mkdir p fs)"

definition make_parents :: "path \<Rightarrow> node \<Rightarrow> node res" where
  "make_parents p fs = rfold mkdir_missing (map (\<lambda>i. take i p) [0..<length p]) fs"

definition tar_extract_member :: "path \<Rightarrow> nat \<Rightarrow> tar_member \<Rightarrow> node \<Rightarrow> node res" where
  "tar_extract_member output strip m fs =
     (case tar_extracted_path output strip m of
        None \<Rightarrow> Inr fs
      | Some p \<Rightarrow>
          rbind (make_parents p fs) (\<lambda>fs.
            if ti_isdir m then mkdir_missing p fs
            else fs_write p (ti_content m) fs))"

text \<open>The directories whose owner, times and mode are set at the end, in this order.\<close>

definition tar_directories :: "path \<Rightarrow> nat \<Rightarrow> tar_member list \<Rightarrow> path list" where
  "tar_directories output strip ms =
     rev (sort (concat (map (\<lambda>m. if ti_isdir m \<and> ti_name m \<noteq> ''.''
       then (case tar_extracted_path output strip m of None \<Rightarrow> [] | Some p \<Rightarrow> [p]) else []) ms)))"

definition tar_safe_extractall :: "path \<Rightarrow> nat \<Rightarrow> tar_member list \<Rightarrow> node \<Rightarrow> node res" where
  "tar_safe_extractall output strip ms = rfold (tar_extract_member output strip) ms"

section \<open>Archives\<close>

datatype archive_file =
    ArchiveFileZip string "zip_member list"
  | ArchiveFileTar string "tar_member list"

text \<open>The class is chosen from the name; the content is what opening the file reads.\<close>

definition ar_is_zip :: "archive_file \<Rightarrow> bool" where
  "ar_is_zip a = (case a of ArchiveFileZip _ _ \<Rightarrow> True | ArchiveFileTar _ _ \<Rightarrow> False)"

definition ar_stem :: "archive_file \<Rightarrow> string" where
  "ar_stem a =
     (case a of
        ArchiveFileZip name _ \<Rightarrow> path_stem name
      | ArchiveFileTar name _ \<Rightarrow> hd (rsplit_max CHR ''.'' 2 name))"

definition ar_subdir :: "archive_file \<Rightarrow> string res" where
  "ar_subdir a = (case a of ArchiveFileZip _ ms \<Rightarrow> zip_subdir ms | ArchiveFileTar _ ms \<Rightarrow> tar_subdir ms)"

definition ar_has_single_toplevel :: "archive_file \<Rightarrow> bool" where
  "ar_has_single_toplevel a =
     (case a of
        ArchiveFileZip _ ms \<Rightarrow> zip_has_single_toplevel ms
      | ArchiveFileTar _ ms \<Rightarrow> tar_has_single_toplevel ms)"

definition ar_extract :: "path \<Rightarrow> nat \<Rightarrow> archive_file \<Rightarrow> node \<Rightarrow> (path \<times> node) res" where
  "ar_extract output strip a fs =
     rbind (case a of
              ArchiveFileZip _ ms \<Rightarrow> zip_extractall output strip ms fs
            | ArchiveFileTar _ ms \<Rightarrow> tar_safe_extractall output strip ms fs)
       (\<lambda>fs. rmap (\<lambda>d. (joinpath output d, fs)) (ar_subdir a))"

text \<open>\<^verbatim>\<open>convert_tar\<close>: the members that \<^verbatim>\<open>tarfile\<close> reads back from the new file.\<close>

definition tar_info_of :: "(nat list \<Rightarrow> int) \<Rightarrow> zip_member \<Rightarrow> tar_member" where
  "tar_info_of mktime m =
     \<lparr>ti_name = (if zi_is_dir m then str_rstrip_char CHR ''/'' (zi_filename m) else zi_filename m),
      ti_isdir = zi_is_dir m, ti_mode = (if zi_is_dir m then 493 else 420),
      ti_mtime = mktime (zi_date_time m @ [0, 0, 0]), ti_content = zi_content m\<rparr>"

definition convert_tar :: "(nat list \<Rightarrow> int) \<Rightarrow> string \<Rightarrow> archive_file \<Rightarrow> archive_file res" where
  "convert_tar mktime new_name a =
     (case a of
        ArchiveFileZip _ ms \<Rightarrow> Inr (ArchiveFileTar new_name (map (tar_info_of mktime) ms))
      | ArchiveFileTar _ _ \<Rightarrow> Inl AssertionErr)"

definition alnum_dash :: "char \<Rightarrow> bool" where
  "alnum_dash c \<longleftrightarrow> (let n = (of_char c :: nat) in
     65 \<le> n \<and> n \<le> 90 \<or> 97 \<le> n \<and> n \<le> 122 \<or> 48 \<le> n \<and> n \<le> 57 \<or> n = 45)"

definition sanitized_stem :: "string \<Rightarrow> string" where
  "sanitized_stem stem = filter alnum_dash (replace_char CHR ''/'' CHR ''-'' stem)"

section \<open>Sources of an artifact\<close>

record source_archive =
  sa_id :: string
  sa_file :: archive_file

definition is_main :: "string \<Rightarrow> source_archive \<Rightarrow> bool" where
  "is_main artifact a \<longleftrightarrow> sa_id a = artifact"

definition top_strip :: "archive_file \<Rightarrow> nat" where
  "top_strip a = (if ar_has_single_toplevel a then 1 else 0)"

text \<open>The creation of a symbolic link is the parameter \<open>link\<close>.\<close>

definition extract_supplementary ::
  "(path \<Rightarrow> string \<Rightarrow> node \<Rightarrow> node res) \<Rightarrow> bool \<Rightarrow> string \<Rightarrow> path \<Rightarrow> source_archive \<Rightarrow> node \<Rightarrow> node res" where
  "extract_supplementary link with_symlinks artifact main_subdir a fs =
     (if is_main artifact a then Inl AssertionErr
      else (let stem = sanitized_stem (ar_stem (sa_file a)); target = joinpath main_subdir stem in
        rbind (fs_mkdir target fs) (\<lambda>fs.
        rbind (if with_symlinks then link (joinpath main_subdir (sa_id a)) stem fs else Inr fs) (\<lambda>fs.
        rmap snd (ar_extract target (top_strip (sa_file a)) (sa_file a) fs)))))"

definition extract_prescript :: "path \<Rightarrow> archive_file \<Rightarrow> node \<Rightarrow> node res" where
  "extract_prescript main_subdir a fs =
     rbind (ar_subdir a) (\<lambda>d. let target = joinpath main_subdir d in
       rbind (fs_mkdir target fs) (\<lambda>fs. rmap snd (ar_extract target (top_strip a) a fs)))"

definition extract_artifact_sources_archives ::
  "(path \<Rightarrow> string \<Rightarrow> node \<Rightarrow> node res) \<Rightarrow> bool \<Rightarrow> path \<Rightarrow> string \<Rightarrow> source_archive \<Rightarrow>
   source_archive list \<Rightarrow> archive_file list \<Rightarrow> node \<Rightarrow> (path \<times> node) res" where
  "extract_artifact_sources_archives link with_symlinks output artifact main_archive supplementary prescript fs =
     rbind (ar_extract output 0 (sa_file main_archive) fs) (\<lambda>(main_subdir, fs).
     rbind (rfold (extract_supplementary link with_symlinks artifact main_subdir) supplementary fs) (\<lambda>fs.
     rmap (\<lambda>fs. (main_subdir, fs)) (rfold (extract_prescript main_subdir) prescript fs)))"

section \<open>Lemmas\<close>

lemma path_parts_ne: "p \<in> set (path_parts s) \<Longrightarrow> p \<noteq> [] \<and> p \<noteq> ''.''"
  by (simp add: path_parts_def)

text \<open>The steps of the two extractions are writes and creations in the tree: below a path they
  change, what is apart from it stays.\<close>

definition touches :: "path \<Rightarrow> node \<Rightarrow> node \<Rightarrow> bool" where
  "touches p fs fs' \<longleftrightarrow> (\<forall>q. apart p q \<longrightarrow> lookup q fs' = lookup q fs)"

lemma touches_refl [simp]: "touches p fs fs"
  by (simp add: touches_def)

lemma touches_trans: "touches p a b \<Longrightarrow> touches p b c \<Longrightarrow> touches p a c"
  by (simp add: touches_def)

lemma apart_longer: "apart p q \<Longrightarrow> apart (p @ r) q"
  unfolding apart_def by (metis append_prefixD prefix_order.trans prefix_same_cases prefixI)

lemma touches_below: "touches (p @ r) fs fs' \<Longrightarrow> touches p fs fs'"
  by (auto simp: touches_def apart_longer)

lemma touches_write: "fs_write p c fs = Inr fs' \<Longrightarrow> touches p fs fs'"
  by (auto simp: touches_def intro: tree.store_apart dest: write_Inr_put)

lemma touches_mkdir: "fs_mkdir p fs = Inr fs' \<Longrightarrow> touches p fs fs'"
  by (auto simp: touches_def intro: tree.store_apart dest: mkdir_Inr_put)

text \<open>The creation of a missing directory changes nothing else, not even below it.\<close>

lemma mkdir_missing_other: "mkdir_missing p fs = Inr fs' \<Longrightarrow> \<not> prefix q p \<Longrightarrow> lookup q fs' = lookup q fs"
proof (cases "fs_exists fs p")
  case False
  assume *: "mkdir_missing p fs = Inr fs'" and q: "\<not> prefix q p"
  from * False have put: "put p (Dir []) fs = Inr fs'" by (simp add: mkdir_missing_def mkdir_Inr_put)
  show ?thesis
  proof (cases "prefix p q")
    case True
    then obtain r where r: "q = p @ r" by (auto simp: prefix_def)
    with q obtain x xs where "r = x # xs" by (cases r) auto
    with r tree.store_same [OF put] False show ?thesis by (simp add: lookup_append fs_exists_def)
  next
    case False
    with q tree.store_apart [OF put] show ?thesis by (simp add: apart_def)
  qed
qed (simp add: mkdir_missing_def)

lemma make_parents_other: "make_parents p fs = Inr fs' \<Longrightarrow> \<not> prefix q p \<Longrightarrow> lookup q fs' = lookup q fs"
  unfolding make_parents_def
proof (rule rfold_invariant [where I = "\<lambda>t. lookup q t = lookup q fs"])
  fix x s t
  assume "\<not> prefix q p" and "x \<in> set (map (\<lambda>i. take i p) [0..<length p])"
    and "mkdir_missing x s = Inr t" and "lookup q s = lookup q fs"
  moreover from this(2) have "prefix x p" by (auto simp: take_is_prefix)
  ultimately show "lookup q t = lookup q fs" by (metis mkdir_missing_other prefix_order.trans)
qed auto

lemma touches_tar_place:
  "make_parents p fs = Inr fs1 \<Longrightarrow> touches p fs1 fs' \<Longrightarrow> touches p fs fs'"
  by (auto simp: touches_def apart_def make_parents_other)

lemma touches_mkdir_missing: "mkdir_missing p fs = Inr fs' \<Longrightarrow> touches p fs fs'"
  by (auto simp: touches_def apart_def mkdir_missing_other)

lemma tar_member_touches:
  "tar_extract_member output strip m fs = Inr fs' \<Longrightarrow> tar_extracted_path output strip m = Some p \<Longrightarrow> touches p fs fs'"
  by (auto simp: tar_extract_member_def rbind_Inr_conv split: if_splits
      intro: touches_tar_place touches_mkdir_missing touches_write)

lemma zip_member_touches:
  "zip_extract_member output strip m fs = Inr fs' \<Longrightarrow> zip_extracted_path output strip m = Some p \<Longrightarrow> touches p fs fs'"
  by (auto simp: zip_extract_member_def split: if_splits intro: touches_mkdir touches_write)

text \<open>A file that an extraction wrote stays as long as no later member has the same path.\<close>

lemma prefix_file: "lookup p fs = Some (File c) \<Longrightarrow> prefix p q \<Longrightarrow> p \<noteq> q \<Longrightarrow> put q m fs \<noteq> Inr fs'"
proof (induction p fs arbitrary: q m fs' rule: lookup.induct)
  case (1 n)
  then show ?case by (cases q) auto
next
  case (3 x xs es)
  then obtain k where k: "map_of es x = Some k" "lookup xs k = Some (File c)" by (auto split: option.splits)
  from 3(3,4) obtain y ys where q: "q = x # y # ys" "prefix xs (y # ys)" "xs \<noteq> y # ys"
    by (cases q; cases "tl q") auto
  with 3(1) [OF k(1) k(2) q(2,3)] k q show ?case by (auto simp: rmap_Inr_conv)
qed simp

lemma put_keeps_file:
  assumes "lookup p fs = Some (File c)" and "put q m fs = Inr fs'" and "p \<noteq> q" and "\<not> fs_is_dir fs q"
  shows "lookup p fs' = Some (File c)"
proof -
  have "\<not> prefix p q" using prefix_file assms by blast
  moreover have "\<not> prefix q p"
  proof
    assume "prefix q p"
    then obtain r where "p = q @ r" by (auto simp: prefix_def)
    with assms(1,3) obtain k x xs where "lookup q fs = Some k" "lookup (x # xs) k = Some (File c)"
      by (cases r) (auto simp: lookup_append split: option.splits)
    with assms(4) show False by (cases k) (auto simp: fs_is_dir_def)
  qed
  ultimately show ?thesis using tree.store_apart [OF assms(2)] assms(1) by (simp add: apart_def)
qed

lemma zip_member_keeps_file:
  assumes "lookup p fs = Some (File c)" and "zip_extract_member output strip m fs = Inr fs'"
    and "zip_extracted_path output strip m \<noteq> Some p"
  shows "lookup p fs' = Some (File c)"
  using assms
  by (auto simp: zip_extract_member_def fs_write_def fs_mkdir_def split: option.splits if_splits
      intro: put_keeps_file)

lemma zip_arcname_relative: "startswith (zip_arcname m) ''/'' \<Longrightarrow> False"
proof -
  assume *: "startswith (zip_arcname m) ''/''"
  let ?ps = "filter (\<lambda>x. x \<notin> {[], ''.'', ''..''}) (split_on CHR ''/'' (zi_filename m))"
  show False
  proof (cases ?ps)
    case (Cons x xs)
    then have "x \<in> set ?ps" by simp
    then have "x \<noteq> []" "CHR ''/'' \<notin> set x" by (auto dest: split_on_parts)
    with * Cons show False by (cases x; cases xs) (auto simp: zip_arcname_def startswith_def)
  qed (use * in \<open>simp add: zip_arcname_def startswith_def\<close>)
qed

text \<open>What follows a slash in the joined name of components is joined from components too.\<close>

lemma split_max_join_last:
  "(\<forall>x \<in> set xs. x \<noteq> [] \<and> c \<notin> set x) \<Longrightarrow>
     \<exists>ys. set ys \<subseteq> set xs \<and> List.last (split_max c n (str_join [c] xs)) = str_join [c] ys"
proof (induction xs arbitrary: n)
  case Nil
  then show ?case by (intro exI [of _ "[]"]) simp
next
  case (Cons x xs)
  show ?case
  proof (cases "n = 0 \<or> xs = []")
    case True
    with Cons.prems show ?thesis by (intro exI [of _ "x # xs"]) auto
  next
    case False
    then obtain k where k: "n = Suc k" by (cases n) auto
    from Cons.IH [of k] Cons.prems obtain ys where "set ys \<subseteq> set xs"
      "List.last (split_max c k (str_join [c] xs)) = str_join [c] ys" by auto
    with False k Cons.prems show ?thesis
      by (intro exI [of _ ys]) (auto simp: str_join_Cons split_max_append)
  qed
qed

lemma str_join_relative: "(\<forall>x \<in> set xs. x \<noteq> [] \<and> c \<notin> set x) \<Longrightarrow> \<not> startswith (str_join [c] xs) [c]"
  by (cases xs; cases "hd xs"; cases "tl xs") (auto simp: startswith_def)

lemma zip_path_below:
  assumes "zip_extracted_path output strip m = Some p"
  shows "\<exists>r. p = output @ r"
proof -
  let ?ps = "filter (\<lambda>x. x \<notin> {[], ''.'', ''..''}) (split_on CHR ''/'' (zi_filename m))"
  have ps: "\<forall>x \<in> set ?ps. x \<noteq> [] \<and> CHR ''/'' \<notin> set x" by (auto dest: split_on_parts)
  from split_max_join_last [OF ps, of strip] obtain ys where ys: "set ys \<subseteq> set ?ps"
    "List.last (split_max CHR ''/'' strip (zip_arcname m)) = str_join ''/'' ys" by (auto simp: zip_arcname_def)
  with ps have "\<not> startswith (str_join ''/'' ys) ''/''" by (intro str_join_relative) auto
  with assms ys(2) zip_arcname_relative [of m] show ?thesis
    by (auto simp: zip_extracted_path_def joinpath_def split: if_splits)
qed

lemma tar_path_below: "tar_extracted_path output 0 m = Some p \<Longrightarrow> \<exists>r. p = output @ r"
  by (auto simp: tar_extracted_path_def joinpath_def tar_unsafe_def split: if_splits)

lemma put_grandchild_missing:
  "lookup p fs = Some (Dir es) \<Longrightarrow> map_of es d = None \<Longrightarrow> put (p @ [d, f]) m fs = Inl FileNotFoundErr"
proof (induction p fs rule: lookup.induct)
  case (3 x xs ds)
  then obtain k where k: "map_of ds x = Some k" "lookup xs k = Some (Dir es)" by (auto split: option.splits)
  obtain z zs where "xs @ [d, f] = z # zs" by (cases xs) auto
  with 3(1) [OF k 3(3)] k show ?case by auto
qed auto

section \<open>Properties\<close>

lemma zip_contained:
  "zip_extractall output strip ms fs = Inr fs' \<Longrightarrow> apart output q \<Longrightarrow> lookup q fs' = lookup q fs"
  unfolding zip_extractall_def
proof (rule rfold_invariant [where I = "\<lambda>t. lookup q t = lookup q fs"])
  fix m s t
  assume q: "apart output q" and m: "zip_extract_member output strip m s = Inr t" and "lookup q s = lookup q fs"
  show "lookup q t = lookup q fs"
  proof (cases "zip_extracted_path output strip m")
    case None
    with m \<open>lookup q s = _\<close> show ?thesis by (simp add: zip_extract_member_def)
  next
    case (Some p)
    with zip_path_below [OF Some] touches_below zip_member_touches [OF m Some] have "touches output s t" by blast
    with q \<open>lookup q s = _\<close> show ?thesis by (simp add: touches_def)
  qed
qed auto

definition evil_zip :: "zip_member list" where
  "evil_zip =
     [\<lparr>zi_filename = ''../etc/'', zi_date_time = [2020, 1, 1, 0, 0, 0], zi_content = []\<rparr>,
      \<lparr>zi_filename = ''/etc//passwd'', zi_date_time = [2020, 1, 1, 0, 0, 0], zi_content = ''x''\<rparr>]"

definition example_fs :: node where
  "example_fs = Dir [(''etc'', Dir [(''passwd'', File ''root'')]), (''out'', Dir [])]"

lemma tar_contained:
  "tar_safe_extractall output 0 ms fs = Inr fs' \<Longrightarrow> apart output q \<Longrightarrow> lookup q fs' = lookup q fs"
  unfolding tar_safe_extractall_def
proof (rule rfold_invariant [where I = "\<lambda>t. lookup q t = lookup q fs"])
  fix m s t
  assume q: "apart output q" and m: "tar_extract_member output 0 m s = Inr t" and "lookup q s = lookup q fs"
  show "lookup q t = lookup q fs"
  proof (cases "tar_extracted_path output 0 m")
    case None
    with m \<open>lookup q s = _\<close> show ?thesis by (simp add: tar_extract_member_def)
  next
    case (Some p)
    with tar_path_below [OF Some] touches_below tar_member_touches [OF m Some] have "touches output s t" by blast
    with q \<open>lookup q s = _\<close> show ?thesis by (simp add: touches_def)
  qed
qed auto


definition evil_tar :: archive_file where
  "evil_tar = ArchiveFileTar ''evil.tar.gz'' (map (\<lambda>(n, d). \<lparr>ti_name = n, ti_isdir = d, ti_mode = 420, ti_mtime = 0, ti_content = ''x''\<rparr>)
     [(''a'', True), (''/etc/passwd'', False), (''../etc/passwd'', False), (''a/b'', False)])"


lemma ar_extract_touches: "ar_extract output 0 a fs = Inr (d, fs') \<Longrightarrow> touches output fs fs'"
  using zip_contained tar_contained
  by (cases a) (auto simp: ar_extract_def touches_def rbind_Inr_conv rmap_Inr_conv)

text \<open>With the stripping of one level, which supplementary archives with one top level use, the
  test of unsafe names is not enough: a name with a double slash after its first component is
  extracted at an absolute path, wherever the output directory is.\<close>

theorem tar_strip_escapes:
  assumes "CHR ''/'' \<notin> set d" and "d \<noteq> []"
    and "\<not> str_in ''..'' (d @ ''//'' @ s)" and "ti_name m = d @ ''//'' @ s"
  shows "tar_extracted_path output 1 m = Some (path_parts s)"
proof -
  have "split_max CHR ''/'' 1 (d @ CHR ''/'' # CHR ''/'' # s) = [d, CHR ''/'' # s]"
    using assms(1) by (simp add: split_max_append)
  moreover have "\<not> startswith (d @ ''//'' @ s) ''/''" using assms(1,2) by (cases d) (auto simp: startswith_def)
  moreover have "path_parts (CHR ''/'' # s) = path_parts s" by (simp add: path_parts_def)
  ultimately show ?thesis
    using assms by (simp add: tar_extracted_path_def tar_unsafe_def joinpath_def startswith_def count_char_def)
qed

lemma tar_strip_escapes_witness:
  "tar_extracted_path [''build'', ''src''] 1
     \<lparr>ti_name = ''a//etc/passwd'', ti_isdir = False, ti_mode = 420, ti_mtime = 0, ti_content = ''x''\<rparr> =
     Some (path_parts ''etc/passwd'')"
  by (rule tar_strip_escapes [of "''a''"]) (simp_all add: startswith_def)

text \<open>After the extraction of a zip file, each of its files is where its name says with its
  content, unless a later member has the same path.\<close>

theorem zip_files_extracted:
  assumes "zip_extractall output strip (before @ m # after) fs = Inr fs'" and "\<not> zi_is_dir m"
    and "zip_extracted_path output strip m = Some p"
    and "\<forall>x \<in> set after. zip_extracted_path output strip x \<noteq> Some p"
  shows "lookup p fs' = Some (File (zi_content m))"
proof -
  from assms(1) obtain s1 s2 where *: "zip_extract_member output strip m s1 = Inr s2"
      "rfold (zip_extract_member output strip) after s2 = Inr fs'"
    by (auto simp: zip_extractall_def rfold_append rbind_Inr_conv)
  from *(1) assms(2,3) have "lookup p s2 = Some (File (zi_content m))"
    by (auto simp: zip_extract_member_def intro: tree.store_same dest: write_Inr_put)
  from *(2) this show ?thesis
  proof (rule rfold_invariant [where I = "\<lambda>t. lookup p t = Some (File (zi_content m))"])
    fix x s t
    assume "x \<in> set after" "zip_extract_member output strip x s = Inr t" "lookup p s = Some (File (zi_content m))"
    with assms(4) show "lookup p t = Some (File (zi_content m))" by (blast intro: zip_member_keeps_file)
  qed
qed

lemma zip_files_extracted_witness:
  "lookup [''out'', ''etc'', ''passwd''] (Dir [(''etc'', Dir [(''passwd'', File ''root'')]),
       (''out'', Dir [(''etc'', Dir [(''passwd'', File ''x'')])])]) = Some (File ''x'')"
proof -
  have "lookup [''out'', ''etc'', ''passwd''] (Dir [(''etc'', Dir [(''passwd'', File ''root'')]),
       (''out'', Dir [(''etc'', Dir [(''passwd'', File ''x'')])])]) = Some (File (zi_content (evil_zip ! 1)))"
  proof (rule zip_files_extracted)
    show "zip_extractall [''out''] 0 ([evil_zip ! 0] @ evil_zip ! 1 # []) example_fs =
       Inr (Dir [(''etc'', Dir [(''passwd'', File ''root'')]), (''out'', Dir [(''etc'', Dir [(''passwd'', File ''x'')])])])"
      by code_simp
    show "\<not> zi_is_dir (evil_zip ! 1)" by code_simp
    show "zip_extracted_path [''out''] 0 (evil_zip ! 1) = Some [''out'', ''etc'', ''passwd'']" by code_simp
  qed simp
  then show ?thesis by (simp add: evil_zip_def)
qed

text \<open>A zip file without an entry for the directory of one of its files, which the standard
  library extracts, is not extracted: the parent directories are not created.\<close>

theorem zip_needs_directories:
  assumes "zi_filename m = d @ ''/'' @ f" and "CHR ''/'' \<notin> set d" and "d \<notin> {[], ''.'', ''..''}"
    and "CHR ''/'' \<notin> set f" and "f \<notin> {[], ''.'', ''..''}"
    and "lookup output fs = Some (Dir es)" and "map_of es d = None"
  shows "zip_extractall output 0 (m # ms) fs = Inl FileNotFoundErr"
proof -
  have "split_on CHR ''/'' (zi_filename m) = [d, f]" using assms(1,2,4) by (simp add: split_on_append)
  with assms(3,5) have "zip_arcname m = d @ ''/'' @ f" by (auto simp: zip_arcname_def)
  moreover have "path_parts (d @ ''/'' @ f) = [d, f]"
    using assms(2-5) by (simp add: path_parts_def split_on_append)
  moreover have "\<not> startswith (d @ ''/'' @ f) ''/''" using assms(2,3) by (cases d) (auto simp: startswith_def)
  ultimately have p: "zip_extracted_path output 0 m = Some (output @ [d, f])"
    by (simp add: zip_extracted_path_def joinpath_def)
  have "\<not> zi_is_dir m"
    using assms(1,4,5) by (cases f rule: rev_cases) (auto simp: zi_is_dir_def endswith_def startswith_def)
  moreover have "put (output @ [d, f]) (File (zi_content m)) fs = Inl FileNotFoundErr"
    using assms(6,7) by (rule put_grandchild_missing)
  moreover have "lookup (output @ [d, f]) fs = None" using assms(6,7) by (simp add: lookup_append)
  ultimately show ?thesis
    by (simp add: zip_extractall_def zip_extract_member_def p fs_write_def fs_is_dir_def)
qed

lemma zip_needs_directories_witness:
  "zip_extractall [''out''] 0 [\<lparr>zi_filename = ''pkg/main.c'', zi_date_time = [], zi_content = ''x''\<rparr>] example_fs =
     Inl FileNotFoundErr"
  by (rule zip_needs_directories [where d = "''pkg''" and f = "''main.c''" and es = "[]"])
    (simp_all add: example_fs_def)

lemma rstrip_dir: "\<not> endswith n ''//'' \<Longrightarrow> endswith n ''/'' \<Longrightarrow> str_rstrip_char CHR ''/'' n = butlast n"
  by (cases n rule: rev_cases; cases "butlast n" rule: rev_cases)
    (auto simp: endswith_def startswith_def str_rstrip_char_def butlast_append split: if_splits)

lemma toplevel_converted: "\<not> endswith (zi_filename m) ''//'' \<Longrightarrow> tar_toplevel (tar_info_of mktime m) \<longleftrightarrow> zip_toplevel m"
proof (cases "zi_is_dir m")
  case False
  then show ?thesis
    by (cases "zi_filename m" rule: rev_cases)
      (auto simp: zi_is_dir_def tar_toplevel_def zip_toplevel_def tar_info_of_def endswith_def startswith_def)
qed (simp add: zi_is_dir_def tar_toplevel_def zip_toplevel_def tar_info_of_def rstrip_dir)

lemma single_toplevel_converted:
  "\<forall>m \<in> set ms. \<not> endswith (zi_filename m) ''//'' \<Longrightarrow>
     single_toplevel tar_toplevel b (map (tar_info_of mktime) ms) = single_toplevel zip_toplevel b ms"
  by (induction ms arbitrary: b) (simp_all add: toplevel_converted)

lemma filter_toplevel_converted:
  "\<forall>m \<in> set ms. \<not> endswith (zi_filename m) ''//'' \<Longrightarrow>
     filter tar_toplevel (map (tar_info_of mktime) ms) = map (tar_info_of mktime) (filter zip_toplevel ms)"
  by (induction ms) (simp_all add: toplevel_converted)

lemma tar_info_dir: "ti_isdir (tar_info_of mktime m) = zi_is_dir m"
  by (simp add: tar_info_of_def)

text \<open>The conversion of a zip file to a tarball keeps its layout: the subdirectory at its root
  and whether it has a single top-level element, provided no name ends with two slashes.\<close>

theorem convert_keeps_layout:
  assumes "convert_tar mktime new (ArchiveFileZip name ms) = Inr a"
    and "\<forall>m \<in> set ms. \<not> endswith (zi_filename m) ''//''"
  shows "ar_subdir a = zip_subdir ms \<and> ar_has_single_toplevel a = zip_has_single_toplevel ms"
proof -
  have a: "a = ArchiveFileTar new (map (tar_info_of mktime) ms)" using assms(1) by (simp add: convert_tar_def)
  have "tar_subdir (map (tar_info_of mktime) ms) = zip_subdir ms"
  proof (cases "filter zip_toplevel ms")
    case (Cons m rest)
    then have "m \<in> set (filter zip_toplevel ms)" by simp
    then have "m \<in> set ms" by simp
    with assms(2) have "\<not> endswith (zi_filename m) ''//''" by blast
    then have "zi_is_dir m \<Longrightarrow> ti_name (tar_info_of mktime m) = butlast (zi_filename m)"
      by (simp add: tar_info_of_def zi_is_dir_def rstrip_dir)
    with Cons show ?thesis
      by (simp add: tar_subdir_def zip_subdir_def filter_toplevel_converted [OF assms(2)] tar_info_dir)
  qed (simp add: tar_subdir_def zip_subdir_def filter_toplevel_converted [OF assms(2)])
  moreover have "tar_has_single_toplevel (map (tar_info_of mktime) ms) = zip_has_single_toplevel ms"
    using single_toplevel_converted [OF assms(2)] by (simp add: tar_has_single_toplevel_def zip_has_single_toplevel_def)
  ultimately show ?thesis by (simp add: a ar_subdir_def ar_has_single_toplevel_def)
qed

definition plain_zip :: "zip_member list" where
  "plain_zip = [\<lparr>zi_filename = ''pkg-1.0/'', zi_date_time = [], zi_content = []\<rparr>,
     \<lparr>zi_filename = ''pkg-1.0/main.c'', zi_date_time = [], zi_content = ''x''\<rparr>]"

lemma convert_keeps_layout_witness:
  "ar_subdir (ArchiveFileTar ''pkg.tar.xz'' (map (tar_info_of (\<lambda>_. 0)) plain_zip)) = zip_subdir plain_zip \<and>
   ar_has_single_toplevel (ArchiveFileTar ''pkg.tar.xz'' (map (tar_info_of (\<lambda>_. 0)) plain_zip)) =
     zip_has_single_toplevel plain_zip"
  by (rule convert_keeps_layout [of "\<lambda>_. 0" "''pkg.tar.xz''" "''pkg.zip''"])
    (simp_all add: convert_tar_def plain_zip_def endswith_def startswith_def)

lemma lex_prefix: "strict_prefix x y \<Longrightarrow> x < (y :: 'a::linorder list)"
proof (induction x arbitrary: y)
  case (Cons a x)
  then obtain y' where "y = a # y'" "strict_prefix x y'" by (cases y) auto
  with Cons.IH show ?case by simp
next
  case Nil
  then show ?case by (cases y) auto
qed

text \<open>The attributes of the directories of a tarball are set inside out: no directory comes
  before one that is below it, so the times set stay.\<close>

theorem tar_directories_inside_out:
  assumes "i < j" and "j < length (tar_directories output strip ms)"
  shows "\<not> strict_prefix (tar_directories output strip ms ! i) (tar_directories output strip ms ! j)"
proof
  let ?ds = "tar_directories output strip ms"
  assume "strict_prefix (?ds ! i) (?ds ! j)"
  then have "?ds ! i < ?ds ! j" by (rule lex_prefix)
  moreover have "sorted (rev ?ds)" by (simp add: tar_directories_def)
  then have "?ds ! j \<le> ?ds ! i" using assms sorted_rev_nth_mono [of ?ds i j] by simp
  ultimately show False by simp
qed

lemma tar_directories_inside_out_witness:
  "tar_directories [''out''] 0 (map (tar_info_of (\<lambda>_. 0))
     [\<lparr>zi_filename = ''a/'', zi_date_time = [], zi_content = []\<rparr>,
      \<lparr>zi_filename = ''a/b/'', zi_date_time = [], zi_content = []\<rparr>]) = [[''out'', ''a'', ''b''], [''out'', ''a'']] \<and>
   \<not> strict_prefix ([[''out'', ''a'', ''b''], [''out'', ''a'']] ! 0) ([[''out'', ''a'', ''b''], [''out'', ''a'']] ! 1)"
proof -
  let ?ms = "map (tar_info_of (\<lambda>_. 0))
     [\<lparr>zi_filename = ''a/'', zi_date_time = [], zi_content = []\<rparr>,
      \<lparr>zi_filename = ''a/b/'', zi_date_time = [], zi_content = []\<rparr>]"
  have *: "tar_directories [''out''] 0 ?ms = [[''out'', ''a'', ''b''], [''out'', ''a'']]" by code_simp
  with tar_directories_inside_out [of 0 1 "[''out'']" 0 ?ms] show ?thesis by simp
qed

end
