(* ===== verification/TaskQueue.thy ===== *)
theory TaskQueue imports Prelude begin

text \<open>
  The queue of \<^verbatim>\<open>fatbuildr/tasks/manager.py\<close> (\<^verbatim>\<open>InterruptableSemaphore\<close>,
  \<^verbatim>\<open>QueueManager\<close>, the pick and the full queue of \<^verbatim>\<open>ServerTasksManager\<close>). First the atomic
  operations the code composes, then the threads of an instance as a step relation: any number of
  submitters, one worker, one observer of the full queue. The steps are the operations that the
  interpreter's lock makes atomic.
\<close>

section \<open>Operations\<close>

record queued_task =
  qt_id :: string

record 'a queue_manager =
  qm_queue :: "'a list"
  qm_count :: nat
  qm_locked :: bool

text \<open>\<^verbatim>\<open>InterruptableSemaphore.acquire\<close>: without waiting when the value is positive; on zero it
  waits once for a notification or the timeout, and reports a failure in both cases. \<open>sem_acquire\<close>
  gives the answer and the value after it.\<close>

definition sem_acquire :: "nat \<Rightarrow> bool \<times> nat" where
  "sem_acquire v = (if v = 0 then (False, v) else (True, v - 1))"

definition sem_release :: "nat \<Rightarrow> nat" where
  "sem_release v = v + 1"

definition popleft :: "'a list \<Rightarrow> ('a \<times> 'a list) res" where
  "popleft q = (case q of [] \<Rightarrow> Inl IndexErr | x # xs \<Rightarrow> Inr (x, xs))"

definition QueueManager_init :: "'a queue_manager" where
  "QueueManager_init = \<lparr>qm_queue = [], qm_count = 0, qm_locked = False\<rparr>"

definition QueueManager_empty :: "'a queue_manager \<Rightarrow> bool" where
  "QueueManager_empty q \<longleftrightarrow> length (qm_queue q) = 0"

definition QueueManager_dump :: "'a queue_manager \<Rightarrow> 'a list" where
  "QueueManager_dump q = qm_queue q"

definition QueueManager_put :: "'a \<Rightarrow> 'a queue_manager \<Rightarrow> 'a queue_manager" where
  "QueueManager_put x q = q\<lparr>qm_queue := qm_queue q @ [x], qm_count := sem_release (qm_count q)\<rparr>"

text \<open>\<^verbatim>\<open>get\<close> leaves the state lock held when it returns an item; \<^verbatim>\<open>release\<close> frees it.\<close>

definition QueueManager_get :: "'a queue_manager \<Rightarrow> ('a option \<times> 'a queue_manager) res" where
  "QueueManager_get q =
     (case sem_acquire (qm_count q) of
        (False, _) \<Rightarrow> Inr (None, q)
      | (True, v) \<Rightarrow>
          rmap (\<lambda>(x, xs). (Some x, q\<lparr>qm_queue := xs, qm_count := v, qm_locked := True\<rparr>))
            (popleft (qm_queue q)))"

definition QueueManager_release :: "'a queue_manager \<Rightarrow> 'a queue_manager" where
  "QueueManager_release q = q\<lparr>qm_locked := False\<rparr>"

text \<open>\<^verbatim>\<open>ServerTasksManager.fullqueue\<close>, after its two reads.\<close>

definition fullqueue_merge :: "queued_task list \<Rightarrow> queued_task option \<Rightarrow> queued_task list" where
  "fullqueue_merge queue running =
     (case running of
        None \<Rightarrow> queue
      | Some r \<Rightarrow> if qt_id r \<notin> set (map qt_id queue) then r # queue else queue)"

section \<open>The abstract queue\<close>

text \<open>What the manager's clients rely on: a first-in first-out queue, whose items count is the
  semaphore's value.\<close>

locale fifo_queue =
  fixes items :: "'q \<Rightarrow> 'a list" and good :: "'q \<Rightarrow> bool"
    and start :: 'q and put :: "'a \<Rightarrow> 'q \<Rightarrow> 'q" and get :: "'q \<Rightarrow> ('a option \<times> 'q) res"
  assumes start_good: "good start" and start_items: "items start = []"
    and put_good: "good q \<Longrightarrow> good (put x q)" and put_items: "good q \<Longrightarrow> items (put x q) = items q @ [x]"
    and get_none: "good q \<Longrightarrow> items q = [] \<Longrightarrow> get q = Inr (None, q)"
    and get_some: "good q \<Longrightarrow> items q = x # xs \<Longrightarrow>
      \<exists>q'. get q = Inr (Some x, q') \<and> good q' \<and> items q' = xs"
begin

fun put_all :: "'a list \<Rightarrow> 'q \<Rightarrow> 'q" where
  "put_all [] q = q"
| "put_all (x # xs) q = put_all xs (put x q)"

fun get_n :: "nat \<Rightarrow> 'q \<Rightarrow> ('a list \<times> 'q) res" where
  "get_n 0 q = Inr ([], q)"
| "get_n (Suc n) q =
     rbind (get q) (\<lambda>(x, q'). rmap (\<lambda>(xs, q''). ((case x of None \<Rightarrow> xs | Some y \<Rightarrow> y # xs), q'')) (get_n n q'))"

lemma put_all_items: "good q \<Longrightarrow> good (put_all xs q) \<and> items (put_all xs q) = items q @ xs"
  by (induction xs arbitrary: q) (auto simp: put_good put_items)

lemma get_n_items: "good q \<Longrightarrow> \<exists>q'. get_n (length (items q)) q = Inr (items q, q') \<and> good q' \<and> items q' = []"
proof (induction "items q" arbitrary: q)
  case Nil
  then show ?case using Nil.hyps [symmetric] by auto
next
  case (Cons x xs)
  from get_some [OF Cons.prems Cons.hyps(2) [symmetric]]
  obtain q' where q': "get q = Inr (Some x, q')" "good q'" "items q' = xs" by blast
  from Cons.hyps(1) [of q'] q' obtain q'' where "get_n (length xs) q' = Inr (xs, q'')" "good q''" "items q'' = []"
    by auto
  with q' show ?case by (simp add: Cons.hyps(2) [symmetric])
qed

text \<open>What was put comes out, in order, and nothing else.\<close>

lemma fifo: "\<exists>q. get_n (length xs) (put_all xs start) = Inr (xs, q) \<and> items q = []"
  using get_n_items [of "put_all xs start"] put_all_items [OF start_good, of xs] by (auto simp: start_items)

end

text \<open>The code's queue, when every item is counted. After a \<^verbatim>\<open>get\<close> the client releases the lock.\<close>

definition qm_good :: "'a queue_manager \<Rightarrow> bool" where
  "qm_good q \<longleftrightarrow> qm_count q = length (qm_queue q) \<and> \<not> qm_locked q"

definition qm_take :: "'a queue_manager \<Rightarrow> ('a option \<times> 'a queue_manager) res" where
  "qm_take q = rmap (\<lambda>(x, q'). (x, case x of None \<Rightarrow> q' | Some _ \<Rightarrow> QueueManager_release q')) (QueueManager_get q)"

interpretation qm: fifo_queue qm_queue qm_good QueueManager_init QueueManager_put qm_take
  by unfold_locales
    (auto simp: qm_good_def QueueManager_init_def QueueManager_put_def qm_take_def QueueManager_get_def
      QueueManager_release_def sem_acquire_def sem_release_def popleft_def)

section \<open>The threads\<close>

text \<open>The worker's program counter follows \<^verbatim>\<open>pick\<close>: the semaphore taken, the lock taken, the task
  popped, \<^verbatim>\<open>running\<close> set, the lock released. The observer's follows \<^verbatim>\<open>fullqueue\<close>.\<close>

datatype worker_pc = WWait | WTook | WLocked | WPopped queued_task | WSet queued_task | WRun queued_task
datatype observer_pc = OIdle | OLocked | ODumped "queued_task list" | ODone "queued_task list"
datatype lock_owner = Worker | Observer

text \<open>\<open>s_unreleased\<close> counts the submitters between \<^verbatim>\<open>append\<close> and \<^verbatim>\<open>release\<close>. Three histories
  record the submissions, the picks, and the tasks alive (queued, being picked or running) since the
  observer started.\<close>

record qsys =
  s_queue :: "queued_task list"
  s_count :: nat
  s_lock :: "lock_owner option"
  s_running :: "queued_task option"
  s_unreleased :: nat
  s_worker :: worker_pc
  s_obs :: observer_pc
  s_submitted :: "queued_task list"
  s_picked :: "queued_task list"
  s_since :: "queued_task set"

definition in_hand :: "worker_pc \<Rightarrow> queued_task set" where
  "in_hand w = (case w of WPopped t \<Rightarrow> {t} | WSet t \<Rightarrow> {t} | WRun t \<Rightarrow> {t} | _ \<Rightarrow> {})"

definition live :: "qsys \<Rightarrow> queued_task set" where
  "live s = set (s_queue s) \<union> in_hand (s_worker s)"

definition qsys_init :: qsys where
  "qsys_init = \<lparr>s_queue = [], s_count = 0, s_lock = None, s_running = None, s_unreleased = 0,
     s_worker = WWait, s_obs = OIdle, s_submitted = [], s_picked = [], s_since = {}\<rparr>"

inductive qstep :: "qsys \<Rightarrow> qsys \<Rightarrow> bool" where
  append: "qt_id t \<notin> qt_id ` set (s_submitted s) \<Longrightarrow>
    qstep s (s\<lparr>s_queue := s_queue s @ [t], s_unreleased := Suc (s_unreleased s),
               s_submitted := s_submitted s @ [t]\<rparr>)"
| release: "s_unreleased s = Suc n \<Longrightarrow>
    qstep s (s\<lparr>s_unreleased := n, s_count := sem_release (s_count s)\<rparr>)"
| acquire: "s_worker s = WWait \<Longrightarrow> sem_acquire (s_count s) = (True, v) \<Longrightarrow>
    qstep s (s\<lparr>s_count := v, s_worker := WTook\<rparr>)"
| lock: "s_worker s = WTook \<Longrightarrow> s_lock s = None \<Longrightarrow>
    qstep s (s\<lparr>s_lock := Some Worker, s_worker := WLocked\<rparr>)"
| pop: "s_worker s = WLocked \<Longrightarrow> popleft (s_queue s) = Inr (t, q) \<Longrightarrow>
    qstep s (s\<lparr>s_queue := q, s_worker := WPopped t, s_picked := s_picked s @ [t]\<rparr>)"
| set_running: "s_worker s = WPopped t \<Longrightarrow>
    qstep s (s\<lparr>s_running := Some t, s_worker := WSet t\<rparr>)"
| unlock: "s_worker s = WSet t \<Longrightarrow>
    qstep s (s\<lparr>s_lock := None, s_worker := WRun t\<rparr>)"
| finish: "s_worker s = WRun t \<Longrightarrow>
    qstep s (s\<lparr>s_running := None, s_worker := WWait, s_since := s_since s - {t}\<rparr>)"
| dump_lock: "s_obs s = OIdle \<Longrightarrow> s_lock s = None \<Longrightarrow>
    qstep s (s\<lparr>s_lock := Some Observer, s_obs := OLocked, s_since := live s\<rparr>)"
| dump: "s_obs s = OLocked \<Longrightarrow>
    qstep s (s\<lparr>s_lock := None, s_obs := ODumped (s_queue s)\<rparr>)"
| read_running: "s_obs s = ODumped q \<Longrightarrow>
    qstep s (s\<lparr>s_obs := ODone (fullqueue_merge q (s_running s))\<rparr>)"
| again: "s_obs s = ODone r \<Longrightarrow> qstep s (s\<lparr>s_obs := OIdle\<rparr>)"

inductive reachable :: "qsys \<Rightarrow> bool" where
  start: "reachable qsys_init"
| step: "reachable s \<Longrightarrow> qstep s s' \<Longrightarrow> reachable s'"

section \<open>Invariants\<close>

definition took :: "worker_pc \<Rightarrow> nat" where
  "took w = (case w of WTook \<Rightarrow> 1 | WLocked \<Rightarrow> 1 | _ \<Rightarrow> 0)"

text \<open>Every item is accounted for: by the semaphore, by a submitter that has yet to release it, or
  by the worker that has taken the semaphore.\<close>

definition count_inv :: "qsys \<Rightarrow> bool" where
  "count_inv s \<longleftrightarrow> s_count s + s_unreleased s + took (s_worker s) = length (s_queue s)"

definition lock_inv :: "qsys \<Rightarrow> bool" where
  "lock_inv s \<longleftrightarrow>
     (s_lock s = Some Worker \<longleftrightarrow> (case s_worker s of WLocked \<Rightarrow> True | WPopped _ \<Rightarrow> True | WSet _ \<Rightarrow> True | _ \<Rightarrow> False))
     \<and> (s_lock s = Some Observer \<longleftrightarrow> s_obs s = OLocked)
     \<and> s_running s = (case s_worker s of WSet t \<Rightarrow> Some t | WRun t \<Rightarrow> Some t | _ \<Rightarrow> None)"

text \<open>Submissions have distinct identifiers; the picked ones are the first of them, in order; the
  task in hand is the last one picked.\<close>

definition ids_inv :: "qsys \<Rightarrow> bool" where
  "ids_inv s \<longleftrightarrow> distinct (map qt_id (s_submitted s))"

definition order_inv :: "qsys \<Rightarrow> bool" where
  "order_inv s \<longleftrightarrow>
     s_submitted s = s_picked s @ s_queue s
     \<and> in_hand (s_worker s) \<subseteq> set (s_picked s)"

definition obs_inv :: "qsys \<Rightarrow> bool" where
  "obs_inv s \<longleftrightarrow>
     (case s_obs s of
        OIdle \<Rightarrow> True
      | OLocked \<Rightarrow> s_since s \<subseteq> live s
      | ODumped q \<Rightarrow> distinct (map qt_id q) \<and> set q \<subseteq> set (s_submitted s)
          \<and> (\<forall>t \<in> s_since s. t \<in> set q \<or> s_worker s = WRun t)
      | ODone r \<Rightarrow> distinct (map qt_id r) \<and> s_since s \<subseteq> set r)"

lemma count_inv_step: "qstep s s' \<Longrightarrow> count_inv s \<Longrightarrow> count_inv s'"
  by (induction rule: qstep.induct)
    (auto simp: count_inv_def took_def sem_release_def sem_acquire_def popleft_def
      split: if_splits list.splits)

lemma lock_inv_step: "qstep s s' \<Longrightarrow> lock_inv s \<Longrightarrow> lock_inv s'"
  by (induction rule: qstep.induct) (auto simp: lock_inv_def)

lemma ids_inv_step: "qstep s s' \<Longrightarrow> ids_inv s \<Longrightarrow> ids_inv s'"
  by (induction rule: qstep.induct) (auto simp: ids_inv_def)

lemma order_inv_step: "qstep s s' \<Longrightarrow> order_inv s \<Longrightarrow> order_inv s'"
  by (induction rule: qstep.induct)
    (auto simp: order_inv_def in_hand_def popleft_def split: list.splits)

lemma submitted_same:
  "ids_inv s \<Longrightarrow> t \<in> set (s_submitted s) \<Longrightarrow> u \<in> set (s_submitted s) \<Longrightarrow> qt_id t = qt_id u \<Longrightarrow> t = u"
  by (auto simp: ids_inv_def distinct_map dest: inj_onD)

text \<open>The merge of a dump with the running task: no duplicate, and the running task is there.\<close>

lemma fullqueue_merge_spec:
  assumes "distinct (map qt_id q)" and "set q \<subseteq> T" and "\<And>t. r = Some t \<Longrightarrow> t \<in> T"
    and "\<And>t u. t \<in> T \<Longrightarrow> u \<in> T \<Longrightarrow> qt_id t = qt_id u \<Longrightarrow> t = u"
  shows "distinct (map qt_id (fullqueue_merge q r)) \<and> set (fullqueue_merge q r) = set q \<union> set_option r"
proof (cases r)
  case (Some t)
  have "t \<in> set q" if "qt_id t \<in> qt_id ` set q"
    using that assms(2-4) Some by blast
  with assms(1) show ?thesis by (auto simp: fullqueue_merge_def Some)
qed (simp add: fullqueue_merge_def assms(1))

lemma obs_inv_step:
  "qstep s s' \<Longrightarrow> count_inv s \<Longrightarrow> lock_inv s \<Longrightarrow> ids_inv s \<Longrightarrow> order_inv s \<Longrightarrow> obs_inv s \<Longrightarrow> obs_inv s'"
proof (induction rule: qstep.induct)
  case (append t s)
  then show ?case by (auto simp: obs_inv_def live_def split: observer_pc.splits)
next
  case (release s n)
  then show ?case by (auto simp: obs_inv_def live_def split: observer_pc.splits)
next
  case (acquire s v)
  then show ?case by (auto simp: obs_inv_def live_def in_hand_def split: observer_pc.splits)
next
  case (lock s)
  then show ?case by (auto simp: obs_inv_def live_def in_hand_def lock_inv_def split: observer_pc.splits)
next
  case (pop s t q)
  then show ?case by (auto simp: obs_inv_def live_def in_hand_def lock_inv_def split: observer_pc.splits)
next
  case (set_running s t)
  then show ?case by (auto simp: obs_inv_def live_def in_hand_def lock_inv_def split: observer_pc.splits)
next
  case (unlock s t)
  then show ?case by (auto simp: obs_inv_def live_def in_hand_def lock_inv_def split: observer_pc.splits)
next
  case (finish s t)
  then show ?case by (auto simp: obs_inv_def live_def in_hand_def split: observer_pc.splits)
next
  case (dump_lock s)
  then show ?case by (simp add: obs_inv_def live_def)
next
  case (dump s)
  then have "distinct (map qt_id (s_queue s))"
    by (simp add: ids_inv_def order_inv_def)
  moreover from dump have "in_hand (s_worker s) \<subseteq> {t. s_worker s = WRun t}"
    by (auto simp: lock_inv_def in_hand_def split: worker_pc.splits)
  ultimately show ?case using dump by (auto simp: obs_inv_def live_def order_inv_def)
next
  case (read_running s q)
  have hand: "t \<in> set (s_submitted s)" if "s_running s = Some t" for t
    using that read_running by (auto simp: lock_inv_def order_inv_def in_hand_def split: worker_pc.splits)
  have "s_running s = Some t" if "t \<in> s_since s" "t \<notin> set q" for t
    using that read_running by (auto simp: obs_inv_def lock_inv_def)
  then have "s_since s \<subseteq> set q \<union> set_option (s_running s)" by auto
  with read_running hand show ?case
    using fullqueue_merge_spec [of q "set (s_submitted s)" "s_running s"] submitted_same [of s]
    by (auto simp: obs_inv_def)
next
  case (again s r)
  then show ?case by (simp add: obs_inv_def)
qed

lemma reachable_inv:
  "reachable s \<Longrightarrow> count_inv s \<and> lock_inv s \<and> ids_inv s \<and> order_inv s \<and> obs_inv s"
proof (induction rule: reachable.induct)
  case start
  then show ?case
    by (simp add: qsys_init_def count_inv_def lock_inv_def ids_inv_def order_inv_def obs_inv_def took_def in_hand_def)
next
  case (step s s')
  then show ?case
    by (blast intro: count_inv_step lock_inv_step ids_inv_step order_inv_step obs_inv_step)
qed

section \<open>Properties\<close>

text \<open>Whatever the interleaving of submitters, worker and observer, the worker never pops an
  empty queue: when it is about to pop, there is an item, so the pick raises no \<^verbatim>\<open>IndexError\<close> while it
  holds the state lock.\<close>

theorem pick_never_empty:
  assumes "reachable s" and "s_worker s = WLocked"
  shows "\<exists>t q. popleft (s_queue s) = Inr (t, q)"
  using reachable_inv [OF assms(1)] assms(2)
  by (cases "s_queue s") (auto simp: count_inv_def took_def popleft_def)


text \<open>The full queue has no duplicate and misses no task: every task that was queued, being
  picked or running when the observer took the lock, and is not finished since, is in its result,
  although the running task is read after the lock is released.\<close>

theorem fullqueue_complete:
  assumes "reachable s" and "s_obs s = ODone r"
  shows "distinct (map qt_id r) \<and> s_since s \<subseteq> set r"
  using reachable_inv [OF assms(1)] assms(2) by (simp add: obs_inv_def)

lemma release_from_set: "s_worker s = WSet t \<Longrightarrow> \<exists>s'. rtranclp qstep s s' \<and> s_lock s' = None"
  using qstep.unlock [of s t] by (intro exI conjI r_into_rtranclp) auto

lemma release_from_popped: "s_worker s = WPopped t \<Longrightarrow> \<exists>s'. rtranclp qstep s s' \<and> s_lock s' = None"
  using qstep.set_running [of s t] release_from_set [of "s\<lparr>s_running := Some t, s_worker := WSet t\<rparr>" t]
  by (auto intro: converse_rtranclp_into_rtranclp)

lemma release_from_locked:
  assumes "s_worker s = WLocked" and "popleft (s_queue s) = Inr (t, q)"
  shows "\<exists>s'. rtranclp qstep s s' \<and> s_lock s' = None"
  using qstep.pop [OF assms] release_from_popped
    [of "s\<lparr>s_queue := q, s_worker := WPopped t, s_picked := s_picked s @ [t]\<rparr>" t]
  by (auto intro: converse_rtranclp_into_rtranclp)

text \<open>The state lock is never leaked: from every state where it is held, its holder can go on to
  a state where it is free.\<close>

theorem lock_released:
  assumes "reachable s" and "s_lock s \<noteq> None"
  shows "\<exists>s'. rtranclp qstep s s' \<and> s_lock s' = None"
proof (cases "s_lock s = Some Observer")
  case True
  then have "s_obs s = OLocked" using reachable_inv [OF assms(1)] by (simp add: lock_inv_def)
  from r_into_rtranclp [of qstep, OF qstep.dump [OF this]] show ?thesis by fastforce
next
  case False
  then have "s_lock s = Some Worker" using assms(2) by (metis lock_owner.exhaust not_None_eq)
  then consider "s_worker s = WLocked" | t where "s_worker s = WPopped t" | t where "s_worker s = WSet t"
    using reachable_inv [OF assms(1)] by (auto simp: lock_inv_def split: worker_pc.splits)
  then show ?thesis
  proof cases
    case 1
    then obtain t q where "popleft (s_queue s) = Inr (t, q)"
      using reachable_inv [OF assms(1)]
      by (cases "s_queue s") (auto simp: count_inv_def took_def popleft_def)
    with 1 show ?thesis by (rule release_from_locked)
  qed (auto intro: release_from_popped release_from_set)
qed

section \<open>Witnesses\<close>

text \<open>A run: one task submitted and released, the semaphore taken, then the lock.\<close>

definition run_state :: "nat \<Rightarrow> worker_pc \<Rightarrow> lock_owner option \<Rightarrow> qsys" where
  "run_state c w l = \<lparr>s_queue = [\<lparr>qt_id = ''t1''\<rparr>], s_count = c, s_lock = l, s_running = None, s_unreleased = 0,
     s_worker = w, s_obs = OIdle, s_submitted = [\<lparr>qt_id = ''t1''\<rparr>], s_picked = [], s_since = {}\<rparr>"

lemma run_released: "reachable (run_state 1 WWait None)"
proof -
  have "reachable (qsys_init\<lparr>s_queue := [\<lparr>qt_id = ''t1''\<rparr>], s_unreleased := 1, s_submitted := [\<lparr>qt_id = ''t1''\<rparr>]\<rparr>)"
    using reachable.step [OF reachable.start qstep.append [of "\<lparr>qt_id = ''t1''\<rparr>" qsys_init]] by (simp add: qsys_init_def)
  from reachable.step [OF this qstep.release [of _ 0]] show ?thesis
    by (simp add: qsys_init_def run_state_def sem_release_def)
qed

lemma run_locked: "reachable (run_state 0 WLocked (Some Worker))"
proof -
  have "reachable (run_state 0 WTook None)"
    using reachable.step [OF run_released qstep.acquire [of _ 0]] by (simp add: run_state_def sem_acquire_def)
  from reachable.step [OF this qstep.lock] show ?thesis by (simp add: run_state_def)
qed

theorem pick_never_empty_witness:
  "reachable (run_state 0 WLocked (Some Worker))
   \<and> popleft (s_queue (run_state 0 WLocked (Some Worker))) = Inr (\<lparr>qt_id = ''t1''\<rparr>, [])"
  using pick_never_empty [OF run_locked] run_locked by (simp add: run_state_def popleft_def)


lemma run_observed: "reachable (run_state 1 WWait None\<lparr>s_obs := ODone [\<lparr>qt_id = ''t1''\<rparr>], s_since := {\<lparr>qt_id = ''t1''\<rparr>}\<rparr>)"
proof -
  have 1: "reachable (run_state 1 WWait (Some Observer)\<lparr>s_obs := OLocked, s_since := {\<lparr>qt_id = ''t1''\<rparr>}\<rparr>)"
    using reachable.step [OF run_released qstep.dump_lock] by (simp add: run_state_def live_def in_hand_def)
  have 2: "reachable (run_state 1 WWait None\<lparr>s_obs := ODumped [\<lparr>qt_id = ''t1''\<rparr>], s_since := {\<lparr>qt_id = ''t1''\<rparr>}\<rparr>)"
    using reachable.step [OF 1 qstep.dump] by (simp add: run_state_def)
  from reachable.step [OF this qstep.read_running [of _ "[\<lparr>qt_id = ''t1''\<rparr>]"]] show ?thesis
    by (simp add: run_state_def fullqueue_merge_def)
qed

theorem fullqueue_complete_witness:
  "{\<lparr>qt_id = ''t1''\<rparr>} \<subseteq> set [\<lparr>qt_id = ''t1''\<rparr> :: queued_task]"
  using fullqueue_complete [OF run_observed] by (simp add: run_state_def)

theorem lock_released_witness:
  "\<exists>s'. rtranclp qstep (run_state 0 WLocked (Some Worker)) s' \<and> s_lock s' = None"
  using lock_released [OF run_locked] by (simp add: run_state_def)

end
