(* ===== verification/TasksManager.thy ===== *)
theory TasksManager imports TaskQueue History begin

text \<open>
  The life of a task in \<^verbatim>\<open>fatbuildr/tasks/__init__.py\<close> (\<^verbatim>\<open>RunnableTask\<close>, the files of
  \<^verbatim>\<open>TaskIO\<close>) and the sequential operations of \<^verbatim>\<open>ServerTasksManager\<close> in
  \<^verbatim>\<open>fatbuildr/tasks/manager.py\<close>: submit, save, restore, pick, run with its hooks, clear. The body of
  a task (its own \<^verbatim>\<open>run\<close>) is a parameter, as the hook program, the identifier generator and
  PyYAML are. The threads are the subject of \<open>TaskQueue\<close>; this theory is one thread's view.
\<close>

section \<open>State\<close>

record runnable = queued_task +
  rt_name :: string
  rt_user :: pyval
  rt_place :: path
  rt_state :: string
  rt_result :: string
  rt_submission :: int
  rt_attrs :: "(string \<times> pyval) list"
  rt_dispatching :: bool
  rt_plugged :: bool

text \<open>The queue state file: absent, empty, or the pickled identifiers.\<close>

datatype queue_file = NoFile | EmptyFile | Pickled "string list"

record hook_call =
  hc_stage :: string
  hc_task_id :: string
  hc_task_name :: string
  hc_result :: string

datatype hook_outcome = HookDone | HookPermissionError | HookTimeout | HookRaise exn
datatype hook_conf = NoHook | HookNotFile | Hook "hook_call \<Rightarrow> hook_outcome"

record tasks_manager =
  tm_fs :: node
  tm_workspaces :: path
  tm_queue :: "runnable queue_manager"
  tm_state_file :: queue_file
  tm_running :: "runnable option"
  tm_hooks :: "hook_call list"

type_synonym 'a tm_act = "(tasks_manager, 'a) act"

definition on_fs :: "(node \<Rightarrow> node res) \<Rightarrow> unit tm_act" where
  "on_fs f = spart tm_fs (\<lambda>fs s. s\<lparr>tm_fs := fs\<rparr>) f"

section \<open>Task\<close>

definition RunnableTask_init ::
  "string \<Rightarrow> string \<Rightarrow> pyval \<Rightarrow> path \<Rightarrow> int \<Rightarrow> (string \<times> pyval) list \<Rightarrow> runnable" where
  "RunnableTask_init task_name task_id user place submission attrs =
     \<lparr>qt_id = task_id, rt_name = task_name, rt_user = user, rt_place = place, rt_state = ''pending'',
      rt_result = ''unknown'', rt_submission = submission, rt_attrs = attrs,
      rt_dispatching = False, rt_plugged = False\<rparr>"

definition console_path :: "runnable \<Rightarrow> path" where
  "console_path t = rt_place t @ [''console.sock'']"

definition journal_path :: "runnable \<Rightarrow> path" where
  "journal_path t = rt_place t @ [''task.journal'']"

text \<open>\<^verbatim>\<open>TaskIO.open\<close>: the journal is truncated, a stale socket removed, the socket bound.\<close>

definition TaskIO_open :: "runnable \<Rightarrow> unit tm_act" where
  "TaskIO_open t =
     sbind (on_fs (fs_write (journal_path t) [])) (\<lambda>_.
     sbind (on_fs (\<lambda>fs. if fs_exists fs (console_path t) then fs_unlink (console_path t) fs else Inr fs)) (\<lambda>_.
       on_fs (put (console_path t) (File []))))"

definition TaskIO_close :: "runnable \<Rightarrow> unit tm_act" where
  "TaskIO_close t = on_fs (fs_unlink (console_path t))"

text \<open>A task object is shared by the caller and \<^verbatim>\<open>self.running\<close>: its updates show in both.\<close>

definition update_task :: "runnable \<Rightarrow> runnable tm_act" where
  "update_task t = sbind (smodify (\<lambda>s. s\<lparr>tm_running := map_option (\<lambda>_. t) (tm_running s)\<rparr>)) (\<lambda>_. sret t)"

definition prerun :: "runnable \<Rightarrow> runnable tm_act" where
  "prerun t =
     sbind (on_fs (\<lambda>fs. if fs_exists fs (rt_place t) then Inr fs else fs_mkdir (rt_place t) fs)) (\<lambda>_.
     sbind (TaskIO_open t) (\<lambda>_.
       update_task (t\<lparr>rt_dispatching := True, rt_plugged := True, rt_state := ''running''\<rparr>)))"

definition postrun :: "runnable \<Rightarrow> runnable tm_act" where
  "postrun t =
     sbind (update_task (t\<lparr>rt_plugged := False, rt_dispatching := False\<rparr>)) (\<lambda>t.
     sbind (TaskIO_close t) (\<lambda>_. sret t))"

text \<open>The attributes that the history archives.\<close>

definition task_attrs :: "runnable \<Rightarrow> (string \<times> pyval) list" where
  "task_attrs t =
     [(''id'', PStr (qt_id t)), (''user'', rt_user t), (''name'', PStr (rt_name t)),
      (''submission'', PTime (rt_submission t)), (''state'', PStr (rt_state t)),
      (''result'', PStr (rt_result t))] @ rt_attrs t"

definition terminate :: "((string \<times> pyval) list \<Rightarrow> string) \<Rightarrow> runnable \<Rightarrow> unit tm_act" where
  "terminate yaml_dump t = on_fs (save_task yaml_dump (task_attrs t) (rt_place t))"

section \<open>Manager\<close>

definition tm_fullqueue :: "tasks_manager \<Rightarrow> queued_task list" where
  "tm_fullqueue s = fullqueue_merge (map queued_task.truncate (QueueManager_dump (tm_queue s)))
     (map_option queued_task.truncate (tm_running s))"

definition tm_save :: "unit tm_act" where
  "tm_save = smodify (\<lambda>s.
     let tasks = QueueManager_dump (tm_queue s)
     in if length tasks = 0 then s\<lparr>tm_state_file := NoFile\<rparr>
        else s\<lparr>tm_state_file := Pickled (map qt_id tasks)\<rparr>)"

definition tm_restore :: "tasks_manager \<Rightarrow> string list" where
  "tm_restore s = (case tm_state_file s of NoFile \<Rightarrow> [] | EmptyFile \<Rightarrow> [] | Pickled ids \<Rightarrow> ids)"

text \<open>\<^verbatim>\<open>submit\<close>: the loader is the one the registry gives for the task's name, applied to the new
  identifier, the user and the place; the manager catches \<^verbatim>\<open>RuntimeError\<close> only.\<close>

definition tm_submit ::
  "(string \<Rightarrow> string \<Rightarrow> pyval \<Rightarrow> path \<Rightarrow> runnable res) \<Rightarrow> string \<Rightarrow> string \<Rightarrow> pyval \<Rightarrow> string option tm_act" where
  "tm_submit loader new_id name user s =
     (case loader name new_id user (tm_workspaces s @ [new_id]) of
        Inl e \<Rightarrow> if is_a e RuntimeErr then (Inr None, s) else (Inl e, s)
      | Inr task \<Rightarrow>
          sbind (smodify (\<lambda>s. s\<lparr>tm_queue := QueueManager_put task (tm_queue s)\<rparr>)) (\<lambda>_.
          sbind tm_save (\<lambda>_. sret (Some new_id))) s)"

definition tm_pick :: "runnable option tm_act" where
  "tm_pick s =
     (case QueueManager_get (tm_queue s) of
        Inl e \<Rightarrow> (Inl e, s)
      | Inr (None, q) \<Rightarrow> (Inr None, s\<lparr>tm_queue := q\<rparr>)
      | Inr (Some task, q) \<Rightarrow>
          (Inr (Some task), s\<lparr>tm_queue := QueueManager_release q, tm_running := Some task\<rparr>))"

definition run_hook :: "hook_conf \<Rightarrow> runnable \<Rightarrow> string \<Rightarrow> unit tm_act" where
  "run_hook hook t stage =
     (case hook of
        NoHook \<Rightarrow> sret ()
      | HookNotFile \<Rightarrow> sret ()
      | Hook exec \<Rightarrow>
          (let call = \<lparr>hc_stage = stage, hc_task_id = qt_id t, hc_task_name = rt_name t, hc_result = rt_result t\<rparr>
           in sbind (smodify (\<lambda>s. s\<lparr>tm_hooks := tm_hooks s @ [call]\<rparr>)) (\<lambda>_.
              (case exec call of HookRaise e \<Rightarrow> slift (Inl e) | _ \<Rightarrow> sret ()))))"

text \<open>The \<^verbatim>\<open>try\<close> of \<^verbatim>\<open>run\<close>: the body changes the file system and returns or raises.\<close>

definition caught_by_run :: "exn \<Rightarrow> bool" where
  "caught_by_run e \<longleftrightarrow> is_a e FatbuildrTaskExecutionError \<or> is_a e RuntimeErr"

definition run_body :: "(runnable \<Rightarrow> node \<Rightarrow> unit res \<times> node) \<Rightarrow> runnable \<Rightarrow> runnable tm_act" where
  "run_body body t s =
     (case body t (tm_fs s) of
        (Inr _, fs) \<Rightarrow> update_task (t\<lparr>rt_result := ''success''\<rparr>) (s\<lparr>tm_fs := fs\<rparr>)
      | (Inl e, fs) \<Rightarrow>
          if caught_by_run e then update_task (t\<lparr>rt_result := ''failed''\<rparr>) (s\<lparr>tm_fs := fs\<rparr>)
          else (Inl e, s\<lparr>tm_fs := fs\<rparr>))"

definition tm_run ::
  "hook_conf \<Rightarrow> ((string \<times> pyval) list \<Rightarrow> string) \<Rightarrow> (runnable \<Rightarrow> node \<Rightarrow> unit res \<times> node) \<Rightarrow> runnable \<Rightarrow> unit tm_act" where
  "tm_run hook yaml_dump body task =
     sbind (prerun task) (\<lambda>t.
     sbind (run_hook hook t ''start'') (\<lambda>_.
     sbind (run_body body t) (\<lambda>t.
     sbind (postrun t) (\<lambda>t.
     sbind (run_hook hook t ''end'') (\<lambda>_.
     sbind (terminate yaml_dump t) (\<lambda>_.
     sbind (smodify (\<lambda>s. s\<lparr>tm_running := None\<rparr>)) (\<lambda>_. tm_save)))))))"

text \<open>\<^verbatim>\<open>clear\<close>: a missing workspace is no error.\<close>

definition clear_one :: "string \<Rightarrow> unit tm_act" where
  "clear_one task_id s =
     scatch (on_fs (fs_rmtree (tm_workspaces s @ [task_id]))) (\<lambda>e. is_a e FileNotFoundErr) (\<lambda>_. sret ()) s"

definition tm_clear :: "unit tm_act" where
  "tm_clear s = sbind (sfor clear_one (tm_restore s)) (\<lambda>_. tm_save) s"

section \<open>Lemmas\<close>

text \<open>What a task needs of its workspace while it runs: the directory, the console socket, and no
  directory in the place of its form.\<close>

definition io_ok :: "path \<Rightarrow> node \<Rightarrow> bool" where
  "io_ok place fs \<longleftrightarrow>
     (\<exists>es c. lookup place fs = Some (Dir es) \<and> map_of es ''console.sock'' = Some (File c)
        \<and> \<not> fs_is_dir fs (place @ [YML_FILE]))"

lemma on_fs_apply:
  "on_fs f s = (case f (tm_fs s) of Inl e \<Rightarrow> (Inl e, s) | Inr fs \<Rightarrow> (Inr (), s\<lparr>tm_fs := fs\<rparr>))"
  by (simp add: on_fs_def spart_def)

lemma update_task_apply:
  "update_task t s = (Inr t, s\<lparr>tm_running := map_option (\<lambda>_. t) (tm_running s)\<rparr>)"
  by (simp add: update_task_def sbind_def smodify_def sret_def)

lemma prerun_ok:
  assumes "fs_mkdir (rt_place task) (tm_fs s) = Inr fs1"
  shows "\<exists>fs2. prerun task s = (Inr (task\<lparr>rt_dispatching := True, rt_plugged := True, rt_state := ''running''\<rparr>),
       s\<lparr>tm_fs := fs2, tm_running := map_option
          (\<lambda>_. task\<lparr>rt_dispatching := True, rt_plugged := True, rt_state := ''running''\<rparr>) (tm_running s)\<rparr>)
     \<and> io_ok (rt_place task) fs2
     \<and> lookup (rt_place task @ [YML_FILE]) fs2 = None"
proof -
  let ?p = "rt_place task"
  have 1: "lookup ?p fs1 = Some (Dir [])" using lookup_put_same [OF mkdir_Inr_put [OF assms]] .
  obtain fs2 where 2: "put (?p @ [''task.journal'']) (File []) fs1 = Inr fs2"
    "lookup ?p fs2 = Some (Dir [(''task.journal'', File [])])"
    using put_child [OF 1, of "''task.journal''" "File []"] by auto
  obtain fs3 where 3: "put (?p @ [''console.sock'']) (File []) fs2 = Inr fs3"
    "lookup ?p fs3 = Some (Dir [(''task.journal'', File []), (''console.sock'', File [])])"
    using put_child [OF 2(2), of "''console.sock''" "File []"] by auto
  have nj: "\<not> fs_is_dir fs1 (?p @ [''task.journal''])"
    using lookup_child [OF 1] by (simp add: fs_is_dir_lookup)
  have nc: "\<not> fs_exists fs2 (?p @ [''console.sock''])"
    using lookup_child [OF 2(2)] by (simp add: fs_exists_def)
  have ny: "lookup (?p @ [YML_FILE]) fs3 = None"
    using lookup_child [OF 3(2)] by (simp add: YML_FILE_def)
  have ne: "\<not> fs_exists (tm_fs s) ?p" using assms by (auto simp: fs_mkdir_def split: if_splits)
  have "prerun task s = (Inr (task\<lparr>rt_dispatching := True, rt_plugged := True, rt_state := ''running''\<rparr>),
       s\<lparr>tm_fs := fs3, tm_running := map_option
          (\<lambda>_. task\<lparr>rt_dispatching := True, rt_plugged := True, rt_state := ''running''\<rparr>) (tm_running s)\<rparr>)"
    using assms 2 3 nj nc ne
    by (simp add: prerun_def TaskIO_open_def sbind_def on_fs_apply fs_write_def journal_path_def
        console_path_def update_task_apply)
  with 3(2) ny show ?thesis by (auto simp: io_ok_def fs_is_dir_lookup)
qed

definition hook_quiet :: "hook_conf \<Rightarrow> bool" where
  "hook_quiet hook \<longleftrightarrow> (case hook of Hook exec \<Rightarrow> (\<forall>c e. exec c \<noteq> HookRaise e) | _ \<Rightarrow> True)"

text \<open>The calls a hook configuration records.\<close>

definition hook_calls :: "hook_conf \<Rightarrow> runnable \<Rightarrow> string \<Rightarrow> hook_call list" where
  "hook_calls hook t stage = (case hook of
     Hook exec \<Rightarrow> [\<lparr>hc_stage = stage, hc_task_id = qt_id t, hc_task_name = rt_name t, hc_result = rt_result t\<rparr>]
   | _ \<Rightarrow> [])"

lemma run_hook_quiet:
  "hook_quiet hook \<Longrightarrow> run_hook hook t stage s = (Inr (), s\<lparr>tm_hooks := tm_hooks s @ hook_calls hook t stage\<rparr>)"
  by (cases hook)
    (auto simp: run_hook_def hook_quiet_def hook_calls_def sret_def sbind_def smodify_def slift_def Let_def
      split: hook_outcome.splits)

lemma postrun_ok:
  assumes "io_ok (rt_place t) (tm_fs s)"
  shows "\<exists>fs. postrun t s = (Inr (t\<lparr>rt_plugged := False, rt_dispatching := False\<rparr>), s\<lparr>tm_fs := fs,
      tm_running := map_option (\<lambda>_. t\<lparr>rt_plugged := False, rt_dispatching := False\<rparr>) (tm_running s)\<rparr>)
    \<and> lookup (console_path t) fs = None \<and> (\<exists>es. lookup (rt_place t) fs = Some (Dir es))
    \<and> \<not> fs_is_dir fs (rt_place t @ [YML_FILE])"
proof -
  obtain es c where es: "lookup (rt_place t) (tm_fs s) = Some (Dir es)" "map_of es ''console.sock'' = Some (File c)"
    and y: "\<not> fs_is_dir (tm_fs s) (rt_place t @ [YML_FILE])" using assms by (auto simp: io_ok_def)
  obtain fs where fs: "del (console_path t) (tm_fs s) = Inr fs"
    "lookup (rt_place t) fs = Some (Dir (filter (\<lambda>e. fst e \<noteq> ''console.sock'') es))"
    using del_child [OF es(1), of "''console.sock''"] es(2) by (auto simp: console_path_def dict_has_def)
  have "\<not> fs_is_dir (tm_fs s) (console_path t)"
    using lookup_child [OF es(1)] es(2) by (simp add: fs_is_dir_lookup console_path_def)
  with fs(1) have "fs_unlink (console_path t) (tm_fs s) = Inr fs" by (simp add: fs_unlink_def)
  moreover have "lookup (rt_place t @ [YML_FILE]) fs = lookup (rt_place t @ [YML_FILE]) (tm_fs s)"
    using lookup_del_apart [OF fs(1)] by (simp add: console_path_def YML_FILE_def)
  ultimately show ?thesis
    using fs y lookup_del_same [OF fs(1)]
    by (intro exI [of _ fs]) (simp add: postrun_def sbind_def update_task_apply TaskIO_close_def on_fs_apply
        console_path_def sret_def fs_is_dir_def)
qed

lemma terminate_ok:
  assumes "form_fields (task_attrs t) = Inr form" and "lookup (rt_place t) (tm_fs s) = Some (Dir es)"
    and "\<not> fs_is_dir (tm_fs s) (rt_place t @ [YML_FILE])"
  shows "\<exists>fs. terminate yaml_dump t s = (Inr (), s\<lparr>tm_fs := fs\<rparr>)
    \<and> lookup (rt_place t @ [YML_FILE]) fs = Some (File (yaml_dump form))
    \<and> lookup (console_path t) fs = lookup (console_path t) (tm_fs s)"
proof -
  obtain fs where fs: "put (rt_place t @ [YML_FILE]) (File (yaml_dump form)) (tm_fs s) = Inr fs"
    using put_child [OF assms(2)] by blast
  with assms lookup_put_same [OF fs] lookup_put_apart [OF fs] show ?thesis
    by (intro exI [of _ fs]) (simp add: terminate_def on_fs_apply save_task_def fs_write_def console_path_def YML_FILE_def)
qed

text \<open>The queue state file that \<^verbatim>\<open>save\<close> leaves.\<close>

definition saved_file :: "runnable queue_manager \<Rightarrow> queue_file" where
  "saved_file q = (if qm_queue q = [] then NoFile else Pickled (map qt_id (qm_queue q)))"

lemma tm_save_apply: "tm_save s = (Inr (), s\<lparr>tm_state_file := saved_file (tm_queue s)\<rparr>)"
  by (simp add: tm_save_def smodify_def saved_file_def QueueManager_dump_def)

section \<open>Properties\<close>

text \<open>The outcome of a body that \<^verbatim>\<open>run\<close> handles.\<close>

definition result_of :: "unit res \<Rightarrow> string" where
  "result_of r = (case r of Inr _ \<Rightarrow> ''success'' | Inl _ \<Rightarrow> ''failed'')"


text \<open>An exception of another class (a registry, pipeline, artifact, permission or file error)
  leaves the manager half way: it propagates out of \<^verbatim>\<open>run\<close>, the task stays the running one in state
  \<^verbatim>\<open>running\<close>, its console socket stays in place and no form is saved.\<close>

theorem run_uncaught:
  assumes "tm_running s = Some task"
    and mkdir: "fs_mkdir (rt_place task) (tm_fs s) = Inr fs1"
    and "hook_quiet hook"
    and body: "\<And>t fs. body t fs = (Inl e, fs)" and "\<not> caught_by_run e"
  shows "\<exists>s' t'. tm_run hook yaml_dump body task s = (Inl e, s')
    \<and> tm_running s' = Some t' \<and> qt_id t' = qt_id task \<and> rt_state t' = ''running'' \<and> rt_dispatching t'
    \<and> lookup (rt_place task @ [''console.sock'']) (tm_fs s') \<noteq> None
    \<and> lookup (rt_place task @ [''task.yml'']) (tm_fs s') = None"
proof -
  let ?t1 = "task\<lparr>rt_dispatching := True, rt_plugged := True, rt_state := ''running''\<rparr>"
  obtain fs2 where pre: "prerun task s = (Inr ?t1, s\<lparr>tm_fs := fs2, tm_running := Some ?t1\<rparr>)"
    and io2: "io_ok (rt_place task) fs2" and y: "lookup (rt_place task @ [YML_FILE]) fs2 = None"
    using prerun_ok [OF mkdir] assms(1) by auto
  have c: "lookup (rt_place task @ [''console.sock'']) fs2 \<noteq> None"
    using io2 lookup_child by (fastforce simp: io_ok_def)
  have "tm_run hook yaml_dump body task s = (Inl e, s\<lparr>tm_fs := fs2, tm_running := Some ?t1,
      tm_hooks := tm_hooks s @ hook_calls hook ?t1 ''start''\<rparr>)"
    using pre body assms(5) by (simp add: tm_run_def sbind_def run_hook_quiet [OF assms(3)] run_body_def)
  with c y show ?thesis by (auto simp: YML_FILE_def)
qed

text \<open>A submission is all or nothing: it appends one task with a new identifier to the queue and
  saves the identifiers of the whole queue, which the next restore returns, or the request is refused
  and nothing changes.\<close>

theorem submit_spec:
  assumes "\<And>t. loader name new_id user (tm_workspaces s @ [new_id]) = Inr t \<Longrightarrow> qt_id t = new_id"
  shows "(case loader name new_id user (tm_workspaces s @ [new_id]) of
      Inr t \<Rightarrow> \<exists>s'. tm_submit loader new_id name user s = (Inr (Some new_id), s')
        \<and> qm_queue (tm_queue s') = qm_queue (tm_queue s) @ [t]
        \<and> qm_count (tm_queue s') = qm_count (tm_queue s) + 1
        \<and> tm_restore s' = map qt_id (qm_queue (tm_queue s)) @ [new_id] \<and> tm_fs s' = tm_fs s
    | Inl e \<Rightarrow> tm_submit loader new_id name user s = ((if is_a e RuntimeErr then Inr None else Inl e), s))"
  using assms
  by (auto simp: tm_submit_def sbind_def smodify_def tm_save_apply sret_def saved_file_def tm_restore_def
      QueueManager_put_def sem_release_def split: sum.splits)

lemma clear_loop:
  assumes "\<And>i. i \<in> set ids \<Longrightarrow> \<not> fs_is_file (tm_fs s) (tm_workspaces s @ [i])"
    and "\<exists>es. lookup (tm_workspaces s) (tm_fs s) = Some (Dir es)"
  shows "\<exists>fs. sfor clear_one ids s = (Inr (), s\<lparr>tm_fs := fs\<rparr>)
    \<and> (\<forall>i \<in> set ids. lookup (tm_workspaces s @ [i]) fs = None)
    \<and> (\<forall>p. (\<forall>i \<in> set ids. apart (tm_workspaces s @ [i]) p) \<longrightarrow> lookup p fs = lookup p (tm_fs s))"
  using assms
proof (induction ids arbitrary: s)
  case Nil
  then show ?case by (intro exI [of _ "tm_fs s"]) (simp add: sret_def)
next
  case (Cons i ids)
  let ?p = "tm_workspaces s @ [i]"
  obtain es where es: "lookup (tm_workspaces s) (tm_fs s) = Some (Dir es)" using Cons.prems(2) by blast
  have "\<exists>fs. clear_one i s = (Inr (), s\<lparr>tm_fs := fs\<rparr>) \<and> lookup ?p fs = None
      \<and> (\<forall>p. apart ?p p \<longrightarrow> lookup p fs = lookup p (tm_fs s)) \<and> (\<exists>es. lookup (tm_workspaces s) fs = Some (Dir es))"
  proof (cases "dict_has es i")
    case True
    obtain fs where fs: "del ?p (tm_fs s) = Inr fs" "lookup (tm_workspaces s) fs = Some (Dir (filter (\<lambda>e. fst e \<noteq> i) es))"
      using del_child [OF es True] by blast
    have "fs_rmtree ?p (tm_fs s) = Inr fs" using fs(1) Cons.prems(1) by (simp add: fs_rmtree_def)
    with fs lookup_del_same [OF fs(1)] lookup_del_apart [OF fs(1)] show ?thesis
      by (intro exI [of _ fs]) (simp add: clear_one_def scatch_def on_fs_apply)
  next
    case False
    then have none: "lookup ?p (tm_fs s) = None" using lookup_child [OF es] by (simp add: dict_has_def)
    have "fs_rmtree ?p (tm_fs s) = Inl FileNotFoundErr"
      using del_child_missing [OF es False] Cons.prems(1) by (simp add: fs_rmtree_def)
    with none es show ?thesis
      by (intro exI [of _ "tm_fs s"]) (simp add: clear_one_def scatch_def on_fs_apply sret_def is_a_def)
  qed
  then obtain fs where fs: "clear_one i s = (Inr (), s\<lparr>tm_fs := fs\<rparr>)" "lookup ?p fs = None"
    "\<And>p. apart ?p p \<Longrightarrow> lookup p fs = lookup p (tm_fs s)" "\<exists>es. lookup (tm_workspaces s) fs = Some (Dir es)"
    by blast
  have "\<not> fs_is_file fs (tm_workspaces s @ [j])" if "j \<in> set ids" for j
    using Cons.prems(1) [of j] that fs(2) fs(3) [of "tm_workspaces s @ [j]"]
    by (cases "i = j") (auto simp: fs_is_file_def)
  then obtain fs' where fs': "sfor clear_one ids (s\<lparr>tm_fs := fs\<rparr>) = (Inr (), s\<lparr>tm_fs := fs'\<rparr>)"
    "\<And>j. j \<in> set ids \<Longrightarrow> lookup (tm_workspaces s @ [j]) fs' = None"
    "\<And>p. (\<And>j. j \<in> set ids \<Longrightarrow> apart (tm_workspaces s @ [j]) p) \<Longrightarrow> lookup p fs' = lookup p fs"
    using Cons.IH [where s = "s\<lparr>tm_fs := fs\<rparr>"] fs(4) by auto
  have "lookup ?p fs' = None"
  proof (cases "i \<in> set ids")
    case True
    then show ?thesis using fs'(2) by blast
  next
    case False
    then have "apart (tm_workspaces s @ [j]) ?p" if "j \<in> set ids" for j using that by auto
    then show ?thesis using fs'(3) [of ?p] fs(2) by simp
  qed
  with fs fs' show ?case
    by (intro exI [of _ fs']) (auto simp: sbind_def)
qed

text \<open>At a fresh start, clearing removes the workspace of every task of the state file, tolerates
  those that are already gone, leaves everything else under the workspaces as it is, and resets the file.\<close>

theorem clear_spec:
  assumes "\<And>i. i \<in> set (tm_restore s) \<Longrightarrow> \<not> fs_is_file (tm_fs s) (tm_workspaces s @ [i])"
    and "lookup (tm_workspaces s) (tm_fs s) = Some (Dir es)"
  shows "\<exists>s'. tm_clear s = (Inr (), s')
    \<and> (\<forall>i \<in> set (tm_restore s). lookup (tm_workspaces s @ [i]) (tm_fs s') = None)
    \<and> (\<forall>p. (\<forall>i \<in> set (tm_restore s). apart (tm_workspaces s @ [i]) p) \<longrightarrow> lookup p (tm_fs s') = lookup p (tm_fs s))
    \<and> tm_restore s' = map qt_id (qm_queue (tm_queue s))"
proof -
  obtain fs where "sfor clear_one (tm_restore s) s = (Inr (), s\<lparr>tm_fs := fs\<rparr>)"
    "\<forall>i \<in> set (tm_restore s). lookup (tm_workspaces s @ [i]) fs = None"
    "\<forall>p. (\<forall>i \<in> set (tm_restore s). apart (tm_workspaces s @ [i]) p) \<longrightarrow> lookup p fs = lookup p (tm_fs s)"
    using clear_loop [OF assms(1)] assms(2) by blast
  then show ?thesis
    by (intro exI [of _ "s\<lparr>tm_fs := fs, tm_state_file := saved_file (tm_queue s)\<rparr>"])
      (simp add: tm_clear_def sbind_def tm_save_apply tm_restore_def saved_file_def split: queue_file.splits)
qed

section \<open>Witnesses\<close>

definition demo_task :: runnable where
  "demo_task = RunnableTask_init ''history purge'' ''t1'' (PStr ''bob'') [''w'', ''t1''] 5000000 []"

definition demo_state :: "runnable option \<Rightarrow> queue_file \<Rightarrow> node \<Rightarrow> tasks_manager" where
  "demo_state running file n = \<lparr>tm_fs = n, tm_workspaces = [''w''], tm_queue = QueueManager_init,
     tm_state_file = file, tm_running = running, tm_hooks = []\<rparr>"

lemma demo_mkdir: "fs_mkdir (rt_place demo_task) (Dir [(''w'', Dir [])]) = Inr (Dir [(''w'', Dir [(''t1'', Dir [])])])"
  by code_simp

lemma demo_form:
  "form_fields (task_attrs (demo_task\<lparr>rt_state := ''running'', rt_result := result_of (Inr ())\<rparr>)) =
     Inr [(''user'', PStr ''bob''), (''name'', PStr ''history purge''), (''submission'', PInt 5), (''result'', PStr ''success'')]"
  by code_simp


theorem run_uncaught_witness:
  "\<exists>s' t'. tm_run NoHook (\<lambda>_. ''form'') (\<lambda>t fs. (Inl FatbuildrRegistryError, fs)) demo_task
       (demo_state (Some demo_task) NoFile (Dir [(''w'', Dir [])])) = (Inl FatbuildrRegistryError, s')
     \<and> tm_running s' = Some t' \<and> rt_state t' = ''running''"
  using run_uncaught [of "demo_state (Some demo_task) NoFile (Dir [(''w'', Dir [])])" demo_task _ NoHook
      "\<lambda>t fs. (Inl FatbuildrRegistryError, fs)" FatbuildrRegistryError "\<lambda>_. ''form''"] demo_mkdir
  by (auto simp: demo_state_def hook_quiet_def caught_by_run_def is_a_def)

theorem submit_spec_witness:
  "\<exists>s'. tm_submit (\<lambda>n i u p. Inr (RunnableTask_init n i u p 0 [])) ''t9'' ''history purge'' PNone
       (demo_state None NoFile (Dir [])) = (Inr (Some ''t9''), s') \<and> tm_restore s' = [''t9'']"
  using submit_spec [of "\<lambda>n i u p. Inr (RunnableTask_init n i u p 0 [])" "''history purge''" "''t9''" PNone
      "demo_state None NoFile (Dir [])"]
  by (auto simp: RunnableTask_init_def demo_state_def QueueManager_init_def)

theorem clear_spec_witness:
  "\<exists>s'. tm_clear (demo_state None (Pickled [''t1'', ''t2'']) (Dir [(''w'', Dir [(''t1'', Dir []), (''t3'', Dir [])])]))
      = (Inr (), s') \<and> lookup [''w'', ''t1''] (tm_fs s') = None
    \<and> lookup [''w'', ''t3''] (tm_fs s') = Some (Dir []) \<and> tm_restore s' = []"
proof -
  let ?s = "demo_state None (Pickled [''t1'', ''t2'']) (Dir [(''w'', Dir [(''t1'', Dir []), (''t3'', Dir [])])])"
  have files: "\<not> fs_is_file (tm_fs ?s) (tm_workspaces ?s @ [i])" for i
    by (auto simp: demo_state_def fs_is_file_def)
  have dir: "lookup (tm_workspaces ?s) (tm_fs ?s) = Some (Dir [(''t1'', Dir []), (''t3'', Dir [])])"
    by (simp add: demo_state_def)
  obtain s' where s': "tm_clear ?s = (Inr (), s')"
    and gone: "\<forall>i \<in> set (tm_restore ?s). lookup (tm_workspaces ?s @ [i]) (tm_fs s') = None"
    and kept: "\<forall>p. (\<forall>i \<in> set (tm_restore ?s). apart (tm_workspaces ?s @ [i]) p) \<longrightarrow>
        lookup p (tm_fs s') = lookup p (tm_fs ?s)"
    and saved: "tm_restore s' = map qt_id (qm_queue (tm_queue ?s))"
    using clear_spec [OF files dir] by blast
  show ?thesis
    using s' gone kept [THEN spec, of "[''w'', ''t3'']"] saved
    by (intro exI [of _ s']) (simp add: demo_state_def tm_restore_def QueueManager_init_def apart_def)
qed

end
