(* ===== verification/Pipelines.thy ===== *)
theory Pipelines imports Exports begin

text \<open>
  \<^verbatim>\<open>InstancePipelines\<close> and the loading of instances of \<^verbatim>\<open>fatbuildr/instances.py\<close>. The
  definitions file is the dictionary that YAML gives: formats with their lists of distributions, and
  derivatives. Distributions are dictionaries, so that a missing key is the \<^verbatim>\<open>KeyError\<close> of the
  source. The recursion over the derivatives' extensions has a depth: Python's recursion limit.
\<close>

type_synonym dist = "(string, pyval) dict"

record derivative_def =
  dv_formats :: "string list option"
  dv_extends :: "string option"

record pipelines =
  pl_architectures :: "string list"
  pl_formats :: "(string, dist list) dict"
  pl_derivatives :: "(string, derivative_def) dict option"

section \<open>Distributions\<close>

text \<open>The two nested loops, whose body may return from the method.\<close>

fun each_dist :: "(dist \<Rightarrow> 'a option res) \<Rightarrow> dist list \<Rightarrow> 'a option res" where
  "each_dist body [] = Inr None"
| "each_dist body (d # ds) =
     rbind (body d) (\<lambda>r. case r of None \<Rightarrow> each_dist body ds | Some x \<Rightarrow> Inr (Some x))"

fun each_format :: "(string \<Rightarrow> dist \<Rightarrow> 'a option res) \<Rightarrow> (string, dist list) dict \<Rightarrow> 'a option res" where
  "each_format body [] = Inr None"
| "each_format body ((fmt, ds) # fs) =
     rbind (each_dist (body fmt) ds) (\<lambda>r. case r of None \<Rightarrow> each_format body fs | Some x \<Rightarrow> Inr (Some x))"

definition or_pipeline_error :: "'a option res \<Rightarrow> 'a res" where
  "or_pipeline_error r = rbind r (\<lambda>x. case x of None \<Rightarrow> Inl FatbuildrPipelineError | Some y \<Rightarrow> Inr y)"

definition pl_format_names :: "pipelines \<Rightarrow> string list" where
  "pl_format_names p = dict_keys (pl_formats p)"

definition dist_format :: "pipelines \<Rightarrow> string \<Rightarrow> string res" where
  "dist_format p distribution = or_pipeline_error (each_format (\<lambda>fmt d.
     rmap (\<lambda>n. if n = PStr distribution then Some fmt else None) (dict_item d ''name'')) (pl_formats p))"

definition dist_env :: "pipelines \<Rightarrow> string \<Rightarrow> pyval res" where
  "dist_env p distribution = or_pipeline_error (each_format (\<lambda>fmt d.
     rmap (\<lambda>n. if n = PStr distribution then dict_get d ''env'' else None) (dict_item d ''name'')) (pl_formats p))"

definition dist_tag :: "pipelines \<Rightarrow> string \<Rightarrow> pyval res" where
  "dist_tag p distribution = or_pipeline_error (each_format (\<lambda>fmt d.
     rbind (dict_item d ''name'') (\<lambda>n. if n = PStr distribution then rmap Some (dict_item d ''tag'') else Inr None))
       (pl_formats p))"

definition dist_derivatives :: "pipelines \<Rightarrow> string \<Rightarrow> string list res" where
  "dist_derivatives p distribution =
     (if pl_derivatives p = None \<or> pl_derivatives p = Some [] then Inr [''main'']
      else rmap (\<lambda>fmt. ''main'' # map fst (filter (\<lambda>(dv, items).
               case dv_formats items of None \<Rightarrow> False | Some fs \<Rightarrow> fmt \<in> set fs) (the (pl_derivatives p))))
             (dist_format p distribution))"

text \<open>The settings of a build environment: those of the first distribution that names it.\<close>

definition env_setting :: "string \<Rightarrow> pipelines \<Rightarrow> string \<Rightarrow> pyval option res" where
  "env_setting key p environment =
     rmap (\<lambda>r. case r of None \<Rightarrow> None | Some v \<Rightarrow> v)
       (each_format (\<lambda>fmt d. Inr (if dict_get d ''env'' = Some (PStr environment) then Some (dict_get d key) else None))
         (pl_formats p))"

definition env_mirror :: "pipelines \<Rightarrow> string \<Rightarrow> pyval option res" where
  "env_mirror = env_setting ''mirror''"

definition env_components :: "pipelines \<Rightarrow> string \<Rightarrow> pyval option res" where
  "env_components = env_setting ''components''"

definition env_modules :: "pipelines \<Rightarrow> string \<Rightarrow> pyval option res" where
  "env_modules p environment =
     rbind (env_setting ''modules'' p environment) (\<lambda>m.
       (case m of
          None \<Rightarrow> Inr None
        | Some PNone \<Rightarrow> Inr None
        | Some (PList ms) \<Rightarrow> Inr (Some (PList ms))
        | Some _ \<Rightarrow> Inl FatbuildrPipelineError))"

definition format_dists :: "pipelines \<Rightarrow> string \<Rightarrow> pyval list res" where
  "format_dists p fmt = rbind (dict_item (pl_formats p) fmt) (rmapM (\<lambda>d. dict_item d ''name''))"

section \<open>Derivatives\<close>

fun derivative_formats :: "nat \<Rightarrow> pipelines \<Rightarrow> string \<Rightarrow> string set res" where
  "derivative_formats 0 p dv = Inl RecursionErr"
| "derivative_formats (Suc n) p dv =
     (if dv = ''main'' then Inr (set (pl_format_names p))
      else (case pl_derivatives p of
              None \<Rightarrow> Inl TypeErr
            | Some ds \<Rightarrow>
                (case dict_get ds dv of
                   None \<Rightarrow> Inl FatbuildrPipelineError
                 | Some items \<Rightarrow>
                     (let fs = (case dv_formats items of None \<Rightarrow> {} | Some fs \<Rightarrow> set fs)
                      in rmap (\<lambda>up. fs \<inter> up)
                           (derivative_formats n p
                             (case dv_extends items of Some e \<Rightarrow> e | None \<Rightarrow> ''main''))))))"

fun recursive_derivatives :: "nat \<Rightarrow> pipelines \<Rightarrow> string \<Rightarrow> string list res" where
  "recursive_derivatives 0 p dv = Inl RecursionErr"
| "recursive_derivatives (Suc n) p dv =
     (if dv = ''main'' then Inr [''main'']
      else (case pl_derivatives p of
              None \<Rightarrow> Inl TypeErr
            | Some ds \<Rightarrow>
                rbind (dict_item ds dv) (\<lambda>items.
                  rmap (\<lambda>up. dv # up)
                    (recursive_derivatives n p (case dv_extends items of Some e \<Rightarrow> e | None \<Rightarrow> ''main'')))))"

section \<open>Instances\<close>

text \<open>The architectures of an instance: the host's first.\<close>

definition load_architectures :: "string \<Rightarrow> string list \<Rightarrow> string list" where
  "load_architectures host archs =
     host # (case list_remove host archs of Inr xs \<Rightarrow> xs | Inl _ \<Rightarrow> archs)"

text \<open>\<^verbatim>\<open>RunningInstance.load\<close>, from the parsed definitions.\<close>

record instance_defs =
  id_name :: string
  id_gpg_name :: string
  id_gpg_email :: string
  id_architectures :: "string list option"
  id_formats :: "(string, dist list) dict"
  id_derivatives :: "(string, derivative_def) dict option"

record running_instance =
  ri_id :: string
  ri_name :: string
  ri_gpg_name :: string
  ri_gpg_email :: string
  ri_pipelines :: pipelines

definition RunningInstance_load :: "string \<Rightarrow> string \<Rightarrow> instance_defs \<Rightarrow> running_instance" where
  "RunningInstance_load host stem defs =
     \<lparr>ri_id = stem, ri_name = id_name defs, ri_gpg_name = id_gpg_name defs, ri_gpg_email = id_gpg_email defs,
      ri_pipelines = \<lparr>pl_architectures =
          load_architectures host (case id_architectures defs of None \<Rightarrow> [] | Some a \<Rightarrow> a),
        pl_formats = id_formats defs, pl_derivatives = id_derivatives defs\<rparr>\<rparr>"

definition userid :: "running_instance \<Rightarrow> string" where
  "userid i = ri_gpg_name i @ '' <'' @ ri_gpg_email i @ ''>''"

section \<open>Lemmas\<close>

text \<open>The chain of extensions, when it exists: what both recursions follow.\<close>

definition parent :: "pipelines \<Rightarrow> string \<Rightarrow> string option" where
  "parent p dv =
     (case pl_derivatives p of
        None \<Rightarrow> None
      | Some ds \<Rightarrow> map_option (\<lambda>items. case dv_extends items of Some e \<Rightarrow> e | None \<Rightarrow> ''main'') (dict_get ds dv))"

definition own_formats :: "pipelines \<Rightarrow> string \<Rightarrow> string set" where
  "own_formats p dv =
     (if dv = ''main'' then set (pl_format_names p)
      else (case pl_derivatives p of
              None \<Rightarrow> {}
            | Some ds \<Rightarrow> (case dict_get ds dv of
                 None \<Rightarrow> {}
               | Some items \<Rightarrow> (case dv_formats items of None \<Rightarrow> {} | Some fs \<Rightarrow> set fs))))"

lemma recursive_derivatives_step:
  "dv \<noteq> ''main'' \<Longrightarrow> recursive_derivatives (Suc n) p dv = Inr c \<longleftrightarrow>
     (\<exists>e c'. parent p dv = Some e \<and> recursive_derivatives n p e = Inr c' \<and> c = dv # c')"
  by (auto simp: parent_def dict_item_def dict_get_def rbind_Inr_conv rmap_Inr_conv split: option.splits)

lemma derivative_formats_step:
  "dv \<noteq> ''main'' \<Longrightarrow> parent p dv = Some e \<Longrightarrow>
     derivative_formats (Suc n) p dv = rmap (\<lambda>up. own_formats p dv \<inter> up) (derivative_formats n p e)"
  by (cases "derivative_formats n p e") (auto simp: parent_def own_formats_def Let_def split: option.splits)

lemma derivative_formats_main [simp]: "derivative_formats (Suc n) p ''main'' = Inr (own_formats p ''main'')"
  by (simp add: own_formats_def)

lemma derivative_formats_orphan:
  "dv \<noteq> ''main'' \<Longrightarrow> parent p dv = None \<Longrightarrow> \<exists>e. derivative_formats (Suc n) p dv = Inl e \<and> e \<noteq> RecursionErr"
  by (auto simp: parent_def split: option.splits)

declare derivative_formats.simps(2) [simp del] recursive_derivatives.simps(2) [simp del]

lemma formats_own: "derivative_formats n p dv = Inr fs \<Longrightarrow> fs \<subseteq> own_formats p dv"
proof (cases n)
  case (Suc m)
  assume *: "derivative_formats n p dv = Inr fs"
  show ?thesis
  proof (cases "dv = ''main''")
    case True
    with * Suc show ?thesis by simp
  next
    case False
    with * Suc obtain e where "parent p dv = Some e"
      using derivative_formats_orphan [of dv p m] by fastforce
    with * Suc False show ?thesis by (auto simp: derivative_formats_step rmap_Inr_conv)
  qed
qed simp

text \<open>The ancestors of a derivative.\<close>

fun ancestor :: "pipelines \<Rightarrow> string \<Rightarrow> nat \<Rightarrow> string option" where
  "ancestor p dv 0 = Some dv"
| "ancestor p dv (Suc k) = (case ancestor p dv k of None \<Rightarrow> None | Some x \<Rightarrow> parent p x)"

lemma ancestor_shift: "parent p dv = Some e \<Longrightarrow> ancestor p dv (Suc k) = ancestor p e k"
  by (induction k) (auto split: option.splits)

lemma recursion_ancestors:
  "derivative_formats n p dv = Inl RecursionErr \<Longrightarrow> k < n \<Longrightarrow>
     \<exists>x y. ancestor p dv k = Some x \<and> x \<noteq> ''main'' \<and> parent p x = Some y"
proof (induction n arbitrary: dv k)
  case (Suc n)
  from Suc.prems(1) have dv: "dv \<noteq> ''main''" by auto
  with Suc.prems(1) obtain e where e: "parent p dv = Some e"
    using derivative_formats_orphan [of dv p n] by (cases "parent p dv") auto
  with Suc.prems(1) dv have "derivative_formats n p e = Inl RecursionErr"
    by (cases "derivative_formats n p e") (auto simp: derivative_formats_step)
  with Suc.IH [of e] Suc.prems(2) dv e show ?case
    by (cases k) (auto simp: ancestor_shift simp del: ancestor.simps(2))
qed simp

lemma parent_key: "parent p x = Some y \<Longrightarrow> pl_derivatives p = Some ds \<Longrightarrow> x \<in> set (dict_keys ds)"
  by (auto simp: parent_def dict_get_def dict_keys_def dest!: map_of_SomeD intro: rev_image_eqI)

section \<open>Properties\<close>

text \<open>When the chain of extensions of a derivative reaches \<^verbatim>\<open>main\<close>, the formats it
  supports are those that every derivative of the chain supports.\<close>

theorem formats_of_chain:
  "recursive_derivatives n p dv = Inr c \<Longrightarrow> derivative_formats n p dv = Inr (\<Inter> (own_formats p ` set c))"
proof (induction n arbitrary: dv c)
  case (Suc n)
  show ?case
  proof (cases "dv = ''main''")
    case True
    with Suc.prems show ?thesis by (auto simp: recursive_derivatives.simps)
  next
    case False
    from recursive_derivatives_step [OF False, THEN iffD1, OF Suc.prems] Suc.IH False
    show ?thesis by (auto simp: derivative_formats_step)
  qed
qed simp

definition example_pipelines :: pipelines where
  "example_pipelines = \<lparr>pl_architectures = [''x86_64''],
     pl_formats = [(''deb'', [[(''name'', PStr ''sid''), (''env'', PStr ''sid'')]]),
                   (''rpm'', [[(''name'', PStr ''el9''), (''tag'', PStr ''.el9''), (''env'', PStr ''rocky9'')]])],
     pl_derivatives = Some [(''a'', \<lparr>dv_formats = Some [''deb''], dv_extends = None\<rparr>),
                            (''b'', \<lparr>dv_formats = Some [''deb'', ''rpm''], dv_extends = Some ''a''\<rparr>),
                            (''x'', \<lparr>dv_formats = Some [''deb''], dv_extends = Some ''y''\<rparr>),
                            (''y'', \<lparr>dv_formats = Some [''deb''], dv_extends = Some ''x''\<rparr>)]\<rparr>"

lemma formats_of_chain_witness:
  "derivative_formats 5 example_pipelines ''b'' =
     Inr (\<Inter> (own_formats example_pipelines ` set [''b'', ''a'', ''main'']))"
  by (rule formats_of_chain) (simp add: example_pipelines_def numeral_eq_Suc recursive_derivatives.simps dict_item_def)



text \<open>A derivative whose supported formats hold the format of a distribution is among the
  derivatives of this distribution. The converse fails: the list does not take the formats of
  the extended derivatives into account.\<close>

theorem dist_derivatives_complete:
  assumes "dist_format p d = Inr fmt" and "dist_derivatives p d = Inr dvs"
    and "derivative_formats n p dv = Inr fs" and "fmt \<in> fs"
  shows "dv \<in> set dvs"
proof (cases "dv = ''main''")
  case False
  from formats_own [OF assms(3)] assms(4) have "fmt \<in> own_formats p dv" by blast
  with False obtain ds items fs' where *: "pl_derivatives p = Some ds" "map_of ds dv = Some items"
      "dv_formats items = Some fs'" "fmt \<in> set fs'"
    by (auto simp: own_formats_def dict_get_def split: option.splits)
  then have "(dv, items) \<in> set ds" by (simp add: map_of_SomeD)
  with * assms(1,2) show ?thesis
    by (auto simp: dist_derivatives_def rmap_Inr_conv split: if_splits intro!: rev_image_eqI [of "(dv, items)"])
qed (use assms(2) in \<open>auto simp: dist_derivatives_def rmap_Inr_conv split: if_splits\<close>)

lemma dist_derivatives_complete_witness:
  "''b'' \<in> set [''main'', ''a'', ''b'', ''x'', ''y''] \<and>
     dist_derivatives example_pipelines ''el9'' = Inr [''main'', ''b''] \<and>
     derivative_formats 5 example_pipelines ''b'' = Inr {''deb''}"
proof -
  have "derivative_formats 5 example_pipelines ''b'' = Inr {''deb''}"
    by (simp add: example_pipelines_def numeral_eq_Suc derivative_formats.simps dict_get_def pl_format_names_def dict_keys_def)
  moreover have "dist_derivatives example_pipelines ''el9'' = Inr [''main'', ''b'']"
    by (simp add: example_pipelines_def dist_derivatives_def dist_format_def or_pipeline_error_def dict_item_def)
  moreover have "''b'' \<in> set [''main'', ''a'', ''b'', ''x'', ''y'']"
    by (rule dist_derivatives_complete [of example_pipelines "''sid''" "''deb''" _ 5 _ "{''deb''}"])
      (simp_all add: example_pipelines_def numeral_eq_Suc derivative_formats.simps dict_get_def pl_format_names_def
        dict_keys_def dist_derivatives_def dist_format_def or_pipeline_error_def dict_item_def)
  ultimately show ?thesis by blast
qed

text \<open>The host architecture comes first, and once when the definition names it at most once.\<close>

lemma load_architectures_host:
  "hd (load_architectures h xs) = h \<and> set (load_architectures h xs) = insert h (set xs) \<and>
     (distinct xs \<longrightarrow> distinct (load_architectures h xs))"
  by (auto simp: load_architectures_def list_remove_def split: if_splits dest: notin_set_remove1)
    (metis in_set_remove1)

end
