(* ===== verification/Registry.thy ===== *)
theory Registry imports Specifics Versions FileSys PyRegex Exports begin

text \<open>
  The base class of \<^verbatim>\<open>fatbuildr/registry/formats/__init__.py\<close> and the registry of OS images of
  \<^verbatim>\<open>fatbuildr/registry/formats/osi.py\<close>, over the tree of \<open>FileSys\<close>. The commands that sign the
  published files are the parameter \<open>runcmd\<close>, the loading of the keyring
  in its agent the parameter \<open>load_agent\<close>. The locale \<open>registry_backend\<close> states what the base
  class asks of the registry of a format; it is interpreted in the theory of each format.
\<close>

section \<open>Artifacts\<close>

record registry_artifact =
  ra_name :: string
  ra_architecture :: string
  ra_version :: string
  ra_size :: int

definition RegistryArtifact :: "string \<Rightarrow> string \<Rightarrow> string \<Rightarrow> int \<Rightarrow> registry_artifact" where
  "RegistryArtifact n a v s = \<lparr>ra_name = n, ra_architecture = a, ra_version = v, ra_size = s\<rparr>"

definition artifact_eq :: "registry_artifact \<Rightarrow> registry_artifact \<Rightarrow> bool" where
  "artifact_eq x y \<longleftrightarrow> ra_name x = ra_name y \<and> ra_architecture x = ra_architecture y
     \<and> ra_version x = ra_version y \<and> ra_size x = ra_size y"

record changelog_entry =
  ce_version :: string
  ce_author :: string
  ce_date :: int
  ce_changes :: "string list"

record artifact_member =
  am_path :: string
  am_type :: string
  am_size :: int

text \<open>\<^verbatim>\<open>if artifact not in artifacts: artifacts.append(artifact)\<close>, with the equality above.\<close>

definition append_artifact :: "registry_artifact \<Rightarrow> registry_artifact list \<Rightarrow> registry_artifact list" where
  "append_artifact a xs = (if list_ex (artifact_eq a) xs then xs else xs @ [a])"

section \<open>Checks\<close>

definition check_distribution :: "string list res \<Rightarrow> string \<Rightarrow> unit res" where
  "check_distribution dists d =
     rbind dists (\<lambda>ds. if d \<in> set ds then Inr () else Inl FatbuildrRegistryError)"

definition check_derivative :: "(string \<Rightarrow> string list res) \<Rightarrow> string \<Rightarrow> string \<Rightarrow> unit res" where
  "check_derivative derivs d dv =
     rbind (derivs d) (\<lambda>dvs. if dv \<in> set dvs then Inr () else Inl FatbuildrRegistryError)"

definition registry_path :: "path \<Rightarrow> string \<Rightarrow> string \<Rightarrow> path" where
  "registry_path root inst fmt = root @ [inst, fmt]"

lemma artifact_eq_iff [simp]: "artifact_eq x y \<longleftrightarrow> x = y"
  by (auto simp: artifact_eq_def intro: registry_artifact.equality)

lemma append_artifact_add_new: "append_artifact = add_new"
proof (intro ext)
  fix a and xs :: "registry_artifact list"
  have "list_ex (artifact_eq a) xs \<longleftrightarrow> a \<in> set xs" by (auto simp: list_ex_iff)
  then show "append_artifact a xs = add_new a xs" by (simp add: append_artifact_def add_new_def)
qed

locale registry_backend =
  fixes dists :: "'s \<Rightarrow> string list res" and derivs :: "'s \<Rightarrow> string \<Rightarrow> string list res"
  assumes derivs_checked: "derivs s d = rbind (check_distribution (dists s) d) (\<lambda>_. derivs s d)"
begin

text \<open>The check of a derivative passes only for a known distribution, as the base class says.\<close>

lemma check_ok: "check_derivative (derivs s) d dv = Inr () \<Longrightarrow> \<exists>ds. dists s = Inr ds \<and> d \<in> set ds"
  using derivs_checked [of s d]
  by (cases "dists s"; cases "d \<in> set (projr (dists s))")
    (auto simp: check_derivative_def check_distribution_def)

lemma unknown_distribution:
  "dists s = Inr ds \<Longrightarrow> d \<notin> set ds \<Longrightarrow> check_derivative (derivs s) d dv = Inl FatbuildrRegistryError"
  using derivs_checked [of s d] by (simp add: check_derivative_def check_distribution_def)

lemma unknown_derivative:
  "derivs s d = Inr dvs \<Longrightarrow> dv \<notin> set dvs \<Longrightarrow> check_derivative (derivs s) d dv = Inl FatbuildrRegistryError"
  by (simp add: check_derivative_def)

end

section \<open>OS images\<close>

definition osi_distributions :: "path \<Rightarrow> node \<Rightarrow> string list res" where
  "osi_distributions base fs = fs_iterdir fs base"

definition osi_derivatives :: "path \<Rightarrow> node \<Rightarrow> string \<Rightarrow> string list res" where
  "osi_derivatives base fs d =
     rbind (check_distribution (osi_distributions base fs) d) (\<lambda>_. fs_iterdir fs (base @ [d]))"

definition osi_derivative_path :: "path \<Rightarrow> string \<Rightarrow> string \<Rightarrow> path" where
  "osi_derivative_path base d dv = base @ [d, dv]"

definition ensure_directory :: "path \<Rightarrow> node \<Rightarrow> node res" where
  "ensure_directory p fs = (if fs_exists fs p then Inr fs else fs_mkdir p fs)"

definition CHECKSUMS_FILE_EXT :: string where "CHECKSUMS_FILE_EXT = ''SHA256SUMS''"

text \<open>\<^verbatim>\<open>s.split(sep)\<close> with a separator of several characters.\<close>

fun split_str :: "string \<Rightarrow> string \<Rightarrow> string \<Rightarrow> string list" where
  "split_str sep acc [] = [acc]"
| "split_str sep acc (x # xs) =
     (if startswith (x # xs) sep then acc # split_str sep [] (drop (length sep - 1) xs)
      else split_str sep (acc @ [x]) xs)"

text \<open>The lines of a text file, without their line feed.\<close>

definition file_lines :: "string \<Rightarrow> string list" where
  "file_lines c = (let ls = split_on CHR 0x0A c in if List.last ls = [] then butlast ls else ls)"

definition read_checksum_file :: "node \<Rightarrow> path \<Rightarrow> string list list res" where
  "read_checksum_file fs p = rmap (\<lambda>c. map (\<lambda>l. split_str '' *'' [] (str_strip l)) (file_lines c)) (fs_read fs p)"

definition checksum_key :: "string list \<Rightarrow> string res" where
  "checksum_key l = list_item l 1"

definition new_checksums_only :: "string list list \<Rightarrow> string list list \<Rightarrow> string list list res" where
  "new_checksums_only news exs =
     rfold (\<lambda>n acc. rbind (checksum_key n) (\<lambda>k. rbind (rmapM checksum_key exs) (\<lambda>ks.
        Inr (if k \<notin> set ks then acc @ [n] else acc)))) news []"

fun updated_checksum :: "string list \<Rightarrow> string list list \<Rightarrow> string list res" where
  "updated_checksum ex [] = Inr ex"
| "updated_checksum ex (n # ns) =
     rbind (checksum_key ex) (\<lambda>k. rbind (checksum_key n) (\<lambda>k'.
       if k = k' then Inr n else updated_checksum ex ns))"

definition merge_checksums :: "string list list \<Rightarrow> string list list \<Rightarrow> string list list res" where
  "merge_checksums news exs =
     rbind (new_checksums_only news exs) (\<lambda>ms. rmap (\<lambda>us. ms @ us) (rmapM (\<lambda>ex. updated_checksum ex news) exs))"

definition checksum_line :: "string list \<Rightarrow> string res" where
  "checksum_line l = rbind (list_item l 0) (\<lambda>v. rmap (\<lambda>n. v @ '' *'' @ n @ [CHR 0x0A]) (list_item l 1))"

definition with_suffix :: "string \<Rightarrow> string \<Rightarrow> string" where
  "with_suffix name new = path_stem name @ new"

definition path_str :: "path \<Rightarrow> string" where
  "path_str p = ''/'' @ str_join ''/'' p"

record osi_build =
  ob_artifact :: string
  ob_version :: string
  ob_distribution :: string
  ob_derivative :: string
  ob_place :: path

definition osi_deploy_checksums :: "path \<Rightarrow> path \<Rightarrow> node \<Rightarrow> node res" where
  "osi_deploy_checksums new_path cur_path fs =
     (if \<not> fs_exists fs cur_path then rbind (fs_read fs new_path) (\<lambda>c. fs_write cur_path c fs)
      else rbind (read_checksum_file fs new_path) (\<lambda>news.
           rbind (read_checksum_file fs cur_path) (\<lambda>exs.
           rbind (merge_checksums news exs) (\<lambda>ms.
           rbind (rmapM checksum_line ms) (\<lambda>ls. fs_write cur_path (concat ls) fs)))))"

definition osi_built_files :: "node \<Rightarrow> path \<Rightarrow> string list res" where
  "osi_built_files fs place = rmap (\<lambda>ns.
     concat (map (\<lambda>ext. filter (str_in (CHR ''.'' # ext)) ns) [''qcow2'', ''raw'', ''tar'', ''cpio'']))
       (fs_iterdir fs place)"

definition osi_copy :: "path \<Rightarrow> path \<Rightarrow> string \<Rightarrow> node \<Rightarrow> node res" where
  "osi_copy src_dir dst_dir name fs = rbind (fs_read fs (src_dir @ [name])) (\<lambda>c. fs_write (dst_dir @ [name]) c fs)"

definition osi_sign_cmd :: "string \<Rightarrow> path \<Rightarrow> path \<Rightarrow> string list" where
  "osi_sign_cmd userid sig_path checksum_path =
     [''gpg'', ''--detach-sign'', ''--output'', path_str sig_path, ''--default-key'', userid, path_str checksum_path]"

definition osi_publish ::
  "(node \<Rightarrow> node res) \<Rightarrow> (string list \<Rightarrow> node \<Rightarrow> node res) \<Rightarrow> string \<Rightarrow> path \<Rightarrow> osi_build \<Rightarrow> node \<Rightarrow> node res" where
  "osi_publish load_agent runcmd userid base b fs =
     (let derivative_path = osi_derivative_path base (ob_distribution b) (ob_derivative b);
          new_checksums = ob_place b @ [ob_artifact b @ ''_'' @ ob_version b @ ''.'' @ CHECKSUMS_FILE_EXT];
          checksums = derivative_path @ [CHECKSUMS_FILE_EXT];
          sig = derivative_path @ [with_suffix CHECKSUMS_FILE_EXT ''.gpg'']
      in rbind (rfold ensure_directory
             [butlast base, base, base @ [ob_distribution b], derivative_path] fs) (\<lambda>fs.
         if \<not> fs_exists fs new_checksums then Inl FatbuildrTaskExecutionError
         else rbind (rbind (osi_deploy_checksums new_checksums checksums fs) load_agent) (\<lambda>fs.
              rbind (if fs_exists fs sig then fs_unlink sig fs else Inr fs) (\<lambda>fs.
              rbind (runcmd (osi_sign_cmd userid sig checksums) fs) (\<lambda>fs.
              rbind (osi_built_files fs (ob_place b)) (\<lambda>built.
              rfold (osi_copy (ob_place b) derivative_path) built fs))))))"

text \<open>\<^verbatim>\<open>(?P<name>.+)_(?P<version>\d+)\.(?P<arch>.+)\<close>\<close>

definition OSI_REGEX :: regex where
  "OSI_REGEX = RSeq (Grp ''name'' (Plus rx_dot)) (RSeq (Lit ''_'') (RSeq (Grp ''version'' (Plus is_digit))
     (RSeq (Lit ''.'') (Grp ''arch'' (Plus rx_dot)))))"

definition path_suffix :: "string \<Rightarrow> string" where
  "path_suffix name = drop (length (path_stem name)) name"

text \<open>The size of a directory depends on the file system.\<close>

definition st_size :: "int \<Rightarrow> node \<Rightarrow> int" where
  "st_size dir_size n = (case n of File c \<Rightarrow> int (length c) | Dir _ \<Rightarrow> dir_size)"

definition osi_artifact :: "int \<Rightarrow> string option \<Rightarrow> string \<times> node \<Rightarrow> registry_artifact list" where
  "osi_artifact dir_size name_filter e =
     (let name = fst e in
      if path_suffix name = CHR ''.'' # CHECKSUMS_FILE_EXT \<or> path_suffix name = ''.manifest'' then []
      else (case re_match OSI_REGEX name of
              None \<Rightarrow> []
            | Some g \<Rightarrow>
                (if name_filter \<noteq> None \<and> name_filter \<noteq> Some [] \<and> group g ''name'' \<noteq> name_filter then []
                 else [RegistryArtifact (the (group g ''name'')) (the (group g ''arch'')) (the (group g ''version''))
                         (st_size dir_size (snd e))])))"

definition osi_artifacts_filter ::
  "int \<Rightarrow> path \<Rightarrow> node \<Rightarrow> string \<Rightarrow> string \<Rightarrow> string option \<Rightarrow> registry_artifact list res" where
  "osi_artifacts_filter dir_size base fs d dv name_filter =
     (case lookup (osi_derivative_path base d dv) fs of
        None \<Rightarrow> Inl FileNotFoundErr
      | Some (File _) \<Rightarrow> Inl OSErr
      | Some (Dir es) \<Rightarrow> Inr (concat (map (osi_artifact dir_size name_filter) es)))"

definition osi_artifacts :: "int \<Rightarrow> path \<Rightarrow> node \<Rightarrow> string \<Rightarrow> string \<Rightarrow> registry_artifact list res" where
  "osi_artifacts dir_size base fs d dv = osi_artifacts_filter dir_size base fs d dv None"

definition osi_artifact_bins :: "int \<Rightarrow> path \<Rightarrow> node \<Rightarrow> string \<Rightarrow> string \<Rightarrow> string \<Rightarrow> registry_artifact list res" where
  "osi_artifact_bins dir_size base fs d dv src_artifact =
     osi_artifacts_filter dir_size base fs d dv (Some src_artifact)"

definition osi_artifact_src :: "int \<Rightarrow> path \<Rightarrow> node \<Rightarrow> string \<Rightarrow> string \<Rightarrow> string \<Rightarrow> registry_artifact res" where
  "osi_artifact_src dir_size base fs d dv bin_artifact =
     rbind (osi_artifacts_filter dir_size base fs d dv (Some bin_artifact)) (\<lambda>xs. list_item xs 0)"

definition osi_image_name :: "registry_artifact \<Rightarrow> string" where
  "osi_image_name a = ra_name a @ ''_'' @ ra_version a @ ''.'' @ ra_architecture a"

definition unlink_existing :: "path \<Rightarrow> node \<Rightarrow> node res" where
  "unlink_existing p fs = (if fs_exists fs p then fs_unlink p fs else Inr fs)"

definition osi_delete_artifact :: "path \<Rightarrow> string \<Rightarrow> string \<Rightarrow> registry_artifact \<Rightarrow> node \<Rightarrow> node res" where
  "osi_delete_artifact base d dv a fs =
     rbind (unlink_existing (osi_derivative_path base d dv @ [osi_image_name a]) fs)
       (unlink_existing (osi_derivative_path base d dv @ [with_suffix (osi_image_name a) ''.manifest'']))"

interpretation osi: registry_backend "osi_distributions base" "osi_derivatives base"
  by unfold_locales (auto simp: osi_derivatives_def rbind_def split: sum.splits)

section \<open>Lemmas\<close>

lemma hd_concat: "concat xss \<noteq> [] \<Longrightarrow> \<exists>xs \<in> set xss. xs \<noteq> [] \<and> hd (concat xss) = hd xs"
  by (induction xss) (auto simp: hd_append)

lemma rx_lit_seq:
  "rx (RSeq (Lit [c]) r) (g, s) = (case s of [] \<Rightarrow> [] | x # xs \<Rightarrow> if x = c then rx r (g, xs) else [])"
  by (cases s) (auto simp: startswith_def)

text \<open>A name that the expression matches is made of the three groups.\<close>

lemma osi_regex_groups:
  assumes "re_match OSI_REGEX s = Some g" and "list_all rx_dot s"
  shows "\<exists>n v a. s = n @ ''_'' @ v @ ''.'' @ a \<and> group g ''name'' = Some n \<and> group g ''version'' = Some v
     \<and> group g ''arch'' = Some a \<and> list_all is_digit v \<and> n \<noteq> [] \<and> v \<noteq> [] \<and> a \<noteq> []"
proof -
  define r3 where "r3 = RSeq (Lit ''.'') (Grp ''arch'' (Plus rx_dot))"
  define r2 where "r2 = RSeq (Grp ''version'' (Plus is_digit)) r3"
  define r1 where "r1 = RSeq (Lit ''_'') r2"
  define yss where "yss = map (rx r1) (rx (Grp ''name'' (Plus rx_dot)) ([], s))"
  from assms(1) obtain rest gs where m: "rx OSI_REGEX ([], s) = (g, rest) # gs"
    by (auto simp: re_match_def split: list.splits)
  then have conc: "concat yss = (g, rest) # gs"
    by (simp only: OSI_REGEX_def rx.simps(6) yss_def r1_def r2_def r3_def)
  then obtain ys where ys: "ys \<in> set yss" "ys \<noteq> []" "hd ys = (g, rest)"
    using hd_concat [of yss] by auto
  then obtain s1 where s1: "s1 \<in> set (runs rx_dot s)"
      "ys = rx r1 ([(''name'', take (length s - length s1) s)], s1)"
    by (auto simp: yss_def)
  from runs_suffix [OF s1(1)] obtain n where n: "n \<noteq> []" "s = n @ s1" by blast
  with s1 ys(2) obtain s2 where s2: "s1 = CHR ''_'' # s2" "ys = rx r2 ([(''name'', n)], s2)"
    by (auto simp: r1_def rx_lit_seq simp del: rx.simps(6) split: list.splits if_splits)
  define zss where "zss = map (rx r3) (rx (Grp ''version'' (Plus is_digit)) ([(''name'', n)], s2))"
  have "ys = concat zss" by (simp only: s2(2) rx.simps(6) r2_def zss_def)
  with ys obtain zs where zs: "zs \<in> set zss" "zs \<noteq> []" "hd zs = (g, rest)"
    using hd_concat [of zss] by auto
  then obtain s3 where s3: "s3 \<in> set (runs is_digit s2)"
      "zs = rx r3 ([(''version'', take (length s2 - length s3) s2), (''name'', n)], s3)"
    by (auto simp: zss_def)
  from runs_suffix [OF s3(1)] obtain v where v: "v \<noteq> []" "s2 = v @ s3" "list_all is_digit v" by blast
  with s3 zs(2) obtain a where a: "s3 = CHR ''.'' # a"
      "zs = rx (Grp ''arch'' (Plus rx_dot)) ([(''version'', v), (''name'', n)], a)"
    by (auto simp: r3_def rx_lit_seq simp del: rx.simps(6) split: list.splits if_splits)
  have "a \<noteq> []" using a(2) zs(2) by auto
  moreover have "list_all rx_dot a" using assms(2) n(2) s2(1) v(2) a(1) by simp
  ultimately obtain xs where "runs rx_dot a = xs @ [[]]" using runs_last by blast
  with a(2) zs(3) have "g = [(''arch'', a), (''version'', v), (''name'', n)]" by simp
  with n v s2(1) a(1) \<open>a \<noteq> []\<close> show ?thesis by (auto simp: group_def)
qed

text \<open>The merge of two lists of checksums.\<close>

definition checksum_pairs :: "(string \<times> string) list \<Rightarrow> string list list" where
  "checksum_pairs ps = map (\<lambda>(name, value). [value, name]) ps"

lemma checksum_pairs_simps [simp]:
  "checksum_pairs [] = []" "checksum_pairs (e # es) = [snd e, fst e] # checksum_pairs es"
  "checksum_pairs (xs @ ys) = checksum_pairs xs @ checksum_pairs ys"
  by (auto simp: checksum_pairs_def split_beta)

lemma checksum_key_pair [simp]: "checksum_key [v, n] = Inr n"
  by (simp add: checksum_key_def list_item_def)

lemma checksum_keys: "rmapM checksum_key (checksum_pairs ps) = Inr (map fst ps)"
  by (induction ps) auto

lemma new_checksums_only_pairs:
  "new_checksums_only (checksum_pairs ns) (checksum_pairs es) =
     Inr (checksum_pairs (filter (\<lambda>n. fst n \<notin> fst ` set es) ns))"
proof -
  have "rfold (\<lambda>n acc. rbind (checksum_key n) (\<lambda>k. rbind (rmapM checksum_key (checksum_pairs es)) (\<lambda>ks.
        Inr (if k \<notin> set ks then acc @ [n] else acc)))) (checksum_pairs ns) acc =
     Inr (acc @ checksum_pairs (filter (\<lambda>n. fst n \<notin> fst ` set es) ns))" for acc
    by (induction ns arbitrary: acc) (simp_all add: checksum_keys)
  then show ?thesis by (simp add: new_checksums_only_def)
qed

lemma updated_checksum_pair:
  "updated_checksum [v, n] (checksum_pairs ns) = Inr (case map_of ns n of None \<Rightarrow> [v, n] | Some v' \<Rightarrow> [v', n])"
  by (induction ns) auto

lemma merge_checksums_pairs:
  "merge_checksums (checksum_pairs ns) (checksum_pairs es) = Inr (checksum_pairs
     (filter (\<lambda>n. fst n \<notin> fst ` set es) ns @
      map (\<lambda>(n, v). (n, case map_of ns n of None \<Rightarrow> v | Some v' \<Rightarrow> v')) es))"
proof -
  have "rmapM (\<lambda>ex. updated_checksum ex (checksum_pairs ns)) (checksum_pairs es) =
      Inr (checksum_pairs (map (\<lambda>(n, v). (n, case map_of ns n of None \<Rightarrow> v | Some v' \<Rightarrow> v')) es))"
    by (induction es) (auto simp: updated_checksum_pair split: option.splits)
  then show ?thesis by (simp add: merge_checksums_def new_checksums_only_pairs)
qed

text \<open>Printing and parsing a checksum file.\<close>

definition clean_entry :: "string \<times> string \<Rightarrow> bool" where
  "clean_entry e \<longleftrightarrow> (\<forall>c \<in> set (fst e) \<union> set (snd e). \<not> is_space c) \<and> snd e \<noteq> [] \<and> fst e \<noteq> []"

lemma split_str_nosep: "(\<forall>c \<in> set s. c \<noteq> CHR '' '') \<Longrightarrow> split_str '' *'' acc s = [acc @ s]"
  by (induction s arbitrary: acc) (auto simp: startswith_def)

lemma split_str_entry:
  "(\<forall>c \<in> set v. c \<noteq> CHR '' '') \<Longrightarrow> (\<forall>c \<in> set n. c \<noteq> CHR '' '') \<Longrightarrow>
     split_str '' *'' acc (v @ '' *'' @ n) = [acc @ v, n]"
  by (induction v arbitrary: acc) (auto simp: startswith_def split_str_nosep)

lemma dropWhile_hd: "s \<noteq> [] \<Longrightarrow> \<not> P (hd s) \<Longrightarrow> dropWhile P s = s"
  by (cases s) auto

lemma strip_clean: "s \<noteq> [] \<Longrightarrow> \<not> is_space (hd s) \<Longrightarrow> \<not> is_space (List.last s) \<Longrightarrow> str_strip s = s"
  by (simp add: str_strip_def dropWhile_hd hd_rev)

lemma file_lines_concat:
  "\<forall>l \<in> set ls. CHR 0x0A \<notin> set l \<Longrightarrow> file_lines (concat (map (\<lambda>l. l @ [CHR 0x0A]) ls)) = ls"
proof -
  assume "\<forall>l \<in> set ls. CHR 0x0A \<notin> set l"
  then have "split_on CHR 0x0A (concat (map (\<lambda>l. l @ [CHR 0x0A]) ls)) = ls @ [[]]"
    by (induction ls) (simp_all add: split_on_append)
  then show ?thesis by (simp add: file_lines_def)
qed

lemma checksum_lines:
  "rmapM checksum_line (checksum_pairs ps) = Inr (map (\<lambda>(n, v). (v @ '' *'' @ n) @ [CHR 0x0A]) ps)"
  by (induction ps) (auto simp: checksum_line_def list_item_def)

lemma read_written_checksums:
  assumes "\<forall>e \<in> set ps. clean_entry e" and "rmapM checksum_line (checksum_pairs ps) = Inr ls"
    and "fs_read fs p = Inr (concat ls)"
  shows "read_checksum_file fs p = Inr (checksum_pairs ps)"
proof -
  have ls: "ls = map (\<lambda>l. l @ [CHR 0x0A]) (map (\<lambda>(n, v). v @ '' *'' @ n) ps)"
    using assms(2) by (auto simp: checksum_lines)
  have sp: "is_space CHR 0x0A" "is_space CHR '' ''" by (simp_all add: is_space_def)
  have "\<forall>l \<in> set (map (\<lambda>(n, v). v @ '' *'' @ n) ps). CHR 0x0A \<notin> set l"
    using assms(1) sp by (auto simp: clean_entry_def)
  from file_lines_concat [OF this] have lines: "file_lines (concat ls) = map (\<lambda>(n, v). v @ '' *'' @ n) ps"
    by (simp only: ls)
  have "split_str '' *'' [] (str_strip (v @ '' *'' @ n)) = [v, n]" if "(n, v) \<in> set ps" for n v
  proof -
    from that assms(1) have e: "clean_entry (n, v)" by blast
    then have "str_strip (v @ '' *'' @ n) = v @ '' *'' @ n" by (intro strip_clean) (auto simp: clean_entry_def)
    moreover have "(\<forall>c \<in> set v. c \<noteq> CHR '' '') \<and> (\<forall>c \<in> set n. c \<noteq> CHR '' '')"
      using e unfolding clean_entry_def by (metis UnCI fst_conv snd_conv is_space_blank)
    ultimately show ?thesis using split_str_entry [of v n "[]"] by simp
  qed
  with lines assms(3) show ?thesis by (auto simp: read_checksum_file_def checksum_pairs_def)
qed

section \<open>Properties\<close>

text \<open>Publishing OS images over an existing checksum file keeps the checksum of every file that
  the build did not make, and takes the new checksum of every file it made.\<close>

theorem osi_checksums_merged:
  assumes "osi_deploy_checksums new_path cur_path fs = Inr fs'"
    and "read_checksum_file fs new_path = Inr (checksum_pairs ns)"
    and "read_checksum_file fs cur_path = Inr (checksum_pairs es)"
    and "\<forall>e \<in> set ns \<union> set es. clean_entry e"
  shows "\<exists>ms. read_checksum_file fs' cur_path = Inr (checksum_pairs ms)
     \<and> (\<forall>n. map_of ms n = (map_of es ++ map_of ns) n)"
proof -
  define ms where "ms = filter (\<lambda>n. fst n \<notin> fst ` set es) ns @
      map (\<lambda>(n, v). (n, case map_of ns n of None \<Rightarrow> v | Some v' \<Rightarrow> v')) es"
  have "fs_exists fs cur_path"
    using assms(3) by (auto simp: read_checksum_file_def fs_read_def fs_exists_def rmap_Inr_conv split: option.splits)
  with assms(1-3) obtain ls where ls: "rmapM checksum_line (checksum_pairs ms) = Inr ls"
      "fs_write cur_path (concat ls) fs = Inr fs'"
    by (auto simp: osi_deploy_checksums_def merge_checksums_pairs rbind_Inr_conv ms_def)
  have clean: "\<forall>e \<in> set ms. clean_entry e"
    using assms(4) by (auto simp: ms_def clean_entry_def split: option.splits dest!: map_of_SomeD)
  have "fs_read fs' cur_path = Inr (concat ls)"
    using tree.store_same [OF write_Inr_put [OF ls(2)]] by (simp add: fs_read_def)
  with read_written_checksums [OF clean ls(1)] have "read_checksum_file fs' cur_path = Inr (checksum_pairs ms)" by blast
  moreover have "map_of ms n = (map_of es ++ map_of ns) n" for n
  proof -
    have new: "map_of (filter (\<lambda>n. fst n \<notin> K) xs) n = (if n \<in> K then None else map_of xs n)" for xs and K :: "string set"
      by (induction xs) auto
    have old: "map_of (map (\<lambda>(n, v). (n, case map_of ns n of None \<Rightarrow> v | Some v' \<Rightarrow> v')) xs) n =
        map_option (\<lambda>v. case map_of ns n of None \<Rightarrow> v | Some v' \<Rightarrow> v') (map_of xs n)" for xs
      by (induction xs) (auto split: option.splits)
    have key: "n \<in> fst ` set es \<longleftrightarrow> map_of es n \<noteq> None" by (simp add: map_of_eq_None_iff)
    show ?thesis
      by (cases "map_of es n"; cases "map_of ns n") (simp_all add: ms_def map_add_def new old key)
  qed
  ultimately show ?thesis by blast
qed

lemma osi_checksums_merged_witness:
  "\<exists>ms. read_checksum_file (Dir [(''new'', File (''bb *b'' @ [CHR 0x0A])),
        (''cur'', File (''a0 *a'' @ [CHR 0x0A] @ ''bb *b'' @ [CHR 0x0A]))]) [''cur''] = Inr (checksum_pairs ms)
     \<and> (\<forall>n. map_of ms n = (map_of [(''a'', ''a0''), (''b'', ''b0'')] ++ map_of [(''b'', ''bb'')]) n)"
proof (rule osi_checksums_merged)
  let ?fs = "Dir [(''new'', File (''bb *b'' @ [CHR 0x0A])),
        (''cur'', File (''a0 *a'' @ [CHR 0x0A] @ ''b0 *b'' @ [CHR 0x0A]))]"
  show "osi_deploy_checksums [''new''] [''cur''] ?fs = Inr (Dir [(''new'', File (''bb *b'' @ [CHR 0x0A])),
        (''cur'', File (''a0 *a'' @ [CHR 0x0A] @ ''bb *b'' @ [CHR 0x0A]))])" by code_simp
  show "read_checksum_file ?fs [''new''] = Inr (checksum_pairs [(''b'', ''bb'')])" by code_simp
  show "read_checksum_file ?fs [''cur''] = Inr (checksum_pairs [(''a'', ''a0''), (''b'', ''b0'')])" by code_simp
  show "\<forall>e \<in> set [(''b'', ''bb'')] \<union> set [(''a'', ''a0''), (''b'', ''b0'')]. clean_entry e" by code_simp
qed

text \<open>Deleting a listed OS image removes the very file it was listed from.\<close>

theorem osi_listed_deleted:
  assumes "osi_artifacts dir_size base fs d dv = Inr xs" and "a \<in> set xs"
    and "\<forall>e \<in> set (projr (fs_iterdir fs (osi_derivative_path base d dv))). list_all rx_dot e"
    and "osi_delete_artifact base d dv a fs = Inr fs'"
  shows "fs_exists fs (osi_derivative_path base d dv @ [osi_image_name a])
     \<and> \<not> fs_exists fs' (osi_derivative_path base d dv @ [osi_image_name a])"
proof -
  let ?p = "osi_derivative_path base d dv"
  from assms(1) obtain es where es: "lookup ?p fs = Some (Dir es)"
      "xs = concat (map (osi_artifact dir_size None) es)"
    by (auto simp: osi_artifacts_def osi_artifacts_filter_def split: option.splits node.splits)
  with assms(2) obtain name n where e: "(name, n) \<in> set es" "a \<in> set (osi_artifact dir_size None (name, n))" by auto
  have "list_all rx_dot name" using assms(3) es(1) e(1) by (force simp: fs_iterdir_def)
  with e(2) have "osi_image_name a = name"
    using osi_regex_groups
    by (fastforce simp: osi_artifact_def Let_def RegistryArtifact_def osi_image_name_def split: option.splits if_splits)
  with es(1) e(1) have ex: "fs_exists fs (?p @ [osi_image_name a])"
    by (auto simp: fs_exists_def lookup_child map_of_eq_None_iff intro: rev_image_eqI)
  from assms(4) obtain fs1 where fs1: "unlink_existing (?p @ [osi_image_name a]) fs = Inr fs1"
      "unlink_existing (?p @ [with_suffix (osi_image_name a) ''.manifest'']) fs1 = Inr fs'"
    by (auto simp: osi_delete_artifact_def rbind_Inr_conv)
  from fs1(1) ex have gone: "lookup (?p @ [osi_image_name a]) fs1 = None"
    by (auto simp: unlink_existing_def intro: tree.drop_same dest: unlink_Inr_del)
  have "lookup (?p @ [osi_image_name a]) fs' = None"
  proof (cases "with_suffix (osi_image_name a) ''.manifest'' = osi_image_name a")
    case True
    with fs1(2) gone show ?thesis by (simp add: unlink_existing_def fs_exists_def)
  next
    case False
    with fs1(2) gone show ?thesis
      using tree.drop_apart [of "?p @ [with_suffix (osi_image_name a) ''.manifest'']" fs1 fs' "?p @ [osi_image_name a]"]
      by (auto simp: unlink_existing_def dest: unlink_Inr_del split: if_splits)
  qed
  with ex show ?thesis by (simp add: fs_exists_def)
qed

lemma osi_listed_deleted_witness:
  "let a = RegistryArtifact ''img'' ''raw.xz'' ''12'' 3; p = osi_derivative_path [''osi''] ''d'' ''main'' in
   fs_exists (Dir [(''osi'', Dir [(''d'', Dir [(''main'', Dir [(''SHA256SUMS'', File ''s''), (''img_12.raw.xz'', File ''abc'')])])])])
     (p @ [osi_image_name a])
   \<and> \<not> fs_exists (Dir [(''osi'', Dir [(''d'', Dir [(''main'', Dir [(''SHA256SUMS'', File ''s'')])])])]) (p @ [osi_image_name a])"
  unfolding Let_def
proof (rule osi_listed_deleted)
  let ?fs = "Dir [(''osi'', Dir [(''d'', Dir [(''main'', Dir [(''SHA256SUMS'', File ''s''), (''img_12.raw.xz'', File ''abc'')])])])]"
  show "osi_artifacts 0 [''osi''] ?fs ''d'' ''main'' = Inr [RegistryArtifact ''img'' ''raw.xz'' ''12'' 3]" by code_simp
  show "\<forall>e \<in> set (projr (fs_iterdir ?fs (osi_derivative_path [''osi''] ''d'' ''main''))). list_all rx_dot e" by code_simp
  show "osi_delete_artifact [''osi''] ''d'' ''main'' (RegistryArtifact ''img'' ''raw.xz'' ''12'' 3) ?fs =
    Inr (Dir [(''osi'', Dir [(''d'', Dir [(''main'', Dir [(''SHA256SUMS'', File ''s'')])])])])" by code_simp
qed simp

end
