(* ===== verification/Tasks.thy ===== *)
theory Tasks imports TasksManager Pipelines Registry begin

text \<open>
  The tasks that can be submitted: the constructors of \<^verbatim>\<open>fatbuildr/tasks/\<close> and of
  \<^verbatim>\<open>fatbuildr/builds/__init__.py\<close>, the factory of \<^verbatim>\<open>fatbuildr/builds/factory.py\<close>, and the
  loader that the registry of protocols gives for the name of a task. A constructor takes the
  identifier, the user and the place that the manager gives, then the arguments of the submission.
\<close>

section \<open>Attributes\<close>

text \<open>\<^verbatim>\<open>TaskIO.__init__\<close>, as an object of its class.\<close>

definition TaskIO_init :: "bool \<Rightarrow> path \<Rightarrow> pyval" where
  "TaskIO_init interactive place =
     PObj ''TaskIO'' [(''interactive'', PBool interactive),
       (''console'', PPath (path_str (place @ [''console.sock'']))),
       (''journal'', PObj ''TaskJournal'' [(''path'', PPath (path_str (place @ [''task.journal''])))])]"

text \<open>The attributes of a task, as \<^verbatim>\<open>getattr\<close> sees them, and those of an archived task.\<close>

definition runnable_attrs :: "runnable \<Rightarrow> (string \<times> pyval) list" where
  "runnable_attrs t = task_attrs t @ [(''place'', PPath (path_str (rt_place t)))]"

definition archived_attrs :: "archived_task \<Rightarrow> (string \<times> pyval) list" where
  "archived_attrs t = at_attrs t @ [(''io'', TaskIO_init False (at_place t))]"

section \<open>Constructors\<close>

text \<open>What the constructors read: the time at which the module was imported, which is the default
  submission time of every task, and the instance's pipelines.\<close>

record task_env =
  te_import_time :: int
  te_pipelines :: pipelines
  te_depth :: nat

definition new_task ::
  "task_env \<Rightarrow> string \<Rightarrow> string \<Rightarrow> pyval \<Rightarrow> path \<Rightarrow> bool \<Rightarrow> (string \<times> pyval) list \<Rightarrow> runnable" where
  "new_task E name i user place interactive attrs =
     RunnableTask_init name i user place (te_import_time E) ((''io'', TaskIO_init interactive place) # attrs)"

definition HistoryPurgeTask_init :: "task_env \<Rightarrow> string \<Rightarrow> pyval \<Rightarrow> path \<Rightarrow> pyval list \<Rightarrow> runnable res" where
  "HistoryPurgeTask_init E i u p args =
     (case args of [] \<Rightarrow> Inr (new_task E ''history purge'' i u p False []) | _ \<Rightarrow> Inl TypeErr)"

definition KeyringCreationTask_init :: "task_env \<Rightarrow> string \<Rightarrow> pyval \<Rightarrow> path \<Rightarrow> pyval list \<Rightarrow> runnable res" where
  "KeyringCreationTask_init E i u p args =
     (case args of [] \<Rightarrow> Inr (new_task E ''keyring creation'' i u p False []) | _ \<Rightarrow> Inl TypeErr)"

text \<open>The duration is passed on to the parent's constructor, where it is the initial state.\<close>

definition KeyringRenewalTask_init :: "task_env \<Rightarrow> string \<Rightarrow> pyval \<Rightarrow> path \<Rightarrow> pyval list \<Rightarrow> runnable res" where
  "KeyringRenewalTask_init E i u p args =
     (case args of
        [PStr duration] \<Rightarrow>
          Inr ((new_task E ''keyring renewal'' i u p False [(''duration'', PStr duration)])\<lparr>rt_state := duration\<rparr>)
      | _ \<Rightarrow> Inl TypeErr)"

definition RegistryArtifactDeletionTask_init ::
  "task_env \<Rightarrow> string \<Rightarrow> pyval \<Rightarrow> path \<Rightarrow> pyval list \<Rightarrow> runnable res" where
  "RegistryArtifactDeletionTask_init E i u p args =
     (case args of
        [fmt, distribution, derivative, artifact] \<Rightarrow>
          Inr (new_task E ''artifact deletion'' i u p False
            [(''format'', fmt), (''distribution'', distribution), (''derivative'', derivative), (''artifact'', artifact)])
      | _ \<Rightarrow> Inl TypeErr)"

definition ImageCreationTask_init :: "task_env \<Rightarrow> string \<Rightarrow> pyval \<Rightarrow> path \<Rightarrow> pyval list \<Rightarrow> runnable res" where
  "ImageCreationTask_init E i u p args =
     (case args of
        [fmt, force] \<Rightarrow> Inr (new_task E ''image creation'' i u p False [(''format'', fmt), (''force'', force)])
      | _ \<Rightarrow> Inl TypeErr)"

definition ImageUpdateTask_init :: "task_env \<Rightarrow> string \<Rightarrow> pyval \<Rightarrow> path \<Rightarrow> pyval list \<Rightarrow> runnable res" where
  "ImageUpdateTask_init E i u p args =
     (case args of
        [fmt] \<Rightarrow> Inr (new_task E ''image update'' i u p False [(''format'', fmt)])
      | _ \<Rightarrow> Inl TypeErr)"

definition ImageShellTask_init :: "task_env \<Rightarrow> string \<Rightarrow> pyval \<Rightarrow> path \<Rightarrow> pyval list \<Rightarrow> runnable res" where
  "ImageShellTask_init E i u p args =
     (case args of
        [fmt, tty, cmd] \<Rightarrow>
          Inr (new_task E ''image shell'' i u p True [(''format'', fmt), (''term'', tty), (''command'', cmd)])
      | _ \<Rightarrow> Inl TypeErr)"

definition ImageEnvironmentCreationTask_init ::
  "task_env \<Rightarrow> string \<Rightarrow> pyval \<Rightarrow> path \<Rightarrow> pyval list \<Rightarrow> runnable res" where
  "ImageEnvironmentCreationTask_init E i u p args =
     (case args of
        [fmt, environment, architecture] \<Rightarrow>
          Inr (new_task E ''image build environment creation'' i u p False
            [(''format'', fmt), (''environment'', environment), (''architecture'', architecture)])
      | _ \<Rightarrow> Inl TypeErr)"

definition ImageEnvironmentUpdateTask_init ::
  "task_env \<Rightarrow> string \<Rightarrow> pyval \<Rightarrow> path \<Rightarrow> pyval list \<Rightarrow> runnable res" where
  "ImageEnvironmentUpdateTask_init E i u p args =
     (case args of
        [fmt, environment, architecture] \<Rightarrow>
          Inr (new_task E ''image build environment update'' i u p False
            [(''format'', fmt), (''environment'', environment), (''architecture'', architecture)])
      | _ \<Rightarrow> Inl TypeErr)"

definition ImageEnvironmentShellTask_init ::
  "task_env \<Rightarrow> string \<Rightarrow> pyval \<Rightarrow> path \<Rightarrow> pyval list \<Rightarrow> runnable res" where
  "ImageEnvironmentShellTask_init E i u p args =
     (case args of
        [fmt, environment, architecture, tty, cmd] \<Rightarrow>
          Inr (new_task E ''image build environment shell'' i u p True
            [(''format'', fmt), (''environment'', environment), (''architecture'', architecture),
             (''term'', tty), (''command'', cmd)])
      | _ \<Rightarrow> Inl TypeErr)"

text \<open>\<^verbatim>\<open>ArtifactBuild.__init__\<close>: the derivatives that the build's own one extends are computed when
  the task is made. The archives are found when the build is prepared.\<close>

definition ArtifactBuild_init :: "task_env \<Rightarrow> string \<Rightarrow> pyval \<Rightarrow> path \<Rightarrow> pyval list \<Rightarrow> runnable res" where
  "ArtifactBuild_init E i u p args =
     (case args of
        [fmt, distribution, architectures, PStr derivative, artifact, author, email, message, tarball, sources,
         PBool interactive] \<Rightarrow>
          rmap (\<lambda>derivatives.
            new_task E ''artifact build'' i u p interactive
              [(''format'', fmt), (''distribution'', distribution), (''architectures'', architectures),
               (''derivative'', PStr derivative), (''artifact'', artifact), (''author'', author), (''email'', email),
               (''message'', message), (''input_tarball'', tarball), (''sources'', sources),
               (''derivatives'', PList (map PStr derivatives)), (''archives'', PList [])])
            (recursive_derivatives (te_depth E) (te_pipelines E) derivative)
      | _ \<Rightarrow> Inl TypeErr)"

definition build_formats :: "string list" where
  "build_formats = [''deb'', ''rpm'', ''osi'']"

definition BuildFactory_generate :: "task_env \<Rightarrow> string \<Rightarrow> pyval \<Rightarrow> path \<Rightarrow> pyval list \<Rightarrow> runnable res" where
  "BuildFactory_generate E i u p args =
     (case args of
        PStr fmt # _ \<Rightarrow> if fmt \<notin> set build_formats then Inl RuntimeErr else ArtifactBuild_init E i u p args
      | _ \<Rightarrow> Inl TypeErr)"

section \<open>Loaders\<close>

text \<open>The loaders that \<^verbatim>\<open>register_protocols\<close> registers, by their name.\<close>

definition task_loaders ::
  "(string, task_env \<Rightarrow> string \<Rightarrow> pyval \<Rightarrow> path \<Rightarrow> pyval list \<Rightarrow> runnable res) dict" where
  "task_loaders =
     [(''BuildFactory.generate'', BuildFactory_generate),
      (''RegistryArtifactDeletionTask'', RegistryArtifactDeletionTask_init),
      (''KeyringCreationTask'', KeyringCreationTask_init), (''KeyringRenewalTask'', KeyringRenewalTask_init),
      (''HistoryPurgeTask'', HistoryPurgeTask_init), (''ImageCreationTask'', ImageCreationTask_init),
      (''ImageUpdateTask'', ImageUpdateTask_init), (''ImageShellTask'', ImageShellTask_init),
      (''ImageEnvironmentCreationTask'', ImageEnvironmentCreationTask_init),
      (''ImageEnvironmentUpdateTask'', ImageEnvironmentUpdateTask_init),
      (''ImageEnvironmentShellTask'', ImageEnvironmentShellTask_init)]"

definition make_task ::
  "task_env \<Rightarrow> pyval list \<Rightarrow> string \<Rightarrow> string \<Rightarrow> pyval \<Rightarrow> path \<Rightarrow> runnable res" where
  "make_task E args name i u p =
     rbind (task_loader register_protocols name) (\<lambda>l.
     rbind (dict_item task_loaders l) (\<lambda>init. init E i u p args))"

section \<open>Lemmas\<close>

lemmas ctor_defs =
  BuildFactory_generate_def ArtifactBuild_init_def RegistryArtifactDeletionTask_init_def KeyringCreationTask_init_def
  KeyringRenewalTask_init_def HistoryPurgeTask_init_def ImageCreationTask_init_def ImageUpdateTask_init_def
  ImageShellTask_init_def ImageEnvironmentCreationTask_init_def ImageEnvironmentUpdateTask_init_def
  ImageEnvironmentShellTask_init_def

text \<open>What every constructor keeps: the identity that the manager gave.\<close>

definition identified :: "string \<Rightarrow> pyval \<Rightarrow> path \<Rightarrow> runnable \<Rightarrow> bool" where
  "identified i u p t \<longleftrightarrow> qt_id t = i \<and> rt_user t = u \<and> rt_place t = p \<and> rt_result t = ''unknown''
     \<and> \<not> rt_dispatching t \<and> \<not> rt_plugged t"

lemma new_task_identified [simp]:
  "identified i u p (new_task E name i u p b attrs)"
  "identified i u p (t\<lparr>rt_state := st\<rparr>) = identified i u p t"
  by (simp_all add: identified_def new_task_def RunnableTask_init_def)

lemma ctor_identified:
  assumes "(l, init) \<in> set task_loaders" "init E i u p args = Inr t"
  shows "identified i u p t"
  using assms
  by (auto simp: task_loaders_def ctor_defs rmap_Inr_conv
      split: list.splits pyval.splits if_splits)

lemma make_task_identified:
  assumes "make_task E args name i u p = Inr t"
  shows "identified i u p t"
proof -
  obtain l init where "dict_item task_loaders l = Inr init" "init E i u p args = Inr t"
    using assms by (auto simp: make_task_def rbind_Inr_conv)
  then show ?thesis
    by (auto simp: dict_item_def split: option.splits dest!: map_of_SomeD intro: ctor_identified)
qed

end
