(* ===== verification/RegistryDeb.thy ===== *)
theory RegistryDeb imports Registry Archive begin

text \<open>
  The APT repositories of \<^verbatim>\<open>fatbuildr/registry/formats/deb.py\<close>. The repository is managed by
  the command \<^verbatim>\<open>reprepro\<close>: the output of its listings is the parameter \<open>run\<close>, a function of the
  arguments of the command, and the effect of the commands that publish is the parameter \<open>eff\<close>, the
  loading of the keyring in its agent the parameter \<open>load_agent\<close>.
  Parsing dsc, deb and tar files and dates is left to libraries and is a parameter too. The
  arbitrary order in which Python lists a set is the parameter \<open>set_order\<close>.
\<close>

section \<open>Listing\<close>

definition deb_distributions :: "path \<Rightarrow> node \<Rightarrow> string list res" where
  "deb_distributions base fs =
     (if \<not> fs_exists fs (base @ [''dists'']) then Inr [] else fs_iterdir fs (base @ [''dists'']))"

definition deb_components :: "path \<Rightarrow> node \<Rightarrow> string list res" where
  "deb_components base fs =
     (if \<not> fs_exists fs (base @ [''pool'']) then Inr [] else fs_iterdir fs (base @ [''pool'']))"

definition dists_conf :: "path \<Rightarrow> path" where
  "dists_conf base = base @ [''conf'', ''distributions'']"

definition deb_derivatives :: "path \<Rightarrow> node \<Rightarrow> string \<Rightarrow> string list res" where
  "deb_derivatives base fs d =
     rbind (check_distribution (deb_distributions base fs) d) (\<lambda>_. deb_components base fs)"

interpretation deb: registry_backend "deb_distributions base" "deb_derivatives base"
  by unfold_locales (auto simp: deb_derivatives_def rbind_def split: sum.splits)

definition reprepro_list :: "path \<Rightarrow> string \<Rightarrow> string \<Rightarrow> string \<Rightarrow> string list \<Rightarrow> string list" where
  "reprepro_list base derivative list_format distribution names =
     [''reprepro'', ''--basedir'', path_str base, ''--component'', derivative, ''--list-format'',
      list_format @ [CHR 0x0A], ''list'', distribution] @ names"

text \<open>\<^verbatim>\<open>stdout.strip().split('\n')\<close>, and the unpacking of the fields of a line.\<close>

definition output_lines :: "string \<Rightarrow> string list" where
  "output_lines out = split_on CHR 0x0A (str_strip out)"

definition line_fields :: "nat \<Rightarrow> string \<Rightarrow> string list res" where
  "line_fields n line =
     (let fs = split_on CHR ''|'' line in if length fs = n then Inr fs else Inl ValueErr)"

definition deb_size :: "string \<Rightarrow> int res" where
  "deb_size s = (if s = [] then Inr 0 else py_int s)"

definition deb_artifact_line :: "string \<Rightarrow> registry_artifact list \<Rightarrow> registry_artifact list res" where
  "deb_artifact_line line artifacts =
     (if line = [] then Inr artifacts
      else rbind (line_fields 5 line) (\<lambda>f.
           rbind (deb_size (f ! 4)) (\<lambda>sz.
             Inr (append_artifact (RegistryArtifact (f ! 0)
               (archmap_normalized ''deb'' (if f ! 2 = ''source'' then f ! 2 else f ! 1)) (f ! 3) sz) artifacts))))"

definition deb_artifacts ::
  "(string list \<Rightarrow> string res) \<Rightarrow> path \<Rightarrow> node \<Rightarrow> string \<Rightarrow> string \<Rightarrow> registry_artifact list res" where
  "deb_artifacts run base fs distribution derivative =
     rbind (check_derivative (deb_derivatives base fs) distribution derivative) (\<lambda>_.
       if \<not> fs_exists fs (dists_conf base) then Inr []
       else rbind (run (reprepro_list base derivative
                ''${package}|${Architecture}|${$architecture}|${version}|${Size}'' distribution [])) (\<lambda>out.
              rfold deb_artifact_line (output_lines out) []))"

definition deb_bin_line :: "string \<Rightarrow> string \<Rightarrow> registry_artifact list \<Rightarrow> registry_artifact list res" where
  "deb_bin_line src_artifact line artifacts =
     (if line = [] then Inr artifacts
      else rbind (line_fields 6 line) (\<lambda>f.
           if f ! 2 = ''source'' then Inr artifacts
           else if f ! 3 \<noteq> src_artifact then Inr artifacts
           else rbind (deb_size (f ! 5)) (\<lambda>sz.
             Inr (append_artifact (RegistryArtifact (f ! 0) (archmap_normalized ''deb'' (f ! 1)) (f ! 4) sz) artifacts))))"

definition deb_artifact_bins ::
  "(string list \<Rightarrow> string res) \<Rightarrow> path \<Rightarrow> string \<Rightarrow> string \<Rightarrow> string \<Rightarrow> registry_artifact list res" where
  "deb_artifact_bins run base distribution derivative src_artifact =
     rbind (run (reprepro_list base derivative
         ''${package}|${Architecture}|${$architecture}|${$source}|${version}|${Size}'' distribution [])) (\<lambda>out.
       rfold (deb_bin_line src_artifact) (output_lines out) [])"

fun deb_src_loop :: "string list \<Rightarrow> registry_artifact res" where
  "deb_src_loop [] = Inl FatbuildrRegistryError"
| "deb_src_loop (line # ls) =
     (if line = [] then deb_src_loop ls
      else rbind (line_fields 3 line) (\<lambda>f.
           if f ! 0 = ''source'' then deb_src_loop ls
           else Inr (RegistryArtifact (f ! 1) ''src'' (f ! 2) 0)))"

definition deb_artifact_src ::
  "(string list \<Rightarrow> string res) \<Rightarrow> path \<Rightarrow> string \<Rightarrow> string \<Rightarrow> string \<Rightarrow> registry_artifact res" where
  "deb_artifact_src run base distribution derivative bin_artifact =
     rbind (run (reprepro_list base derivative ''${$architecture}|${$source}|${version}'' distribution
       [bin_artifact])) (\<lambda>out. deb_src_loop (output_lines out))"

text \<open>The loops that return the second field of the first line whose first field passes a test.\<close>

fun first_line :: "(string \<Rightarrow> bool) \<Rightarrow> string list \<Rightarrow> string option res" where
  "first_line P [] = Inr None"
| "first_line P (line # ls) =
     (if line = [] then first_line P ls
      else rbind (line_fields 2 line) (\<lambda>f. if P (f ! 0) then Inr (Some (f ! 1)) else first_line P ls))"

definition deb_source_version ::
  "(string list \<Rightarrow> string res) \<Rightarrow> path \<Rightarrow> node \<Rightarrow> string \<Rightarrow> string \<Rightarrow> string \<Rightarrow> artifact_version option res" where
  "deb_source_version run base fs distribution derivative artifact =
     (if \<not> fs_exists fs (dists_conf base) then Inr None
      else rbind (deb_distributions base fs) (\<lambda>ds.
        if distribution \<notin> set ds then Inr None
        else rbind (deb_derivatives base fs distribution) (\<lambda>dvs.
          if derivative \<notin> set dvs then Inr None
          else rbind (run (reprepro_list base derivative ''${$architecture}|${version}'' distribution [artifact])) (\<lambda>out.
            rbind (first_line (\<lambda>a. a = ''source'') (output_lines out)) (\<lambda>r.
              case r of None \<Rightarrow> Inr None | Some v \<Rightarrow> rmap Some (ArtifactVersion_init v))))))"

definition package_dsc_path ::
  "(string list \<Rightarrow> string res) \<Rightarrow> path \<Rightarrow> string \<Rightarrow> string \<Rightarrow> string \<Rightarrow> path res" where
  "package_dsc_path run base distribution derivative src_artifact =
     rbind (run (reprepro_list base derivative ''${$architecture}|${$fullfilename}'' distribution [src_artifact])) (\<lambda>out.
       rbind (first_line (\<lambda>a. a = ''source'') (output_lines out)) (\<lambda>r.
         case r of None \<Rightarrow> Inl FatbuildrRegistryError | Some p \<Rightarrow> Inr (path_parts p)))"

definition package_deb_path ::
  "(string list \<Rightarrow> string res) \<Rightarrow> path \<Rightarrow> string \<Rightarrow> string \<Rightarrow> string \<Rightarrow> string \<Rightarrow> path res" where
  "package_deb_path run base distribution derivative architecture bin_artifact =
     rbind (run (reprepro_list base derivative ''${Architecture}|${$fullfilename}'' distribution [bin_artifact])) (\<lambda>out.
       rbind (first_line (\<lambda>a. a = archmap_native ''deb'' architecture) (output_lines out)) (\<lambda>r.
         case r of None \<Rightarrow> Inl FatbuildrRegistryError | Some p \<Rightarrow> Inr (path_parts p)))"

section \<open>Change logs and contents\<close>

text \<open>\<^verbatim>\<open>dsc['Files']\<close>: the names in the order of the file.\<close>

fun debian_archive :: "path \<Rightarrow> string list \<Rightarrow> path res" where
  "debian_archive dir [] = Inl FatbuildrRegistryError"
| "debian_archive dir (n # ns) =
     (if str_in ''.orig.'' n \<or> str_in ''.orig-'' n then debian_archive dir ns else Inr (dir @ [n]))"

definition debian_archive_path :: "(string \<Rightarrow> string list) \<Rightarrow> node \<Rightarrow> path \<Rightarrow> path res" where
  "debian_archive_path parse_dsc fs dsc_path =
     rbind (fs_read fs dsc_path) (\<lambda>c. debian_archive (butlast dsc_path) (parse_dsc c))"

text \<open>\<open>open_tar\<close> gives the regular files of an archive by name, \<open>None\<close> for a \<^verbatim>\<open>TarError\<close>.\<close>

definition extract_archive_changelog :: "(path \<Rightarrow> (string, string) dict option) \<Rightarrow> path \<Rightarrow> string res" where
  "extract_archive_changelog open_tar arch_path =
     (case open_tar arch_path of
        None \<Rightarrow> Inl FatbuildrRegistryError
      | Some members \<Rightarrow>
          (case dict_get members ''debian/changelog'' of
             None \<Rightarrow> Inl FatbuildrRegistryError | Some c \<Rightarrow> Inr c))"

definition source_changelog ::
  "(string list \<Rightarrow> string res) \<Rightarrow> (string \<Rightarrow> string list) \<Rightarrow> (path \<Rightarrow> (string, string) dict option) \<Rightarrow>
   path \<Rightarrow> node \<Rightarrow> string \<Rightarrow> string \<Rightarrow> string \<Rightarrow> string res" where
  "source_changelog run parse_dsc open_tar base fs distribution derivative src_artifact =
     rbind (package_dsc_path run base distribution derivative src_artifact) (\<lambda>dsc.
     rbind (debian_archive_path parse_dsc fs dsc) (extract_archive_changelog open_tar))"

record deb_block =
  db_version :: string
  db_author :: string
  db_date :: string
  db_changes :: "string list"

definition deb_sanitize_entry :: "string \<Rightarrow> string" where
  "deb_sanitize_entry e = (let s = str_strip e in if startswith s ''* '' then drop 2 s else s)"

text \<open>\<open>parse_date\<close> gives the timestamp of a date, or the exception of the standard library.\<close>

definition deb_changelog_entry :: "(string \<Rightarrow> int res) \<Rightarrow> deb_block \<Rightarrow> changelog_entry res" where
  "deb_changelog_entry parse_date b =
     rmap (\<lambda>date. \<lparr>ce_version = db_version b, ce_author = db_author b, ce_date = date,
         ce_changes = map deb_sanitize_entry (filter (\<lambda>c. str_strip c \<noteq> []) (db_changes b))\<rparr>)
       (rcatch (parse_date (db_date b)) (\<lambda>e. e = ValueErr) (\<lambda>_. Inr 0))"

definition deb_changelog_entries :: "(string \<Rightarrow> int res) \<Rightarrow> deb_block list \<Rightarrow> changelog_entry list res" where
  "deb_changelog_entries parse_date bs = rmapM (deb_changelog_entry parse_date) bs"

definition src_changelog ::
  "(string list \<Rightarrow> string res) \<Rightarrow> (string \<Rightarrow> string list) \<Rightarrow> (path \<Rightarrow> (string, string) dict option) \<Rightarrow>
   (string \<Rightarrow> deb_block list) \<Rightarrow> (string \<Rightarrow> int res) \<Rightarrow> path \<Rightarrow> node \<Rightarrow> string \<Rightarrow> string \<Rightarrow> string \<Rightarrow> changelog_entry list res" where
  "src_changelog run parse_dsc open_tar parse_changelog parse_date base fs distribution derivative src_artifact =
     rbind (source_changelog run parse_dsc open_tar base fs distribution derivative src_artifact)
       (\<lambda>c. deb_changelog_entries parse_date (parse_changelog c))"

definition bin_changelog ::
  "(string list \<Rightarrow> string res) \<Rightarrow> (path \<Rightarrow> deb_block list res) \<Rightarrow> (string \<Rightarrow> int res) \<Rightarrow> path \<Rightarrow>
   string \<Rightarrow> string \<Rightarrow> string \<Rightarrow> string \<Rightarrow> changelog_entry list res" where
  "bin_changelog run deb_changelog_of parse_date base distribution derivative architecture bin_artifact =
     rbind (package_deb_path run base distribution derivative architecture bin_artifact) (\<lambda>p.
     rbind (deb_changelog_of p) (deb_changelog_entries parse_date))"

definition deb_changelog ::
  "(string list \<Rightarrow> string res) \<Rightarrow> (string \<Rightarrow> string list) \<Rightarrow> (path \<Rightarrow> (string, string) dict option) \<Rightarrow>
   (string \<Rightarrow> deb_block list) \<Rightarrow> (path \<Rightarrow> deb_block list res) \<Rightarrow> (string \<Rightarrow> int res) \<Rightarrow>
   path \<Rightarrow> node \<Rightarrow> string \<Rightarrow> string \<Rightarrow> string \<Rightarrow> string \<Rightarrow> changelog_entry list res" where
  "deb_changelog run parse_dsc open_tar parse_changelog deb_changelog_of parse_date base fs distribution derivative
     architecture artifact =
     rbind (check_derivative (deb_derivatives base fs) distribution derivative) (\<lambda>_.
       if architecture = ''src''
       then src_changelog run parse_dsc open_tar parse_changelog parse_date base fs distribution derivative artifact
       else bin_changelog run deb_changelog_of parse_date base distribution derivative architecture artifact)"

datatype tar_kind = KFile | KDir | KSym | KOther

definition tarinfo_type :: "tar_kind \<Rightarrow> string" where
  "tarinfo_type k = (case k of KFile \<Rightarrow> ''f'' | KDir \<Rightarrow> ''d'' | KSym \<Rightarrow> ''l'' | KOther \<Rightarrow> ''n/a'')"

definition deb_artifact_content ::
  "(string list \<Rightarrow> string res) \<Rightarrow> (path \<Rightarrow> (string \<times> tar_kind \<times> int) list res) \<Rightarrow> path \<Rightarrow> node \<Rightarrow>
   string \<Rightarrow> string \<Rightarrow> string \<Rightarrow> string \<Rightarrow> artifact_member list res" where
  "deb_artifact_content run deb_members base fs distribution derivative architecture artifact =
     rbind (check_derivative (deb_derivatives base fs) distribution derivative) (\<lambda>_.
       if architecture = ''src'' then Inl FatbuildrRegistryError
       else rbind (package_deb_path run base distribution derivative architecture artifact) (\<lambda>p.
         rmap (\<lambda>ms. map (\<lambda>(n, k, sz). \<lparr>am_path = tl n, am_type = tarinfo_type k, am_size = sz\<rparr>)
             (filter (\<lambda>(n, _). n \<noteq> ''.'') ms)) (deb_members p)))"

section \<open>Publishing and deleting\<close>

record repo_state =
  rs_fs :: node
  rs_cmds :: "string list list"

definition runcmd :: "(string list \<Rightarrow> node \<Rightarrow> node res) \<Rightarrow> string list \<Rightarrow> repo_state \<Rightarrow> repo_state res" where
  "runcmd eff cmd s = rmap (\<lambda>fs. s\<lparr>rs_fs := fs, rs_cmds := rs_cmds s @ [cmd]\<rparr>) (eff cmd (rs_fs s))"

definition repo_on_fs :: "(node \<Rightarrow> node res) \<Rightarrow> repo_state \<Rightarrow> repo_state res" where
  "repo_on_fs f s = rmap (\<lambda>fs. s\<lparr>rs_fs := fs\<rparr>) (f (rs_fs s))"

text \<open>The lines of a text file, with their line feed.\<close>

fun raw_lines :: "string \<Rightarrow> string list" where
  "raw_lines [] = []"
| "raw_lines (c # cs) =
     (if c = CHR 0x0A then [c] # raw_lines cs
      else (case raw_lines cs of [] \<Rightarrow> [[c]] | l # ls \<Rightarrow> (c # l) # ls))"

definition is_ddeb_line :: "string \<Rightarrow> bool" where
  "is_ddeb_line l \<longleftrightarrow> endswith (str_strip l) ''.ddeb''"

definition remove_ddebs :: "path \<Rightarrow> node \<Rightarrow> node res" where
  "remove_ddebs changes_path fs =
     rbind (fs_read fs changes_path) (\<lambda>c.
       let content = filter (\<lambda>l. \<not> is_ddeb_line l) (raw_lines c) in
       if list_ex is_ddeb_line (raw_lines c) then fs_write changes_path (concat content) fs else Inr fs)"

record deb_build =
  bd_distribution :: string
  bd_derivative :: string
  bd_derivatives :: "string list"
  bd_place :: path

definition reprepro_include :: "path \<Rightarrow> deb_build \<Rightarrow> string \<Rightarrow> string list" where
  "reprepro_include base b name =
     [''reprepro'', ''--verbose'', ''--basedir'', path_str base, ''--component'', bd_derivative b,
      ''include'', bd_distribution b, path_str (bd_place b @ [name])]"

definition publish_changes ::
  "(string list \<Rightarrow> node \<Rightarrow> node res) \<Rightarrow> path \<Rightarrow> deb_build \<Rightarrow> string \<Rightarrow> repo_state \<Rightarrow> repo_state res" where
  "publish_changes eff base b name s =
     rbind (repo_on_fs (remove_ddebs (bd_place b @ [name])) s) (\<lambda>s.
       if endswith name ''_source.changes'' then Inr s
       else runcmd eff (reprepro_include base b name) s)"

definition make_conf_dir :: "path \<Rightarrow> node \<Rightarrow> node res" where
  "make_conf_dir p fs = (if fs_exists fs p then Inr fs else rbind (make_parents p fs) (mkdir_missing p))"

definition deb_publish ::
  "(node \<Rightarrow> node res) \<Rightarrow> (string list \<Rightarrow> node \<Rightarrow> node res) \<Rightarrow> (string list \<Rightarrow> string list) \<Rightarrow>
   (string list \<Rightarrow> string list \<Rightarrow> string list \<Rightarrow> string) \<Rightarrow> string list \<Rightarrow> path \<Rightarrow> deb_build \<Rightarrow> repo_state \<Rightarrow> repo_state res" where
  "deb_publish load_agent eff set_order template pipeline_archs base b s =
     rbind (repo_on_fs (make_conf_dir (butlast (dists_conf base))) s) (\<lambda>s.
     rbind (deb_distributions base (rs_fs s)) (\<lambda>ds.
     rbind (deb_components base (rs_fs s)) (\<lambda>cs.
     rbind (repo_on_fs (fs_write (dists_conf base)
         (template (set_order (ds @ [bd_distribution b])) (map (archmap_native ''deb'') pipeline_archs)
            (set_order (cs @ bd_derivatives b)))) s) (\<lambda>s.
     rbind (repo_on_fs load_agent s) (\<lambda>s.
     rbind (fs_iterdir (rs_fs s) (bd_place b)) (\<lambda>names.
       rfold (publish_changes eff base b) (filter (\<lambda>n. endswith n ''.changes'') names) s))))))"

definition reprepro_remove :: "path \<Rightarrow> string list \<Rightarrow> string \<Rightarrow> string \<Rightarrow> registry_artifact \<Rightarrow> string list" where
  "reprepro_remove base pipeline_archs distribution derivative artifact =
     [''reprepro'', ''--basedir'', path_str base, ''--component'', derivative, ''--architecture'',
      (if ra_architecture artifact = ''noarch'' then str_join ''|'' (map (archmap_native ''deb'') pipeline_archs)
       else archmap_native ''deb'' (ra_architecture artifact)),
      ''remove'', distribution, ra_name artifact]"

definition deb_delete_artifact ::
  "(node \<Rightarrow> node res) \<Rightarrow> (string list \<Rightarrow> node \<Rightarrow> node res) \<Rightarrow> path \<Rightarrow> string list \<Rightarrow> string \<Rightarrow> string \<Rightarrow> registry_artifact \<Rightarrow>
   repo_state \<Rightarrow> repo_state res" where
  "deb_delete_artifact load_agent eff base pipeline_archs distribution derivative artifact s =
     rbind (repo_on_fs load_agent s)
       (runcmd eff (reprepro_remove base pipeline_archs distribution derivative artifact))"

section \<open>Lemmas\<close>

text \<open>The output of a listing: a line per package, its fields joined.\<close>

definition listing :: "string list list \<Rightarrow> string" where
  "listing rows = concat (map (\<lambda>r. str_join ''|'' r @ [CHR 0x0A]) rows)"

definition clean_row :: "string list \<Rightarrow> bool" where
  "clean_row r \<longleftrightarrow> (\<forall>f \<in> set r. \<forall>c \<in> set f. \<not> is_space c \<and> c \<noteq> CHR ''|'') \<and> r \<noteq> [] \<and> length r \<noteq> 1"

lemma set_str_join: "set (str_join sep r) \<subseteq> set sep \<union> (\<Union> (set ` set r))"
  by (induction sep r rule: str_join.induct) auto

lemma str_join_ne: "length r > 1 \<Longrightarrow> sep \<noteq> [] \<Longrightarrow> str_join sep r \<noteq> []"
  by (induction sep r rule: str_join.induct) auto

lemma is_space_bar [simp]: "\<not> is_space CHR ''|''" "is_space CHR 0x0A"
  by (simp_all add: is_space_def)

lemma clean_row_line:
  assumes "clean_row r"
  shows "str_join ''|'' r \<noteq> []" and "\<forall>c \<in> set (str_join ''|'' r). \<not> is_space c"
    and "split_on CHR ''|'' (str_join ''|'' r) = r"
proof -
  have "length r > 1" using assms by (cases r) (auto simp: clean_row_def)
  then show "str_join ''|'' r \<noteq> []" by (rule str_join_ne) simp
  show "\<forall>c \<in> set (str_join ''|'' r). \<not> is_space c"
    using set_str_join [of "''|''" r] assms by (fastforce simp: clean_row_def)
  show "split_on CHR ''|'' (str_join ''|'' r) = r"
    using assms by (intro split_on_join) (auto simp: clean_row_def)
qed

lemma output_lines_listing:
  assumes "\<forall>r \<in> set rows. clean_row r" and "rows \<noteq> []"
  shows "output_lines (listing rows) = map (str_join ''|'') rows"
proof -
  let ?ls = "map (str_join ''|'') rows"
  let ?w = "str_join [CHR 0x0A] ?ls"
  have ls: "\<forall>l \<in> set ?ls. l \<noteq> [] \<and> (\<forall>c \<in> set l. \<not> is_space c)"
    using assms(1) clean_row_line by auto
  have out: "listing rows = ?w @ [CHR 0x0A]"
    unfolding listing_def using assms(2)
  proof (induction rows)
    case (Cons r rows)
    then show ?case by (cases "rows = []") (auto simp: str_join_Cons)
  qed simp
  have w: "?w \<noteq> [] \<and> \<not> is_space (hd ?w) \<and> \<not> is_space (List.last ?w)"
    using ls assms(2)
  proof (induction rows)
    case (Cons r rows)
    then show ?case
      by (cases "rows = []") (auto simp: str_join_Cons last_append hd_append)
  qed simp
  have "str_strip (?w @ [CHR 0x0A]) = ?w"
    using w by (simp add: str_strip_def dropWhile_hd hd_rev)
  moreover have "split_on CHR 0x0A ?w = ?ls"
    using assms(2) ls by (intro split_on_join) (auto, metis is_space_bar(2))
  ultimately show ?thesis by (simp add: output_lines_def out)
qed

lemma output_lines_empty: "output_lines (listing []) = [[]]"
  by (simp add: output_lines_def listing_def str_strip_def)

lemma line_fields_row: "clean_row r \<Longrightarrow> length r = n \<Longrightarrow> line_fields n (str_join ''|'' r) = Inr r"
  by (simp add: line_fields_def clean_row_line)

text \<open>A fold over the lines of a listing that skips empty lines is a fold over its rows.\<close>

lemma fold_listing:
  assumes "\<forall>r \<in> set rows. clean_row r" and "\<And>acc. f [] acc = Inr acc"
  shows "rfold f (output_lines (listing rows)) acc = rfold (\<lambda>r. f (str_join ''|'' r)) rows acc"
proof (cases "rows = []")
  case False
  have "rfold f (map (str_join ''|'') xs) a = rfold (\<lambda>r. f (str_join ''|'' r)) xs a" for xs a
    by (induction xs arbitrary: a) (auto simp: rbind_def split: sum.splits)
  with False show ?thesis by (simp add: output_lines_listing [OF assms(1) False])
qed (simp add: output_lines_empty assms(2))

lemma digit_not_space: "is_digit c \<Longrightarrow> \<not> is_space c"
  by (auto simp: is_digit_def is_space_def)

lemma py_int_digits: "list_all is_digit s \<Longrightarrow> s \<noteq> [] \<Longrightarrow> py_int s = Inr (int (digits_val s))"
proof -
  assume s: "list_all is_digit s" "s \<noteq> []"
  then have "is_digit (hd s)" "is_digit (List.last s)" by (simp_all add: list_all_iff)
  then have "str_strip s = s" using s(2) by (intro strip_clean) (simp_all add: digit_not_space)
  moreover have "hd s \<noteq> CHR ''-''" "hd s \<noteq> CHR ''+''" using \<open>is_digit (hd s)\<close> by (auto simp: is_digit_def)
  ultimately show ?thesis using s by (simp add: py_int_def)
qed

definition size_value :: "string \<Rightarrow> int" where
  "size_value s = (if s = [] then 0 else int (digits_val s))"

lemma deb_size_value: "list_all is_digit s \<Longrightarrow> deb_size s = Inr (size_value s)"
  by (simp add: deb_size_def size_value_def py_int_digits)

lemma rfold_add_new:
  "(\<forall>r \<in> set rows. \<forall>acc. f r acc = Inr (if P r then add_new (g r) acc else acc)) \<Longrightarrow> distinct acc \<Longrightarrow>
     \<exists>xs. rfold f rows acc = Inr xs \<and> distinct xs \<and> set xs = set acc \<union> g ` {r \<in> set rows. P r}"
proof (induction rows arbitrary: acc)
  case (Cons r rows)
  let ?acc = "if P r then add_new (g r) acc else acc"
  have "distinct ?acc" using Cons.prems(2) by simp
  with Cons.IH [of ?acc] Cons.prems(1) obtain xs where xs: "rfold f rows ?acc = Inr xs" "distinct xs"
    "set xs = set ?acc \<union> g ` {r \<in> set rows. P r}" by (meson list.set_intros(2))
  with Cons.prems(1) have "rfold f (r # rows) acc = Inr xs" by simp
  with xs show ?case by (cases "P r") auto
qed simp

section \<open>Properties\<close>

definition row_artifact :: "string list \<Rightarrow> registry_artifact" where
  "row_artifact r = RegistryArtifact (r ! 0)
     (archmap_normalized ''deb'' (if r ! 2 = ''source'' then r ! 2 else r ! 1)) (r ! 3) (size_value (r ! 4))"

text \<open>Listing an APT repository returns each package once, although \<^verbatim>\<open>reprepro\<close> prints the
  architecture independent ones once per architecture: the artifacts are those of the printed rows,
  without repetition.\<close>

theorem deb_artifacts_listed:
  assumes "check_derivative (deb_derivatives base fs) d dv = Inr ()" and "fs_exists fs (dists_conf base)"
    and "run (reprepro_list base dv ''${package}|${Architecture}|${$architecture}|${version}|${Size}'' d []) =
      Inr (listing rows)"
    and "\<forall>r \<in> set rows. clean_row r \<and> length r = 5 \<and> list_all is_digit (r ! 4)"
  shows "\<exists>xs. deb_artifacts run base fs d dv = Inr xs \<and> distinct xs \<and> set xs = row_artifact ` set rows"
proof -
  have clean: "\<forall>r \<in> set rows. clean_row r" using assms(4) by blast
  have f0: "deb_artifact_line [] acc = Inr acc" for acc by (simp add: deb_artifact_line_def)
  have "\<forall>r \<in> set rows. \<forall>acc. deb_artifact_line (str_join ''|'' r) acc =
      Inr (if True then add_new (row_artifact r) acc else acc)"
  proof (intro ballI allI)
    fix r acc assume "r \<in> set rows"
    with assms(4) have "clean_row r" "length r = 5" "list_all is_digit (r ! 4)" by auto
    then show "deb_artifact_line (str_join ''|'' r) acc = Inr (if True then add_new (row_artifact r) acc else acc)"
      by (simp add: deb_artifact_line_def clean_row_line line_fields_row deb_size_value row_artifact_def
          append_artifact_add_new)
  qed
  from rfold_add_new [OF this, of "[]"] assms(1-3) show ?thesis
    by (auto simp: deb_artifacts_def fold_listing [where f = deb_artifact_line, OF clean f0])
qed

definition deb_fs :: node where
  "deb_fs = Dir [(''dists'', Dir [(''sid'', Dir [])]), (''pool'', Dir [(''main'', Dir [])]),
     (''conf'', Dir [(''distributions'', File [])])]"

definition deb_rows :: "string list list" where
  "deb_rows = [[''foo'', ''all'', ''amd64'', ''1-1'', ''12''], [''foo'', ''all'', ''arm64'', ''1-1'', ''12''],
     [''foo'', ''all'', ''source'', ''1-1'', []]]"

lemma deb_artifacts_listed_witness:
  "\<exists>xs. deb_artifacts (\<lambda>_. Inr (listing deb_rows)) [] deb_fs ''sid'' ''main'' = Inr xs \<and> distinct xs \<and>
     set xs = row_artifact ` set deb_rows"
proof (rule deb_artifacts_listed)
  show "check_derivative (deb_derivatives [] deb_fs) ''sid'' ''main'' = Inr ()" by code_simp
  show "fs_exists deb_fs (dists_conf [])" by code_simp
  show "\<forall>r \<in> set deb_rows. clean_row r \<and> length r = 5 \<and> list_all is_digit (r ! 4)"
    by (simp add: deb_rows_def clean_row_def is_space_def is_digit_def)
qed simp

text \<open>The packages of a repository, as the listings of \<^verbatim>\<open>reprepro\<close> show them.\<close>

record deb_package =
  dp_package :: string
  dp_architecture :: string
  dp_locarch :: string
  dp_source :: string
  dp_version :: string
  dp_size :: string

definition bins_row :: "deb_package \<Rightarrow> string list" where
  "bins_row p = [dp_package p, dp_architecture p, dp_locarch p, dp_source p, dp_version p, dp_size p]"

definition src_row :: "deb_package \<Rightarrow> string list" where
  "src_row p = [dp_locarch p, dp_source p, dp_version p]"

definition bin_artifact_of :: "string list \<Rightarrow> registry_artifact" where
  "bin_artifact_of r = RegistryArtifact (r ! 0) (archmap_normalized ''deb'' (r ! 1)) (r ! 4) (size_value (r ! 5))"

lemma deb_src_loop_rows:
  "\<forall>r \<in> set rows. clean_row r \<and> length r = 3 \<Longrightarrow> \<exists>r \<in> set rows. r ! 0 \<noteq> ''source'' \<Longrightarrow>
     \<exists>r \<in> set rows. r ! 0 \<noteq> ''source'' \<and>
       deb_src_loop (map (str_join ''|'') rows) = Inr (RegistryArtifact (r ! 1) ''src'' (r ! 2) 0)"
  by (induction rows) (auto simp: clean_row_line line_fields_row)

text \<open>In a repository where the binary packages of one name come from one source, asking for the
  source of a binary package that was listed for a source returns this source.\<close>

theorem deb_src_of_bin:
  assumes "run (reprepro_list base dv
         ''${package}|${Architecture}|${$architecture}|${$source}|${version}|${Size}'' d []) =
       Inr (listing (map bins_row ps))"
    and "run (reprepro_list base dv ''${$architecture}|${$source}|${version}'' d [ra_name a]) =
       Inr (listing (map src_row (filter (\<lambda>p. dp_package p = ra_name a) ps)))"
    and "\<forall>p \<in> set ps. clean_row (bins_row p) \<and> clean_row (src_row p) \<and> list_all is_digit (dp_size p)"
    and "\<forall>p \<in> set ps. \<forall>q \<in> set ps. dp_locarch p \<noteq> ''source'' \<and> dp_locarch q \<noteq> ''source'' \<and>
       dp_package p = dp_package q \<longrightarrow> dp_source p = dp_source q"
    and "deb_artifact_bins run base d dv s = Inr xs" and "a \<in> set xs"
  shows "\<exists>v. deb_artifact_src run base d dv (ra_name a) = Inr (RegistryArtifact s ''src'' v 0)"
proof -
  let ?P = "\<lambda>r. r ! 2 \<noteq> ''source'' \<and> r ! 3 = s"
  have clean: "\<forall>r \<in> set (map bins_row ps). clean_row r" using assms(3) by auto
  have f0: "deb_bin_line s [] acc = Inr acc" for acc by (simp add: deb_bin_line_def)
  have "\<forall>r \<in> set (map bins_row ps). \<forall>acc. deb_bin_line s (str_join ''|'' r) acc =
      Inr (if ?P r then add_new (bin_artifact_of r) acc else acc)"
  proof (intro ballI allI)
    fix r acc assume "r \<in> set (map bins_row ps)"
    with assms(3) have "clean_row r" "length r = 6" "list_all is_digit (r ! 5)" by (auto simp: bins_row_def)
    then show "deb_bin_line s (str_join ''|'' r) acc = Inr (if ?P r then add_new (bin_artifact_of r) acc else acc)"
      by (simp add: deb_bin_line_def clean_row_line line_fields_row deb_size_value bin_artifact_of_def
          append_artifact_add_new)
  qed
  from rfold_add_new [OF this, of "[]"] assms(1,5,6)
  obtain p where p: "p \<in> set ps" "dp_locarch p \<noteq> ''source''" "dp_source p = s" "dp_package p = ra_name a"
    by (auto simp: deb_artifact_bins_def fold_listing [where f = "deb_bin_line s", OF clean f0] bins_row_def bin_artifact_of_def RegistryArtifact_def)
  let ?rows = "map src_row (filter (\<lambda>p. dp_package p = ra_name a) ps)"
  have rows: "\<forall>r \<in> set ?rows. clean_row r \<and> length r = 3" using assms(3) by (auto simp: src_row_def)
  have "src_row p \<in> set ?rows" using p by auto
  moreover have "src_row p ! 0 \<noteq> ''source''" using p by (simp add: src_row_def)
  ultimately obtain r where r: "r \<in> set ?rows" "r ! 0 \<noteq> ''source''"
      "deb_src_loop (map (str_join ''|'') ?rows) = Inr (RegistryArtifact (r ! 1) ''src'' (r ! 2) 0)"
    using deb_src_loop_rows [OF rows] by blast
  then obtain q where q: "q \<in> set ps" "dp_package q = ra_name a" "r = src_row q" by auto
  from r(2) q(3) have "dp_locarch q \<noteq> ''source''" by (simp add: src_row_def)
  with assms(4) p q(1,2) have "dp_source q = s" by metis
  then have "r ! 1 = s" by (simp add: q(3) src_row_def)
  moreover have "output_lines (listing ?rows) = map (str_join ''|'') ?rows"
  proof (rule output_lines_listing)
    show "\<forall>r \<in> set ?rows. clean_row r" using rows by blast
    show "?rows \<noteq> []" using r(1) by (metis empty_iff list.set(1))
  qed
  moreover have "deb_artifact_src run base d dv (ra_name a) = deb_src_loop (output_lines (listing ?rows))"
    by (simp only: deb_artifact_src_def assms(2) rbind_simps)
  ultimately have "deb_artifact_src run base d dv (ra_name a) = Inr (RegistryArtifact s ''src'' (r ! 2) 0)"
    by (simp only: r(3))
  then show ?thesis by blast
qed

definition deb_packages :: "deb_package list" where
  "deb_packages =
     [\<lparr>dp_package = ''libfoo'', dp_architecture = ''amd64'', dp_locarch = ''amd64'', dp_source = ''foo'',
        dp_version = ''1-1'', dp_size = ''12''\<rparr>,
      \<lparr>dp_package = ''foo'', dp_architecture = ''all'', dp_locarch = ''source'', dp_source = ''foo'',
        dp_version = ''1-1'', dp_size = []\<rparr>]"

definition deb_run :: "string list \<Rightarrow> string res" where
  "deb_run cmd = Inr (if length cmd = 9 then listing (map bins_row deb_packages)
     else listing (map src_row (filter (\<lambda>p. dp_package p = List.last cmd) deb_packages)))"

lemma deb_src_of_bin_witness:
  "\<exists>v. deb_artifact_src deb_run [] ''sid'' ''main'' (ra_name (RegistryArtifact ''libfoo'' ''x86_64'' ''1-1'' 12)) =
     Inr (RegistryArtifact ''foo'' ''src'' v 0)"
proof (rule deb_src_of_bin)
  show "deb_artifact_bins deb_run [] ''sid'' ''main'' ''foo'' = Inr [RegistryArtifact ''libfoo'' ''x86_64'' ''1-1'' 12]"
    by code_simp
  show "\<forall>p \<in> set deb_packages. clean_row (bins_row p) \<and> clean_row (src_row p) \<and> list_all is_digit (dp_size p)"
    by (simp add: deb_packages_def clean_row_def bins_row_def src_row_def is_space_def is_digit_def)
  show "\<forall>p \<in> set deb_packages. \<forall>q \<in> set deb_packages. dp_locarch p \<noteq> ''source'' \<and> dp_locarch q \<noteq> ''source'' \<and>
       dp_package p = dp_package q \<longrightarrow> dp_source p = dp_source q"
    by (simp add: deb_packages_def)
qed (simp_all add: deb_run_def reprepro_list_def RegistryArtifact_def)

lemma concat_raw_lines [simp]: "concat (raw_lines c) = c"
  by (induction c) (auto split: list.splits)

text \<open>Removing the ddeb entries of a changes file keeps its other lines, in their order and
  untouched, and leaves none of the removed ones to \<^verbatim>\<open>reprepro\<close>.\<close>

theorem remove_ddebs_spec:
  assumes "fs_read fs p = Inr c" and "remove_ddebs p fs = Inr fs'"
  shows "fs_read fs' p = Inr (concat (filter (\<lambda>l. \<not> is_ddeb_line l) (raw_lines c)))"
proof (cases "list_ex is_ddeb_line (raw_lines c)")
  case True
  with assms have "fs_write p (concat (filter (\<lambda>l. \<not> is_ddeb_line l) (raw_lines c))) fs = Inr fs'"
    by (simp add: remove_ddebs_def Let_def)
  from tree.store_same [OF write_Inr_put [OF this]] show ?thesis by (simp add: fs_read_def)
next
  case False
  then have "filter (\<lambda>l. \<not> is_ddeb_line l) (raw_lines c) = raw_lines c" by (auto simp: list_ex_iff intro!: filter_True)
  moreover have "fs' = fs" using assms False by (simp add: remove_ddebs_def Let_def)
  ultimately show ?thesis using assms(1) by simp
qed

lemma remove_ddebs_spec_witness:
  "let c = ''a 1 x.deb'' @ [CHR 0x0A] @ ''b 2 x.ddeb'' @ [CHR 0x0A] @ ''c'' in
   fs_read (Dir [(''f'', File (''a 1 x.deb'' @ [CHR 0x0A] @ ''c''))]) [''f''] =
     Inr (concat (filter (\<lambda>l. \<not> is_ddeb_line l) (raw_lines c)))"
  unfolding Let_def
proof (rule remove_ddebs_spec)
  let ?c = "''a 1 x.deb'' @ [CHR 0x0A] @ ''b 2 x.ddeb'' @ [CHR 0x0A] @ ''c''"
  show "fs_read (Dir [(''f'', File ?c)]) [''f''] = Inr ?c" by code_simp
  show "remove_ddebs [''f''] (Dir [(''f'', File ?c)]) = Inr (Dir [(''f'', File (''a 1 x.deb'' @ [CHR 0x0A] @ ''c''))])"
    by code_simp
qed

lemma repo_on_fs_cmds: "repo_on_fs f s = Inr s' \<Longrightarrow> rs_cmds s' = rs_cmds s \<and> f (rs_fs s) = Inr (rs_fs s')"
  by (auto simp: repo_on_fs_def rmap_Inr_conv)

lemma runcmd_cmds: "runcmd eff cmd s = Inr s' \<Longrightarrow> rs_cmds s' = rs_cmds s @ [cmd]"
  by (auto simp: runcmd_def rmap_Inr_conv)

lemma publish_changes_cmds:
  "rfold (publish_changes eff base b) names s = Inr s' \<Longrightarrow>
     rs_cmds s' = rs_cmds s @ map (reprepro_include base b) (filter (\<lambda>n. \<not> endswith n ''_source.changes'') names)"
proof (induction names arbitrary: s)
  case (Cons n names)
  then obtain s1 where s1: "publish_changes eff base b n s = Inr s1" "rfold (publish_changes eff base b) names s1 = Inr s'"
    by (auto simp: rbind_Inr_conv)
  from s1(1) have "rs_cmds s1 = rs_cmds s @ (if endswith n ''_source.changes'' then [] else [reprepro_include base b n])"
    by (auto simp: publish_changes_def rbind_Inr_conv dest!: repo_on_fs_cmds runcmd_cmds split: if_splits)
  with Cons.IH [OF s1(2)] show ?case by simp
qed simp

text \<open>C21. Publishing deb packages includes every changes file of the build, except those of source
  uploads, once and in the order of the directory, and nothing else.\<close>

theorem deb_publish_includes:
  assumes "deb_publish load_agent eff set_order template archs base b s = Inr s'"
    and "apart base (bd_place b)"
    and "\<forall>fs fs'. load_agent fs = Inr fs' \<longrightarrow> lookup (bd_place b) fs' = lookup (bd_place b) fs"
  shows "\<exists>names. fs_iterdir (rs_fs s) (bd_place b) = Inr names \<and>
     rs_cmds s' = rs_cmds s @ map (reprepro_include base b)
       (filter (\<lambda>n. \<not> endswith n ''_source.changes'') (filter (\<lambda>n. endswith n ''.changes'') names))"
proof -
  let ?q = "bd_place b"
  from assms(1) obtain s1 s2 s3 names c where *:
      "repo_on_fs (make_conf_dir (butlast (dists_conf base))) s = Inr s1"
      "repo_on_fs (fs_write (dists_conf base) c) s1 = Inr s2" "repo_on_fs load_agent s2 = Inr s3"
      "fs_iterdir (rs_fs s3) ?q = Inr names"
      "rfold (publish_changes eff base b) (filter (\<lambda>n. endswith n ''.changes'') names) s3 = Inr s'"
    by (auto simp: deb_publish_def rbind_Inr_conv)
  have ap: "apart (base @ r) ?q" for r using assms(2) by (rule apart_longer)
  have below: "\<not> prefix ?q (base @ r)" for r using ap [of r] by (simp add: apart_def)
  have dir: "butlast (dists_conf base) = base @ [''conf'']" by (simp add: dists_conf_def butlast_append)
  have "lookup ?q (rs_fs s1) = lookup ?q (rs_fs s)"
    using repo_on_fs_cmds [OF *(1)] below [of "[''conf'']"]
    by (auto simp: make_conf_dir_def dir rbind_Inr_conv make_parents_other mkdir_missing_other split: if_splits)
  moreover have "lookup ?q (rs_fs s2) = lookup ?q (rs_fs s1)"
    using repo_on_fs_cmds [OF *(2)] touches_write ap by (fastforce simp: touches_def dists_conf_def)
  moreover have "lookup ?q (rs_fs s3) = lookup ?q (rs_fs s2)" using repo_on_fs_cmds [OF *(3)] assms(3) by blast
  ultimately have "fs_iterdir (rs_fs s) ?q = Inr names" using *(4) by (simp add: fs_iterdir_def)
  with publish_changes_cmds [OF *(5)] repo_on_fs_cmds [OF *(1)] repo_on_fs_cmds [OF *(2)] repo_on_fs_cmds [OF *(3)]
  show ?thesis by auto
qed

definition deb_place :: "string list" where
  "deb_place = [''foo_1-1_amd64.changes'', ''foo_1-1_source.changes'', ''foo_1-1.deb'']"

definition deb_published :: node where
  "deb_published = Dir [(''repo'', Dir [(''conf'', Dir [(''distributions'', File ''conf'')])]),
     (''place'', Dir (map (\<lambda>n. (n, File [])) deb_place))]"

lemma deb_publish_includes_witness:
  "\<exists>names. fs_iterdir (Dir [(''repo'', Dir []), (''place'', Dir (map (\<lambda>n. (n, File [])) deb_place))]) [''place''] = Inr names \<and>
     [reprepro_include [''repo''] \<lparr>bd_distribution = ''sid'', bd_derivative = ''main'', bd_derivatives = [''main''],
        bd_place = [''place'']\<rparr> ''foo_1-1_amd64.changes''] =
     map (reprepro_include [''repo''] \<lparr>bd_distribution = ''sid'', bd_derivative = ''main'', bd_derivatives = [''main''],
        bd_place = [''place'']\<rparr>)
       (filter (\<lambda>n. \<not> endswith n ''_source.changes'') (filter (\<lambda>n. endswith n ''.changes'') names))"
proof -
  let ?b = "\<lparr>bd_distribution = ''sid'', bd_derivative = ''main'', bd_derivatives = [''main''], bd_place = [''place'']\<rparr>"
  let ?s = "\<lparr>rs_fs = Dir [(''repo'', Dir []), (''place'', Dir (map (\<lambda>n. (n, File [])) deb_place))], rs_cmds = []\<rparr>"
  let ?s' = "\<lparr>rs_fs = deb_published, rs_cmds = [reprepro_include [''repo''] ?b ''foo_1-1_amd64.changes'']\<rparr>"
  have "deb_publish Inr (\<lambda>_. Inr) remdups (\<lambda>_ _ _. ''conf'') [] [''repo''] ?b ?s = Inr ?s'" by code_simp
  from deb_publish_includes [OF this] show ?thesis by (simp add: apart_def)
qed

end
