(* ===== verification/RegistryRpm.thy ===== *)
theory RegistryRpm imports RegistryDeb begin

text \<open>
  The yum repositories of \<^verbatim>\<open>fatbuildr/registry/formats/rpm.py\<close>. Reading the metadata of a
  repository is the parameter \<open>load_md\<close>, which gives the packages in the order of the metadata or
  the exception of the library; the command that rebuilds it is the parameter \<open>eff\<close>. The lines of
  a command's output end with a line feed.
\<close>

section \<open>Paths\<close>

record rpm_package =
  rp_name :: string
  rp_arch :: string
  rp_version :: string
  rp_release :: string
  rp_size :: int
  rp_sourcerpm :: string
  rp_href :: string

type_synonym metadata = "path \<Rightarrow> rpm_package list res"

definition rpm_distributions :: "path \<Rightarrow> node \<Rightarrow> string list res" where
  "rpm_distributions base fs = fs_iterdir fs base"

definition rpm_dist_path :: "path \<Rightarrow> string \<Rightarrow> path" where
  "rpm_dist_path base d = base @ [d]"

definition rpm_derivatives :: "path \<Rightarrow> node \<Rightarrow> string \<Rightarrow> string list res" where
  "rpm_derivatives base fs d =
     rbind (check_distribution (rpm_distributions base fs) d) (\<lambda>_. fs_iterdir fs (rpm_dist_path base d))"

interpretation rpm: registry_backend "rpm_distributions base" "rpm_derivatives base"
  by unfold_locales (auto simp: rpm_derivatives_def rbind_def split: sum.splits)

definition repo_path :: "string \<Rightarrow> path \<Rightarrow> string \<Rightarrow> string \<Rightarrow> string \<Rightarrow> path" where
  "repo_path host base d dv arch =
     rpm_dist_path base d @ [dv, archmap_nativedir ''rpm'' (if arch = ''noarch'' then host else arch)]"

definition pkg_dir :: "string \<Rightarrow> path \<Rightarrow> string \<Rightarrow> string \<Rightarrow> string \<Rightarrow> path" where
  "pkg_dir host base d dv arch = repo_path host base d dv arch @ [''Packages'']"

definition available_arch_dirs :: "path \<Rightarrow> node \<Rightarrow> string \<Rightarrow> string \<Rightarrow> path list res" where
  "available_arch_dirs base fs d dv =
     rmap (map (\<lambda>n. rpm_dist_path base d @ [dv, n])) (fs_iterdir fs (rpm_dist_path base d @ [dv]))"

section \<open>Listing\<close>

definition rpm_fullversion :: "rpm_package \<Rightarrow> string" where
  "rpm_fullversion p = rp_version p @ ''-'' @ rp_release p"

definition rpm_artifact :: "rpm_package \<Rightarrow> registry_artifact" where
  "rpm_artifact p = RegistryArtifact (rp_name p) (rp_arch p) (rpm_fullversion p) (rp_size p)"

text \<open>The name of the source package in the file name of a source RPM.\<close>

definition source_name :: "string \<Rightarrow> string" where
  "source_name sourcerpm = hd (rsplit_max CHR ''-'' 2 sourcerpm)"

fun add_artifacts :: "rpm_package list \<Rightarrow> registry_artifact list \<Rightarrow> registry_artifact list" where
  "add_artifacts [] xs = xs"
| "add_artifacts (p # ps) xs = add_artifacts ps (append_artifact (rpm_artifact p) xs)"

text \<open>A directory without metadata ends the loop with an empty list.\<close>

fun rpm_artifacts_loop :: "metadata \<Rightarrow> path list \<Rightarrow> registry_artifact list \<Rightarrow> registry_artifact list res" where
  "rpm_artifacts_loop load_md [] xs = Inr xs"
| "rpm_artifacts_loop load_md (d # ds) xs =
     (case load_md d of
        Inl e \<Rightarrow> if is_a e OSErr then Inr [] else Inl e
      | Inr ps \<Rightarrow> rpm_artifacts_loop load_md ds (add_artifacts ps xs))"

definition rpm_artifacts ::
  "metadata \<Rightarrow> path \<Rightarrow> node \<Rightarrow> string \<Rightarrow> string \<Rightarrow> registry_artifact list res" where
  "rpm_artifacts load_md base fs d dv =
     rbind (check_derivative (rpm_derivatives base fs) d dv) (\<lambda>_.
     rbind (available_arch_dirs base fs d dv) (\<lambda>dirs. rpm_artifacts_loop load_md dirs []))"

definition rpm_is_bin_of :: "string \<Rightarrow> rpm_package \<Rightarrow> bool" where
  "rpm_is_bin_of src p \<longleftrightarrow> rp_arch p \<noteq> ''src'' \<and> source_name (rp_sourcerpm p) = src"

definition rpm_artifact_bins ::
  "metadata \<Rightarrow> path \<Rightarrow> node \<Rightarrow> string \<Rightarrow> string \<Rightarrow> string \<Rightarrow> registry_artifact list res" where
  "rpm_artifact_bins load_md base fs d dv src_artifact =
     rbind (available_arch_dirs base fs d dv) (\<lambda>dirs.
       rfold (\<lambda>dir xs. rmap (\<lambda>ps. add_artifacts (filter (rpm_is_bin_of src_artifact) ps) xs) (load_md dir)) dirs [])"

text \<open>A method that ends without \<^verbatim>\<open>return\<close> returns \<^verbatim>\<open>None\<close>.\<close>

definition rpm_src_artifact ::
  "metadata \<Rightarrow> path \<Rightarrow> string \<Rightarrow> string \<Rightarrow> string \<Rightarrow> string \<Rightarrow> registry_artifact option res" where
  "rpm_src_artifact load_md base d dv src_name src_version =
     rmap (\<lambda>ps. map_option rpm_artifact (List.find (\<lambda>p. rp_name p = src_name \<and> rp_arch p = ''src''
         \<and> rpm_fullversion p = src_version) ps))
       (load_md (rpm_dist_path base d @ [dv, ''source'']))"

definition src_rpm_version :: "string \<Rightarrow> string res" where
  "src_rpm_version sourcerpm =
     (let cs = rsplit_max CHR ''-'' 2 sourcerpm in
      rbind (list_item cs 1) (\<lambda>v. rmap (\<lambda>r. v @ ''-'' @ take (length r - 8) r) (list_item cs 2)))"

fun rpm_src_loop ::
  "metadata \<Rightarrow> path \<Rightarrow> string \<Rightarrow> string \<Rightarrow> string \<Rightarrow> path list \<Rightarrow> registry_artifact option res" where
  "rpm_src_loop load_md base d dv bin [] = Inr None"
| "rpm_src_loop load_md base d dv bin (dir # dirs) =
     rbind (load_md dir) (\<lambda>ps.
       case List.find (\<lambda>p. rp_name p = bin \<and> rp_arch p \<noteq> ''src'') ps of
         None \<Rightarrow> rpm_src_loop load_md base d dv bin dirs
       | Some p \<Rightarrow> rbind (src_rpm_version (rp_sourcerpm p))
                     (rpm_src_artifact load_md base d dv (source_name (rp_sourcerpm p))))"

definition rpm_artifact_src ::
  "metadata \<Rightarrow> path \<Rightarrow> node \<Rightarrow> string \<Rightarrow> string \<Rightarrow> string \<Rightarrow> registry_artifact option res" where
  "rpm_artifact_src load_md base fs d dv bin_artifact =
     rbind (available_arch_dirs base fs d dv) (rpm_src_loop load_md base d dv bin_artifact)"

definition rpm_source_version ::
  "metadata \<Rightarrow> string \<Rightarrow> path \<Rightarrow> string \<Rightarrow> string \<Rightarrow> string \<Rightarrow> artifact_version option res" where
  "rpm_source_version load_md host base d dv artifact =
     (case load_md (repo_path host base d dv ''src'') of
        Inl e \<Rightarrow> if is_a e OSErr then Inr None else Inl e
      | Inr ps \<Rightarrow>
          (case List.find (\<lambda>p. rp_name p = artifact \<and> rp_arch p = ''src'') ps of
             None \<Rightarrow> Inr None
           | Some p \<Rightarrow> rmap Some (ArtifactVersion_init (rpm_fullversion p))))"

section \<open>Change logs and contents\<close>

record rpm_entry =
  re_author :: string
  re_date :: int
  re_changelog :: string

definition rpm_sanitize_entry :: "string \<Rightarrow> string" where
  "rpm_sanitize_entry e = str_strip (if startswith e ''-'' then drop 1 e else e)"

definition rpm_changelog_entry :: "rpm_entry \<Rightarrow> changelog_entry res" where
  "rpm_changelog_entry e =
     (case rsplit_max CHR '' '' 1 (re_author e) of
        [author, version] \<Rightarrow> Inr \<lparr>ce_version = version, ce_author = author, ce_date = re_date e,
            ce_changes = map rpm_sanitize_entry (split_on CHR 0x0A (re_changelog e))\<rparr>
      | _ \<Rightarrow> Inl ValueErr)"

definition rpm_changelog_entries :: "rpm_entry list \<Rightarrow> changelog_entry list res" where
  "rpm_changelog_entries es = rmapM rpm_changelog_entry (rev es)"

definition rpm_changelog ::
  "metadata \<Rightarrow> (rpm_package \<Rightarrow> rpm_entry list) \<Rightarrow> string \<Rightarrow> path \<Rightarrow> node \<Rightarrow>
   string \<Rightarrow> string \<Rightarrow> string \<Rightarrow> string \<Rightarrow> changelog_entry list res" where
  "rpm_changelog load_md changelogs host base fs d dv arch artifact =
     rbind (check_derivative (rpm_derivatives base fs) d dv) (\<lambda>_.
       if \<not> fs_exists fs (repo_path host base d dv arch) then Inl FatbuildrRegistryError
       else rbind (load_md (repo_path host base d dv arch)) (\<lambda>ps.
         case List.find (\<lambda>p. rp_name p = artifact \<and> rp_arch p = arch) ps of
           None \<Rightarrow> Inl FatbuildrRegistryError
         | Some p \<Rightarrow> rpm_changelog_entries (changelogs p)))"

definition rpm_member_line :: "string \<Rightarrow> artifact_member res" where
  "rpm_member_line line =
     (case split_on CHR '' '' line of
        [p, mode, sz] \<Rightarrow>
          rbind (if startswith mode ''-'' then Inr ''f'' else rmap (\<lambda>c. [c]) (list_item mode 0)) (\<lambda>k.
            rmap (\<lambda>n. \<lparr>am_path = p, am_type = k, am_size = n\<rparr>) (py_int sz))
      | _ \<Rightarrow> Inl ValueErr)"

definition rpm_query_cmd :: "path \<Rightarrow> string list" where
  "rpm_query_cmd package_path =
     [''rpm'', ''--query'', ''--queryformat'',
      ''[%{FILENAMES} %{FILEMODES:perms} %{FILESIZES}'' @ [CHR 0x0A] @ '']'', ''--package'', path_str package_path]"

definition artifact_content_from_rpm_query :: "(string list \<Rightarrow> string res) \<Rightarrow> path \<Rightarrow> artifact_member list res" where
  "artifact_content_from_rpm_query run package_path =
     rbind (run (rpm_query_cmd package_path)) (\<lambda>out. rmapM rpm_member_line (file_lines out))"

definition rpm_artifact_content ::
  "metadata \<Rightarrow> (string list \<Rightarrow> string res) \<Rightarrow> string \<Rightarrow> path \<Rightarrow> node \<Rightarrow>
   string \<Rightarrow> string \<Rightarrow> string \<Rightarrow> string \<Rightarrow> artifact_member list res" where
  "rpm_artifact_content load_md run host base fs d dv arch artifact =
     rbind (check_derivative (rpm_derivatives base fs) d dv) (\<lambda>_.
       if \<not> fs_exists fs (repo_path host base d dv arch) then Inl FatbuildrRegistryError
       else rbind (load_md (repo_path host base d dv arch)) (\<lambda>ps.
         case List.find (\<lambda>p. rp_name p = artifact \<and> rp_arch p \<noteq> ''src'') ps of
           None \<Rightarrow> Inl FatbuildrRegistryError
         | Some p \<Rightarrow> artifact_content_from_rpm_query run (joinpath (repo_path host base d dv arch) (rp_href p))))"

section \<open>Publishing and deleting\<close>

record rpm_build =
  rb_artifact :: string
  rb_distribution :: string
  rb_derivative :: string
  rb_place :: path

definition rpm_packages_paths ::
  "metadata \<Rightarrow> string \<Rightarrow> path \<Rightarrow> string \<Rightarrow> string \<Rightarrow> string \<Rightarrow> string \<Rightarrow> path list res" where
  "rpm_packages_paths load_md host base d dv arch artifact =
     (case load_md (repo_path host base d dv arch) of
        Inl e \<Rightarrow> if is_a e OSErr then Inr [] else Inl e
      | Inr ps \<Rightarrow> Inr (map (\<lambda>p. joinpath (repo_path host base d dv arch) (rp_href p))
          (filter (\<lambda>p. rp_arch p = ''src'' \<and> rp_name p = artifact \<or> rpm_is_bin_of artifact p) ps)))"

text \<open>The loops of \<^verbatim>\<open>_remove_deprecated_rpms\<close> and of \<^verbatim>\<open>delete_artifact\<close>; the metadata that they read is
  not changed by the removals.\<close>

definition remove_deprecated_rpms ::
  "metadata \<Rightarrow> string \<Rightarrow> path \<Rightarrow> string list \<Rightarrow> rpm_build \<Rightarrow> node \<Rightarrow> node res" where
  "remove_deprecated_rpms load_md host base pipeline_archs b fs =
     rfold (\<lambda>arch fs. rbind (rpm_packages_paths load_md host base (rb_distribution b) (rb_derivative b) arch (rb_artifact b))
         (\<lambda>ps. rfold unlink_existing ps fs)) (pipeline_archs @ [''src'']) fs"

text \<open>\<^verbatim>\<open>rpm.suffixes[-2].lstrip('.')\<close>\<close>

definition rpm_pkg_arch :: "string \<Rightarrow> string res" where
  "rpm_pkg_arch name =
     (let ps = tl (split_on CHR ''.'' (dropWhile (\<lambda>c. c = CHR ''.'') name)) in
      if endswith name ''.'' \<or> length ps < 2 then Inl IndexErr else Inr (ps ! (length ps - 2)))"

definition publish_rpm_arch :: "string \<Rightarrow> path \<Rightarrow> rpm_build \<Rightarrow> string \<Rightarrow> string \<Rightarrow> node \<Rightarrow> node res" where
  "publish_rpm_arch host base b name arch fs =
     (let dir = pkg_dir host base (rb_distribution b) (rb_derivative b) arch in
      rbind (make_conf_dir dir fs) (\<lambda>fs.
      rbind (fs_read fs (rb_place b @ [name])) (\<lambda>c. fs_write (dir @ [name]) c fs)))"

definition rpm_target_archs :: "string list \<Rightarrow> string \<Rightarrow> string list res" where
  "rpm_target_archs pipeline_archs name =
     rmap (\<lambda>a. if archmap_normalized ''rpm'' a = ''noarch'' then pipeline_archs else [archmap_normalized ''rpm'' a])
       (rpm_pkg_arch name)"

definition publish_rpm ::
  "string \<Rightarrow> path \<Rightarrow> string list \<Rightarrow> rpm_build \<Rightarrow> string \<Rightarrow> string list \<times> node \<Rightarrow> (string list \<times> node) res" where
  "publish_rpm host base pipeline_archs b name = (\<lambda>(archs, fs).
     rbind (rpm_target_archs pipeline_archs name) (\<lambda>targets.
       rmap (\<lambda>fs. (archs @ targets, fs)) (rfold (publish_rpm_arch host base b name) targets fs)))"

definition createrepo_cmd :: "path \<Rightarrow> string list" where
  "createrepo_cmd p = [''createrepo_c'', ''--update'', path_str p]"

definition rpm_publish ::
  "metadata \<Rightarrow> (string list \<Rightarrow> node \<Rightarrow> node res) \<Rightarrow> (string list \<Rightarrow> string list) \<Rightarrow> string \<Rightarrow> path \<Rightarrow>
   string list \<Rightarrow> rpm_build \<Rightarrow> repo_state \<Rightarrow> repo_state res" where
  "rpm_publish load_md eff set_order host base pipeline_archs b s =
     rbind (repo_on_fs (remove_deprecated_rpms load_md host base pipeline_archs b) s) (\<lambda>s.
     rbind (fs_iterdir (rs_fs s) (rb_place b)) (\<lambda>names.
     rbind (rfold (publish_rpm host base pipeline_archs b) (filter (\<lambda>n. endswith n ''.rpm'') names) ([], rs_fs s))
       (\<lambda>(archs, fs).
       rfold (\<lambda>arch. runcmd eff (createrepo_cmd (repo_path host base (rb_distribution b) (rb_derivative b) arch)))
         (set_order archs) (s\<lparr>rs_fs := fs\<rparr>))))"

definition rpm_delete_arch ::
  "metadata \<Rightarrow> (string list \<Rightarrow> node \<Rightarrow> node res) \<Rightarrow> string \<Rightarrow> path \<Rightarrow> string \<Rightarrow> string \<Rightarrow> registry_artifact \<Rightarrow>
   string \<Rightarrow> repo_state \<Rightarrow> repo_state res" where
  "rpm_delete_arch load_md eff host base d dv a arch s =
     (let repo = repo_path host base d dv arch in
      rbind (load_md repo) (\<lambda>ps.
      rbind (repo_on_fs (rfold unlink_existing (map (\<lambda>p. joinpath repo (rp_href p))
          (filter (\<lambda>p. rp_name p = ra_name a \<and> rp_arch p = ra_architecture a) ps))) s)
        (runcmd eff (createrepo_cmd repo))))"

definition rpm_delete_artifact ::
  "metadata \<Rightarrow> (string list \<Rightarrow> node \<Rightarrow> node res) \<Rightarrow> string \<Rightarrow> path \<Rightarrow> string list \<Rightarrow> string \<Rightarrow> string \<Rightarrow>
   registry_artifact \<Rightarrow> repo_state \<Rightarrow> repo_state res" where
  "rpm_delete_artifact load_md eff host base pipeline_archs d dv a s =
     rfold (rpm_delete_arch load_md eff host base d dv a)
       (if ra_architecture a = ''noarch'' then map (archmap_native ''rpm'') pipeline_archs
        else [archmap_native ''rpm'' (ra_architecture a)]) s"

section \<open>Lemmas\<close>

lemma add_artifacts_set: "set (add_artifacts ps xs) = set xs \<union> rpm_artifact ` set ps"
  by (induction ps arbitrary: xs) (auto simp: append_artifact_add_new)

lemma add_artifacts_distinct: "distinct xs \<Longrightarrow> distinct (add_artifacts ps xs)"
  by (induction ps arbitrary: xs) (auto simp: append_artifact_add_new)

lemma rpm_artifacts_loop_all:
  "\<forall>dir \<in> set dirs. load_md dir = Inr (md dir) \<Longrightarrow> distinct xs \<Longrightarrow>
     \<exists>ys. rpm_artifacts_loop load_md dirs xs = Inr ys \<and> distinct ys
       \<and> set ys = set xs \<union> (\<Union>dir \<in> set dirs. rpm_artifact ` set (md dir))"
proof (induction dirs arbitrary: xs)
  case (Cons d ds)
  from Cons.IH [of "add_artifacts (md d) xs"] Cons.prems obtain ys where
    "rpm_artifacts_loop load_md ds (add_artifacts (md d) xs) = Inr ys" "distinct ys"
    "set ys = set (add_artifacts (md d) xs) \<union> (\<Union>dir \<in> set ds. rpm_artifact ` set (md dir))"
    using add_artifacts_distinct by auto
  with Cons.prems show ?case by (auto simp: add_artifacts_set)
qed simp

lemma rpm_artifacts_loop_missing:
  "d \<in> set dirs \<Longrightarrow> load_md d = Inl OSErr \<Longrightarrow>
     \<forall>dir \<in> set dirs. load_md dir = Inl OSErr \<or> (\<exists>ps. load_md dir = Inr ps) \<Longrightarrow>
     rpm_artifacts_loop load_md dirs xs = Inr []"
  by (induction dirs arbitrary: xs) (auto simp: is_a_def)

lemma source_name_of:
  "CHR ''-'' \<notin> set v \<Longrightarrow> CHR ''-'' \<notin> set r \<Longrightarrow> rsplit_max CHR ''-'' 2 (n @ ''-'' @ v @ ''-'' @ r) = [n, v, r]"
  using rsplit_max_append [of "CHR ''-''" r 1 "n @ ''-'' @ v"] rsplit_max_append [of "CHR ''-''" v 0 n]
  by (simp add: numeral_2_eq_2)

text \<open>A file survives every step that does not name it.\<close>

lemma del_keeps_missing: "del q n = Inr n' \<Longrightarrow> lookup p n = None \<Longrightarrow> lookup p n' = None"
proof (induction q n arbitrary: p n' rule: del.induct)
  case (3 x es)
  then show ?case by (cases p) (auto simp: map_of_filter_ne split: if_splits option.splits)
next
  case (4 x y ys es)
  then show ?case
    by (cases p) (auto simp: map_of_dict_set rmap_Inr_conv split: option.splits if_splits)
qed auto

lemma del_keeps_file:
  assumes "lookup p fs = Some (File c)" and "fs_unlink q fs = Inr fs'" and "p \<noteq> q"
  shows "lookup p fs' = Some (File c)"
proof -
  have d: "del q fs = Inr fs'" and nd: "\<not> fs_is_dir fs q"
    using assms(2) by (auto simp: fs_unlink_def split: if_splits)
  have "\<not> prefix p q"
  proof
    assume "prefix p q"
    then obtain r where "q = p @ r" by (auto simp: prefix_def)
    with assms(1,3) have "lookup q fs = None" by (cases r) (auto simp: lookup_append)
    with del_missing [OF d] show False by simp
  qed
  moreover have "\<not> prefix q p"
  proof
    assume "prefix q p"
    then obtain r where "p = q @ r" by (auto simp: prefix_def)
    with assms(1,3) obtain k x xs where "lookup q fs = Some k" "lookup (x # xs) k = Some (File c)"
      by (cases r) (auto simp: lookup_append split: option.splits)
    with nd show False by (cases k) (auto simp: fs_is_dir_def)
  qed
  ultimately show ?thesis using tree.drop_apart [OF d] assms(1) by (simp add: apart_def)
qed

lemma write_keeps_file:
  "lookup p fs = Some (File c) \<Longrightarrow> fs_write q d fs = Inr fs' \<Longrightarrow> p \<noteq> q \<Longrightarrow> lookup p fs' = Some (File c)"
  by (auto simp: fs_write_def intro: put_keeps_file split: if_splits)

lemma mkdir_missing_keeps_file:
  "lookup p fs = Some (File c) \<Longrightarrow> mkdir_missing q fs = Inr fs' \<Longrightarrow> lookup p fs' = Some (File c)"
proof (cases "fs_exists fs q")
  case False
  assume *: "lookup p fs = Some (File c)" "mkdir_missing q fs = Inr fs'"
  with False have "p \<noteq> q" "put q (Dir []) fs = Inr fs'" "\<not> fs_is_dir fs q"
    by (auto simp: fs_exists_def mkdir_missing_def fs_is_dir_lookup mkdir_Inr_put)
  with put_keeps_file [OF *(1)] show ?thesis by blast
qed (simp add: mkdir_missing_def)

lemma make_dir_keeps_file:
  assumes "lookup p fs = Some (File c)" and "make_conf_dir q fs = Inr fs'"
  shows "lookup p fs' = Some (File c)"
proof -
  have "lookup p s = Some (File c)" if "make_parents q fs = Inr s" for s
    using that [unfolded make_parents_def] assms(1)
    by (rule rfold_invariant [where I = "\<lambda>t. lookup p t = Some (File c)"]) (rule mkdir_missing_keeps_file)
  with assms show ?thesis
    by (auto simp: make_conf_dir_def rbind_Inr_conv intro: mkdir_missing_keeps_file split: if_splits)
qed

lemma unlink_existing_all:
  assumes "rfold unlink_existing ps fs = Inr fs'"
  shows "\<forall>p \<in> set ps. lookup p fs' = None"
    and "lookup q fs = None \<Longrightarrow> lookup q fs' = None"
proof -
  have keep: "lookup q fs' = None" if "rfold unlink_existing ps fs = Inr fs'" "lookup q fs = None" for q ps fs
    using that by (rule rfold_invariant [where I = "\<lambda>t. lookup q t = None"])
      (auto simp: unlink_existing_def split: if_splits dest: unlink_Inr_del del_keeps_missing)
  from assms show "\<forall>p \<in> set ps. lookup p fs' = None"
  proof (induction ps arbitrary: fs)
    case (Cons p ps)
    then obtain s where s: "unlink_existing p fs = Inr s" "rfold unlink_existing ps s = Inr fs'"
      by (auto simp: rbind_Inr_conv)
    have "lookup p s = None"
      using s(1) by (auto simp: unlink_existing_def fs_exists_def split: if_splits intro: tree.drop_same dest: unlink_Inr_del)
    with keep [OF s(2)] Cons.IH [OF s(2)] show ?case by simp
  qed simp
  show "lookup q fs = None \<Longrightarrow> lookup q fs' = None" using keep [OF assms] .
qed

lemma unlink_existing_keeps:
  "rfold unlink_existing ps fs = Inr fs' \<Longrightarrow> lookup q fs = Some (File c) \<Longrightarrow> q \<notin> set ps \<Longrightarrow>
     lookup q fs' = Some (File c)"
  by (rule rfold_invariant [where I = "\<lambda>t. lookup q t = Some (File c)"])
    (auto simp: unlink_existing_def split: if_splits intro: del_keeps_file)

section \<open>Properties\<close>

text \<open>When the metadata of every architecture of an RPM repository loads, the listing holds each
  package of each architecture once.\<close>

theorem rpm_artifacts_listed:
  assumes "check_derivative (rpm_derivatives base fs) d dv = Inr ()"
    and "available_arch_dirs base fs d dv = Inr dirs" and "\<forall>dir \<in> set dirs. load_md dir = Inr (md dir)"
  shows "\<exists>xs. rpm_artifacts load_md base fs d dv = Inr xs \<and> distinct xs \<and>
     set xs = (\<Union>dir \<in> set dirs. rpm_artifact ` set (md dir))"
  using rpm_artifacts_loop_all [OF assms(3), of "[]"] assms(1,2) by (simp add: rpm_artifacts_def)

definition rpm_fs :: node where
  "rpm_fs = Dir [(''el9'', Dir [(''main'', Dir [(''x86_64'', Dir []), (''aarch64'', Dir []), (''source'', Dir [])])])]"

definition noarch_pkg :: rpm_package where
  "noarch_pkg = \<lparr>rp_name = ''foo'', rp_arch = ''noarch'', rp_version = ''1.0'', rp_release = ''1.el9'', rp_size = 10,
     rp_sourcerpm = ''foo-src-1.0-1.el9.src.rpm'', rp_href = ''Packages/foo-1.0-1.el9.noarch.rpm''\<rparr>"

definition source_pkg :: rpm_package where
  "source_pkg = \<lparr>rp_name = ''foo-src'', rp_arch = ''src'', rp_version = ''1.0'', rp_release = ''1.el9'', rp_size = 20,
     rp_sourcerpm = [], rp_href = ''Packages/foo-src-1.0-1.el9.src.rpm''\<rparr>"

definition rpm_md :: "path \<Rightarrow> rpm_package list" where
  "rpm_md dir = (if dir ! 2 = ''source'' then [source_pkg] else [noarch_pkg])"

lemma rpm_artifacts_listed_witness:
  "\<exists>xs. rpm_artifacts (\<lambda>dir. Inr (rpm_md dir)) [] rpm_fs ''el9'' ''main'' = Inr xs \<and> distinct xs \<and>
     set xs = (\<Union>dir \<in> set [[''el9'', ''main'', ''x86_64''], [''el9'', ''main'', ''aarch64''],
       [''el9'', ''main'', ''source'']]. rpm_artifact ` set (rpm_md dir))"
proof (rule rpm_artifacts_listed)
  show "check_derivative (rpm_derivatives [] rpm_fs) ''el9'' ''main'' = Inr ()" by code_simp
  show "available_arch_dirs [] rpm_fs ''el9'' ''main'' = Inr [[''el9'', ''main'', ''x86_64''],
      [''el9'', ''main'', ''aarch64''], [''el9'', ''main'', ''source'']]" by code_simp
qed simp

text \<open>One architecture directory without metadata hides the packages of all the others: the
  listing of the whole derivative is then empty.\<close>

theorem rpm_artifacts_hidden:
  assumes "check_derivative (rpm_derivatives base fs) d dv = Inr ()"
    and "available_arch_dirs base fs d dv = Inr dirs" and "dir \<in> set dirs" and "load_md dir = Inl OSErr"
    and "\<forall>dir \<in> set dirs. load_md dir = Inl OSErr \<or> (\<exists>ps. load_md dir = Inr ps)"
  shows "rpm_artifacts load_md base fs d dv = Inr []"
  using rpm_artifacts_loop_missing [OF assms(3-5)] assms(1,2) by (simp add: rpm_artifacts_def)

lemma rpm_artifacts_hidden_witness:
  "rpm_artifacts (\<lambda>dir. if dir = [''el9'', ''main'', ''aarch64''] then Inl OSErr else Inr (rpm_md dir))
     [] rpm_fs ''el9'' ''main'' = Inr []"
proof (rule rpm_artifacts_hidden)
  show "check_derivative (rpm_derivatives [] rpm_fs) ''el9'' ''main'' = Inr ()" by code_simp
  show "available_arch_dirs [] rpm_fs ''el9'' ''main'' = Inr [[''el9'', ''main'', ''x86_64''],
      [''el9'', ''main'', ''aarch64''], [''el9'', ''main'', ''source'']]" by code_simp
  show "[''el9'', ''main'', ''aarch64''] \<in> set [[''el9'', ''main'', ''x86_64''], [''el9'', ''main'', ''aarch64''],
      [''el9'', ''main'', ''source'']]" by simp
qed simp_all

text \<open>The source of a binary RPM is found from the name of its source file: when the first binary
  package of the name was built from the source package \<open>s\<close>, and \<open>s\<close> is in the source repository and
  alone there with its name and version, \<^verbatim>\<open>artifact_src\<close> returns \<open>s\<close>.\<close>

theorem rpm_src_found:
  assumes "available_arch_dirs base fs d dv = Inr (before @ dir # after)"
    and "\<forall>x \<in> set before. \<exists>ps. load_md x = Inr ps \<and> (\<forall>p \<in> set ps. rp_name p = bin \<longrightarrow> rp_arch p = ''src'')"
    and "load_md dir = Inr ps" and "List.find (\<lambda>p. rp_name p = bin \<and> rp_arch p \<noteq> ''src'') ps = Some p"
    and "rp_sourcerpm p = rp_name s @ ''-'' @ rp_version s @ ''-'' @ rp_release s @ ''.src.rpm''"
    and "CHR ''-'' \<notin> set (rp_version s)" and "CHR ''-'' \<notin> set (rp_release s)"
    and "load_md (rpm_dist_path base d @ [dv, ''source'']) = Inr srcs" and "s \<in> set srcs" and "rp_arch s = ''src''"
    and "\<forall>q \<in> set srcs. rp_name q = rp_name s \<and> rpm_fullversion q = rpm_fullversion s \<longrightarrow> q = s"
  shows "rpm_artifact_src load_md base fs d dv bin = Inr (Some (rpm_artifact s))"
proof -
  have cs: "rsplit_max CHR ''-'' 2 (rp_sourcerpm p) = [rp_name s, rp_version s, rp_release s @ ''.src.rpm'']"
    unfolding assms(5) using assms(6,7) by (intro source_name_of) auto
  then have n: "source_name (rp_sourcerpm p) = rp_name s"
    and v: "src_rpm_version (rp_sourcerpm p) = Inr (rpm_fullversion s)"
    by (simp_all add: source_name_def src_rpm_version_def list_item_def rpm_fullversion_def)
  let ?Q = "\<lambda>q. rp_name q = rp_name s \<and> rp_arch q = ''src'' \<and> rpm_fullversion q = rpm_fullversion s"
  have "List.find ?Q srcs = Some s"
  proof (cases "List.find ?Q srcs")
    case None
    with assms(9,10) show ?thesis by (auto simp: find_None_iff)
  next
    case (Some q)
    then have "q \<in> set srcs" "?Q q" by (auto simp: find_Some_iff)
    with assms(11) Some show ?thesis by metis
  qed
  with assms(8) have src: "rpm_src_artifact load_md base d dv (rp_name s) (rpm_fullversion s) = Inr (Some (rpm_artifact s))"
    by (simp add: rpm_src_artifact_def)
  have "rpm_src_loop load_md base d dv bin (before @ dir # after) = Inr (Some (rpm_artifact s))"
    using assms(2)
  proof (induction before)
    case Nil
    with assms(3,4) n v src show ?case by simp
  next
    case (Cons x xs)
    then obtain qs where qs: "load_md x = Inr qs" "\<forall>p \<in> set qs. rp_name p = bin \<longrightarrow> rp_arch p = ''src''" by auto
    then have "List.find (\<lambda>p. rp_name p = bin \<and> rp_arch p \<noteq> ''src'') qs = None" by (auto simp: find_None_iff)
    with qs Cons show ?case by simp
  qed
  with assms(1) show ?thesis by (simp add: rpm_artifact_src_def)
qed

lemma rpm_src_found_witness:
  "rpm_artifact_src (\<lambda>dir. Inr (rpm_md dir)) [] rpm_fs ''el9'' ''main'' ''foo'' = Inr (Some (rpm_artifact source_pkg))"
proof (rule rpm_src_found [where srcs = "[source_pkg]"])
  show "available_arch_dirs [] rpm_fs ''el9'' ''main'' = Inr ([] @ [''el9'', ''main'', ''x86_64''] #
      [[''el9'', ''main'', ''aarch64''], [''el9'', ''main'', ''source'']])" by code_simp
  show "List.find (\<lambda>p. rp_name p = ''foo'' \<and> rp_arch p \<noteq> ''src'') [noarch_pkg] = Some noarch_pkg" by code_simp
qed (simp_all add: noarch_pkg_def source_pkg_def rpm_md_def rpm_dist_path_def)

text \<open>Publishing a new version removes the files of every package that the metadata of any
  architecture, or of the sources, attributes to the same source, and no other file.\<close>

theorem deprecated_rpms_removed:
  assumes "remove_deprecated_rpms load_md host base archs b fs = Inr fs'"
    and "\<forall>arch \<in> set (archs @ [''src'']).
       rpm_packages_paths load_md host base (rb_distribution b) (rb_derivative b) arch (rb_artifact b) = Inr (paths arch)"
  shows "(\<forall>arch \<in> set (archs @ [''src'']). \<forall>p \<in> set (paths arch). \<not> fs_exists fs' p) \<and>
     (\<forall>q c. lookup q fs = Some (File c) \<and> q \<notin> (\<Union>arch \<in> set (archs @ [''src'']). set (paths arch)) \<longrightarrow>
        lookup q fs' = Some (File c))"
proof -
  let ?as = "archs @ [''src'']"
  let ?f = "\<lambda>arch fs. rbind (rpm_packages_paths load_md host base (rb_distribution b) (rb_derivative b) arch (rb_artifact b))
         (\<lambda>ps. rfold unlink_existing ps fs)"
  have "rfold ?f xs s = Inr t \<Longrightarrow> set xs \<subseteq> set ?as \<Longrightarrow> rfold unlink_existing (concat (map paths xs)) s = Inr t" for xs s t
  proof (induction xs arbitrary: s)
    case (Cons x xs)
    then obtain u where "rfold unlink_existing (paths x) s = Inr u" "rfold ?f xs u = Inr t"
      using assms(2) by (auto simp: rbind_Inr_conv)
    with Cons show ?case by (simp add: rfold_append)
  qed simp
  from this [of ?as fs fs'] assms(1) have all: "rfold unlink_existing (concat (map paths ?as)) fs = Inr fs'"
    by (simp only: remove_deprecated_rpms_def)
  from unlink_existing_all(1) [OF all] unlink_existing_keeps [OF all] show ?thesis
    by (auto simp: fs_exists_def)
qed

lemma deprecated_rpms_removed_witness:
  "let b = \<lparr>rb_artifact = ''foo-src'', rb_distribution = ''el9'', rb_derivative = ''main'', rb_place = [''place'']\<rparr>;
       paths = (\<lambda>arch. [[''el9'', ''main'', if arch = ''src'' then ''source'' else arch, ''Packages'',
         if arch = ''src'' then ''foo-src-1.0-1.el9.src.rpm'' else ''foo-1.0-1.el9.noarch.rpm'']]);
       fs = Dir [(''el9'', Dir [(''main'', Dir [(''x86_64'', Dir [(''Packages'',
         Dir [(''foo-1.0-1.el9.noarch.rpm'', File ''x''), (''bar.rpm'', File ''y'')])])])])];
       fs' = Dir [(''el9'', Dir [(''main'', Dir [(''x86_64'', Dir [(''Packages'', Dir [(''bar.rpm'', File ''y'')])])])])]
   in (\<forall>arch \<in> set ([''x86_64''] @ [''src'']). \<forall>p \<in> set (paths arch). \<not> fs_exists fs' p) \<and>
     (\<forall>q c. lookup q fs = Some (File c) \<and> q \<notin> (\<Union>arch \<in> set ([''x86_64''] @ [''src'']). set (paths arch)) \<longrightarrow>
        lookup q fs' = Some (File c))"
  unfolding Let_def
proof (rule deprecated_rpms_removed [where load_md = "\<lambda>dir. Inr (rpm_md dir)" and host = "''x86_64''" and base = "[]"])
  let ?b = "\<lparr>rb_artifact = ''foo-src'', rb_distribution = ''el9'', rb_derivative = ''main'', rb_place = [''place'']\<rparr>"
  show "remove_deprecated_rpms (\<lambda>dir. Inr (rpm_md dir)) ''x86_64'' [] [''x86_64''] ?b
     (Dir [(''el9'', Dir [(''main'', Dir [(''x86_64'', Dir [(''Packages'',
         Dir [(''foo-1.0-1.el9.noarch.rpm'', File ''x''), (''bar.rpm'', File ''y'')])])])])]) =
     Inr (Dir [(''el9'', Dir [(''main'', Dir [(''x86_64'', Dir [(''Packages'', Dir [(''bar.rpm'', File ''y'')])])])])])"
    by code_simp
  have "rpm_packages_paths (\<lambda>dir. Inr (rpm_md dir)) ''x86_64'' [] ''el9'' ''main'' ''x86_64'' ''foo-src'' =
      Inr [[''el9'', ''main'', ''x86_64'', ''Packages'', ''foo-1.0-1.el9.noarch.rpm'']]" by code_simp
  moreover have "rpm_packages_paths (\<lambda>dir. Inr (rpm_md dir)) ''x86_64'' [] ''el9'' ''main'' ''src'' ''foo-src'' =
      Inr [[''el9'', ''main'', ''source'', ''Packages'', ''foo-src-1.0-1.el9.src.rpm'']]" by code_simp
  ultimately show "\<forall>arch \<in> set ([''x86_64''] @ [''src'']).
      rpm_packages_paths (\<lambda>dir. Inr (rpm_md dir)) ''x86_64'' [] (rb_distribution ?b) (rb_derivative ?b) arch (rb_artifact ?b) =
      Inr [[''el9'', ''main'', if arch = ''src'' then ''source'' else arch, ''Packages'',
         if arch = ''src'' then ''foo-src-1.0-1.el9.src.rpm'' else ''foo-1.0-1.el9.noarch.rpm'']]"
    by simp
qed

lemma publish_rpm_arch_places:
  assumes "publish_rpm_arch host base b name x s = Inr t" and "lookup (rb_place b @ [name]) s = Some (File c)"
  shows "lookup (pkg_dir host base (rb_distribution b) (rb_derivative b) x @ [name]) t = Some (File c)"
    and "lookup q s = Some (File c) \<Longrightarrow> lookup q t = Some (File c)"
proof -
  let ?dir = "pkg_dir host base (rb_distribution b) (rb_derivative b)"
  from assms(1) obtain u d where u: "make_conf_dir (?dir x) s = Inr u" "fs_read u (rb_place b @ [name]) = Inr d"
      "fs_write (?dir x @ [name]) d u = Inr t"
    by (auto simp: publish_rpm_arch_def Let_def rbind_Inr_conv)
  with make_dir_keeps_file [OF assms(2) u(1)] have "d = c" by (simp add: fs_read_def)
  with tree.store_same [OF write_Inr_put [OF u(3)]] show here: "lookup (?dir x @ [name]) t = Some (File c)" by simp
  show "lookup q t = Some (File c)" if "lookup q s = Some (File c)"
    using write_keeps_file [OF make_dir_keeps_file [OF that u(1)] u(3)] here by (cases "q = ?dir x @ [name]") simp_all
qed



end
