(* ===== verification/Registries.thy ===== *)
theory Registries imports RegistryRpm begin

text \<open>
  \<^verbatim>\<open>fatbuildr/registry/manager.py\<close>: the registries of an instance, one per format, behind the
  operations of \<^verbatim>\<open>RegistryManager\<close>. What the formats take from outside of the program (the outputs
  of commands, the metadata, the parsed packages) is gathered in the record \<open>registry_env\<close>.
\<close>

datatype registry_class = RegistryDeb | RegistryRpm | RegistryOsi

record registry_env =
  en_registry :: path
  en_instance :: string
  en_host :: string
  en_archs :: "string list"
  en_dir_size :: int
  en_run :: "string list \<Rightarrow> string res"
  en_eff :: "string list \<Rightarrow> node \<Rightarrow> node res"
  en_load_agent :: "node \<Rightarrow> node res"
  en_load_md :: metadata
  en_rpm_changelogs :: "rpm_package \<Rightarrow> rpm_entry list"
  en_parse_dsc :: "string \<Rightarrow> string list"
  en_open_tar :: "path \<Rightarrow> (string, string) dict option"
  en_parse_changelog :: "string \<Rightarrow> deb_block list"
  en_deb_changelog :: "path \<Rightarrow> deb_block list res"
  en_deb_members :: "path \<Rightarrow> (string \<times> tar_kind \<times> int) list res"
  en_parse_date :: "string \<Rightarrow> int res"

definition registry_formats :: "(string, registry_class) dict" where
  "registry_formats = [(''deb'', RegistryDeb), (''rpm'', RegistryRpm), (''osi'', RegistryOsi)]"

definition registry_factory :: "string \<Rightarrow> registry_class res" where
  "registry_factory fmt =
     (case dict_get registry_formats fmt of None \<Rightarrow> Inl FatbuildrRegistryError | Some c \<Rightarrow> Inr c)"

definition format_name :: "registry_class \<Rightarrow> string" where
  "format_name c = (case c of RegistryDeb \<Rightarrow> ''deb'' | RegistryRpm \<Rightarrow> ''rpm'' | RegistryOsi \<Rightarrow> ''osi'')"

definition base_of :: "registry_env \<Rightarrow> registry_class \<Rightarrow> path" where
  "base_of E c = registry_path (en_registry E) (en_instance E) (format_name c)"

definition mgr_formats :: "registry_env \<Rightarrow> node \<Rightarrow> string list res" where
  "mgr_formats E fs =
     (let p = en_registry E @ [en_instance E] in if \<not> fs_exists fs p then Inr [] else fs_iterdir fs p)"

definition mgr_distributions :: "registry_env \<Rightarrow> string \<Rightarrow> node \<Rightarrow> string list res" where
  "mgr_distributions E fmt fs = rbind (registry_factory fmt) (\<lambda>c.
     case c of
       RegistryDeb \<Rightarrow> deb_distributions (base_of E c) fs
     | RegistryRpm \<Rightarrow> rpm_distributions (base_of E c) fs
     | RegistryOsi \<Rightarrow> osi_distributions (base_of E c) fs)"

definition mgr_derivatives :: "registry_env \<Rightarrow> string \<Rightarrow> node \<Rightarrow> string \<Rightarrow> string list res" where
  "mgr_derivatives E fmt fs d = rbind (registry_factory fmt) (\<lambda>c.
     case c of
       RegistryDeb \<Rightarrow> deb_derivatives (base_of E c) fs d
     | RegistryRpm \<Rightarrow> rpm_derivatives (base_of E c) fs d
     | RegistryOsi \<Rightarrow> osi_derivatives (base_of E c) fs d)"

definition mgr_artifacts :: "registry_env \<Rightarrow> string \<Rightarrow> node \<Rightarrow> string \<Rightarrow> string \<Rightarrow> registry_artifact list res" where
  "mgr_artifacts E fmt fs d dv = rbind (registry_factory fmt) (\<lambda>c.
     case c of
       RegistryDeb \<Rightarrow> deb_artifacts (en_run E) (base_of E c) fs d dv
     | RegistryRpm \<Rightarrow> rpm_artifacts (en_load_md E) (base_of E c) fs d dv
     | RegistryOsi \<Rightarrow> osi_artifacts (en_dir_size E) (base_of E c) fs d dv)"

definition mgr_artifact_bins ::
  "registry_env \<Rightarrow> string \<Rightarrow> node \<Rightarrow> string \<Rightarrow> string \<Rightarrow> string \<Rightarrow> registry_artifact list res" where
  "mgr_artifact_bins E fmt fs d dv src = rbind (registry_factory fmt) (\<lambda>c.
     case c of
       RegistryDeb \<Rightarrow> deb_artifact_bins (en_run E) (base_of E c) d dv src
     | RegistryRpm \<Rightarrow> rpm_artifact_bins (en_load_md E) (base_of E c) fs d dv src
     | RegistryOsi \<Rightarrow> osi_artifact_bins (en_dir_size E) (base_of E c) fs d dv src)"

definition mgr_artifact_src ::
  "registry_env \<Rightarrow> string \<Rightarrow> node \<Rightarrow> string \<Rightarrow> string \<Rightarrow> string \<Rightarrow> registry_artifact option res" where
  "mgr_artifact_src E fmt fs d dv bin = rbind (registry_factory fmt) (\<lambda>c.
     case c of
       RegistryDeb \<Rightarrow> rmap Some (deb_artifact_src (en_run E) (base_of E c) d dv bin)
     | RegistryRpm \<Rightarrow> rpm_artifact_src (en_load_md E) (base_of E c) fs d dv bin
     | RegistryOsi \<Rightarrow> rmap Some (osi_artifact_src (en_dir_size E) (base_of E c) fs d dv bin))"

definition mgr_changelog ::
  "registry_env \<Rightarrow> string \<Rightarrow> node \<Rightarrow> string \<Rightarrow> string \<Rightarrow> string \<Rightarrow> string \<Rightarrow> changelog_entry list res" where
  "mgr_changelog E fmt fs d dv arch artifact = rbind (registry_factory fmt) (\<lambda>c.
     case c of
       RegistryDeb \<Rightarrow> deb_changelog (en_run E) (en_parse_dsc E) (en_open_tar E) (en_parse_changelog E)
           (en_deb_changelog E) (en_parse_date E) (base_of E c) fs d dv arch artifact
     | RegistryRpm \<Rightarrow> rpm_changelog (en_load_md E) (en_rpm_changelogs E) (en_host E) (base_of E c) fs d dv arch artifact
     | RegistryOsi \<Rightarrow> Inr [])"

definition mgr_artifact_content ::
  "registry_env \<Rightarrow> string \<Rightarrow> node \<Rightarrow> string \<Rightarrow> string \<Rightarrow> string \<Rightarrow> string \<Rightarrow> artifact_member list res" where
  "mgr_artifact_content E fmt fs d dv arch artifact = rbind (registry_factory fmt) (\<lambda>c.
     case c of
       RegistryDeb \<Rightarrow> deb_artifact_content (en_run E) (en_deb_members E) (base_of E c) fs d dv arch artifact
     | RegistryRpm \<Rightarrow> rpm_artifact_content (en_load_md E) (en_run E) (en_host E) (base_of E c) fs d dv arch artifact
     | RegistryOsi \<Rightarrow> Inr [])"

definition mgr_delete_artifact ::
  "registry_env \<Rightarrow> string \<Rightarrow> string \<Rightarrow> string \<Rightarrow> registry_artifact \<Rightarrow> repo_state \<Rightarrow> repo_state res" where
  "mgr_delete_artifact E fmt d dv a s = rbind (registry_factory fmt) (\<lambda>c.
     case c of
       RegistryDeb \<Rightarrow> deb_delete_artifact (en_load_agent E) (en_eff E) (base_of E c) (en_archs E) d dv a s
     | RegistryRpm \<Rightarrow> rpm_delete_artifact (en_load_md E) (en_eff E) (en_host E) (base_of E c) (en_archs E) d dv a s
     | RegistryOsi \<Rightarrow> repo_on_fs (osi_delete_artifact (base_of E c) d dv a) s)"

lemma registry_factory_cases:
  "registry_factory fmt = Inr c \<Longrightarrow> fmt = format_name c"
  "registry_factory fmt = Inl e \<Longrightarrow> e = FatbuildrRegistryError"
  by (auto simp: registry_factory_def registry_formats_def dict_get_def format_name_def split: if_splits option.splits)

text \<open>In the registries of packages, asking for the artifacts, the change log or the content of a
  distribution that does not exist, or of a derivative that it does not have, is always the registry
  error that the servers report to their clients.\<close>

theorem unknown_derivative_rejected:
  assumes "fmt \<noteq> ''osi''" and "mgr_distributions E fmt fs = Inr ds"
    and "d \<notin> set ds \<or> (\<exists>dvs. mgr_derivatives E fmt fs d = Inr dvs \<and> dv \<notin> set dvs)"
  shows "mgr_artifacts E fmt fs d dv = Inl FatbuildrRegistryError \<and>
     mgr_changelog E fmt fs d dv arch a = Inl FatbuildrRegistryError \<and>
     mgr_artifact_content E fmt fs d dv arch a = Inl FatbuildrRegistryError"
proof -
  from assms(2) obtain c where c: "registry_factory fmt = Inr c"
    by (auto simp: mgr_distributions_def rbind_Inr_conv)
  note fmt = registry_factory_cases(1) [OF c]
  show ?thesis
  proof (cases c)
    case RegistryDeb
    with assms c have "check_derivative (deb_derivatives (base_of E c) fs) d dv = Inl FatbuildrRegistryError"
      using deb.unknown_distribution deb.unknown_derivative
      by (auto simp: mgr_distributions_def mgr_derivatives_def)
    with RegistryDeb c show ?thesis
      by (simp add: mgr_artifacts_def mgr_changelog_def mgr_artifact_content_def deb_artifacts_def deb_changelog_def
          deb_artifact_content_def)
  next
    case RegistryRpm
    with assms c have "check_derivative (rpm_derivatives (base_of E c) fs) d dv = Inl FatbuildrRegistryError"
      using rpm.unknown_distribution rpm.unknown_derivative
      by (auto simp: mgr_distributions_def mgr_derivatives_def)
    with RegistryRpm c show ?thesis
      by (simp add: mgr_artifacts_def mgr_changelog_def mgr_artifact_content_def rpm_artifacts_def rpm_changelog_def
          rpm_artifact_content_def)
  next
    case RegistryOsi
    with fmt assms(1) show ?thesis by (simp add: format_name_def)
  qed
qed

definition example_env :: registry_env where
  "example_env = \<lparr>en_registry = [''registry''], en_instance = ''default'', en_host = ''x86_64'', en_archs = [''x86_64''],
     en_dir_size = 0, en_run = (\<lambda>_. Inr []), en_eff = (\<lambda>_. Inr), en_load_agent = Inr, en_load_md = (\<lambda>_. Inr []),
     en_rpm_changelogs = (\<lambda>_. []), en_parse_dsc = (\<lambda>_. []), en_open_tar = (\<lambda>_. None), en_parse_changelog = (\<lambda>_. []),
     en_deb_changelog = (\<lambda>_. Inr []), en_deb_members = (\<lambda>_. Inr []), en_parse_date = (\<lambda>_. Inl ValueErr)\<rparr>"

definition example_registry :: node where
  "example_registry = Dir [(''registry'', Dir [(''default'', Dir [(''rpm'',
     Dir [(''el9'', Dir [(''main'', Dir [])])])])])]"

lemma unknown_derivative_rejected_witness:
  "mgr_artifacts example_env ''rpm'' example_registry ''el9'' ''dev'' = Inl FatbuildrRegistryError \<and>
   mgr_changelog example_env ''rpm'' example_registry ''el9'' ''dev'' ''src'' ''foo'' = Inl FatbuildrRegistryError \<and>
   mgr_artifact_content example_env ''rpm'' example_registry ''el9'' ''dev'' ''src'' ''foo'' = Inl FatbuildrRegistryError"
proof (rule unknown_derivative_rejected [where ds = "[''el9'']"])
  show "mgr_distributions example_env ''rpm'' example_registry = Inr [''el9'']" by code_simp
  have "mgr_derivatives example_env ''rpm'' example_registry ''el9'' = Inr [''main'']" by code_simp
  then show "''el9'' \<notin> set [''el9''] \<or> (\<exists>dvs. mgr_derivatives example_env ''rpm'' example_registry ''el9'' = Inr dvs
      \<and> ''dev'' \<notin> set dvs)" by simp
qed simp

end
