(* ===== verification/Timer.thy ===== *)
theory Timer imports Prelude begin

text \<open>
  \<^verbatim>\<open>fatbuildr/timer.py\<close>: the timer that stops the daemon when no call has come for a while and no
  worker holds it. Times are numbers of the monotonic clock, the current one is an argument. A
  waiting thread is what the condition variable is told: an operation says whether it notifies.
\<close>

record server_timer =
  st_start :: int
  st_timeout :: int
  st_workers :: "string set"

definition timer_init :: "int \<Rightarrow> int \<Rightarrow> server_timer" where
  "timer_init now timeout = \<lparr>st_start = now, st_timeout = timeout, st_workers = {}\<rparr>"

definition timer_reset :: "int \<Rightarrow> server_timer \<Rightarrow> server_timer" where
  "timer_reset now t = t\<lparr>st_start := now\<rparr>"

definition timer_remaining :: "int \<Rightarrow> server_timer \<Rightarrow> int" where
  "timer_remaining now t = max 0 (st_start t + st_timeout t - now)"

definition timer_notask :: "server_timer \<Rightarrow> bool" where
  "timer_notask t \<longleftrightarrow> st_workers t = {}"

definition timer_over :: "int \<Rightarrow> server_timer \<Rightarrow> bool" where
  "timer_over now t \<longleftrightarrow> timer_notask t \<and> timer_remaining now t = 0"

definition register_worker :: "string \<Rightarrow> server_timer \<Rightarrow> server_timer" where
  "register_worker w t = t\<lparr>st_workers := insert w (st_workers t)\<rparr>"

text \<open>The second component: the condition is notified.\<close>

definition unregister_worker :: "string \<Rightarrow> server_timer \<Rightarrow> server_timer \<times> bool" where
  "unregister_worker w t =
     (let t' = t\<lparr>st_workers := st_workers t - {w}\<rparr> in (t', st_workers t' = {}))"

lemma timer_over_iff:
  "timer_over now t \<longleftrightarrow> st_workers t = {} \<and> st_start t + st_timeout t \<le> now"
  by (auto simp: timer_over_def timer_notask_def timer_remaining_def max_def)

end
