(* ===== verification/DBusServer.thy ===== *)
theory DBusServer imports Tasks Registries Timer begin

text \<open>
  \<^verbatim>\<open>fatbuildr/protocols/dbus/server.py\<close>: the calls of the two D-Bus interfaces, their polkit actions,
  the handler that authorizes a call before it runs it, and their implementation over an instance. A
  call is a value of \<open>dbus_call\<close>. The bus gives the user of a sender and polkit an answer: both are
  parameters, as are the generation of identifiers and tokens, PyYAML and the order of a set. Reading a property goes through the bus library, and
  whether the handler that it finds for a call carries the action of the call is the parameter
  \<open>pe_handled\<close>.
\<close>

section \<open>Errors\<close>

datatype dbus_error =
    ErrorNotAuthorized | ErrorUnknownInstance | ErrorNoRunningTask | ErrorNoKeyring | ErrorRegistry | ErrorPipeline

datatype fault = DBusErr dbus_error | PyExc exn

type_synonym 'a dres = "fault + 'a"

definition dbind :: "'a dres \<Rightarrow> ('a \<Rightarrow> 'b dres) \<Rightarrow> 'b dres" where
  "dbind r f = (case r of Inl e \<Rightarrow> Inl e | Inr x \<Rightarrow> f x)"

definition plain :: "'a res \<Rightarrow> 'a dres" where
  "plain r = (case r of Inl e \<Rightarrow> Inl (PyExc e) | Inr x \<Rightarrow> Inr x)"

text \<open>\<^verbatim>\<open>except c: raise d()\<close>.\<close>

definition translated :: "exn \<Rightarrow> dbus_error \<Rightarrow> 'a res \<Rightarrow> 'a dres" where
  "translated c d r =
     (case r of Inl e \<Rightarrow> (if is_a e c then Inl (DBusErr d) else Inl (PyExc e)) | Inr x \<Rightarrow> Inr x)"

section \<open>Calls and their actions\<close>

record build_args =
  ba_format :: string
  ba_distribution :: string
  ba_architectures :: "string list"
  ba_derivative :: string
  ba_artifact :: string
  ba_author :: string
  ba_email :: string
  ba_message :: string
  ba_tarball :: string
  ba_sources :: "pyval list"
  ba_interactive :: bool

datatype dbus_call =
    Instance | PipelinesFormats | PipelinesArchitectures
  | PipelinesFormatDistributions string | PipelinesDistributionFormat string
  | PipelinesDistributionEnvironment string | PipelinesDistributionDerivatives string
  | PipelinesDerivativeFormats string
  | Queue | Running | History int | HistoryPurge
  | Formats | Distributions string | Derivatives string string | Artifacts string string string
  | ArtifactDelete string string string pyval | ArtifactDeleteAs string string string string pyval
  | ArtifactBinaries string string string string | ArtifactSource string string string string
  | Changelog string string string string string | ArtifactContent string string string string string
  | Build build_args | BuildAs string build_args
  | KeyringCreate | KeyringRenew string | Keyring | KeyringExport
  | ImageCreate string bool | ImageUpdate string | ImageShell string string "string list"
  | ImageEnvironmentCreate string string string | ImageEnvironmentUpdate string string string
  | ImageEnvironmentShell string string string string "string list"
  | TokenGenerate

fun polkit_action :: "dbus_call \<Rightarrow> string" where
  "polkit_action Instance = ''view-pipeline''"
| "polkit_action PipelinesFormats = ''view-pipeline''"
| "polkit_action PipelinesArchitectures = ''view-pipeline''"
| "polkit_action (PipelinesFormatDistributions _) = ''view-pipeline''"
| "polkit_action (PipelinesDistributionFormat _) = ''view-pipeline''"
| "polkit_action (PipelinesDistributionEnvironment _) = ''view-pipeline''"
| "polkit_action (PipelinesDistributionDerivatives _) = ''view-pipeline''"
| "polkit_action (PipelinesDerivativeFormats _) = ''view-pipeline''"
| "polkit_action Queue = ''view-task''"
| "polkit_action Running = ''view-task''"
| "polkit_action (History _) = ''view-task''"
| "polkit_action HistoryPurge = ''purge-history''"
| "polkit_action Formats = ''view-registry''"
| "polkit_action (Distributions _) = ''view-registry''"
| "polkit_action (Derivatives _ _) = ''view-registry''"
| "polkit_action (Artifacts _ _ _) = ''view-registry''"
| "polkit_action (ArtifactDelete _ _ _ _) = ''edit-registry''"
| "polkit_action (ArtifactDeleteAs _ _ _ _ _) = ''edit-registry-as''"
| "polkit_action (ArtifactBinaries _ _ _ _) = ''view-registry''"
| "polkit_action (ArtifactSource _ _ _ _) = ''view-registry''"
| "polkit_action (Changelog _ _ _ _ _) = ''view-registry''"
| "polkit_action (ArtifactContent _ _ _ _ _) = ''view-registry''"
| "polkit_action (Build _) = ''build''"
| "polkit_action (BuildAs _ _) = ''build-as''"
| "polkit_action KeyringCreate = ''edit-keyring''"
| "polkit_action (KeyringRenew _) = ''edit-keyring''"
| "polkit_action Keyring = ''view-keyring''"
| "polkit_action KeyringExport = ''view-keyring''"
| "polkit_action (ImageCreate _ _) = ''manage-image''"
| "polkit_action (ImageUpdate _) = ''manage-image''"
| "polkit_action (ImageShell _ _ _) = ''manage-image''"
| "polkit_action (ImageEnvironmentCreate _ _ _) = ''manage-image''"
| "polkit_action (ImageEnvironmentUpdate _ _ _) = ''manage-image''"
| "polkit_action (ImageEnvironmentShell _ _ _ _ _) = ''manage-image''"
| "polkit_action TokenGenerate = ''manage-token''"

definition action_id :: "string \<Rightarrow> string" where
  "action_id a = ''org.rackslab.Fatbuildr.'' @ a"

section \<open>State and parameters\<close>

record server_instance =
  si_instance :: running_instance
  si_tasks :: tasks_manager
  si_registries :: registry_env
  si_masterkey :: "(string \<times> pyval) list option"
  si_key_export :: "string res"

record dbus_env =
  pe_user :: "string \<Rightarrow> nat \<times> string"
  pe_polkit :: "string \<Rightarrow> string \<Rightarrow> bool"
  pe_handled :: "dbus_call \<Rightarrow> bool"
  pe_instances_handled :: bool
  pe_new_id :: string
  pe_yaml_load :: "string \<Rightarrow> pyval res"
  pe_token :: "string \<Rightarrow> string"
  pe_set_order :: "string set \<Rightarrow> string list"
  pe_depth :: nat
  pe_import_time :: int

datatype dbus_reply =
    Strs "string list" | Str string | Structs "pyval list" | Struct pyval | TaskId "string option"

section \<open>Implementation\<close>

definition artifact_attrs :: "registry_artifact \<Rightarrow> (string \<times> pyval) list" where
  "artifact_attrs a = [(''name'', PStr (ra_name a)), (''architecture'', PStr (ra_architecture a)),
     (''version'', PStr (ra_version a)), (''size'', PInt (ra_size a))]"

definition changelog_attrs :: "changelog_entry \<Rightarrow> (string \<times> pyval) list" where
  "changelog_attrs c = [(''version'', PStr (ce_version c)), (''author'', PStr (ce_author c)),
     (''date'', PInt (ce_date c)), (''changes'', PList (map PStr (ce_changes c)))]"

definition member_attrs :: "artifact_member \<Rightarrow> (string \<times> pyval) list" where
  "member_attrs m = [(''path'', PStr (am_path m)), (''type'', PStr (am_type m)), (''size'', PInt (am_size m))]"

definition instance_attrs :: "running_instance \<Rightarrow> (string \<times> pyval) list" where
  "instance_attrs i = [(''id'', PStr (ri_id i)), (''name'', PStr (ri_name i)), (''userid'', PStr (userid i))]"

definition structs :: "string \<Rightarrow> ('a \<Rightarrow> (string \<times> pyval) list) \<Rightarrow> 'a list \<Rightarrow> dbus_reply res" where
  "structs cls attrs xs = rmap Structs (rmapM (\<lambda>x. fields_to_structure (registered_classes cls) (attrs x)) xs)"

text \<open>The calls that submit a task: its name, its user and its arguments.\<close>

definition artifact_arg :: "pyval \<Rightarrow> pyval res" where
  "artifact_arg s = rmap (PObj ''RegistryArtifact'') (fields_from_structure (registered_classes ''RegistryArtifact'') s)"

definition source_arg :: "pyval \<Rightarrow> pyval res" where
  "source_arg s =
     rmap (PObj ''ArtifactSourceArchive'') (fields_from_structure (registered_classes ''ArtifactSourceArchive'') s)"

definition build_task_args :: "build_args \<Rightarrow> pyval list res" where
  "build_task_args b = rmap (\<lambda>srcs.
     [PStr (ba_format b), PStr (ba_distribution b), PList (map PStr (ba_architectures b)), PStr (ba_derivative b),
      PStr (ba_artifact b), PStr (ba_author b), PStr (ba_email b), PStr (ba_message b), PStr (ba_tarball b),
      PList srcs, PBool (ba_interactive b)]) (rmapM source_arg (ba_sources b))"

type_synonym submission = "string \<times> string \<times> pyval list res"

definition submit_HistoryPurge :: "string \<Rightarrow> submission" where
  "submit_HistoryPurge u = (''history purge'', u, Inr [])"

definition submit_ArtifactDelete :: "string \<Rightarrow> string \<Rightarrow> string \<Rightarrow> string \<Rightarrow> pyval \<Rightarrow> submission" where
  "submit_ArtifactDelete u fmt d dv a = (''artifact deletion'', u, rmap (\<lambda>x. [PStr fmt, PStr d, PStr dv, x]) (artifact_arg a))"

definition submit_ArtifactDeleteAs :: "string \<Rightarrow> string \<Rightarrow> string \<Rightarrow> string \<Rightarrow> pyval \<Rightarrow> submission" where
  "submit_ArtifactDeleteAs user fmt d dv a = (''artifact deletion'', user, rmap (\<lambda>x. [PStr fmt, PStr d, PStr dv, x]) (artifact_arg a))"

definition submit_Build :: "string \<Rightarrow> build_args \<Rightarrow> submission" where
  "submit_Build u b = (''artifact build'', u, build_task_args b)"

definition submit_BuildAs :: "string \<Rightarrow> build_args \<Rightarrow> submission" where
  "submit_BuildAs user b = (''artifact build'', user, build_task_args b)"

definition submit_KeyringCreate :: "string \<Rightarrow> submission" where
  "submit_KeyringCreate u = (''keyring creation'', u, Inr [])"

definition submit_KeyringRenew :: "string \<Rightarrow> string \<Rightarrow> submission" where
  "submit_KeyringRenew u dur = (''keyring renewal'', u, Inr [PStr dur])"

definition submit_ImageCreate :: "string \<Rightarrow> string \<Rightarrow> bool \<Rightarrow> submission" where
  "submit_ImageCreate u fmt force = (''image creation'', u, Inr [PStr fmt, PBool force])"

definition submit_ImageUpdate :: "string \<Rightarrow> string \<Rightarrow> submission" where
  "submit_ImageUpdate u fmt = (''image update'', u, Inr [PStr fmt])"

definition submit_ImageShell :: "string \<Rightarrow> string \<Rightarrow> string \<Rightarrow> string list \<Rightarrow> submission" where
  "submit_ImageShell u fmt t cmd = (''image shell'', u, Inr [PStr fmt, PStr t, PList (map PStr cmd)])"

definition submit_ImageEnvironmentCreate :: "string \<Rightarrow> string \<Rightarrow> string \<Rightarrow> string \<Rightarrow> submission" where
  "submit_ImageEnvironmentCreate u fmt env arch = (''image build environment creation'', u, Inr [PStr fmt, PStr env, PStr arch])"

definition submit_ImageEnvironmentUpdate :: "string \<Rightarrow> string \<Rightarrow> string \<Rightarrow> string \<Rightarrow> submission" where
  "submit_ImageEnvironmentUpdate u fmt env arch = (''image build environment update'', u, Inr [PStr fmt, PStr env, PStr arch])"

definition submit_ImageEnvironmentShell :: "string \<Rightarrow> string \<Rightarrow> string \<Rightarrow> string \<Rightarrow> string \<Rightarrow> string list \<Rightarrow> submission" where
  "submit_ImageEnvironmentShell u fmt env arch t cmd = (''image build environment shell'', u, Inr [PStr fmt, PStr env, PStr arch, PStr t, PList (map PStr cmd)])"

fun submission_of :: "string \<Rightarrow> dbus_call \<Rightarrow> submission option" where
  "submission_of u HistoryPurge = Some (submit_HistoryPurge u)"
| "submission_of u (ArtifactDelete fmt d dv a) = Some (submit_ArtifactDelete u fmt d dv a)"
| "submission_of u (ArtifactDeleteAs user fmt d dv a) = Some (submit_ArtifactDeleteAs user fmt d dv a)"
| "submission_of u (Build b) = Some (submit_Build u b)"
| "submission_of u (BuildAs user b) = Some (submit_BuildAs user b)"
| "submission_of u KeyringCreate = Some (submit_KeyringCreate u)"
| "submission_of u (KeyringRenew dur) = Some (submit_KeyringRenew u dur)"
| "submission_of u (ImageCreate fmt force) = Some (submit_ImageCreate u fmt force)"
| "submission_of u (ImageUpdate fmt) = Some (submit_ImageUpdate u fmt)"
| "submission_of u (ImageShell fmt t cmd) = Some (submit_ImageShell u fmt t cmd)"
| "submission_of u (ImageEnvironmentCreate fmt env arch) = Some (submit_ImageEnvironmentCreate u fmt env arch)"
| "submission_of u (ImageEnvironmentUpdate fmt env arch) = Some (submit_ImageEnvironmentUpdate u fmt env arch)"
| "submission_of u (ImageEnvironmentShell fmt env arch t cmd) = Some (submit_ImageEnvironmentShell u fmt env arch t cmd)"
| "submission_of u _ = None"

lemmas submit_defs =
  submit_HistoryPurge_def submit_ArtifactDelete_def submit_ArtifactDeleteAs_def submit_Build_def submit_BuildAs_def submit_KeyringCreate_def submit_KeyringRenew_def submit_ImageCreate_def submit_ImageUpdate_def submit_ImageShell_def submit_ImageEnvironmentCreate_def submit_ImageEnvironmentUpdate_def submit_ImageEnvironmentShell_def

text \<open>The calls that only read. A call that submits is not one of them.\<close>

definition si_fs :: "server_instance \<Rightarrow> node" where
  "si_fs i = tm_fs (si_tasks i)"

definition si_pipelines :: "server_instance \<Rightarrow> pipelines" where
  "si_pipelines i = ri_pipelines (si_instance i)"

definition task_env_of :: "dbus_env \<Rightarrow> server_instance \<Rightarrow> task_env" where
  "task_env_of E i =
     \<lparr>te_import_time = pe_import_time E, te_pipelines = si_pipelines i, te_depth = pe_depth E\<rparr>"

definition dist_environment :: "server_instance \<Rightarrow> string \<Rightarrow> dbus_reply dres" where
  "dist_environment i d =
     (case dist_env (si_pipelines i) d of
        Inr (PStr s) \<Rightarrow> Inr (Str s)
      | Inr _ \<Rightarrow> Inl (PyExc TypeErr)
      | Inl e \<Rightarrow> if is_a e FatbuildrPipelineError then Inr (Str ''none'') else Inl (PyExc e))"

definition task_history :: "dbus_env \<Rightarrow> server_instance \<Rightarrow> int \<Rightarrow> archived_task list res" where
  "task_history E i limit = rmap snd
     (history_dump (pe_yaml_load E) (map qt_id (tm_fullqueue (si_tasks i))) (tm_workspaces (si_tasks i)) limit False (si_fs i))"

definition call_Instance :: "server_instance \<Rightarrow> dbus_reply dres" where
  "call_Instance i =
     plain (rmap Struct (fields_to_structure (registered_classes ''RunningInstance'') (instance_attrs (si_instance i))))"

definition call_PipelinesFormats :: "server_instance \<Rightarrow> dbus_reply dres" where
  "call_PipelinesFormats i = Inr (Strs (pl_format_names (si_pipelines i)))"

definition call_PipelinesArchitectures :: "server_instance \<Rightarrow> dbus_reply dres" where
  "call_PipelinesArchitectures i = Inr (Strs (pl_architectures (si_pipelines i)))"

definition call_PipelinesFormatDistributions :: "string \<Rightarrow> server_instance \<Rightarrow> dbus_reply dres" where
  "call_PipelinesFormatDistributions fmt i =
     plain (rmap Strs (rbind (format_dists (si_pipelines i) fmt)
       (rmapM (\<lambda>n. case n of PStr s \<Rightarrow> Inr s | _ \<Rightarrow> Inl TypeErr))))"

definition call_PipelinesDistributionFormat :: "string \<Rightarrow> server_instance \<Rightarrow> dbus_reply dres" where
  "call_PipelinesDistributionFormat d i =
     translated FatbuildrPipelineError ErrorPipeline (rmap Str (dist_format (si_pipelines i) d))"

definition call_PipelinesDistributionEnvironment :: "string \<Rightarrow> server_instance \<Rightarrow> dbus_reply dres" where
  "call_PipelinesDistributionEnvironment d i = dist_environment i d"

definition call_PipelinesDistributionDerivatives :: "string \<Rightarrow> server_instance \<Rightarrow> dbus_reply dres" where
  "call_PipelinesDistributionDerivatives d i =
     translated FatbuildrPipelineError ErrorPipeline (rmap Strs (dist_derivatives (si_pipelines i) d))"

definition call_PipelinesDerivativeFormats :: "dbus_env \<Rightarrow> string \<Rightarrow> server_instance \<Rightarrow> dbus_reply dres" where
  "call_PipelinesDerivativeFormats E dv i =
     translated FatbuildrPipelineError ErrorPipeline
       (rmap (\<lambda>s. Strs (pe_set_order E s)) (derivative_formats (pe_depth E) (si_pipelines i) dv))"

definition call_Queue :: "server_instance \<Rightarrow> dbus_reply dres" where
  "call_Queue i =
     plain (rmap Structs (rmapM (\<lambda>t. task_to_structure (runnable_attrs t)) (QueueManager_dump (tm_queue (si_tasks i)))))"

definition call_Running :: "server_instance \<Rightarrow> dbus_reply dres" where
  "call_Running i =
     (case tm_running (si_tasks i) of
        None \<Rightarrow> Inl (DBusErr ErrorNoRunningTask)
      | Some t \<Rightarrow> plain (rmap Struct (task_to_structure (runnable_attrs t))))"

definition call_History :: "dbus_env \<Rightarrow> int \<Rightarrow> server_instance \<Rightarrow> dbus_reply dres" where
  "call_History E limit i =
     plain (rbind (task_history E i limit) (\<lambda>ts.
       rmap Structs (rmapM (\<lambda>t. task_to_structure (archived_attrs t)) ts)))"

definition call_Formats :: "server_instance \<Rightarrow> dbus_reply dres" where
  "call_Formats i = plain (rmap Strs (mgr_formats (si_registries i) (si_fs i)))"

definition call_Distributions :: "string \<Rightarrow> server_instance \<Rightarrow> dbus_reply dres" where
  "call_Distributions fmt i =
     translated FatbuildrRegistryError ErrorRegistry (rmap Strs (mgr_distributions (si_registries i) fmt (si_fs i)))"

definition call_Derivatives :: "string \<Rightarrow> string \<Rightarrow> server_instance \<Rightarrow> dbus_reply dres" where
  "call_Derivatives fmt d i =
     translated FatbuildrRegistryError ErrorRegistry (rmap Strs (mgr_derivatives (si_registries i) fmt (si_fs i) d))"

definition call_Artifacts :: "string \<Rightarrow> string \<Rightarrow> string \<Rightarrow> server_instance \<Rightarrow> dbus_reply dres" where
  "call_Artifacts fmt d dv i =
     translated FatbuildrRegistryError ErrorRegistry
       (rbind (mgr_artifacts (si_registries i) fmt (si_fs i) d dv) (structs ''RegistryArtifact'' artifact_attrs))"

definition call_ArtifactBinaries :: "string \<Rightarrow> string \<Rightarrow> string \<Rightarrow> string \<Rightarrow> server_instance \<Rightarrow> dbus_reply dres" where
  "call_ArtifactBinaries fmt d dv src i =
     translated FatbuildrRegistryError ErrorRegistry
       (rbind (mgr_artifact_bins (si_registries i) fmt (si_fs i) d dv src) (structs ''RegistryArtifact'' artifact_attrs))"

definition call_ArtifactSource :: "string \<Rightarrow> string \<Rightarrow> string \<Rightarrow> string \<Rightarrow> server_instance \<Rightarrow> dbus_reply dres" where
  "call_ArtifactSource fmt d dv bin i =
     translated FatbuildrRegistryError ErrorRegistry
       (rbind (mgr_artifact_src (si_registries i) fmt (si_fs i) d dv bin) (\<lambda>r.
          case r of None \<Rightarrow> Inl AttributeErr
          | Some a \<Rightarrow> rmap Struct (fields_to_structure (registered_classes ''RegistryArtifact'') (artifact_attrs a))))"

definition call_Changelog :: "string \<Rightarrow> string \<Rightarrow> string \<Rightarrow> string \<Rightarrow> string \<Rightarrow> server_instance \<Rightarrow> dbus_reply dres" where
  "call_Changelog fmt d dv arch a i =
     translated FatbuildrRegistryError ErrorRegistry
       (rbind (mgr_changelog (si_registries i) fmt (si_fs i) d dv arch a) (structs ''ChangelogEntry'' changelog_attrs))"

definition call_ArtifactContent :: "string \<Rightarrow> string \<Rightarrow> string \<Rightarrow> string \<Rightarrow> string \<Rightarrow> server_instance \<Rightarrow> dbus_reply dres" where
  "call_ArtifactContent fmt d dv arch a i =
     translated FatbuildrRegistryError ErrorRegistry
       (rbind (mgr_artifact_content (si_registries i) fmt (si_fs i) d dv arch a) (structs ''ArtifactMember'' member_attrs))"

definition call_Keyring :: "server_instance \<Rightarrow> dbus_reply dres" where
  "call_Keyring i =
     translated AttributeErr ErrorNoKeyring
       (case si_masterkey i of
          None \<Rightarrow> Inl AttributeErr
        | Some attrs \<Rightarrow> rmap Struct (fields_to_structure (registered_classes ''KeyringMasterKey'') attrs))"

definition call_KeyringExport :: "server_instance \<Rightarrow> dbus_reply dres" where
  "call_KeyringExport i = translated FatbuildrKeyringError ErrorNoKeyring (rmap Str (si_key_export i))"

fun read_call :: "dbus_env \<Rightarrow> dbus_call \<Rightarrow> server_instance \<Rightarrow> dbus_reply dres" where
  "read_call E Instance i = call_Instance i"
| "read_call E PipelinesFormats i = call_PipelinesFormats i"
| "read_call E PipelinesArchitectures i = call_PipelinesArchitectures i"
| "read_call E (PipelinesFormatDistributions fmt) i = call_PipelinesFormatDistributions fmt i"
| "read_call E (PipelinesDistributionFormat d) i = call_PipelinesDistributionFormat d i"
| "read_call E (PipelinesDistributionEnvironment d) i = call_PipelinesDistributionEnvironment d i"
| "read_call E (PipelinesDistributionDerivatives d) i = call_PipelinesDistributionDerivatives d i"
| "read_call E (PipelinesDerivativeFormats dv) i = call_PipelinesDerivativeFormats E dv i"
| "read_call E Queue i = call_Queue i"
| "read_call E Running i = call_Running i"
| "read_call E (History limit) i = call_History E limit i"
| "read_call E Formats i = call_Formats i"
| "read_call E (Distributions fmt) i = call_Distributions fmt i"
| "read_call E (Derivatives fmt d) i = call_Derivatives fmt d i"
| "read_call E (Artifacts fmt d dv) i = call_Artifacts fmt d dv i"
| "read_call E (ArtifactBinaries fmt d dv src) i = call_ArtifactBinaries fmt d dv src i"
| "read_call E (ArtifactSource fmt d dv bin) i = call_ArtifactSource fmt d dv bin i"
| "read_call E (Changelog fmt d dv arch a) i = call_Changelog fmt d dv arch a i"
| "read_call E (ArtifactContent fmt d dv arch a) i = call_ArtifactContent fmt d dv arch a i"
| "read_call E Keyring i = call_Keyring i"
| "read_call E KeyringExport i = call_KeyringExport i"
| "read_call E _ i = Inl (PyExc NotImplementedErr)"

lemmas read_defs =
  call_Instance_def call_PipelinesFormats_def call_PipelinesArchitectures_def call_PipelinesFormatDistributions_def call_PipelinesDistributionFormat_def call_PipelinesDistributionEnvironment_def call_PipelinesDistributionDerivatives_def call_PipelinesDerivativeFormats_def call_Queue_def call_Running_def call_History_def call_Formats_def call_Distributions_def call_Derivatives_def call_Artifacts_def call_ArtifactBinaries_def call_ArtifactSource_def call_Changelog_def call_ArtifactContent_def call_Keyring_def call_KeyringExport_def

text \<open>A method of the interface, called by the user \<open>u\<close> of the sender.\<close>

definition run_method :: "dbus_env \<Rightarrow> string \<Rightarrow> dbus_call \<Rightarrow> server_instance \<Rightarrow> dbus_reply dres \<times> server_instance" where
  "run_method E u call i =
     (case submission_of u call of
        Some (name, user, args) \<Rightarrow>
          (case args of
             Inl e \<Rightarrow> (Inl (PyExc e), i)
           | Inr xs \<Rightarrow>
               (let (r, tm) = tm_submit (make_task (task_env_of E i) xs) (pe_new_id E) name (PStr user) (si_tasks i)
                in (plain (rmap TaskId r), i\<lparr>si_tasks := tm\<rparr>)))
      | None \<Rightarrow>
          (if call = TokenGenerate then (Inr (Str (pe_token E u)), i) else (read_call E call i, i)))"

section \<open>Dispatch of calls\<close>

record dbus_server =
  ds_instances :: "(string, server_instance) dict"
  ds_timer :: server_timer

text \<open>\<^verbatim>\<open>check_auth\<close>\<close>

definition check_auth :: "dbus_env \<Rightarrow> string \<Rightarrow> string \<Rightarrow> unit dres" where
  "check_auth E sender action =
     (if pe_polkit E sender (action_id action) then Inr () else Inl (DBusErr ErrorNotAuthorized))"

text \<open>\<^verbatim>\<open>_handle_call\<close> on the object of an instance: the timer is reset first, whoever calls.\<close>

definition handle_call ::
  "dbus_env \<Rightarrow> int \<Rightarrow> string \<Rightarrow> string \<Rightarrow> dbus_call \<Rightarrow> dbus_server \<Rightarrow> dbus_reply dres \<times> dbus_server" where
  "handle_call E now sender inst call s =
     (case dict_get (ds_instances s) inst of
        None \<Rightarrow> (Inl (DBusErr ErrorUnknownInstance), s)
      | Some i \<Rightarrow>
          (let s = s\<lparr>ds_timer := timer_reset now (ds_timer s)\<rparr> in
           case (if pe_handled E call then check_auth E sender (polkit_action call) else Inr ()) of
             Inl e \<Rightarrow> (Inl e, s)
           | Inr _ \<Rightarrow>
               (let (r, i') = run_method E (snd (pe_user E sender)) call i
                in (r, s\<lparr>ds_instances := dict_set (ds_instances s) inst i'\<rparr>))))"

text \<open>The service object: \<^verbatim>\<open>GetInstance\<close> and \<^verbatim>\<open>Instances\<close>.\<close>

definition get_instance :: "string \<Rightarrow> int \<Rightarrow> dbus_server \<Rightarrow> string dres \<times> dbus_server" where
  "get_instance inst now s =
     ((if dict_has (ds_instances s) inst then Inr inst else Inl (DBusErr ErrorUnknownInstance)), s\<lparr>ds_timer := timer_reset now (ds_timer s)\<rparr>)"

definition list_instances :: "dbus_env \<Rightarrow> int \<Rightarrow> string \<Rightarrow> dbus_server \<Rightarrow> dbus_reply dres \<times> dbus_server" where
  "list_instances E now sender s =
     (dbind (if pe_instances_handled E then check_auth E sender ''view-pipeline'' else Inr ()) (\<lambda>_.
        plain (structs ''RunningInstance'' instance_attrs (map (si_instance \<circ> snd) (ds_instances s)))),
      s\<lparr>ds_timer := timer_reset now (ds_timer s)\<rparr>)"

section \<open>Lemmas\<close>

text \<open>The user of the tasks that a call submits: the one it names when it acts for another, else the
  one of the sender's connection.\<close>

definition submitter :: "dbus_env \<Rightarrow> string \<Rightarrow> dbus_call \<Rightarrow> string" where
  "submitter E sender call =
     (case call of BuildAs u _ \<Rightarrow> u | ArtifactDeleteAs u _ _ _ _ \<Rightarrow> u | _ \<Rightarrow> snd (pe_user E sender))"

lemma submission_user:
  "submission_of (snd (pe_user E sender)) call = Some (name, user, args) \<Longrightarrow> user = submitter E sender call"
  by (cases call) (auto simp: submitter_def submit_defs)

lemma tm_submit_cases:
  assumes "tm_submit (make_task T xs) i name u s = (r, s')"
  shows "s' = s \<or> (\<exists>t. make_task T xs name i u (tm_workspaces s @ [i]) = Inr t \<and> r = Inr (Some i)
     \<and> s' = s\<lparr>tm_queue := QueueManager_put t (tm_queue s), tm_state_file := tm_state_file s'\<rparr>)"
proof (cases "make_task T xs name i u (tm_workspaces s @ [i])")
  case (Inr t)
  then have "r = Inr (Some i) \<and> s' = s\<lparr>tm_queue := QueueManager_put t (tm_queue s), tm_state_file := tm_state_file s'\<rparr>"
    using assms by (auto simp: tm_submit_def sbind_def smodify_def tm_save_apply sret_def)
  with Inr show ?thesis by blast
qed (use assms in \<open>auto simp: tm_submit_def split: if_splits\<close>)

lemma run_method_cases:
  assumes "run_method E u call i = (r, i')"
  shows "i' = i \<or> (\<exists>name user xs t. submission_of u call = Some (name, user, Inr xs)
     \<and> make_task (task_env_of E i) xs name (pe_new_id E) (PStr user)
         (tm_workspaces (si_tasks i) @ [pe_new_id E]) = Inr t
     \<and> r = Inr (TaskId (Some (pe_new_id E)))
     \<and> i' = i\<lparr>si_tasks := (si_tasks i)\<lparr>tm_queue := QueueManager_put t (tm_queue (si_tasks i)),
           tm_state_file := tm_state_file (si_tasks i')\<rparr>\<rparr>)"
proof (cases "submission_of u call")
  case None
  with assms show ?thesis by (auto simp: run_method_def split: if_splits)
next
  case (Some sub)
  obtain name user args where sub: "sub = (name, user, args)" by (cases sub)
  show ?thesis
  proof (cases args)
    case (Inl e)
    with assms Some sub show ?thesis by (simp add: run_method_def)
  next
    case (Inr xs)
    obtain r' tm where tm: "tm_submit (make_task (task_env_of E i) xs) (pe_new_id E) name (PStr user) (si_tasks i) = (r', tm)"
      by fastforce
    then have i': "i' = i\<lparr>si_tasks := tm\<rparr>" and r: "r = plain (rmap TaskId r')"
      using assms Some sub Inr by (simp_all add: run_method_def)
    from tm_submit_cases [OF tm] show ?thesis
    proof
      assume "tm = si_tasks i"
      with i' show ?thesis by simp
    next
      assume "\<exists>t. make_task (task_env_of E i) xs name (pe_new_id E) (PStr user)
              (tm_workspaces (si_tasks i) @ [pe_new_id E]) = Inr t \<and> r' = Inr (Some (pe_new_id E))
            \<and> tm = (si_tasks i)\<lparr>tm_queue := QueueManager_put t (tm_queue (si_tasks i)), tm_state_file := tm_state_file tm\<rparr>"
      then obtain t where t: "make_task (task_env_of E i) xs name (pe_new_id E) (PStr user)
              (tm_workspaces (si_tasks i) @ [pe_new_id E]) = Inr t" "r' = Inr (Some (pe_new_id E))"
            "tm = (si_tasks i)\<lparr>tm_queue := QueueManager_put t (tm_queue (si_tasks i)), tm_state_file := tm_state_file tm\<rparr>"
        by blast
      then have "i' = i\<lparr>si_tasks := (si_tasks i)\<lparr>tm_queue := QueueManager_put t (tm_queue (si_tasks i)),
           tm_state_file := tm_state_file (si_tasks i')\<rparr>\<rparr>"
        using i' by simp
      moreover have "r = Inr (TaskId (Some (pe_new_id E)))"
        using t(2) r by (simp add: plain_def)
      ultimately show ?thesis using t(1) Some sub Inr by blast
    qed
  qed
qed

text \<open>A call on a known instance that passes its check is the method run on that instance.\<close>

lemma handle_call_run:
  assumes "dict_get (ds_instances s) inst = Some i"
    and "pe_handled E call \<Longrightarrow> pe_polkit E sender (action_id (polkit_action call))"
    and "run_method E (snd (pe_user E sender)) call i = (r, i')"
  shows "handle_call E now sender inst call s =
    (r, s\<lparr>ds_timer := timer_reset now (ds_timer s), ds_instances := dict_set (ds_instances s) inst i'\<rparr>)"
  using assms by (simp add: handle_call_def check_auth_def Let_def)


text \<open>C9. What a call can do to an instance. Every instance stays, and none changes except the called one,
  by one new task at the end of its queue: its identifier is the new one that the reply carries, its
  user is the sender's, or the user that the call names when it acts for another, and polkit has
  granted the action of the call to the sender when the handler carries it.\<close>

theorem call_effect:
  assumes "handle_call E now sender inst call s = (r, s')" "dict_get (ds_instances s) j = Some i"
  shows "\<exists>i'. dict_get (ds_instances s') j = Some i' \<and> (i' = i \<or>
    (j = inst \<and> (pe_handled E call \<longrightarrow> pe_polkit E sender (action_id (polkit_action call))) \<and>
     r = Inr (TaskId (Some (pe_new_id E))) \<and>
     (\<exists>t f. qt_id t = pe_new_id E \<and> rt_user t = PStr (submitter E sender call) \<and>
        i' = i\<lparr>si_tasks := (si_tasks i)\<lparr>tm_queue := QueueManager_put t (tm_queue (si_tasks i)), tm_state_file := f\<rparr>\<rparr>)))"
proof (cases "j = inst \<and> (pe_handled E call \<longrightarrow> pe_polkit E sender (action_id (polkit_action call)))")
  case False
  then have "dict_get (ds_instances s') j = Some i"
    using assms by (auto simp: handle_call_def check_auth_def Let_def split: option.splits if_splits prod.splits)
  then show ?thesis by blast
next
  case True
  obtain q i' where run: "run_method E (snd (pe_user E sender)) call i = (q, i')" by fastforce
  have *: "r = q" "dict_get (ds_instances s') j = Some i'"
    using handle_call_run [OF _ _ run, of s inst now] True assms by auto
  from run_method_cases [OF run] show ?thesis
  proof
    assume "i' = i"
    with * show ?thesis by simp
  next
    assume "\<exists>name user xs t. submission_of (snd (pe_user E sender)) call = Some (name, user, Inr xs)
     \<and> make_task (task_env_of E i) xs name (pe_new_id E) (PStr user)
         (tm_workspaces (si_tasks i) @ [pe_new_id E]) = Inr t
     \<and> q = Inr (TaskId (Some (pe_new_id E)))
     \<and> i' = i\<lparr>si_tasks := (si_tasks i)\<lparr>tm_queue := QueueManager_put t (tm_queue (si_tasks i)),
           tm_state_file := tm_state_file (si_tasks i')\<rparr>\<rparr>"
    then obtain name user xs t where t: "submission_of (snd (pe_user E sender)) call = Some (name, user, Inr xs)"
      "make_task (task_env_of E i) xs name (pe_new_id E) (PStr user) (tm_workspaces (si_tasks i) @ [pe_new_id E]) = Inr t"
      "q = Inr (TaskId (Some (pe_new_id E)))"
      "i' = i\<lparr>si_tasks := (si_tasks i)\<lparr>tm_queue := QueueManager_put t (tm_queue (si_tasks i)),
           tm_state_file := tm_state_file (si_tasks i')\<rparr>\<rparr>" by blast
    from make_task_identified [OF t(2)] submission_user [OF t(1)]
    have "qt_id t = pe_new_id E" "rt_user t = PStr (submitter E sender call)"
      by (simp_all add: identified_def)
    with * t True show ?thesis by blast
  qed
qed

section \<open>Witnesses\<close>

definition example_instance :: server_instance where
  "example_instance =
     \<lparr>si_instance = \<lparr>ri_id = ''default'', ri_name = ''Default'', ri_gpg_name = ''Bot'', ri_gpg_email = ''bot@x'',
        ri_pipelines = \<lparr>pl_architectures = [''x86_64''],
          pl_formats = [(''deb'', [[(''name'', PStr ''sid''), (''tag'', PStr ''d'')]])], pl_derivatives = None\<rparr>\<rparr>,
      si_tasks = demo_state None NoFile (Dir []), si_registries = example_env, si_masterkey = None,
      si_key_export = Inl FatbuildrKeyringError\<rparr>"

definition example_server :: dbus_server where
  "example_server = \<lparr>ds_instances = [(''default'', example_instance)], ds_timer = timer_init 0 30\<rparr>"

text \<open>A bus where polkit grants everything to the connection of root and nothing to the others.\<close>

definition example_bus :: dbus_env where
  "example_bus = \<lparr>pe_user = (\<lambda>c. if c = '':1.1'' then (0, ''root'') else (1000, ''bob'')),
     pe_polkit = (\<lambda>c _. c = '':1.1''), pe_handled = (\<lambda>_. True), pe_instances_handled = True,
     pe_new_id = ''t9'', pe_yaml_load = (\<lambda>_. Inl ValueErr), pe_token = (\<lambda>u. u), pe_set_order = (\<lambda>_. []),
     pe_depth = 1000, pe_import_time = 0\<rparr>"

lemma example_get: "dict_get (ds_instances example_server) ''default'' = Some example_instance"
  by (simp add: example_server_def dict_get_def)


theorem call_effect_witness:
  "\<exists>i'. dict_get (ds_instances (snd (handle_call example_bus 7 '':1.1'' ''default''
       (ImageUpdate ''deb'') example_server))) ''default'' = Some i' \<and> (i' = example_instance \<or>
      (\<exists>t f. rt_user t = PStr ''root'' \<and>
        i' = example_instance\<lparr>si_tasks := (si_tasks example_instance)\<lparr>
          tm_queue := QueueManager_put t (tm_queue (si_tasks example_instance)), tm_state_file := f\<rparr>\<rparr>))"
  using call_effect [OF surjective_pairing example_get, of example_bus 7 "'':1.1''" "''default''" "ImageUpdate ''deb''"]
  by (auto simp: submitter_def example_bus_def)

end
