(* ===== verification/TaskListing.thy ===== *)
theory TaskListing imports DBusServer begin

text \<open>
  Which tasks the property \<^verbatim>\<open>Queue\<close> of the D-Bus interface can list. Every task that a well-typed
  call submits has, in each field that its class exports, a value that the wire accepts; so the
  queue of every instance can be listed whatever calls the server has answered.
\<close>

section \<open>Sendable tasks\<close>

text \<open>A value that \<^verbatim>\<open>to_structure\<close> accepts in a field of type \<open>t\<close>.\<close>

definition sendable :: "ntype \<Rightarrow> pyval \<Rightarrow> bool" where
  "sendable t v \<longleftrightarrow> (\<exists>w. to_wire t v = Inr w)"

definition task_sendable :: "(string \<times> pyval) list \<Rightarrow> bool" where
  "task_sendable attrs \<longleftrightarrow> (\<exists>w. task_to_structure attrs = Inr w)"

named_theorems send_intros "values that can be sent"

lemma sendable_basic [send_intros]:
  "sendable TStr (PStr s)" "sendable TBool (PBool b)" "sendable TListStr (PList vs)"
  "sendable TDatetime (PTime us)" "sendable TPath (PPath p)" "sendable TStr PNone"
  "sendable (TListExp c) (PList [])"
  by (simp_all add: sendable_def to_wire.simps wire_type_def field_export.simps variant_def)

lemma sendable_io [send_intros]: "sendable (TExp ''TaskIO'') (TaskIO_init b p)"
  unfolding TaskIO_init_def sendable_def by (rule exI, code_simp)

lemma fields_sendable:
  "(\<forall>f \<in> set fs. \<exists>v. map_of attrs (f_name f) = Some v \<and> sendable (f_type f) v)
    \<Longrightarrow> \<exists>w. fields_to_structure fs attrs = Inr w"
  unfolding fields_to_structure_def
proof (induction fs)
  case (Cons f fs)
  then obtain v w ws where "map_of attrs (f_name f) = Some v" "to_wire (f_type f) v = Inr w"
    "rmapM (\<lambda>f. rbind (getattr attrs (f_name f)) (\<lambda>a. rmap (Pair (f_name f)) (to_wire (f_type f) a))) fs = Inr ws"
    by (auto simp: sendable_def rmap_Inr_conv)
  then show ?case by (simp add: getattr_def)
qed simp

lemma task_sendableI:
  assumes "map_of attrs ''name'' = Some (PStr name)" "task_fields register_protocols name = Inr fs"
    and "\<forall>f \<in> set fs. \<exists>v. map_of attrs (f_name f) = Some v \<and> sendable (f_type f) v"
  shows "task_sendable attrs"
  using fields_sendable [OF assms(3)] assms(1,2)
  by (auto simp: task_sendable_def task_to_structure_def getattr_def str_of_def)

section \<open>The registered tasks\<close>

lemma registered_tasks:
  "task_loader register_protocols ''artifact build'' = Inr ''BuildFactory.generate''"
  "task_loader register_protocols ''artifact deletion'' = Inr ''RegistryArtifactDeletionTask''"
  "task_loader register_protocols ''keyring creation'' = Inr ''KeyringCreationTask''"
  "task_loader register_protocols ''keyring renewal'' = Inr ''KeyringRenewalTask''"
  "task_loader register_protocols ''history purge'' = Inr ''HistoryPurgeTask''"
  "task_loader register_protocols ''image creation'' = Inr ''ImageCreationTask''"
  "task_loader register_protocols ''image update'' = Inr ''ImageUpdateTask''"
  "task_loader register_protocols ''image shell'' = Inr ''ImageShellTask''"
  "task_loader register_protocols ''image build environment creation'' = Inr ''ImageEnvironmentCreationTask''"
  "task_loader register_protocols ''image build environment update'' = Inr ''ImageEnvironmentUpdateTask''"
  "task_loader register_protocols ''image build environment shell'' = Inr ''ImageEnvironmentShellTask''"
  by code_simp+

lemma registered_fields:
  "task_fields register_protocols ''artifact build'' = Inr (BASEFIELDS @ build_exfields)"
  "task_fields register_protocols ''artifact deletion'' = Inr (BASEFIELDS @ deletion_exfields)"
  "task_fields register_protocols ''keyring creation'' = Inr (BASEFIELDS @ [])"
  "task_fields register_protocols ''keyring renewal'' = Inr (BASEFIELDS @ renewal_exfields)"
  "task_fields register_protocols ''history purge'' = Inr (BASEFIELDS @ [])"
  "task_fields register_protocols ''image creation'' = Inr (BASEFIELDS @ image_creation_exfields)"
  "task_fields register_protocols ''image update'' = Inr (BASEFIELDS @ image_update_exfields)"
  "task_fields register_protocols ''image shell'' = Inr (BASEFIELDS @ image_shell_exfields)"
  "task_fields register_protocols ''image build environment creation'' = Inr (BASEFIELDS @ env_exfields)"
  "task_fields register_protocols ''image build environment update'' = Inr (BASEFIELDS @ env_exfields)"
  "task_fields register_protocols ''image build environment shell'' = Inr (BASEFIELDS @ env_shell_exfields)"
  by code_simp+

section \<open>Submissions\<close>

text \<open>A structure that holds, for every field, a value of the field's wire type: what a client that
  follows the interface sends. The bus does not check it, since the members are variants.\<close>

definition struct_typed :: "field list \<Rightarrow> pyval \<Rightarrow> bool" where
  "struct_typed fs s \<longleftrightarrow> (\<forall>f \<in> set fs. case struct_item s (f_name f) of
      Inr w \<Rightarrow> variant (wire_type (f_type f)) w = Inr w | Inl _ \<Rightarrow> False)"

definition typed_call :: "dbus_call \<Rightarrow> bool" where
  "typed_call call = (case call of
      ArtifactDelete _ _ _ a \<Rightarrow> struct_typed (registered_classes ''RegistryArtifact'') a
    | ArtifactDeleteAs _ _ _ _ a \<Rightarrow> struct_typed (registered_classes ''RegistryArtifact'') a
    | _ \<Rightarrow> True)"

lemma new_sendable:
  assumes "task_fields register_protocols name = Inr (BASEFIELDS @ fs)"
    and "\<forall>f \<in> set fs. \<exists>v. map_of attrs (f_name f) = Some v \<and> sendable (f_type f) v"
    and "\<forall>f \<in> set fs. f_name f \<notin> set [''id'', ''user'', ''name'', ''submission'', ''state'', ''result'', ''place'', ''io'']"
    and "map_of attrs ''place'' = None"
  shows "task_sendable (runnable_attrs ((new_task E name i (PStr u) p b attrs)\<lparr>rt_state := st\<rparr>))"
    (is "task_sendable (runnable_attrs ?t)")
proof (rule task_sendableI)
  show "map_of (runnable_attrs ?t) ''name'' = Some (PStr name)"
    by (simp add: runnable_attrs_def task_attrs_def new_task_def RunnableTask_init_def)
  have own: "map_of (runnable_attrs ?t) (f_name f) = Some v" if "f \<in> set fs" "map_of attrs (f_name f) = Some v" for f v
    using assms(3) that by (auto simp: runnable_attrs_def task_attrs_def new_task_def RunnableTask_init_def map_add_def)
  have "\<forall>f \<in> set BASEFIELDS. \<exists>v. map_of (runnable_attrs ?t) (f_name f) = Some v \<and> sendable (f_type f) v"
    using assms(4)
    by (simp add: BASEFIELDS_def ExportableTaskField_def runnable_attrs_def task_attrs_def new_task_def
        RunnableTask_init_def send_intros map_add_def)
  then show "\<forall>f \<in> set (BASEFIELDS @ fs). \<exists>v. map_of (runnable_attrs ?t) (f_name f) = Some v \<and> sendable (f_type f) v"
    using own assms(2) by auto
qed (rule assms(1))

lemma new_state [simp]:
  "(new_task E name i u p b attrs)\<lparr>rt_state := ''pending''\<rparr> = new_task E name i u p b attrs"
  by (simp add: new_task_def RunnableTask_init_def)

lemmas new_sendable_pending = new_sendable [where st = "''pending''", unfolded new_state]

lemma basic_resend:
  "t = TStr \<or> t = TInt \<Longrightarrow> variant t w = Inr w \<Longrightarrow> from_wire t w = Inr v \<Longrightarrow> to_wire t v = Inr w"
  by (cases w) (auto simp: from_wire.simps to_wire.simps field_export.simps wire_type_def variant_def
      field_native_value_def native_convert_def split: if_splits)

lemma received_sendable:
  assumes "fields_from_structure fs s = Inr attrs" "struct_typed fs s" "distinct (map f_name fs)"
    and "\<forall>f \<in> set fs. f_type f = TStr \<or> f_type f = TInt"
  shows "\<forall>f \<in> set fs. \<exists>v. map_of attrs (f_name f) = Some v \<and> sendable (f_type f) v"
  using assms
proof (induction fs arbitrary: attrs)
  case (Cons f fs)
  from Cons.prems(1) obtain w v rest where w: "struct_item s (f_name f) = Inr w" "from_wire (f_type f) w = Inr v"
    and rest: "fields_from_structure fs s = Inr rest" "attrs = (f_name f, v) # rest"
    by (auto simp: fields_from_structure_def rbind_Inr_conv rmap_Inr_conv)
  have "to_wire (f_type f) v = Inr w"
    using Cons.prems(2,4) w basic_resend [of "f_type f"] by (auto simp: struct_typed_def wire_type_def split: ntype.splits)
  then have f: "sendable (f_type f) v" by (auto simp: sendable_def)
  have IH: "\<forall>f \<in> set fs. \<exists>v. map_of rest (f_name f) = Some v \<and> sendable (f_type f) v"
    using Cons.IH [OF rest(1)] Cons.prems(2-4) by (simp add: struct_typed_def)
  show ?case
  proof
    fix g assume "g \<in> set (f # fs)"
    then consider "g = f" | "g \<in> set fs" "f_name g \<noteq> f_name f"
      using Cons.prems(3) by (metis distinct.simps(2) image_eqI list.set_map list.simps(9) set_ConsD)
    then show "\<exists>v. map_of attrs (f_name g) = Some v \<and> sendable (f_type g) v"
      by cases (use f IH rest(2) in auto)
  qed
qed simp

lemma sendable_class:
  assumes "dbus_type c = Inr d" "type_fields d = Inr fs"
    and "\<forall>f \<in> set fs. \<exists>v. map_of attrs (f_name f) = Some v \<and> sendable (f_type f) v"
  shows "sendable (TExp c) (PObj c' attrs)"
proof -
  have "\<exists>ws. rmapM (\<lambda>f. case map_of attrs (f_name f) of None \<Rightarrow> Inl AttributeErr
      | Some a \<Rightarrow> rmap (Pair (f_name f)) (to_wire (f_type f) a)) fs = Inr ws"
    using assms(3) by (induction fs) (auto simp: sendable_def)
  then show ?thesis
    using assms(1,2) by (auto simp: sendable_def to_wire.simps [of "TExp c"] wire_type_def)
qed

lemma artifact_fields:
  "registered_classes ''RegistryArtifact'' = [ExportableField ''name'' TStr, ExportableField ''architecture'' TStr,
      ExportableField ''version'' TStr, ExportableField ''size'' TInt]"
  "dbus_type ''RegistryArtifact'' = Inr ''DBusArtifact''"
  "type_fields ''DBusArtifact'' = Inr (registered_classes ''RegistryArtifact'')"
  by code_simp+

lemma artifact_sendable:
  assumes "artifact_arg s = Inr v" "struct_typed (registered_classes ''RegistryArtifact'') s"
  shows "sendable (TExp ''RegistryArtifact'') v"
proof -
  obtain attrs where attrs: "fields_from_structure (registered_classes ''RegistryArtifact'') s = Inr attrs"
    "v = PObj ''RegistryArtifact'' attrs"
    using assms(1) by (auto simp: artifact_arg_def rmap_Inr_conv)
  have "\<forall>f \<in> set (registered_classes ''RegistryArtifact''). \<exists>v. map_of attrs (f_name f) = Some v \<and> sendable (f_type f) v"
    by (rule received_sendable [OF attrs(1) assms(2)]) (simp_all add: artifact_fields(1) ExportableField_def)
  with attrs(2) show ?thesis by (auto intro: sendable_class [OF artifact_fields(2,3)])
qed

lemmas exfields_defs = build_exfields_def deletion_exfields_def renewal_exfields_def image_creation_exfields_def
  image_update_exfields_def image_shell_exfields_def env_exfields_def env_shell_exfields_def ExportableTaskField_def

lemmas make_simps = make_task_def registered_tasks dict_item_def task_loaders_def ctor_defs

lemma deletion_sendable:
  assumes "make_task T [PStr fmt, PStr d, PStr dv, x] ''artifact deletion'' i (PStr user) p = Inr t"
    and "sendable (TExp ''RegistryArtifact'') x"
  shows "task_sendable (runnable_attrs t)"
  using assms
  by (auto simp: make_simps intro!: new_sendable_pending [OF registered_fields(2)] simp: exfields_defs send_intros)

text \<open>The task of a build, from the arguments of the call.\<close>

definition build_attrs :: "build_args \<Rightarrow> pyval list \<Rightarrow> string list \<Rightarrow> (string \<times> pyval) list" where
  "build_attrs b srcs dvs =
     [(''format'', PStr (ba_format b)), (''distribution'', PStr (ba_distribution b)),
      (''architectures'', PList (map PStr (ba_architectures b))), (''derivative'', PStr (ba_derivative b)),
      (''artifact'', PStr (ba_artifact b)), (''author'', PStr (ba_author b)), (''email'', PStr (ba_email b)),
      (''message'', PStr (ba_message b)), (''input_tarball'', PStr (ba_tarball b)), (''sources'', PList srcs),
      (''derivatives'', PList (map PStr dvs)), (''archives'', PList [])]"

lemma made_build:
  assumes "build_task_args b = Inr xs" "make_task T xs ''artifact build'' i u p = Inr t"
  obtains srcs dvs where "rmapM source_arg (ba_sources b) = Inr srcs"
    "t = new_task T ''artifact build'' i u p (ba_interactive b) (build_attrs b srcs dvs)"
proof -
  obtain srcs where srcs: "rmapM source_arg (ba_sources b) = Inr srcs"
    and xs: "xs = [PStr (ba_format b), PStr (ba_distribution b), PList (map PStr (ba_architectures b)), PStr (ba_derivative b),
      PStr (ba_artifact b), PStr (ba_author b), PStr (ba_email b), PStr (ba_message b), PStr (ba_tarball b),
      PList srcs, PBool (ba_interactive b)]"
    using assms(1) unfolding build_task_args_def rmap_Inr_conv by blast
  have "ArtifactBuild_init T i u p xs = Inr t"
    using assms(2)
    by (simp add: make_task_def registered_tasks(1) dict_item_def task_loaders_def BuildFactory_generate_def xs split: if_splits)
  then obtain dvs where "t = new_task T ''artifact build'' i u p (ba_interactive b) (build_attrs b srcs dvs)"
    unfolding ArtifactBuild_init_def build_attrs_def xs by (auto simp: rmap_Inr_conv)
  with srcs that show thesis by blast
qed

lemma build_sendable:
  assumes "build_task_args b = Inr xs" "make_task T xs ''artifact build'' i (PStr user) p = Inr t"
  shows "task_sendable (runnable_attrs t)"
proof -
  obtain srcs dvs where t: "t = new_task T ''artifact build'' i (PStr user) p (ba_interactive b) (build_attrs b srcs dvs)"
    using made_build [OF assms] .
  show ?thesis
    unfolding t by (rule new_sendable_pending [OF registered_fields(1)]) (simp_all add: build_attrs_def exfields_defs send_intros)
qed

lemma submitted_sendable:
  assumes "submission_of u call = Some (name, user, Inr xs)" "typed_call call"
    and "make_task T xs name i (PStr user) p = Inr t"
  shows "task_sendable (runnable_attrs t)"
  using assms
proof (cases call)
  case (ArtifactDelete fmt d dv a)
  with assms show ?thesis
    by (auto simp: submit_defs rmap_Inr_conv typed_call_def dest!: artifact_sendable elim!: deletion_sendable)
next
  case (ArtifactDeleteAs user' fmt d dv a)
  with assms show ?thesis
    by (auto simp: submit_defs rmap_Inr_conv typed_call_def dest!: artifact_sendable elim!: deletion_sendable)
next
  case (Build b)
  with assms show ?thesis by (auto simp: submit_defs intro: build_sendable)
next
  case (BuildAs user' b)
  with assms show ?thesis by (auto simp: submit_defs intro: build_sendable)
qed (auto simp: submit_defs make_simps exfields_defs send_intros
    intro!: new_sendable [OF registered_fields(4)] new_sendable_pending [OF registered_fields(3)]
      new_sendable_pending [OF registered_fields(5)]
      new_sendable_pending [OF registered_fields(6)] new_sendable_pending [OF registered_fields(7)]
      new_sendable_pending [OF registered_fields(8)] new_sendable_pending [OF registered_fields(9)]
      new_sendable_pending [OF registered_fields(10)] new_sendable_pending [OF registered_fields(11)])

section \<open>The queue can be listed\<close>

definition listable :: "server_instance \<Rightarrow> bool" where
  "listable i \<longleftrightarrow> (\<forall>t \<in> set (qm_queue (tm_queue (si_tasks i))). task_sendable (runnable_attrs t))"

lemma listing_total:
  assumes "listable i"
  shows "\<exists>ws. read_call E Queue i = Inr (Structs ws) \<and> length ws = length (qm_queue (tm_queue (si_tasks i)))"
proof -
  have "\<exists>ws. rmapM (\<lambda>t. task_to_structure (runnable_attrs t)) ts = Inr ws \<and> length ws = length ts"
    if "\<forall>t \<in> set ts. task_sendable (runnable_attrs t)" for ts
    using that by (induction ts) (auto simp: task_sendable_def)
  then obtain ws where "rmapM (\<lambda>t. task_to_structure (runnable_attrs t)) (qm_queue (tm_queue (si_tasks i))) = Inr ws"
    "length ws = length (qm_queue (tm_queue (si_tasks i)))"
    using assms unfolding listable_def by blast
  then show ?thesis by (simp add: read_defs QueueManager_dump_def plain_def)
qed

lemma call_listable:
  assumes "\<forall>j i. dict_get (ds_instances s) j = Some i \<longrightarrow> listable i" "typed_call call"
    and "handle_call E now sender inst call s = (r, s')" "dict_get (ds_instances s') j = Some i'"
  shows "listable i'"
proof (cases "dict_get (ds_instances s) inst")
  case None
  with assms show ?thesis by (simp add: handle_call_def)
next
  case (Some i)
  obtain q i'' where run: "run_method E (snd (pe_user E sender)) call i = (q, i'')" by fastforce
  have "listable i''"
    using run_method_cases [OF run]
  proof
    assume "i'' = i"
    with assms(1) Some show ?thesis by blast
  next
    assume "\<exists>name user xs t. submission_of (snd (pe_user E sender)) call = Some (name, user, Inr xs)
     \<and> make_task (task_env_of E i) xs name (pe_new_id E) (PStr user)
         (tm_workspaces (si_tasks i) @ [pe_new_id E]) = Inr t
     \<and> q = Inr (TaskId (Some (pe_new_id E)))
     \<and> i'' = i\<lparr>si_tasks := (si_tasks i)\<lparr>tm_queue := QueueManager_put t (tm_queue (si_tasks i)),
           tm_state_file := tm_state_file (si_tasks i'')\<rparr>\<rparr>"
    then obtain t f where "task_sendable (runnable_attrs t)"
      "i'' = i\<lparr>si_tasks := (si_tasks i)\<lparr>tm_queue := QueueManager_put t (tm_queue (si_tasks i)), tm_state_file := f\<rparr>\<rparr>"
      using submitted_sendable assms(2) by blast
    with assms(1) Some show ?thesis by (auto simp: listable_def QueueManager_put_def)
  qed
  moreover have "i' = i'' \<or> dict_get (ds_instances s) j = Some i'"
    using assms(3,4) Some run
    by (auto simp: handle_call_def check_auth_def Let_def split: if_splits)
  ultimately show ?thesis using assms(1) by blast
qed
text \<open>The state after a sequence of calls: time, sender, instance and call.\<close>

fun serve :: "dbus_env \<Rightarrow> (int \<times> string \<times> string \<times> dbus_call) list \<Rightarrow> dbus_server \<Rightarrow> dbus_server" where
  "serve E [] s = s"
| "serve E ((now, sender, inst, call) # cs) s = serve E cs (snd (handle_call E now sender inst call s))"

text \<open>Whatever well-typed calls a server has answered, from an empty queue or from queues that could be
  listed, the queue of every instance can be listed: the property gives one structure per task and
  raises nothing.\<close>

theorem queue_listed:
  assumes "\<forall>j i. dict_get (ds_instances s) j = Some i \<longrightarrow> listable i"
    and "\<forall>(now, sender, inst, call) \<in> set cs. typed_call call"
    and "dict_get (ds_instances (serve E cs s)) j = Some i"
  shows "\<exists>ws. read_call E Queue i = Inr (Structs ws) \<and> length ws = length (qm_queue (tm_queue (si_tasks i)))"
proof -
  have "listable i"
    using assms
  proof (induction cs arbitrary: s)
    case (Cons c cs)
    obtain now sender inst call where c: "c = (now, sender, inst, call)" by (cases c)
    obtain r s' where h: "handle_call E now sender inst call s = (r, s')" by fastforce
    have "typed_call call" using Cons.prems(2) c by simp
    then have "\<forall>j i. dict_get (ds_instances s') j = Some i \<longrightarrow> listable i"
      using call_listable [OF Cons.prems(1) _ h] by blast
    then show ?case
      using Cons.IH [of s'] Cons.prems(2,3) c h by simp
  qed simp
  then show ?thesis by (rule listing_total)
qed

text \<open>A field whose value is refused stops the listing.\<close>

lemma wire_basic:
  "from_wire TStr (PStr x) = Inr (if x = dbus_null then PNone else PStr x)"
  "from_wire TStr (PInt n) = Inr (PInt n)"
  "from_wire TInt (PInt n) = Inr (if n = -1 then PNone else PInt n)"
  "to_wire TStr (PInt n) = Inl TypeErr"
  by (simp_all add: from_wire.simps to_wire.simps wire_type_def field_native_value_def native_convert_def
      field_export.simps variant_def)

lemma fields_stop:
  assumes "\<forall>f \<in> set pre. \<exists>v. map_of attrs (f_name f) = Some v \<and> sendable (f_type f) v"
    and "map_of attrs (f_name f) = Some v" "to_wire (f_type f) v = Inl e"
  shows "fields_to_structure (pre @ f # post) attrs = Inl e"
  using assms(1) unfolding fields_to_structure_def
proof (induction pre)
  case Nil
  with assms(2,3) show ?case by (simp add: getattr_def)
next
  case (Cons g pre)
  then obtain u w where "map_of attrs (f_name g) = Some u" "to_wire (f_type g) u = Inr w"
    by (auto simp: sendable_def)
  with Cons show ?case by (simp add: getattr_def rmap_def rbind_def split: sum.splits)
qed

lemma list_stop: "\<forall>t \<in> set ts. task_sendable (runnable_attrs t) \<Longrightarrow> task_to_structure (runnable_attrs t) = Inl e \<Longrightarrow>
    rmapM (\<lambda>t. task_to_structure (runnable_attrs t)) (ts @ [t]) = Inl e"
  by (induction ts) (auto simp: task_sendable_def)

lemma ill_typed_artifact:
  assumes "x = PObj ''RegistryArtifact'' ((''name'', PInt n) # attrs)"
    and "make_task T [PStr fmt, PStr d, PStr dv, x] ''artifact deletion'' i (PStr u) p = Inr t"
  shows "task_to_structure (runnable_attrs t) = Inl TypeErr"
proof -
  let ?as = "runnable_attrs t"
  have t: "t = new_task T ''artifact deletion'' i (PStr u) p False
      [(''format'', PStr fmt), (''distribution'', PStr d), (''derivative'', PStr dv), (''artifact'', x)]"
    using assms(2) by (simp add: make_simps)
  have "to_wire (TExp ''RegistryArtifact'') x = Inl TypeErr"
    by (simp add: to_wire.simps [of "TExp c" for c] wire_type_def artifact_fields ExportableField_def assms(1) wire_basic(4))
  moreover have "\<forall>f \<in> set (BASEFIELDS @ butlast deletion_exfields). \<exists>v. map_of ?as (f_name f) = Some v \<and> sendable (f_type f) v"
    by (simp add: t BASEFIELDS_def deletion_exfields_def ExportableTaskField_def runnable_attrs_def task_attrs_def
        new_task_def RunnableTask_init_def send_intros map_add_def)
  moreover have "map_of ?as ''artifact'' = Some x"
    by (simp add: t runnable_attrs_def task_attrs_def new_task_def RunnableTask_init_def map_add_def)
  ultimately have "fields_to_structure ((BASEFIELDS @ butlast deletion_exfields) @ [List.last deletion_exfields]) ?as = Inl TypeErr"
    by (intro fields_stop [where v = x]) (simp_all add: deletion_exfields_def ExportableTaskField_def)
  then have "fields_to_structure (BASEFIELDS @ deletion_exfields) ?as = Inl TypeErr"
    by (simp add: deletion_exfields_def)
  moreover have "getattr ?as ''name'' = Inr (PStr ''artifact deletion'')"
    by (simp add: t runnable_attrs_def task_attrs_def new_task_def RunnableTask_init_def getattr_def)
  ultimately show ?thesis
    by (simp add: task_to_structure_def str_of_def registered_fields(2))
qed

text \<open>A deletion whose artifact carries a number in the place of its name is accepted, and the queue can
  then not be listed until the task leaves it: the property raises a type error for every client.\<close>

theorem ill_typed_artifact_blocks_listing:
  assumes "listable i"
    and "a = PDict [(''name'', PInt n), (''architecture'', PStr arch), (''version'', PStr v), (''size'', PInt k)]"
  shows "\<exists>i'. run_method E u (ArtifactDelete fmt d dv a) i = (Inr (TaskId (Some (pe_new_id E))), i')
    \<and> read_call E Queue i' = Inl (PyExc TypeErr)"
proof -
  obtain attrs where x: "artifact_arg a = Inr (PObj ''RegistryArtifact'' ((''name'', PInt n) # attrs))"
    by (simp add: assms(2) artifact_arg_def fields_from_structure_def artifact_fields(1) ExportableField_def
        struct_item_def dict_item_def wire_basic)
  let ?xs = "[PStr fmt, PStr d, PStr dv, PObj ''RegistryArtifact'' ((''name'', PInt n) # attrs)]"
  obtain t where t: "make_task (task_env_of E i) ?xs ''artifact deletion'' (pe_new_id E) (PStr u)
      (tm_workspaces (si_tasks i) @ [pe_new_id E]) = Inr t"
    by (simp add: make_simps)
  from ill_typed_artifact [OF refl this] have bad: "task_to_structure (runnable_attrs t) = Inl TypeErr" .
  let ?q = "QueueManager_put t (tm_queue (si_tasks i))"
  obtain f where run: "run_method E u (ArtifactDelete fmt d dv a) i = (Inr (TaskId (Some (pe_new_id E))),
      i\<lparr>si_tasks := (si_tasks i)\<lparr>tm_queue := ?q, tm_state_file := f\<rparr>\<rparr>)"
    using t by (auto simp: run_method_def submit_defs x tm_submit_def sbind_def smodify_def tm_save_apply sret_def plain_def Let_def)
  have "read_call E Queue (i\<lparr>si_tasks := (si_tasks i)\<lparr>tm_queue := ?q, tm_state_file := f\<rparr>\<rparr>) = Inl (PyExc TypeErr)"
    using list_stop [OF _ bad] assms(1)
    by (simp add: read_defs QueueManager_dump_def QueueManager_put_def listable_def plain_def del: rmapM.simps)
  with run show ?thesis by blast
qed

section \<open>Witnesses\<close>

lemma example_listable: "dict_get (ds_instances example_server) j = Some i \<Longrightarrow> listable i"
  by (auto simp: example_server_def dict_get_def listable_def example_instance_def demo_state_def QueueManager_init_def
      split: if_splits)

theorem queue_listed_witness:
  "\<exists>i ws. dict_get (ds_instances (serve example_bus [(7, '':1.1'', ''default'', KeyringRenew ''1y'')] example_server))
      ''default'' = Some i \<and> read_call example_bus Queue i = Inr (Structs ws) \<and> length ws = 1"
proof -
  let ?cs = "[(7, '':1.1'', ''default'', KeyringRenew ''1y'')]"
  obtain i where i: "dict_get (ds_instances (serve example_bus ?cs example_server)) ''default'' = Some i"
    "length (qm_queue (tm_queue (si_tasks i))) = 1"
    by (simp add: example_server_def handle_call_def check_auth_def example_bus_def dict_get_def Let_def run_method_def submit_defs
        tm_submit_def make_simps sbind_def smodify_def tm_save_apply sret_def example_instance_def demo_state_def
        QueueManager_init_def QueueManager_put_def)
  show ?thesis
    using queue_listed [OF _ _ i(1)] example_listable i by (auto simp: typed_call_def)
qed

theorem ill_typed_artifact_blocks_listing_witness:
  "\<exists>i'. run_method example_bus ''root'' (ArtifactDelete ''deb'' ''sid'' ''main'' (PDict [(''name'', PInt 5),
      (''architecture'', PStr ''src''), (''version'', PStr ''1''), (''size'', PInt 0)])) example_instance
      = (Inr (TaskId (Some ''t9'')), i') \<and> read_call example_bus Queue i' = Inl (PyExc TypeErr)"
  using ill_typed_artifact_blocks_listing [OF example_listable [OF example_get] refl, of example_bus "''root''"]
  by (simp add: example_bus_def)

end
