(* ===== verification/DBusClient.thy ===== *)
theory DBusClient imports TaskListing begin

text \<open>
  \<^verbatim>\<open>fatbuildr/protocols/dbus/client.py\<close>: the clients of the D-Bus service, composed with the server
  they talk to. A client's operation is an action on the state of the server. An error that the
  program declares crosses the bus under its name; any other exception of the server arrives as a
  generic error of the bus library, as does a reply that has not the declared type. Objects that are
  received are their attributes.
\<close>

section \<open>The bus\<close>

record connection =
  co_env :: dbus_env
  co_now :: int
  co_sender :: string
  co_instance :: string

type_synonym 'a cact = "(dbus_server, 'a) act"
type_synonym obj = "(string \<times> pyval) list"

definition remote :: "dbus_reply dres \<Rightarrow> dbus_reply dres" where
  "remote r =
     (case r of
        Inl (PyExc _) \<Rightarrow> Inl (PyExc DBusLibErr)
      | Inr (TaskId None) \<Rightarrow> Inl (PyExc DBusLibErr)
      | _ \<Rightarrow> r)"

definition proxy :: "connection \<Rightarrow> dbus_call \<Rightarrow> dbus_server \<Rightarrow> dbus_reply dres \<times> dbus_server" where
  "proxy C call s =
     (let (r, s') = handle_call (co_env C) (co_now C) (co_sender C) (co_instance C) call s in (remote r, s'))"

text \<open>The decorator: the errors of the program become those of the clients, in the order of its clauses.\<close>

definition check_dbus_errors :: "'a dres \<Rightarrow> 'a res" where
  "check_dbus_errors r =
     (case r of
        Inr x \<Rightarrow> Inr x
      | Inl (DBusErr e) \<Rightarrow>
          (if e = ErrorNotAuthorized then Inl FatbuildrServerPermissionError
           else if e = ErrorRegistry then Inl FatbuildrServerRegistryError
           else Inl FatbuildrServerError)
      | Inl (PyExc e) \<Rightarrow> Inl e)"

text \<open>\<^verbatim>\<open>try: ... except d: return None\<close>, inside of the decorated method.\<close>

definition none_on :: "dbus_error \<Rightarrow> 'a dres \<Rightarrow> 'a option dres" where
  "none_on d r = (case r of Inl (DBusErr e) \<Rightarrow> if e = d then Inr None else Inl (DBusErr e)
     | Inl (PyExc e) \<Rightarrow> Inl (PyExc e) | Inr x \<Rightarrow> Inr (Some x))"

definition client_try ::
  "connection \<Rightarrow> dbus_call \<Rightarrow> (dbus_reply dres \<Rightarrow> 'a dres) \<Rightarrow> 'a cact" where
  "client_try C call f s = (let (r, s') = proxy C call s in (check_dbus_errors (f r), s'))"

definition client_call :: "connection \<Rightarrow> dbus_call \<Rightarrow> (dbus_reply \<Rightarrow> 'a res) \<Rightarrow> 'a cact" where
  "client_call C call decode = client_try C call (\<lambda>r. dbind r (\<lambda>x. plain (decode x)))"

section \<open>Replies\<close>

definition as_strs :: "dbus_reply \<Rightarrow> string list res" where
  "as_strs r = (case r of Strs xs \<Rightarrow> Inr xs | _ \<Rightarrow> Inl TypeErr)"

definition as_str :: "dbus_reply \<Rightarrow> string res" where
  "as_str r = (case r of Str x \<Rightarrow> Inr x | _ \<Rightarrow> Inl TypeErr)"

definition as_task_id :: "dbus_reply \<Rightarrow> string res" where
  "as_task_id r = (case r of TaskId (Some x) \<Rightarrow> Inr x | _ \<Rightarrow> Inl TypeErr)"

definition as_object :: "string \<Rightarrow> dbus_reply \<Rightarrow> obj res" where
  "as_object cls r =
     (case r of Struct st \<Rightarrow> rbind (type_fields cls) (\<lambda>fs. fields_from_structure fs st) | _ \<Rightarrow> Inl TypeErr)"

definition as_objects :: "string \<Rightarrow> dbus_reply \<Rightarrow> obj list res" where
  "as_objects cls r =
     (case r of
        Structs sts \<Rightarrow> rbind (type_fields cls) (\<lambda>fs. rmapM (fields_from_structure fs) sts)
      | _ \<Rightarrow> Inl TypeErr)"

definition as_task :: "dbus_reply \<Rightarrow> obj res" where
  "as_task r = (case r of Struct st \<Rightarrow> task_from_structure st | _ \<Rightarrow> Inl TypeErr)"

definition as_tasks :: "dbus_reply \<Rightarrow> obj list res" where
  "as_tasks r = (case r of Structs sts \<Rightarrow> rmapM task_from_structure sts | _ \<Rightarrow> Inl TypeErr)"

section \<open>Connection\<close>

text \<open>\<^verbatim>\<open>DBusInstanceClient.__init__\<close>: the object of the instance.\<close>

definition client_connect :: "connection \<Rightarrow> string cact" where
  "client_connect C s =
     (let (r, s') = get_instance (co_instance C) (co_now C) s
      in (check_dbus_errors (case r of
            Inl (DBusErr e) \<Rightarrow> if e = ErrorUnknownInstance then Inl (PyExc FatbuildrServerInstanceError) else Inl (DBusErr e)
          | _ \<Rightarrow> r), s'))"

definition client_instances :: "connection \<Rightarrow> obj list cact" where
  "client_instances C s =
     (let (r, s') = list_instances (co_env C) (co_now C) (co_sender C) s
      in (check_dbus_errors (dbind (remote r) (\<lambda>x. plain (as_objects ''DBusInstance'' x))), s'))"

section \<open>Calls\<close>

definition client_instance :: "connection \<Rightarrow> obj cact" where
  "client_instance C = client_call C Instance (as_object ''DBusInstance'')"

definition client_pipelines_formats :: "connection \<Rightarrow> string list cact" where
  "client_pipelines_formats C = client_call C PipelinesFormats as_strs"

definition client_pipelines_architectures :: "connection \<Rightarrow> string list cact" where
  "client_pipelines_architectures C = client_call C PipelinesArchitectures as_strs"

definition client_pipelines_format_distributions :: "connection \<Rightarrow> string \<Rightarrow> string list cact" where
  "client_pipelines_format_distributions C fmt = client_call C (PipelinesFormatDistributions fmt) as_strs"

definition client_pipelines_distribution_format :: "connection \<Rightarrow> string \<Rightarrow> string cact" where
  "client_pipelines_distribution_format C d = client_call C (PipelinesDistributionFormat d) as_str"

definition client_pipelines_distribution_derivatives :: "connection \<Rightarrow> string \<Rightarrow> string list cact" where
  "client_pipelines_distribution_derivatives C d = client_call C (PipelinesDistributionDerivatives d) as_strs"

definition client_pipelines_distribution_environment :: "connection \<Rightarrow> string \<Rightarrow> string option cact" where
  "client_pipelines_distribution_environment C d = client_call C (PipelinesDistributionEnvironment d) (\<lambda>r. rmap (\<lambda>env. if env = ''none'' then None else Some env) (as_str r))"

definition client_pipelines_derivative_formats :: "connection \<Rightarrow> string \<Rightarrow> string list cact" where
  "client_pipelines_derivative_formats C dv = client_call C (PipelinesDerivativeFormats dv) as_strs"

definition client_formats :: "connection \<Rightarrow> string list cact" where
  "client_formats C = client_call C Formats as_strs"

definition client_distributions :: "connection \<Rightarrow> string \<Rightarrow> string list cact" where
  "client_distributions C fmt = client_call C (Distributions fmt) as_strs"

definition client_derivatives :: "connection \<Rightarrow> string \<Rightarrow> string \<Rightarrow> string list cact" where
  "client_derivatives C fmt d = client_call C (Derivatives fmt d) as_strs"

definition client_artifacts :: "connection \<Rightarrow> string \<Rightarrow> string \<Rightarrow> string \<Rightarrow> obj list cact" where
  "client_artifacts C fmt d dv = client_call C (Artifacts fmt d dv) (as_objects ''DBusArtifact'')"

definition client_artifact_bins :: "connection \<Rightarrow> string \<Rightarrow> string \<Rightarrow> string \<Rightarrow> string \<Rightarrow> obj list cact" where
  "client_artifact_bins C fmt d dv a = client_call C (ArtifactBinaries fmt d dv a) (as_objects ''DBusArtifact'')"

definition client_artifact_src :: "connection \<Rightarrow> string \<Rightarrow> string \<Rightarrow> string \<Rightarrow> string \<Rightarrow> obj cact" where
  "client_artifact_src C fmt d dv a = client_call C (ArtifactSource fmt d dv a) (as_object ''DBusArtifact'')"

definition client_changelog :: "connection \<Rightarrow> string \<Rightarrow> string \<Rightarrow> string \<Rightarrow> string \<Rightarrow> string \<Rightarrow> obj list cact" where
  "client_changelog C fmt d dv arch a = client_call C (Changelog fmt d dv arch a) (as_objects ''DBusChangelogEntry'')"

definition client_artifact_content :: "connection \<Rightarrow> string \<Rightarrow> string \<Rightarrow> string \<Rightarrow> string \<Rightarrow> string \<Rightarrow> obj list cact" where
  "client_artifact_content C fmt d dv arch a = client_call C (ArtifactContent fmt d dv arch a) (as_objects ''DBusArtifactMember'')"

definition client_queue :: "connection \<Rightarrow> obj list cact" where
  "client_queue C = client_call C Queue as_tasks"

definition client_history :: "connection \<Rightarrow> int \<Rightarrow> obj list cact" where
  "client_history C limit = client_call C (History limit) as_tasks"

definition client_history_purge :: "connection \<Rightarrow> string cact" where
  "client_history_purge C = client_call C HistoryPurge as_task_id"

definition client_keyring_create :: "connection \<Rightarrow> string cact" where
  "client_keyring_create C = client_call C KeyringCreate as_task_id"

definition client_keyring_renew :: "connection \<Rightarrow> string \<Rightarrow> string cact" where
  "client_keyring_renew C duration = client_call C (KeyringRenew duration) as_task_id"

definition client_image_create :: "connection \<Rightarrow> string \<Rightarrow> bool \<Rightarrow> string cact" where
  "client_image_create C fmt force = client_call C (ImageCreate fmt force) as_task_id"

definition client_image_update :: "connection \<Rightarrow> string \<Rightarrow> string cact" where
  "client_image_update C fmt = client_call C (ImageUpdate fmt) as_task_id"

definition client_image_shell :: "connection \<Rightarrow> string \<Rightarrow> string \<Rightarrow> string list \<Rightarrow> string cact" where
  "client_image_shell C fmt tty cmd = client_call C (ImageShell fmt tty cmd) as_task_id"

definition client_image_environment_create :: "connection \<Rightarrow> string \<Rightarrow> string \<Rightarrow> string \<Rightarrow> string cact" where
  "client_image_environment_create C fmt env arch = client_call C (ImageEnvironmentCreate fmt env arch) as_task_id"

definition client_image_environment_update :: "connection \<Rightarrow> string \<Rightarrow> string \<Rightarrow> string \<Rightarrow> string cact" where
  "client_image_environment_update C fmt env arch = client_call C (ImageEnvironmentUpdate fmt env arch) as_task_id"

definition client_image_environment_shell :: "connection \<Rightarrow> string \<Rightarrow> string \<Rightarrow> string \<Rightarrow> string \<Rightarrow> string list \<Rightarrow> string cact" where
  "client_image_environment_shell C fmt env arch tty cmd = client_call C (ImageEnvironmentShell fmt env arch tty cmd) as_task_id"

definition client_token_generate :: "connection \<Rightarrow> string cact" where
  "client_token_generate C = client_call C TokenGenerate as_str"

text \<open>Calls that send a structure: the objects are exported first.\<close>

definition artifact_structure :: "obj \<Rightarrow> pyval res" where
  "artifact_structure a = rbind (type_fields ''DBusArtifact'') (\<lambda>fs. fields_to_structure fs a)"

definition source_structures :: "obj list \<Rightarrow> pyval list res" where
  "source_structures srcs = rbind (type_fields ''DBusSourceArchive'') (\<lambda>fs. rmapM (fields_to_structure fs) srcs)"

definition client_delete_artifact :: "connection \<Rightarrow> string \<Rightarrow> string \<Rightarrow> string \<Rightarrow> obj \<Rightarrow> string cact" where
  "client_delete_artifact C fmt d dv a =
     sbind (slift (artifact_structure a)) (\<lambda>st. client_call C (ArtifactDelete fmt d dv st) as_task_id)"

definition client_delete_artifact_as :: "connection \<Rightarrow> string \<Rightarrow> string \<Rightarrow> string \<Rightarrow> string \<Rightarrow> obj \<Rightarrow> string cact" where
  "client_delete_artifact_as C user fmt d dv a =
     sbind (slift (artifact_structure a)) (\<lambda>st. client_call C (ArtifactDeleteAs user fmt d dv st) as_task_id)"

text \<open>The arguments of a build come with an empty list of structures, which the client fills.\<close>

definition client_build :: "connection \<Rightarrow> build_args \<Rightarrow> obj list \<Rightarrow> string cact" where
  "client_build C b srcs =
     sbind (slift (source_structures srcs)) (\<lambda>sts. client_call C (Build (b\<lparr>ba_sources := sts\<rparr>)) as_task_id)"

definition client_build_as :: "connection \<Rightarrow> string \<Rightarrow> build_args \<Rightarrow> obj list \<Rightarrow> string cact" where
  "client_build_as C user b srcs =
     sbind (slift (source_structures srcs)) (\<lambda>sts. client_call C (BuildAs user (b\<lparr>ba_sources := sts\<rparr>)) as_task_id)"

text \<open>Calls with an answer for a missing object.\<close>

definition client_running :: "connection \<Rightarrow> obj option cact" where
  "client_running C = client_try C Running (\<lambda>r. none_on ErrorNoRunningTask (dbind r (\<lambda>x. plain (as_task x))))"

definition client_keyring :: "connection \<Rightarrow> obj option cact" where
  "client_keyring C = client_try C Keyring (\<lambda>r. none_on ErrorNoKeyring (dbind r (\<lambda>x. plain (as_object ''DBusKeyring'' x))))"

definition client_keyring_export :: "connection \<Rightarrow> string option cact" where
  "client_keyring_export C = client_try C KeyringExport (\<lambda>r. none_on ErrorNoKeyring (dbind r (\<lambda>x. plain (as_str x))))"

section \<open>Search of a task\<close>

definition has_id :: "string \<Rightarrow> obj \<Rightarrow> bool" where
  "has_id i t \<longleftrightarrow> map_of t ''id'' = Some (PStr i)"

text \<open>\<^verbatim>\<open>get\<close>: the queue, then the running task, then the whole history; each is read when the previous
  one does not have the task. The server works between the reads: its steps are \<open>step1\<close> and \<open>step2\<close>.\<close>

definition client_get_archived :: "connection \<Rightarrow> string \<Rightarrow> (dbus_server \<Rightarrow> dbus_server) \<Rightarrow> obj cact" where
  "client_get_archived C task_id step =
     sbind (smodify step) (\<lambda>_. sbind (client_history C 0) (\<lambda>archived.
       (case find (has_id task_id) archived of Some t \<Rightarrow> sret t | None \<Rightarrow> slift (Inl FatbuildrServerError))))"

definition client_get :: "connection \<Rightarrow> string \<Rightarrow>
    (dbus_server \<Rightarrow> dbus_server) \<Rightarrow> (dbus_server \<Rightarrow> dbus_server) \<Rightarrow> obj cact" where
  "client_get C task_id step1 step2 =
     sbind (client_queue C) (\<lambda>queued.
       (case find (has_id task_id) queued of
          Some t \<Rightarrow> sret t
        | None \<Rightarrow>
            sbind (smodify step1) (\<lambda>_. sbind (client_running C) (\<lambda>running.
              (case running of
                 Some t \<Rightarrow> if has_id task_id t then sret t else client_get_archived C task_id step2
               | None \<Rightarrow> client_get_archived C task_id step2)))))"

section \<open>Console\<close>

datatype console_source = ConsoleSocket pyval bool | ConsoleJournal pyval bool

definition client_watch :: "obj \<Rightarrow> bool \<Rightarrow> console_source res" where
  "client_watch task binary =
     (case map_of task ''io'' of
        None \<Rightarrow> Inl AssertionErr
      | Some io \<Rightarrow> rmap (\<lambda>st. if st = PStr ''running'' then ConsoleSocket io binary else ConsoleJournal io binary)
          (getattr task ''state''))"

end
