(* ===== verification/Policy.thy ===== *)
theory Policy imports FileSys begin

text \<open>
  \<^verbatim>\<open>fatbuildr/protocols/http/server/policy.py\<close>: the roles of the access policy of the web server and
  its two decisions. The file is what \<^verbatim>\<open>configparser\<close> reads: sections of options, whose value may be
  missing. The members of the groups of the system are a parameter.
\<close>

section \<open>Loading\<close>

record policy_role =
  po_name :: string
  po_members :: "string list option"
  po_actions :: "string set"

type_synonym policy_file = "(string, (string, string option) dict) dict"

definition ANONYMOUS :: string where
  "ANONYMOUS = ''anonymous''"

definition conf_options :: "policy_file \<Rightarrow> string \<Rightarrow> string list res" where
  "conf_options f sect = (case dict_get f sect of None \<Rightarrow> Inl NoSectionErr | Some d \<Rightarrow> Inr (dict_keys d))"

definition conf_get :: "policy_file \<Rightarrow> string \<Rightarrow> string \<Rightarrow> string option res" where
  "conf_get f sect opt =
     (case dict_get f sect of
        None \<Rightarrow> Inl NoSectionErr
      | Some d \<Rightarrow> (case dict_get d opt of None \<Rightarrow> Inl NoOptionErr | Some v \<Rightarrow> Inr v))"

text \<open>\<^verbatim>\<open>role_actions\<close>: the loop variable takes the name of the parameter, so that the name of each role
  is compared with the role itself, a string with an object. The error is returned, not raised.\<close>

datatype actions_answer = Actions "string set" | ErrorObject exn

definition name_is_role :: "string \<Rightarrow> policy_role \<Rightarrow> bool" where
  "name_is_role name r = False"

definition role_actions :: "policy_role list \<Rightarrow> string \<Rightarrow> actions_answer" where
  "role_actions roles name =
     (case find (\<lambda>r. name_is_role (po_name r) r) roles of
        Some r \<Rightarrow> Actions (po_actions r)
      | None \<Rightarrow> ErrorObject FatbuildrRuntimeError)"

text \<open>\<^verbatim>\<open>set.union\<close>: an error is no iterable. Its result is dropped.\<close>

definition set_union :: "string set \<Rightarrow> actions_answer \<Rightarrow> string set res" where
  "set_union a x = (case x of Actions b \<Rightarrow> Inr (a \<union> b) | ErrorObject _ \<Rightarrow> Inl TypeErr)"

definition expand_step :: "policy_role list \<Rightarrow> string \<Rightarrow> string set \<Rightarrow> string set res" where
  "expand_step roles action actions =
     (if startswith action ''@'' then rmap (\<lambda>_. actions) (set_union actions (role_actions roles (drop 1 action)))
      else Inr (insert action actions))"

definition expand_actions :: "policy_role list \<Rightarrow> string option \<Rightarrow> string set res" where
  "expand_actions roles actions_str =
     (case actions_str of
        None \<Rightarrow> Inl AttributeErr
      | Some str \<Rightarrow> rfold (expand_step roles) (split_on CHR '','' str) {})"

definition expand_members :: "string option \<Rightarrow> string list res" where
  "expand_members members_str =
     (case members_str of None \<Rightarrow> Inl AttributeErr | Some str \<Rightarrow> Inr (split_on CHR '','' str))"

definition load_role :: "policy_file \<Rightarrow> string \<Rightarrow> policy_role list \<Rightarrow> policy_role list res" where
  "load_role f opt roles =
     rbind (rbind (conf_get f opt ''actions'') (expand_actions roles)) (\<lambda>actions.
     rbind (if opt = ANONYMOUS then Inr None
            else rmap Some (rbind (conf_get f ''roles'' opt) expand_members)) (\<lambda>members.
       Inr (roles @ [\<lparr>po_name = opt, po_members = members, po_actions = actions\<rparr>])))"

definition load_policy :: "policy_file \<Rightarrow> policy_role list res" where
  "load_policy f = rbind (conf_options f ''roles'') (\<lambda>opts. rfold (load_role f) opts [])"

text \<open>The site's policy when it exists, else the vendor's.\<close>

definition PolicyManager_init ::
  "(string \<Rightarrow> policy_file res) \<Rightarrow> path \<Rightarrow> path \<Rightarrow> node \<Rightarrow> policy_role list res" where
  "PolicyManager_init parse site vendor fs =
     rbind (fs_read fs (if fs_exists fs site then site else vendor)) (\<lambda>txt. rbind (parse txt) load_policy)"

section \<open>Decisions\<close>

definition allow_anonymous :: "policy_role list \<Rightarrow> bool" where
  "allow_anonymous roles \<longleftrightarrow> (\<exists>r \<in> set roles. po_name r = ANONYMOUS)"

text \<open>\<open>groups\<close> gives the members of a group, none for a group that does not exist.\<close>

type_synonym unix_groups = "string \<Rightarrow> string list option"

definition member_matches :: "unix_groups \<Rightarrow> string \<Rightarrow> string \<Rightarrow> bool res" where
  "member_matches groups user member =
     (if member = user then Inr True
      else if startswith member ''@'' then
        (case groups (drop 1 member) of None \<Rightarrow> Inl KeyErr | Some us \<Rightarrow> Inr (user \<in> set us))
      else Inr False)"

definition has_role :: "unix_groups \<Rightarrow> string \<Rightarrow> policy_role \<Rightarrow> bool res" where
  "has_role groups user r =
     (case po_members r of
        None \<Rightarrow> Inr True
      | Some ms \<Rightarrow> rmap (\<lambda>bs. True \<in> set bs) (rmapM (member_matches groups user) ms))"

definition user_roles :: "unix_groups \<Rightarrow> policy_role list \<Rightarrow> string \<Rightarrow> policy_role list res" where
  "user_roles groups roles user =
     rmap (\<lambda>bs. map fst (filter snd (zip roles bs))) (rmapM (has_role groups user) roles)"

definition validate_anonymous_action :: "policy_role list \<Rightarrow> string \<Rightarrow> bool" where
  "validate_anonymous_action roles action \<longleftrightarrow> (\<exists>r \<in> set roles. po_name r = ANONYMOUS \<and> action \<in> po_actions r)"

definition validate_user_action :: "unix_groups \<Rightarrow> policy_role list \<Rightarrow> string \<Rightarrow> string \<Rightarrow> bool res" where
  "validate_user_action groups roles user action =
     rmap (\<lambda>rs. \<exists>r \<in> set rs. action \<in> po_actions r) (user_roles groups roles user)"

section \<open>Lemmas\<close>

lemma role_actions_never: "role_actions roles name = ErrorObject FatbuildrRuntimeError"
  by (auto simp: role_actions_def name_is_role_def find_None_iff split: option.splits)

lemma expand_step_iff:
  "expand_step roles a acc = (if startswith a ''@'' then Inl TypeErr else Inr (insert a acc))"
  by (simp add: expand_step_def role_actions_never set_union_def)

lemma expand_fold:
  "rfold (expand_step roles) xs acc =
     (if \<exists>a \<in> set xs. startswith a ''@'' then Inl TypeErr else Inr (acc \<union> set xs))"
  by (induction xs arbitrary: acc) (auto simp: expand_step_iff)

text \<open>The items of an option of the file.\<close>

definition items :: "policy_file \<Rightarrow> string \<Rightarrow> string \<Rightarrow> string list" where
  "items f sect opt =
     (case conf_get f sect opt of Inr (Some str) \<Rightarrow> split_on CHR '','' str | _ \<Rightarrow> [])"

definition role_ok :: "policy_file \<Rightarrow> string \<Rightarrow> policy_role \<Rightarrow> bool" where
  "role_ok f opt r \<longleftrightarrow> po_name r = opt \<and> po_actions r = set (items f opt ''actions'')
     \<and> (\<forall>a \<in> set (items f opt ''actions''). \<not> startswith a ''@'')
     \<and> po_members r = (if opt = ANONYMOUS then None else Some (items f ''roles'' opt))"

lemma load_role_ok:
  "load_role f opt roles = Inr roles' \<Longrightarrow> \<exists>r. roles' = roles @ [r] \<and> role_ok f opt r"
  by (auto simp: load_role_def rbind_Inr_conv rmap_Inr_conv expand_actions_def expand_members_def expand_fold
      role_ok_def items_def split: option.splits if_splits)

lemma load_roles_ok:
  "rfold (load_role f) opts roles = Inr roles' \<Longrightarrow> \<exists>rs. roles' = roles @ rs \<and> list_all2 (role_ok f) opts rs"
proof (induction opts arbitrary: roles)
  case (Cons opt opts)
  then obtain u where u: "load_role f opt roles = Inr u" "rfold (load_role f) opts u = Inr roles'"
    by (auto simp: rbind_Inr_conv)
  with load_role_ok Cons.IH obtain r rs where "u = roles @ [r]" "role_ok f opt r" "roles' = u @ rs"
    "list_all2 (role_ok f) opts rs" by blast
  then show ?case by (intro exI [of _ "r # rs"]) simp
qed simp

lemma load_policy_ok:
  assumes "load_policy f = Inr roles"
  obtains opts where "conf_options f ''roles'' = Inr opts" "list_all2 (role_ok f) opts roles"
  using assms load_roles_ok [of f _ "[]" roles] by (auto simp: load_policy_def rbind_Inr_conv)

text \<open>The match of a list of members, when no group is missing.\<close>

definition matches :: "unix_groups \<Rightarrow> string \<Rightarrow> string list \<Rightarrow> bool" where
  "matches groups user ms \<longleftrightarrow> (\<exists>m \<in> set ms. m = user \<or>
     (startswith m ''@'' \<and> (\<exists>us. groups (drop 1 m) = Some us \<and> user \<in> set us)))"

lemma member_matches_value: "member_matches groups user m = Inr b \<Longrightarrow> b = matches groups user [m]"
  by (auto simp: member_matches_def matches_def split: if_splits option.splits)

lemma members_match:
  "rmapM (member_matches groups user) ms = Inr bs \<Longrightarrow> True \<in> set bs \<longleftrightarrow> matches groups user ms"
proof (induction ms arbitrary: bs)
  case (Cons m ms)
  then obtain b bs' where "member_matches groups user m = Inr b" "bs = b # bs'"
    "rmapM (member_matches groups user) ms = Inr bs'"
    by (auto simp: rbind_Inr_conv)
  with Cons.IH member_matches_value [of groups user m b] show ?case
    by (auto simp: matches_def)
qed (simp add: matches_def)

lemma has_role_value:
  "has_role groups user r = Inr b \<Longrightarrow>
     b \<longleftrightarrow> (case po_members r of None \<Rightarrow> True | Some ms \<Rightarrow> matches groups user ms)"
  using members_match by (auto simp: has_role_def rmap_Inr_conv split: option.splits)

lemma user_roles_set:
  assumes "user_roles groups roles user = Inr rs"
  shows "set rs = {r \<in> set roles. case po_members r of None \<Rightarrow> True | Some ms \<Rightarrow> matches groups user ms}"
proof -
  obtain bs where bs: "rmapM (has_role groups user) roles = Inr bs" and rs: "rs = map fst (filter snd (zip roles bs))"
    using assms by (auto simp: user_roles_def rmap_Inr_conv)
  from bs have "list_all2 (\<lambda>r b. b \<longleftrightarrow> (case po_members r of None \<Rightarrow> True | Some ms \<Rightarrow> matches groups user ms)) roles bs"
    by (auto simp: rmapM_Inr_list_all2 elim!: list_all2_mono dest: has_role_value)
  then show ?thesis
    unfolding rs by (induction rule: list_all2_induct) auto
qed

text \<open>C17. The decision of the policy, on the text of the file: when it could be loaded, and when the groups that
  it names exist, a user may perform an action exactly if some role lists the action literally and
  is the anonymous one, or has the user or a group of the user among its members.\<close>

theorem policy_decision:
  assumes "load_policy f = Inr roles" "validate_user_action groups roles user action = Inr b"
  shows "b \<longleftrightarrow> (\<exists>opts opt. conf_options f ''roles'' = Inr opts \<and> opt \<in> set opts \<and> action \<in> set (items f opt ''actions'')
    \<and> (opt = ANONYMOUS \<or> matches groups user (items f ''roles'' opt)))"
proof -
  obtain opts where opts: "conf_options f ''roles'' = Inr opts" "list_all2 (role_ok f) opts roles"
    using load_policy_ok [OF assms(1)] .
  obtain rs where rs: "user_roles groups roles user = Inr rs" "b \<longleftrightarrow> (\<exists>r \<in> set rs. action \<in> po_actions r)"
    using assms(2) by (auto simp: validate_user_action_def rmap_Inr_conv)
  from opts(2) have "(\<exists>r \<in> set roles. (case po_members r of None \<Rightarrow> True | Some ms \<Rightarrow> matches groups user ms)
      \<and> action \<in> po_actions r) \<longleftrightarrow>
    (\<exists>opt \<in> set opts. action \<in> set (items f opt ''actions'')
      \<and> (opt = ANONYMOUS \<or> matches groups user (items f ''roles'' opt)))"
    by (induction rule: list_all2_induct) (auto simp: role_ok_def split: if_splits)
  then show ?thesis using rs opts(1) by (auto simp: user_roles_set [OF rs(1)])
qed

text \<open>Roles that include other roles do not work: when the actions of a declared role have an item with
  the prefix \<^verbatim>\<open>@\<close>, the policy cannot be loaded, whatever role the item names.\<close>

theorem role_inclusion_rejected:
  assumes "conf_options f ''roles'' = Inr opts" "opt \<in> set opts" "action \<in> set (items f opt ''actions'')"
    and "startswith action ''@''"
  shows "\<exists>e. load_policy f = Inl e"
proof (rule ccontr)
  assume "\<not> ?thesis"
  then obtain roles where roles: "load_policy f = Inr roles" by (cases "load_policy f") auto
  then have "list_all2 (role_ok f) opts roles"
    using load_policy_ok assms(1) by (metis Inr_inject)
  then have "\<forall>opt \<in> set opts. \<exists>r. role_ok f opt r"
    by (metis in_set_conv_nth list_all2_conv_all_nth)
  with assms(2-4) show False by (auto simp: role_ok_def)
qed

section \<open>Witnesses\<close>

text \<open>The vendor's policy, and the example of the documentation of roles that extend another.\<close>

definition vendor_policy :: policy_file where
  "vendor_policy =
     [(''roles'', [(''anonymous'', None), (''users'', Some ''@fatbuildr'')]),
      (''anonymous'', [(''actions'', Some ''view-pipeline,view-registry,view-task,view-keyring'')]),
      (''users'', [(''actions'', Some ''build,edit-registry'')])]"

definition extended_policy :: policy_file where
  "extended_policy =
     [(''roles'', [(''users'', Some ''@devs,john''), (''admins'', Some ''mary'')]),
      (''users'', [(''actions'', Some ''view-task'')]),
      (''admins'', [(''actions'', Some ''@users,view-keyring'')])]"

definition vendor_groups :: unix_groups where
  "vendor_groups g = (if g = ''fatbuildr'' then Some [''alice''] else None)"

lemma vendor_loaded:
  "load_policy vendor_policy = Inr
     [\<lparr>po_name = ''anonymous'', po_members = None,
        po_actions = {''view-pipeline'', ''view-registry'', ''view-task'', ''view-keyring''}\<rparr>,
      \<lparr>po_name = ''users'', po_members = Some [''@fatbuildr''], po_actions = {''build'', ''edit-registry''}\<rparr>]"
  by (auto simp: load_policy_def vendor_policy_def conf_options_def conf_get_def dict_get_def dict_keys_def load_role_def
      ANONYMOUS_def expand_actions_def expand_members_def expand_step_iff startswith_def)

lemma policy_decision_witness:
  "validate_user_action vendor_groups [\<lparr>po_name = ''anonymous'', po_members = None,
        po_actions = {''view-pipeline'', ''view-registry'', ''view-task'', ''view-keyring''}\<rparr>,
      \<lparr>po_name = ''users'', po_members = Some [''@fatbuildr''], po_actions = {''build'', ''edit-registry''}\<rparr>]
      ''alice'' ''build'' = Inr True
   \<and> (\<exists>opts opt. conf_options vendor_policy ''roles'' = Inr opts \<and> opt \<in> set opts
       \<and> ''build'' \<in> set (items vendor_policy opt ''actions'')
       \<and> (opt = ANONYMOUS \<or> matches vendor_groups ''alice'' (items vendor_policy ''roles'' opt)))"
proof -
  have "validate_user_action vendor_groups [\<lparr>po_name = ''anonymous'', po_members = None,
        po_actions = {''view-pipeline'', ''view-registry'', ''view-task'', ''view-keyring''}\<rparr>,
      \<lparr>po_name = ''users'', po_members = Some [''@fatbuildr''], po_actions = {''build'', ''edit-registry''}\<rparr>]
      ''alice'' ''build'' = Inr True"
    by (simp add: validate_user_action_def user_roles_def has_role_def member_matches_def vendor_groups_def startswith_def)
  with policy_decision [OF vendor_loaded this] show ?thesis by simp
qed

theorem role_inclusion_rejected_witness: "\<exists>e. load_policy extended_policy = Inl e"
  by (rule role_inclusion_rejected [of _ "[''users'', ''admins'']" "''admins''" "''@users''"])
    (simp_all add: extended_policy_def conf_options_def dict_get_def dict_keys_def items_def conf_get_def startswith_def)

end
