(* ===== verification/Tokens.thy ===== *)
theory Tokens imports FileSys begin

text \<open>
  \<^verbatim>\<open>fatbuildr/tokens.py\<close>: the signing key of an instance, the tokens that the server generates and
  decodes with it, and the directory of tokens of a client, where the name of a file is the encoding
  of an address by \<^verbatim>\<open>base64\<close>. The library of JSON web tokens, the random generator and the clock are
  parameters.
\<close>

section \<open>The standard library's base64\<close>

definition b64_alphabet :: string where
  "b64_alphabet = ''ABCDEFGHIJKLMNOPQRSTUVWXYZabcdefghijklmnopqrstuvwxyz0123456789+/''"

definition b64_char :: "nat \<Rightarrow> char" where
  "b64_char n = b64_alphabet ! n"

fun index_of :: "char \<Rightarrow> string \<Rightarrow> nat option" where
  "index_of c [] = None"
| "index_of c (x # xs) = (if x = c then Some 0 else map_option Suc (index_of c xs))"

definition b64_value :: "char \<Rightarrow> nat option" where
  "b64_value c = index_of c b64_alphabet"

fun b64_sextets :: "nat list \<Rightarrow> string" where
  "b64_sextets [] = []"
| "b64_sextets [a] = [b64_char (a div 4), b64_char (a mod 4 * 16), CHR ''='', CHR ''='']"
| "b64_sextets [a, b] = [b64_char (a div 4), b64_char (a mod 4 * 16 + b div 16), b64_char (b mod 16 * 4), CHR ''='']"
| "b64_sextets (a # b # c # xs) =
     [b64_char (a div 4), b64_char (a mod 4 * 16 + b div 16), b64_char (b mod 16 * 4 + c div 64), b64_char (c mod 64)]
     @ b64_sextets xs"

definition b64encode :: "string \<Rightarrow> string" where
  "b64encode s = b64_sextets (map of_char s)"

text \<open>The bytes of an incomplete group.\<close>

fun quad_bytes :: "nat list \<Rightarrow> nat list" where
  "quad_bytes [x, y] = [x * 4 + y div 16]"
| "quad_bytes [x, y, z] = [x * 4 + y div 16, y mod 16 * 16 + z div 4]"
| "quad_bytes [x, y, z, t] = [x * 4 + y div 16, y mod 16 * 16 + z div 4, z mod 4 * 64 + t]"
| "quad_bytes _ = []"

text \<open>The decoder skips characters that are not of the alphabet, and stops at the padding that
  completes a group.\<close>

fun a2b :: "nat list \<Rightarrow> nat \<Rightarrow> string \<Rightarrow> nat list res" where
  "a2b quad pads [] = (if quad = [] then Inr [] else Inl ValueErr)"
| "a2b quad pads (c # cs) =
     (if c = CHR ''='' then
        (if 2 \<le> length quad then
           (if 4 \<le> length quad + Suc pads then Inr (quad_bytes quad) else a2b quad (Suc pads) cs)
         else a2b quad pads cs)
      else (case b64_value c of
              None \<Rightarrow> a2b quad pads cs
            | Some v \<Rightarrow>
                (if length quad = 3 then rmap (\<lambda>bs. quad_bytes (quad @ [v]) @ bs) (a2b [] 0 cs)
                 else a2b (quad @ [v]) 0 cs)))"

definition b64decode :: "string \<Rightarrow> string res" where
  "b64decode s = rmap (map char_of) (a2b [] 0 s)"

section \<open>Tokens of the server\<close>

record jwt_payload =
  jp_iat :: int
  jp_exp :: int
  jp_aud :: string
  jp_sub :: string

datatype jwt_answer = JwtPayload jwt_payload | JwtInvalidSignature | JwtExpired | JwtOther

text \<open>The library: encoding with a key and an algorithm; decoding for an audience at some time; reading
  without verification.\<close>

record jwt_lib =
  jw_encode :: "jwt_payload \<Rightarrow> string \<Rightarrow> string \<Rightarrow> string"
  jw_decode :: "string \<Rightarrow> string \<Rightarrow> string \<Rightarrow> string \<Rightarrow> int \<Rightarrow> jwt_answer"
  jw_peek :: "string \<Rightarrow> jwt_payload option"

record tokens_conf =
  tc_storage :: path
  tc_audience :: string
  tc_algorithm :: string
  tc_duration :: int

text \<open>\<^verbatim>\<open>_load\<close>: the key, and the file system after it.\<close>

definition tokens_load :: "tokens_conf \<Rightarrow> string \<Rightarrow> bool \<Rightarrow> string \<Rightarrow> node \<Rightarrow> (string \<times> node) res" where
  "tokens_load c inst create random fs =
     (let dir = tc_storage c @ [inst]; key_path = dir @ [''key''] in
      rbind (if \<not> fs_exists fs dir \<and> create then fs_mkdir dir fs else Inr fs) (\<lambda>fs.
      rbind (if \<not> fs_exists fs key_path
             then (if create then fs_write key_path random fs else Inl FatbuildrRuntimeError)
             else Inr fs) (\<lambda>fs.
        rmap (\<lambda>key. (key, fs)) (fs_read fs key_path))))"

definition token_decode :: "jwt_lib \<Rightarrow> tokens_conf \<Rightarrow> int \<Rightarrow> string \<Rightarrow> string \<Rightarrow> string res" where
  "token_decode J c now key token =
     (case jw_decode J token key (tc_audience c) (tc_algorithm c) now of
        JwtInvalidSignature \<Rightarrow> Inl FatbuildrTokenError
      | JwtExpired \<Rightarrow> Inl FatbuildrTokenError
      | JwtOther \<Rightarrow> Inl JWTErr
      | JwtPayload p \<Rightarrow> Inr (jp_sub p))"

definition token_generate :: "jwt_lib \<Rightarrow> tokens_conf \<Rightarrow> int \<Rightarrow> string \<Rightarrow> string \<Rightarrow> string" where
  "token_generate J c now key user =
     jw_encode J \<lparr>jp_iat = now, jp_exp = now + tc_duration c * 86400, jp_aud = tc_audience c, jp_sub = user\<rparr>
       key (tc_algorithm c)"

section \<open>Tokens of a client\<close>

record client_token =
  ct_path :: path
  ct_uri :: string
  ct_raw :: string
  ct_payload :: jwt_payload

definition EXTENSION :: string where
  "EXTENSION = ''.token''"

definition path_token_uri :: "string \<Rightarrow> string res" where
  "path_token_uri name = b64decode (path_stem name)"

definition uri_token_filename :: "string \<Rightarrow> string" where
  "uri_token_filename uri = b64encode uri @ EXTENSION"

text \<open>\<^verbatim>\<open>joinpath\<close>: a name that has slashes is a relative path, or an absolute one.\<close>

definition token_path :: "path \<Rightarrow> string \<Rightarrow> path" where
  "token_path dir uri =
     (let name = uri_token_filename uri; parts = filter (\<lambda>p. p \<noteq> []) (split_on CHR ''/'' name)
      in if startswith name ''/'' then parts else dir @ parts)"

definition load_token_file :: "jwt_lib \<Rightarrow> node \<Rightarrow> path \<Rightarrow> (string \<times> jwt_payload) res" where
  "load_token_file J fs p =
     (if \<not> fs_exists fs p then Inl FatbuildrRuntimeError
      else rbind (rmap str_strip (fs_read fs p)) (\<lambda>token.
        (case jw_peek J token of None \<Rightarrow> Inl JWTErr | Some payload \<Rightarrow> Inr (token, payload))))"

definition client_tokens :: "jwt_lib \<Rightarrow> path \<Rightarrow> node \<Rightarrow> client_token list res" where
  "client_tokens J dir fs =
     rbind (fs_iterdir fs dir) (\<lambda>names.
       rmapM (\<lambda>name. rbind (path_token_uri name) (\<lambda>uri.
           rmap (\<lambda>(raw_token, payload). \<lparr>ct_path = dir @ [name], ct_uri = uri, ct_raw = raw_token, ct_payload = payload\<rparr>)
             (load_token_file J fs (dir @ [name]))))
         (filter (\<lambda>n. endswith n EXTENSION) names))"

definition client_token_load :: "jwt_lib \<Rightarrow> path \<Rightarrow> string \<Rightarrow> node \<Rightarrow> string option res" where
  "client_token_load J dir uri fs =
     rcatch (rmap (Some \<circ> fst) (load_token_file J fs (token_path dir uri)))
       (\<lambda>e. is_a e FatbuildrRuntimeError) (\<lambda>_. Inr None)"

definition client_token_save :: "path \<Rightarrow> string \<Rightarrow> string \<Rightarrow> node \<Rightarrow> node res" where
  "client_token_save dir uri token fs =
     rbind (if \<not> fs_exists fs dir
            then rcatch (fs_mkdir dir fs) (\<lambda>e. is_a e FileNotFoundErr) (\<lambda>_. Inl FatbuildrRuntimeError)
            else Inr fs) (\<lambda>fs.
       fs_write (token_path dir uri) token fs)"

section \<open>Lemmas\<close>

lemma b64_char_value: "n < 64 \<Longrightarrow> b64_value (b64_char n) = Some n"
proof -
  have "\<forall>n \<in> set [0..<64]. b64_value (b64_char n) = Some n" by code_simp
  then show "n < 64 \<Longrightarrow> ?thesis" by simp
qed

lemma b64_char_pad: "n < 64 \<Longrightarrow> b64_char n \<noteq> CHR ''=''"
proof -
  have "\<forall>n \<in> set [0..<64]. b64_char n \<noteq> CHR ''=''" by code_simp
  then show "n < 64 \<Longrightarrow> ?thesis" by simp
qed

lemma b64_char_slash: "n < 63 \<Longrightarrow> b64_char n \<noteq> CHR ''/''"
proof -
  have "\<forall>n \<in> set [0..<63]. b64_char n \<noteq> CHR ''/''" by code_simp
  then show "n < 63 \<Longrightarrow> ?thesis" by simp
qed

lemma small_parts:
  "a mod 4 \<le> (3 :: nat)" "b mod 16 \<le> (15 :: nat)" "c mod 64 \<le> (63 :: nat)"
  "a < 256 \<Longrightarrow> a div 4 \<le> (63 :: nat)" "b < 256 \<Longrightarrow> b div 16 \<le> (15 :: nat)" "c < 256 \<Longrightarrow> c div 64 \<le> (3 :: nat)"
  by linarith+

lemma sextet_bounds:
  "a < 256 \<Longrightarrow> a div 4 < (64 :: nat)" "a mod 4 * 16 < (64 :: nat)" "b < 256 \<Longrightarrow> a mod 4 * 16 + b div 16 < (64 :: nat)"
  "b mod 16 * 4 < (64 :: nat)" "c < 256 \<Longrightarrow> b mod 16 * 4 + c div 64 < (64 :: nat)" "c mod 64 < (64 :: nat)"
  using small_parts(1) [of a] small_parts(2) [of b] small_parts(3) [of c] small_parts(4) [of a] small_parts(5) [of b]
    small_parts(6) [of c]
  by linarith+

lemma split_number:
  "y \<le> 15 \<Longrightarrow> (x * 16 + y) div 16 = (x :: nat)" "y \<le> 15 \<Longrightarrow> (x * 16 + y) mod 16 = (y :: nat)"
  "y \<le> 3 \<Longrightarrow> (x * 4 + y) div 4 = (x :: nat)" "y \<le> 3 \<Longrightarrow> (x * 4 + y) mod 4 = (y :: nat)"
  by simp_all

text \<open>The bytes that the sextets of a group give back.\<close>

lemma byte_parts:
  assumes "a < 256" "b < 256" "c < (256 :: nat)"
  shows "quad_bytes [a div 4, a mod 4 * 16] = [a]"
    and "quad_bytes [a div 4, a mod 4 * 16 + b div 16, b mod 16 * 4] = [a, b]"
    and "quad_bytes [a div 4, a mod 4 * 16 + b div 16, b mod 16 * 4 + c div 64, c mod 64] = [a, b, c]"
  using small_parts(5) [OF assms(2)] small_parts(6) [OF assms(3)] split_number(1,3) [of 0]
  by (simp_all only: quad_bytes.simps split_number div_mult_mod_eq add_0_right)

lemma a2b_char:
  "n < 64 \<Longrightarrow> length quad \<noteq> 3 \<Longrightarrow> a2b quad pads (b64_char n # cs) = a2b (quad @ [n]) 0 cs"
  "n < 64 \<Longrightarrow> length quad = 3 \<Longrightarrow>
     a2b quad pads (b64_char n # cs) = rmap (\<lambda>bs. quad_bytes (quad @ [n]) @ bs) (a2b [] 0 cs)"
  by (simp_all add: b64_char_value b64_char_pad)

lemma a2b_pad:
  "a2b [x, y] 0 [CHR ''='', CHR ''=''] = Inr (quad_bytes [x, y])" "a2b [x, y, z] 0 [CHR ''=''] = Inr (quad_bytes [x, y, z])"
  by (simp_all del: quad_bytes.simps)

lemma a2b_sextets: "\<forall>x \<in> set xs. x < 256 \<Longrightarrow> a2b [] 0 (b64_sextets xs) = Inr xs"
proof (induction xs rule: b64_sextets.induct)
  case (2 a)
  then show ?case
    by (simp add: a2b_char sextet_bounds a2b_pad byte_parts(1) [of a 0 0] del: a2b.simps(2) quad_bytes.simps)
next
  case (3 a b)
  then show ?case
    by (simp add: a2b_char sextet_bounds a2b_pad byte_parts(2) [of a b 0] del: a2b.simps(2) quad_bytes.simps)
next
  case (4 a b c xs)
  then show ?case
    by (simp add: a2b_char sextet_bounds byte_parts(3) [of a b c] del: a2b.simps(2) quad_bytes.simps)
qed simp

lemma b64_roundtrip: "b64decode (b64encode s) = Inr s"
proof -
  have "\<forall>x \<in> set (map of_char s). x < (256 :: nat)" by auto
  from a2b_sextets [OF this] show ?thesis by (simp add: b64decode_def b64encode_def comp_def)
qed

definition flat_name :: "string \<Rightarrow> bool" where
  "flat_name uri \<longleftrightarrow> CHR ''/'' \<notin> set (b64encode uri)"

lemma token_path_flat:
  assumes "flat_name uri"
  shows "token_path dir uri = dir @ [uri_token_filename uri]"
proof -
  have name: "CHR ''/'' \<notin> set (uri_token_filename uri)" "uri_token_filename uri \<noteq> []"
    using assms by (auto simp: flat_name_def uri_token_filename_def EXTENSION_def)
  then have "\<not> startswith (uri_token_filename uri) ''/''"
    by (cases "uri_token_filename uri") (auto simp: startswith_def)
  with name show ?thesis by (simp add: token_path_def)
qed

lemma filename_inj: "uri_token_filename a = uri_token_filename b \<longleftrightarrow> a = b"
  by (metis append_same_eq b64_roundtrip sum.inject(2) uri_token_filename_def)

lemma filename_uri:
  assumes "uri \<noteq> []"
  shows "path_token_uri (uri_token_filename uri) = Inr uri"
proof -
  have "b64encode uri \<noteq> []" using assms b64_roundtrip [of uri] by (auto simp: b64decode_def)
  moreover have "rsplit_max CHR ''.'' (Suc 0) (b64encode uri @ CHR ''.'' # ''token'') = [b64encode uri, ''token'']"
    by (subst rsplit_max_append) simp_all
  ultimately show ?thesis
    by (simp add: path_token_uri_def uri_token_filename_def EXTENSION_def path_stem_def b64_roundtrip)
qed

lemma load_token_lookup:
  assumes "lookup p fs = lookup q gs"
  shows "load_token_file J fs p = load_token_file J gs q"
  using assms by (simp add: load_token_file_def fs_exists_def fs_read_def)

text \<open>C28. Saving a token, then loading the one of the same address, gives the text that was saved without the
  spaces around it, and the tokens of the other addresses stay as they were: the names of the files
  are the addresses encoded, and the listing decodes them back.\<close>

theorem client_token_roundtrip:
  assumes "client_token_save dir uri token fs = Inr fs'" "jw_peek J (str_strip token) = Some p"
    and "flat_name uri" "flat_name other" "other \<noteq> uri"
  shows "client_token_load J dir uri fs' = Inr (Some (str_strip token))
    \<and> client_token_load J dir other fs' = client_token_load J dir other fs
    \<and> (uri \<noteq> [] \<longrightarrow> path_token_uri (uri_token_filename uri) = Inr uri)"
proof (intro conjI impI)
  obtain fs1 where fs1: "fs1 = fs \<and> fs_exists fs dir \<or> \<not> fs_exists fs dir \<and> fs_mkdir dir fs = Inr fs1"
    and w: "fs_write (token_path dir uri) token fs1 = Inr fs'"
    using assms(1) by (auto simp: client_token_save_def rbind_Inr_conv rcatch_def split: if_splits sum.splits)
  note put = write_Inr_put [OF w]
  have here: "lookup (token_path dir uri) fs' = Some (File token)"
    by (rule lookup_put_same [OF put])
  then show "client_token_load J dir uri fs' = Inr (Some (str_strip token))"
    using assms(2) by (simp add: client_token_load_def load_token_file_def fs_exists_def fs_read_def)
  have "apart (token_path dir uri) (token_path dir other)"
    using assms(3-5) by (simp add: token_path_flat filename_inj)
  then have "lookup (token_path dir other) fs' = lookup (token_path dir other) fs1"
    by (rule lookup_put_apart [OF put])
  also have "\<dots> = lookup (token_path dir other) fs"
  proof (cases "fs_exists fs dir")
    case False
    then have "lookup dir fs1 = Some (Dir [])" "lookup dir fs = None"
      using fs1 lookup_put_same [OF mkdir_Inr_put] by (auto simp: fs_exists_def)
    then show ?thesis by (simp add: token_path_flat [OF assms(4)] lookup_append)
  qed (use fs1 in simp)
  finally show "client_token_load J dir other fs' = client_token_load J dir other fs"
    unfolding client_token_load_def using load_token_lookup by metis
next
  show "path_token_uri (uri_token_filename uri) = Inr uri" if "uri \<noteq> []"
    using that by (rule filename_uri)
qed

lemma put_missing_parent:
  "lookup p n = Some (Dir es) \<Longrightarrow> map_of es x = None \<Longrightarrow> put (p @ x # y # ys) m n = Inl FileNotFoundErr"
proof (induction p n rule: lookup.induct)
  case (3 z zs ds)
  then show ?case by (cases zs) (auto split: option.splits)
qed auto

text \<open>An address whose encoding has a slash has no file name: in a directory without the subdirectory of
  that name, which no one creates, its token cannot be saved.\<close>

theorem slashed_token_lost:
  assumes "lookup dir fs = Some (Dir es)" "token_path dir uri = dir @ x # y # ys" "map_of es x = None"
  shows "client_token_save dir uri token fs = Inl FileNotFoundErr \<and> client_token_load J dir uri fs = Inr None"
proof
  have none: "lookup (dir @ x # y # ys) fs = None"
    using assms by (simp add: lookup_append)
  then show "client_token_save dir uri token fs = Inl FileNotFoundErr"
    using assms put_missing_parent [OF assms(1,3)]
    by (simp add: client_token_save_def fs_exists_def fs_write_def fs_is_dir_def)
  show "client_token_load J dir uri fs = Inr None"
    using none assms(2) by (simp add: client_token_load_def load_token_file_def fs_exists_def is_a_def)
qed

section \<open>Witnesses\<close>

definition plain_jwt :: jwt_lib where
  "plain_jwt = \<lparr>jw_encode = (\<lambda>p k a. k @ jp_sub p), jw_decode = (\<lambda>_ _ _ _ _. JwtOther),
     jw_peek = (\<lambda>t. Some \<lparr>jp_iat = 0, jp_exp = 1, jp_aud = ''a'', jp_sub = t\<rparr>)\<rparr>"

lemma client_token_roundtrip_witness:
  "\<exists>fs. client_token_save [''t''] ''http://a'' ''tok'' (Dir []) = Inr fs
     \<and> client_token_load plain_jwt [''t''] ''http://a'' fs = Inr (Some ''tok'')
     \<and> client_token_load plain_jwt [''t''] ''http://b'' fs = client_token_load plain_jwt [''t''] ''http://b'' (Dir [])"
proof -
  have fs: "client_token_save [''t''] ''http://a'' ''tok'' (Dir []) =
      Inr (Dir [(''t'', Dir [(''aHR0cDovL2E=.token'', File ''tok'')])])"
    by code_simp
  have strip: "str_strip ''tok'' = ''tok''" by code_simp
  have peek: "jw_peek plain_jwt (str_strip ''tok'') = Some \<lparr>jp_iat = 0, jp_exp = 1, jp_aud = ''a'', jp_sub = ''tok''\<rparr>"
    by (simp add: strip plain_jwt_def)
  have flat: "flat_name ''http://a''" "flat_name ''http://b''" by code_simp+
  show ?thesis
    using client_token_roundtrip [OF fs peek flat] fs strip by auto
qed

lemma slashed_token_lost_witness:
  "client_token_save [''t''] ''http://hos/?'' ''tok'' (Dir [(''t'', Dir [])]) = Inl FileNotFoundErr"
  by (rule conjunct1 [OF slashed_token_lost [where x = "''aHR0cDovL2hvcy8''" and y = "''.token''" and ys = "[]" and es = "[]"]])
    (simp, code_simp, simp)

end
