(* ===== verification/HttpServer.thy ===== *)
theory HttpServer imports DBusClient Policy Tokens Archive begin

text \<open>
  \<^verbatim>\<open>fatbuildr/protocols/http/server/\<close>: the views of the web server in \<^verbatim>\<open>views.py\<close>, with the check of
  their permission, and the managers of tokens that \<^verbatim>\<open>__init__.py\<close> keeps. A view is an action on the
  state of the web server, which holds the server of the bus it talks to: \<^verbatim>\<open>abort(n)\<close> is the fault
  \<open>Abort n\<close>, an exception that leaves a view is \<open>Uncaught\<close> and ends as an error 500. The routing of
  addresses and the rendering of templates are the library's: a view has the arguments of its route,
  and a page is the name of its template with its variables.
\<close>

section \<open>Requests and answers\<close>

record upload =
  up_field :: string
  up_filename :: string
  up_content :: string

record http_request =
  rq_auth :: "string option"
  rq_args :: "(string, string) dict"
  rq_form :: "(string, string) dict"
  rq_files :: "upload list"

datatype http_answer =
    Json pyval
  | Page string "(string \<times> pyval) list"
  | Attachment string string
  | SentFile path "string option"
  | Console console_source
  | Redirect string
  | PlainText string

datatype web_fault = Abort nat | Uncaught exn

record web_state =
  ws_dbus :: dbus_server
  ws_fs :: node
  ws_keys :: "(string, string) dict"

record web_env =
  we_bus :: dbus_env
  we_now :: int
  we_sender :: string
  we_user :: string
  we_policy :: "policy_role list"
  we_groups :: unix_groups
  we_tokens :: tokens_conf
  we_jwt :: jwt_lib
  we_upload :: path
  we_registry :: path
  we_listing :: bool
  we_candidate :: string
  we_secure :: "string \<Rightarrow> string"
  we_version :: string

section \<open>Actions of the web server\<close>

type_synonym 'a web = "web_state \<Rightarrow> (web_fault + 'a) \<times> web_state"

definition wret :: "'a \<Rightarrow> 'a web" where
  "wret x s = (Inr x, s)"

definition wbind :: "'a web \<Rightarrow> ('a \<Rightarrow> 'b web) \<Rightarrow> 'b web" where
  "wbind m f s = (case m s of (Inl e, s') \<Rightarrow> (Inl e, s') | (Inr x, s') \<Rightarrow> f x s')"

definition abort :: "nat \<Rightarrow> 'a web" where
  "abort n s = (Inl (Abort n), s)"

definition wlift :: "'a res \<Rightarrow> 'a web" where
  "wlift r s = (case r of Inl e \<Rightarrow> (Inl (Uncaught e), s) | Inr x \<Rightarrow> (Inr x, s))"

definition wfs :: "(node \<Rightarrow> node res) \<Rightarrow> unit web" where
  "wfs f s = (case f (ws_fs s) of Inl e \<Rightarrow> (Inl (Uncaught e), s) | Inr n \<Rightarrow> (Inr (), s\<lparr>ws_fs := n\<rparr>))"

definition wbus :: "'a cact \<Rightarrow> 'a web" where
  "wbus m s =
     (case m (ws_dbus s) of
        (Inl e, d) \<Rightarrow> (Inl (Uncaught e), s\<lparr>ws_dbus := d\<rparr>)
      | (Inr x, d) \<Rightarrow> (Inr x, s\<lparr>ws_dbus := d\<rparr>))"

text \<open>\<^verbatim>\<open>except c: abort(n)\<close>\<close>

definition abort_on :: "exn \<Rightarrow> nat \<Rightarrow> 'a web \<Rightarrow> 'a web" where
  "abort_on c n m s =
     (case m s of
        (Inl (Uncaught e), s') \<Rightarrow> (if is_a e c then (Inl (Abort n), s') else (Inl (Uncaught e), s'))
      | r \<Rightarrow> r)"

fun wfold :: "('a \<Rightarrow> 'b \<Rightarrow> 'b web) \<Rightarrow> 'a list \<Rightarrow> 'b \<Rightarrow> 'b web" where
  "wfold f [] acc = wret acc"
| "wfold f (x # xs) acc = wbind (f x acc) (wfold f xs)"

section \<open>Authentication and permission\<close>

text \<open>\<^verbatim>\<open>token_manager\<close>: the key of an instance is read once.\<close>

definition token_manager :: "web_env \<Rightarrow> string \<Rightarrow> string web" where
  "token_manager W inst s =
     (case dict_get (ws_keys s) inst of
        Some key \<Rightarrow> (Inr key, s)
      | None \<Rightarrow>
          (case tokens_load (we_tokens W) inst False [] (ws_fs s) of
             Inl e \<Rightarrow> (Inl (Uncaught (if is_a e FatbuildrRuntimeError then FatbuildrServerInstanceError else e)), s)
           | Inr (key, _) \<Rightarrow> (Inr key, s\<lparr>ws_keys := dict_set (ws_keys s) inst key\<rparr>)))"

definition get_token_user :: "web_env \<Rightarrow> string \<Rightarrow> http_request \<Rightarrow> string option web" where
  "get_token_user W inst rq =
     (case rq_auth rq of
        None \<Rightarrow> wret None
      | Some auth \<Rightarrow>
          if \<not> startswith auth ''Bearer '' then abort 403
          else abort_on FatbuildrServerInstanceError 404 (abort_on FatbuildrTokenError 403
            (wbind (token_manager W inst) (\<lambda>key.
              wlift (rmap Some (token_decode (we_jwt W) (we_tokens W) (we_now W) key
                (split_max CHR '' '' 1 auth ! 1)))))))"

definition check_instance_token_permission :: "web_env \<Rightarrow> string \<Rightarrow> string \<Rightarrow> http_request \<Rightarrow> 'a web \<Rightarrow> 'a web" where
  "check_instance_token_permission W action inst rq view =
     wbind (get_token_user W inst rq) (\<lambda>user.
       (case user of
          None \<Rightarrow>
            if \<not> allow_anonymous (we_policy W) \<or> \<not> validate_anonymous_action (we_policy W) action then abort 403
            else view
        | Some u \<Rightarrow>
            wbind (wlift (validate_user_action (we_groups W) (we_policy W) u action)) (\<lambda>valid.
              if \<not> valid then abort 403 else view)))"

text \<open>\<^verbatim>\<open>get_token_user(...) or 'anonymous'\<close>\<close>

definition request_user :: "web_env \<Rightarrow> string \<Rightarrow> http_request \<Rightarrow> string web" where
  "request_user W inst rq = wbind (get_token_user W inst rq) (\<lambda>user.
     wret (case user of None \<Rightarrow> ''anonymous'' | Some u \<Rightarrow> if u = [] then ''anonymous'' else u))"

definition connection_of :: "web_env \<Rightarrow> string \<Rightarrow> connection" where
  "connection_of W inst = \<lparr>co_env = we_bus W, co_now = we_now W, co_sender = we_sender W, co_instance = inst\<rparr>"

definition get_connection :: "web_env \<Rightarrow> string \<Rightarrow> connection web" where
  "get_connection W inst =
     wbind (abort_on FatbuildrServerInstanceError 404 (wbus (client_connect (connection_of W inst))))
       (\<lambda>_. wret (connection_of W inst))"

section \<open>Views\<close>

definition fb_render_template :: "web_env \<Rightarrow> string \<Rightarrow> (string \<times> pyval) list \<Rightarrow> http_answer" where
  "fb_render_template W template variables = Page template ((''version'', PStr (we_version W)) # variables)"

definition strs :: "string list \<Rightarrow> pyval" where
  "strs xs = PList (map PStr xs)"

definition objs :: "obj list \<Rightarrow> pyval" where
  "objs xs = PList (map PDict xs)"

text \<open>\<^verbatim>\<open>JsonX.export\<close> of a received object.\<close>

definition json_of :: "string \<Rightarrow> obj \<Rightarrow> pyval res" where
  "json_of cls x = rbind (json_type_fields cls) (\<lambda>fs. json_export_fields fs x)"

definition json_list :: "string \<Rightarrow> obj list \<Rightarrow> pyval res" where
  "json_list cls xs = rmap PList (rmapM (json_of cls) xs)"

definition instance_view :: "web_env \<Rightarrow> string \<Rightarrow> http_request \<Rightarrow> http_answer web" where
  "instance_view W inst rq = check_instance_token_permission W ''view-pipeline'' inst rq
     (wbind (get_connection W inst) (\<lambda>C. wbind (wbus (client_instance C)) (\<lambda>i.
      wlift (rmap Json (json_of ''JsonInstance'' i)))))"

definition pipelines_architectures_view :: "web_env \<Rightarrow> string \<Rightarrow> http_request \<Rightarrow> http_answer web" where
  "pipelines_architectures_view W inst rq = check_instance_token_permission W ''view-pipeline'' inst rq
     (wbind (get_connection W inst) (\<lambda>C. wbind (wbus (client_pipelines_architectures C)) (\<lambda>xs. wret (Json (strs xs)))))"

text \<open>The filters of the request: an empty one is no filter.\<close>

definition filter_arg :: "http_request \<Rightarrow> string \<Rightarrow> string option" where
  "filter_arg rq name = (case dict_get (rq_args rq) name of Some v \<Rightarrow> if v = [] then None else Some v | None \<Rightarrow> None)"

definition skips :: "string option \<Rightarrow> 'a \<Rightarrow> (string \<Rightarrow> 'a) \<Rightarrow> bool" where
  "skips flt x f = (case flt of None \<Rightarrow> False | Some v \<Rightarrow> x \<noteq> f v)"

type_synonym formats_result = "(string, pyval list) dict"

definition list_distribution ::
  "connection \<Rightarrow> http_request \<Rightarrow> string \<Rightarrow> string \<Rightarrow> formats_result \<Rightarrow> formats_result web" where
  "list_distribution C rq fmt d result =
     (if skips (filter_arg rq ''distribution'') d id then wret result
      else wbind (wbus (client_pipelines_distribution_environment C d)) (\<lambda>env.
        if skips (filter_arg rq ''environment'') env Some then wret result
        else wbind (wbus (client_pipelines_distribution_derivatives C d)) (\<lambda>dvs.
          (let entry = PDict [(''distribution'', PStr d),
                (''environment'', case env of None \<Rightarrow> PNone | Some e \<Rightarrow> PStr e), (''derivatives'', strs dvs)];
               previous = (case dict_get result fmt of None \<Rightarrow> [] | Some xs \<Rightarrow> xs)
           in wret (dict_set result fmt (previous @ [entry]))))))"

definition list_format :: "connection \<Rightarrow> http_request \<Rightarrow> string \<Rightarrow> formats_result \<Rightarrow> formats_result web" where
  "list_format C rq fmt result =
     (if skips (filter_arg rq ''format'') fmt id then wret result
      else wbind (wbus (client_pipelines_format_distributions C fmt)) (\<lambda>ds.
        wfold (list_distribution C rq fmt) ds result))"

definition pipelines_formats_view :: "web_env \<Rightarrow> string \<Rightarrow> http_request \<Rightarrow> http_answer web" where
  "pipelines_formats_view W inst rq = check_instance_token_permission W ''view-pipeline'' inst rq
     (wbind (get_connection W inst) (\<lambda>C.
      wbind (case filter_arg rq ''derivative'' of
          Some dv \<Rightarrow> abort_on FatbuildrServerError 404 (wbus (client_pipelines_derivative_formats C dv))
        | None \<Rightarrow> wbus (client_pipelines_formats C)) (\<lambda>formats.
      wbind (wfold (list_format C rq) formats []) (\<lambda>result.
        wret (Json (PDict (map (\<lambda>(fmt, es). (fmt, PList es)) result)))))))"

definition index_view :: "web_env \<Rightarrow> bool \<Rightarrow> http_answer web" where
  "index_view W json =
     wbind (wbus (client_instances (connection_of W []))) (\<lambda>is.
       if json then wlift (rmap Json (json_list ''JsonInstance'' is))
       else wret (fb_render_template W ''index.html.j2'' [(''instances'', objs is)]))"

definition registry_view :: "web_env \<Rightarrow> string \<Rightarrow> bool \<Rightarrow> http_request \<Rightarrow> http_answer web" where
  "registry_view W inst json rq = check_instance_token_permission W ''view-registry'' inst rq
     (wbind (get_connection W inst) (\<lambda>C. wbind (wbus (client_formats C)) (\<lambda>formats.
      if json then wret (Json (strs formats))
      else wbind (wbus (client_queue C)) (\<lambda>pending. wbind (wbus (client_running C)) (\<lambda>running.
        wbind (wbus (client_history C 10)) (\<lambda>history.
        wret (fb_render_template W ''registry.html.j2''
          [(''instance'', PStr inst), (''formats'', strs formats), (''pending'', objs pending),
           (''running'', case running of None \<Rightarrow> PNone | Some t \<Rightarrow> PDict t), (''history'', objs history)])))))))"

definition format_view :: "web_env \<Rightarrow> string \<Rightarrow> string \<Rightarrow> bool \<Rightarrow> http_request \<Rightarrow> http_answer web" where
  "format_view W inst fmt json rq = check_instance_token_permission W ''view-registry'' inst rq
     (wbind (get_connection W inst) (\<lambda>C.
      wbind (abort_on FatbuildrServerRegistryError 404 (wbus (client_distributions C fmt))) (\<lambda>ds.
      wret (if json then Json (strs ds)
        else fb_render_template W ''format.html.j2''
          [(''instance'', PStr inst), (''format'', PStr fmt), (''distributions'', strs ds)]))))"

definition distribution_view :: "web_env \<Rightarrow> string \<Rightarrow> string \<Rightarrow> string \<Rightarrow> bool \<Rightarrow> http_request \<Rightarrow> http_answer web" where
  "distribution_view W inst fmt d json rq = check_instance_token_permission W ''view-registry'' inst rq
     (wbind (get_connection W inst) (\<lambda>C.
      wbind (abort_on FatbuildrServerRegistryError 404 (wbus (client_derivatives C fmt d))) (\<lambda>dvs.
      wret (if json then Json (strs dvs)
        else fb_render_template W ''distribution.html.j2''
          [(''instance'', PStr inst), (''format'', PStr fmt), (''distribution'', PStr d), (''derivatives'', strs dvs)]))))"

definition derivative_view ::
  "web_env \<Rightarrow> string \<Rightarrow> string \<Rightarrow> string \<Rightarrow> string \<Rightarrow> bool \<Rightarrow> http_request \<Rightarrow> http_answer web" where
  "derivative_view W inst fmt d dv json rq = check_instance_token_permission W ''view-registry'' inst rq
     (wbind (get_connection W inst) (\<lambda>C.
      wbind (abort_on FatbuildrServerRegistryError 404 (wbus (client_artifacts C fmt d dv))) (\<lambda>as.
      wret (if json then Json (objs as)
        else fb_render_template W ''derivative.html.j2''
          [(''instance'', PStr inst), (''format'', PStr fmt), (''distribution'', PStr d), (''derivative'', PStr dv),
           (''artifacts'', objs as)]))))"

text \<open>\<^verbatim>\<open>artifact\<close>: the three reads are in one \<^verbatim>\<open>try\<close>; sources have binaries, binaries a source and a content.\<close>

record artifact_page =
  ap_template :: string
  ap_source :: "obj option"
  ap_binaries :: "obj list"
  ap_changelog :: "obj list"
  ap_content :: "obj list"

definition read_artifact :: "connection \<Rightarrow> string \<Rightarrow> string \<Rightarrow> string \<Rightarrow> string \<Rightarrow> string \<Rightarrow> artifact_page web" where
  "read_artifact C fmt d dv arch a =
     wbind (wbus (client_changelog C fmt d dv arch a)) (\<lambda>changelog.
       if arch = ''src'' then wbind (wbus (client_artifact_bins C fmt d dv a)) (\<lambda>binaries.
         wret \<lparr>ap_template = ''src.html.j2'', ap_source = None, ap_binaries = binaries, ap_changelog = changelog,
                ap_content = []\<rparr>)
       else wbind (wbus (client_artifact_src C fmt d dv a)) (\<lambda>source.
         wbind (wbus (client_artifact_content C fmt d dv arch a)) (\<lambda>content.
         wret \<lparr>ap_template = ''bin.html.j2'', ap_source = Some source, ap_binaries = [], ap_changelog = changelog,
                ap_content = content\<rparr>)))"

definition artifact_json :: "string \<Rightarrow> string \<Rightarrow> artifact_page \<Rightarrow> http_answer res" where
  "artifact_json arch a page =
     (if arch \<noteq> ''src'' then
        rbind (case ap_source page of None \<Rightarrow> Inr PNone | Some x \<Rightarrow> json_of ''JsonArtifact'' x) (\<lambda>source.
        rbind (json_list ''JsonChangelogEntry'' (ap_changelog page)) (\<lambda>changelog.
        rmap (\<lambda>content. Json (PDict [(''artifact'', PStr a), (''source'', source), (''changelog'', changelog),
            (''content'', content)]))
          (json_list ''JsonArtifactMember'' (ap_content page))))
      else
        rbind (json_list ''JsonArtifact'' (ap_binaries page)) (\<lambda>binaries.
        rmap (\<lambda>changelog. Json (PDict [(''artifact'', PStr a), (''binaries'', binaries), (''changelog'', changelog)]))
          (json_list ''JsonChangelogEntry'' (ap_changelog page))))"

definition artifact_view ::
  "web_env \<Rightarrow> string \<Rightarrow> string \<Rightarrow> string \<Rightarrow> string \<Rightarrow> string \<Rightarrow> string \<Rightarrow> bool \<Rightarrow> http_request \<Rightarrow> http_answer web" where
  "artifact_view W inst fmt d dv arch a json rq = check_instance_token_permission W ''view-registry'' inst rq
     (wbind (get_connection W inst) (\<lambda>C.
      wbind (abort_on FatbuildrServerRegistryError 404 (read_artifact C fmt d dv arch a)) (\<lambda>page.
        if json then wlift (artifact_json arch a page)
        else wret (fb_render_template W (ap_template page)
          [(''instance'', PStr inst), (''format'', PStr fmt), (''distribution'', PStr d), (''derivative'', PStr dv),
           (''architecture'', PStr arch), (''artifact'', PStr a),
           (''source'', case ap_source page of None \<Rightarrow> PNone | Some x \<Rightarrow> PDict x),
           (''binaries'', objs (ap_binaries page)), (''changelog'', objs (ap_changelog page)),
           (''content'', objs (ap_content page))]))))"

definition wire_artifact :: "string \<Rightarrow> string \<Rightarrow> string \<Rightarrow> obj" where
  "wire_artifact name architecture version =
     [(''name'', PStr name), (''architecture'', PStr architecture), (''version'', PStr version), (''size'', PInt (-1))]"

text \<open>The identity decides how the request is forwarded.\<close>

definition artifact_delete_view ::
  "web_env \<Rightarrow> string \<Rightarrow> string \<Rightarrow> string \<Rightarrow> string \<Rightarrow> string \<Rightarrow> string \<Rightarrow> http_request \<Rightarrow> http_answer web" where
  "artifact_delete_view W inst fmt d dv arch a rq = check_instance_token_permission W ''edit-registry'' inst rq
     (wbind (get_connection W inst) (\<lambda>C. wbind (request_user W inst rq) (\<lambda>user.
      (let wire = wire_artifact a arch (case dict_get (rq_args rq) ''version'' of Some v \<Rightarrow> v | None \<Rightarrow> ''-1'')
       in wbind (wbus (if user = we_user W then client_delete_artifact C fmt d dv wire
                       else client_delete_artifact_as C user fmt d dv wire)) (\<lambda>task_id.
            wret (Json (PDict [(''task'', PStr task_id)])))))))"

text \<open>The search: nested dictionaries that grow with the first match.\<close>

type_synonym results = "(string, (string, (string, obj list) dict) dict) dict"

definition dict_or_empty :: "(string, 'v list) dict \<Rightarrow> string \<Rightarrow> 'v list" where
  "dict_or_empty m k = (case dict_get m k of Some v \<Rightarrow> v | None \<Rightarrow> [])"

definition add_result :: "string \<Rightarrow> string \<Rightarrow> string \<Rightarrow> obj \<Rightarrow> results \<Rightarrow> results" where
  "add_result fmt d dv a results =
     (let ds = dict_or_empty results fmt; dvs = dict_or_empty ds d; as = dict_or_empty dvs dv
      in dict_set results fmt (dict_set ds d (dict_set dvs dv (as @ [a]))))"

definition search_artifact :: "string \<Rightarrow> string \<Rightarrow> string \<Rightarrow> string \<Rightarrow> obj \<Rightarrow> results \<Rightarrow> results web" where
  "search_artifact pattern fmt d dv a results =
     (case map_of a ''name'' of
        Some (PStr name) \<Rightarrow> wret (if str_in pattern name then add_result fmt d dv a results else results)
      | _ \<Rightarrow> wlift (Inl TypeErr))"

definition search_derivative :: "connection \<Rightarrow> string \<Rightarrow> string \<Rightarrow> string \<Rightarrow> string \<Rightarrow> results \<Rightarrow> results web" where
  "search_derivative C pattern fmt d dv results =
     wbind (wbus (client_artifacts C fmt d dv)) (\<lambda>as. wfold (search_artifact pattern fmt d dv) as results)"

definition search_distribution :: "connection \<Rightarrow> string \<Rightarrow> string \<Rightarrow> string \<Rightarrow> results \<Rightarrow> results web" where
  "search_distribution C pattern fmt d results =
     wbind (wbus (client_derivatives C fmt d)) (\<lambda>dvs. wfold (search_derivative C pattern fmt d) dvs results)"

definition search_format :: "connection \<Rightarrow> string \<Rightarrow> string \<Rightarrow> results \<Rightarrow> results web" where
  "search_format C pattern fmt results =
     wbind (wbus (client_distributions C fmt)) (\<lambda>ds. wfold (search_distribution C pattern fmt) ds results)"

text \<open>The results as a value, with \<open>f\<close> on each artifact.\<close>

definition nest :: "('a \<Rightarrow> pyval res) \<Rightarrow> (string, 'a) dict \<Rightarrow> pyval res" where
  "nest f m = rmap PDict (rmapM (\<lambda>(k, v). rmap (Pair k) (f v)) m)"

definition results_value :: "(obj list \<Rightarrow> pyval res) \<Rightarrow> results \<Rightarrow> pyval res" where
  "results_value f results = nest (nest (nest f)) results"

definition search_view :: "web_env \<Rightarrow> string \<Rightarrow> bool \<Rightarrow> http_request \<Rightarrow> http_answer web" where
  "search_view W inst json rq = check_instance_token_permission W ''view-registry'' inst rq
     (wbind (get_connection W inst) (\<lambda>C. wbind (wbus (client_formats C)) (\<lambda>formats.
      (case filter_arg rq ''artifact'' of
         None \<Rightarrow> abort 400
       | Some pattern \<Rightarrow>
           wbind (wfold (search_format C pattern) formats []) (\<lambda>results.
             if json then wlift (rmap Json (results_value (json_list ''JsonArtifact'') results))
             else wlift (rmap (\<lambda>v. fb_render_template W ''search.html.j2''
               [(''instance'', PStr inst), (''artifact'', PStr pattern), (''results'', v)])
               (results_value (Inr \<circ> objs) results)))))))"

section \<open>Submission of builds\<close>

text \<open>\<^verbatim>\<open>request.files[k]\<close> and \<^verbatim>\<open>request.form[k]\<close>: a missing key is a bad request.\<close>

definition form_item :: "http_request \<Rightarrow> string \<Rightarrow> string web" where
  "form_item rq k = (case dict_get (rq_form rq) k of None \<Rightarrow> abort 400 | Some v \<Rightarrow> wret v)"

definition file_item :: "http_request \<Rightarrow> string \<Rightarrow> upload web" where
  "file_item rq k = (case find (\<lambda>u. up_field u = k) (rq_files rq) of None \<Rightarrow> abort 400 | Some u \<Rightarrow> wret u)"

definition file_keys :: "http_request \<Rightarrow> string list" where
  "file_keys rq = rev (remdups (rev (map up_field (rq_files rq))))"

definition basename :: "string \<Rightarrow> string" where
  "basename p = List.last (split_on CHR ''/'' p)"

text \<open>A file is saved under a single name: none, or a name of a directory, cannot be opened.\<close>

definition save_upload :: "path \<Rightarrow> string \<Rightarrow> upload \<Rightarrow> path web" where
  "save_upload dir name u =
     (if name \<in> {[], ''.'', ''..''} then wlift (Inl OSErr)
      else wbind (wfs (fs_write (dir @ [name]) (up_content u))) (\<lambda>_. wret (dir @ [name])))"

definition save_source :: "path \<Rightarrow> http_request \<Rightarrow> string \<Rightarrow> obj list \<Rightarrow> obj list web" where
  "save_source dir rq key sources =
     (if \<not> startswith key ''source/'' then wret sources
      else wbind (file_item rq key) (\<lambda>u. wbind (save_upload dir (basename (up_filename u)) u) (\<lambda>p.
        wret (sources @ [[(''id'', PStr (drop 7 key)), (''path'', PPath (path_str p))]]))))"

definition form_build :: "http_request \<Rightarrow> path \<Rightarrow> build_args web" where
  "form_build rq tarball =
     wbind (form_item rq ''format'') (\<lambda>fmt. wbind (form_item rq ''distribution'') (\<lambda>d.
     wbind (form_item rq ''architectures'') (\<lambda>archs. wbind (form_item rq ''derivative'') (\<lambda>dv.
     wbind (form_item rq ''artifact'') (\<lambda>a. wbind (form_item rq ''user_name'') (\<lambda>user_name.
     wbind (form_item rq ''user_email'') (\<lambda>user_email. wbind (form_item rq ''message'') (\<lambda>msg.
       wret \<lparr>ba_format = fmt, ba_distribution = d, ba_architectures = split_on CHR '','' archs, ba_derivative = dv,
         ba_artifact = a, ba_author = user_name, ba_email = user_email, ba_message = msg,
         ba_tarball = path_str tarball, ba_sources = [], ba_interactive = False\<rparr>))))))))"

definition receive_files :: "web_env \<Rightarrow> http_request \<Rightarrow> (path \<times> obj list) web" where
  "receive_files W rq =
     wbind (file_item rq ''tarball'') (\<lambda>tarball.
      (let dir = we_upload W @ [we_candidate W] in
       wbind (wfs (fs_mkdir dir)) (\<lambda>_.
       wbind (save_upload dir (we_secure W (up_filename tarball)) tarball) (\<lambda>tarball_path.
       wbind (wfold (save_source dir rq) (file_keys rq) []) (\<lambda>sources.
         wret (tarball_path, sources))))))"

definition submit_build :: "web_env \<Rightarrow> connection \<Rightarrow> string \<Rightarrow> build_args \<Rightarrow> obj list \<Rightarrow> string cact" where
  "submit_build W C user b sources = (if user = we_user W then client_build C b sources else client_build_as C user b sources)"

definition forward_build :: "web_env \<Rightarrow> string \<Rightarrow> http_request \<Rightarrow> path \<Rightarrow> obj list \<Rightarrow> string web" where
  "forward_build W inst rq tarball_path sources =
     wbind (get_connection W inst) (\<lambda>C. wbind (request_user W inst rq) (\<lambda>user.
     wbind (form_build rq tarball_path) (\<lambda>b. wbus (submit_build W C user b sources))))"

definition build_view :: "web_env \<Rightarrow> string \<Rightarrow> http_request \<Rightarrow> http_answer web" where
  "build_view W inst rq = check_instance_token_permission W ''build'' inst rq
     (wbind (receive_files W rq) (\<lambda>(tarball_path, sources).
      wbind (forward_build W inst rq tarball_path sources) (\<lambda>task_id.
        wret (Json (PDict [(''task'', PStr task_id)])))))"

section \<open>Tasks, keyring and files\<close>

definition running_view :: "web_env \<Rightarrow> string \<Rightarrow> http_request \<Rightarrow> http_answer web" where
  "running_view W inst rq = check_instance_token_permission W ''view-task'' inst rq
     (wbind (get_connection W inst) (\<lambda>C. wbind (wbus (client_running C)) (\<lambda>r.
      (case r of None \<Rightarrow> wret (Json PNone) | Some t \<Rightarrow> wlift (rmap Json (task_to_json t))))))"

definition queue_view :: "web_env \<Rightarrow> string \<Rightarrow> http_request \<Rightarrow> http_answer web" where
  "queue_view W inst rq = check_instance_token_permission W ''view-task'' inst rq
     (wbind (get_connection W inst) (\<lambda>C. wbind (wbus (client_queue C)) (\<lambda>ts.
      wlift (rmap (Json \<circ> PList) (rmapM task_to_json ts)))))"

definition find_task :: "connection \<Rightarrow> string \<Rightarrow> obj web" where
  "find_task C task_id = abort_on FatbuildrServerError 404 (wbus (client_get C task_id id id))"

definition task_view :: "web_env \<Rightarrow> string \<Rightarrow> string \<Rightarrow> http_request \<Rightarrow> http_answer web" where
  "task_view W inst task_id rq = check_instance_token_permission W ''view-task'' inst rq
     (wbind (get_connection W inst) (\<lambda>C. wbind (find_task C task_id) (\<lambda>t. wlift (rmap Json (task_to_json t)))))"

definition watch_view :: "web_env \<Rightarrow> string \<Rightarrow> string \<Rightarrow> bool \<Rightarrow> http_request \<Rightarrow> http_answer web" where
  "watch_view W inst task_id html rq = check_instance_token_permission W ''view-task'' inst rq
     (wbind (get_connection W inst) (\<lambda>C. wbind (find_task C task_id) (\<lambda>t.
        wlift (rmap Console (client_watch t (\<not> html))))))"

definition keyring_view :: "web_env \<Rightarrow> string \<Rightarrow> http_request \<Rightarrow> http_answer web" where
  "keyring_view W inst rq = check_instance_token_permission W ''view-keyring'' inst rq
     (wbind (get_connection W inst) (\<lambda>C. wbind (wbus (client_keyring_export C)) (\<lambda>k.
      (case k of None \<Rightarrow> abort 404 | Some armor \<Rightarrow> wret (Attachment ''keyring.asc'' armor)))))"

text \<open>\<^verbatim>\<open>content\<close> has no check of permission. \<^verbatim>\<open>send_from_directory\<close> refuses a name that leaves the
  directory; the tests of the view follow it.\<close>

fun walk :: "node \<Rightarrow> path \<Rightarrow> path \<Rightarrow> path option" where
  "walk n acc [] = (if fs_exists n acc then Some acc else None)"
| "walk n acc (p # ps) =
     (if \<not> fs_is_dir n acc then None else walk n (if p = ''..'' then butlast acc else acc @ [p]) ps)"

definition safe_name :: "string \<Rightarrow> bool" where
  "safe_name filename \<longleftrightarrow> \<not> startswith filename ''/'' \<and> ''..'' \<notin> set (path_parts filename)"

definition content_view :: "web_env \<Rightarrow> string \<Rightarrow> string \<Rightarrow> http_answer web" where
  "content_view W inst filename s =
     (let folder = we_registry W @ [inst]
      in case walk (ws_fs s) [] (joinpath folder filename) of
           None \<Rightarrow> abort 404 s
         | Some p \<Rightarrow>
             if fs_is_dir (ws_fs s) p then
               (if we_listing W
                then wret (fb_render_template W ''dir.html.j2'' [(''instance'', PStr inst),
                    (''instance_registry_folder'', PPath (path_str folder)), (''path'', PPath (path_str (joinpath folder filename)))]) s
                else abort 403 s)
             else if safe_name filename
               then wret (SentFile p (if endswith filename ''.xml.gz'' then Some ''application/gzip'' else None)) s
             else abort 404 s)"

definition version_view :: "web_env \<Rightarrow> http_answer web" where
  "version_view W = wret (PlainText (''Fatbuildr v'' @ we_version W))"

definition index_redirect :: "string \<Rightarrow> http_answer web" where
  "index_redirect inst = wret (Redirect inst)"

end
