(* ===== verification/HttpSafety.thy ===== *)
theory HttpSafety
  imports HttpServer
begin

text \<open>What a client of the web service can do to the instances behind it: the views that read keep the
  instances of the D-Bus server, a build submitted by a form goes in the queue under the name the policy of the
  server decides, a token is read again as the user it was made for; and two behaviours of the views as they
  are written: the page of a directory outside the registry, and the internal error on a token that is no
  token.\<close>

section \<open>Computations of the views\<close>

lemma wbind_Inr_conv: "wbind m f s = (Inr y, t) \<longleftrightarrow> (\<exists>x u. m s = (Inr x, u) \<and> f x u = (Inr y, t))"
  by (auto simp: wbind_def split: sum.splits prod.splits)

lemma web_Inr_conv:
  "wlift r s = (Inr x, t) \<longleftrightarrow> r = Inr x \<and> t = s" "wret y s = (Inr x, t) \<longleftrightarrow> y = x \<and> t = s" "abort n s \<noteq> (Inr x, t)"
  "abort_on c n m s = (Inr x, t) \<longleftrightarrow> m s = (Inr x, t)"
  by (auto simp: wlift_def wret_def abort_def abort_on_def split: sum.splits prod.splits web_fault.splits)

lemma wbindE:
  assumes "wbind m f s = (Inr y, t)"
  obtains x u where "m s = (Inr x, u)" "f x u = (Inr y, t)"
  using assms unfolding wbind_Inr_conv by blast

text \<open>Actions that leave the instances of the daemon as they are.\<close>

definition keeps :: "(web_state \<Rightarrow> 'p) \<Rightarrow> 'a web \<Rightarrow> bool" where
  "keeps p m \<longleftrightarrow> (\<forall>s. p (snd (m s)) = p s)"

definition insts :: "web_state \<Rightarrow> (string, server_instance) dict" where
  "insts s = ds_instances (ws_dbus s)"

definition bus_keeps :: "'a cact \<Rightarrow> bool" where
  "bus_keeps m \<longleftrightarrow> (\<forall>s. ds_instances (snd (m s)) = ds_instances s)"

named_theorems keep_intros "actions that keep a part of the state"

lemma keeps_basic [keep_intros]:
  "keeps p (wret x)" "keeps p (abort n)" "keeps p (wlift r)" "keeps insts (wfs f)" "keeps ws_keys (wfs f)"
  "bus_keeps m \<Longrightarrow> keeps insts (wbus m)" "keeps ws_keys (wbus m)"
  by (auto simp: keeps_def insts_def bus_keeps_def wret_def abort_def wlift_def wfs_def wbus_def split: sum.splits prod.splits)
    (metis snd_conv)+

lemma keeps_wbind [keep_intros]:
  assumes "keeps p m" "\<And>x. keeps p (f x)"
  shows "keeps p (wbind m f)"
  unfolding keeps_def
proof
  fix s
  obtain q u where q: "m s = (q, u)" by fastforce
  then have u: "p u = p s"
    using assms(1) by (metis keeps_def snd_conv)
  show "p (snd (wbind m f s)) = p s"
  proof (cases q)
    case (Inr x)
    with q have "wbind m f s = f x u" by (simp add: wbind_def)
    with assms(2) u show ?thesis by (simp add: keeps_def)
  qed (use q u in \<open>simp add: wbind_def\<close>)
qed

lemma keeps_abort_on [keep_intros]:
  assumes "keeps p m"
  shows "keeps p (abort_on c n m)"
proof -
  have "snd (abort_on c n m s) = snd (m s)" for s
    by (auto simp: abort_on_def split: sum.splits prod.splits web_fault.splits)
  with assms show ?thesis by (simp add: keeps_def)
qed

lemma keeps_wfold [keep_intros]: "(\<And>x acc. keeps p (f x acc)) \<Longrightarrow> keeps p (wfold f xs acc)"
  by (induction xs arbitrary: acc) (simp_all add: keep_intros)

lemma keeps_token [keep_intros]: "keeps insts (token_manager W inst)" "keeps insts (get_token_user W inst rq)" "keeps insts (request_user W inst rq)"
proof -
  show tm: "keeps insts (token_manager W inst)"
    by (auto simp: keeps_def insts_def token_manager_def split: option.splits sum.splits)
  show tu: "keeps insts (get_token_user W inst rq)"
    by (auto simp: get_token_user_def tm intro!: keep_intros split: option.splits)
  show "keeps insts (request_user W inst rq)"
    unfolding request_user_def by (intro keep_intros tu)
qed

lemma keeps_check [keep_intros]:
  "keeps insts view \<Longrightarrow> keeps insts (check_instance_token_permission W action inst rq view)"
  by (auto simp: check_instance_token_permission_def intro!: keep_intros split: option.splits)

lemma keeps_connection [keep_intros]: "keeps insts (get_connection W inst)"
proof -
  have "bus_keeps (client_connect C)" for C
    by (simp add: bus_keeps_def client_connect_def get_instance_def)
  then show ?thesis unfolding get_connection_def by (intro keep_intros)
qed

text \<open>A call that submits nothing.\<close>

lemma dict_set_same: "dict_get d k = Some v \<Longrightarrow> dict_set d k v = d"
  by (induction d k v rule: dict_set.induct) (auto simp: dict_get_def split: if_splits)

lemma read_handled:
  assumes "submission_of (snd (pe_user E sender)) call = None" "handle_call E now sender inst call s = (r, s')"
  shows "ds_instances s' = ds_instances s"
  using assms
  by (auto simp: handle_call_def check_auth_def Let_def run_method_def dict_set_same
      split: option.splits if_splits prod.splits)

lemma bus_keeps_try: "(\<And>u. submission_of u call = None) \<Longrightarrow> bus_keeps (client_try C call f)"
  by (auto simp: bus_keeps_def client_try_def proxy_def Let_def dest: read_handled split: prod.splits)

lemma bus_keeps_bind:
  assumes "bus_keeps m" "\<And>x. bus_keeps (f x)"
  shows "bus_keeps (sbind m f)"
  unfolding bus_keeps_def
proof
  fix s
  obtain q u where q: "m s = (q, u)" by fastforce
  then have u: "ds_instances u = ds_instances s"
    using assms(1) by (metis bus_keeps_def snd_conv)
  show "ds_instances (snd (sbind m f s)) = ds_instances s"
  proof (cases q)
    case (Inr x)
    with q have "sbind m f s = f x u" by (simp add: sbind_def)
    with assms(2) u show ?thesis by (simp add: bus_keeps_def)
  qed (use q u in \<open>simp add: sbind_def\<close>)
qed

lemma bus_keeps_basic: "bus_keeps (sret x)" "bus_keeps (slift r)" "bus_keeps (smodify id)"
  by (simp_all add: bus_keeps_def sret_def slift_def smodify_def)

lemmas client_read_defs =
  client_instance_def client_pipelines_formats_def client_pipelines_architectures_def
  client_pipelines_format_distributions_def client_pipelines_distribution_environment_def
  client_pipelines_distribution_derivatives_def client_pipelines_derivative_formats_def
  client_formats_def client_distributions_def client_derivatives_def client_artifacts_def client_artifact_bins_def
  client_artifact_src_def client_changelog_def client_artifact_content_def client_queue_def client_history_def
  client_running_def client_keyring_export_def client_call_def

lemma bus_keeps_reads [keep_intros]:
  "bus_keeps (client_instance C)" "bus_keeps (client_pipelines_formats C)" "bus_keeps (client_pipelines_architectures C)"
  "bus_keeps (client_pipelines_format_distributions C fmt)" "bus_keeps (client_pipelines_distribution_environment C d)"
  "bus_keeps (client_pipelines_distribution_derivatives C d)" "bus_keeps (client_pipelines_derivative_formats C dv)"
  "bus_keeps (client_formats C)" "bus_keeps (client_distributions C fmt)" "bus_keeps (client_derivatives C fmt d)"
  "bus_keeps (client_artifacts C fmt d dv)" "bus_keeps (client_artifact_bins C fmt d dv a)"
  "bus_keeps (client_artifact_src C fmt d dv a)" "bus_keeps (client_changelog C fmt d dv arch a)"
  "bus_keeps (client_artifact_content C fmt d dv arch a)" "bus_keeps (client_queue C)" "bus_keeps (client_history C n)"
  "bus_keeps (client_running C)" "bus_keeps (client_keyring_export C)"
  unfolding client_read_defs by (rule bus_keeps_try, simp)+

lemma bus_keeps_get [keep_intros]: "bus_keeps (client_get C i id id)"
  unfolding client_get_def client_get_archived_def
  by (auto intro!: bus_keeps_bind bus_keeps_basic bus_keeps_reads split: option.splits)

lemma bus_keeps_instances [keep_intros]: "bus_keeps (client_instances C)"
  by (simp add: bus_keeps_def client_instances_def list_instances_def)

lemma keeps_search_artifact [keep_intros]: "keeps insts (search_artifact pattern fmt d dv a results)"
  by (auto simp: search_artifact_def intro!: keep_intros split: option.splits pyval.splits)

lemmas read_view_defs =
  instance_view_def pipelines_architectures_view_def pipelines_formats_view_def list_format_def list_distribution_def
  index_view_def registry_view_def format_view_def distribution_view_def derivative_view_def artifact_view_def
  read_artifact_def search_view_def search_format_def search_distribution_def search_derivative_def
  running_view_def queue_view_def task_view_def watch_view_def find_task_def keyring_view_def

text \<open>The views that only show something leave every instance of the server as it was, whatever the request, the
  answer or the error, and although each of them goes through several calls of the bus.\<close>

theorem read_views_keep_instances:
  assumes "view \<in> {instance_view W inst rq, pipelines_architectures_view W inst rq, pipelines_formats_view W inst rq,
      index_view W json, registry_view W inst json rq, format_view W inst fmt json rq,
      distribution_view W inst fmt d json rq, derivative_view W inst fmt d dv json rq,
      artifact_view W inst fmt d dv arch a json rq, search_view W inst json rq, running_view W inst rq,
      queue_view W inst rq, task_view W inst task_id rq, watch_view W inst task_id html rq, keyring_view W inst rq,
      content_view W inst filename}"
  shows "ds_instances (ws_dbus (snd (view s))) = ds_instances (ws_dbus s)"
proof -
  have "keeps insts (content_view W inst filename)"
    by (simp add: keeps_def insts_def content_view_def Let_def abort_def wret_def split: option.splits)
  then have "keeps insts view"
    using assms unfolding read_view_defs
    by (auto intro!: keep_intros split: option.splits simp: Let_def)
  then show ?thesis by (simp add: keeps_def insts_def)
qed

lemma keys_connection [keep_intros]: "keeps ws_keys (get_connection W inst)"
  unfolding get_connection_def by (intro keep_intros)

lemma keys_save [keep_intros]: "keeps ws_keys (save_upload dir name u)" "keeps ws_keys (save_source dir rq key sources)"
proof -
  show "keeps ws_keys (save_upload dir name u)" for dir name u
    by (simp add: save_upload_def keep_intros)
  then show "keeps ws_keys (save_source dir rq key sources)"
    by (auto simp: save_source_def file_item_def intro!: keep_intros split: option.splits)
qed

lemma insts_save [keep_intros]: "keeps insts (save_upload dir name u)" "keeps insts (save_source dir rq key sources)"
proof -
  show "keeps insts (save_upload dir name u)" for dir name u
    by (simp add: save_upload_def keep_intros)
  then show "keeps insts (save_source dir rq key sources)"
    by (auto simp: save_source_def file_item_def intro!: keep_intros split: option.splits)
qed

text \<open>The token of a request is decoded again with the key that the first decoding left.\<close>

lemma token_user_again:
  assumes "get_token_user W inst rq s = (Inr user, s0)" "ws_keys s1 = ws_keys s0"
  shows "get_token_user W inst rq s1 = (Inr user, s1)"
proof (cases "rq_auth rq")
  case None
  with assms show ?thesis by (simp add: get_token_user_def wret_def)
next
  case (Some auth)
  let ?user = "\<lambda>key. rmap Some (token_decode (we_jwt W) (we_tokens W) (we_now W) key (split_max CHR '' '' 1 auth ! 1))"
  have bearer: "startswith auth ''Bearer ''"
    using assms(1) Some by (simp add: get_token_user_def web_Inr_conv split: if_splits)
  with assms(1) Some have "wbind (token_manager W inst) (\<lambda>key. wlift (?user key)) s = (Inr user, s0)"
    by (simp add: get_token_user_def web_Inr_conv)
  then obtain key where key: "token_manager W inst s = (Inr key, s0)" "?user key = Inr user"
    unfolding wbind_Inr_conv web_Inr_conv by blast
  then have "dict_get (ws_keys s0) inst = Some key"
    by (auto simp: token_manager_def split: option.splits sum.splits prod.splits)
  then have "token_manager W inst s1 = (Inr key, s1)"
    by (simp add: token_manager_def assms(2))
  with key(2) have "wbind (token_manager W inst) (\<lambda>key. wlift (?user key)) s1 = (Inr user, s1)"
    unfolding wbind_Inr_conv web_Inr_conv by blast
  with bearer Some show ?thesis by (simp add: get_token_user_def web_Inr_conv)
qed

lemma check_Inr:
  assumes "check_instance_token_permission W action inst rq view s = (Inr a, s')"
  obtains user s0 where "get_token_user W inst rq s = (Inr user, s0)" "view s0 = (Inr a, s')"
    "case user of None \<Rightarrow> validate_anonymous_action (we_policy W) action
       | Some u \<Rightarrow> validate_user_action (we_groups W) (we_policy W) u action = Inr True"
proof -
  obtain user s0 where user: "get_token_user W inst rq s = (Inr user, s0)"
    and rest: "(case user of
          None \<Rightarrow>
            if \<not> allow_anonymous (we_policy W) \<or> \<not> validate_anonymous_action (we_policy W) action then abort 403
            else view
        | Some u \<Rightarrow>
            wbind (wlift (validate_user_action (we_groups W) (we_policy W) u action)) (\<lambda>valid.
              if \<not> valid then abort 403 else view)) s0 = (Inr a, s')"
    using assms unfolding check_instance_token_permission_def wbind_Inr_conv by blast
  show thesis
  proof (cases user)
    case None
    with rest have "view s0 = (Inr a, s')" "validate_anonymous_action (we_policy W) action"
      by (simp_all add: web_Inr_conv split: if_splits)
    with user None that show thesis by simp
  next
    case (Some u)
    with rest have "view s0 = (Inr a, s')"
      "validate_user_action (we_groups W) (we_policy W) u action = Inr True"
      by (simp_all add: wbind_Inr_conv web_Inr_conv split: if_splits)
    with user Some that show thesis by simp
  qed
qed

lemma submission_done:
  assumes "handle_call E now sender inst call s = (Inr (TaskId (Some x)), s')"
    and "submission_of (snd (pe_user E sender)) call \<noteq> None"
  obtains i t f name xs where "dict_get (ds_instances s) inst = Some i"
    "rt_user t = PStr (submitter E sender call)" "qt_id t = x"
    "dict_get (ds_instances s') inst = Some (i\<lparr>si_tasks := (si_tasks i)\<lparr>tm_queue := QueueManager_put t (tm_queue (si_tasks i)),
       tm_state_file := f\<rparr>\<rparr>)"
    "pe_handled E call \<longrightarrow> pe_polkit E sender (action_id (polkit_action call))"
    "submission_of (snd (pe_user E sender)) call = Some (name, submitter E sender call, Inr xs)"
    "make_task (task_env_of E i) xs name x (PStr (submitter E sender call)) (tm_workspaces (si_tasks i) @ [x]) = Inr t"
proof -
  obtain i where i: "dict_get (ds_instances s) inst = Some i"
    using assms(1) by (auto simp: handle_call_def split: option.splits)
  have ok: "pe_handled E call \<longrightarrow> pe_polkit E sender (action_id (polkit_action call))"
    using assms(1) i by (auto simp: handle_call_def check_auth_def Let_def split: if_splits)
  obtain name user args where sub: "submission_of (snd (pe_user E sender)) call = Some (name, user, args)"
    using assms(2) by auto
  obtain q i' where run: "run_method E (snd (pe_user E sender)) call i = (q, i')" by fastforce
  have q: "q = Inr (TaskId (Some x))" and s': "dict_get (ds_instances s') inst = Some i'"
    using handle_call_run [OF i _ run, of now] ok assms(1) by auto
  obtain xs where xs: "args = Inr xs" using run sub q by (cases args) (auto simp: run_method_def)
  obtain t where t: "make_task (task_env_of E i) xs name (pe_new_id E) (PStr user)
      (tm_workspaces (si_tasks i) @ [pe_new_id E]) = Inr t"
    using run sub q xs by (auto simp: run_method_def tm_submit_def plain_def split: sum.splits if_splits)
  obtain f where "i' = i\<lparr>si_tasks := (si_tasks i)\<lparr>tm_queue := QueueManager_put t (tm_queue (si_tasks i)), tm_state_file := f\<rparr>\<rparr>"
    and x: "x = pe_new_id E"
    using run sub q xs t
    by (auto simp: run_method_def tm_submit_def sbind_def smodify_def tm_save_apply sret_def plain_def)
  moreover have "rt_user t = PStr (submitter E sender call)" "qt_id t = x"
    using make_task_identified [OF t] submission_user [OF sub] x by (simp_all add: identified_def)
  ultimately show thesis using that i s' ok sub t xs submission_user [OF sub] by blast
qed

lemma client_submitted:
  assumes "client_call C call as_task_id s = (Inr x, s')"
  shows "handle_call (co_env C) (co_now C) (co_sender C) (co_instance C) call s = (Inr (TaskId (Some x)), s')"
proof -
  obtain r s1 where r: "handle_call (co_env C) (co_now C) (co_sender C) (co_instance C) call s = (r, s1)" by fastforce
  with assms have "check_dbus_errors (dbind (remote r) (\<lambda>y. plain (as_task_id y))) = Inr x" "s1 = s'"
    by (simp_all add: client_call_def client_try_def proxy_def)
  moreover from this(1) have "r = Inr (TaskId (Some x))"
    by (cases r) (auto simp: check_dbus_errors_def dbind_def plain_def remote_def as_task_id_def
        split: fault.splits dbus_reply.splits option.splits if_splits)
  ultimately show ?thesis using r by simp
qed

lemma keeps_receive [keep_intros]: "keeps insts (receive_files W rq)" "keeps ws_keys (receive_files W rq)"
  unfolding receive_files_def file_item_def Let_def
  by (auto intro!: keep_intros split: option.splits)

lemma keeps_form [keep_intros]: "keeps p (form_build rq tp)"
proof -
  have "keeps p (form_item rq k)" for k
    by (auto simp: form_item_def intro!: keep_intros split: option.splits)
  then show ?thesis unfolding form_build_def by (intro keep_intros)
qed

lemma keepsD: "keeps p m \<Longrightarrow> m s = (r, s') \<Longrightarrow> p s' = p s"
  by (metis keeps_def snd_conv)

lemma request_user_again:
  assumes "get_token_user W inst rq s = (Inr user, s0)" "ws_keys s1 = ws_keys s0"
  shows "request_user W inst rq s1 =
    (Inr (case user of None \<Rightarrow> ''anonymous'' | Some u \<Rightarrow> if u = [] then ''anonymous'' else u), s1)"
  unfolding request_user_def wbind_Inr_conv
  using token_user_again [OF assms] by (auto simp: web_Inr_conv)

lemma submit_build_done:
  assumes "submit_build W C user b sources d = (Inr x, d')" "snd (pe_user (co_env C) (co_sender C)) = we_user W"
  obtains i t f srcs dvs where "dict_get (ds_instances d) (co_instance C) = Some i" "rt_user t = PStr user" "qt_id t = x"
    "dict_get (ds_instances d') (co_instance C) = Some (i\<lparr>si_tasks := (si_tasks i)\<lparr>tm_queue := QueueManager_put t (tm_queue (si_tasks i)),
       tm_state_file := f\<rparr>\<rparr>)"
    "rt_name t = ''artifact build''" "\<exists>io. rt_attrs t = (''io'', io) # build_attrs b srcs dvs"
proof -
  let ?E = "co_env C" and ?sender = "co_sender C"
  obtain sts call where call: "client_call C call as_task_id d = (Inr x, d')"
    and def: "call = (if user = we_user W then Build (b\<lparr>ba_sources := sts\<rparr>) else BuildAs user (b\<lparr>ba_sources := sts\<rparr>))"
    using assms(1)
    by (auto simp: submit_build_def client_build_def client_build_as_def sbind_Inr_conv slift_def split: if_splits)
  have user: "submitter ?E ?sender call = user"
    using assms(2) by (simp add: submitter_def def)
  have build: "submission_of (snd (pe_user ?E ?sender)) call =
      Some (''artifact build'', user, build_task_args (b\<lparr>ba_sources := sts\<rparr>))"
    using assms(2) by (simp add: submit_defs def)
  then have "submission_of (snd (pe_user ?E ?sender)) call \<noteq> None" by simp
  from client_submitted [OF call] this obtain i t f name xs where
    i: "dict_get (ds_instances d) (co_instance C) = Some i" "rt_user t = PStr (submitter ?E ?sender call)" "qt_id t = x"
    "dict_get (ds_instances d') (co_instance C) = Some (i\<lparr>si_tasks := (si_tasks i)\<lparr>tm_queue := QueueManager_put t (tm_queue (si_tasks i)),
       tm_state_file := f\<rparr>\<rparr>)"
    and "pe_handled ?E call \<longrightarrow> pe_polkit ?E ?sender (action_id (polkit_action call))"
    and sub: "submission_of (snd (pe_user ?E ?sender)) call = Some (name, submitter ?E ?sender call, Inr xs)"
    and made: "make_task (task_env_of ?E i) xs name x (PStr (submitter ?E ?sender call)) (tm_workspaces (si_tasks i) @ [x]) = Inr t"
    by (rule submission_done)
  have name: "name = ''artifact build''" and args: "build_task_args (b\<lparr>ba_sources := sts\<rparr>) = Inr xs"
    using sub build by simp_all
  obtain srcs dvs where t: "t = new_task (task_env_of ?E i) ''artifact build'' x (PStr (submitter ?E ?sender call))
      (tm_workspaces (si_tasks i) @ [x]) (ba_interactive (b\<lparr>ba_sources := sts\<rparr>)) (build_attrs (b\<lparr>ba_sources := sts\<rparr>) srcs dvs)"
    by (rule made_build [OF args made [unfolded name]])
  then have "rt_name t = ''artifact build''" "\<exists>io. rt_attrs t = (''io'', io) # build_attrs b srcs dvs"
    by (simp_all add: new_task_def RunnableTask_init_def build_attrs_def)
  with that [OF i(1) _ i(3,4)] i(2) user show thesis by auto
qed

lemma form_item_bind:
  "wbind (form_item rq k) f s = (Inr y, t) \<longleftrightarrow> (\<exists>v. dict_get (rq_form rq) k = Some v \<and> f v s = (Inr y, t))"
  by (auto simp: form_item_def wbind_def abort_def wret_def split: option.splits)

lemma form_build_Inr:
  assumes "form_build rq tp s = (Inr b, s')"
  shows "dict_get (rq_form rq) ''format'' = Some (ba_format b) \<and> dict_get (rq_form rq) ''distribution'' = Some (ba_distribution b)
    \<and> map_option (split_on CHR '','') (dict_get (rq_form rq) ''architectures'') = Some (ba_architectures b)
    \<and> dict_get (rq_form rq) ''derivative'' = Some (ba_derivative b) \<and> dict_get (rq_form rq) ''artifact'' = Some (ba_artifact b)
    \<and> dict_get (rq_form rq) ''user_name'' = Some (ba_author b) \<and> dict_get (rq_form rq) ''user_email'' = Some (ba_email b)
    \<and> dict_get (rq_form rq) ''message'' = Some (ba_message b) \<and> \<not> ba_interactive b \<and> s' = s"
  using assms unfolding form_build_def form_item_bind web_Inr_conv
  by (elim exE conjE, hypsubst) simp

lemma web_build_made:
  assumes "build_view W inst rq s = (Inr answer, s')"
    and "snd (pe_user (we_bus W) (we_sender W)) = we_user W"
  shows "\<exists>user s0 x t i f b srcs dvs tp s2. get_token_user W inst rq s = (Inr user, s0) \<and> answer = Json (PDict [(''task'', PStr x)])
    \<and> dict_get (insts s) inst = Some i
    \<and> dict_get (insts s') inst = Some (i\<lparr>si_tasks := (si_tasks i)\<lparr>tm_queue := QueueManager_put t (tm_queue (si_tasks i)),
         tm_state_file := f\<rparr>\<rparr>)
    \<and> qt_id t = x \<and> rt_name t = ''artifact build'' \<and> (\<exists>io. rt_attrs t = (''io'', io) # build_attrs b srcs dvs)
    \<and> form_build rq tp s2 = (Inr b, s2)
    \<and> (case user of
         None \<Rightarrow> rt_user t = PStr ''anonymous'' \<and> validate_anonymous_action (we_policy W) ''build''
       | Some u \<Rightarrow> rt_user t = PStr (if u = [] then ''anonymous'' else u)
           \<and> validate_user_action (we_groups W) (we_policy W) u ''build'' = Inr True)"
proof -
  obtain user s0 where user: "get_token_user W inst rq s = (Inr user, s0)"
    and view: "wbind (receive_files W rq) (\<lambda>(tarball_path, sources).
      wbind (forward_build W inst rq tarball_path sources) (\<lambda>task_id.
        wret (Json (PDict [(''task'', PStr task_id)])))) s0 = (Inr answer, s')"
    and valid: "case user of None \<Rightarrow> validate_anonymous_action (we_policy W) ''build''
       | Some u \<Rightarrow> validate_user_action (we_groups W) (we_policy W) u ''build'' = Inr True"
    by (rule check_Inr [OF assms(1) [unfolded build_view_def]])
  let ?who = "case user of None \<Rightarrow> ''anonymous'' | Some u \<Rightarrow> if u = [] then ''anonymous'' else u"
  obtain tp sources s1 where files: "receive_files W rq s0 = (Inr (tp, sources), s1)"
    and view: "wbind (forward_build W inst rq tp sources) (\<lambda>task_id.
        wret (Json (PDict [(''task'', PStr task_id)]))) s1 = (Inr answer, s')"
    using view by (rule wbindE) (simp split: prod.splits)
  obtain x where x: "forward_build W inst rq tp sources s1 = (Inr x, s')" "answer = Json (PDict [(''task'', PStr x)])"
    using view by (rule wbindE) (simp add: web_Inr_conv)
  obtain C s2 where C: "get_connection W inst s1 = (Inr C, s2)"
    and rest: "wbind (request_user W inst rq) (\<lambda>user. wbind (form_build rq tp) (\<lambda>b. wbus (submit_build W C user b sources))) s2
      = (Inr x, s')"
    using x(1) unfolding forward_build_def by (rule wbindE)
  have conn: "C = connection_of W inst"
    using C by (auto simp: get_connection_def wbind_Inr_conv web_Inr_conv)
  have keys: "ws_keys s2 = ws_keys s0" and same: "insts s2 = insts s"
    using keepsD [OF keeps_receive(2) files] keepsD [OF keys_connection C] keepsD [OF keeps_receive(1) files]
      keepsD [OF keeps_connection C] keepsD [OF keeps_token(2) user] by simp_all
  obtain b s3 where b: "form_build rq tp s2 = (Inr b, s3)" "wbus (submit_build W C ?who b sources) s3 = (Inr x, s')"
    using rest request_user_again [OF user keys] by (auto simp: wbind_Inr_conv)
  then have call: "submit_build W C ?who b sources (ws_dbus s3) = (Inr x, ws_dbus s')"
    by (auto simp: wbus_def split: sum.splits prod.splits)
  have "insts s3 = insts s"
    using keepsD [OF keeps_form [where p = insts] b(1)] same by simp
  then have base: "ds_instances (ws_dbus s3) = insts s" by (simp add: insts_def)
  have bus: "snd (pe_user (co_env C) (co_sender C)) = we_user W" "co_instance C = inst"
    using assms(2) by (simp_all add: conn connection_of_def)
  obtain i t f srcs dvs where t: "dict_get (insts s) inst = Some i" "rt_user t = PStr ?who" "qt_id t = x"
    "dict_get (ds_instances (ws_dbus s')) inst = Some (i\<lparr>si_tasks := (si_tasks i)\<lparr>
       tm_queue := QueueManager_put t (tm_queue (si_tasks i)), tm_state_file := f\<rparr>\<rparr>)"
    "rt_name t = ''artifact build''" "\<exists>io. rt_attrs t = (''io'', io) # build_attrs b srcs dvs"
    by (rule submit_build_done [OF call bus(1), unfolded bus(2) base])
  note t' = t(1,3,5,6) t(4) [folded insts_def]
  have same_state: "form_build rq tp s2 = (Inr b, s2)" using form_build_Inr [OF b(1)] b(1) by simp
  have "case user of
         None \<Rightarrow> rt_user t = PStr ''anonymous'' \<and> validate_anonymous_action (we_policy W) ''build''
       | Some u \<Rightarrow> rt_user t = PStr (if u = [] then ''anonymous'' else u)
           \<and> validate_user_action (we_groups W) (we_policy W) u ''build'' = Inr True"
    using t(2) valid by (cases user) simp_all
  with user x(2) t' same_state show ?thesis by blast
qed

text \<open>C1. A build that the web server accepts is queued in the instance under the identity of the request:
  the user that the token names, \<^verbatim>\<open>anonymous\<close> without one, and never the identity of the web server
  in their place, whichever of its two calls to the daemon it takes. The policy grants the action to
  this user.\<close>

theorem web_build_identity:
  assumes "build_view W inst rq s = (Inr answer, s')"
    and "snd (pe_user (we_bus W) (we_sender W)) = we_user W"
  shows "\<exists>user s0 x t i f. get_token_user W inst rq s = (Inr user, s0) \<and> answer = Json (PDict [(''task'', PStr x)])
    \<and> dict_get (insts s) inst = Some i
    \<and> dict_get (insts s') inst = Some (i\<lparr>si_tasks := (si_tasks i)\<lparr>tm_queue := QueueManager_put t (tm_queue (si_tasks i)),
         tm_state_file := f\<rparr>\<rparr>)
    \<and> qt_id t = x
    \<and> (case user of
         None \<Rightarrow> rt_user t = PStr ''anonymous'' \<and> validate_anonymous_action (we_policy W) ''build''
       | Some u \<Rightarrow> rt_user t = PStr (if u = [] then ''anonymous'' else u)
           \<and> validate_user_action (we_groups W) (we_policy W) u ''build'' = Inr True)"
  using web_build_made [OF assms] by blast

section \<open>Files of the registry\<close>

lemma walk_append: "walk n acc xs = Some a \<Longrightarrow> walk n acc (xs @ ys) = walk n a ys"
  by (induction xs arbitrary: acc) (auto split: if_splits)

lemma lookup_prefix_dir: "lookup (p @ q) n \<noteq> None \<Longrightarrow> q \<noteq> [] \<Longrightarrow> fs_is_dir n p"
proof (induction p n rule: lookup.induct)
  case (1 n)
  then show ?case by (cases n; cases q) (auto simp: fs_is_dir_def)
next
  case (3 x xs es)
  then show ?case by (auto simp: fs_is_dir_def split: option.splits)
qed auto

lemma walk_down:
  "fs_exists n (acc @ p) \<Longrightarrow> ''..'' \<notin> set p \<Longrightarrow> walk n acc p = Some (acc @ p)"
proof (induction p arbitrary: acc)
  case (Cons x p)
  then have "fs_is_dir n acc" using lookup_prefix_dir [of acc "x # p"] by (simp add: fs_exists_def)
  moreover have "x \<noteq> ''..''" "''..'' \<notin> set p" using Cons.prems(2) by auto
  ultimately show ?case using Cons.IH [of "acc @ [x]"] Cons.prems(1) by simp
qed simp

lemma dir_exists: "fs_is_dir n p \<Longrightarrow> fs_exists n p"
  by (auto simp: fs_is_dir_lookup fs_exists_def)

lemma walk_up: "fs_is_dir n p \<Longrightarrow> walk n p (replicate (length p) ''..'') = Some []"
proof (induction p rule: rev_induct)
  case Nil
  then show ?case by (simp add: dir_exists)
next
  case (snoc x p)
  then have "fs_is_dir n p" using lookup_prefix_dir [of p "[x]" n] by (auto simp: fs_is_dir_lookup)
  with snoc show ?case by simp
qed

definition plain_parts :: "path \<Rightarrow> bool" where
  "plain_parts p \<longleftrightarrow> (\<forall>x \<in> set p. x \<noteq> [] \<and> x \<noteq> ''.'' \<and> CHR ''/'' \<notin> set x)"

lemma parts_join: "p \<noteq> [] \<Longrightarrow> plain_parts p \<Longrightarrow> path_parts (str_join ''/'' p) = p"
  by (simp add: path_parts_def split_on_join plain_parts_def filter_id_conv)

text \<open>A name that climbs out of the registry: with the listing of directories, the view answers with the
  page of any directory of the system, without any token.\<close>

theorem content_lists_outside:
  assumes "we_listing W" "fs_is_dir (ws_fs s) (we_registry W @ [inst])" "''..'' \<notin> set (we_registry W @ [inst])"
    and "fs_is_dir (ws_fs s) d" "plain_parts d" "''..'' \<notin> set d"
    and "filename = str_join ''/'' (replicate (Suc (length (we_registry W))) ''..'' @ d)"
  shows "content_view W inst filename s =
    (Inr (fb_render_template W ''dir.html.j2'' [(''instance'', PStr inst),
       (''instance_registry_folder'', PPath (path_str (we_registry W @ [inst]))),
       (''path'', PPath (path_str (joinpath (we_registry W @ [inst]) filename)))]), s)
    \<and> walk (ws_fs s) [] (joinpath (we_registry W @ [inst]) filename) = Some d"
proof -
  let ?f = "we_registry W @ [inst]"
  let ?up = "replicate (Suc (length (we_registry W))) ''..''"
  have "plain_parts (?up @ d)" using assms(5) unfolding plain_parts_def set_append set_replicate_Suc ball_Un by simp
  then have parts: "path_parts filename = ?up @ d"
    using parts_join [of "?up @ d"] assms(7) by (metis Nil_is_append_conv replicate_empty nat.simps(3))
  have "\<not> startswith filename ''/''"
    using assms(7) by (cases "replicate (length (we_registry W)) ''..'' @ d") (auto simp: startswith_def str_join_Cons)
  with parts have join: "joinpath ?f filename = ?f @ ?up @ d" by (simp add: joinpath_def)
  have "walk (ws_fs s) [] ?f = Some ?f"
    using walk_down [of "ws_fs s" "[]" ?f] dir_exists assms(2,3) by simp
  moreover have "walk (ws_fs s) ?f ?up = Some []"
    using walk_up [OF assms(2)] by simp
  moreover have "walk (ws_fs s) [] d = Some d"
    using walk_down [of "ws_fs s" "[]" d] dir_exists assms(4,6) by simp
  ultimately have "walk (ws_fs s) [] (joinpath ?f filename) = Some d"
    unfolding join by (metis walk_append)
  then show ?thesis
    using assms(1,4) by (simp add: content_view_def wret_def Let_def)
qed

text \<open>A token that the library refuses for another reason than its signature or its age, such as a text
  that is no token, ends as an internal error of every view, not as a refusal.\<close>

theorem malformed_token_uncaught:
  assumes "rq_auth rq = Some (''Bearer '' @ token)" "dict_get (ws_keys s) inst = Some key"
    and "jw_decode (we_jwt W) token key (tc_audience (we_tokens W)) (tc_algorithm (we_tokens W)) (we_now W) = JwtOther"
  shows "check_instance_token_permission W action inst rq view s = (Inl (Uncaught JWTErr), s)"
proof -
  have "split_max CHR '' '' 1 (''Bearer'' @ CHR '' '' # token) = [''Bearer'', token]"
    using split_max_append [of "CHR '' ''" "''Bearer''" 0 token] by simp
  then have "split_max CHR '' '' 1 (''Bearer '' @ token) ! 1 = token" by simp
  moreover have "startswith (''Bearer '' @ token) ''Bearer ''" by (simp add: startswith_def)
  ultimately have "get_token_user W inst rq s = (Inl (Uncaught JWTErr), s)"
    using assms by (simp add: get_token_user_def token_manager_def wbind_def abort_on_def wlift_def token_decode_def is_a_def)
  then show ?thesis by (simp add: check_instance_token_permission_def wbind_def)
qed

section \<open>Witnesses\<close>

definition example_web :: web_env where
  "example_web = \<lparr>we_bus = example_bus, we_now = 0, we_sender = '':1.1'', we_user = ''root'',
     we_policy = [\<lparr>po_name = ''anonymous'', po_members = None, po_actions = {''build''}\<rparr>], we_groups = (\<lambda>_. None),
     we_tokens = \<lparr>tc_storage = [''tokens''], tc_audience = ''a'', tc_algorithm = ''HS256'', tc_duration = 60\<rparr>,
     we_jwt = plain_jwt, we_upload = [''run''], we_registry = [''registry''], we_listing = True,
     we_candidate = ''tmp1'', we_secure = id, we_version = ''1''\<rparr>"

definition example_state :: web_state where
  "example_state = \<lparr>ws_dbus = example_server,
     ws_fs = Dir [(''run'', Dir []), (''registry'', Dir [(''default'', Dir [])]), (''etc'', Dir [])],
     ws_keys = [(''default'', ''k'')]\<rparr>"

definition example_request :: http_request where
  "example_request = \<lparr>rq_auth = None, rq_args = [],
     rq_form = [(''format'', ''deb''), (''distribution'', ''sid''), (''architectures'', ''x86_64''), (''derivative'', ''main''),
       (''artifact'', ''foo''), (''user_name'', ''Bob''), (''user_email'', ''bob@x''), (''message'', ''m'')],
     rq_files = [\<lparr>up_field = ''tarball'', up_filename = ''foo.tar.xz'', up_content = ''data''\<rparr>]\<rparr>"

theorem content_lists_outside_witness:
  "\<exists>page. content_view example_web ''default'' ''../../etc'' example_state = (Inr page, example_state)"
  using content_lists_outside [of example_web example_state "''default''" "[''etc'']" "''../../etc''"]
  by (simp add: example_web_def example_state_def fs_is_dir_def plain_parts_def)

theorem malformed_token_uncaught_witness:
  "check_instance_token_permission example_web ''build'' ''default'' (example_request\<lparr>rq_auth := Some ''Bearer xyz''\<rparr>)
     (wret ()) example_state = (Inl (Uncaught JWTErr), example_state)"
  using malformed_token_uncaught [of "example_request\<lparr>rq_auth := Some ''Bearer xyz''\<rparr>" "''xyz''" example_state "''default''" "''k''"
      example_web "''build''" "wret ()"]
  by (simp add: example_web_def example_state_def plain_jwt_def dict_get_def)

theorem read_views_keep_instances_witness:
  "ds_instances (ws_dbus (snd (queue_view example_web ''default'' example_request example_state))) =
   ds_instances (ws_dbus example_state)"
  by (rule read_views_keep_instances [where inst = "''default''" and rq = example_request and W = example_web]) blast

lemma example_build:
  "fst (build_view example_web ''default'' example_request example_state) = Inr (Json (PDict [(''task'', PStr ''t9'')]))"
  by code_simp

theorem web_build_identity_witness:
  "\<exists>s' i t f. build_view example_web ''default'' example_request example_state = (Inr (Json (PDict [(''task'', PStr ''t9'')])), s')
    \<and> rt_user t = PStr ''anonymous'' \<and> dict_get (insts s') ''default'' = Some (i\<lparr>si_tasks := (si_tasks i)\<lparr>
        tm_queue := QueueManager_put t (tm_queue (si_tasks i)), tm_state_file := f\<rparr>\<rparr>)"
proof -
  obtain s' where s': "build_view example_web ''default'' example_request example_state = (Inr (Json (PDict [(''task'', PStr ''t9'')])), s')"
    using example_build by (metis prod.collapse)
  have "get_token_user example_web ''default'' example_request example_state = (Inr None, example_state)"
    by (simp add: get_token_user_def example_request_def wret_def)
  with web_build_identity [OF s'] s' show ?thesis
    by (auto simp: example_web_def example_bus_def)
qed

end
