(* ===== verification/WebApp.thy ===== *)
theory WebApp
  imports HttpSafety
begin

text \<open>
  \<^verbatim>\<open>WebApp\<close> of \<^verbatim>\<open>fatbuildr/protocols/http/server/__init__.py\<close>: the rules that lead a request to its view,
  and the answers of the error handlers of \<^verbatim>\<open>views.py\<close>. The rules are the texts of the source, and they are
  matched as the documentation of the routing library says: a variable piece takes a non-empty text
  without slash, a variable of type \<^verbatim>\<open>path\<close> takes the rest of the address, and a rule that has one comes
  after the others; a rule that ends with a slash redirects the address that lacks it.
\<close>

section \<open>Rules\<close>

record url_rule =
  ur_path :: string
  ur_view :: string
  ur_method :: string
  ur_defaults :: "(string, string) dict"

definition get_rule :: "string \<Rightarrow> string \<Rightarrow> (string, string) dict \<Rightarrow> url_rule" where
  "get_rule p v d = \<lparr>ur_path = p, ur_view = v, ur_method = ''GET'', ur_defaults = d\<rparr>"

definition html_output :: "(string, string) dict" where
  "html_output = [(''output'', ''html'')]"

definition json_output :: "(string, string) dict" where
  "json_output = [(''output'', ''json'')]"

text \<open>The rules of an instance, relative to its address.\<close>

definition instance_rules :: "url_rule list" where
  "instance_rules =
    [get_rule ''/instance.json'' ''instance'' [],
     get_rule ''/pipelines/architectures.json'' ''pipelines_architectures'' [],
     get_rule ''/pipelines/formats.json'' ''pipelines_formats'' [],
     get_rule ''/registry/'' ''registry'' html_output,
     get_rule ''/registry.json'' ''registry'' json_output,
     get_rule ''/registry/<string:fmt>/'' ''format'' html_output,
     get_rule ''/registry/<string:fmt>.json'' ''format'' json_output,
     get_rule ''/registry/<string:fmt>/<string:distribution>/'' ''distribution'' html_output,
     get_rule ''/registry/<string:fmt>/<string:distribution>.json'' ''distribution'' json_output,
     get_rule ''/registry/<string:fmt>/<string:distribution>/<string:derivative>/'' ''derivative'' html_output,
     get_rule ''/registry/<string:fmt>/<string:distribution>/<string:derivative>.json'' ''derivative'' json_output,
     get_rule ''/registry/<string:fmt>/<string:distribution>/<string:derivative>/<string:architecture>/<string:artifact>/''
       ''artifact'' html_output,
     get_rule ''/registry/<string:fmt>/<string:distribution>/<string:derivative>/<string:architecture>/<string:artifact>.json''
       ''artifact'' json_output,
     \<lparr>ur_path = ''/registry/<string:fmt>/<string:distribution>/<string:derivative>/<string:architecture>/<string:artifact>.json'',
       ur_view = ''artifact_delete'', ur_method = ''DELETE'', ur_defaults = []\<rparr>,
     get_rule ''/search'' ''search'' html_output,
     get_rule ''/search.json'' ''search'' json_output,
     \<lparr>ur_path = ''/build'', ur_view = ''build'', ur_method = ''POST'', ur_defaults = []\<rparr>,
     get_rule ''/running.json'' ''running'' [],
     get_rule ''/queue.json'' ''queue'' [],
     get_rule ''/tasks/<string:task_id>.json'' ''task'' [],
     get_rule ''/watch/<string:task_id>.journal'' ''watch'' [(''output'', ''journal'')],
     get_rule ''/watch/<string:task_id>.html'' ''watch'' html_output,
     get_rule ''/<path:filename>'' ''content'' [],
     get_rule ''/keyring.asc'' ''keyring'' []]"

text \<open>\<^verbatim>\<open>allinstances\<close> and \<^verbatim>\<open>add_instance_url_rule\<close>\<close>

definition allinstances :: "string \<Rightarrow> bool" where
  "allinstances inst \<longleftrightarrow> inst = ''all''"

definition add_instance_url_rule :: "string \<Rightarrow> url_rule \<Rightarrow> url_rule" where
  "add_instance_url_rule inst r =
     (if \<not> allinstances inst then r\<lparr>ur_defaults := dict_set (ur_defaults r) ''instance'' inst\<rparr>
      else r\<lparr>ur_path := ''/<string:instance>'' @ ur_path r\<rparr>)"

definition WebApp_rules :: "string \<Rightarrow> url_rule list" where
  "WebApp_rules inst =
     get_rule ''/version'' ''version'' [] #
     (if allinstances inst then [get_rule ''/'' ''index'' html_output, get_rule ''/instances.json'' ''index'' json_output]
      else [get_rule ''/'' ''index_redirect'' [(''instance'', inst)]]) @
     map (add_instance_url_rule inst) instance_rules"

section \<open>Matching\<close>

datatype piece = Fixed string | Variable string string string

definition rule_piece :: "string \<Rightarrow> piece" where
  "rule_piece s =
     (case s of
        CHR ''<'' # body \<Rightarrow>
          (let inner = takeWhile (\<lambda>c. c \<noteq> CHR ''>'') body; parts = split_max CHR '':'' 1 inner
           in Variable (parts ! 0) (parts ! 1) (drop (Suc (length inner)) body))
      | _ \<Rightarrow> Fixed s)"

fun match_pieces :: "piece list \<Rightarrow> string list \<Rightarrow> (string, string) dict option" where
  "match_pieces [] [] = Some []"
| "match_pieces (Fixed s # ps) (x # xs) = (if x = s then match_pieces ps xs else None)"
| "match_pieces (Variable conv name ending # ps) (x # xs) =
     (if conv = ''path'' then (if ps = [] \<and> x \<noteq> [] then Some [(name, str_join ''/'' (x # xs))] else None)
      else if endswith x ending \<and> length ending < length x
        then map_option ((#) (name, take (length x - length ending) x)) (match_pieces ps xs)
      else None)"
| "match_pieces _ _ = None"

definition rule_pieces :: "url_rule \<Rightarrow> piece list" where
  "rule_pieces r = map rule_piece (split_on CHR ''/'' (ur_path r))"

definition match_rule :: "url_rule \<Rightarrow> string \<Rightarrow> (string, string) dict option" where
  "match_rule r p = map_option (\<lambda>vs. ur_defaults r @ vs) (match_pieces (rule_pieces r) (split_on CHR ''/'' p))"

definition has_path :: "url_rule \<Rightarrow> bool" where
  "has_path r \<longleftrightarrow> (\<exists>p \<in> set (rule_pieces r). case p of Variable conv _ _ \<Rightarrow> conv = ''path'' | _ \<Rightarrow> False)"

datatype routed = View string "(string, string) dict" | Slash | WrongMethod | NoRule

definition first_match :: "url_rule list \<Rightarrow> string \<Rightarrow> (string \<times> (string, string) dict) option" where
  "first_match rs p = find (\<lambda>_. True) (List.map_filter (\<lambda>r. map_option (Pair (ur_view r)) (match_rule r p)) rs)"

definition route :: "string \<Rightarrow> string \<Rightarrow> string \<Rightarrow> routed" where
  "route inst verb p =
     (let rs = WebApp_rules inst;
          usable = filter (\<lambda>r. ur_method r = verb) rs;
          plain = filter (\<lambda>r. \<not> has_path r) usable
      in (case first_match plain p of
            Some (v, args) \<Rightarrow> View v args
          | None \<Rightarrow>
              (if first_match plain (p @ ''/'') \<noteq> None then Slash
               else (case first_match (filter has_path usable) p of
                       Some (v, args) \<Rightarrow> View v args
                     | None \<Rightarrow> (if first_match rs p \<noteq> None then WrongMethod else NoRule)))))"

section \<open>Views by their names\<close>

definition run_view :: "web_env \<Rightarrow> string \<Rightarrow> (string, string) dict \<Rightarrow> http_request \<Rightarrow> http_answer web" where
  "run_view W view args rq =
     (let a = (\<lambda>k. case dict_get args k of Some x \<Rightarrow> x | None \<Rightarrow> []);
          inst = a ''instance''; js = (a ''output'' = ''json'')
      in if view = ''version'' then version_view W
         else if view = ''index'' then index_view W js
         else if view = ''index_redirect'' then index_redirect inst
         else if view = ''instance'' then instance_view W inst rq
         else if view = ''pipelines_architectures'' then pipelines_architectures_view W inst rq
         else if view = ''pipelines_formats'' then pipelines_formats_view W inst rq
         else if view = ''registry'' then registry_view W inst js rq
         else if view = ''format'' then format_view W inst (a ''fmt'') js rq
         else if view = ''distribution'' then distribution_view W inst (a ''fmt'') (a ''distribution'') js rq
         else if view = ''derivative'' then derivative_view W inst (a ''fmt'') (a ''distribution'') (a ''derivative'') js rq
         else if view = ''artifact'' then
           artifact_view W inst (a ''fmt'') (a ''distribution'') (a ''derivative'') (a ''architecture'') (a ''artifact'') js rq
         else if view = ''artifact_delete'' then
           artifact_delete_view W inst (a ''fmt'') (a ''distribution'') (a ''derivative'') (a ''architecture'')
             (a ''artifact'') rq
         else if view = ''search'' then search_view W inst js rq
         else if view = ''build'' then build_view W inst rq
         else if view = ''running'' then running_view W inst rq
         else if view = ''queue'' then queue_view W inst rq
         else if view = ''task'' then task_view W inst (a ''task_id'') rq
         else if view = ''watch'' then watch_view W inst (a ''task_id'') (a ''output'' = ''html'') rq
         else if view = ''content'' then content_view W inst (a ''filename'')
         else keyring_view W inst rq)"

section \<open>Answers\<close>

text \<open>An error is JSON for the views that have no output or another one than HTML. The messages are left out.\<close>

datatype reply_body = JsonBody pyval | ErrorJson | OtherBody http_answer | ErrorPage

record http_reply =
  hr_status :: nat
  hr_body :: reply_body

definition html_view :: "(string, string) dict option \<Rightarrow> bool" where
  "html_view args \<longleftrightarrow> (case args of None \<Rightarrow> True | Some vs \<Rightarrow> dict_get vs ''output'' = Some ''html'')"

definition error_reply :: "(string, string) dict option \<Rightarrow> nat \<Rightarrow> http_reply" where
  "error_reply args n =
     \<lparr>hr_status = n, hr_body = if n \<in> {403, 404} \<and> \<not> html_view args then ErrorJson else ErrorPage\<rparr>"

definition answer_reply :: "http_answer \<Rightarrow> http_reply" where
  "answer_reply x =
     (case x of
        Json v \<Rightarrow> \<lparr>hr_status = 200, hr_body = JsonBody v\<rparr>
      | Redirect _ \<Rightarrow> \<lparr>hr_status = 302, hr_body = OtherBody x\<rparr>
      | _ \<Rightarrow> \<lparr>hr_status = 200, hr_body = OtherBody x\<rparr>)"

definition view_reply :: "(string, string) dict \<Rightarrow> web_fault + http_answer \<Rightarrow> http_reply" where
  "view_reply args r =
     (case r of
        Inr x \<Rightarrow> answer_reply x
      | Inl (Abort n) \<Rightarrow> error_reply (Some args) n
      | Inl (Uncaught e) \<Rightarrow> error_reply (Some args) 500)"

definition serve_http :: "web_env \<Rightarrow> string \<Rightarrow> string \<Rightarrow> string \<Rightarrow> http_request \<Rightarrow> web_state \<Rightarrow> http_reply \<times> web_state" where
  "serve_http W inst verb p rq s =
     (case route inst verb p of
        NoRule \<Rightarrow> (error_reply None 404, s)
      | WrongMethod \<Rightarrow> (error_reply None 405, s)
      | Slash \<Rightarrow> (\<lparr>hr_status = 308, hr_body = OtherBody (Redirect (p @ ''/''))\<rparr>, s)
      | View v args \<Rightarrow> (let (r, s') = run_view W v args rq s in (view_reply args r, s')))"

end
