(* ===== verification/HttpClient.thy ===== *)
theory HttpClient
  imports WebApp
begin

text \<open>
  \<^verbatim>\<open>fatbuildr/protocols/http/client.py\<close>: the client of the web service, composed with the server it
  talks to. An operation is an action on the server's state and on the files of the client's machine. An
  address is cut in its parts as the standard says; how the libraries quote its characters on one side
  and decode them on the other is the parameter \<open>ht_decode\<close>. A JSON value arrives as it was sent.
\<close>

section \<open>Requests\<close>

record http_transport =
  ht_env :: web_env
  ht_instance :: string
  ht_reachable :: bool
  ht_decode :: "string \<Rightarrow> string"

record http_client =
  hc_uri :: string
  hc_token :: "string option"

record http_world =
  hw_server :: web_state
  hw_files :: node

type_synonym 'a hact = "(http_world, 'a) act"

fun after_scheme :: "string \<Rightarrow> string" where
  "after_scheme [] = []"
| "after_scheme (c # cs) = (if startswith (c # cs) ''://'' then drop 3 (c # cs) else after_scheme cs)"

definition url_target :: "string \<Rightarrow> string" where
  "url_target u = takeWhile (\<lambda>c. c \<noteq> CHR ''#'') (dropWhile (\<lambda>c. c \<noteq> CHR ''/'') (after_scheme u))"

definition url_path :: "string \<Rightarrow> string" where
  "url_path u = takeWhile (\<lambda>c. c \<noteq> CHR ''?'') (url_target u)"

definition query_item :: "(string \<Rightarrow> string) \<Rightarrow> string \<Rightarrow> string \<times> string" where
  "query_item decode s =
     (let k = takeWhile (\<lambda>c. c \<noteq> CHR ''='') s in (decode k, decode (drop (Suc (length k)) s)))"

definition url_args :: "(string \<Rightarrow> string) \<Rightarrow> string \<Rightarrow> (string, string) dict" where
  "url_args decode u =
     (let q = drop 1 (dropWhile (\<lambda>c. c \<noteq> CHR ''?'') (url_target u))
      in map (query_item decode) (filter (\<lambda>s. s \<noteq> []) (split_on CHR ''&'' q)))"

text \<open>A request that reaches the server.\<close>

definition http_request_of ::
  "http_transport \<Rightarrow> http_client \<Rightarrow> string \<Rightarrow> (string, string) dict \<Rightarrow> upload list \<Rightarrow> http_request" where
  "http_request_of T C u form files =
     \<lparr>rq_auth = (case hc_token C of Some t \<Rightarrow> if t = [] then None else Some (''Bearer '' @ t) | None \<Rightarrow> None),
      rq_args = url_args (ht_decode T) u, rq_form = form, rq_files = files\<rparr>"

definition redirected :: "http_reply \<Rightarrow> string option" where
  "redirected reply =
     (case hr_body reply of OtherBody (Redirect l) \<Rightarrow> if hr_status reply = 308 then Some l else None | _ \<Rightarrow> None)"

definition call_server ::
  "http_transport \<Rightarrow> string \<Rightarrow> string \<Rightarrow> http_request \<Rightarrow> web_state \<Rightarrow> http_reply \<times> web_state" where
  "call_server T verb p rq s =
     (let (reply, s') = serve_http (ht_env T) (ht_instance T) verb p rq s
      in (case redirected reply of
            None \<Rightarrow> (reply, s')
          | Some l \<Rightarrow> serve_http (ht_env T) (ht_instance T) verb l rq s'))"

text \<open>\<^verbatim>\<open>response.json()\<close>: what is not JSON is an error of decoding, which the decorator translates.\<close>

definition reply_json :: "http_reply \<Rightarrow> pyval res" where
  "reply_json reply = (case hr_body reply of JsonBody v \<Rightarrow> Inr v | ErrorJson \<Rightarrow> Inr (PDict [(''error'', PStr [])])
     | _ \<Rightarrow> Inl FatbuildrServerError)"

text \<open>The tests of \<^verbatim>\<open>_auth_request\<close>; the message of a refusal is read in a JSON answer.\<close>

definition check_reply :: "http_reply \<Rightarrow> http_reply res" where
  "check_reply reply =
     (if hr_status reply = 403 then rbind (reply_json reply) (\<lambda>_. Inl FatbuildrServerPermissionError)
      else if hr_status reply = 404 then rbind (reply_json reply) (\<lambda>_. Inl FatbuildrServerError)
      else if hr_status reply = 500 then Inl FatbuildrServerError
      else Inr reply)"

definition auth_request ::
  "http_transport \<Rightarrow> http_client \<Rightarrow> string \<Rightarrow> string \<Rightarrow> (string, string) dict \<Rightarrow> upload list \<Rightarrow> http_reply hact" where
  "auth_request T C verb u form files w =
     (if \<not> ht_reachable T then (Inl FatbuildrServerError, w)
      else
        (let (reply, s') = call_server T verb (ht_decode T (url_path u)) (http_request_of T C u form files) (hw_server w)
         in (check_reply reply, w\<lparr>hw_server := s'\<rparr>)))"

definition json_request :: "http_transport \<Rightarrow> http_client \<Rightarrow> string \<Rightarrow> string \<Rightarrow> (pyval \<Rightarrow> 'a res) \<Rightarrow> 'a hact" where
  "json_request T C verb u f =
     sbind (auth_request T C verb u [] []) (\<lambda>reply. slift (rbind (reply_json reply) f))"

section \<open>Values\<close>

definition load_object :: "string \<Rightarrow> pyval \<Rightarrow> obj res" where
  "load_object cls v =
     rbind (json_type_fields cls) (\<lambda>fs. (case v of PDict st \<Rightarrow> json_load_fields fs st | _ \<Rightarrow> Inl TypeErr))"

definition items_of :: "pyval \<Rightarrow> pyval list res" where
  "items_of v = (case v of PList xs \<Rightarrow> Inr xs | _ \<Rightarrow> Inl TypeErr)"

definition text_of :: "pyval \<Rightarrow> string res" where
  "text_of v = (case v of PStr s \<Rightarrow> Inr s | _ \<Rightarrow> Inl TypeErr)"

definition keys_of :: "pyval \<Rightarrow> string list res" where
  "keys_of v = (case v of PDict d \<Rightarrow> Inr (map fst d) | _ \<Rightarrow> Inl AttributeErr)"

section \<open>Operations\<close>

definition http_instance :: "http_transport \<Rightarrow> http_client \<Rightarrow> obj hact" where
  "http_instance T C = json_request T C ''GET'' (hc_uri C @ ''/instance.json'') (load_object ''JsonInstance'')"

definition http_pipelines_architectures :: "http_transport \<Rightarrow> http_client \<Rightarrow> pyval hact" where
  "http_pipelines_architectures T C = json_request T C ''GET'' (hc_uri C @ ''/pipelines/architectures.json'') Inr"

definition http_pipelines_format_distributions :: "http_transport \<Rightarrow> http_client \<Rightarrow> string \<Rightarrow> pyval list hact" where
  "http_pipelines_format_distributions T C fmt =
     json_request T C ''GET'' (hc_uri C @ ''/pipelines/formats.json?format='' @ fmt) (\<lambda>formats.
       rbind (rbind (struct_item formats fmt) items_of) (rmapM (\<lambda>e. struct_item e ''distribution'')))"

definition http_pipelines_distribution_format :: "http_transport \<Rightarrow> http_client \<Rightarrow> string \<Rightarrow> string hact" where
  "http_pipelines_distribution_format T C d =
     json_request T C ''GET'' (hc_uri C @ ''/pipelines/formats.json?distribution='' @ d) (\<lambda>formats.
       rbind (keys_of formats) (\<lambda>ks. case ks of [] \<Rightarrow> Inl FatbuildrServerError | k # _ \<Rightarrow> Inr k))"

text \<open>The first value of an empty dictionary raises \<^verbatim>\<open>StopIteration\<close>.\<close>

definition http_pipelines_distribution_environment :: "http_transport \<Rightarrow> http_client \<Rightarrow> string \<Rightarrow> pyval hact" where
  "http_pipelines_distribution_environment T C d =
     json_request T C ''GET'' (hc_uri C @ ''/pipelines/formats.json?distribution='' @ d) (\<lambda>formats.
       (case formats of
          PDict ((_, PList (e # _)) # _) \<Rightarrow> struct_item e ''environment''
        | PDict ((_, PList []) # _) \<Rightarrow> Inl IndexErr
        | PDict [] \<Rightarrow> Inl StopIterationErr
        | PDict _ \<Rightarrow> Inl TypeErr
        | _ \<Rightarrow> Inl AttributeErr))"

definition http_pipelines_derivative_formats :: "http_transport \<Rightarrow> http_client \<Rightarrow> string \<Rightarrow> string list hact" where
  "http_pipelines_derivative_formats T C dv =
     json_request T C ''GET'' (hc_uri C @ ''/pipelines/formats.json?derivative='' @ dv) keys_of"

definition http_artifacts :: "http_transport \<Rightarrow> http_client \<Rightarrow> string \<Rightarrow> string \<Rightarrow> string \<Rightarrow> obj list hact" where
  "http_artifacts T C fmt d dv =
     json_request T C ''GET'' (hc_uri C @ ''/registry/'' @ fmt @ ''/'' @ d @ ''/'' @ dv @ ''.json'') (\<lambda>v.
       rbind (items_of v) (rmapM (load_object ''JsonArtifact'')))"

text \<open>The last two pieces of the address are plain texts: their braces are sent as they are.\<close>

definition delete_url :: "http_client \<Rightarrow> string \<Rightarrow> string \<Rightarrow> string \<Rightarrow> obj \<Rightarrow> string" where
  "delete_url C fmt d dv artifact =
     (hc_uri C @ ''/registry/'' @ fmt @ ''/'' @ d @ ''/'' @ dv @ ''/'') @
     ''{artifact.architecture}/{artifact.name}.json?'' @ ''version={artifact.version}''"

definition http_delete_artifact ::
  "http_transport \<Rightarrow> http_client \<Rightarrow> string \<Rightarrow> string \<Rightarrow> string \<Rightarrow> obj \<Rightarrow> string hact" where
  "http_delete_artifact T C fmt d dv artifact =
     json_request T C ''DELETE'' (delete_url C fmt d dv artifact) (\<lambda>v. rbind (struct_item v ''task'') text_of)"

text \<open>\<^verbatim>\<open>build\<close>: the files are opened, sent, and removed whatever the answer is.\<close>

definition open_upload :: "string \<Rightarrow> path \<Rightarrow> upload hact" where
  "open_upload field p w =
     (rmap (\<lambda>c. \<lparr>up_field = field, up_filename = (if p = [] then [] else List.last p), up_content = c\<rparr>)
        (fs_read (hw_files w) p), w)"

fun open_sources :: "(string \<times> path) list \<Rightarrow> (string, upload) dict \<Rightarrow> (string, upload) dict hact" where
  "open_sources [] files = sret files"
| "open_sources ((i, p) # srcs) files =
     sbind (open_upload (''source/'' @ i) p) (\<lambda>u. open_sources srcs (dict_set files (''source/'' @ i) u))"

definition unlink_file :: "path \<Rightarrow> unit hact" where
  "unlink_file p = spart hw_files (\<lambda>n w. w\<lparr>hw_files := n\<rparr>) (fs_unlink p)"

definition send_build :: "http_transport \<Rightarrow> http_client \<Rightarrow> build_args \<Rightarrow> upload list \<Rightarrow> http_reply hact" where
  "send_build T C b files =
     auth_request T C ''POST'' (hc_uri C @ ''/build'')
       [(''format'', ba_format b), (''distribution'', ba_distribution b),
        (''architectures'', str_join '','' (ba_architectures b)), (''derivative'', ba_derivative b),
        (''artifact'', ba_artifact b), (''user_name'', ba_author b), (''user_email'', ba_email b),
        (''message'', ba_message b)] files"

text \<open>\<^verbatim>\<open>try: ... finally: cleanup\<close>\<close>

definition with_finally :: "'a hact \<Rightarrow> unit hact \<Rightarrow> 'a hact" where
  "with_finally m cleanup w =
     (let (r, w') = m w; (c, w'') = cleanup w' in (case c of Inl e \<Rightarrow> Inl e | Inr _ \<Rightarrow> r, w''))"

definition http_build ::
  "http_transport \<Rightarrow> http_client \<Rightarrow> build_args \<Rightarrow> path \<Rightarrow> (string \<times> path) list \<Rightarrow> string hact" where
  "http_build T C b tarball sources =
     sbind (open_upload ''tarball'' tarball) (\<lambda>u.
     sbind (open_sources sources [(''tarball'', u)]) (\<lambda>files.
     sbind (with_finally (send_build T C b (map snd files)) (sfor unlink_file (tarball # map snd sources))) (\<lambda>reply.
       slift (rbind (reply_json reply) (\<lambda>v. rbind (struct_item v ''task'') text_of)))))"

definition http_queue :: "http_transport \<Rightarrow> http_client \<Rightarrow> obj list hact" where
  "http_queue T C = json_request T C ''GET'' (hc_uri C @ ''/queue.json'') (\<lambda>v.
     rbind (items_of v) (rmapM task_from_json))"

definition load_task_or_none :: "pyval \<Rightarrow> obj option res" where
  "load_task_or_none v = (if v = PNone then Inr None else rmap Some (task_from_json v))"

definition http_running :: "http_transport \<Rightarrow> http_client \<Rightarrow> obj option hact" where
  "http_running T C = json_request T C ''GET'' (hc_uri C @ ''/running.json'') load_task_or_none"

definition http_get :: "http_transport \<Rightarrow> http_client \<Rightarrow> string \<Rightarrow> obj option hact" where
  "http_get T C task_id = json_request T C ''GET'' (hc_uri C @ ''/tasks/'' @ task_id @ ''.json'') load_task_or_none"

definition http_attach :: "obj \<Rightarrow> unit hact" where
  "http_attach task = slift (Inl NotImplementedErr)"

text \<open>The reply that \<^verbatim>\<open>console_http_client\<close> reads.\<close>

definition http_watch :: "http_transport \<Rightarrow> http_client \<Rightarrow> obj \<Rightarrow> http_reply hact" where
  "http_watch T C task =
     sbind (slift (rbind (getattr task ''id'') text_of)) (\<lambda>i.
       auth_request T C ''GET'' (hc_uri C @ ''/watch/'' @ i @ ''.journal'') [] [])"

section \<open>Choice of a client\<close>

text \<open>\<^verbatim>\<open>ClientFactory.get\<close> in \<^verbatim>\<open>protocols/__init__.py\<close>, on the scheme and the path of the address.\<close>

datatype client_choice = DBusChoice string | HttpChoice http_client

definition client_uri :: "string \<Rightarrow> string" where
  "client_uri address = str_rstrip_char CHR ''/'' address"

definition ClientFactory_get :: "string \<Rightarrow> string \<Rightarrow> string \<Rightarrow> string option \<Rightarrow> client_choice res" where
  "ClientFactory_get address scheme upath token =
     (let inst = str_strip_char CHR ''/'' upath
      in if scheme = ''dbus'' then (if inst = [] then Inl FatbuildrRuntimeError else Inr (DBusChoice inst))
         else if scheme \<in> {''http'', ''https''} then Inr (HttpChoice \<lparr>hc_uri = client_uri address, hc_token = token\<rparr>)
         else Inl FatbuildrRuntimeError)"

end
