(* ===== verification/HttpRoutes.thy ===== *)
theory HttpRoutes
  imports HttpClient
begin

text \<open>The way of a request of the HTTP client to its view: the rules of the server as rows of pieces, the parts of an
  address, and what an answer of a view is for the client.\<close>

section \<open>Routes\<close>

type_synonym row = "string \<times> (string, string) dict \<times> piece list"

definition row_of :: "url_rule \<Rightarrow> row" where
  "row_of r = (ur_view r, ur_defaults r, rule_pieces r)"

fun row_match :: "row list \<Rightarrow> string list \<Rightarrow> (string \<times> (string, string) dict) option" where
  "row_match [] segs = None"
| "row_match ((v, d, ps) # rows) segs =
     (case match_pieces ps segs of None \<Rightarrow> row_match rows segs | Some vs \<Rightarrow> Some (v, d @ vs))"

lemma first_match_rows: "first_match rs p = row_match (map row_of rs) (split_on CHR ''/'' p)"
  by (induction rs) (simp_all add: first_match_def row_of_def match_rule_def List.map_filter_simps split: option.splits)

definition plain_rows :: "string \<Rightarrow> row list" where
  "plain_rows verb = map row_of (filter (\<lambda>r. \<not> has_path r) (filter (\<lambda>r. ur_method r = verb) instance_rules))"

definition with_instance :: "string \<Rightarrow> row \<Rightarrow> row" where
  "with_instance inst = (\<lambda>(v, d, ps). (v, dict_set d ''instance'' inst, ps))"

lemma rule_pieces_defaults [simp]: "rule_pieces (r\<lparr>ur_defaults := d\<rparr>) = rule_pieces r" "has_path (r\<lparr>ur_defaults := d\<rparr>) = has_path r"
  by (simp_all add: rule_pieces_def has_path_def)

lemma instance_rows:
  "\<not> allinstances inst \<Longrightarrow>
   map row_of (filter (\<lambda>r. \<not> has_path r) (filter (\<lambda>r. ur_method r = verb) (map (add_instance_url_rule inst) rs))) =
   map (with_instance inst) (map row_of (filter (\<lambda>r. \<not> has_path r) (filter (\<lambda>r. ur_method r = verb) rs)))"
  by (induction rs) (simp_all add: add_instance_url_rule_def with_instance_def row_of_def)

lemma root_rows:
  "map row_of (filter (\<lambda>r. \<not> has_path r) (filter (\<lambda>r. ur_method r = verb)
     [get_rule ''/version'' ''version'' [], get_rule ''/'' ''index_redirect'' d])) =
   (if verb = ''GET'' then [(''version'', [], [Fixed [], Fixed ''version'']), (''index_redirect'', d, [Fixed [], Fixed []])] else [])"
proof -
  have "rule_pieces (get_rule ''/version'' v d) = [Fixed [], Fixed ''version'']"
    "rule_pieces (get_rule ''/'' v d) = [Fixed [], Fixed []]" for v d
    by (simp_all add: rule_pieces_def get_rule_def rule_piece_def)
  then show ?thesis by (auto simp: has_path_def row_of_def) (simp_all add: get_rule_def)
qed

lemma match_two: "match_pieces [Fixed a, Fixed b] segs = (if segs = [a, b] then Some [] else None)"
  by (cases segs; cases "tl segs"; cases "tl (tl segs)") auto

lemma route_plain:
  assumes "\<not> allinstances inst"
    and "row_match (map (with_instance inst) (plain_rows verb)) (split_on CHR ''/'' p) = Some (v, args)"
    and "verb = ''GET'' \<Longrightarrow> split_on CHR ''/'' p \<noteq> [[], []] \<and> split_on CHR ''/'' p \<noteq> [[], ''version'']"
  shows "route inst verb p = View v args"
proof -
  let ?rs = "filter (\<lambda>r. \<not> has_path r) (filter (\<lambda>r. ur_method r = verb) (WebApp_rules inst))"
  let ?rows = "map (with_instance inst) (plain_rows verb)" and ?segs = "split_on CHR ''/'' p"
  have "row_match ((''version'', [], [Fixed [], Fixed ''version'']) # (''index_redirect'', d, [Fixed [], Fixed []]) # ?rows)
      ?segs = row_match ?rows ?segs" if "?segs \<noteq> [[], []]" "?segs \<noteq> [[], ''version'']" for d
    unfolding row_match.simps match_two using that by simp
  moreover have rules: "WebApp_rules inst = [get_rule ''/version'' ''version'' [],
      get_rule ''/'' ''index_redirect'' [(''instance'', inst)]] @ map (add_instance_url_rule inst) instance_rules"
    using assms(1) by (simp add: WebApp_rules_def)
  have "map row_of ?rs = (if verb = ''GET'' then [(''version'', [], [Fixed [], Fixed ''version'']),
      (''index_redirect'', [(''instance'', inst)], [Fixed [], Fixed []])] else []) @ ?rows"
    unfolding rules filter_append map_append instance_rows [OF assms(1)] root_rows plain_rows_def by (rule refl)
  ultimately have "first_match ?rs p = Some (v, args)"
    unfolding first_match_rows using assms(2,3) by (cases "verb = ''GET''") simp_all
  then show ?thesis by (simp add: route_def Let_def)
qed

lemma rows_POST: "plain_rows ''POST'' = [(''build'', [], [Fixed [], Fixed ''build''])]"
  by code_simp

lemma rows_DELETE: "plain_rows ''DELETE'' = [(''artifact_delete'', [], [Fixed [], Fixed ''registry'', Variable ''string'' ''fmt'' [],
   Variable ''string'' ''distribution'' [], Variable ''string'' ''derivative'' [], Variable ''string'' ''architecture'' [],
       Variable ''string'' ''artifact'' ''.json''])]"
  by code_simp

lemma queue_row: "row_match (plain_rows ''GET'') [[], ''queue.json''] = Some (''queue'', [])"
  by code_simp

lemma row_match_instance:
  "row_match rows segs = Some (v, []) \<Longrightarrow> (\<forall>(v, d, ps) \<in> set rows. d = [] \<or> match_pieces ps segs = None) \<Longrightarrow>
   row_match (map (with_instance inst) rows) segs = Some (v, [(''instance'', inst)])"
  by (induction rows) (auto simp: with_instance_def split: option.splits)

lemma route_queue: "\<not> allinstances inst \<Longrightarrow> route inst ''GET'' ''/queue.json'' = View ''queue'' [(''instance'', inst)]"
proof (rule route_plain)
  have "\<forall>(v, d, ps) \<in> set (plain_rows ''GET''). d = [] \<or> match_pieces ps [[], ''queue.json''] = None"
    by code_simp
  from row_match_instance [OF queue_row this]
  show "row_match (map (with_instance inst) (plain_rows ''GET'')) (split_on CHR ''/'' ''/queue.json'') =
      Some (''queue'', [(''instance'', inst)])" by simp
qed simp_all

lemma route_build: "\<not> allinstances inst \<Longrightarrow> route inst ''POST'' ''/build'' = View ''build'' [(''instance'', inst)]"
  by (rule route_plain) (simp_all add: rows_POST with_instance_def)

lemma split_pieces:
  "CHR ''/'' \<notin> set x \<Longrightarrow> split_on CHR ''/'' (''/'' @ x @ CHR ''/'' # y) = [] # x # split_on CHR ''/'' y"
  by (simp add: split_on_append)

definition segment :: "string \<Rightarrow> bool" where
  "segment x \<longleftrightarrow> x \<noteq> [] \<and> CHR ''/'' \<notin> set x \<and> CHR ''?'' \<notin> set x \<and> CHR ''#'' \<notin> set x"

definition artifact_path :: "string \<Rightarrow> string \<Rightarrow> string \<Rightarrow> string" where
  "artifact_path fmt d dv = ''/registry/'' @ fmt @ ''/'' @ d @ ''/'' @ dv @ ''/''"

lemma route_delete:
  assumes "\<not> allinstances inst" "segment fmt" "segment d" "segment dv"
  shows "route inst ''DELETE'' (artifact_path fmt d dv @ ''{artifact.architecture}/{artifact.name}.json'') =
    View ''artifact_delete'' [(''instance'', inst), (''fmt'', fmt), (''distribution'', d), (''derivative'', dv),
      (''architecture'', ''{artifact.architecture}''), (''artifact'', ''{artifact.name}'')]"
proof (rule route_plain [OF assms(1)])
  have "split_on CHR ''/'' (artifact_path fmt d dv @ ''{artifact.architecture}/{artifact.name}.json'') =
      [[], ''registry'', fmt, d, dv, ''{artifact.architecture}'', ''{artifact.name}.json'']"
    using assms by (simp add: artifact_path_def segment_def split_on_append)
  then show "row_match (map (with_instance inst) (plain_rows ''DELETE''))
      (split_on CHR ''/'' (artifact_path fmt d dv @ ''{artifact.architecture}/{artifact.name}.json'')) =
    Some (''artifact_delete'', [(''instance'', inst), (''fmt'', fmt), (''distribution'', d), (''derivative'', dv),
      (''architecture'', ''{artifact.architecture}''), (''artifact'', ''{artifact.name}'')])"
    using assms by (simp add: rows_DELETE with_instance_def segment_def endswith_def startswith_def)
qed simp_all

section \<open>Addresses\<close>

text \<open>The address of a server that has one instance: a scheme and a host.\<close>

definition server_uri :: "string \<Rightarrow> bool" where
  "server_uri u \<longleftrightarrow> (\<exists>host. u = ''http://'' @ host \<and> CHR ''/'' \<notin> set host)"

lemma url_target_server:
  assumes "server_uri u" "CHR ''#'' \<notin> set p"
  shows "url_target (u @ CHR ''/'' # p) = CHR ''/'' # p"
proof -
  obtain host where host: "u = ''http://'' @ host" "CHR ''/'' \<notin> set host"
    using assms(1) by (auto simp: server_uri_def)
  then have "dropWhile (\<lambda>c. c \<noteq> CHR ''/'') (after_scheme (u @ CHR ''/'' # p)) = CHR ''/'' # p"
    by (simp add: startswith_def dropWhile_append)
  then show ?thesis
    unfolding url_target_def using assms(2) by (simp add: takeWhile_eq_all_conv) (metis)
qed

lemma url_parts:
  assumes "server_uri u" "CHR ''#'' \<notin> set (p @ q)" "CHR ''?'' \<notin> set p"
  shows "url_path (u @ CHR ''/'' # p @ CHR ''?'' # q) = CHR ''/'' # p"
    and "url_path (u @ CHR ''/'' # p) = CHR ''/'' # p"
    and "url_args f (u @ CHR ''/'' # p @ CHR ''?'' # q) = map (query_item f) (filter (\<lambda>s. s \<noteq> []) (split_on CHR ''&'' q))"
    and "url_args f (u @ CHR ''/'' # p) = []"
proof -
  have "url_target (u @ CHR ''/'' # p @ CHR ''?'' # q) = CHR ''/'' # p @ CHR ''?'' # q"
    using assms(2) by (intro url_target_server [OF assms(1)]) simp
  moreover have "url_target (u @ CHR ''/'' # p) = CHR ''/'' # p"
    using assms(2) by (intro url_target_server [OF assms(1)]) simp
  moreover have dw: "takeWhile (\<lambda>c. c \<noteq> CHR ''?'') p = p" "dropWhile (\<lambda>c. c \<noteq> CHR ''?'') p = []"
    using assms(3) by (auto simp: takeWhile_eq_all_conv)
  ultimately show "url_path (u @ CHR ''/'' # p @ CHR ''?'' # q) = CHR ''/'' # p"
    "url_path (u @ CHR ''/'' # p) = CHR ''/'' # p"
    "url_args f (u @ CHR ''/'' # p @ CHR ''?'' # q) = map (query_item f) (filter (\<lambda>s. s \<noteq> []) (split_on CHR ''&'' q))"
    "url_args f (u @ CHR ''/'' # p) = []"
    using assms(3) by (simp_all add: url_path_def url_args_def takeWhile_append dropWhile_append dw)
qed


section \<open>Requests\<close>

text \<open>A client and the single instance of the server that it talks to, which answers; what the libraries quote
  they decode again, for texts without a percent or a plus sign.\<close>

definition talks :: "http_transport \<Rightarrow> http_client \<Rightarrow> bool" where
  "talks T C \<longleftrightarrow> server_uri (hc_uri C) \<and> \<not> allinstances (ht_instance T) \<and> ht_reachable T
     \<and> (\<forall>s. CHR ''%'' \<notin> set s \<and> CHR ''+'' \<notin> set s \<longrightarrow> ht_decode T s = s)"

lemma talks_uri: "talks T C \<Longrightarrow> server_uri (hc_uri C)" "talks T C \<Longrightarrow> \<not> allinstances (ht_instance T)"
  by (simp_all add: talks_def)

lemma talks_decode: "talks T C \<Longrightarrow> CHR ''%'' \<notin> set s \<Longrightarrow> CHR ''+'' \<notin> set s \<Longrightarrow> ht_decode T s = s"
  by (simp add: talks_def)

text \<open>A request whose address leads to a view.\<close>

lemma view_not_redirected: "redirected (view_reply args r) = None"
  by (auto simp: redirected_def view_reply_def answer_reply_def error_reply_def
      split: sum.splits web_fault.splits http_answer.splits)

lemma auth_request_view:
  assumes "talks T C" "ht_decode T (url_path u) = p" "route (ht_instance T) verb p = View v args"
    and "run_view (ht_env T) v args (http_request_of T C u form files) (hw_server w) = (r, s')"
  shows "auth_request T C verb u form files w = (check_reply (view_reply args r), w\<lparr>hw_server := s'\<rparr>)"
  using assms by (simp add: auth_request_def talks_def call_server_def serve_http_def view_not_redirected)

text \<open>A JSON answer is the one of the view.\<close>

lemma json_of_view:
  assumes "check_reply (view_reply args r) = Inr reply" "reply_json reply = Inr j"
  shows "r = Inr (Json j)"
proof -
  have reply: "reply = view_reply args r" and status: "hr_status reply \<notin> {403, 404, 500}"
    using assms(1) by (auto simp: check_reply_def rbind_def split: if_splits sum.splits)
  show ?thesis
    using assms(2) status unfolding reply
    by (auto simp: view_reply_def answer_reply_def error_reply_def reply_json_def
        split: sum.splits web_fault.splits http_answer.splits if_splits)
qed

lemma json_answer: "check_reply (view_reply args (Inr (Json j))) = Inr \<lparr>hr_status = 200, hr_body = JsonBody j\<rparr>"
  by (simp add: view_reply_def answer_reply_def check_reply_def)

lemma json_request_Inr:
  assumes "json_request T C verb u f w = (Inr y, w')" "talks T C" "ht_decode T (url_path u) = p"
    and "route (ht_instance T) verb p = View v args"
  obtains j s' where "run_view (ht_env T) v args (http_request_of T C u [] []) (hw_server w) = (Inr (Json j), s')"
    "f j = Inr y" "w' = w\<lparr>hw_server := s'\<rparr>"
proof -
  obtain r s' where run: "run_view (ht_env T) v args (http_request_of T C u [] []) (hw_server w) = (r, s')" by fastforce
  have auth: "auth_request T C verb u [] [] w = (check_reply (view_reply args r), w\<lparr>hw_server := s'\<rparr>)"
    by (rule auth_request_view [OF assms(2-4) run])
  obtain reply where "check_reply (view_reply args r) = Inr reply" and w': "w' = w\<lparr>hw_server := s'\<rparr>"
    and "rbind (reply_json reply) f = Inr y"
    using assms(1) unfolding json_request_def sbind_Inr_conv auth slift_def by (elim exE conjE) simp
  moreover from this(3) obtain j where "reply_json reply = Inr j" "f j = Inr y"
    unfolding rbind_Inr_conv by blast
  ultimately have "r = Inr (Json j)" using json_of_view by blast
  with run \<open>f j = Inr y\<close> w' that show thesis by blast
qed

lemma json_request_ok:
  assumes "talks T C" "ht_decode T (url_path u) = p" "route (ht_instance T) verb p = View v args"
    and "run_view (ht_env T) v args (http_request_of T C u [] []) (hw_server w) = (Inr (Json j), s')"
  shows "json_request T C verb u f w = (f j, w\<lparr>hw_server := s'\<rparr>)"
  using auth_request_view [OF assms]
  by (simp add: json_request_def sbind_def json_answer slift_def rbind_def reply_json_def)

end
