(* ===== verification/HttpFlow.thy ===== *)
theory HttpFlow
  imports HttpRoutes
begin

text \<open>From the HTTP client to the queue of an instance: what the client of the web service gets and what it
  leaves, over the rules, the views, the D-Bus client and the D-Bus server.\<close>

section \<open>Deletion of an artifact\<close>

lemma delete_address:
  assumes "talks T C" "segment fmt" "segment d" "segment dv"
    and "CHR ''%'' \<notin> set fmt \<union> set d \<union> set dv" "CHR ''+'' \<notin> set fmt \<union> set d \<union> set dv"
  shows "ht_decode T (url_path (delete_url C fmt d dv a)) =
      artifact_path fmt d dv @ ''{artifact.architecture}/{artifact.name}.json''"
    and "url_args (ht_decode T) (delete_url C fmt d dv a) = [(''version'', ''{artifact.version}'')]"
proof -
  let ?p = "''registry/'' @ fmt @ ''/'' @ d @ ''/'' @ dv @ ''/'' @ ''{artifact.architecture}/{artifact.name}.json''"
  let ?q = "''version={artifact.version}''"
  have url: "delete_url C fmt d dv a = hc_uri C @ CHR ''/'' # ?p @ CHR ''?'' # ?q"
    by (simp add: delete_url_def)
  have p: "CHR ''#'' \<notin> set (?p @ ?q)" "CHR ''?'' \<notin> set ?p"
    using assms(2-4) by (auto simp: segment_def)
  have "CHR ''/'' # ?p = artifact_path fmt d dv @ ''{artifact.architecture}/{artifact.name}.json''"
    by (simp add: artifact_path_def)
  moreover have "CHR ''%'' \<notin> set (CHR ''/'' # ?p)" "CHR ''+'' \<notin> set (CHR ''/'' # ?p)" using assms(5,6) by auto
  ultimately show "ht_decode T (url_path (delete_url C fmt d dv a)) =
      artifact_path fmt d dv @ ''{artifact.architecture}/{artifact.name}.json''"
    using url_parts(1) [OF talks_uri(1) [OF assms(1)] p] talks_decode [OF assms(1)] unfolding url by metis
  have "url_args (ht_decode T) (delete_url C fmt d dv a) =
      map (query_item (ht_decode T)) (filter (\<lambda>s. s \<noteq> []) (split_on CHR ''&'' ?q))"
    unfolding url by (rule url_parts(3) [OF talks_uri(1) [OF assms(1)] p])
  also have "\<dots> = [(ht_decode T ''version'', ht_decode T ''{artifact.version}'')]"
    by (simp add: query_item_def Let_def)
  also have "\<dots> = [(''version'', ''{artifact.version}'')]"
    using talks_decode [OF assms(1)] by simp
  finally show "url_args (ht_decode T) (delete_url C fmt d dv a) = [(''version'', ''{artifact.version}'')]" .
qed

text \<open>The deletion view, up to the submission.\<close>

lemma delete_view_made:
  assumes "artifact_delete_view W inst fmt d dv arch a rq s = (Inr answer, s')"
  obtains x C user s2 d0 where "answer = Json (PDict [(''task'', PStr x)])"
    "C = connection_of W inst" "insts s2 = insts s"
    "(if user = we_user W then client_delete_artifact C fmt d dv d0 else client_delete_artifact_as C user fmt d dv d0) (ws_dbus s2) =
      (Inr x, ws_dbus s')"
    "d0 = wire_artifact a arch (case dict_get (rq_args rq) ''version'' of Some v \<Rightarrow> v | None \<Rightarrow> ''-1'')"
proof -
  let ?wire = "wire_artifact a arch (case dict_get (rq_args rq) ''version'' of Some v \<Rightarrow> v | None \<Rightarrow> ''-1'')"
  obtain user s0 where user: "get_token_user W inst rq s = (Inr user, s0)"
    and view: "wbind (get_connection W inst) (\<lambda>C. wbind (request_user W inst rq) (\<lambda>user.
      (let wire = ?wire
       in wbind (wbus (if user = we_user W then client_delete_artifact C fmt d dv wire
                       else client_delete_artifact_as C user fmt d dv wire)) (\<lambda>task_id.
            wret (Json (PDict [(''task'', PStr task_id)])))))) s0 = (Inr answer, s')"
    by (rule check_Inr [OF assms [unfolded artifact_delete_view_def]])
  obtain C s1 where C: "get_connection W inst s0 = (Inr C, s1)"
    and view: "wbind (request_user W inst rq) (\<lambda>user.
      (let wire = ?wire
       in wbind (wbus (if user = we_user W then client_delete_artifact C fmt d dv wire
                       else client_delete_artifact_as C user fmt d dv wire)) (\<lambda>task_id.
            wret (Json (PDict [(''task'', PStr task_id)]))))) s1 = (Inr answer, s')"
    using view by (rule wbindE)
  obtain who s2 where who: "request_user W inst rq s1 = (Inr who, s2)"
    and view: "wbind (wbus (if who = we_user W then client_delete_artifact C fmt d dv ?wire
                       else client_delete_artifact_as C who fmt d dv ?wire)) (\<lambda>task_id.
            wret (Json (PDict [(''task'', PStr task_id)]))) s2 = (Inr answer, s')"
    using view unfolding Let_def by (rule wbindE)
  obtain x where x: "wbus (if who = we_user W then client_delete_artifact C fmt d dv ?wire
                       else client_delete_artifact_as C who fmt d dv ?wire) s2 = (Inr x, s')"
    "answer = Json (PDict [(''task'', PStr x)])"
    using view by (rule wbindE) (simp add: web_Inr_conv)
  have "C = connection_of W inst"
    using C by (auto simp: get_connection_def wbind_Inr_conv web_Inr_conv)
  moreover have "insts s2 = insts s"
    using keepsD [OF keeps_token(3) who] keepsD [OF keeps_connection C] keepsD [OF keeps_token(2) user] by simp
  moreover have "(if who = we_user W then client_delete_artifact C fmt d dv ?wire else client_delete_artifact_as C who fmt d dv ?wire)
      (ws_dbus s2) = (Inr x, ws_dbus s')"
    using x(1) by (auto simp: wbus_def split: sum.splits prod.splits)
  ultimately show thesis using that x(2) by blast
qed

lemma deletion_structure:
  "artifact_structure (wire_artifact ''{artifact.name}'' ''{artifact.architecture}'' ''{artifact.version}'') = Inr st \<Longrightarrow>
   artifact_arg st = Inr x \<Longrightarrow>
   x = PObj ''RegistryArtifact'' [(''name'', PStr ''{artifact.name}''), (''architecture'', PStr ''{artifact.architecture}''),
     (''version'', PStr ''{artifact.version}''), (''size'', PNone)]"
proof -
  have "rbind (artifact_structure (wire_artifact ''{artifact.name}'' ''{artifact.architecture}'' ''{artifact.version}''))
      artifact_arg = Inr (PObj ''RegistryArtifact'' [(''name'', PStr ''{artifact.name}''),
      (''architecture'', PStr ''{artifact.architecture}''), (''version'', PStr ''{artifact.version}''), (''size'', PNone)])"
    by code_simp
  then show "artifact_structure (wire_artifact ''{artifact.name}'' ''{artifact.architecture}'' ''{artifact.version}'') = Inr st \<Longrightarrow>
   artifact_arg st = Inr x \<Longrightarrow>
   x = PObj ''RegistryArtifact'' [(''name'', PStr ''{artifact.name}''), (''architecture'', PStr ''{artifact.architecture}''),
     (''version'', PStr ''{artifact.version}''), (''size'', PNone)]"
    by simp
qed

lemma made_deletion:
  "make_task T [PStr fmt, PStr d, PStr dv, x] ''artifact deletion'' i u p = Inr t \<Longrightarrow>
   t = new_task T ''artifact deletion'' i u p False
      [(''format'', PStr fmt), (''distribution'', PStr d), (''derivative'', PStr dv), (''artifact'', x)]"
  by (simp add: make_simps)


text \<open>The address of a deletion does not depend on the artifact: when the server accepts the request, the task
  that it queues deletes an artifact whose name, architecture and version are the texts between braces of the
  client's source, whatever the artifact was.\<close>

theorem http_delete_ignores_artifact:
  assumes "talks T C" "segment fmt" "segment d" "segment dv"
    and "CHR ''%'' \<notin> set fmt \<union> set d \<union> set dv" "CHR ''+'' \<notin> set fmt \<union> set d \<union> set dv"
    and "http_delete_artifact T C fmt d dv artifact w = (Inr x, w')"
  shows "\<exists>i t f. dict_get (insts (hw_server w)) (ht_instance T) = Some i
    \<and> dict_get (insts (hw_server w')) (ht_instance T) = Some (i\<lparr>si_tasks := (si_tasks i)\<lparr>
        tm_queue := QueueManager_put t (tm_queue (si_tasks i)), tm_state_file := f\<rparr>\<rparr>)
    \<and> qt_id t = x \<and> rt_name t = ''artifact deletion''
    \<and> map_of (rt_attrs t) ''artifact'' = Some (PObj ''RegistryArtifact'' [(''name'', PStr ''{artifact.name}''),
        (''architecture'', PStr ''{artifact.architecture}''), (''version'', PStr ''{artifact.version}''), (''size'', PNone)])"
proof -
  let ?W = "ht_env T" and ?inst = "ht_instance T"
  let ?u = "delete_url C fmt d dv artifact"
  let ?args = "[(''instance'', ?inst), (''fmt'', fmt), (''distribution'', d), (''derivative'', dv),
      (''architecture'', ''{artifact.architecture}''), (''artifact'', ''{artifact.name}'')]"
  obtain j s' where run: "run_view ?W ''artifact_delete'' ?args (http_request_of T C ?u [] []) (hw_server w) = (Inr (Json j), s')"
    and j: "rbind (struct_item j ''task'') text_of = Inr x" and w': "w' = w\<lparr>hw_server := s'\<rparr>"
    by (rule json_request_Inr [OF assms(7) [unfolded http_delete_artifact_def] assms(1) delete_address(1) [OF assms(1-6)]
          route_delete [OF talks_uri(2) [OF assms(1)] assms(2-4)]])
  let ?rq = "http_request_of T C ?u [] []"
  have view: "artifact_delete_view ?W ?inst fmt d dv ''{artifact.architecture}'' ''{artifact.name}'' ?rq (hw_server w)
      = (Inr (Json j), s')"
    using run by (simp add: run_view_def dict_get_def)
  have version: "dict_get (rq_args ?rq) ''version'' = Some ''{artifact.version}''"
    using delete_address(2) [OF assms(1-6)] by (simp add: http_request_of_def dict_get_def)
  obtain y C' user s2 d0 where y: "Json j = Json (PDict [(''task'', PStr y)])" and "C' = connection_of ?W ?inst"
    and s2: "insts s2 = insts (hw_server w)"
    and call: "(if user = we_user ?W then client_delete_artifact C' fmt d dv d0
        else client_delete_artifact_as C' user fmt d dv d0) (ws_dbus s2) = (Inr y, ws_dbus s')"
    and wire: "d0 = wire_artifact ''{artifact.name}'' ''{artifact.architecture}''
        (case dict_get (rq_args ?rq) ''version'' of Some v \<Rightarrow> v | None \<Rightarrow> ''-1'')"
    by (rule delete_view_made [OF view])
  note call = call [unfolded \<open>C' = connection_of ?W ?inst\<close>]
  have d0: "d0 = wire_artifact ''{artifact.name}'' ''{artifact.architecture}'' ''{artifact.version}''"
    by (simp add: wire version)
  have x: "y = x" using j y by (simp add: struct_item_def dict_item_def text_of_def)
  let ?C = "connection_of ?W ?inst"
  let ?E = "co_env ?C" and ?sender = "co_sender ?C"
  obtain st cl where st: "artifact_structure d0 = Inr st" and cl: "client_call ?C cl as_task_id (ws_dbus s2) = (Inr y, ws_dbus s')"
    and cls: "cl = ArtifactDelete fmt d dv st \<or> cl = ArtifactDeleteAs user fmt d dv st"
    using call by (auto simp: client_delete_artifact_def client_delete_artifact_as_def sbind_Inr_conv slift_def split: if_splits)
  have "submission_of (snd (pe_user ?E ?sender)) cl \<noteq> None" using cls by (auto simp: submit_defs)
  from client_submitted [OF cl] this obtain i t f name xs where
    i: "dict_get (ds_instances (ws_dbus s2)) (co_instance ?C) = Some i" "rt_user t = PStr (submitter ?E ?sender cl)" "qt_id t = y"
    "dict_get (ds_instances (ws_dbus s')) (co_instance ?C) = Some (i\<lparr>si_tasks := (si_tasks i)\<lparr>tm_queue := QueueManager_put t (tm_queue (si_tasks i)),
       tm_state_file := f\<rparr>\<rparr>)"
    and "pe_handled ?E cl \<longrightarrow> pe_polkit ?E ?sender (action_id (polkit_action cl))"
    and sub: "submission_of (snd (pe_user ?E ?sender)) cl = Some (name, submitter ?E ?sender cl, Inr xs)"
    and made: "make_task (task_env_of ?E i) xs name y (PStr (submitter ?E ?sender cl)) (tm_workspaces (si_tasks i) @ [y]) = Inr t"
    by (rule submission_done)
  obtain v where v: "artifact_arg st = Inr v" "name = ''artifact deletion''" "xs = [PStr fmt, PStr d, PStr dv, v]"
    using sub cls by (auto simp: submit_defs rmap_Inr_conv)
  note t = made_deletion [OF made [unfolded v(2,3)]]
  have "v = PObj ''RegistryArtifact'' [(''name'', PStr ''{artifact.name}''), (''architecture'', PStr ''{artifact.architecture}''),
      (''version'', PStr ''{artifact.version}''), (''size'', PNone)]"
    by (rule deletion_structure [OF st [unfolded d0] v(1)])
  with t have "rt_name t = ''artifact deletion''" "map_of (rt_attrs t) ''artifact'' = Some (PObj ''RegistryArtifact''
      [(''name'', PStr ''{artifact.name}''), (''architecture'', PStr ''{artifact.architecture}''),
       (''version'', PStr ''{artifact.version}''), (''size'', PNone)])"
    by (simp_all add: new_task_def RunnableTask_init_def)
  with i(1,3,4) x s2 w' show ?thesis
    by (auto simp: insts_def connection_of_def)
qed


section \<open>Submission of a build\<close>

lemma build_address:
  assumes "talks T C"
  shows "ht_decode T (url_path (hc_uri C @ ''/build'')) = ''/build''"
  using url_parts(2) [OF talks_uri(1) [OF assms], of "''build''" "[]"] talks_decode [OF assms, of "''/build''"] by simp

lemma finally_Inr:
  "with_finally m c w = (Inr x, w') \<Longrightarrow> \<exists>u. m w = (Inr x, u) \<and> c u = (Inr (), w')"
  by (auto simp: with_finally_def split: prod.splits sum.splits)

lemma unlink_apply: "unlink_file p w =
    (case fs_unlink p (hw_files w) of Inl e \<Rightarrow> (Inl e, w) | Inr n \<Rightarrow> (Inr (), w\<lparr>hw_files := n\<rparr>))"
  by (simp add: unlink_file_def spart_def)

lemma unlink_server: "sfor unlink_file ps w = (r, w') \<Longrightarrow> hw_server w' = hw_server w"
proof (induction ps arbitrary: w)
  case (Cons p ps)
  show ?case
  proof (cases "fs_unlink p (hw_files w)")
    case (Inl e)
    with Cons.prems show ?thesis using unlink_apply [of p w] by (simp add: sbind_def)
  next
    case (Inr n)
    with Cons.prems have "sfor unlink_file ps (w\<lparr>hw_files := n\<rparr>) = (r, w')"
      using unlink_apply [of p w] by (simp add: sbind_def)
    from Cons.IH [OF this] show ?thesis by simp
  qed
qed (simp add: sret_def)

lemma unlink_files:
  "fst (sfor unlink_file ps w) = (case rfold fs_unlink ps (hw_files w) of Inl e \<Rightarrow> Inl e | Inr n \<Rightarrow> Inr ()) \<and>
   (\<forall>n. rfold fs_unlink ps (hw_files w) = Inr n \<longrightarrow> hw_files (snd (sfor unlink_file ps w)) = n)"
proof (induction ps arbitrary: w)
  case (Cons p ps)
  show ?case
  proof (cases "fs_unlink p (hw_files w)")
    case (Inl e)
    then show ?thesis using unlink_apply [of p w] by (simp add: sbind_def rbind_def)
  next
    case (Inr n)
    with Cons.IH [of "w\<lparr>hw_files := n\<rparr>"] show ?thesis
      using unlink_apply [of p w] by (simp add: sbind_def rbind_def)
  qed
qed (simp add: sret_def)

lemma open_sources_world: "open_sources srcs files w = (r, w') \<Longrightarrow> w' = w"
  by (induction srcs files arbitrary: w rule: open_sources.induct)
    (auto simp: sret_def sbind_def open_upload_def split: prod.splits sum.splits)

lemma build_sent:
  assumes "http_build T C b tarball sources w = (Inr x, w')"
  obtains files reply w1 where "send_build T C b files w = (Inr reply, w1)" "hw_server w' = hw_server w1"
    "rbind (reply_json reply) (\<lambda>v. rbind (struct_item v ''task'') text_of) = Inr x"
    "sfor unlink_file (tarball # map snd sources) w1 = (Inr (), w')"
proof -
  obtain u where u: "open_upload ''tarball'' tarball w = (Inr u, w)"
    and rest: "sbind (open_sources sources [(''tarball'', u)]) (\<lambda>files.
     sbind (with_finally (send_build T C b (map snd files)) (sfor unlink_file (tarball # map snd sources))) (\<lambda>reply.
       slift (rbind (reply_json reply) (\<lambda>v. rbind (struct_item v ''task'') text_of)))) w = (Inr x, w')"
    using assms unfolding http_build_def sbind_Inr_conv [of "open_upload ''tarball'' tarball"]
    by (auto simp: open_upload_def)
  obtain files w0 where files: "open_sources sources [(''tarball'', u)] w = (Inr files, w0)"
    and rest: "sbind (with_finally (send_build T C b (map snd files)) (sfor unlink_file (tarball # map snd sources))) (\<lambda>reply.
       slift (rbind (reply_json reply) (\<lambda>v. rbind (struct_item v ''task'') text_of))) w0 = (Inr x, w')"
    using rest unfolding sbind_Inr_conv [of "open_sources sources [(''tarball'', u)]"] by blast
  note w0 = open_sources_world [OF files]
  obtain reply w2 where fin: "with_finally (send_build T C b (map snd files)) (sfor unlink_file (tarball # map snd sources)) w = (Inr reply, w2)"
    and x: "slift (rbind (reply_json reply) (\<lambda>v. rbind (struct_item v ''task'') text_of)) w2 = (Inr x, w')"
    using rest unfolding w0 sbind_Inr_conv by blast
  obtain w1 where sent: "send_build T C b (map snd files) w = (Inr reply, w1)"
    and clean: "sfor unlink_file (tarball # map snd sources) w1 = (Inr (), w2)"
    using finally_Inr [OF fin] by blast
  have "w2 = w'" and j: "rbind (reply_json reply) (\<lambda>v. rbind (struct_item v ''task'') text_of) = Inr x"
    using x by (simp_all add: slift_def)
  with sent clean unlink_server [OF clean] that show thesis by blast
qed

text \<open>What the task of a build holds of the client's arguments.\<close>

definition same_build :: "build_args \<Rightarrow> (string \<times> pyval) list \<Rightarrow> bool" where
  "same_build b attrs \<longleftrightarrow>
     (\<forall>(k, v) \<in> set [(''format'', PStr (ba_format b)), (''distribution'', PStr (ba_distribution b)),
        (''architectures'', PList (map PStr (ba_architectures b))), (''derivative'', PStr (ba_derivative b)),
        (''artifact'', PStr (ba_artifact b)), (''author'', PStr (ba_author b)), (''email'', PStr (ba_email b)),
        (''message'', PStr (ba_message b))]. map_of attrs k = Some v)"

text \<open>C2. A build that the HTTP client submits arrives whole: the task that the server queues has the format, the
  distribution, the architectures, the derivative, the artifact, the author and the message of the client's
  call, whatever files come with them, and the identifier that the client gets is the one of this task.\<close>

theorem http_build_carried:
  assumes "http_build T C b tarball sources w = (Inr x, w')" "talks T C"
    and "ba_architectures b \<noteq> []" "\<forall>a \<in> set (ba_architectures b). CHR '','' \<notin> set a"
    and "snd (pe_user (we_bus (ht_env T)) (we_sender (ht_env T))) = we_user (ht_env T)"
  shows "\<exists>i t f. dict_get (insts (hw_server w)) (ht_instance T) = Some i
    \<and> dict_get (insts (hw_server w')) (ht_instance T) = Some (i\<lparr>si_tasks := (si_tasks i)\<lparr>
        tm_queue := QueueManager_put t (tm_queue (si_tasks i)), tm_state_file := f\<rparr>\<rparr>)
    \<and> qt_id t = x \<and> rt_name t = ''artifact build'' \<and> same_build b (rt_attrs t)"
proof -
  let ?form = "[(''format'', ba_format b), (''distribution'', ba_distribution b),
        (''architectures'', str_join '','' (ba_architectures b)), (''derivative'', ba_derivative b),
        (''artifact'', ba_artifact b), (''user_name'', ba_author b), (''user_email'', ba_email b),
        (''message'', ba_message b)]"
  obtain files reply w1 where sent: "send_build T C b files w = (Inr reply, w1)" and server: "hw_server w' = hw_server w1"
    and x: "rbind (reply_json reply) (\<lambda>v. rbind (struct_item v ''task'') text_of) = Inr x"
    using build_sent [OF assms(1)] by blast
  let ?rq = "http_request_of T C (hc_uri C @ ''/build'') ?form files"
  obtain r s' where run: "run_view (ht_env T) ''build'' [(''instance'', ht_instance T)] ?rq (hw_server w) = (r, s')"
    by fastforce
  have "auth_request T C ''POST'' (hc_uri C @ ''/build'') ?form files w =
      (check_reply (view_reply [(''instance'', ht_instance T)] r), w\<lparr>hw_server := s'\<rparr>)"
    by (rule auth_request_view [OF assms(2) build_address [OF assms(2)] route_build [OF talks_uri(2) [OF assms(2)]] run])
  then have reply: "check_reply (view_reply [(''instance'', ht_instance T)] r) = Inr reply" and w1: "hw_server w1 = s'"
    using sent by (auto simp: send_build_def)
  obtain j where j: "reply_json reply = Inr j" "rbind (struct_item j ''task'') text_of = Inr x"
    using x unfolding rbind_Inr_conv by blast
  have r: "r = Inr (Json j)" by (rule json_of_view [OF reply j(1)])
  have view: "build_view (ht_env T) (ht_instance T) ?rq (hw_server w) = (Inr (Json j), s')"
    using run r by (simp add: run_view_def dict_get_def)
  obtain y t i f b' srcs dvs tp s2 io where y: "Json j = Json (PDict [(''task'', PStr y)])"
    and t: "dict_get (insts (hw_server w)) (ht_instance T) = Some i"
      "dict_get (insts s') (ht_instance T) = Some (i\<lparr>si_tasks := (si_tasks i)\<lparr>tm_queue := QueueManager_put t (tm_queue (si_tasks i)),
         tm_state_file := f\<rparr>\<rparr>)"
      "qt_id t = y" "rt_name t = ''artifact build''" "rt_attrs t = (''io'', io) # build_attrs b' srcs dvs"
    and form: "form_build ?rq tp s2 = (Inr b', s2)"
    using web_build_made [OF view assms(5)] by blast
  have "split_on CHR '','' (str_join '','' (ba_architectures b)) = ba_architectures b"
    using assms(3,4) by (intro split_on_join) auto
  then have "same_build b (rt_attrs t)"
    using form_build_Inr [OF form] t(5)
    by (simp add: same_build_def build_attrs_def http_request_of_def dict_get_def)
  moreover have "y = x" using j(2) y by (simp add: struct_item_def dict_item_def text_of_def)
  ultimately show ?thesis using t(1-4) server w1 by auto
qed


section \<open>Cleaning of the client's files\<close>

lemma file_not_prefix: "fs_is_file n p \<Longrightarrow> fs_is_file n q \<Longrightarrow> prefix p q \<Longrightarrow> p = q"
proof -
  assume files: "fs_is_file n p" "fs_is_file n q" and "prefix p q"
  then obtain zs where "q = p @ zs" by (auto simp: prefix_def)
  then show "p = q"
    using files by (cases zs) (auto simp: fs_is_file_def lookup_append split: option.splits node.splits)
qed

lemma files_apart: "fs_is_file n p \<Longrightarrow> fs_is_file n q \<Longrightarrow> p \<noteq> q \<Longrightarrow> apart p q"
  unfolding apart_def using file_not_prefix by metis

lemma unlink_all:
  assumes "\<forall>p \<in> set ps. fs_is_file n p" "distinct ps" "[] \<notin> set ps"
  shows "\<exists>n'. rfold fs_unlink ps n = Inr n' \<and> rfold del ps n = Inr n'"
  using assms
proof (induction ps arbitrary: n)
  case (Cons p ps)
  have isf: "fs_is_file n p" and "p \<noteq> []" using Cons.prems by auto
  then obtain n1 where n1: "del p n = Inr n1"
    using tree.drop_ok [of p n] by (auto simp: fs_is_file_def split: option.splits)
  have "fs_unlink p n = Inr n1"
    using isf n1 by (auto simp: fs_unlink_def fs_is_file_def fs_is_dir_def split: option.splits node.splits)
  moreover have "fs_is_file n1 q" if "q \<in> set ps" for q
  proof -
    have "apart p q" using files_apart [OF isf, of q] that Cons.prems by auto
    then have "lookup q n1 = lookup q n" using tree.drop_apart [OF n1] by simp
    with that Cons.prems show ?thesis by (simp add: fs_is_file_def)
  qed
  ultimately show ?case using Cons.IH [of n1] Cons.prems n1 by (auto simp: rbind_def)
qed simp

lemma send_files: "send_build T C b files w = (r, w') \<Longrightarrow> hw_files w' = hw_files w"
  by (auto simp: send_build_def auth_request_def split: prod.splits if_splits)

lemma open_upload_file: "fs_is_file (hw_files w) p \<Longrightarrow> \<exists>u. open_upload f p w = (Inr u, w)"
  by (auto simp: open_upload_def fs_read_def fs_is_file_def rmap_def rbind_def split: option.splits node.splits)

lemma open_sources_files:
  "\<forall>p \<in> snd ` set srcs. fs_is_file (hw_files w) p \<Longrightarrow> \<exists>fs. open_sources srcs files w = (Inr fs, w)"
proof (induction srcs files rule: open_sources.induct)
  case (2 i p srcs files)
  obtain u where "open_upload (''source/'' @ i) p w = (Inr u, w)" using 2(2) open_upload_file by fastforce
  with 2 show ?case by (simp add: sbind_def)
qed (simp add: sret_def)

text \<open>C39. Once the files of a build are there, they are removed whatever happens to the request: a refusal, an error
  of the server or no answer at all. The other files of the client's machine stay.\<close>

theorem http_build_cleans:
  assumes "http_build T C b tarball sources w = (r, w')" "paths = tarball # map snd sources"
    and "\<forall>p \<in> set paths. fs_is_file (hw_files w) p" "distinct paths" "[] \<notin> set paths"
  shows "(\<forall>p \<in> set paths. \<not> fs_exists (hw_files w') p)
    \<and> (\<forall>q. (\<forall>p \<in> set paths. apart p q) \<longrightarrow> lookup q (hw_files w') = lookup q (hw_files w))"
proof -
  let ?clean = "sfor unlink_file paths"
  let ?task = "\<lambda>reply. slift (rbind (reply_json reply) (\<lambda>v. rbind (struct_item v ''task'') text_of)) :: string hact"
  obtain u where u: "open_upload ''tarball'' tarball w = (Inr u, w)" using open_upload_file assms(2,3) by fastforce
  obtain files where files: "open_sources sources [(''tarball'', u)] w = (Inr files, w)"
    using open_sources_files assms(2,3) by fastforce
  have build: "http_build T C b tarball sources w = sbind (with_finally (send_build T C b (map snd files)) ?clean) ?task w"
    using u files unfolding http_build_def assms(2) by (simp add: sbind_def)
  obtain q w1 where sent: "send_build T C b (map snd files) w = (q, w1)" by fastforce
  obtain n' where n': "rfold fs_unlink paths (hw_files w) = Inr n'" "rfold del paths (hw_files w) = Inr n'"
    using unlink_all [OF assms(3-5)] by blast
  have clean: "fst (?clean w1) = Inr ()" "hw_files (snd (?clean w1)) = n'"
    using unlink_files [of paths w1] n'(1) send_files [OF sent] by auto
  have fin: "with_finally (send_build T C b (map snd files)) ?clean w = (q, snd (?clean w1))"
    using sent clean(1) by (cases "?clean w1") (simp add: with_finally_def)
  have "hw_files w' = n'"
    using assms(1) build fin clean(2) by (cases q) (simp_all add: sbind_def slift_def)
  moreover have "lookup p n' = None" if "p \<in> set paths" for p
    using tree.drop_all_same [OF n'(2) that _ assms(4)] files_apart assms(3) by blast
  moreover have "lookup q n' = lookup q (hw_files w)" if "\<forall>p \<in> set paths. apart p q" for q
    using tree.drop_all_apart [OF n'(2)] that by blast
  ultimately show ?thesis by (simp add: fs_exists_def)
qed

section \<open>The queue\<close>

text \<open>How the HTTP client shows a task: each field went over both wires.\<close>

definition fields_sent :: "(ntype \<Rightarrow> pyval \<Rightarrow> pyval \<Rightarrow> bool) \<Rightarrow> field list \<Rightarrow> obj \<Rightarrow> obj \<Rightarrow> bool" where
  "fields_sent by_wire fs attrs attrs' \<longleftrightarrow>
     list_all2 (\<lambda>f (n, b). n = f_name f \<and> (\<exists>a. map_of attrs n = Some a \<and> by_wire (f_type f) a b)) fs attrs'"

definition shown_as :: "runnable \<Rightarrow> obj \<Rightarrow> bool" where
  "shown_as t shown \<longleftrightarrow> (\<exists>fs received. task_fields register_protocols (rt_name t) = Inr fs
     \<and> fields_sent carried fs (runnable_attrs t) received \<and> map_of received ''name'' = Some (PStr (rt_name t))
     \<and> fields_sent json_carried fs received shown)"

lemma shown_trip:
  assumes "shown_as t shown"
  shows "\<exists>st received v. task_to_structure (runnable_attrs t) = Inr st \<and> task_from_structure st = Inr received
    \<and> task_to_json received = Inr v \<and> task_from_json v = Inr shown"
proof -
  obtain fs received where fs: "task_fields register_protocols (rt_name t) = Inr fs"
    and sent: "fields_sent carried fs (runnable_attrs t) received" "map_of received ''name'' = Some (PStr (rt_name t))"
      "fields_sent json_carried fs received shown"
    using assms unfolding shown_as_def by blast
  have name: "map_of (runnable_attrs t) ''name'' = Some (PStr (rt_name t))"
    by (simp add: runnable_attrs_def task_attrs_def)
  show ?thesis
    using dbus_task_trip [OF name fs sent(1) [unfolded fields_sent_def]]
      json_task_trip [OF sent(2) fs sent(3) [unfolded fields_sent_def]] by blast
qed

lemma rmapM_trip:
  assumes "list_all2 shown_as ts shown"
  obtains sts received vs where "rmapM (\<lambda>t. task_to_structure (runnable_attrs t)) ts = Inr sts"
    "rmapM task_from_structure sts = Inr received" "rmapM task_to_json received = Inr vs"
    "rmapM task_from_json vs = Inr shown"
proof -
  have "\<exists>sts received vs. rmapM (\<lambda>t. task_to_structure (runnable_attrs t)) ts = Inr sts
    \<and> rmapM task_from_structure sts = Inr received \<and> rmapM task_to_json received = Inr vs
    \<and> rmapM task_from_json vs = Inr shown"
    using assms
  proof (induction rule: list_all2_induct)
    case (Cons t ts x xs)
    obtain sts received vs where rest: "rmapM (\<lambda>t. task_to_structure (runnable_attrs t)) ts = Inr sts"
      "rmapM task_from_structure sts = Inr received" "rmapM task_to_json received = Inr vs"
      "rmapM task_from_json vs = Inr xs"
      using Cons.IH by blast
    obtain st r v where one: "task_to_structure (runnable_attrs t) = Inr st" "task_from_structure st = Inr r"
      "task_to_json r = Inr v" "task_from_json v = Inr x"
      using shown_trip [OF Cons.hyps(1)] by blast
    have "rmapM (\<lambda>t. task_to_structure (runnable_attrs t)) (t # ts) = Inr (st # sts)"
      "rmapM task_from_structure (st # sts) = Inr (r # received)" "rmapM task_to_json (r # received) = Inr (v # vs)"
      "rmapM task_from_json (v # vs) = Inr (x # xs)"
      using rest one by (simp_all add: rbind_def rmap_def)
    then show ?case by blast
  qed simp
  with that show thesis by blast
qed


lemma queue_address:
  assumes "talks T C"
  shows "ht_decode T (url_path (hc_uri C @ ''/queue.json'')) = ''/queue.json''"
  using url_parts(2) [OF talks_uri(1) [OF assms], of "''queue.json''" "[]"] talks_decode [OF assms, of "''/queue.json''"] by simp

lemma anonymous_allowed: "validate_anonymous_action rs action \<Longrightarrow> allow_anonymous rs"
  by (auto simp: validate_anonymous_action_def allow_anonymous_def list_ex_iff)

lemma connect_known:
  assumes "dict_get (ds_instances d) (co_instance C) = Some i"
  shows "client_connect C d = (Inr (co_instance C), d\<lparr>ds_timer := timer_reset (co_now C) (ds_timer d)\<rparr>)"
  using assms by (simp add: client_connect_def get_instance_def check_dbus_errors_def dict_has_def dict_get_def)

lemma queue_read:
  assumes "dict_get (ds_instances d) (co_instance C) = Some i"
    and "pe_handled (co_env C) Queue \<longrightarrow> pe_polkit (co_env C) (co_sender C) (action_id ''view-task'')"
    and "rmapM (\<lambda>t. task_to_structure (runnable_attrs t)) (qm_queue (tm_queue (si_tasks i))) = Inr sts"
    and "rmapM task_from_structure sts = Inr received"
  shows "\<exists>d'. client_queue C d = (Inr received, d') \<and> ds_instances d' = ds_instances d"
proof -
  have "run_method (co_env C) u Queue i = (Inr (Structs sts), i)" for u
    using assms(3) by (simp add: run_method_def read_defs QueueManager_dump_def plain_def rmap_def rbind_def)
  from handle_call_run [OF assms(1) _ this] have "handle_call (co_env C) (co_now C) (co_sender C) (co_instance C) Queue d =
      (Inr (Structs sts), d\<lparr>ds_timer := timer_reset (co_now C) (ds_timer d),
        ds_instances := dict_set (ds_instances d) (co_instance C) i\<rparr>)"
    using assms(2) by simp
  then show ?thesis
    using assms(1,4)
    by (simp add: client_queue_def client_call_def client_try_def proxy_def remote_def dbind_def plain_def as_tasks_def
        check_dbus_errors_def dict_set_same)
qed

text \<open>Without a token, when the policy lets anyone see the tasks and polkit lets the web server, the HTTP client
  gets the tasks of the instance's queue, all of them, in order, each with its fields, and no instance changes.\<close>

theorem http_queue_shown:
  assumes "talks T C" "hc_token C = None" "validate_anonymous_action (we_policy (ht_env T)) ''view-task''"
    and "dict_get (insts (hw_server w)) (ht_instance T) = Some i"
    and "pe_handled (we_bus (ht_env T)) Queue \<longrightarrow>
      pe_polkit (we_bus (ht_env T)) (we_sender (ht_env T)) (action_id ''view-task'')"
    and "list_all2 shown_as (qm_queue (tm_queue (si_tasks i))) shown"
  shows "\<exists>w'. http_queue T C w = (Inr shown, w') \<and> insts (hw_server w') = insts (hw_server w)"
proof -
  let ?W = "ht_env T" and ?inst = "ht_instance T" and ?s = "hw_server w"
  let ?u = "hc_uri C @ ''/queue.json''" let ?rq = "http_request_of T C ?u [] []" and ?C = "connection_of ?W ?inst"
  obtain sts received vs where trip: "rmapM (\<lambda>t. task_to_structure (runnable_attrs t)) (qm_queue (tm_queue (si_tasks i))) = Inr sts"
    "rmapM task_from_structure sts = Inr received" "rmapM task_to_json received = Inr vs" "rmapM task_from_json vs = Inr shown"
    by (rule rmapM_trip [OF assms(6)])
  let ?d = "(ws_dbus ?s)\<lparr>ds_timer := timer_reset (co_now ?C) (ds_timer (ws_dbus ?s))\<rparr>"
  have here: "dict_get (ds_instances (ws_dbus ?s)) (co_instance ?C) = Some i"
    using assms(4) by (simp add: insts_def connection_of_def)
  have conn: "get_connection ?W ?inst ?s = (Inr ?C, ?s\<lparr>ws_dbus := ?d\<rparr>)"
    using connect_known [OF here]
    by (simp add: get_connection_def wbind_def abort_on_def wbus_def wret_def connection_of_def)
  obtain d' where d': "client_queue ?C ?d = (Inr received, d')" "ds_instances d' = ds_instances ?d"
    using queue_read [OF _ _ trip(1,2), of ?d ?C] here assms(5) by (auto simp: connection_of_def)
  have user: "get_token_user ?W ?inst ?rq ?s = (Inr None, ?s)"
    using assms(2) by (simp add: get_token_user_def http_request_of_def wret_def)
  have "queue_view ?W ?inst ?rq ?s = (Inr (Json (PList vs)), ?s\<lparr>ws_dbus := d'\<rparr>)"
    using user conn d'(1) trip(3) assms(3) anonymous_allowed [OF assms(3)]
    by (simp add: queue_view_def check_instance_token_permission_def wbind_def wbus_def wlift_def rmap_def rbind_def)
  then have "run_view ?W ''queue'' [(''instance'', ?inst)] ?rq ?s = (Inr (Json (PList vs)), ?s\<lparr>ws_dbus := d'\<rparr>)"
    by (simp add: run_view_def dict_get_def)
  note json = json_request_ok [OF assms(1) queue_address [OF assms(1)] route_queue [OF talks_uri(2) [OF assms(1)]] this]
  have "http_queue T C w = (Inr shown, w\<lparr>hw_server := ?s\<lparr>ws_dbus := d'\<rparr>\<rparr>)"
    unfolding http_queue_def json using trip(4) by (simp add: items_of_def rbind_def)
  then show ?thesis using d'(2) by (simp add: insts_def)
qed

section \<open>Witnesses\<close>

definition example_transport :: http_transport where
  "example_transport = \<lparr>ht_env = example_web\<lparr>we_policy := [\<lparr>po_name = ''anonymous'', po_members = None,
       po_actions = {''build'', ''edit-registry'', ''view-task''}\<rparr>]\<rparr>,
     ht_instance = ''default'', ht_reachable = True, ht_decode = id\<rparr>"

definition example_http :: http_client where
  "example_http = \<lparr>hc_uri = ''http://host'', hc_token = None\<rparr>"

definition example_task_shown :: runnable where
  "example_task_shown = new_task \<lparr>te_import_time = 1000000, te_pipelines = ri_pipelines (si_instance example_instance),
     te_depth = 0\<rparr> ''history purge'' ''t1'' (PStr ''u'') [''w'', ''t1''] False []"

definition example_busy :: server_instance where
  "example_busy = example_instance\<lparr>si_tasks := (si_tasks example_instance)\<lparr>
     tm_queue := QueueManager_put example_task_shown (tm_queue (si_tasks example_instance))\<rparr>\<rparr>"

definition example_world :: "server_instance \<Rightarrow> http_world" where
  "example_world i = \<lparr>hw_server = example_state\<lparr>ws_dbus := \<lparr>ds_instances = [(''default'', i)], ds_timer = timer_init 0 30\<rparr>\<rparr>,
     hw_files = Dir [(''tmp'', Dir [(''foo.tar'', File ''data'')]), (''keep'', File ''x'')]\<rparr>"

definition example_args :: build_args where
  "example_args = \<lparr>ba_format = ''deb'', ba_distribution = ''sid'', ba_architectures = [''x86_64''], ba_derivative = ''main'',
     ba_artifact = ''foo'', ba_author = ''Bob'', ba_email = ''bob@x'', ba_message = ''m'', ba_tarball = [], ba_sources = [],
     ba_interactive = False\<rparr>"

definition example_fields :: "string \<Rightarrow> obj" where
  "example_fields pre =
     [(''id'', PStr ''t1''), (''user'', PStr ''u''), (''name'', PStr ''history purge''),
      (''submission'', PTime 1000000), (''place'', PPath ''/w/t1''), (''state'', PStr ''pending''),
      (''result'', PStr ''unknown''),
      (''io'', PObj (pre @ ''TaskIO'') [(''interactive'', PBool False), (''console'', PPath ''/w/t1/console.sock''),
         (''journal'', PObj (pre @ ''TaskJournal'') [(''path'', PPath ''/w/t1/task.journal'')])])]"

lemma example_talks: "talks example_transport example_http"
  by (simp add: talks_def server_uri_def example_http_def example_transport_def allinstances_def)

lemma example_attrs: "map_of (runnable_attrs example_task_shown) k = map_of (example_fields []) k"
  by (simp add: example_task_shown_def new_task_def RunnableTask_init_def runnable_attrs_def task_attrs_def
      example_fields_def TaskIO_init_def path_str_def)

lemma example_shown: "shown_as example_task_shown (example_fields ''Json'')"
proof -
  have c: "dbus_json_type ''DBusTaskIO'' = Inr ''JsonTaskIO''" "native_json_type ''TaskIO'' = Inr ''JsonTaskIO''"
    "dbus_json_type ''DBusTaskJournal'' = Inr ''JsonTaskJournal''" "native_json_type ''TaskJournal'' = Inr ''JsonTaskJournal''"
    "json_type_fields ''JsonTaskIO'' = Inr [ExportableField ''interactive'' TBool, ExportableField ''console'' TPath,
         ExportableField ''journal'' (TExp ''TaskJournal'')]"
    "json_type_fields ''JsonTaskJournal'' = Inr [ExportableField ''path'' TPath]"
    by code_simp+
  have time: "carried TDatetime (PTime 1000000) (PTime 1000000)" "json_carried TDatetime (PTime 1000000) (PTime 1000000)"
    using carried.time [of 1] json_carried.time [of 1] by simp_all
  have journal: "carried (TExp ''TaskJournal'') (PObj ''TaskJournal'' [(''path'', PPath ''/w/t1/task.journal'')])
      (PObj ''DBusTaskJournal'' [(''path'', PPath ''/w/t1/task.journal'')])"
    by (rule carried.exp [OF example_classes(2,5)])
      (auto simp: ExportableField_def example_paths dbus_null_def intro!: carried.path)
  have io: "carried (TExp ''TaskIO'')
      (PObj ''TaskIO'' [(''interactive'', PBool False), (''console'', PPath ''/w/t1/console.sock''),
        (''journal'', PObj ''TaskJournal'' [(''path'', PPath ''/w/t1/task.journal'')])])
      (PObj ''DBusTaskIO'' [(''interactive'', PBool False), (''console'', PPath ''/w/t1/console.sock''),
        (''journal'', PObj ''DBusTaskJournal'' [(''path'', PPath ''/w/t1/task.journal'')])])"
    by (rule carried.exp [OF example_classes(1,4)])
      (auto simp: ExportableField_def example_paths dbus_null_def intro!: carried.path carried.bool journal)
  have json_journal: "json_carried (TExp ''TaskJournal'') (PObj ''DBusTaskJournal'' [(''path'', PPath ''/w/t1/task.journal'')])
      (PObj ''JsonTaskJournal'' [(''path'', PPath ''/w/t1/task.journal'')])"
    by (rule json_carried.exp [OF example_classes(2) c(3,4,6)])
      (auto simp: ExportableField_def example_paths intro!: json_carried.path)
  have json_io: "json_carried (TExp ''TaskIO'') (PObj ''DBusTaskIO'' [(''interactive'', PBool False),
         (''console'', PPath ''/w/t1/console.sock''), (''journal'', PObj ''DBusTaskJournal'' [(''path'', PPath ''/w/t1/task.journal'')])])
      (PObj ''JsonTaskIO'' [(''interactive'', PBool False), (''console'', PPath ''/w/t1/console.sock''),
         (''journal'', PObj ''JsonTaskJournal'' [(''path'', PPath ''/w/t1/task.journal'')])])"
    by (rule json_carried.exp [OF example_classes(1) c(1,2,5)])
      (auto simp: ExportableField_def example_paths intro!: json_carried.path json_carried.bool json_journal)
  have "rt_name example_task_shown = ''history purge''"
    by (simp add: example_task_shown_def new_task_def RunnableTask_init_def)
  moreover have "task_fields register_protocols ''history purge'' = Inr BASEFIELDS" by code_simp
  moreover have "fields_sent carried BASEFIELDS (runnable_attrs example_task_shown) (example_fields ''DBus'')"
    unfolding fields_sent_def example_attrs
    by (simp add: BASEFIELDS_def ExportableTaskField_def example_fields_def time io carried.str carried.path example_paths
        dbus_null_def)
  moreover have "fields_sent json_carried BASEFIELDS (example_fields ''DBus'') (example_fields ''Json'')"
    by (simp add: fields_sent_def BASEFIELDS_def ExportableTaskField_def example_fields_def time json_io json_carried.str
        json_carried.path example_paths)
  ultimately show ?thesis
    unfolding shown_as_def by (auto simp: example_fields_def)
qed

theorem http_queue_shown_witness:
  "\<exists>w'. http_queue example_transport example_http (example_world example_busy) = (Inr [example_fields ''Json''], w')"
proof -
  have "qm_queue (tm_queue (si_tasks example_busy)) = [example_task_shown]"
    by (simp add: example_busy_def example_instance_def demo_state_def QueueManager_init_def QueueManager_put_def)
  then show ?thesis
    using http_queue_shown [OF example_talks, of "example_world example_busy" example_busy "[example_fields ''Json'']"]
      example_shown
    by (auto simp: example_http_def example_transport_def example_world_def insts_def dict_get_def example_web_def
        example_bus_def validate_anonymous_action_def ANONYMOUS_def)
qed

lemma example_deleted: "fst (http_delete_artifact example_transport example_http ''deb'' ''sid'' ''main'' [(''name'', PStr ''foo'')]
    (example_world example_instance)) = Inr ''t9''"
  by code_simp

theorem http_delete_ignores_artifact_witness:
  "\<exists>w' i t. http_delete_artifact example_transport example_http ''deb'' ''sid'' ''main'' [(''name'', PStr ''foo'')]
      (example_world example_instance) = (Inr ''t9'', w')
    \<and> dict_get (insts (hw_server w')) ''default'' = Some i \<and> qm_queue (tm_queue (si_tasks i)) = [t]
    \<and> map_of (rt_attrs t) ''artifact'' \<noteq> None"
proof -
  obtain w' where w': "http_delete_artifact example_transport example_http ''deb'' ''sid'' ''main'' [(''name'', PStr ''foo'')]
      (example_world example_instance) = (Inr ''t9'', w')"
    using example_deleted by (metis prod.collapse)
  have seg: "segment ''deb''" "segment ''sid''" "segment ''main''" by (simp_all add: segment_def)
  have "dict_get (insts (hw_server (example_world example_instance))) ''default'' = Some example_instance"
    by (simp add: example_world_def insts_def dict_get_def)
  moreover have "qm_queue (tm_queue (si_tasks example_instance)) = []"
    by (simp add: example_instance_def demo_state_def QueueManager_init_def)
  ultimately show ?thesis
    using http_delete_ignores_artifact [OF example_talks seg _ _ w'] w'
    by (auto simp: example_transport_def QueueManager_put_def)
qed

lemma example_sent: "fst (http_build example_transport example_http example_args [''tmp'', ''foo.tar''] []
    (example_world example_instance)) = Inr ''t9''"
  by code_simp

theorem http_build_carried_witness:
  "\<exists>w' i t. http_build example_transport example_http example_args [''tmp'', ''foo.tar''] [] (example_world example_instance) =
      (Inr ''t9'', w') \<and> dict_get (insts (hw_server w')) ''default'' = Some i
    \<and> qm_queue (tm_queue (si_tasks i)) = [t] \<and> same_build example_args (rt_attrs t)"
proof -
  obtain w' where w': "http_build example_transport example_http example_args [''tmp'', ''foo.tar''] []
      (example_world example_instance) = (Inr ''t9'', w')"
    using example_sent by (metis prod.collapse)
  have "dict_get (insts (hw_server (example_world example_instance))) ''default'' = Some example_instance"
    by (simp add: example_world_def insts_def dict_get_def)
  moreover have "qm_queue (tm_queue (si_tasks example_instance)) = []"
    by (simp add: example_instance_def demo_state_def QueueManager_init_def)
  ultimately show ?thesis
    using http_build_carried [OF w' example_talks] w'
    by (auto simp: example_transport_def example_args_def example_web_def example_bus_def QueueManager_put_def)
qed

theorem http_build_cleans_witness:
  "\<not> fs_exists (hw_files (snd (http_build (example_transport\<lparr>ht_reachable := False\<rparr>) example_http example_args
       [''tmp'', ''foo.tar''] [] (example_world example_instance)))) [''tmp'', ''foo.tar'']
   \<and> lookup [''keep''] (hw_files (snd (http_build (example_transport\<lparr>ht_reachable := False\<rparr>) example_http example_args
       [''tmp'', ''foo.tar''] [] (example_world example_instance)))) = Some (File ''x'')"
  using http_build_cleans [OF surjective_pairing refl, of "[''tmp'', ''foo.tar'']" "[]" "example_world example_instance"
      "example_transport\<lparr>ht_reachable := False\<rparr>" example_http example_args]
  by (auto simp: example_world_def fs_is_file_def apart_def)

end
