(* ===== verification/Daemon.thy ===== *)
theory Daemon
  imports Timer
begin

text \<open>
  \<^verbatim>\<open>fatbuildr/cli/fatbuildrd.py\<close>: the threads of the daemon, one worker per instance, the server and the
  timer, as a step relation on what they share. A step is what one thread does between two points where
  another can come in between: the tests of a worker's loop are steps of their own. The queue of an
  instance is the list of the identifiers in it, what \<open>TaskQueue\<close> shows of the queue's locks; how a task
  runs is in \<open>TasksManager\<close>. A call resets the timer when it arrives and is answered later, since its
  authorization may wait for the user; the server handles one call at a time.
\<close>

section \<open>State\<close>

text \<open>Where a worker is in the loop of \<^verbatim>\<open>_worker\<close>: a crashed one died of an exception that it does not catch.\<close>

datatype daemon_pc =
    Picking | Picked string | RunningTask string
  | TestEmpty | GraceTime | TestEmptyAgain | Releasing | TestOver | Stopped | Crashed string

text \<open>Where the timer thread is in \<^verbatim>\<open>_timer\<close>: it watches, then stops the server, then interrupts the workers.\<close>

datatype timer_pc = Watching | StoppingServer | Interrupting | TimerLeft

record daemon =
  dm_now :: int
  dm_timer :: server_timer
  dm_queue :: "string \<Rightarrow> string list"
  dm_worker :: "string \<Rightarrow> daemon_pc"
  dm_serving :: bool
  dm_call :: "(string \<times> string option) option"
  dm_timer_pc :: timer_pc
  dm_alarm :: bool
  dm_submitted :: "string \<Rightarrow> string list"
  dm_ran :: "string \<Rightarrow> string list"

text \<open>The last two are the history of an instance: the tasks that were put in its queue and the ones that
  left its worker.\<close>

definition daemon_start :: "int \<Rightarrow> daemon" where
  "daemon_start now =
     \<lparr>dm_now = now, dm_timer = timer_init now 30, dm_queue = (\<lambda>_. []), dm_worker = (\<lambda>_. Picking), dm_serving = True,
      dm_call = None, dm_timer_pc = Watching, dm_alarm = False, dm_submitted = (\<lambda>_. []), dm_ran = (\<lambda>_. [])\<rparr>"

definition at_worker :: "string \<Rightarrow> daemon_pc \<Rightarrow> daemon \<Rightarrow> daemon" where
  "at_worker i pc s = s\<lparr>dm_worker := (dm_worker s)(i := pc)\<rparr>"

section \<open>Steps\<close>

inductive daemon_step :: "string set \<Rightarrow> daemon \<Rightarrow> daemon \<Rightarrow> bool" for I where
  tick: "0 \<le> d \<Longrightarrow> daemon_step I s (s\<lparr>dm_now := dm_now s + d\<rparr>)"
| receive: "dm_serving s \<Longrightarrow> dm_call s = None \<Longrightarrow> i \<in> I \<Longrightarrow>
    daemon_step I s (s\<lparr>dm_timer := timer_reset (dm_now s) (dm_timer s), dm_call := Some (i, task)\<rparr>)"
| answer: "dm_call s = Some c \<Longrightarrow> daemon_step I s (s\<lparr>dm_call := None\<rparr>)"
| submit: "dm_call s = Some (i, Some t) \<Longrightarrow>
    daemon_step I s (s\<lparr>dm_call := None, dm_queue := (dm_queue s)(i := dm_queue s i @ [t]),
      dm_submitted := (dm_submitted s)(i := dm_submitted s i @ [t])\<rparr>)"
| pick: "i \<in> I \<Longrightarrow> dm_worker s i = Picking \<Longrightarrow> dm_queue s i = t # ts \<Longrightarrow>
    daemon_step I s (at_worker i (Picked t) s\<lparr>dm_queue := (dm_queue s)(i := ts)\<rparr>)"
| pick_nothing: "i \<in> I \<Longrightarrow> dm_worker s i = Picking \<Longrightarrow> daemon_step I s (at_worker i TestEmpty s)"
| register: "i \<in> I \<Longrightarrow> dm_worker s i = Picked t \<Longrightarrow>
    daemon_step I s (at_worker i (RunningTask t) s\<lparr>dm_timer := register_worker i (dm_timer s)\<rparr>)"
| run: "i \<in> I \<Longrightarrow> dm_worker s i = RunningTask t \<Longrightarrow>
    daemon_step I s (at_worker i TestEmpty s\<lparr>dm_ran := (dm_ran s)(i := dm_ran s i @ [t])\<rparr>)"
| crash: "i \<in> I \<Longrightarrow> dm_worker s i = RunningTask t \<Longrightarrow> daemon_step I s (at_worker i (Crashed t) s)"
| test_empty: "i \<in> I \<Longrightarrow> dm_worker s i = TestEmpty \<Longrightarrow>
    daemon_step I s (at_worker i (if dm_queue s i = [] then GraceTime else TestEmptyAgain) s)"
| grace: "i \<in> I \<Longrightarrow> dm_worker s i = GraceTime \<Longrightarrow> daemon_step I s (at_worker i TestEmptyAgain s)"
| test_empty_again: "i \<in> I \<Longrightarrow> dm_worker s i = TestEmptyAgain \<Longrightarrow>
    daemon_step I s (at_worker i (if dm_queue s i = [] then Releasing else TestOver) s)"
| release: "i \<in> I \<Longrightarrow> dm_worker s i = Releasing \<Longrightarrow>
    daemon_step I s (at_worker i TestOver s\<lparr>dm_timer := fst (unregister_worker i (dm_timer s))\<rparr>)"
| test_over: "i \<in> I \<Longrightarrow> dm_worker s i = TestOver \<Longrightarrow>
    daemon_step I s (at_worker i (if timer_over (dm_now s) (dm_timer s) then Stopped else Picking) s)"
| watch: "dm_timer_pc s = Watching \<Longrightarrow> \<not> timer_over (dm_now s) (dm_timer s) \<Longrightarrow>
    daemon_step I s (s\<lparr>dm_alarm := (\<exists>i \<in> I. dm_worker s i = Stopped \<or> (\<exists>t. dm_worker s i = Crashed t))\<rparr>)"
| time_over: "dm_timer_pc s = Watching \<Longrightarrow> timer_over (dm_now s) (dm_timer s) \<Longrightarrow>
    daemon_step I s (s\<lparr>dm_timer_pc := StoppingServer\<rparr>)"
| stop_server: "dm_timer_pc s = StoppingServer \<Longrightarrow>
    daemon_step I s (s\<lparr>dm_serving := False, dm_timer_pc := Interrupting\<rparr>)"
| interrupt: "dm_timer_pc s = Interrupting \<Longrightarrow> daemon_step I s (s\<lparr>dm_timer_pc := TimerLeft\<rparr>)"

inductive daemon_runs :: "string set \<Rightarrow> daemon \<Rightarrow> daemon \<Rightarrow> bool" for I where
  start: "daemon_runs I s s"
| step: "daemon_runs I s s' \<Longrightarrow> daemon_step I s' s'' \<Longrightarrow> daemon_runs I s s''"

inductive_cases daemon_stepE: "daemon_step I s s'"

lemmas worker_simps = at_worker_def timer_reset_def register_worker_def unregister_worker_def

lemma daemon_invariant:
  assumes "daemon_runs I s s'" "P s" "\<And>s s'. P s \<Longrightarrow> daemon_step I s s' \<Longrightarrow> P s'"
  shows "P s'"
  using assms by (induction rule: daemon_runs.induct) blast+

section \<open>Tasks of an instance\<close>

text \<open>The task that a worker holds.\<close>

fun held :: "daemon_pc \<Rightarrow> string list" where
  "held (Picked t) = [t]"
| "held (RunningTask t) = [t]"
| "held (Crashed t) = [t]"
| "held _ = []"

definition accounted :: "daemon \<Rightarrow> bool" where
  "accounted s \<longleftrightarrow> (\<forall>i. dm_submitted s i = dm_ran s i @ held (dm_worker s i) @ dm_queue s i)"

lemma accounted_step: "accounted s \<Longrightarrow> daemon_step I s s' \<Longrightarrow> accounted s'"
  unfolding accounted_def by (erule daemon_stepE) (auto simp: worker_simps)

text \<open>C7. Whatever the threads do and however they come one after the other, an instance runs its tasks in the order
  of their submission, none twice and none forgotten: what was submitted is what ran, then the task in the hands
  of the worker, then the queue.\<close>

theorem tasks_accounted:
  assumes "daemon_runs I (daemon_start now) s"
  shows "dm_submitted s i = dm_ran s i @ held (dm_worker s i) @ dm_queue s i \<and> length (held (dm_worker s i)) \<le> 1"
proof -
  have "accounted (daemon_start now)" by (simp add: accounted_def daemon_start_def)
  then have "accounted s" using daemon_invariant [OF assms, of accounted] accounted_step by blast
  moreover have "length (held pc) \<le> 1" for pc by (cases pc) simp_all
  ultimately show ?thesis by (simp add: accounted_def)
qed

section \<open>Stopping\<close>

text \<open>A worker holds the timer from the start of a task until its queue is empty, and for ever when it crashes.\<close>

definition busy :: "daemon_pc \<Rightarrow> bool" where
  "busy pc \<longleftrightarrow> (\<exists>t. pc = RunningTask t \<or> pc = Crashed t)"

definition registered :: "string set \<Rightarrow> daemon \<Rightarrow> bool" where
  "registered I s \<longleftrightarrow> (\<forall>i \<in> I. busy (dm_worker s i) \<longrightarrow> i \<in> st_workers (dm_timer s))"

lemma registered_step: "registered I s \<Longrightarrow> daemon_step I s s' \<Longrightarrow> registered I s'"
  unfolding registered_def by (erule daemon_stepE) (auto simp: worker_simps busy_def)


text \<open>A worker that has left never comes back.\<close>

definition abandoned :: "string \<Rightarrow> string \<Rightarrow> daemon \<Rightarrow> bool" where
  "abandoned i t s \<longleftrightarrow> dm_worker s i = Stopped \<and> t \<in> set (dm_queue s i) \<and> dm_ran s i = []"

lemma abandoned_step: "abandoned i t s \<Longrightarrow> daemon_step I s s' \<Longrightarrow> abandoned i t s'"
  unfolding abandoned_def by (erule daemon_stepE) (auto simp: worker_simps)

lemma runs_trans: "daemon_runs I s s' \<Longrightarrow> daemon_runs I s' s'' \<Longrightarrow> daemon_runs I s s''"
  by (rotate_tac 1, induction rule: daemon_runs.induct) (auto intro: daemon_runs.step)


text \<open>A worker that nothing kept busy leaves when the time is over, before the timer thread sees it.\<close>

definition idle_exit :: "string \<Rightarrow> int \<Rightarrow> daemon" where
  "idle_exit i now = (daemon_start now)\<lparr>dm_now := now + 30, dm_worker := (\<lambda>_. Picking)(i := Stopped)\<rparr>"

lemma idle_exit_runs:
  assumes "i \<in> I"
  shows "daemon_runs I (daemon_start now) (idle_exit i now)"
proof -
  let ?s = "daemon_start now"
  let ?at = "\<lambda>pc. ?s\<lparr>dm_worker := (\<lambda>_. Picking)(i := pc)\<rparr>"
  have "daemon_step I ?s (?at TestEmpty)"
    using daemon_step.pick_nothing [OF assms, of ?s] by (simp add: daemon_start_def at_worker_def)
  moreover have "daemon_step I (?at TestEmpty) (?at GraceTime)"
    using daemon_step.test_empty [OF assms, of "?at TestEmpty"] by (simp add: daemon_start_def at_worker_def)
  moreover have "daemon_step I (?at GraceTime) (?at TestEmptyAgain)"
    using daemon_step.grace [OF assms, of "?at GraceTime"] by (simp add: daemon_start_def at_worker_def)
  moreover have "daemon_step I (?at TestEmptyAgain) (?at Releasing)"
    using daemon_step.test_empty_again [OF assms, of "?at TestEmptyAgain"] by (simp add: daemon_start_def at_worker_def)
  moreover have "daemon_step I (?at Releasing) (?at TestOver)"
    using daemon_step.release [OF assms, of "?at Releasing"]
    by (simp add: daemon_start_def worker_simps timer_init_def Let_def)
  moreover have "daemon_step I (?at TestOver) ((?at TestOver)\<lparr>dm_now := now + 30\<rparr>)"
    using daemon_step.tick [of 30 I "?at TestOver"] by (simp add: daemon_start_def)
  moreover have "daemon_step I ((?at TestOver)\<lparr>dm_now := now + 30\<rparr>) (idle_exit i now)"
    using daemon_step.test_over [OF assms, of "(?at TestOver)\<lparr>dm_now := now + 30\<rparr>"]
    by (simp add: daemon_start_def at_worker_def idle_exit_def timer_over_iff timer_init_def)
  ultimately show ?thesis by (meson daemon_runs.intros)
qed

text \<open>C36. The worker tests the timer on its own, before the timer thread. A call that arrives between the two tests starts
  the timer again: the server goes on, the worker is gone, and the task that the call submits is never run,
  however the daemon goes on.\<close>

theorem task_abandoned:
  assumes "i \<in> I"
  shows "\<exists>s. daemon_runs I (daemon_start now) s \<and> dm_serving s \<and> dm_timer_pc s = Watching
    \<and> \<not> timer_over (dm_now s) (dm_timer s)
    \<and> (\<forall>s'. daemon_runs I s s' \<longrightarrow> t \<in> set (dm_queue s' i) \<and> dm_ran s' i = [])"
proof -
  let ?e = "idle_exit i now"
  let ?r = "?e\<lparr>dm_timer := timer_reset (now + 30) (dm_timer ?e), dm_call := Some (i, Some t)\<rparr>"
  let ?s = "?r\<lparr>dm_call := None, dm_queue := (dm_queue ?r)(i := [t]), dm_submitted := (dm_submitted ?r)(i := [t])\<rparr>"
  have "daemon_step I ?e ?r"
    using daemon_step.receive [of ?e i I "Some t"] assms by (simp add: idle_exit_def daemon_start_def)
  moreover have "daemon_step I ?r ?s"
    using daemon_step.submit [of ?r i t I] by (simp add: idle_exit_def daemon_start_def)
  ultimately have runs: "daemon_runs I (daemon_start now) ?s"
    using idle_exit_runs [OF assms] by (meson daemon_runs.step)
  have "abandoned i t ?s" by (simp add: abandoned_def idle_exit_def daemon_start_def)
  then have "abandoned i t s'" if "daemon_runs I ?s s'" for s'
    using daemon_invariant [OF that, of "abandoned i t"] abandoned_step by blast
  then have "\<forall>s'. daemon_runs I ?s s' \<longrightarrow> t \<in> set (dm_queue s' i) \<and> dm_ran s' i = []"
    by (simp add: abandoned_def)
  moreover have "dm_serving ?s" "dm_timer_pc ?s = Watching" "\<not> timer_over (dm_now ?s) (dm_timer ?s)"
    by (simp_all add: idle_exit_def daemon_start_def timer_over_iff timer_reset_def timer_init_def)
  ultimately show ?thesis using runs by blast
qed

section \<open>Witnesses\<close>

theorem tasks_accounted_witness:
  "dm_submitted (idle_exit ''default'' 5) ''default'' = []"
  using tasks_accounted [OF idle_exit_runs [of "''default''" "{''default''}" 5], where i = "''default''"]
  by (simp add: idle_exit_def daemon_start_def)


theorem task_abandoned_witness:
  "\<exists>s. daemon_runs {''default''} (daemon_start 5) s \<and> dm_serving s \<and> ''t1'' \<in> set (dm_queue s ''default'')"
  using task_abandoned [of "''default''" "{''default''}" 5 "''t1''"] daemon_runs.start by blast

end
