(* ===== verification/SourceDefs.thy ===== *)
theory SourceDefs imports FileSys Archive Versions begin

text \<open>
  The definition files of source artifacts, \<^verbatim>\<open>fatbuildr/artifact.py\<close>: the sources an
  artifact declares, their versions, checksums and addresses, and what each package format
  adds, with \<^verbatim>\<open>fatbuildr/cache.py\<close> and the download and checksum helpers of
  \<^verbatim>\<open>fatbuildr/utils.py\<close>. A loaded YAML document is a value of \<open>yaml\<close>. The libraries are
  the fields of a record: the loader of YAML, the templates of Jinja2, the text that Python
  prints for a list or a mapping, the digests and the network.
\<close>

section \<open>YAML documents\<close>

text \<open>\<open>YScalar t\<close> is a float or a date, whose text in Python is \<open>t\<close>.\<close>

datatype yaml =
    YNull | YBool bool | YInt int | YScalar string | YStr string
  | YList "yaml list" | YMap "(yaml \<times> yaml) list"

record build_libs =
  lib_load :: "string \<Rightarrow> yaml res"
  lib_srender :: "yaml \<Rightarrow> string \<Rightarrow> string res"
  lib_frender :: "string \<Rightarrow> artifact_version \<Rightarrow> string res"
  lib_repr :: "yaml \<Rightarrow> string"
  lib_sha1 :: "string \<Rightarrow> string"
  lib_sha256 :: "string \<Rightarrow> string"
  lib_get :: "string \<Rightarrow> (nat \<times> string) res"

definition yaml_str :: "build_libs \<Rightarrow> yaml \<Rightarrow> string" where
  "yaml_str L y = (case y of
       YNull \<Rightarrow> ''None'' | YBool b \<Rightarrow> (if b then ''True'' else ''False'') | YInt i \<Rightarrow> int_str i
     | YScalar t \<Rightarrow> t | YStr s \<Rightarrow> s | YList _ \<Rightarrow> lib_repr L y | YMap _ \<Rightarrow> lib_repr L y)"

text \<open>\<^verbatim>\<open>k in y\<close>: a key of a mapping, an element of a list, a substring of a string.\<close>

definition yaml_in :: "yaml \<Rightarrow> yaml \<Rightarrow> bool res" where
  "yaml_in k y = (case y of
       YMap es \<Rightarrow> Inr (map_of es k \<noteq> None)
     | YList ys \<Rightarrow> Inr (k \<in> set ys)
     | YStr s \<Rightarrow> (case k of YStr t \<Rightarrow> Inr (str_in t s) | _ \<Rightarrow> Inl TypeErr)
     | _ \<Rightarrow> Inl TypeErr)"

definition yaml_index :: "yaml \<Rightarrow> int option" where
  "yaml_index k = (case k of YInt i \<Rightarrow> Some i | YBool b \<Rightarrow> Some (if b then 1 else 0) | _ \<Rightarrow> None)"

definition seq_item :: "'a list \<Rightarrow> int \<Rightarrow> 'a res" where
  "seq_item xs i =
     (if 0 \<le> i \<and> i < int (length xs) then Inr (xs ! nat i)
      else if i < 0 \<and> - int (length xs) \<le> i then Inr (xs ! nat (int (length xs) + i))
      else Inl IndexErr)"

text \<open>\<^verbatim>\<open>y[k]\<close>.\<close>

definition yaml_item :: "yaml \<Rightarrow> yaml \<Rightarrow> yaml res" where
  "yaml_item y k = (case y of
       YMap es \<Rightarrow> (case map_of es k of None \<Rightarrow> Inl KeyErr | Some v \<Rightarrow> Inr v)
     | YList ys \<Rightarrow> (case yaml_index k of None \<Rightarrow> Inl TypeErr | Some i \<Rightarrow> seq_item ys i)
     | YStr s \<Rightarrow> (case yaml_index k of None \<Rightarrow> Inl TypeErr | Some i \<Rightarrow> rmap (\<lambda>c. YStr [c]) (seq_item s i))
     | _ \<Rightarrow> Inl TypeErr)"

definition yaml_items :: "yaml \<Rightarrow> (yaml \<times> yaml) list res" where
  "yaml_items y = (case y of YMap es \<Rightarrow> Inr es | _ \<Rightarrow> Inl AttributeErr)"

definition yaml_keys :: "yaml \<Rightarrow> yaml list res" where
  "yaml_keys y = rmap (map fst) (yaml_items y)"

definition yaml_hashable :: "yaml \<Rightarrow> bool" where
  "yaml_hashable y = (case y of YList _ \<Rightarrow> False | YMap _ \<Rightarrow> False | _ \<Rightarrow> True)"

lemma yaml_in_map [simp]: "yaml_in k (YMap es) = Inr (map_of es k \<noteq> None)"
  by (simp add: yaml_in_def)

lemma yaml_item_map [simp]: "yaml_item (YMap es) k = (case map_of es k of None \<Rightarrow> Inl KeyErr | Some v \<Rightarrow> Inr v)"
  by (simp add: yaml_item_def)

section \<open>Sources\<close>

record artifact_source_defs =
  asd_id :: yaml
  asd_defs :: yaml

definition ArtifactSourceDefs :: "yaml \<Rightarrow> yaml \<Rightarrow> artifact_source_defs" where
  "ArtifactSourceDefs source_id defs = \<lparr>asd_id = source_id, asd_defs = defs\<rparr>"

definition has_source :: "artifact_source_defs \<Rightarrow> bool res" where
  "has_source s =
     rbind (yaml_in (YStr ''source'') (asd_defs s)) (\<lambda>one. if one then Inr True else
     rbind (yaml_in (YStr ''sources'') (asd_defs s)) (\<lambda>many. if \<not> many then Inr False else
     rbind (yaml_item (asd_defs s) (YStr ''sources'')) (yaml_in (asd_id s))))"

definition has_multisources :: "artifact_source_defs \<Rightarrow> bool res" where
  "has_multisources s = yaml_in (YStr ''sources'') (asd_defs s)"

definition has_derivatives :: "artifact_source_defs \<Rightarrow> bool res" where
  "has_derivatives s = yaml_in (YStr ''derivatives'') (asd_defs s)"

definition defs_is_main :: "artifact_source_defs \<Rightarrow> string \<Rightarrow> bool" where
  "defs_is_main s artifact \<longleftrightarrow> asd_id s = YStr artifact"

text \<open>\<^verbatim>\<open>defs[k1][k2]...\<close>, from left to right.\<close>

definition yaml_path :: "yaml \<Rightarrow> yaml list \<Rightarrow> yaml res" where
  "yaml_path y ks = rfold (\<lambda>k y. yaml_item y k) ks y"

text \<open>A clause \<^verbatim>\<open>except KeyError\<close> that raises the error of artifacts.\<close>

definition or_artifact_error :: "'a res \<Rightarrow> 'a res" where
  "or_artifact_error r = rcatch r (\<lambda>e. e = KeyErr) (\<lambda>_. Inl FatbuildrArtifactError)"

definition source_version :: "build_libs \<Rightarrow> string \<Rightarrow> artifact_source_defs \<Rightarrow> string res" where
  "source_version L derivative s =
     rbind (has_derivatives s) (\<lambda>derivs. rbind (has_multisources s) (\<lambda>multi.
     or_artifact_error (rmap (yaml_str L) (yaml_path (asd_defs s)
       (if derivs
        then (if multi then [YStr ''derivatives'', YStr derivative, asd_id s]
              else [YStr ''derivatives'', YStr derivative])
        else (if multi then [YStr ''versions'', asd_id s] else [YStr ''version'']))))))"

text \<open>The handler builds its message with the version, which can raise in its turn. The
  declared checksums are collected in a set, the order of the list stands for the order
  in which it is visited.\<close>

definition source_checksums :: "build_libs \<Rightarrow> string \<Rightarrow> artifact_source_defs \<Rightarrow> (yaml \<times> yaml) list res" where
  "source_checksums L derivative s =
     rbind (has_multisources s) (\<lambda>multi.
     rbind (rcatch
       (rbind (yaml_path (asd_defs s) (if multi then [YStr ''checksums'', asd_id s] else [YStr ''checksums''])) (\<lambda>c.
        rbind (source_version L derivative s) (\<lambda>v. yaml_item c (YStr v))))
       (\<lambda>e. e = KeyErr)
       (\<lambda>_. rbind (source_version L derivative s) (\<lambda>_. Inl FatbuildrArtifactError))) (\<lambda>checksums_dict.
     rbind (yaml_items checksums_dict) (\<lambda>es.
     if list_all (yaml_hashable \<circ> snd) es then Inr es else Inl TypeErr)))"

definition raw_source :: "artifact_source_defs \<Rightarrow> yaml res" where
  "raw_source s =
     rbind (has_multisources s) (\<lambda>multi.
     or_artifact_error (yaml_path (asd_defs s) (if multi then [YStr ''sources'', asd_id s] else [YStr ''source''])))"

definition rendered_source :: "build_libs \<Rightarrow> string \<Rightarrow> artifact_source_defs \<Rightarrow> string res" where
  "rendered_source L derivative s =
     rbind (raw_source s) (\<lambda>raw. rbind (source_version L derivative s) (lib_srender L raw))"

definition source_url :: "build_libs \<Rightarrow> string \<Rightarrow> artifact_source_defs \<Rightarrow> string res" where
  "source_url L derivative s =
     rmap (\<lambda>url. if CHR ''!'' \<in> set url then split_on CHR ''!'' url ! 0 else url) (rendered_source L derivative s)"

definition os_basename :: "string \<Rightarrow> string" where
  "os_basename p = List.last (split_on CHR ''/'' p)"

definition source_filename :: "build_libs \<Rightarrow> string \<Rightarrow> artifact_source_defs \<Rightarrow> string res" where
  "source_filename L derivative s =
     rmap (\<lambda>url. if CHR ''!'' \<in> set url then split_on CHR ''!'' url ! 1 else os_basename url)
       (rendered_source L derivative s)"

section \<open>Definition files\<close>

datatype defs_class = GenericDefs | DebDefs | RpmDefs | OsiDefs

record artifact_defs =
  ad_class :: defs_class
  ad_place :: path
  ad_artifact :: string
  ad_format :: string
  ad_sources :: "artifact_source_defs list"
  ad_defs :: yaml

definition SUPPORTED_FILENAMES :: "(string \<times> bool) list" where
  "SUPPORTED_FILENAMES = [(''artifact.yml'', False), (''artifact.yaml'', False), (''meta.yml'', True)]"

text \<open>The loop over the names: the first that exists, or the last.\<close>

fun find_defs_file :: "node \<Rightarrow> path \<Rightarrow> (string \<times> bool) list \<Rightarrow> path" where
  "find_defs_file fs place [] = place"
| "find_defs_file fs place [f] = place @ [fst f]"
| "find_defs_file fs place (f # g # fs') =
     (if fs_exists fs (place @ [fst f]) then place @ [fst f] else find_defs_file fs place (g # fs'))"

definition ArtifactDefs_sources :: "string \<Rightarrow> yaml \<Rightarrow> artifact_source_defs list res" where
  "ArtifactDefs_sources artifact defs =
     rbind (yaml_in (YStr ''sources'') defs) (\<lambda>multi.
     if multi
     then rbind (yaml_item defs (YStr ''sources'')) (\<lambda>srcs.
          rmap (map (\<lambda>(source_id, source_defs). ArtifactSourceDefs source_id defs)) (yaml_items srcs))
     else Inr [ArtifactSourceDefs (YStr artifact) defs])"

definition ArtifactDefs :: "build_libs \<Rightarrow> defs_class \<Rightarrow> path \<Rightarrow> string \<Rightarrow> string \<Rightarrow> node \<Rightarrow> artifact_defs res" where
  "ArtifactDefs L cls place artifact fmt fs =
     (let defs_yml_f = find_defs_file fs place SUPPORTED_FILENAMES in
      if \<not> fs_exists fs defs_yml_f then Inl FatbuildrArtifactError
      else rbind (fs_read fs defs_yml_f) (\<lambda>text. rbind (lib_load L text) (\<lambda>defs.
           rmap (\<lambda>sources. \<lparr>ad_class = cls, ad_place = place, ad_artifact = artifact, ad_format = fmt,
                   ad_sources = sources, ad_defs = defs\<rparr>)
             (ArtifactDefs_sources artifact defs))))"

definition defs_source :: "artifact_defs \<Rightarrow> yaml \<Rightarrow> artifact_source_defs option" where
  "defs_source d source_id = List.find (\<lambda>s. asd_id s = source_id) (ad_sources d)"

definition main_source :: "artifact_defs \<Rightarrow> artifact_source_defs option" where
  "main_source d = defs_source d (YStr (ad_artifact d))"

definition defined_sources :: "artifact_defs \<Rightarrow> yaml list" where
  "defined_sources d = map asd_id (ad_sources d)"

definition defs_derivatives :: "artifact_defs \<Rightarrow> yaml list res" where
  "defs_derivatives d =
     rbind (yaml_in (YStr ''derivatives'') (ad_defs d)) (\<lambda>derivs.
     if derivs then rbind (yaml_item (ad_defs d) (YStr ''derivatives'')) yaml_keys
     else Inr [YStr ''main''])"

definition supported_formats :: "artifact_defs \<Rightarrow> yaml list res" where
  "supported_formats d =
     rmap (filter (\<lambda>key. key \<in> {YStr ''rpm'', YStr ''deb'', YStr ''osi''})) (yaml_keys (ad_defs d))"

definition artifact_release :: "build_libs \<Rightarrow> artifact_defs \<Rightarrow> string res" where
  "artifact_release L d = (case ad_class d of
       OsiDefs \<Rightarrow> Inr ''0''
     | GenericDefs \<Rightarrow> Inl AttributeErr
     | _ \<Rightarrow> rmap (yaml_str L) (yaml_path (ad_defs d) [YStr (ad_format d), YStr ''release'']))"

definition fullversion :: "build_libs \<Rightarrow> string \<Rightarrow> artifact_defs \<Rightarrow> string res" where
  "fullversion L derivative d =
     (case main_source d of
        None \<Rightarrow> Inl AttributeErr
      | Some s \<Rightarrow> rbind (source_version L derivative s) (\<lambda>v. rmap (\<lambda>r. v @ ''-'' @ r) (artifact_release L d)))"

text \<open>The lines of a text file, without their ends; the three conventions of line ends are
  read alike.\<close>

fun unix_ends :: "string \<Rightarrow> string" where
  "unix_ends [] = []"
| "unix_ends (c # s) =
     (if c = CHR 0x0D then (case s of d # t \<Rightarrow> (if d = CHR 0x0A then unix_ends s else CHR 0x0A # unix_ends s) | [] \<Rightarrow> [CHR 0x0A])
      else c # unix_ends s)"

definition text_lines :: "string \<Rightarrow> string list" where
  "text_lines s = split_on CHR 0x0A (unix_ends s)"

definition with_suffix_j2 :: "path \<Rightarrow> path" where
  "with_suffix_j2 p = butlast p @ [path_stem (List.last p) @ ''.j2'']"

definition deb_architecture_dependent :: "artifact_defs \<Rightarrow> node \<Rightarrow> bool res" where
  "deb_architecture_dependent d fs =
     (let control = joinpath (joinpath (ad_place d) (ad_format d)) ''control'';
          check_file = (if fs_exists fs control then control else with_suffix_j2 control) in
      if \<not> fs_exists fs check_file then Inl RuntimeErr
      else rmap (\<lambda>text. \<exists>line \<in> set (text_lines text).
             startswith line ''Architecture:'' \<and> \<not> startswith line ''Architecture: all'') (fs_read fs check_file))"

definition rpm_architecture_dependent :: "artifact_defs \<Rightarrow> node \<Rightarrow> bool res" where
  "rpm_architecture_dependent d fs =
     rcatch (rmap (\<lambda>text. \<not> (\<exists>line \<in> set (text_lines text).
         startswith (filter (\<lambda>c. c \<noteq> CHR 0x09) (filter (\<lambda>c. c \<noteq> CHR '' '') line)) ''BuildArch:noarch''))
       (fs_read fs (joinpath (joinpath (ad_place d) (ad_format d)) (ad_artifact d @ ''.spec''))))
       (\<lambda>e. is_a e FileNotFoundErr) (\<lambda>_. Inl FatbuildrArtifactError)"

definition architecture_dependent :: "artifact_defs \<Rightarrow> node \<Rightarrow> bool res" where
  "architecture_dependent d fs = (case ad_class d of
       DebDefs \<Rightarrow> deb_architecture_dependent d fs
     | RpmDefs \<Rightarrow> rpm_architecture_dependent d fs
     | _ \<Rightarrow> Inr False)"

definition has_buildargs :: "artifact_defs \<Rightarrow> bool res" where
  "has_buildargs d = rbind (yaml_item (ad_defs d) (YStr (ad_format d))) (yaml_in (YStr ''buildargs''))"

definition defs_buildargs :: "artifact_defs \<Rightarrow> string list res" where
  "defs_buildargs d =
     rbind (yaml_path (ad_defs d) [YStr (ad_format d), YStr ''buildargs'']) (\<lambda>y.
     case y of YStr s \<Rightarrow> Inr (split_on CHR '' '' s) | _ \<Rightarrow> Inl AttributeErr)"

definition defs_formats :: "(string \<times> defs_class) list" where
  "defs_formats = [(''deb'', DebDefs), (''rpm'', RpmDefs), (''osi'', OsiDefs)]"

definition ArtifactDefsFactory_get :: "build_libs \<Rightarrow> path \<Rightarrow> string \<Rightarrow> string \<Rightarrow> node \<Rightarrow> artifact_defs res" where
  "ArtifactDefsFactory_get L place artifact fmt fs =
     (case map_of defs_formats fmt of
        None \<Rightarrow> Inl RuntimeErr
      | Some cls \<Rightarrow> ArtifactDefs L cls place artifact fmt fs)"

section \<open>Downloads and checksums\<close>

text \<open>The status of the answer is not looked at.\<close>

definition dl_file :: "build_libs \<Rightarrow> string \<Rightarrow> path \<Rightarrow> node \<Rightarrow> node res" where
  "dl_file L url p fs = rbind (lib_get L url) (\<lambda>(status, body). fs_write p body fs)"

definition hasher :: "build_libs \<Rightarrow> yaml \<Rightarrow> (string \<Rightarrow> string) res" where
  "hasher L f = (if f = YStr ''sha1'' then Inr (lib_sha1 L) else if f = YStr ''sha256'' then Inr (lib_sha256 L) else Inl RuntimeErr)"

definition verify_checksum :: "build_libs \<Rightarrow> node \<Rightarrow> path \<Rightarrow> yaml \<times> yaml \<Rightarrow> unit res" where
  "verify_checksum L fs p c =
     rbind (hasher L (fst c)) (\<lambda>h. rbind (fs_read fs p) (\<lambda>content.
     if YStr (h content) \<noteq> snd c then Inl RuntimeErr else Inr ()))"

definition verify_checksums :: "build_libs \<Rightarrow> node \<Rightarrow> path \<Rightarrow> (yaml \<times> yaml) list \<Rightarrow> unit res" where
  "verify_checksums L fs p cs = rfold (\<lambda>c _. verify_checksum L fs p c) cs ()"

section \<open>The cache of an artifact\<close>

definition CacheArtifact :: "path \<Rightarrow> string \<Rightarrow> path" where
  "CacheArtifact cache_dir artifact = joinpath cache_dir artifact"

text \<open>\<^verbatim>\<open>self.build.defs.source(source_id).filename(...)\<close>: \<^verbatim>\<open>source\<close> returns None for an
  unknown identifier.\<close>

definition cache_archive :: "build_libs \<Rightarrow> path \<Rightarrow> string \<Rightarrow> artifact_defs \<Rightarrow> yaml \<Rightarrow> path res" where
  "cache_archive L dir derivative d source_id =
     (case defs_source d source_id of
        None \<Rightarrow> Inl AttributeErr
      | Some s \<Rightarrow> rmap (joinpath dir) (source_filename L derivative s))"

definition cache_has_archive :: "build_libs \<Rightarrow> path \<Rightarrow> string \<Rightarrow> artifact_defs \<Rightarrow> yaml \<Rightarrow> node \<Rightarrow> bool res" where
  "cache_has_archive L dir derivative d source_id fs = rmap (fs_exists fs) (cache_archive L dir derivative d source_id)"

definition cache_ensure :: "path \<Rightarrow> node \<Rightarrow> node res" where
  "cache_ensure dir fs = (if fs_exists fs dir then Inr fs else fs_mkdir dir fs)"

definition CacheManager :: "path \<Rightarrow> string \<Rightarrow> node \<Rightarrow> (path \<times> node) res" where
  "CacheManager cache_root instance_id fs =
     (let dir = joinpath cache_root instance_id in rmap (Pair dir) (cache_ensure dir fs))"

end
