(* ===== verification/GitRepo.thy ===== *)
theory GitRepo imports SourceDefs PyRegex begin

text \<open>
  \<^verbatim>\<open>fatbuildr/git.py\<close>: the directories of patches of an artifact, the patch files with
  their metadata, and the temporary git repository whose commits are the patches. The
  repository keeps its commits from the newest to the first, as \<^verbatim>\<open>walker\<close> visits them,
  each with the tree it records; the working directory is a part of the file system. The
  libraries are the fields of a record: the text of the difference of two trees
  (\<^verbatim>\<open>pygit2\<close>), the command \<^verbatim>\<open>patch\<close>, and the parser and printer of \<^verbatim>\<open>deb822\<close>. An
  operation that fails keeps the changes it has made.
\<close>

section \<open>Metadata\<close>

text \<open>The fields of a paragraph in the format of Debian's control files. The names do not
  depend on the case of their letters.\<close>

type_synonym deb822 = "(string, string) dict"

definition same_field :: "string \<Rightarrow> string \<Rightarrow> bool" where
  "same_field a b \<longleftrightarrow> map lower_char a = map lower_char b"

fun d822_get :: "deb822 \<Rightarrow> string \<Rightarrow> string option" where
  "d822_get [] k = None"
| "d822_get ((a, v) # m) k = (if same_field a k then Some v else d822_get m k)"

fun d822_set :: "deb822 \<Rightarrow> string \<Rightarrow> string \<Rightarrow> deb822" where
  "d822_set [] k v = [(k, v)]"
| "d822_set ((a, w) # m) k v = (if same_field a k then (a, v) # m else (a, w) # d822_set m k v)"

fun d822_del :: "deb822 \<Rightarrow> string \<Rightarrow> deb822" where
  "d822_del [] k = []"
| "d822_del ((a, v) # m) k = (if same_field a k then m else (a, v) # d822_del m k)"

definition d822_item :: "deb822 \<Rightarrow> string \<Rightarrow> string res" where
  "d822_item m k = (case d822_get m k of None \<Rightarrow> Inl KeyErr | Some v \<Rightarrow> Inr v)"

definition d822_has :: "deb822 \<Rightarrow> string \<Rightarrow> bool" where
  "d822_has m k \<longleftrightarrow> d822_get m k \<noteq> None"

definition is_meta_generic :: "deb822 \<Rightarrow> bool" where
  "is_meta_generic meta \<longleftrightarrow> d822_get meta ''Generic'' = Some ''yes''"

section \<open>Repositories\<close>

record git_libs =
  gl_diff :: "node \<Rightarrow> node \<Rightarrow> string"
  gl_patch :: "string \<Rightarrow> node \<Rightarrow> node"
  gl_parse :: "string \<Rightarrow> deb822"
  gl_dump :: "deb822 \<Rightarrow> string"

record commit =
  cm_author :: string
  cm_email :: string
  cm_message :: string
  cm_tree :: node

record git_state =
  gs_fs :: node
  gs_path :: path
  gs_index :: node
  gs_commits :: "commit list"

text \<open>An operation on the file system.\<close>

definition git_fs :: "(node \<Rightarrow> node res) \<Rightarrow> (git_state, unit) act" where
  "git_fs f = spart gs_fs (\<lambda>fs s. s\<lparr>gs_fs := fs\<rparr>) f"

definition ask_fs :: "(node \<Rightarrow> 'a res) \<Rightarrow> (git_state, 'a) act" where
  "ask_fs f s = (f (gs_fs s), s)"

definition swhen :: "bool \<Rightarrow> ('s, unit) act \<Rightarrow> ('s, unit) act" where
  "swhen b a = (if b then a else sret ())"

definition parse_commit_meta :: "git_libs \<Rightarrow> commit \<Rightarrow> deb822 res" where
  "parse_commit_meta G c = rmap (gl_parse G) (list_item (split_max CHR 0x0A 2 (cm_message c)) 2)"

section \<open>Patch files\<close>

text \<open>A path of the file system is a list of names, its last name the file's one.\<close>

definition pf_name :: "path \<Rightarrow> string" where
  "pf_name p = List.last p"

definition pf_generic :: "path \<Rightarrow> bool" where
  "pf_generic p \<longleftrightarrow> List.last (butlast p) = ''generic''"

definition pf_title :: "path \<Rightarrow> string res" where
  "pf_title p = list_item (split_max CHR ''-'' 1 (pf_name p)) 1"

definition pf_meta :: "git_libs \<Rightarrow> node \<Rightarrow> path \<Rightarrow> deb822 res" where
  "pf_meta G fs p = rmap (gl_parse G) (fs_read fs p)"

definition pf_template :: "git_libs \<Rightarrow> node \<Rightarrow> path \<Rightarrow> bool res" where
  "pf_template G fs p = rmap (\<lambda>m. d822_get m ''Template'' = Some ''yes'') (pf_meta G fs p)"

definition in_field :: "deb822 \<Rightarrow> string \<Rightarrow> string \<Rightarrow> bool res" where
  "in_field meta field value = rmap (\<lambda>v. value \<in> set (split_on CHR '' '' v)) (d822_item meta field)"

definition pf_create :: "path \<Rightarrow> string \<Rightarrow> path" where
  "pf_create subdir title = joinpath subdir title"

definition pf_write :: "git_libs \<Rightarrow> path \<Rightarrow> deb822 \<Rightarrow> string \<Rightarrow> node \<Rightarrow> node res" where
  "pf_write G p meta d = fs_write p (gl_dump G meta @ [CHR 0x0A, CHR 0x0A] @ d)"

definition pf_remove :: "path \<Rightarrow> node \<Rightarrow> node res" where
  "pf_remove p = fs_unlink p"

text \<open>\<^verbatim>\<open>p.rename(q)\<close>: a file that is there is replaced, a directory is not.\<close>

definition fs_rename :: "path \<Rightarrow> path \<Rightarrow> node \<Rightarrow> node res" where
  "fs_rename p q fs =
     (case lookup p fs of
        None \<Rightarrow> Inl FileNotFoundErr
      | Some m \<Rightarrow>
          if p = q then Inr fs
          else if prefix p q \<or> fs_is_dir fs q \<or> fs_is_dir fs p \<and> fs_exists fs q then Inl OSErr
          else rbind (del p fs) (put q m))"

definition path_with_suffix :: "path \<Rightarrow> string \<Rightarrow> path" where
  "path_with_suffix p sfx = butlast p @ [path_stem (List.last p) @ sfx]"

text \<open>The file is opened, and emptied, before the template is rendered.\<close>

definition pf_render :: "build_libs \<Rightarrow> artifact_version \<Rightarrow> path \<Rightarrow> (git_state, unit) act" where
  "pf_render L version p =
     (let tmp = path_with_suffix p ''.swp'' in
      sbind (git_fs (fs_rename p tmp)) (\<lambda>_.
      sbind (git_fs (fs_write p [])) (\<lambda>_.
      sbind (ask_fs (\<lambda>fs. rbind (fs_read fs tmp) (\<lambda>t. lib_frender L t version))) (\<lambda>text.
      sbind (git_fs (fs_write p text)) (\<lambda>_. git_fs (fs_unlink tmp))))))"

section \<open>Directories of patches\<close>

record patches_dir =
  pd_path :: path
  pd_version :: string

definition PatchesDir :: "path \<Rightarrow> string \<Rightarrow> patches_dir" where
  "PatchesDir p version = \<lparr>pd_path = joinpath p ''patches'', pd_version = version\<rparr>"

definition generic_subdir :: "patches_dir \<Rightarrow> path" where
  "generic_subdir d = joinpath (pd_path d) ''generic''"

definition version_subdir :: "patches_dir \<Rightarrow> path" where
  "version_subdir d = joinpath (pd_path d) (pd_version d)"

definition pd_subdirs :: "patches_dir \<Rightarrow> path list" where
  "pd_subdirs d = [generic_subdir d, version_subdir d]"

definition pd_empty :: "node \<Rightarrow> patches_dir \<Rightarrow> bool" where
  "pd_empty fs d \<longleftrightarrow> \<not> fs_exists fs (generic_subdir d) \<and> \<not> fs_exists fs (version_subdir d)"

definition pd_ensure :: "patches_dir \<Rightarrow> node \<Rightarrow> node res" where
  "pd_ensure d fs = (if fs_exists fs (pd_path d) then Inr fs else fs_mkdir (pd_path d) fs)"

text \<open>The patches of a subdirectory, sorted: they have the same parent, so their names
  decide.\<close>

definition subdir_patches :: "node \<Rightarrow> path \<Rightarrow> path list res" where
  "subdir_patches fs sub = rmap (\<lambda>names. map (\<lambda>x. sub @ [x]) (sort names)) (fs_iterdir fs sub)"

definition subdir_ensure :: "patches_dir \<Rightarrow> path \<Rightarrow> (git_state, unit) act" where
  "subdir_ensure d sub =
     sbind (git_fs (pd_ensure d)) (\<lambda>_. git_fs (\<lambda>fs. if fs_exists fs sub then Inr fs else fs_mkdir sub fs))"

definition subdir_clean :: "path \<Rightarrow> (git_state, unit) act" where
  "subdir_clean sub s =
     (if \<not> fs_exists (gs_fs s) sub then sret () s
      else sbind (ask_fs (\<lambda>fs. subdir_patches fs sub)) (sfor (\<lambda>p. git_fs (pf_remove p))) s)"

section \<open>Commits\<close>

definition work_tree :: "git_state \<Rightarrow> node" where
  "work_tree s = (case lookup (gs_path s) (gs_fs s) of None \<Rightarrow> Dir [] | Some n \<Rightarrow> n)"

text \<open>\<^verbatim>\<open>index.add(f)\<close> takes one file; \<^verbatim>\<open>index.add_all()\<close> the whole working directory.\<close>

definition index_add :: "node \<Rightarrow> string \<Rightarrow> node \<Rightarrow> node res" where
  "index_add work f index =
     (let p = path_parts f in
      case lookup p work of
        Some (File c) \<Rightarrow> rbind (make_parents p index) (put p (File c))
      | _ \<Rightarrow> Inl OSErr)"

definition base_commit :: "string \<Rightarrow> string \<Rightarrow> string \<Rightarrow> string list option \<Rightarrow> (git_state, unit) act" where
  "base_commit author email message files s =
     (case (case files of None \<Rightarrow> Inr (work_tree s) | Some fs \<Rightarrow> rfold (index_add (work_tree s)) fs (gs_index s)) of
        Inl e \<Rightarrow> (Inl e, s)
      | Inr index \<Rightarrow> (Inr (), s\<lparr>gs_index := index,
          gs_commits := \<lparr>cm_author = author, cm_email = email, cm_message = message, cm_tree = index\<rparr> # gs_commits s\<rparr>))"

definition git_initial_commit :: "string \<Rightarrow> string \<Rightarrow> (git_state, unit) act" where
  "git_initial_commit author email = base_commit author email ''Initial commit'' None"

definition git_commit ::
  "git_libs \<Rightarrow> string \<Rightarrow> string \<Rightarrow> string \<Rightarrow> deb822 \<Rightarrow> string list option \<Rightarrow> (git_state, unit) act" where
  "git_commit G author email title meta files =
     base_commit author email (title @ [CHR 0x0A, CHR 0x0A] @ gl_dump G meta) files"

text \<open>The template of the commit messages is a setting of the user's editor.\<close>

definition GitRepository :: "path \<Rightarrow> string \<Rightarrow> string \<Rightarrow> (git_state, unit) act" where
  "GitRepository p author email =
     sbind (smodify (\<lambda>s. s\<lparr>gs_path := p, gs_index := Dir [], gs_commits := []\<rparr>)) (\<lambda>_.
     sbind (git_fs (\<lambda>fs. if fs_exists fs (p @ [''.gitignore'']) then fs_unlink (p @ [''.gitignore'']) fs else Inr fs)) (\<lambda>_.
     git_initial_commit author email))"

section \<open>Import\<close>

definition AUTHOR_REGEX :: regex where
  "AUTHOR_REGEX =
     RSeq (Grp ''author'' (Plus rx_dot)) (RSeq (Lit '' <'') (RSeq (Grp ''email'' (Plus rx_dot)) (Lit ''>'')))"

definition author_key :: "deb822 \<Rightarrow> string option" where
  "author_key meta =
     foldl (\<lambda>found key. if d822_has meta key then Some key else found) None [''Author'', ''From'']"

text \<open>The author and the metadata that are left. No match is None, whose \<^verbatim>\<open>group\<close> fails.\<close>

definition take_author :: "deb822 \<Rightarrow> (string \<times> string \<times> deb822) res" where
  "take_author meta =
     (case author_key meta of
        None \<Rightarrow> Inr (''Unknown Author'', ''unknown@email.com'', meta)
      | Some key \<Rightarrow>
          rbind (d822_item meta key) (\<lambda>v.
          case re_match AUTHOR_REGEX v of
            None \<Rightarrow> Inl AttributeErr
          | Some g \<Rightarrow> Inr (the (group g ''author''), the (group g ''email''), d822_del meta key)))"

definition apply_patch :: "git_libs \<Rightarrow> path \<Rightarrow> (git_state, unit) act" where
  "apply_patch G p =
     sbind (ask_fs (\<lambda>fs. fs_read fs p)) (\<lambda>content.
     sbind (slift (take_author (gl_parse G content))) (\<lambda>(author, email, meta).
     let meta = (if pf_generic p then d822_set meta ''Generic'' ''yes'' else meta) in
     sbind (\<lambda>s. git_fs (put (gs_path s) (gl_patch G content (work_tree s))) s) (\<lambda>_.
     sbind (slift (pf_title p)) (\<lambda>title. git_commit G author email title meta None))))"

definition import_patches_subdir :: "git_libs \<Rightarrow> path \<Rightarrow> (git_state, unit) act" where
  "import_patches_subdir G sub s =
     (if \<not> fs_exists (gs_fs s) sub then sret () s
      else sbind (ask_fs (\<lambda>fs. subdir_patches fs sub)) (sfor (apply_patch G)) s)"

definition import_patches :: "git_libs \<Rightarrow> patches_dir \<Rightarrow> (git_state, unit) act" where
  "import_patches G d = sfor (import_patches_subdir G) (pd_subdirs d)"

section \<open>Export\<close>

text \<open>\<^verbatim>\<open>f"{index:04}"\<close>: decimal, padded to four digits.\<close>

definition pad4 :: "nat \<Rightarrow> string" where
  "pad4 n = replicate (4 - length (nat_str n)) CHR ''0'' @ nat_str n"

definition export_meta :: "commit \<Rightarrow> deb822 \<Rightarrow> deb822" where
  "export_meta c meta =
     d822_del (d822_set meta ''Author'' (cm_author c @ '' <'' @ cm_email c @ ''>'')) ''Generic''"

definition export_file :: "path \<Rightarrow> nat \<Rightarrow> commit \<Rightarrow> path" where
  "export_file sub index c = pf_create sub (pad4 index @ ''-'' @ hd (split_on CHR 0x0A (cm_message c)))"

definition export_commit ::
  "git_libs \<Rightarrow> patches_dir \<Rightarrow> path \<Rightarrow> nat \<Rightarrow> commit \<Rightarrow> commit \<Rightarrow> deb822 \<Rightarrow> (git_state, unit) act" where
  "export_commit G d sub index parent c meta =
     (let txt = gl_diff G (cm_tree parent) (cm_tree c) in
      swhen (txt \<noteq> []) (sbind (subdir_ensure d sub) (\<lambda>_.
        git_fs (pf_write G (export_file sub index c) (export_meta c meta) txt))))"

text \<open>The two passes over the commits, which stop at the first commit of the repository.\<close>

fun count_commits :: "git_libs \<Rightarrow> commit list \<Rightarrow> nat \<times> nat \<Rightarrow> (nat \<times> nat) res" where
  "count_commits G (c # parent # cs) (ig, iv) =
     rbind (parse_commit_meta G c) (\<lambda>meta.
     count_commits G (parent # cs) (if is_meta_generic meta then (ig + 1, iv) else (ig, iv + 1)))"
| "count_commits G _ n = Inr n"

fun export_commits :: "git_libs \<Rightarrow> patches_dir \<Rightarrow> commit list \<Rightarrow> nat \<times> nat \<Rightarrow> (git_state, unit) act" where
  "export_commits G d (c # parent # cs) (ig, iv) =
     sbind (slift (parse_commit_meta G c)) (\<lambda>meta.
     if is_meta_generic meta
     then sbind (export_commit G d (generic_subdir d) ig parent c meta) (\<lambda>_.
          export_commits G d (parent # cs) (ig - 1, iv))
     else sbind (export_commit G d (version_subdir d) iv parent c meta) (\<lambda>_.
          export_commits G d (parent # cs) (ig, iv - 1)))"
| "export_commits G d _ n = sret ()"

definition export_queue :: "git_libs \<Rightarrow> patches_dir \<Rightarrow> (git_state, unit) act" where
  "export_queue G d =
     sbind (git_fs (pd_ensure d)) (\<lambda>_.
     sbind (sfor subdir_clean (pd_subdirs d)) (\<lambda>_.
     sbind (\<lambda>s. (count_commits G (gs_commits s) (0, 0), s)) (\<lambda>n.
     \<lambda>s. export_commits G d (gs_commits s) n s)))"

definition commit_export ::
  "git_libs \<Rightarrow> string \<Rightarrow> patches_dir \<Rightarrow> path \<Rightarrow> nat \<Rightarrow> string \<Rightarrow> string \<Rightarrow> string \<Rightarrow> string \<Rightarrow> string list option
    \<Rightarrow> (git_state, unit) act" where
  "commit_export G today d sub index title author email description files =
     sbind (git_commit G author email title
       [(''Description'', description), (''Forwarded'', ''no''), (''Last-Update'', today)] files) (\<lambda>_.
     \<lambda>s. (case gs_commits s of
            c # parent # _ \<Rightarrow> sbind (slift (parse_commit_meta G c)) (export_commit G d sub index parent c) s
          | _ \<Rightarrow> (Inl IndexErr, s)))"

end
