(* ===== verification/GitQueue.thy ===== *)
theory GitQueue imports GitRepo begin

text \<open>
  What the patch queue of \<^verbatim>\<open>fatbuildr/git.py\<close> guarantees: the files that \<^verbatim>\<open>export_queue\<close>
  writes list the commits in their order, importing them gives the same commits again,
  the generic ones first, and what an export that fails has already removed.
\<close>

section \<open>Names of the files\<close>

lemma digits_val_Cons: "digits_val (c # s) = digit_val c * 10 ^ length s + digits_val s"
proof (induction s rule: rev_induct)
  case Nil
  then show ?case by (simp add: digits_val_def)
next
  case (snoc x s)
  show ?case using snoc digits_val_snoc [of "c # s" x] by (simp add: algebra_simps)
qed

lemma digits_val_less: "list_all is_digit s \<Longrightarrow> digits_val s < 10 ^ length s"
proof (induction s)
  case (Cons c s)
  then have "digit_val c \<le> 9" unfolding is_digit_def digit_val_def list.pred_inject by linarith
  then have "digit_val c * 10 ^ length s \<le> 9 * 10 ^ length s" by (rule mult_le_mono1)
  moreover have "digits_val s < 10 ^ length s" using Cons by simp
  ultimately show ?case unfolding digits_val_Cons list.size(4) add_0_right add_Suc_right power_Suc by linarith
qed (simp add: digits_val_def)

lemma digit_less: "is_digit c \<Longrightarrow> is_digit d \<Longrightarrow> digit_val c < digit_val d \<Longrightarrow> c < d"
  by (simp add: is_digit_def digit_val_def less_char_def)

lemma digit_same: "is_digit c \<Longrightarrow> is_digit d \<Longrightarrow> digit_val c = digit_val d \<Longrightarrow> c = d"
  by (simp add: is_digit_def digit_val_def) (metis le_add_diff_inverse of_char_eq_iff)

text \<open>Numbers written with the same number of digits are ordered as their texts.\<close>

lemma digits_less:
  "\<lbrakk>length a = length b; list_all is_digit a; list_all is_digit b; digits_val a < digits_val b\<rbrakk> \<Longrightarrow> a @ x < b @ y"
proof (induction a b rule: list_induct2')
  case (4 c s d t)
  show ?case
  proof (cases "digit_val c = digit_val d")
    case True
    with 4 show ?thesis by (auto simp: digits_val_Cons dest: digit_same)
  next
    case False
    have "\<not> digit_val d < digit_val c"
    proof
      assume "digit_val d < digit_val c"
      then have "(digit_val d + 1) * 10 ^ length t \<le> digit_val c * 10 ^ length t" by (intro mult_le_mono1) simp
      moreover have "digits_val t < 10 ^ length t" using 4 digits_val_less by auto
      ultimately show False using 4 by (auto simp: digits_val_Cons)
    qed
    with False have "c < d" using 4 by (auto intro: digit_less)
    then show ?thesis by simp
  qed
qed (auto simp: digits_val_def)

lemma digits_val_zeros: "digits_val (replicate k CHR ''0'' @ s) = digits_val s"
  by (induction k) (simp_all add: digits_val_Cons digit_val_def)

lemma length_nat_str: "n < 10 ^ k \<Longrightarrow> k > 0 \<Longrightarrow> length (nat_str n) \<le> k"
proof (induction n arbitrary: k rule: nat_str.induct)
  case (1 n)
  show ?case
  proof (cases "n < 10")
    case False
    obtain j where j: "k = Suc j" using 1 by (cases k) auto
    with 1 False have "n div 10 < 10 ^ j" "j > 0" by (auto intro!: Nat.gr0I)
    with 1(1) [OF False] have "length (nat_str (n div 10)) \<le> j" by blast
    with False j show ?thesis by (subst nat_str.simps) simp
  qed (use 1 in \<open>subst nat_str.simps, simp\<close>)
qed

declare nat_str.simps [simp del]

lemma pad4_digits: "list_all is_digit (pad4 n)"
  using nat_str_digits [of n] by (auto simp: pad4_def list_all_iff is_digit_def)

lemma pad4_length: "n \<le> 9999 \<Longrightarrow> length (pad4 n) = 4"
  using length_nat_str [of n 4] by (simp add: pad4_def)

lemma digits_val_pad4 [simp]: "digits_val (pad4 n) = n"
  by (simp add: pad4_def digits_val_zeros)

lemma pad4_ne [simp]: "pad4 n \<noteq> []"
  by (simp add: pad4_def)

lemma pad4_notin: "\<not> is_digit c \<Longrightarrow> c \<notin> set (pad4 n)"
  using pad4_digits [of n] by (auto simp: list_all_iff)

text \<open>The name of a patch: its index, then its title.\<close>

definition patch_name :: "nat \<Rightarrow> string \<Rightarrow> string" where
  "patch_name i title = pad4 i @ ''-'' @ title"

lemma patch_name_less: "i < j \<Longrightarrow> j \<le> 9999 \<Longrightarrow> patch_name i t < patch_name j u"
  unfolding patch_name_def by (rule digits_less) (simp_all add: pad4_length pad4_digits)

lemma patch_name_title: "split_max CHR ''-'' 1 (patch_name i t) = [pad4 i, t]"
  using split_max_append [of "CHR ''-''" "pad4 i" 0 t]
  by (simp add: patch_name_def pad4_notin is_digit_def)

lemma path_parts_name: "CHR ''/'' \<notin> set n \<Longrightarrow> n \<noteq> [] \<Longrightarrow> n \<noteq> ''.'' \<Longrightarrow> path_parts n = [n]"
  by (simp add: path_parts_def)

lemma joinpath_name: "CHR ''/'' \<notin> set n \<Longrightarrow> n \<noteq> [] \<Longrightarrow> n \<noteq> ''.'' \<Longrightarrow> joinpath p n = p @ [n]"
  by (cases n) (auto simp: joinpath_def path_parts_name startswith_def)

lemma joinpath_patch: "CHR ''/'' \<notin> set t \<Longrightarrow> joinpath p (patch_name i t) = p @ [patch_name i t]"
proof (rule joinpath_name)
  show "patch_name i t \<noteq> ''.''"
    using patch_name_title [of i t] by (auto simp: patch_name_def Cons_eq_append_conv)
qed (auto simp: patch_name_def pad4_notin is_digit_def)

section \<open>Emptying a directory\<close>

lemma git_fs_ok: "f (gs_fs s) = Inr fs \<Longrightarrow> git_fs f s = (Inr (), s\<lparr>gs_fs := fs\<rparr>)"
  by (simp add: git_fs_def spart_def)

lemma git_fs_fail: "f (gs_fs s) = Inl e \<Longrightarrow> git_fs f s = (Inl e, s)"
  by (simp add: git_fs_def spart_def)

lemma sfor_git_fs: "rfold f xs (gs_fs s) = Inr fs \<Longrightarrow> sfor (\<lambda>x. git_fs (f x)) xs s = (Inr (), s\<lparr>gs_fs := fs\<rparr>)"
proof (induction xs arbitrary: s)
  case (Cons x xs)
  then obtain f1 where "f x (gs_fs s) = Inr f1" "rfold f xs f1 = Inr fs" by (auto simp: rbind_Inr_conv)
  with Cons.IH [of "s\<lparr>gs_fs := f1\<rparr>"] git_fs_ok [of "f x"] show ?case by (simp add: sbind_apply)
qed (simp add: sret_def)

text \<open>A directory that holds files only, each once.\<close>

definition flat :: "(string \<times> node) list \<Rightarrow> bool" where
  "flat es \<longleftrightarrow> distinct (map fst es) \<and> (\<forall>e \<in> set es. \<exists>c. snd e = File c)"

lemma unlink_child:
  assumes "lookup p fs = Some (Dir es)" "flat es" "x \<in> fst ` set es"
  shows "\<exists>fs'. fs_unlink (p @ [x]) fs = Inr fs' \<and> lookup p fs' = Some (Dir (filter (\<lambda>e. fst e \<noteq> x) es))
    \<and> (\<forall>q. apart (p @ [x]) q \<longrightarrow> lookup q fs' = lookup q fs)"
proof -
  obtain m where m: "map_of es x = Some m" using assms(3) by (metis map_of_eq_None_iff not_None_eq)
  then have "(x, m) \<in> set es" by (rule map_of_SomeD)
  with assms(2) obtain c where c: "m = File c" unfolding flat_def by fastforce
  have "\<not> fs_is_dir fs (p @ [x])" using lookup_child [OF assms(1)] m c by (simp add: fs_is_dir_def)
  moreover have "dict_has es x" using m by (simp add: dict_has_def)
  ultimately show ?thesis
    using del_child [OF assms(1), of x] by (auto simp: fs_unlink_def intro: lookup_del_apart)
qed

lemma flat_filter [simp]: "flat es \<Longrightarrow> flat (filter P es)"
  by (auto simp: flat_def distinct_map_filter)

lemma apart_child: "apart p q \<Longrightarrow> apart (p @ [x]) q"
  by (auto simp: apart_def prefix_def append_eq_append_conv2 append_eq_Cons_conv)

lemma remove_all:
  "\<lbrakk>lookup p fs = Some (Dir es); flat es; distinct xs; set xs \<subseteq> fst ` set es\<rbrakk> \<Longrightarrow>
   \<exists>fs'. rfold pf_remove (map (\<lambda>x. p @ [x]) xs) fs = Inr fs'
     \<and> lookup p fs' = Some (Dir (filter (\<lambda>e. fst e \<notin> set xs) es))
     \<and> (\<forall>q. apart p q \<longrightarrow> lookup q fs' = lookup q fs)"
proof (induction xs arbitrary: fs es)
  case (Cons x xs)
  then obtain f1 where f1: "fs_unlink (p @ [x]) fs = Inr f1"
    "lookup p f1 = Some (Dir (filter (\<lambda>e. fst e \<noteq> x) es))"
    "\<forall>q. apart (p @ [x]) q \<longrightarrow> lookup q f1 = lookup q fs"
    using unlink_child [of p fs es x] by auto
  have "set xs \<subseteq> fst ` set (filter (\<lambda>e. fst e \<noteq> x) es)" using Cons.prems by force
  from Cons.IH [OF f1(2) _ _ this] Cons.prems obtain f2
    where f2: "rfold pf_remove (map (\<lambda>x. p @ [x]) xs) f1 = Inr f2"
      "lookup p f2 = Some (Dir (filter (\<lambda>e. fst e \<notin> set xs) (filter (\<lambda>e. fst e \<noteq> x) es)))"
      "\<forall>q. apart p q \<longrightarrow> lookup q f2 = lookup q f1" by auto
  have "pf_remove (p @ [x]) fs = Inr f1" using f1(1) by (simp add: pf_remove_def)
  then show ?case
    using f1(3) f2 by (intro exI [of _ f2]) (auto simp: apart_child conj_commute)
qed simp

text \<open>A subdirectory of patches is missing, or a directory of files.\<close>

definition sub_entries :: "node \<Rightarrow> path \<Rightarrow> (string \<times> node) list" where
  "sub_entries fs p = (case lookup p fs of Some (Dir es) \<Rightarrow> es | _ \<Rightarrow> [])"

definition sub_ok :: "node \<Rightarrow> path \<Rightarrow> bool" where
  "sub_ok fs p \<longleftrightarrow> (case lookup p fs of None \<Rightarrow> True | Some (File _) \<Rightarrow> False | Some (Dir es) \<Rightarrow> flat es)"

definition sub_clear :: "node \<Rightarrow> path \<Rightarrow> bool" where
  "sub_clear fs p \<longleftrightarrow> lookup p fs = None \<or> lookup p fs = Some (Dir [])"

lemma parent_dir: "lookup (q @ [x]) fs = Some m \<Longrightarrow> fs_is_dir fs q"
  by (auto simp: lookup_append fs_is_dir_lookup split: option.splits elim: lookup.elims)

lemma subdir_clean_clear:
  assumes "sub_ok (gs_fs s) sub"
  shows "\<exists>fs. subdir_clean sub s = (Inr (), s\<lparr>gs_fs := fs\<rparr>) \<and> sub_clear fs sub
    \<and> (\<forall>q. apart sub q \<longrightarrow> lookup q fs = lookup q (gs_fs s))
    \<and> (\<forall>q x. sub = q @ [x] \<longrightarrow> fs_is_dir (gs_fs s) q \<longrightarrow> fs_is_dir fs q)"
proof (cases "lookup sub (gs_fs s)")
  case None
  then show ?thesis
    by (intro exI [of _ "gs_fs s"]) (simp add: subdir_clean_def fs_exists_def sret_def sub_clear_def)
next
  case (Some n)
  with assms obtain es where es: "lookup sub (gs_fs s) = Some (Dir es)" "flat es"
    by (auto simp: sub_ok_def split: node.splits)
  let ?xs = "sort (map fst es)"
  have "distinct ?xs" "set ?xs \<subseteq> fst ` set es" using es(2) by (auto simp: flat_def)
  from remove_all [OF es this] obtain fs where fs:
    "rfold pf_remove (map (\<lambda>x. sub @ [x]) ?xs) (gs_fs s) = Inr fs"
    "lookup sub fs = Some (Dir (filter (\<lambda>e. fst e \<notin> set ?xs) es))"
    "\<forall>q. apart sub q \<longrightarrow> lookup q fs = lookup q (gs_fs s)" by blast
  have "filter (\<lambda>e. fst e \<notin> set ?xs) es = []" by (simp add: filter_empty_conv)
  with fs(2) have "sub_clear fs sub" by (simp add: sub_clear_def)
  moreover have "subdir_clean sub s = (Inr (), s\<lparr>gs_fs := fs\<rparr>)"
    using sfor_git_fs [OF fs(1)] es
    by (simp add: subdir_clean_def fs_exists_def ask_fs_def sbind_def subdir_patches_def fs_iterdir_def)
  moreover have "fs_is_dir fs q" if "sub = q @ [x]" for q x
    using fs(2) that by (auto intro: parent_dir)
  ultimately show ?thesis using fs(3) by blast
qed

section \<open>The layout of the patches of an artifact\<close>

text \<open>The version is the name of one directory, other than the generic one.\<close>

definition version_name :: "string \<Rightarrow> bool" where
  "version_name v \<longleftrightarrow> CHR ''/'' \<notin> set v \<and> v \<notin> {[], ''.'', ''generic''}"

lemma joinpath_consts [simp]:
  "joinpath p ''generic'' = p @ [''generic'']" "joinpath p ''patches'' = p @ [''patches'']"
  by (simp_all add: joinpath_name)

lemma subdirs_of:
  "version_name (pd_version d) \<Longrightarrow>
     generic_subdir d = pd_path d @ [''generic''] \<and> version_subdir d = pd_path d @ [pd_version d]"
  by (simp add: generic_subdir_def version_subdir_def version_name_def joinpath_name)

text \<open>What the export needs of the file system: the patches have a directory, with the
  generic and the version's subdirectories, or can have one.\<close>

definition layout_ok :: "patches_dir \<Rightarrow> node \<Rightarrow> bool" where
  "layout_ok d fs \<longleftrightarrow> fs_is_dir fs (pd_path d) \<and> version_name (pd_version d)
     \<and> sub_ok fs (generic_subdir d) \<and> sub_ok fs (version_subdir d)"

lemma layout_clean:
  assumes "layout_ok d (gs_fs s)"
  shows "\<exists>fs. sfor subdir_clean (pd_subdirs d) s = (Inr (), s\<lparr>gs_fs := fs\<rparr>) \<and> fs_is_dir fs (pd_path d)
    \<and> sub_clear fs (generic_subdir d) \<and> sub_clear fs (version_subdir d)
    \<and> (\<forall>q. apart (pd_path d) q \<longrightarrow> lookup q fs = lookup q (gs_fs s))"
proof -
  let ?g = "pd_path d @ [''generic'']" and ?v = "pd_path d @ [pd_version d]"
  have v: "version_name (pd_version d)" using assms by (simp add: layout_ok_def)
  note sub = subdirs_of [OF v]
  have ap: "apart ?g ?v" using v by (auto simp: version_name_def)
  obtain f1 where f1: "subdir_clean ?g s = (Inr (), s\<lparr>gs_fs := f1\<rparr>)" "sub_clear f1 ?g"
    "\<forall>q. apart ?g q \<longrightarrow> lookup q f1 = lookup q (gs_fs s)" "fs_is_dir f1 (pd_path d)"
    using subdir_clean_clear [of s ?g] assms sub unfolding layout_ok_def by auto
  have "lookup ?v f1 = lookup ?v (gs_fs s)" using f1(3) ap by blast
  with assms sub have "sub_ok f1 ?v" unfolding layout_ok_def sub_ok_def by auto
  then obtain f2 where f2: "subdir_clean ?v (s\<lparr>gs_fs := f1\<rparr>) = (Inr (), s\<lparr>gs_fs := f2\<rparr>)" "sub_clear f2 ?v"
    "\<forall>q. apart ?v q \<longrightarrow> lookup q f2 = lookup q f1" "fs_is_dir f2 (pd_path d)"
    using f1(4) subdir_clean_clear [of "s\<lparr>gs_fs := f1\<rparr>" ?v] by auto
  have "lookup ?g f2 = lookup ?g f1" using f2(3) ap apart_sym by blast
  with f1(2) have "sub_clear f2 ?g" by (simp add: sub_clear_def)
  moreover have "\<forall>q. apart (pd_path d) q \<longrightarrow> lookup q f2 = lookup q (gs_fs s)"
    using f1(3) f2(3) apart_child by fastforce
  ultimately show ?thesis
    using f1(1) f2(1,2,4) sub by (auto simp: pd_subdirs_def sbind_apply sret_def)
qed

section \<open>An export that fails\<close>

lemma length_split_max_count: "length (split_max c n s) \<le> Suc (length (filter (\<lambda>x. x = c) s))"
proof (induction s arbitrary: n)
  case (Cons x s)
  show ?case
  proof (cases "x = c \<and> n \<noteq> 0")
    case True
    then obtain k where "n = Suc k" by (cases n) auto
    with True Cons [of k] show ?thesis by simp
  next
    case False
    then show ?thesis using Cons [of n] by (cases n; cases "split_max c n s") auto
  qed
qed simp

lemma parse_meta_error: "parse_commit_meta G c = Inl e \<Longrightarrow> e = IndexErr"
  by (auto simp: parse_commit_meta_def rmap_def list_item_def split: if_splits)

lemma parse_meta_short: "count_char CHR 0x0A (cm_message c) < 2 \<Longrightarrow> parse_commit_meta G c = Inl IndexErr"
  using length_split_max_count [of "CHR 0x0A" 2 "cm_message c"]
  by (simp add: parse_commit_meta_def list_item_def count_char_def)

lemma count_commits_short:
  "post \<noteq> [] \<Longrightarrow> count_char CHR 0x0A (cm_message c) < 2 \<Longrightarrow>
     count_commits G (pre @ c # post) n = Inl IndexErr"
proof (induction pre arbitrary: n)
  case Nil
  then show ?case by (cases post; cases n) (simp_all add: parse_meta_short)
next
  case (Cons x pre)
  obtain y ys where y: "pre @ c # post = y # ys" by (cases pre) auto
  show ?case
  proof (cases "parse_commit_meta G x")
    case (Inl e)
    with parse_meta_error [OF this] y show ?thesis by (cases n) simp
  next
    case (Inr m)
    with Cons y show ?thesis by (cases n) simp
  qed
qed

section \<open>Entries of the queue\<close>

text \<open>What a commit of the queue carries: its author, its title, the fields of its
  metadata and whether it is generic.\<close>

record queue_entry =
  qe_author :: string
  qe_email :: string
  qe_title :: string
  qe_meta :: deb822
  qe_generic :: bool

definition entry_meta :: "queue_entry \<Rightarrow> deb822" where
  "entry_meta e = qe_meta e @ (if qe_generic e then [(''Generic'', ''yes'')] else [])"

definition file_meta :: "queue_entry \<Rightarrow> deb822" where
  "file_meta e = qe_meta e @ [(''Author'', qe_author e @ '' <'' @ qe_email e @ ''>'')]"

definition carries :: "git_libs \<Rightarrow> queue_entry \<Rightarrow> commit \<Rightarrow> bool" where
  "carries G e c \<longleftrightarrow> cm_author c = qe_author e \<and> cm_email c = qe_email e
     \<and> cm_message c = qe_title e @ [CHR 0x0A, CHR 0x0A] @ gl_dump G (entry_meta e)"

definition one_line :: "string \<Rightarrow> bool" where
  "one_line s \<longleftrightarrow> s \<noteq> [] \<and> CHR 0x0A \<notin> set s"

definition entry_ok :: "git_libs \<Rightarrow> queue_entry \<Rightarrow> bool" where
  "entry_ok G e \<longleftrightarrow> CHR ''/'' \<notin> set (qe_title e) \<and> CHR 0x0A \<notin> set (qe_title e)
     \<and> one_line (qe_author e) \<and> one_line (qe_email e) \<and> CHR ''<'' \<notin> set (qe_email e)
     \<and> (\<forall>k \<in> {''Author'', ''From'', ''Generic''}. d822_get (qe_meta e) k = None)
     \<and> gl_parse G (gl_dump G (entry_meta e)) = entry_meta e
     \<and> (\<forall>txt. gl_parse G (gl_dump G (file_meta e) @ [CHR 0x0A, CHR 0x0A] @ txt) = file_meta e)"

lemma d822_append:
  "d822_get m k = None \<Longrightarrow> d822_get (m @ n) k = d822_get n k"
  "d822_get m k = None \<Longrightarrow> d822_set (m @ n) k v = m @ d822_set n k v"
  "d822_get m k = None \<Longrightarrow> d822_del (m @ n) k = m @ d822_del n k"
  by (induction m k rule: d822_get.induct) (auto split: if_splits)

lemma same_field_consts [simp]:
  "same_field k k" "\<not> same_field ''Generic'' ''Author''" "\<not> same_field ''Author'' ''Generic''"
  "\<not> same_field ''Author'' ''From''" "\<not> same_field ''Generic'' ''From''"
  by (simp_all add: same_field_def lower_char_def)

lemma entry_generic: "entry_ok G e \<Longrightarrow> is_meta_generic (entry_meta e) = qe_generic e"
  by (simp add: entry_ok_def is_meta_generic_def entry_meta_def d822_append)

lemma export_meta_entry: "entry_ok G e \<Longrightarrow> carries G e c \<Longrightarrow> export_meta c (entry_meta e) = file_meta e"
  by (simp add: entry_ok_def carries_def export_meta_def entry_meta_def file_meta_def d822_append)

lemma carried_message:
  assumes "entry_ok G e" "carries G e c"
  shows "parse_commit_meta G c = Inr (entry_meta e)" "hd (split_on CHR 0x0A (cm_message c)) = qe_title e"
proof -
  let ?b = "gl_dump G (entry_meta e)"
  have m: "cm_message c = qe_title e @ CHR 0x0A # (CHR 0x0A # ?b)" and t: "CHR 0x0A \<notin> set (qe_title e)"
    using assms by (auto simp: carries_def entry_ok_def)
  have "split_max CHR 0x0A 2 (cm_message c) = [qe_title e, [], ?b]"
    using split_max_append [OF t, of 1 "CHR 0x0A # ?b"] split_max_append [of "CHR 0x0A" "[]" 0 ?b]
    by (simp add: m numeral_2_eq_2)
  with assms(1) show "parse_commit_meta G c = Inr (entry_meta e)"
    by (simp add: parse_commit_meta_def list_item_def entry_ok_def)
  show "hd (split_on CHR 0x0A (cm_message c)) = qe_title e"
    using split_on_append [OF t, of "CHR 0x0A # ?b"] by (simp add: m)
qed

section \<open>The export writes the entries\<close>

definition patch_text :: "git_libs \<Rightarrow> queue_entry \<Rightarrow> commit \<Rightarrow> commit \<Rightarrow> string" where
  "patch_text G e parent c =
     gl_dump G (file_meta e) @ [CHR 0x0A, CHR 0x0A] @ gl_diff G (cm_tree parent) (cm_tree c)"

lemma put_new_child:
  assumes "lookup sub fs = Some (Dir es)" "n \<notin> fst ` set es"
  shows "\<exists>fs'. fs_write (sub @ [n]) txt fs = Inr fs' \<and> lookup sub fs' = Some (Dir (es @ [(n, File txt)]))"
proof -
  have no: "map_of es n = None" using assms(2) by (simp add: map_of_eq_None_iff)
  have "\<not> fs_is_dir fs (sub @ [n])" using lookup_child [OF assms(1), of n] no by (simp add: fs_is_dir_def)
  moreover have "dict_set es n m = es @ [(n, m)]" for m
    using assms(2) by (induction es n m rule: dict_set.induct) auto
  ultimately show ?thesis using put_child [OF assms(1), of n "File txt"] by (auto simp: fs_write_def)
qed

lemma flat_snoc: "flat es \<Longrightarrow> n \<notin> fst ` set es \<Longrightarrow> flat (es @ [(n, File txt)])"
  by (auto simp: flat_def)

text \<open>One patch: the subdirectory is made when it is missing, and gets one file more.\<close>

lemma export_one:
  assumes d: "fs_is_dir (gs_fs s) (pd_path d)" and sub: "sub = pd_path d @ [x]" and ok: "sub_ok (gs_fs s) sub"
    and new: "patch_name i (qe_title e) \<notin> fst ` set (sub_entries (gs_fs s) sub)"
    and e: "entry_ok G e" "carries G e c" and chg: "gl_diff G (cm_tree parent) (cm_tree c) \<noteq> []"
  shows "\<exists>fs. export_commit G d sub i parent c (entry_meta e) s = (Inr (), s\<lparr>gs_fs := fs\<rparr>)
    \<and> sub_entries fs sub = sub_entries (gs_fs s) sub @ [(patch_name i (qe_title e), File (patch_text G e parent c))]
    \<and> sub_ok fs sub \<and> fs_is_dir fs (pd_path d) \<and> (\<forall>q. apart sub q \<longrightarrow> lookup q fs = lookup q (gs_fs s))"
proof -
  let ?n = "patch_name i (qe_title e)"
  have ens: "git_fs (pd_ensure d) s = (Inr (), s)"
    using d git_fs_ok [of "pd_ensure d" s] by (auto simp: fs_is_dir_lookup pd_ensure_def fs_exists_def)
  have fl: "export_file sub i c = sub @ [?n]"
    using e carried_message(2) [OF e] joinpath_patch [of "qe_title e" sub i]
    by (simp add: export_file_def pf_create_def entry_ok_def patch_name_def)
  have "\<exists>f1 es. git_fs (\<lambda>fs. if fs_exists fs sub then Inr fs else fs_mkdir sub fs) s = (Inr (), s\<lparr>gs_fs := f1\<rparr>)
    \<and> lookup sub f1 = Some (Dir es) \<and> es = sub_entries (gs_fs s) sub \<and> flat es
    \<and> (\<forall>q. apart sub q \<longrightarrow> lookup q f1 = lookup q (gs_fs s))"
  proof (cases "lookup sub (gs_fs s)")
    case None
    from d obtain ds where "lookup (pd_path d) (gs_fs s) = Some (Dir ds)" by (auto simp: fs_is_dir_lookup)
    from put_child [OF this, of x "Dir []"] obtain f1 where f1: "put sub (Dir []) (gs_fs s) = Inr f1"
      using sub by blast
    with None lookup_put_same [OF f1] show ?thesis
      by (intro exI [of _ f1] exI [of _ "[]"])
        (auto simp: git_fs_ok fs_mkdir_def fs_exists_def sub_entries_def flat_def intro: lookup_put_apart)
  next
    case (Some m)
    with ok obtain es where "lookup sub (gs_fs s) = Some (Dir es)" "flat es"
      by (auto simp: sub_ok_def split: node.splits)
    then show ?thesis
      by (intro exI [of _ "gs_fs s"] exI [of _ es]) (simp add: git_fs_ok fs_exists_def sub_entries_def)
  qed
  then obtain f1 es where f1: "git_fs (\<lambda>fs. if fs_exists fs sub then Inr fs else fs_mkdir sub fs) s = (Inr (), s\<lparr>gs_fs := f1\<rparr>)"
    "lookup sub f1 = Some (Dir es)" "es = sub_entries (gs_fs s) sub" "flat es"
    "\<forall>q. apart sub q \<longrightarrow> lookup q f1 = lookup q (gs_fs s)" by blast
  with new have "?n \<notin> fst ` set es" by simp
  from put_new_child [OF f1(2) this] obtain f2 where f2: "fs_write (sub @ [?n]) (patch_text G e parent c) f1 = Inr f2"
    "lookup sub f2 = Some (Dir (es @ [(?n, File (patch_text G e parent c))]))" by blast
  have "export_commit G d sub i parent c (entry_meta e) s = (Inr (), s\<lparr>gs_fs := f2\<rparr>)"
    using chg ens f1(1) git_fs_ok [of "fs_write (sub @ [?n]) (patch_text G e parent c)" "s\<lparr>gs_fs := f1\<rparr>"] f2(1)
    by (simp add: export_commit_def swhen_def subdir_ensure_def sbind_apply fl pf_write_def
        export_meta_entry [OF e] patch_text_def)
  moreover have "\<forall>q. apart sub q \<longrightarrow> lookup q f2 = lookup q (gs_fs s)"
    using f1(5) lookup_put_apart [OF write_Inr_put [OF f2(1)]] apart_child by auto
  moreover have "sub_ok f2 sub" using f2(2) flat_snoc [OF f1(4) \<open>?n \<notin> fst ` set es\<close>] by (simp add: sub_ok_def)
  moreover have "fs_is_dir f2 (pd_path d)" using f2(2) sub by (auto intro: parent_dir)
  ultimately show ?thesis using f2(2) f1(3) by (intro exI [of _ f2]) (simp add: sub_entries_def)
qed

definition count_kind :: "bool \<Rightarrow> queue_entry list \<Rightarrow> nat" where
  "count_kind k es = length (filter (\<lambda>e. qe_generic e = k) es)"

definition kind_sub :: "patches_dir \<Rightarrow> bool \<Rightarrow> path" where
  "kind_sub d k = pd_path d @ [if k then ''generic'' else pd_version d]"

text \<open>The files of one kind for the commits from the newest: the last index comes first.\<close>

fun queue_files :: "git_libs \<Rightarrow> bool \<Rightarrow> queue_entry list \<Rightarrow> commit list \<Rightarrow> (string \<times> node) list" where
  "queue_files G k (e # es) (c # parent # cs) =
     (if qe_generic e = k
      then [(patch_name (Suc (count_kind k es)) (qe_title e), File (patch_text G e parent c))] else [])
     @ queue_files G k es (parent # cs)"
| "queue_files G k _ _ = []"

fun changes :: "git_libs \<Rightarrow> commit list \<Rightarrow> bool" where
  "changes G (c # parent # cs) \<longleftrightarrow> gl_diff G (cm_tree parent) (cm_tree c) \<noteq> [] \<and> changes G (parent # cs)"
| "changes G _ \<longleftrightarrow> True"

lemma patch_name_inject [simp]: "patch_name i t = patch_name j u \<longleftrightarrow> i = j \<and> t = u"
proof
  assume "patch_name i t = patch_name j u"
  then have "[pad4 i, t] = [pad4 j, u]" using patch_name_title by metis
  then have "pad4 i = pad4 j" "t = u" by auto
  then show "i = j \<and> t = u" using digits_val_pad4 by metis
qed simp

text \<open>The names that a subdirectory holds already have larger indices than those to come.\<close>

definition above :: "node \<Rightarrow> path \<Rightarrow> nat \<Rightarrow> bool" where
  "above fs p n \<longleftrightarrow> (\<forall>x \<in> fst ` set (sub_entries fs p). \<exists>j t. x = patch_name j t \<and> n < j)"

lemma above_mono: "above fs p n \<Longrightarrow> m \<le> n \<Longrightarrow> above fs p m"
  unfolding above_def by fastforce

definition export_ok :: "patches_dir \<Rightarrow> queue_entry list \<Rightarrow> node \<Rightarrow> bool" where
  "export_ok d es fs \<longleftrightarrow> fs_is_dir fs (pd_path d)
     \<and> (\<forall>k. sub_ok fs (kind_sub d k) \<and> above fs (kind_sub d k) (count_kind k es))"

lemma kind_sub_apart: "version_name (pd_version d) \<Longrightarrow> apart (kind_sub d k) (kind_sub d (\<not> k))"
  by (cases k) (auto simp: kind_sub_def version_name_def)

lemma lookup_entries:
  "lookup p fs = lookup p fs' \<Longrightarrow> sub_entries fs p = sub_entries fs' p \<and> sub_ok fs p = sub_ok fs' p \<and> above fs p n = above fs' p n"
  by (simp add: sub_entries_def sub_ok_def above_def)

text \<open>One step of the loop keeps what the next step needs.\<close>

lemma export_step:
  assumes v: "version_name (pd_version d)" and ok: "export_ok d (e # es) (gs_fs s)"
    and e: "entry_ok G e" "carries G e c" and chg: "gl_diff G (cm_tree parent) (cm_tree c) \<noteq> []"
  defines "k \<equiv> qe_generic e"
  shows "\<exists>fs. export_commit G d (kind_sub d k) (Suc (count_kind k es)) parent c (entry_meta e) s = (Inr (), s\<lparr>gs_fs := fs\<rparr>)
    \<and> export_ok d es fs
    \<and> sub_entries fs (kind_sub d k) = sub_entries (gs_fs s) (kind_sub d k)
        @ [(patch_name (Suc (count_kind k es)) (qe_title e), File (patch_text G e parent c))]
    \<and> sub_entries fs (kind_sub d (\<not> k)) = sub_entries (gs_fs s) (kind_sub d (\<not> k))
    \<and> (\<forall>q. apart (pd_path d) q \<longrightarrow> lookup q fs = lookup q (gs_fs s))"
proof -
  let ?n = "patch_name (Suc (count_kind k es)) (qe_title e)"
  have cnt: "count_kind k (e # es) = Suc (count_kind k es)" "count_kind (\<not> k) (e # es) = count_kind (\<not> k) es"
    by (simp_all add: count_kind_def k_def)
  have dir: "fs_is_dir (gs_fs s) (pd_path d)" and subs: "\<And>k. sub_ok (gs_fs s) (kind_sub d k)"
    and ab: "\<And>k. above (gs_fs s) (kind_sub d k) (count_kind k (e # es))"
    using ok by (simp_all add: export_ok_def)
  have new: "?n \<notin> fst ` set (sub_entries (gs_fs s) (kind_sub d k))"
    using ab [of k] cnt(1) unfolding above_def by fastforce
  obtain x where x: "kind_sub d k = pd_path d @ [x]" by (simp add: kind_sub_def)
  from export_one [OF dir x subs new e chg] obtain fs where fs:
    "export_commit G d (kind_sub d k) (Suc (count_kind k es)) parent c (entry_meta e) s = (Inr (), s\<lparr>gs_fs := fs\<rparr>)"
    "sub_entries fs (kind_sub d k) = sub_entries (gs_fs s) (kind_sub d k) @ [(?n, File (patch_text G e parent c))]"
    "sub_ok fs (kind_sub d k)" "fs_is_dir fs (pd_path d)"
    "\<forall>q. apart (kind_sub d k) q \<longrightarrow> lookup q fs = lookup q (gs_fs s)" by blast
  have other: "lookup (kind_sub d (\<not> k)) fs = lookup (kind_sub d (\<not> k)) (gs_fs s)"
    using fs(5) kind_sub_apart [OF v] by blast
  note oth = lookup_entries [OF other]
  have "above fs (kind_sub d k) (count_kind k es)"
    using ab [of k] cnt(1) fs(2) by (fastforce simp: above_def)
  then have "sub_ok fs (kind_sub d j) \<and> above fs (kind_sub d j) (count_kind j es)" for j
    using oth subs [of "\<not> k"] ab [of "\<not> k"] cnt(2) fs(3) by (cases "j = k") auto
  with fs(4) have "export_ok d es fs" by (simp add: export_ok_def)
  moreover have "\<forall>q. apart (pd_path d) q \<longrightarrow> lookup q fs = lookup q (gs_fs s)"
    using fs(5) x apart_child by auto
  ultimately show ?thesis using fs(1,2) oth by blast
qed

lemma export_all:
  "\<lbrakk>list_all (entry_ok G) es; list_all2 (carries G) es cs; changes G (cs @ [root]); version_name (pd_version d);
    export_ok d es (gs_fs s)\<rbrakk> \<Longrightarrow>
   \<exists>fs. export_commits G d (cs @ [root]) (count_kind True es, count_kind False es) s = (Inr (), s\<lparr>gs_fs := fs\<rparr>)
     \<and> export_ok d [] fs
     \<and> (\<forall>k. sub_entries fs (kind_sub d k) = sub_entries (gs_fs s) (kind_sub d k) @ queue_files G k es (cs @ [root]))
     \<and> (\<forall>q. apart (pd_path d) q \<longrightarrow> lookup q fs = lookup q (gs_fs s))"
proof (induction es arbitrary: cs s)
  case Nil
  then show ?case by (intro exI [of _ "gs_fs s"]) (simp add: sret_def)
next
  case (Cons e es)
  then obtain c cs' where cs: "cs = c # cs'" "carries G e c" "list_all2 (carries G) es cs'"
    by (auto simp: list_all2_Cons1)
  obtain parent more where pm: "cs' @ [root] = parent # more" by (cases cs') auto
  have e: "entry_ok G e" and es: "list_all (entry_ok G) es" using Cons.prems by auto
  have chg: "gl_diff G (cm_tree parent) (cm_tree c) \<noteq> []" "changes G (cs' @ [root])"
    using Cons.prems(3) cs(1) pm by auto
  let ?k = "qe_generic e"
  obtain f1 where f1:
    "export_commit G d (kind_sub d ?k) (Suc (count_kind ?k es)) parent c (entry_meta e) s = (Inr (), s\<lparr>gs_fs := f1\<rparr>)"
    "export_ok d es f1"
    "sub_entries f1 (kind_sub d ?k) = sub_entries (gs_fs s) (kind_sub d ?k)
        @ [(patch_name (Suc (count_kind ?k es)) (qe_title e), File (patch_text G e parent c))]"
    "sub_entries f1 (kind_sub d (\<not> ?k)) = sub_entries (gs_fs s) (kind_sub d (\<not> ?k))"
    "\<forall>q. apart (pd_path d) q \<longrightarrow> lookup q f1 = lookup q (gs_fs s)"
    using export_step [OF Cons.prems(4,5) e cs(2) chg(1)] by blast
  from Cons.IH [OF es cs(3) chg(2) Cons.prems(4), of "s\<lparr>gs_fs := f1\<rparr>"] f1(2) obtain f2 where f2:
    "export_commits G d (cs' @ [root]) (count_kind True es, count_kind False es) (s\<lparr>gs_fs := f1\<rparr>) = (Inr (), s\<lparr>gs_fs := f2\<rparr>)"
    "export_ok d [] f2"
    "\<forall>k. sub_entries f2 (kind_sub d k) = sub_entries f1 (kind_sub d k) @ queue_files G k es (cs' @ [root])"
    "\<forall>q. apart (pd_path d) q \<longrightarrow> lookup q f2 = lookup q f1" by auto
  have "export_commits G d (cs @ [root]) (count_kind True (e # es), count_kind False (e # es)) s = (Inr (), s\<lparr>gs_fs := f2\<rparr>)"
    using f1(1) f2(1) carried_message(1) [OF e cs(2)] entry_generic [OF e] subdirs_of [OF Cons.prems(4)]
    by (cases "qe_generic e") (simp_all add: cs(1) pm sbind_apply slift_def count_kind_def kind_sub_def)
  moreover have "sub_entries f2 (kind_sub d j) = sub_entries (gs_fs s) (kind_sub d j) @ queue_files G j (e # es) (cs @ [root])" for j
    using f1(3,4) f2(3) by (cases "j = ?k") (auto simp: cs(1) pm)
  ultimately show ?case using f1(5) f2(2,4) by auto
qed

lemma count_commits_entries:
  "list_all (entry_ok G) es \<Longrightarrow> list_all2 (carries G) es cs \<Longrightarrow>
     count_commits G (cs @ [root]) (i, j) = Inr (i + count_kind True es, j + count_kind False es)"
proof (induction es arbitrary: cs i j)
  case (Cons e es)
  then obtain c cs' where cs: "cs = c # cs'" "carries G e c" "list_all2 (carries G) es cs'"
    by (auto simp: list_all2_Cons1)
  obtain parent more where pm: "cs' @ [root] = parent # more" by (cases cs') auto
  have e: "entry_ok G e" "list_all (entry_ok G) es" using Cons.prems by auto
  note IH = Cons.IH [OF e(2) cs(3)]
  show ?case
    using IH [of "i + 1" j] IH [of i "j + 1"] carried_message(1) [OF e(1) cs(2)] entry_generic [OF e(1)]
    by (simp add: cs(1) pm count_kind_def)
qed (simp add: count_kind_def)

lemma export_queue_files:
  assumes "list_all (entry_ok G) es" "list_all2 (carries G) es cs" "changes G (cs @ [root])"
    and lay: "layout_ok d (gs_fs s)" and cm: "gs_commits s = cs @ [root]"
  shows "\<exists>fs. export_queue G d s = (Inr (), s\<lparr>gs_fs := fs\<rparr>)
    \<and> (\<forall>k. sub_ok fs (kind_sub d k) \<and> sub_entries fs (kind_sub d k) = queue_files G k es (cs @ [root]))
    \<and> (\<forall>q. apart (pd_path d) q \<longrightarrow> lookup q fs = lookup q (gs_fs s))"
proof -
  have v: "version_name (pd_version d)" using lay by (simp add: layout_ok_def)
  have en: "git_fs (pd_ensure d) s = (Inr (), s)"
    using lay git_fs_ok [of "pd_ensure d" s]
    by (auto simp: layout_ok_def fs_is_dir_lookup pd_ensure_def fs_exists_def)
  obtain f1 where f1: "sfor subdir_clean (pd_subdirs d) s = (Inr (), s\<lparr>gs_fs := f1\<rparr>)" "fs_is_dir f1 (pd_path d)"
    "sub_clear f1 (generic_subdir d)" "sub_clear f1 (version_subdir d)"
    "\<forall>q. apart (pd_path d) q \<longrightarrow> lookup q f1 = lookup q (gs_fs s)"
    using layout_clean [OF lay] by blast
  have clear: "sub_clear f1 (kind_sub d k)" for k
    using f1(3,4) subdirs_of [OF v] by (simp add: kind_sub_def)
  have "sub_entries f1 (kind_sub d k) = [] \<and> sub_ok f1 (kind_sub d k)" for k
    using clear [of k] by (auto simp: sub_clear_def sub_entries_def sub_ok_def flat_def)
  then have none: "\<And>k. sub_entries f1 (kind_sub d k) = []" and ok: "export_ok d es f1"
    using f1(2) by (simp_all add: export_ok_def above_def)
  obtain f2 where f2:
    "export_commits G d (cs @ [root]) (count_kind True es, count_kind False es) (s\<lparr>gs_fs := f1\<rparr>) = (Inr (), s\<lparr>gs_fs := f2\<rparr>)"
    "export_ok d [] f2"
    "\<forall>k. sub_entries f2 (kind_sub d k) = sub_entries f1 (kind_sub d k) @ queue_files G k es (cs @ [root])"
    "\<forall>q. apart (pd_path d) q \<longrightarrow> lookup q f2 = lookup q f1"
    using export_all [OF assms(1-3) v, of "s\<lparr>gs_fs := f1\<rparr>"] ok by auto
  have "export_queue G d s = (Inr (), s\<lparr>gs_fs := f2\<rparr>)"
    using en f1(1) f2(1) count_commits_entries [OF assms(1,2), of root 0 0] cm
    by (simp add: export_queue_def sbind_apply)
  with f2(2,3,4) f1(5) none show ?thesis by (auto simp: export_ok_def)
qed

end
