(* ===== verification/GitRoundtrip.thy ===== *)
theory GitRoundtrip imports GitQueue begin

text \<open>
  The patches that \<^verbatim>\<open>export_queue\<close> writes, read again by \<^verbatim>\<open>import_patches\<close>: the
  author's regular expression takes back what the export put together, the sorted names
  are the order of the commits, and the queue of the new repository carries the same
  entries, the generic ones first.
\<close>

section \<open>The order of the files\<close>

definition file_of :: "git_libs \<Rightarrow> queue_entry \<Rightarrow> string \<times> node \<Rightarrow> bool" where
  "file_of G e f \<longleftrightarrow> (\<exists>i rest. fst f = patch_name i (qe_title e)
     \<and> snd f = File (gl_dump G (file_meta e) @ [CHR 0x0A, CHR 0x0A] @ rest))"

lemma queue_files_bound:
  "x \<in> fst ` set (queue_files G k es cs) \<Longrightarrow> \<exists>i t. x = patch_name i t \<and> i \<le> count_kind k es"
proof (induction G k es cs rule: queue_files.induct)
  case (1 G k e es c parent cs)
  have le: "count_kind k es \<le> count_kind k (e # es)" by (simp add: count_kind_def)
  consider "qe_generic e = k" "x = patch_name (Suc (count_kind k es)) (qe_title e)"
    | "x \<in> fst ` set (queue_files G k es (parent # cs))" using 1 by (auto split: if_splits)
  then show ?case
  proof cases
    case 1
    then have "count_kind k (e # es) = Suc (count_kind k es)" by (simp add: count_kind_def)
    with 1 show ?thesis by auto
  next
    case 2
    with "1.IH" le show ?thesis by (meson order_trans)
  qed
qed auto

lemma queue_files_sorted:
  "count_kind k es \<le> 9999 \<Longrightarrow> sorted_wrt (\<lambda>x y. y < x) (map fst (queue_files G k es cs))"
proof (induction G k es cs rule: queue_files.induct)
  case (1 G k e es c parent cs)
  let ?F = "queue_files G k es (parent # cs)"
  have "count_kind k es \<le> count_kind k (e # es)" by (simp add: count_kind_def)
  with 1 have IH: "sorted_wrt (\<lambda>x y. y < x) (map fst ?F)" by simp
  show ?case
  proof (cases "qe_generic e = k")
    case True
    then have n: "Suc (count_kind k es) \<le> 9999" using "1.prems" by (simp add: count_kind_def)
    have "y < patch_name (Suc (count_kind k es)) (qe_title e)" if "y \<in> fst ` set ?F" for y
    proof -
      from queue_files_bound [OF that] obtain i t where "y = patch_name i t" "i \<le> count_kind k es" by blast
      with n patch_name_less [of i "Suc (count_kind k es)"] show ?thesis by simp
    qed
    with True IH show ?thesis by auto
  next
    case False
    with IH show ?thesis by simp
  qed
qed auto

lemma sort_descending:
  fixes xs :: "'a::linorder list"
  assumes "sorted_wrt (\<lambda>x y. y < x) xs"
  shows "sort xs = rev xs"
proof -
  have "sorted_wrt (\<lambda>x y. y \<le> x) xs" by (rule sorted_wrt_mono_rel [OF _ assms]) auto
  then have "sorted (rev xs)" by (simp add: sorted_wrt_rev)
  moreover have "distinct xs" using assms by (induction xs) auto
  ultimately show ?thesis by (intro sorted_distinct_set_unique) simp_all
qed

lemma queue_files_entries:
  "length es = length cs \<Longrightarrow>
     list_all2 (file_of G) (filter (\<lambda>e. qe_generic e = k) es) (queue_files G k es (cs @ [root]))"
proof (induction es arbitrary: cs)
  case (Cons e es)
  then obtain c cs' where cs: "cs = c # cs'" "length es = length cs'" by (cases cs) auto
  obtain parent more where pm: "cs' @ [root] = parent # more" by (cases cs') auto
  have "list_all2 (file_of G) (filter (\<lambda>e. qe_generic e = k) es) (queue_files G k es (parent # more))"
    using Cons.IH [OF cs(2)] pm by simp
  moreover have "file_of G e (patch_name i (qe_title e), File (patch_text G e parent c))" for i
    by (simp add: file_of_def patch_text_def)
  ultimately show ?case by (simp add: cs(1) pm)
qed simp

section \<open>One patch\<close>

lemma rx_dot_line: "one_line a \<Longrightarrow> list_all rx_dot a"
  by (auto simp: one_line_def list_all_iff rx_dot_def)

lemma author_match:
  assumes a: "one_line a" and m: "one_line m" "CHR ''<'' \<notin> set m"
  shows "re_match AUTHOR_REGEX (a @ '' <'' @ m @ ''>'') = Some [(''email'', m), (''author'', a)]"
proof -
  let ?t = "'' <'' @ m @ ''>''" and ?s = "a @ '' <'' @ m @ ''>''"
  let ?r = "RSeq (Lit '' <'') (RSeq (Grp ''email'' (Plus rx_dot)) (Lit ''>''))"
  let ?h = "\<lambda>s'. [(''author'', take (length ?s - length s') ?s)]"
  have a': "list_all rx_dot a" "a \<noteq> []" and m': "list_all rx_dot m" "m \<noteq> []"
    using a m by (auto simp: rx_dot_line one_line_def)
  have t: "list_all rx_dot ?t" using m' by (simp add: rx_dot_def)
  obtain xs where xs: "runs rx_dot a = xs @ [[]]" using runs_last [OF a'] by blast
  have skip: "rx ?r (?h s', s') = []" if "s' \<in> set (runs rx_dot ?t)" for s'
  proof -
    from runs_suffix [OF that] obtain p where p: "p \<noteq> []" "?t = p @ s'" by blast
    have "\<not> startswith s' '' <''"
    proof
      assume "startswith s' '' <''"
      then obtain w where "s' = '' <'' @ w" by (auto simp: startswith_iff)
      with p have "CHR ''<'' \<in> set (drop 2 ?t)" by (cases p; cases "tl p") auto
      with m(2) show False by simp
    qed
    then show ?thesis by simp
  qed
  have "rev (runs rx_dot ?s) = rev (runs rx_dot ?t) @ ?t # rev (map (\<lambda>r. r @ ?t) xs)"
    by (simp only: runs_all [OF a'(1)] xs) simp
  moreover have "concat (map (\<lambda>s'. rx ?r (?h s', s')) (rev (runs rx_dot ?t))) = []"
    using skip by (simp only: concat_eq_Nil_conv) auto
  ultimately obtain ys where ys: "rx AUTHOR_REGEX ([], ?s) = rx ?r (?h ?t, ?t) @ ys"
    by (simp only: AUTHOR_REGEX_def rx.simps map_map comp_def case_prod_conv map_append concat_append
        list.map concat.simps append_Nil)
  obtain zs where zs: "runs rx_dot m = zs @ [[]]" using runs_last [OF m'] by blast
  have "rev (runs rx_dot (m @ ''>'')) = [] # ''>'' # rev (map (\<lambda>r. r @ ''>'') zs)"
    by (simp add: runs_all [OF m'(1)] zs rx_dot_def)
  then have "\<exists>ws. rx ?r (?h ?t, ?t) = ([(''email'', m), (''author'', a)], []) # ws"
    by (simp add: startswith_def)
  with ys show ?thesis by (auto simp: re_match_def)
qed

section \<open>Import\<close>

lemma put_existing: "lookup p n = Some m' \<Longrightarrow> \<exists>n'. put p m n = Inr n'"
  by (induction p m n rule: put.induct) (auto split: option.splits)

lemma take_author_file:
  assumes "entry_ok G e"
  shows "take_author (file_meta e) = Inr (qe_author e, qe_email e, qe_meta e)"
proof -
  have no: "d822_get (qe_meta e) ''Author'' = None" "d822_get (qe_meta e) ''From'' = None"
    and ok: "one_line (qe_author e)" "one_line (qe_email e)" "CHR ''<'' \<notin> set (qe_email e)"
    using assms by (auto simp: entry_ok_def)
  have "author_key (file_meta e) = Some ''Author''"
    by (simp add: author_key_def d822_has_def file_meta_def d822_append no)
  moreover have "d822_item (file_meta e) ''Author'' = Inr (qe_author e @ '' <'' @ qe_email e @ ''>'')"
    by (simp add: d822_item_def file_meta_def d822_append no)
  moreover have "d822_del (file_meta e) ''Author'' = qe_meta e"
    by (simp add: file_meta_def d822_append no)
  ultimately show ?thesis
    using author_match [OF ok] by (simp add: take_author_def group_def)
qed

text \<open>The places that the import needs: the working directory exists, apart from the
  patches.\<close>

definition repo_ok :: "path \<Rightarrow> git_state \<Rightarrow> bool" where
  "repo_ok sub s \<longleftrightarrow> apart (gs_path s) sub \<and> lookup (gs_path s) (gs_fs s) \<noteq> None"

lemma import_one:
  assumes e: "entry_ok G e" and f: "file_of G e (x, n)" "lookup (sub @ [x]) (gs_fs s) = Some n"
    and g: "(List.last sub = ''generic'') = qe_generic e" and r: "repo_ok sub s"
  shows "\<exists>t c. apply_patch G (sub @ [x]) s = (Inr (), t) \<and> gs_commits t = c # gs_commits s \<and> carries G e c
    \<and> repo_ok sub t \<and> gs_path t = gs_path s
    \<and> (\<forall>q. apart (gs_path s) q \<longrightarrow> lookup q (gs_fs t) = lookup q (gs_fs s))"
proof -
  let ?p = "sub @ [x]"
  obtain i rest where x: "x = patch_name i (qe_title e)"
    and n: "n = File (gl_dump G (file_meta e) @ [CHR 0x0A, CHR 0x0A] @ rest)"
    using f(1) by (auto simp: file_of_def)
  define cnt where "cnt = gl_dump G (file_meta e) @ [CHR 0x0A, CHR 0x0A] @ rest"
  have read: "fs_read (gs_fs s) ?p = Inr cnt" using f(2) n by (simp add: fs_read_def cnt_def)
  have parse: "gl_parse G cnt = file_meta e" using e by (simp add: entry_ok_def cnt_def)
  have meta: "(if pf_generic ?p then d822_set (qe_meta e) ''Generic'' ''yes'' else qe_meta e) = entry_meta e"
    using g e d822_append(2) [of "qe_meta e" "''Generic''" "[]" "''yes''"]
    by (simp add: pf_generic_def entry_meta_def entry_ok_def)
  have title: "pf_title ?p = Inr (qe_title e)"
    by (simp only: pf_title_def pf_name_def last_snoc x patch_name_title) (simp add: list_item_def)
  let ?w = "gl_patch G cnt (work_tree s)"
  obtain fs where fs: "put (gs_path s) ?w (gs_fs s) = Inr fs"
    using r put_existing unfolding repo_ok_def by blast
  define c where "c = \<lparr>cm_author = qe_author e, cm_email = qe_email e,
    cm_message = qe_title e @ [CHR 0x0A, CHR 0x0A] @ gl_dump G (entry_meta e), cm_tree = work_tree (s\<lparr>gs_fs := fs\<rparr>)\<rparr>"
  define t where "t = s\<lparr>gs_fs := fs, gs_index := work_tree (s\<lparr>gs_fs := fs\<rparr>), gs_commits := c # gs_commits s\<rparr>"
  have "apply_patch G ?p s = (Inr (), t)"
    using git_fs_ok [of "put (gs_path s) ?w" s fs] fs
    by (simp add: apply_patch_def sbind_def ask_fs_def read parse slift_def take_author_file [OF e] meta title
        git_commit_def base_commit_def t_def c_def Let_def)
  moreover have "carries G e c" by (simp add: carries_def c_def)
  moreover have "repo_ok sub t" using r lookup_put_same [OF fs] by (simp add: repo_ok_def t_def)
  moreover have "\<forall>q. apart (gs_path s) q \<longrightarrow> lookup q (gs_fs t) = lookup q (gs_fs s)"
    using lookup_put_apart [OF fs] by (simp add: t_def)
  ultimately show ?thesis by (intro exI [of _ t] exI [of _ c]) (simp add: t_def)
qed

lemma import_all:
  "\<lbrakk>list_all (entry_ok G) es; list_all2 (file_of G) es fl; \<forall>f \<in> set fl. lookup (sub @ [fst f]) (gs_fs s) = Some (snd f);
    \<forall>e \<in> set es. (List.last sub = ''generic'') = qe_generic e; repo_ok sub s\<rbrakk> \<Longrightarrow>
   \<exists>t cs. sfor (apply_patch G) (map (\<lambda>f. sub @ [fst f]) fl) s = (Inr (), t)
     \<and> gs_commits t = rev cs @ gs_commits s \<and> list_all2 (carries G) es cs \<and> repo_ok sub t \<and> gs_path t = gs_path s
     \<and> (\<forall>q. apart (gs_path s) q \<longrightarrow> lookup q (gs_fs t) = lookup q (gs_fs s))"
proof (induction es arbitrary: fl s)
  case Nil
  then show ?case by (intro exI [of _ s] exI [of _ "[]"]) (simp add: sret_def)
next
  case (Cons e es)
  then obtain x n fl' where fl: "fl = (x, n) # fl'" "file_of G e (x, n)" "list_all2 (file_of G) es fl'"
    by (auto simp: list_all2_Cons1)
  have "lookup (sub @ [x]) (gs_fs s) = Some n" "(List.last sub = ''generic'') = qe_generic e" "entry_ok G e"
    using Cons.prems fl(1) by auto
  from import_one [OF this(3) fl(2) this(1,2) Cons.prems(5)] obtain t1 c where t1:
    "apply_patch G (sub @ [x]) s = (Inr (), t1)" "gs_commits t1 = c # gs_commits s" "carries G e c"
    "repo_ok sub t1" "gs_path t1 = gs_path s"
    "\<forall>q. apart (gs_path s) q \<longrightarrow> lookup q (gs_fs t1) = lookup q (gs_fs s)" by blast
  have "\<forall>f \<in> set fl'. lookup (sub @ [fst f]) (gs_fs t1) = Some (snd f)"
  proof
    fix f assume "f \<in> set fl'"
    moreover have "apart (gs_path s) (sub @ [fst f])"
      using Cons.prems(5) apart_child apart_sym unfolding repo_ok_def by blast
    ultimately show "lookup (sub @ [fst f]) (gs_fs t1) = Some (snd f)" using t1(6) Cons.prems(3) fl(1) by auto
  qed
  from Cons.IH [OF _ fl(3) this _ t1(4)] Cons.prems obtain t2 cs where t2:
    "sfor (apply_patch G) (map (\<lambda>f. sub @ [fst f]) fl') t1 = (Inr (), t2)"
    "gs_commits t2 = rev cs @ gs_commits t1" "list_all2 (carries G) es cs" "repo_ok sub t2" "gs_path t2 = gs_path t1"
    "\<forall>q. apart (gs_path t1) q \<longrightarrow> lookup q (gs_fs t2) = lookup q (gs_fs t1)" by auto
  show ?case
    using t1 t2 by (intro exI [of _ t2] exI [of _ "c # cs"]) (simp add: fl(1) sbind_apply)
qed

text \<open>A subdirectory with the files of one kind gives its entries, the oldest first.\<close>

lemma import_kind:
  assumes es: "list_all (entry_ok G) es" and len: "length es = length cs" and n: "length es \<le> 9999"
    and v: "version_name (pd_version d)" and r: "repo_ok (kind_sub d k) s"
    and ent: "sub_ok (gs_fs s) (kind_sub d k)" "sub_entries (gs_fs s) (kind_sub d k) = queue_files G k es (cs @ [root])"
  shows "\<exists>t cs'. import_patches_subdir G (kind_sub d k) s = (Inr (), t) \<and> gs_commits t = rev cs' @ gs_commits s
     \<and> list_all2 (carries G) (filter (\<lambda>e. qe_generic e = k) (rev es)) cs' \<and> gs_path t = gs_path s
     \<and> lookup (gs_path t) (gs_fs t) \<noteq> None
     \<and> (\<forall>q. apart (gs_path s) q \<longrightarrow> lookup q (gs_fs t) = lookup q (gs_fs s))"
proof -
  let ?sub = "kind_sub d k" and ?F = "queue_files G k es (cs @ [root])" and ?es = "filter (\<lambda>e. qe_generic e = k) es"
  have match: "list_all2 (file_of G) ?es ?F" using queue_files_entries [OF len] .
  show ?thesis
  proof (cases "lookup ?sub (gs_fs s)")
    case None
    with ent(2) match have "?es = []" by (simp add: sub_entries_def)
    then have "filter (\<lambda>e. qe_generic e = k) (rev es) = []" by (simp flip: rev_filter)
    with None r show ?thesis
      by (intro exI [of _ s] exI [of _ "[]"]) (simp add: import_patches_subdir_def fs_exists_def sret_def repo_ok_def)
  next
    case (Some m)
    with ent have dir: "lookup ?sub (gs_fs s) = Some (Dir ?F)" and fl: "flat ?F"
      by (auto simp: sub_ok_def sub_entries_def split: node.splits)
    have "count_kind k es \<le> 9999" using n by (simp add: count_kind_def) (meson length_filter_le order_trans)
    from sort_descending [OF queue_files_sorted [OF this]]
    have pats: "subdir_patches (gs_fs s) ?sub = Inr (map (\<lambda>f. ?sub @ [fst f]) (rev ?F))"
      by (simp add: subdir_patches_def fs_iterdir_def dir rev_map)
    have "lookup (?sub @ [fst f]) (gs_fs s) = Some (snd f)" if "f \<in> set (rev ?F)" for f
      using lookup_child [OF dir, of "fst f"] that fl
      by (cases f) (simp add: flat_def map_of_eq_Some_iff)
    moreover have "list_all2 (file_of G) (rev ?es) (rev ?F)" using match by (simp add: list_all2_rev)
    moreover have "list_all (entry_ok G) (rev ?es)" using es by (auto simp: list_all_iff)
    moreover have "(List.last ?sub = ''generic'') = qe_generic e" if "e \<in> set (rev ?es)" for e
      using that v by (auto simp: kind_sub_def version_name_def)
    ultimately obtain t cs' where t: "sfor (apply_patch G) (map (\<lambda>f. ?sub @ [fst f]) (rev ?F)) s = (Inr (), t)"
      "gs_commits t = rev cs' @ gs_commits s" "list_all2 (carries G) (rev ?es) cs'" "repo_ok ?sub t"
      "gs_path t = gs_path s" "\<forall>q. apart (gs_path s) q \<longrightarrow> lookup q (gs_fs t) = lookup q (gs_fs s)"
      using import_all [of G "rev ?es" "rev ?F" ?sub s] r by blast
    with Some pats show ?thesis
      by (intro exI [of _ t] exI [of _ cs'])
        (simp add: import_patches_subdir_def fs_exists_def sbind_def ask_fs_def rev_filter repo_ok_def)
  qed
qed

section \<open>The round trip\<close>

text \<open>A state in which the exported patches are imported into a new repository.\<close>

definition imports_from :: "patches_dir \<Rightarrow> node \<Rightarrow> git_state \<Rightarrow> bool" where
  "imports_from d fs t \<longleftrightarrow> (\<forall>k. lookup (kind_sub d k) (gs_fs t) = lookup (kind_sub d k) fs)
     \<and> apart (gs_path t) (pd_path d) \<and> lookup (gs_path t) (gs_fs t) \<noteq> None"


section \<open>A commit without metadata\<close>

text \<open>\<^verbatim>\<open>export_queue\<close> removes the existing patches before it reads the commits: when
  one of them, other than the initial one, has no metadata paragraph after its title, as
  \<^verbatim>\<open>git commit -m title\<close> makes it, the export fails with \<^verbatim>\<open>IndexError\<close> and the artifact
  has lost all its generic patches and all those of its version.\<close>

theorem title_only_commit_loses_queue:
  assumes "layout_ok d (gs_fs s)" and "gs_commits s = pre @ c # post" and "post \<noteq> []"
    and "count_char CHR 0x0A (cm_message c) < 2"
  shows "\<exists>s'. export_queue G d s = (Inl IndexErr, s')
    \<and> sub_clear (gs_fs s') (generic_subdir d) \<and> sub_clear (gs_fs s') (version_subdir d)"
proof -
  have "git_fs (pd_ensure d) s = (Inr (), s)"
    using assms(1) git_fs_ok [of "pd_ensure d" s]
    by (auto simp: layout_ok_def fs_is_dir_lookup pd_ensure_def fs_exists_def)
  moreover obtain fs where fs: "sfor subdir_clean (pd_subdirs d) s = (Inr (), s\<lparr>gs_fs := fs\<rparr>)"
    "sub_clear fs (generic_subdir d)" "sub_clear fs (version_subdir d)"
    using layout_clean [OF assms(1)] by blast
  moreover have "count_commits G (gs_commits (s\<lparr>gs_fs := fs\<rparr>)) (0, 0) = Inl IndexErr"
    using assms(2,3,4) count_commits_short by auto
  ultimately have "export_queue G d s = (Inl IndexErr, s\<lparr>gs_fs := fs\<rparr>)"
    by (simp add: export_queue_def sbind_apply)
  with fs(2,3) show ?thesis by (intro exI [of _ "s\<lparr>gs_fs := fs\<rparr>"]) simp
qed

section \<open>A title with a slash\<close>

lemma put_below_missing:
  "lookup p n = Some (Dir es) \<Longrightarrow> map_of es x = None \<Longrightarrow> ys \<noteq> [] \<Longrightarrow> put (p @ x # ys) m n = Inl FileNotFoundErr"
proof (induction p n rule: lookup.induct)
  case (1 n)
  then show ?case by (cases ys) auto
next
  case (3 y p ds)
  then obtain k where k: "map_of ds y = Some k" "lookup p k = Some (Dir es)" by (auto split: option.splits)
  have "p @ x # ys = (hd (p @ x # ys)) # tl (p @ x # ys)" by (cases p) auto
  then obtain z zs where z: "p @ x # ys = z # zs" by blast
  with 3(1) [OF k 3(3,4)] k show ?case by simp
qed simp

lemma path_parts_slash: "CHR ''/'' \<notin> set a \<Longrightarrow> a \<notin> {[], ''.''} \<Longrightarrow> path_parts (a @ CHR ''/'' # b) = a # path_parts b"
  by (simp add: path_parts_def split_on_append)

lemma joinpath_patch_slash:
  assumes "CHR ''/'' \<notin> set a"
  shows "joinpath p (patch_name i (a @ CHR ''/'' # b)) = p @ patch_name i a # path_parts b"
proof -
  let ?n = "patch_name i a"
  have n: "CHR ''/'' \<notin> set ?n" using assms by (simp add: patch_name_def pad4_notin is_digit_def)
  have "?n \<notin> {[], ''.''}" using patch_name_title [of i a] by (auto simp: patch_name_def Cons_eq_append_conv)
  moreover have "patch_name i (a @ CHR ''/'' # b) = ?n @ CHR ''/'' # b" by (simp add: patch_name_def)
  moreover have "\<not> startswith (?n @ CHR ''/'' # b) ''/''" using n calculation(1) by (cases ?n) (auto simp: startswith_def)
  ultimately show ?thesis using path_parts_slash [OF n, of b] by (simp add: joinpath_def)
qed

text \<open>The title of a commit is made a part of the name of its patch: a slash in the title
  of the newest commit, as in \<^verbatim>\<open>Fix src/main.c\<close>, makes \<^verbatim>\<open>export_queue\<close> open a file in a
  directory that does not exist. It fails with \<^verbatim>\<open>FileNotFoundError\<close>, when the existing
  patches have all been removed and none has been written.\<close>

theorem slash_title_loses_queue:
  assumes "layout_ok d (gs_fs s)" and "gs_commits s = c # parent # cs"
    and "count_commits G (gs_commits s) (0, 0) = Inr n"
    and "hd (split_on CHR 0x0A (cm_message c)) = a @ CHR ''/'' # b" and "CHR ''/'' \<notin> set a" and "path_parts b \<noteq> []"
    and "gl_diff G (cm_tree parent) (cm_tree c) \<noteq> []"
  shows "\<exists>s'. export_queue G d s = (Inl FileNotFoundErr, s')
    \<and> sub_clear (gs_fs s') (generic_subdir d) \<and> sub_clear (gs_fs s') (version_subdir d)"
proof -
  have v: "version_name (pd_version d)" using assms(1) by (simp add: layout_ok_def)
  have en: "git_fs (pd_ensure d) s = (Inr (), s)"
    using assms(1) git_fs_ok [of "pd_ensure d" s]
    by (auto simp: layout_ok_def fs_is_dir_lookup pd_ensure_def fs_exists_def)
  obtain f1 where f1: "sfor subdir_clean (pd_subdirs d) s = (Inr (), s\<lparr>gs_fs := f1\<rparr>)" "fs_is_dir f1 (pd_path d)"
    "sub_clear f1 (generic_subdir d)" "sub_clear f1 (version_subdir d)"
    using layout_clean [OF assms(1)] by blast
  have clear: "sub_clear f1 (kind_sub d k)" for k
    using f1(3,4) subdirs_of [OF v] by (simp add: kind_sub_def)
  obtain meta where meta: "parse_commit_meta G c = Inr meta"
    using assms(2,3) by (cases "parse_commit_meta G c") auto
  obtain ig iv where n: "n = (ig, iv)" by (cases n)
  define k where "k = is_meta_generic meta"
  define i where "i = (if k then ig else iv)"
  let ?s1 = "s\<lparr>gs_fs := f1\<rparr>" and ?sub = "kind_sub d k"
  have ens: "git_fs (pd_ensure d) ?s1 = (Inr (), ?s1)"
    using f1(2) git_fs_ok [of "pd_ensure d" ?s1] by (auto simp: fs_is_dir_lookup pd_ensure_def fs_exists_def)
  obtain f2 where f2: "(if fs_exists f1 ?sub then Inr f1 else fs_mkdir ?sub f1) = Inr f2"
    "lookup ?sub f2 = Some (Dir [])" "\<forall>q. apart ?sub q \<longrightarrow> lookup q f2 = lookup q f1"
  proof (cases "lookup ?sub f1")
    case None
    from f1(2) obtain ds where "lookup (pd_path d) f1 = Some (Dir ds)" by (auto simp: fs_is_dir_lookup)
    from put_child [OF this, of "if k then ''generic'' else pd_version d" "Dir []"] obtain f where
      f: "put ?sub (Dir []) f1 = Inr f" by (auto simp: kind_sub_def)
    show ?thesis
      by (rule that [of f]) (use None f lookup_put_same [OF f] lookup_put_apart [OF f] in \<open>auto simp: fs_exists_def fs_mkdir_def\<close>)
  next
    case (Some m)
    with clear [of k] show ?thesis by (intro that [of f1]) (auto simp: fs_exists_def sub_clear_def)
  qed
  have fl: "export_file ?sub i c = ?sub @ patch_name i a # path_parts b"
    using joinpath_patch_slash [OF assms(5), of ?sub i b] by (simp add: export_file_def pf_create_def assms(4) patch_name_def)
  have "put (export_file ?sub i c) m f2 = Inl FileNotFoundErr" for m
    using put_below_missing [OF f2(2) _ assms(6)] fl by simp
  moreover have "\<not> fs_is_dir f2 (export_file ?sub i c)" by (simp add: fl fs_is_dir_def lookup_append f2(2))
  ultimately have wr: "pf_write G (export_file ?sub i c) mt tx f2 = Inl FileNotFoundErr" for mt tx
    by (simp add: pf_write_def fs_write_def)
  let ?e = "export_commit G d ?sub i parent c meta"
  have mk: "git_fs (\<lambda>fs. if fs_exists fs ?sub then Inr fs else fs_mkdir ?sub fs) ?s1 = (Inr (), s\<lparr>gs_fs := f2\<rparr>)"
    using f2(1) git_fs_ok [of "\<lambda>fs. if fs_exists fs ?sub then Inr fs else fs_mkdir ?sub fs" ?s1 f2]
    by (simp cong: if_cong)
  have fail: "git_fs (pf_write G (export_file ?sub i c) mt tx) (s\<lparr>gs_fs := f2\<rparr>) = (Inl FileNotFoundErr, s\<lparr>gs_fs := f2\<rparr>)"
    for mt tx by (rule git_fs_fail) (simp add: wr)
  have "?e ?s1 = (Inl FileNotFoundErr, s\<lparr>gs_fs := f2\<rparr>)"
    using assms(7) by (simp add: export_commit_def swhen_def subdir_ensure_def Let_def sbind_apply ens mk fail)
  then have "export_commits G d (gs_commits s) n ?s1 = (Inl FileNotFoundErr, s\<lparr>gs_fs := f2\<rparr>)"
    using subdirs_of [OF v] assms(2) meta
    by (cases k) (simp_all add: n sbind_apply slift_def k_def [symmetric] i_def kind_sub_def)
  then have "export_queue G d s = (Inl FileNotFoundErr, s\<lparr>gs_fs := f2\<rparr>)"
    using en f1(1) assms(3) by (simp add: export_queue_def sbind_apply)
  moreover have "sub_clear f2 (kind_sub d j)" for j
  proof (cases "j = k")
    case False
    then have "lookup (kind_sub d j) f2 = lookup (kind_sub d j) f1"
      using f2(3) kind_sub_apart [OF v, of k] by (cases j; cases k) auto
    with clear [of j] show ?thesis by (simp add: sub_clear_def)
  qed (use f2(2) in \<open>simp add: sub_clear_def\<close>)
  note c2 = this [of True] this [of False]
  ultimately show ?thesis using c2 subdirs_of [OF v]
    by (intro exI [of _ "s\<lparr>gs_fs := f2\<rparr>"]) (simp add: kind_sub_def)
qed

section \<open>Examples\<close>

text \<open>A printer and a parser of fields, and a difference that only tells whether two trees
  are the same.\<close>

definition example_dump :: "deb822 \<Rightarrow> string" where
  "example_dump m = concat (map (\<lambda>(k, v). k @ '': '' @ v @ [CHR 0x0A]) m)"

definition example_field :: "string \<Rightarrow> string \<times> string" where
  "example_field l = (case split_max CHR '':'' 1 l of [k, v] \<Rightarrow> (k, drop 1 v) | _ \<Rightarrow> ([], []))"

definition example_parse :: "string \<Rightarrow> deb822" where
  "example_parse s = map example_field (takeWhile (\<lambda>l. l \<noteq> []) (split_on CHR 0x0A s))"

definition example_git :: git_libs where
  "example_git = \<lparr>gl_diff = (\<lambda>a b. if a = b then [] else ''diff''), gl_patch = (\<lambda>_ n. n),
     gl_parse = example_parse, gl_dump = example_dump\<rparr>"

definition example_entries :: "queue_entry list" where
  "example_entries =
     [\<lparr>qe_author = ''Ann'', qe_email = ''a@x'', qe_title = ''fix'', qe_meta = [(''Forwarded'', ''no'')], qe_generic = False\<rparr>,
      \<lparr>qe_author = ''Bob'', qe_email = ''b@x'', qe_title = ''paths'', qe_meta = [], qe_generic = True\<rparr>]"

definition example_tree :: "nat \<Rightarrow> node" where
  "example_tree n = Dir [(''main.c'', File (nat_str n))]"

definition example_commits :: "commit list" where
  "example_commits =
     [\<lparr>cm_author = ''Ann'', cm_email = ''a@x'',
       cm_message = ''fix'' @ [CHR 0x0A, CHR 0x0A] @ ''Forwarded: no'' @ [CHR 0x0A], cm_tree = example_tree 2\<rparr>,
      \<lparr>cm_author = ''Bob'', cm_email = ''b@x'',
       cm_message = ''paths'' @ [CHR 0x0A, CHR 0x0A] @ ''Generic: yes'' @ [CHR 0x0A], cm_tree = example_tree 1\<rparr>]"

definition example_root :: commit where
  "example_root = \<lparr>cm_author = ''Ann'', cm_email = ''a@x'', cm_message = ''Initial commit'', cm_tree = example_tree 0\<rparr>"

definition example_dir :: patches_dir where
  "example_dir = PatchesDir [''pkg''] ''1.0''"

definition example_queue :: "commit list \<Rightarrow> git_state" where
  "example_queue cs = \<lparr>gs_fs = Dir [(''pkg'', Dir [(''patches'', Dir [(''1.0'', Dir [(''0001-old'', File ''x'')])])]),
       (''repo'', example_tree 2)], gs_path = [''repo''], gs_index = example_tree 2, gs_commits = cs\<rparr>"

lemma example_layout: "layout_ok example_dir (gs_fs (example_queue cs))"
  by (simp add: layout_ok_def example_dir_def PatchesDir_def example_queue_def version_name_def fs_is_dir_def
      generic_subdir_def version_subdir_def joinpath_name sub_ok_def flat_def)


definition title_commit :: "string \<Rightarrow> commit" where
  "title_commit m = \<lparr>cm_author = ''Ann'', cm_email = ''a@x'', cm_message = m, cm_tree = example_tree 2\<rparr>"

lemma title_only_commit_loses_queue_witness:
  "\<exists>s'. export_queue example_git example_dir (example_queue [title_commit (''fix'' @ [CHR 0x0A]), example_root]) = (Inl IndexErr, s')
     \<and> sub_clear (gs_fs s') (generic_subdir example_dir) \<and> sub_clear (gs_fs s') (version_subdir example_dir)"
  by (rule title_only_commit_loses_queue [where pre = "[]" and c = "title_commit (''fix'' @ [CHR 0x0A])" and post = "[example_root]"])
    (simp_all add: example_layout, simp_all add: example_queue_def title_commit_def count_char_def)

lemma slash_title_loses_queue_witness:
  "\<exists>s'. export_queue example_git example_dir
       (example_queue [title_commit (''Fix src/main.c'' @ [CHR 0x0A, CHR 0x0A]), example_root]) = (Inl FileNotFoundErr, s')
     \<and> sub_clear (gs_fs s') (generic_subdir example_dir) \<and> sub_clear (gs_fs s') (version_subdir example_dir)"
proof (rule slash_title_loses_queue [where c = "title_commit (''Fix src/main.c'' @ [CHR 0x0A, CHR 0x0A])" and parent = example_root
      and cs = "[]" and n = "(0, 1)" and a = "''Fix src''" and b = "''main.c''"])
  show "count_commits example_git (gs_commits (example_queue [title_commit (''Fix src/main.c'' @ [CHR 0x0A, CHR 0x0A]), example_root]))
     (0, 0) = Inr (0, 1)"
    by (simp add: example_queue_def title_commit_def parse_commit_meta_def numeral_2_eq_2 list_item_def example_git_def
        example_parse_def is_meta_generic_def)
  show "gl_diff example_git (cm_tree example_root) (cm_tree (title_commit (''Fix src/main.c'' @ [CHR 0x0A, CHR 0x0A]))) \<noteq> []"
    by (simp add: example_git_def example_root_def title_commit_def example_tree_def)
qed (simp_all add: example_layout, simp_all add: example_queue_def title_commit_def path_parts_def)

end
