(* ===== verification/Config.thy ===== *)
theory Config imports Archive PyRegex begin

text \<open>
  \<^verbatim>\<open>fatbuildr/conf.py\<close> and \<^verbatim>\<open>fatbuildr/prefs.py\<close>: the settings of the server and of the web
  application, and the preferences of a user, as they are read from configuration files. A
  parsed file is a dictionary of sections of options; the interpolation of
  \<^verbatim>\<open>configparser.ExtendedInterpolation\<close> is done when an option is read. The paths are lists of
  names.
\<close>

section \<open>Configuration files\<close>

type_synonym ini = "(string, (string, string) dict) dict"

definition ini_raw :: "ini \<Rightarrow> string \<Rightarrow> string \<Rightarrow> string res" where
  "ini_raw f sect opt =
     (case dict_get f sect of
        None \<Rightarrow> Inl NoSectionErr
      | Some d \<Rightarrow> (case dict_get d opt of None \<Rightarrow> Inl NoOptionErr | Some v \<Rightarrow> Inr v))"

text \<open>Reading a second file: its options replace those of the first.\<close>

definition ini_merge :: "ini \<Rightarrow> ini \<Rightarrow> ini" where
  "ini_merge f g = foldl (\<lambda>f (sect, d).
     dict_set f sect (foldl (\<lambda>e (k, v). dict_set e k v) (case dict_get f sect of None \<Rightarrow> [] | Some e \<Rightarrow> e) d)) f g"

text \<open>A reference: an option of the same section, or a section and an option.\<close>

definition ini_ref :: "ini \<Rightarrow> string \<Rightarrow> string \<Rightarrow> (string \<times> string) res" where
  "ini_ref f sect body =
     (case split_on CHR '':'' body of
        [opt] \<Rightarrow> rcatch (rmap (Pair sect) (ini_raw f sect (map lower_char opt))) (\<lambda>_. True) (\<lambda>_. Inl InterpolationErr)
      | [s, opt] \<Rightarrow> rcatch (rmap (Pair s) (ini_raw f s (map lower_char opt))) (\<lambda>_. True) (\<lambda>_. Inl InterpolationErr)
      | _ \<Rightarrow> Inl InterpolationErr)"

lemma length_after: "length (dropWhile P t) - Suc 0 < Suc (Suc (length t))"
  using length_dropWhile_le [of P t] by simp

text \<open>The number is the depth that is left, at first the library's limit.\<close>

function (sequential) interpolate :: "nat \<Rightarrow> ini \<Rightarrow> string \<Rightarrow> string \<Rightarrow> string res" where
  "interpolate 0 f sect s = Inl InterpolationErr"
| "interpolate (Suc n) f sect [] = Inr []"
| "interpolate (Suc n) f sect (c # s) =
     (if c \<noteq> CHR ''$'' then rmap ((#) c) (interpolate (Suc n) f sect s)
      else case s of
        [] \<Rightarrow> Inl InterpolationErr
      | d # t \<Rightarrow>
          if d = CHR ''$'' then rmap ((#) d) (interpolate (Suc n) f sect t)
          else if d = CHR ''{'' then
            (let body = takeWhile (\<lambda>x. x \<noteq> CHR ''}'') t; after = dropWhile (\<lambda>x. x \<noteq> CHR ''}'') t in
             if body = [] \<or> after = [] then Inl InterpolationErr
             else rbind (ini_ref f sect body) (\<lambda>(sect', v).
                  rbind (if CHR ''$'' \<in> set v then interpolate n f sect' v else Inr v) (\<lambda>x.
                  rmap ((@) x) (interpolate (Suc n) f sect (tl after)))))
          else Inl InterpolationErr)"
  by pat_completeness auto

termination
  by (relation "measures [\<lambda>(n, f, sect, s). n, \<lambda>(n, f, sect, s). length s]") (auto simp: length_after)

definition cfg_get :: "ini \<Rightarrow> string \<Rightarrow> string \<Rightarrow> string res" where
  "cfg_get f sect opt = rbind (ini_raw f sect opt) (interpolate 10 f sect)"

definition cfg_getint :: "ini \<Rightarrow> string \<Rightarrow> string \<Rightarrow> int res" where
  "cfg_getint f sect opt = rbind (cfg_get f sect opt) py_int"

definition cfg_getboolean :: "ini \<Rightarrow> string \<Rightarrow> string \<Rightarrow> bool res" where
  "cfg_getboolean f sect opt =
     rbind (cfg_get f sect opt) (\<lambda>v. let w = map lower_char v in
     if w \<in> {''1'', ''yes'', ''true'', ''on''} then Inr True
     else if w \<in> {''0'', ''no'', ''false'', ''off''} then Inr False
     else Inl ValueErr)"

definition cfg_path :: "ini \<Rightarrow> string \<Rightarrow> string \<Rightarrow> path res" where
  "cfg_path f sect opt = rmap path_parts (cfg_get f sect opt)"

definition cfg_words :: "ini \<Rightarrow> string \<Rightarrow> string \<Rightarrow> string list res" where
  "cfg_words f sect opt = rmap (split_on CHR '' '') (cfg_get f sect opt)"

section \<open>Sections\<close>

record conf_dirs =
  cd_instances :: path
  cd_registry :: path
  cd_cache :: path
  cd_tmp :: path

definition load_dirs :: "ini \<Rightarrow> conf_dirs res" where
  "load_dirs f =
     rbind (cfg_path f ''dirs'' ''instances'') (\<lambda>i.
     rbind (cfg_path f ''dirs'' ''registry'') (\<lambda>r.
     rbind (cfg_path f ''dirs'' ''cache'') (\<lambda>c.
     rmap (\<lambda>t. \<lparr>cd_instances = i, cd_registry = r, cd_cache = c, cd_tmp = t\<rparr>) (cfg_path f ''dirs'' ''tmp''))))"

record conf_images =
  ci_storage :: path
  ci_defs :: path
  ci_formats :: "string list"
  ci_create_cmd :: string

definition load_images :: "ini \<Rightarrow> conf_images res" where
  "load_images f =
     rbind (cfg_path f ''images'' ''storage'') (\<lambda>s.
     rbind (cfg_path f ''images'' ''defs'') (\<lambda>d.
     rbind (cfg_get f ''images'' ''formats'') (\<lambda>fs.
     rmap (\<lambda>c. \<lparr>ci_storage = s, ci_defs = d, ci_formats = split_on CHR '','' fs, ci_create_cmd = c\<rparr>)
       (cfg_get f ''images'' ''create_cmd''))))"

definition load_registry :: "ini \<Rightarrow> path res" where
  "load_registry f = cfg_path f ''registry'' ''conf''"

record conf_tasks =
  ct_workspaces :: path
  ct_purge_policy :: string
  ct_purge_value :: "string option"
  ct_hook :: "path option"

text \<open>The error about a purge without a value is made, but not raised.\<close>

definition load_tasks :: "ini \<Rightarrow> conf_tasks res" where
  "load_tasks f =
     rbind (cfg_path f ''tasks'' ''workspaces'') (\<lambda>w.
     rbind (cfg_get f ''tasks'' ''purge'') (\<lambda>p. let components = split_on CHR '':'' p in
     rmap (\<lambda>h. \<lparr>ct_workspaces = w, ct_purge_policy = components ! 0,
             ct_purge_value = (if length components > 1 then Some (components ! 1) else None), ct_hook = h\<rparr>)
       (rcatch (rmap Some (cfg_path f ''tasks'' ''hook'')) (\<lambda>e. e = NoOptionErr) (\<lambda>_. Inr None))))"

record conf_containers =
  cc_exec :: path
  cc_init_opts :: "string list option"
  cc_opts :: "string list option"
  cc_seccomp :: bool

definition some_words :: "string \<Rightarrow> string list option" where
  "some_words v = (if v = [] then None else Some (split_on CHR '' '' v))"

definition load_containers :: "ini \<Rightarrow> conf_containers res" where
  "load_containers f =
     rbind (cfg_path f ''containers'' ''exec'') (\<lambda>x.
     rbind (cfg_get f ''containers'' ''init_opts'') (\<lambda>i.
     rbind (cfg_get f ''containers'' ''opts'') (\<lambda>opts.
     rmap (\<lambda>s. \<lparr>cc_exec = x, cc_init_opts = some_words i, cc_opts = some_words opts, cc_seccomp = s\<rparr>)
       (cfg_getboolean f ''containers'' ''seccomp''))))"

text \<open>The expiration of keys: \<^verbatim>\<open>False\<close>, or a number of seconds.\<close>

record conf_keyring =
  ck_storage :: path
  ck_type :: string
  ck_size :: int
  ck_expires :: "int option"
  ck_seeder :: string

definition DURATION_REGEX :: regex where
  "DURATION_REGEX = RSeq (Grp ''1'' (Plus is_digit)) (Grp ''2'' (One rx_lower))"

definition parse_duration :: "string \<Rightarrow> int res" where
  "parse_duration expires =
     (case re_search DURATION_REGEX expires of
        None \<Rightarrow> Inl AttributeErr
      | Some m \<Rightarrow>
          (let quantity = int (digits_val (the (group m ''1''))); unit = the (group m ''2'') in
           if unit = ''d'' then Inr (quantity * 86400)
           else if unit = ''m'' then Inr (quantity * 86400 * 30)
           else if unit = ''y'' then Inr (quantity * 86400 * 365)
           else Inl ValueErr))"

definition load_expires :: "ini \<Rightarrow> int option res" where
  "load_expires f =
     rbind (rcatch (rmap Inl (cfg_getboolean f ''keyring'' ''expires'')) (\<lambda>e. e = ValueErr)
       (\<lambda>_. rbind (cfg_get f ''keyring'' ''expires'') (\<lambda>v. rmap Inr (parse_duration v))))
     (\<lambda>x. case x of Inl True \<Rightarrow> Inl ValueErr | Inl False \<Rightarrow> Inr None | Inr n \<Rightarrow> Inr (Some n))"

definition load_keyring :: "ini \<Rightarrow> conf_keyring res" where
  "load_keyring f =
     rbind (cfg_path f ''keyring'' ''storage'') (\<lambda>s.
     rbind (cfg_get f ''keyring'' ''type'') (\<lambda>t.
     rbind (cfg_getint f ''keyring'' ''size'') (\<lambda>n.
     rbind (load_expires f) (\<lambda>e.
     rmap (\<lambda>d. \<lparr>ck_storage = s, ck_type = t, ck_size = n, ck_expires = e, ck_seeder = d\<rparr>)
       (cfg_get f ''keyring'' ''seeder'')))))"

record conf_tokens =
  cn_storage :: path
  cn_duration :: int
  cn_algorithm :: string
  cn_audience :: string

definition load_tokens :: "ini \<Rightarrow> conf_tokens res" where
  "load_tokens f =
     rbind (cfg_path f ''tokens'' ''storage'') (\<lambda>s.
     rbind (cfg_getint f ''tokens'' ''duration'') (\<lambda>d.
     rbind (cfg_get f ''tokens'' ''algorithm'') (\<lambda>a.
     rmap (\<lambda>u. \<lparr>cn_storage = s, cn_duration = d, cn_algorithm = a, cn_audience = u\<rparr>)
       (cfg_get f ''tokens'' ''audience''))))"

section \<open>Formats\<close>

text \<open>What all the formats have, what the formats with build environments add, and what is
  peculiar to one of them.\<close>

record base_conf =
  fb_builder :: string
  fb_img_update_cmds :: string
  fb_img_create_use_sysusersd :: bool

record env_conf = base_conf +
  fb_env_path :: string
  fb_init_cmds :: string
  fb_shell_cmd :: string
  fb_exec_cmd :: string
  fb_exec_tmpfile :: bool
  fb_env_update_cmds :: string
  fb_env_as_root :: bool
  fb_prescript_deps :: "string list"

datatype format_conf =
    DebConf env_conf string string
  | RpmConf env_conf "string list"
  | OsiConf base_conf bool

definition load_env_conf :: "ini \<Rightarrow> string \<Rightarrow> env_conf res" where
  "load_env_conf f sect =
     rbind (cfg_get f sect ''builder'') (\<lambda>builder.
     rbind (cfg_get f sect ''env_path'') (\<lambda>env_path.
     rbind (cfg_get f sect ''init_cmds'') (\<lambda>init_cmds.
     rbind (cfg_get f sect ''shell_cmd'') (\<lambda>shell_cmd.
     rbind (cfg_get f sect ''exec_cmd'') (\<lambda>exec_cmd.
     rbind (cfg_getboolean f sect ''exec_tmpfile'') (\<lambda>tmpfile.
     rbind (cfg_get f sect ''img_update_cmds'') (\<lambda>img_update.
     rbind (cfg_getboolean f sect ''img_create_use_sysusersd'') (\<lambda>sysusersd.
     rbind (cfg_get f sect ''env_update_cmds'') (\<lambda>env_update.
     rbind (cfg_getboolean f sect ''env_as_root'') (\<lambda>asroot.
     rmap (\<lambda>deps. \<lparr>fb_builder = builder, fb_img_update_cmds = img_update, fb_img_create_use_sysusersd = sysusersd,
             fb_env_path = env_path, fb_init_cmds = init_cmds, fb_shell_cmd = shell_cmd, fb_exec_cmd = exec_cmd,
             fb_exec_tmpfile = tmpfile, fb_env_update_cmds = env_update, fb_env_as_root = asroot, fb_prescript_deps = deps\<rparr>)
       (cfg_words f sect ''prescript_deps'')))))))))))"

definition load_deb :: "ini \<Rightarrow> format_conf res" where
  "load_deb f =
     rbind (load_env_conf f ''format:deb'') (\<lambda>e.
     rbind (cfg_get f ''format:deb'' ''env_default_mirror'') (\<lambda>m.
     rmap (DebConf e m) (cfg_get f ''format:deb'' ''env_default_components'')))"

definition load_rpm :: "ini \<Rightarrow> format_conf res" where
  "load_rpm f =
     rbind (load_env_conf f ''format:rpm'') (\<lambda>e.
     rmap (RpmConf e) (rcatch (cfg_words f ''format:rpm'' ''env_default_modules'') (\<lambda>x. x = NoOptionErr) (\<lambda>_. Inr [])))"

definition load_osi :: "ini \<Rightarrow> format_conf res" where
  "load_osi f =
     rbind (cfg_get f ''format:osi'' ''builder'') (\<lambda>b.
     rbind (cfg_get f ''format:osi'' ''img_update_cmds'') (\<lambda>u.
     rbind (cfg_getboolean f ''format:osi'' ''img_create_use_sysusersd'') (\<lambda>s.
     rmap (OsiConf \<lparr>fb_builder = b, fb_img_update_cmds = u, fb_img_create_use_sysusersd = s\<rparr>)
       (cfg_getboolean f ''format:osi'' ''containerized''))))"

section \<open>Applications\<close>

record conf_daemon =
  dm_debug :: bool
  dm_fulldebug :: bool

record conf_web =
  wb_debug :: bool
  wb_host :: string
  wb_port :: int
  wb_instance :: string
  wb_listing :: bool
  wb_vendor_templates :: string
  wb_templates :: string
  wb_static :: string
  wb_vendor_policy :: path
  wb_policy :: path

definition load_daemon :: "ini \<Rightarrow> conf_daemon res" where
  "load_daemon f =
     rbind (cfg_getboolean f ''daemon'' ''debug'') (\<lambda>d.
     rmap (\<lambda>e. \<lparr>dm_debug = d, dm_fulldebug = e\<rparr>) (cfg_getboolean f ''daemon'' ''fulldebug''))"

definition load_web :: "ini \<Rightarrow> conf_web res" where
  "load_web f =
     rbind (cfg_getboolean f ''web'' ''debug'') (\<lambda>d.
     rbind (cfg_get f ''web'' ''host'') (\<lambda>h.
     rbind (cfg_getint f ''web'' ''port'') (\<lambda>p.
     rbind (cfg_get f ''web'' ''instance'') (\<lambda>i.
     rbind (cfg_getboolean f ''web'' ''listing'') (\<lambda>l.
     rbind (cfg_get f ''web'' ''vendor_templates'') (\<lambda>vt.
     rbind (cfg_get f ''web'' ''templates'') (\<lambda>t.
     rbind (cfg_get f ''web'' ''static'') (\<lambda>st.
     rbind (cfg_path f ''web'' ''vendor_policy'') (\<lambda>vp.
     rmap (\<lambda>pl. \<lparr>wb_debug = d, wb_host = h, wb_port = p, wb_instance = i, wb_listing = l, wb_vendor_templates = vt,
             wb_templates = t, wb_static = st, wb_vendor_policy = vp, wb_policy = pl\<rparr>)
       (cfg_path f ''web'' ''policy''))))))))))"

record 'r runtime_conf =
  rc_run :: 'r
  rc_dirs :: conf_dirs
  rc_images :: conf_images
  rc_registry :: path
  rc_tasks :: conf_tasks
  rc_containers :: conf_containers
  rc_keyring :: conf_keyring
  rc_tokens :: conf_tokens
  rc_deb :: format_conf
  rc_rpm :: format_conf
  rc_osi :: format_conf

text \<open>The two files are read, then every section in its turn.\<close>

definition RuntimeConf_load :: "(ini \<Rightarrow> 'r res) \<Rightarrow> ini res \<Rightarrow> ini res \<Rightarrow> 'r runtime_conf res" where
  "RuntimeConf_load load_run vendor site =
     rbind vendor (\<lambda>v. rbind site (\<lambda>s. let f = ini_merge v s in
     rbind (load_run f) (\<lambda>run.
     rbind (load_dirs f) (\<lambda>dirs.
     rbind (load_images f) (\<lambda>images.
     rbind (load_registry f) (\<lambda>registry.
     rbind (load_tasks f) (\<lambda>tasks.
     rbind (load_containers f) (\<lambda>containers.
     rbind (load_keyring f) (\<lambda>keyring.
     rbind (load_tokens f) (\<lambda>tokens.
     rbind (load_deb f) (\<lambda>deb.
     rbind (load_rpm f) (\<lambda>rpm.
     rmap (\<lambda>osi. \<lparr>rc_run = run, rc_dirs = dirs, rc_images = images, rc_registry = registry, rc_tasks = tasks,
             rc_containers = containers, rc_keyring = keyring, rc_tokens = tokens, rc_deb = deb, rc_rpm = rpm, rc_osi = osi\<rparr>)
       (load_osi f)))))))))))))"

text \<open>\<^verbatim>\<open>getattr(conf, format)\<close>, for the name of a format.\<close>

definition conf_format :: "'r runtime_conf \<Rightarrow> string \<Rightarrow> format_conf res" where
  "conf_format c fmt =
     (if fmt = ''deb'' then Inr (rc_deb c) else if fmt = ''rpm'' then Inr (rc_rpm c)
      else if fmt = ''osi'' then Inr (rc_osi c) else Inl AttributeErr)"

definition fc_base :: "format_conf \<Rightarrow> base_conf" where
  "fc_base c = (case c of DebConf e _ _ \<Rightarrow> base_conf.truncate e | RpmConf e _ \<Rightarrow> base_conf.truncate e | OsiConf b _ \<Rightarrow> b)"

definition fc_env :: "format_conf \<Rightarrow> env_conf res" where
  "fc_env c = (case c of DebConf e _ _ \<Rightarrow> Inr e | RpmConf e _ \<Rightarrow> Inr e | OsiConf _ _ \<Rightarrow> Inl AttributeErr)"

definition fc_default_mirror :: "format_conf \<Rightarrow> string res" where
  "fc_default_mirror c = (case c of DebConf _ m _ \<Rightarrow> Inr m | _ \<Rightarrow> Inl AttributeErr)"

definition fc_default_components :: "format_conf \<Rightarrow> string res" where
  "fc_default_components c = (case c of DebConf _ _ cs \<Rightarrow> Inr cs | _ \<Rightarrow> Inl AttributeErr)"

definition fc_default_modules :: "format_conf \<Rightarrow> string list res" where
  "fc_default_modules c = (case c of RpmConf _ ms \<Rightarrow> Inr ms | _ \<Rightarrow> Inl AttributeErr)"

section \<open>Preferences\<close>

record user_preferences =
  up_user_name :: "string option"
  up_user_email :: "string option"
  up_uri :: "string option"
  up_basedir :: "string option"
  up_message :: "string option"
  up_tokens_dir :: string
  up_commit_template :: string

definition default_user_pref :: "string option \<Rightarrow> string" where
  "default_user_pref xdg_config_home =
     (case xdg_config_home of None \<Rightarrow> ''~/.config'' | Some d \<Rightarrow> d) @ ''/fatbuildr.ini''"

definition default_user_tokens_dir :: "string option \<Rightarrow> string" where
  "default_user_tokens_dir xdg_data_home =
     (case xdg_data_home of None \<Rightarrow> ''~/.local/share'' | Some d \<Rightarrow> d) @ ''/fatbuildr''"

definition default_commit_message_template :: string where
  "default_commit_message_template = ''/usr/share/fatbuildr/commit-message-template''"

text \<open>\<^verbatim>\<open>config.get(section, option, fallback=None)\<close>.\<close>

definition cfg_fallback :: "ini \<Rightarrow> string \<Rightarrow> string \<Rightarrow> string option" where
  "cfg_fallback f sect opt = (case ini_raw f sect opt of Inr v \<Rightarrow> Some v | Inl _ \<Rightarrow> None)"

text \<open>The file is None when there is none; \<open>expand\<close> is \<^verbatim>\<open>expanduser\<close>. The values of
  preferences are taken as they are written, this parser's other interpolation is left out.\<close>

definition UserPreferences :: "string option \<Rightarrow> (string \<Rightarrow> string) \<Rightarrow> ini option \<Rightarrow> user_preferences" where
  "UserPreferences xdg_data_home expand f =
     (let tokens = default_user_tokens_dir xdg_data_home in
      case f of
        None \<Rightarrow> \<lparr>up_user_name = None, up_user_email = None, up_uri = None, up_basedir = None, up_message = None,
                 up_tokens_dir = tokens, up_commit_template = default_commit_message_template\<rparr>
      | Some f \<Rightarrow>
          \<lparr>up_user_name = cfg_fallback f ''user'' ''name'', up_user_email = cfg_fallback f ''user'' ''email'',
           up_uri = cfg_fallback f ''prefs'' ''uri'',
           up_basedir = (case cfg_fallback f ''prefs'' ''basedir'' of
              None \<Rightarrow> None | Some d \<Rightarrow> if d = [] then Some [] else Some (expand d)),
           up_message = cfg_fallback f ''prefs'' ''message'',
           up_tokens_dir = expand (case cfg_fallback f ''prefs'' ''tokens'' of None \<Rightarrow> tokens | Some d \<Rightarrow> d),
           up_commit_template = expand (case cfg_fallback f ''prefs'' ''commit_template'' of
              None \<Rightarrow> default_commit_message_template | Some d \<Rightarrow> d)\<rparr>)"

section \<open>Properties\<close>

lemma interpolate_plain: "CHR ''$'' \<notin> set s \<Longrightarrow> interpolate (Suc n) f sect s = Inr s"
  by (induction s) auto

lemma cfg_get_plain: "ini_raw f sect opt = Inr v \<Longrightarrow> CHR ''$'' \<notin> set v \<Longrightarrow> cfg_get f sect opt = Inr v"
  using interpolate_plain [of v 9 f sect] by (simp add: cfg_get_def eval_nat_numeral)

lemma merge_options:
  "distinct (dict_keys d) \<Longrightarrow>
     dict_get (foldl (\<lambda>e (k, v). dict_set e k v) e d) o' = (case dict_get d o' of None \<Rightarrow> dict_get e o' | Some v \<Rightarrow> Some v)"
proof (induction d arbitrary: e)
  case (Cons x d)
  obtain k v where x: "x = (k, v)" by (cases x)
  from Cons.prems have "dict_get d k = None" "distinct (dict_keys d)"
    by (auto simp: x dict_keys_def dict_get_def map_of_eq_None_iff)
  with Cons.IH [of "dict_set e k v"] show ?case
    by (auto simp: x dict_get_def [of "(k, v) # d"] simp flip: dict_get_def split: option.splits)
qed (simp add: dict_get_def)

text \<open>A parsed file names each section once, and each option of a section once.\<close>

definition ini_wf :: "ini \<Rightarrow> bool" where
  "ini_wf f \<longleftrightarrow> distinct (dict_keys f) \<and> (\<forall>(s, d) \<in> set f. distinct (dict_keys d))"

lemma merge_sections:
  "ini_wf g \<Longrightarrow> dict_get (ini_merge f g) s =
     (case dict_get g s of
        None \<Rightarrow> dict_get f s
      | Some d \<Rightarrow> Some (foldl (\<lambda>e (k, v). dict_set e k v) (case dict_get f s of None \<Rightarrow> [] | Some e \<Rightarrow> e) d))"
proof (induction g arbitrary: f)
  case (Cons x g)
  obtain t d where x: "x = (t, d)" by (cases x)
  from Cons.prems have t: "dict_get g t = None" and g: "ini_wf g"
    by (auto simp: x ini_wf_def dict_keys_def dict_get_def map_of_eq_None_iff)
  show ?case
    using Cons.IH [OF g, of "ini_merge f [x]"] t
    by (auto simp: x ini_merge_def dict_get_def [of "(t, d) # g"] simp flip: dict_get_def split: option.splits)
qed (simp add: ini_merge_def dict_get_def)


definition example_vendor :: ini where
  "example_vendor = [(''tasks'', [(''workspaces'', ''/var/lib''), (''purge'', ''last:100'')]),
     (''keyring'', [(''expires'', ''no''), (''type'', ''rsa'')])]"

definition example_site :: ini where
  "example_site = [(''keyring'', [(''expires'', ''2y'')]), (''tasks'', [(''purge'', ''last'')])]"


lemma re_search_match_at: "re_search r s = Some g \<Longrightarrow> \<exists>t. re_match r t = Some g"
  by (induction r s rule: re_search.induct) (auto split: option.splits)



text \<open>\<^verbatim>\<open>RuntimeSubConfTasks.load\<close> makes the error of a purge policy without a value and does
  not raise it: the configuration is accepted, with no value.\<close>

theorem purge_without_value_accepted:
  assumes "cfg_path f ''tasks'' ''workspaces'' = Inr w" and "cfg_get f ''tasks'' ''purge'' = Inr p"
    and "CHR '':'' \<notin> set p" and "ini_raw f ''tasks'' ''hook'' = Inl NoOptionErr"
  shows "load_tasks f = Inr \<lparr>ct_workspaces = w, ct_purge_policy = p, ct_purge_value = None, ct_hook = None\<rparr>"
  using assms by (simp add: load_tasks_def cfg_path_def [of f "''tasks''" "''hook''"] cfg_get_def [of f "''tasks''" "''hook''"])

lemma purge_without_value_accepted_witness:
  "load_tasks (ini_merge example_vendor example_site) =
     Inr \<lparr>ct_workspaces = [''var'', ''lib''], ct_purge_policy = ''last'', ct_purge_value = None, ct_hook = None\<rparr>"
proof (rule purge_without_value_accepted)
  let ?f = "ini_merge example_vendor example_site"
  have f: "?f = [(''tasks'', [(''workspaces'', ''/var/lib''), (''purge'', ''last'')]),
      (''keyring'', [(''expires'', ''2y''), (''type'', ''rsa'')])]"
    by (simp add: example_vendor_def example_site_def ini_merge_def dict_get_def)
  have "cfg_get ?f ''tasks'' ''workspaces'' = Inr ''/var/lib''"
    by (rule cfg_get_plain) (simp_all add: f ini_raw_def dict_get_def)
  then show "cfg_path ?f ''tasks'' ''workspaces'' = Inr [''var'', ''lib'']"
    by (simp add: cfg_path_def path_parts_def)
  show "cfg_get ?f ''tasks'' ''purge'' = Inr ''last''"
    by (rule cfg_get_plain) (simp_all add: f ini_raw_def dict_get_def)
  show "ini_raw ?f ''tasks'' ''hook'' = Inl NoOptionErr" by (simp add: f ini_raw_def dict_get_def)
qed simp

end
