(* ===== verification/Images.thy ===== *)
theory Images imports Config Pipelines Registry begin

text \<open>
  \<^verbatim>\<open>fatbuildr/exec.py\<close>, \<^verbatim>\<open>fatbuildr/containers.py\<close>, \<^verbatim>\<open>fatbuildr/images.py\<close> and the
  bodies of the tasks of \<^verbatim>\<open>fatbuildr/tasks/images.py\<close>: the images of the formats and their
  build environments, and the commands that are run in them. What a command does to the
  file system, and its exit code, is a parameter; the state records the file system and the
  commands that have been run, in their order. The templates, the user that runs the server
  and the encoding of the tar file are parameters as well.
\<close>

section \<open>Running commands\<close>

record run_call =
  rn_cmd :: "string list"
  rn_env :: "(string \<times> string) list"
  rn_input :: "string option"

type_synonym runner = "run_call \<Rightarrow> node \<Rightarrow> nat \<times> node"

record sys_state =
  ss_fs :: node
  ss_log :: "run_call list"

definition on_sys :: "(node \<Rightarrow> node res) \<Rightarrow> ('a sys_state_scheme, unit) act" where
  "on_sys f = spart ss_fs (\<lambda>fs s. s\<lparr>ss_fs := fs\<rparr>) f"

definition ask_sys :: "(node \<Rightarrow> 'b res) \<Rightarrow> ('a sys_state_scheme, 'b) act" where
  "ask_sys f s = (f (ss_fs s), s)"

text \<open>A command that does not exit with 0 is a \<^verbatim>\<open>RuntimeError\<close>; its effects stay.\<close>

definition exec_runcmd :: "runner \<Rightarrow> run_call \<Rightarrow> ('a sys_state_scheme, unit) act" where
  "exec_runcmd X c s =
     (let (returncode, fs) = X c (ss_fs s) in
      ((if returncode \<noteq> 0 then Inl RuntimeErr else Inr ()), s\<lparr>ss_fs := fs, ss_log := ss_log s @ [c]\<rparr>))"

section \<open>Words of a command line\<close>

text \<open>\<^verbatim>\<open>shlex.split\<close>: the open quote, the word that is read if there is one, the rest.\<close>

definition shlex_space :: "char \<Rightarrow> bool" where
  "shlex_space c \<longleftrightarrow> c \<in> {CHR '' '', CHR 0x09, CHR 0x0A, CHR 0x0D}"

definition word_add :: "string option \<Rightarrow> string \<Rightarrow> string option" where
  "word_add w s = Some ((case w of None \<Rightarrow> [] | Some t \<Rightarrow> t) @ s)"

fun shlex_go :: "char option \<Rightarrow> string option \<Rightarrow> string \<Rightarrow> string list res" where
  "shlex_go None w [] = Inr (case w of None \<Rightarrow> [] | Some t \<Rightarrow> [t])"
| "shlex_go (Some q) w [] = Inl ValueErr"
| "shlex_go None w (c # s) =
     (if shlex_space c then (case w of None \<Rightarrow> shlex_go None None s | Some t \<Rightarrow> rmap ((#) t) (shlex_go None None s))
      else if c = CHR 0x27 \<or> c = CHR 0x22 then shlex_go (Some c) (word_add w []) s
      else if c = CHR 0x5C then (case s of [] \<Rightarrow> Inl ValueErr | d # t \<Rightarrow> shlex_go None (word_add w [d]) t)
      else shlex_go None (word_add w [c]) s)"
| "shlex_go (Some q) w (c # s) =
     (if c = q then shlex_go None w s
      else if c = CHR 0x5C \<and> q = CHR 0x22
      then (case s of
              [] \<Rightarrow> Inl ValueErr
            | d # t \<Rightarrow> shlex_go (Some q) (word_add w (if d = q \<or> d = CHR 0x5C then [d] else [c, d])) t)
      else shlex_go (Some q) (word_add w [c]) s)"

definition shlex_split :: "string \<Rightarrow> string list res" where
  "shlex_split s = shlex_go None None s"

text \<open>\<^verbatim>\<open>s.split('&&')\<close>.\<close>

fun split_and :: "string \<Rightarrow> string list" where
  "split_and [] = [[]]"
| "split_and (c # s) =
     (case s of
        [] \<Rightarrow> [[c]]
      | d # t \<Rightarrow> if c = CHR ''&'' \<and> d = CHR ''&'' then [] # split_and t
                 else (case split_and s of [] \<Rightarrow> [[c]] | y # ys \<Rightarrow> (c # y) # ys))"

section \<open>Images\<close>

record image =
  im_conf :: "unit runtime_conf"
  im_format :: string
  im_path :: path
  im_format_libdir :: path
  im_common_libdir :: path
  im_def_path :: path
  im_skel_path :: path

definition image_suffix :: "path \<Rightarrow> string \<Rightarrow> path" where
  "image_suffix p sfx = butlast p @ [with_suffix (List.last p) sfx]"

definition Image :: "unit runtime_conf \<Rightarrow> string \<Rightarrow> string \<Rightarrow> image" where
  "Image conf inst fmt =
     (let storage = ci_storage (rc_images conf); defs = ci_defs (rc_images conf) in
      \<lparr>im_conf = conf, im_format = fmt,
       im_path = image_suffix (joinpath (joinpath storage inst) fmt) ''.img'',
       im_format_libdir = joinpath defs fmt, im_common_libdir = joinpath defs ''common'',
       im_def_path = image_suffix (joinpath defs fmt) ''.mkosi'', im_skel_path = joinpath storage ''skeleton.tar''\<rparr>)"

definition image_exists :: "node \<Rightarrow> image \<Rightarrow> bool" where
  "image_exists fs i \<longleftrightarrow> fs_exists fs (im_path i)"

definition image_def_exists :: "node \<Rightarrow> image \<Rightarrow> bool" where
  "image_def_exists fs i \<longleftrightarrow> fs_exists fs (im_def_path i)"

definition image_conf :: "image \<Rightarrow> format_conf res" where
  "image_conf i = conf_format (im_conf i) (im_format i)"

definition image_builder :: "image \<Rightarrow> string res" where
  "image_builder i = rmap (\<lambda>c. fb_builder (fc_base c)) (image_conf i)"

definition image_prescript_deps :: "image \<Rightarrow> string list res" where
  "image_prescript_deps i = rbind (image_conf i) (\<lambda>c. rmap fb_prescript_deps (fc_env c))"

section \<open>Containers\<close>

datatype container_cmd = NoCmd | CmdStr string | CmdList "string list"

record container_args =
  ca_init :: bool
  ca_opts :: "string list option"
  ca_asroot :: bool
  ca_binds :: "path list"
  ca_chdir :: "string option"
  ca_envs :: "string list"
  ca_readonly :: bool

definition default_args :: container_args where
  "default_args = \<lparr>ca_init = False, ca_opts = None, ca_asroot = False, ca_binds = [], ca_chdir = None,
     ca_envs = [], ca_readonly = False\<rparr>"

definition cmd_words :: "container_cmd \<Rightarrow> string list res" where
  "cmd_words c = (case c of NoCmd \<Rightarrow> Inr [] | CmdStr s \<Rightarrow> shlex_split s | CmdList ws \<Rightarrow> Inr ws)"

definition option_pairs :: "string \<Rightarrow> string list \<Rightarrow> string list" where
  "option_pairs opt xs = concat (map (\<lambda>x. [opt, x]) xs)"

definition container_argv :: "string \<Rightarrow> node \<Rightarrow> image \<Rightarrow> container_args \<Rightarrow> string list" where
  "container_argv current_user fs i a =
     (let c = rc_containers (im_conf i); user = (if ca_asroot a then ''root'' else current_user) in
      [path_str (cc_exec c), ''--directory'', path_str (im_path i)]
      @ (if ca_readonly a then [''--volatile=state''] else [])
      @ option_pairs ''--bind'' (map path_str (filter (fs_exists fs) [im_format_libdir i, im_common_libdir i]))
      @ (if ca_init a then (case cc_init_opts c of None \<Rightarrow> [] | Some os \<Rightarrow> os) else [])
      @ (case ca_opts a of None \<Rightarrow> [] | Some os \<Rightarrow> os)
      @ (case cc_opts c of None \<Rightarrow> [] | Some os \<Rightarrow> os)
      @ (if user \<noteq> ''root'' then [''--user'', user] else [])
      @ option_pairs ''--bind'' (map path_str (ca_binds a))
      @ (case ca_chdir a of None \<Rightarrow> [] | Some d \<Rightarrow> [''--chdir'', d])
      @ option_pairs ''--setenv'' (ca_envs a))"

definition container_env :: "image \<Rightarrow> (string \<times> string) list" where
  "container_env i = (''NOTIFY_SOCKET'', ''/dev/null'')
     # (if cc_seccomp (rc_containers (im_conf i)) then [] else [(''SYSTEMD_SECCOMP'', ''0'')])"

text \<open>\<^verbatim>\<open>ContainerRunner.__call__\<close>.\<close>

definition crun :: "runner \<Rightarrow> string \<Rightarrow> image \<Rightarrow> container_cmd \<Rightarrow> container_args \<Rightarrow> ('a sys_state_scheme, unit) act" where
  "crun X current_user i cmd a =
     sbind (ask_sys (\<lambda>fs. Inr (container_argv current_user fs i a))) (\<lambda>argv.
     sbind (slift (cmd_words cmd)) (\<lambda>ws.
     exec_runcmd X \<lparr>rn_cmd = argv @ ws, rn_env = container_env i, rn_input = None\<rparr>))"

section \<open>Operations on images\<close>

record image_libs =
  il_run :: runner
  il_render :: "string \<Rightarrow> (string \<times> pyval) list \<Rightarrow> string res"
  il_tar :: "(string \<times> nat \<times> string) list \<Rightarrow> string"
  il_shlex_join :: "string list \<Rightarrow> string"
  il_user :: string
  il_group :: string
  il_uid :: int
  il_gid :: int
  il_host_arch :: string
  il_tmpfile :: path

definition skeleton_files :: "image_libs \<Rightarrow> base_conf \<Rightarrow> (string \<times> nat \<times> string) list" where
  "skeleton_files Q c =
     (let user = il_user Q; group = il_group Q; uid = int_str (il_uid Q); gid = int_str (il_gid Q); nl = [CHR 0x0A];
          dq = [CHR 0x22] in
      if fb_img_create_use_sysusersd c
      then [(''usr/lib/sysusers.d/fatbuildr.conf'', 420,
             ''g '' @ group @ '' '' @ gid @ nl @ ''u '' @ user @ '' '' @ uid @ '':'' @ gid @ '' '' @ dq @ ''Fatbuildr user'' @ dq @ nl)]
      else [(''etc/passwd'', 420,
             user @ '':x:'' @ uid @ '':'' @ gid @ '':Fatbuildr system user:/:/bin/false'' @ nl),
            (''etc/group'', 420, group @ '':x:'' @ gid @ '':'' @ nl),
            (''etc/gshadow'', 416, group @ '':!*::'' @ nl)])"

text \<open>\<^verbatim>\<open>cmd.insert(1, x)\<close>.\<close>

definition insert_second :: "'a \<Rightarrow> 'a list \<Rightarrow> 'a list" where
  "insert_second x xs = take 1 xs @ [x] @ drop 1 xs"

definition image_create :: "image_libs \<Rightarrow> bool \<Rightarrow> image \<Rightarrow> ('a sys_state_scheme, unit) act" where
  "image_create Q force i s =
     (if image_exists (ss_fs s) i \<and> \<not> force then (Inl RuntimeErr, s)
      else if \<not> image_def_exists (ss_fs s) i then (Inl RuntimeErr, s)
      else sbind (on_sys (\<lambda>fs. if fs_exists fs (im_skel_path i) then fs_unlink (im_skel_path i) fs else Inr fs)) (\<lambda>_.
        sbind (slift (image_conf i)) (\<lambda>c.
        sbind (on_sys (fs_write (im_skel_path i) (il_tar Q (skeleton_files Q (fc_base c))))) (\<lambda>_.
        sbind (slift (il_render Q (ci_create_cmd (rc_images (im_conf i)))
          [(''format'', PStr (im_format i)), (''definition'', PPath (path_str (im_def_path i))),
           (''path'', PPath (path_str (im_path i))), (''skeleton'', PStr (path_str (im_skel_path i))),
           (''user'', PStr (il_user Q)), (''group'', PStr (il_group Q)), (''uid'', PInt (il_uid Q)),
           (''gid'', PInt (il_gid Q))])) (\<lambda>line.
        let cmd = split_on CHR '' '' line in
        exec_runcmd (il_run Q) \<lparr>rn_cmd = (if force then insert_second ''--force'' cmd else cmd), rn_env = [], rn_input = None\<rparr>)))) s)"

definition root_args :: container_args where
  "root_args = default_args\<lparr>ca_init := True, ca_asroot := True\<rparr>"

definition term_args :: "string \<Rightarrow> container_args" where
  "term_args t = root_args\<lparr>ca_envs := [''TERM='' @ t]\<rparr>"

definition image_update :: "image_libs \<Rightarrow> image \<Rightarrow> ('a sys_state_scheme, unit) act" where
  "image_update Q i s =
     (if \<not> image_exists (ss_fs s) i then (Inl RuntimeErr, s)
      else sbind (slift (image_conf i)) (\<lambda>c.
        sfor (\<lambda>cmd. crun (il_run Q) (il_user Q) i (CmdStr cmd) root_args)
          (map str_strip (split_and (fb_img_update_cmds (fc_base c))))) s)"

definition image_shell :: "image_libs \<Rightarrow> string \<Rightarrow> image \<Rightarrow> ('a sys_state_scheme, unit) act" where
  "image_shell Q t i s =
     (if \<not> image_exists (ss_fs s) i then (Inl RuntimeErr, s) else crun (il_run Q) (il_user Q) i NoCmd (term_args t) s)"

definition image_execute :: "image_libs \<Rightarrow> string \<Rightarrow> string list \<Rightarrow> image \<Rightarrow> ('a sys_state_scheme, unit) act" where
  "image_execute Q t command i s =
     (if \<not> image_exists (ss_fs s) i then (Inl RuntimeErr, s)
      else crun (il_run Q) (il_user Q) i (CmdList command) (term_args t) s)"

section \<open>Build environments\<close>

record build_env =
  be_image :: image
  be_environment :: string
  be_architecture :: string
  be_pipelines :: pipelines

definition be_native_architecture :: "build_env \<Rightarrow> string" where
  "be_native_architecture e = archmap_native (im_format (be_image e)) (be_architecture e)"

definition be_base :: "build_env \<Rightarrow> string" where
  "be_base e = be_environment e @ ''-'' @ be_native_architecture e"

definition be_name :: "build_env \<Rightarrow> string" where
  "be_name e = ''fatbuildr-'' @ be_base e"

definition be_conf :: "build_env \<Rightarrow> env_conf res" where
  "be_conf e = rbind (image_conf (be_image e)) fc_env"

definition be_path :: "image_libs \<Rightarrow> build_env \<Rightarrow> path option res" where
  "be_path Q e =
     rbind (be_conf e) (\<lambda>c.
     if fb_env_path c = [] then Inr None
     else rmap (\<lambda>p. Some (path_parts p)) (il_render Q (fb_env_path c) [(''name'', PStr (be_name e))]))"

text \<open>The path of the environment inside the image.\<close>

definition be_exists :: "image_libs \<Rightarrow> node \<Rightarrow> build_env \<Rightarrow> bool res" where
  "be_exists Q fs e =
     rmap (\<lambda>p. case p of None \<Rightarrow> False | Some p \<Rightarrow> fs_exists fs (im_path (be_image e) @ p)) (be_path Q e)"

text \<open>A setting of the pipelines, or the default of the format, or None when the format has
  no such default.\<close>

definition or_default :: "pyval option \<Rightarrow> pyval res \<Rightarrow> pyval res" where
  "or_default v d =
     (case v of
        Some x \<Rightarrow> if x = PNone then rcatch d (\<lambda>e. e = AttributeErr) (\<lambda>_. Inr PNone) else Inr x
      | None \<Rightarrow> rcatch d (\<lambda>e. e = AttributeErr) (\<lambda>_. Inr PNone))"

definition be_vars :: "image_libs \<Rightarrow> build_env \<Rightarrow> (string \<times> pyval) list res" where
  "be_vars Q e =
     rmap (\<lambda>p. [(''name'', PStr (be_name e)), (''base'', PStr (be_base e)), (''environment'', PStr (be_environment e)),
          (''architecture'', PStr (be_native_architecture e)),
          (''path'', case p of None \<Rightarrow> PNone | Some q \<Rightarrow> PPath (path_str q))])
       (be_path Q e)"

definition be_create :: "image_libs \<Rightarrow> build_env \<Rightarrow> ('a sys_state_scheme, unit) act" where
  "be_create Q e =
     sbind (slift (
       rbind (image_conf (be_image e)) (\<lambda>fc. rbind (fc_env fc) (\<lambda>c.
       rbind (env_mirror (be_pipelines e) (be_environment e)) (\<lambda>m.
       rbind (or_default m (rmap PStr (fc_default_mirror fc))) (\<lambda>mirror.
       rbind (env_components (be_pipelines e) (be_environment e)) (\<lambda>k.
       rbind (or_default k (rmap PStr (fc_default_components fc))) (\<lambda>components.
       rbind (env_modules (be_pipelines e) (be_environment e)) (\<lambda>md.
       rbind (or_default md (rmap (\<lambda>ms. PList (map PStr ms)) (fc_default_modules fc))) (\<lambda>modules.
       rbind (be_vars Q e) (\<lambda>vars.
       rmap (Pair (fb_env_as_root c)) (rmapM (\<lambda>cmd. il_render Q (str_strip cmd)
          (vars @ [(''mirror'', mirror), (''components'', components), (''modules'', modules)])) (split_and (fb_init_cmds c))))))))))))))
     (\<lambda>(asroot, cmds).
        sfor (\<lambda>cmd. crun (il_run Q) (il_user Q) (be_image e) (CmdStr cmd) (default_args\<lparr>ca_init := True, ca_asroot := asroot\<rparr>)) cmds)"

definition be_update :: "image_libs \<Rightarrow> build_env \<Rightarrow> ('a sys_state_scheme, unit) act" where
  "be_update Q e =
     sbind (slift (rbind (be_conf e) (\<lambda>c. rbind (be_vars Q e) (\<lambda>vars.
       rmap (Pair (fb_env_as_root c)) (rmapM (\<lambda>cmd. il_render Q (str_strip cmd) vars) (split_and (fb_env_update_cmds c)))))))
     (\<lambda>(asroot, cmds).
        sfor (\<lambda>cmd. crun (il_run Q) (il_user Q) (be_image e) (CmdStr cmd) (default_args\<lparr>ca_init := True, ca_asroot := asroot\<rparr>)) cmds)"

definition be_shell :: "image_libs \<Rightarrow> string \<Rightarrow> build_env \<Rightarrow> ('a sys_state_scheme, unit) act" where
  "be_shell Q t e =
     sbind (slift (rbind (be_conf e) (\<lambda>c. rbind (be_vars Q e) (il_render Q (fb_shell_cmd c))))) (\<lambda>cmd.
     crun (il_run Q) (il_user Q) (be_image e) (CmdStr cmd) (term_args t))"

text \<open>The command is given in a temporary file or on the command line.\<close>

definition be_execute :: "image_libs \<Rightarrow> string \<Rightarrow> string list \<Rightarrow> build_env \<Rightarrow> ('a sys_state_scheme, unit) act" where
  "be_execute Q t command e =
     sbind (slift (rbind (be_conf e) (\<lambda>c. rbind (be_vars Q e) (\<lambda>vars.
       rmap (Pair (fb_exec_tmpfile c)) (il_render Q (fb_exec_cmd c) vars))))) (\<lambda>(tmpfile, base).
     if tmpfile
     then sbind (on_sys (fs_write (il_tmpfile Q) (il_shlex_join Q command))) (\<lambda>_.
          \<lambda>s. (let (r, s') = crun (il_run Q) (il_user Q) (be_image e) (CmdStr (base @ '' '' @ path_str (il_tmpfile Q)))
                    ((term_args t)\<lparr>ca_binds := [il_tmpfile Q]\<rparr>) s in
               case fs_unlink (il_tmpfile Q) (ss_fs s') of Inl _ \<Rightarrow> (r, s') | Inr fs \<Rightarrow> (r, s'\<lparr>ss_fs := fs\<rparr>)))
     else crun (il_run Q) (il_user Q) (be_image e) (CmdStr (base @ '' '' @ il_shlex_join Q command)) (term_args t))"

section \<open>The manager\<close>

record images_manager =
  mg_conf :: "unit runtime_conf"
  mg_instance :: running_instance

definition mg_image :: "images_manager \<Rightarrow> string \<Rightarrow> image" where
  "mg_image m fmt = Image (mg_conf m) (ri_id (mg_instance m)) fmt"

definition mg_build_env :: "images_manager \<Rightarrow> string \<Rightarrow> string \<Rightarrow> string \<Rightarrow> build_env" where
  "mg_build_env m fmt name architecture =
     \<lparr>be_image = mg_image m fmt, be_environment = name, be_architecture = architecture,
      be_pipelines = ri_pipelines (mg_instance m)\<rparr>"

text \<open>The directory is the one of the instance's name, where the images use its
  identifier.\<close>

definition mg_prepare :: "images_manager \<Rightarrow> ('a sys_state_scheme, unit) act" where
  "mg_prepare m =
     (let p = joinpath (ci_storage (rc_images (mg_conf m))) (ri_name (mg_instance m)) in
      on_sys (\<lambda>fs. if fs_exists fs p then Inr fs else fs_mkdir p fs))"

section \<open>Tasks\<close>

definition ImageCreationTask_run :: "image_libs \<Rightarrow> images_manager \<Rightarrow> string \<Rightarrow> bool \<Rightarrow> ('a sys_state_scheme, unit) act" where
  "ImageCreationTask_run Q m fmt force = sbind (mg_prepare m) (\<lambda>_. image_create Q force (mg_image m fmt))"

definition ImageUpdateTask_run :: "image_libs \<Rightarrow> images_manager \<Rightarrow> string \<Rightarrow> ('a sys_state_scheme, unit) act" where
  "ImageUpdateTask_run Q m fmt = image_update Q (mg_image m fmt)"

definition ImageShellTask_run :: "image_libs \<Rightarrow> images_manager \<Rightarrow> string \<Rightarrow> string \<Rightarrow> string list \<Rightarrow> ('a sys_state_scheme, unit) act" where
  "ImageShellTask_run Q m fmt t command =
     (if command = [] then image_shell Q t (mg_image m fmt) else image_execute Q t command (mg_image m fmt))"

definition ImageEnvironmentCreationTask_run ::
  "image_libs \<Rightarrow> images_manager \<Rightarrow> string \<Rightarrow> string \<Rightarrow> string \<Rightarrow> ('a sys_state_scheme, unit) act" where
  "ImageEnvironmentCreationTask_run Q m fmt environment architecture = be_create Q (mg_build_env m fmt environment architecture)"

definition ImageEnvironmentUpdateTask_run ::
  "image_libs \<Rightarrow> images_manager \<Rightarrow> string \<Rightarrow> string \<Rightarrow> string \<Rightarrow> ('a sys_state_scheme, unit) act" where
  "ImageEnvironmentUpdateTask_run Q m fmt environment architecture = be_update Q (mg_build_env m fmt environment architecture)"

definition ImageEnvironmentShellTask_run ::
  "image_libs \<Rightarrow> images_manager \<Rightarrow> string \<Rightarrow> string \<Rightarrow> string \<Rightarrow> string \<Rightarrow> string list \<Rightarrow> ('a sys_state_scheme, unit) act" where
  "ImageEnvironmentShellTask_run Q m fmt environment architecture t command =
     (let e = mg_build_env m fmt environment architecture in
      if command = [] then be_shell Q t e else be_execute Q t command e)"

end
