(* ===== verification/PatchQueue.thy ===== *)
theory PatchQueue imports GitRepo begin

text \<open>
  \<^verbatim>\<open>fatbuildr/patches.py\<close>: the patch queue of an artifact. It finds the source archives,
  those that are given first, then those of the definition file through the cache of the
  user, extracts them in a temporary directory, makes a git repository of them, imports the
  existing patches, lets the user work in a shell and exports the commits. The reading of
  an archive's members and the shell are parameters.
\<close>

section \<open>Source archives\<close>

text \<open>A \<^verbatim>\<open>WireSourceArchive\<close> or an \<^verbatim>\<open>ArtifactSourceArchive\<close>: an identifier and a file.\<close>

record file_source =
  so_id :: yaml
  so_path :: path

definition so_is_main :: "string \<Rightarrow> file_source \<Rightarrow> bool" where
  "so_is_main artifact a \<longleftrightarrow> so_id a = YStr artifact"

text \<open>Opening the archive. Identifiers are strings, the code joins them to paths.\<close>

definition open_source :: "(string \<Rightarrow> string \<Rightarrow> archive_file res) \<Rightarrow> node \<Rightarrow> file_source \<Rightarrow> source_archive res" where
  "open_source ropen fs a =
     (case so_id a of
        YStr i \<Rightarrow> rbind (fs_read fs (so_path a)) (\<lambda>content.
                  rmap (\<lambda>f. \<lparr>sa_id = i, sa_file = f\<rparr>) (ropen (List.last (so_path a)) content))
      | _ \<Rightarrow> Inl TypeErr)"

text \<open>The main version is read from the name of the archive:
  \<^verbatim>\<open>name[len(artifact) + 1 : -7]\<close>.\<close>

definition version_of_name :: "string \<Rightarrow> string \<Rightarrow> string" where
  "version_of_name artifact name = drop (length artifact + 1) (take (length name - 7) name)"

definition default_user_cache :: "string option \<Rightarrow> path \<Rightarrow> path" where
  "default_user_cache xdg_env home =
     (case xdg_env of
        None \<Rightarrow> home @ [''.local'', ''fatbuildr'']
      | Some d \<Rightarrow> if d = [] then home @ [''.local'', ''fatbuildr''] else path_parts d @ [''fatbuildr''])"

section \<open>The queue\<close>

record patch_queue =
  pq_apath :: path
  pq_derivative :: string
  pq_artifact :: string
  pq_defs :: artifact_defs
  pq_user :: string
  pq_email :: string
  pq_version :: "string option"
  pq_sources :: "file_source list"
  pq_main_source :: "file_source option"
  pq_supplementary :: "file_source list"

definition already_loaded_source :: "patch_queue \<Rightarrow> artifact_source_defs \<Rightarrow> bool" where
  "already_loaded_source q s \<longleftrightarrow>
     (case pq_main_source q of None \<Rightarrow> False | Some m \<Rightarrow> so_id m = asd_id s)
     \<or> (\<exists>a \<in> set (pq_supplementary q). so_id a = asd_id s)"

text \<open>\<^verbatim>\<open>_dl_tarball\<close>. The directory of the cache is made without its parents.\<close>

definition dl_tarball :: "build_libs \<Rightarrow> path \<Rightarrow> string \<Rightarrow> artifact_source_defs \<Rightarrow> (node, path) act" where
  "dl_tarball L cache_dir derivative s =
     sbind (spart (\<lambda>fs. fs) (\<lambda>n _. n) (\<lambda>fs. if fs_exists fs cache_dir then Inr fs else fs_mkdir cache_dir fs)) (\<lambda>_.
     sbind (slift (source_filename L derivative s)) (\<lambda>name.
     let tarball_path = joinpath cache_dir name in
     sbind (\<lambda>fs. if fs_exists fs tarball_path then (Inr (), fs)
        else sbind (slift (source_url L derivative s)) (\<lambda>url.
          spart (\<lambda>fs. fs) (\<lambda>n _. n) (dl_file L url tarball_path)) fs) (\<lambda>_.
     sbind (slift (source_checksums L derivative s)) (\<lambda>cs.
     sbind (\<lambda>fs. (verify_checksums L fs tarball_path cs, fs)) (\<lambda>_. sret tarball_path)))))"

definition load_given :: "patch_queue \<Rightarrow> patch_queue" where
  "load_given q = foldl (\<lambda>q source.
     if so_is_main (pq_artifact q) source
     then q\<lparr>pq_main_source := Some source,
            pq_version := Some (version_of_name (pq_artifact q) (List.last (so_path source)))\<rparr>
     else q\<lparr>pq_supplementary := pq_supplementary q @ [source]\<rparr>) q (pq_sources q)"

definition load_defined ::
  "build_libs \<Rightarrow> path \<Rightarrow> artifact_source_defs \<Rightarrow> patch_queue \<Rightarrow> (node, patch_queue) act" where
  "load_defined L cache_dir s q =
     (if already_loaded_source q s then sret q
      else sbind (dl_tarball L cache_dir (pq_derivative q) s) (\<lambda>p.
        let a = \<lparr>so_id = asd_id s, so_path = p\<rparr> in
        if asd_id s = YStr (pq_artifact q)
        then sbind (slift (source_version L (pq_derivative q) s)) (\<lambda>v.
             sret (q\<lparr>pq_main_source := Some a, pq_version := Some v\<rparr>))
        else sret (q\<lparr>pq_supplementary := pq_supplementary q @ [a]\<rparr>)))"

fun load_sources ::
  "build_libs \<Rightarrow> path \<Rightarrow> artifact_source_defs list \<Rightarrow> patch_queue \<Rightarrow> (node, patch_queue) act" where
  "load_sources L cache_dir [] q = sret q"
| "load_sources L cache_dir (s # ss) q = sbind (load_defined L cache_dir s q) (load_sources L cache_dir ss)"

text \<open>The extraction of all the archives; a queue without a main one has nothing to call.\<close>

definition extract_sources ::
  "(string \<Rightarrow> string \<Rightarrow> archive_file res) \<Rightarrow> (path \<Rightarrow> string \<Rightarrow> node \<Rightarrow> node res) \<Rightarrow> bool \<Rightarrow> path \<Rightarrow> string \<Rightarrow>
   file_source option \<Rightarrow> file_source list \<Rightarrow> node \<Rightarrow> (path \<times> node) res" where
  "extract_sources ropen link with_symlinks output artifact main_archive supplementary fs =
     (case main_archive of
        None \<Rightarrow> Inl AttributeErr
      | Some m \<Rightarrow>
          rbind (open_source ropen fs m) (\<lambda>ma.
          rbind (rmapM (open_source ropen fs) supplementary) (\<lambda>sas.
          extract_artifact_sources_archives link with_symlinks output artifact ma sas [] fs)))"

text \<open>From the extraction on, the state is the one of the repository. The changes that the
  user makes in the shell are a function of that state.\<close>

definition pq_work ::
  "git_libs \<Rightarrow> (git_state \<Rightarrow> git_state) option \<Rightarrow> patch_queue \<Rightarrow> path \<Rightarrow> path \<Rightarrow> string \<Rightarrow> (git_state, unit) act" where
  "pq_work G shell q tmpdir repo_path version =
     (let patches_dir = PatchesDir (pq_apath q) version in
      sbind (GitRepository repo_path (pq_user q) (pq_email q)) (\<lambda>_.
      sbind (import_patches G patches_dir) (\<lambda>_.
      sbind (case shell of None \<Rightarrow> sret () | Some f \<Rightarrow> smodify f) (\<lambda>_.
      sbind (export_queue G patches_dir) (\<lambda>_.
      git_fs (fs_rmtree tmpdir))))))"

definition git_init_state :: "node \<Rightarrow> git_state" where
  "git_init_state fs = \<lparr>gs_fs = fs, gs_path = [], gs_index = Dir [], gs_commits = []\<rparr>"

definition pq_run ::
  "build_libs \<Rightarrow> git_libs \<Rightarrow> (string \<Rightarrow> string \<Rightarrow> archive_file res) \<Rightarrow> (path \<Rightarrow> string \<Rightarrow> node \<Rightarrow> node res) \<Rightarrow>
   path \<Rightarrow> path \<Rightarrow> (git_state \<Rightarrow> git_state) option \<Rightarrow> patch_queue \<Rightarrow> (node, unit) act" where
  "pq_run L G ropen link cache_dir tmpdir shell q =
     sbind (load_sources L cache_dir (ad_sources (pq_defs q)) (load_given q)) (\<lambda>q.
     sbind (spart (\<lambda>fs. fs) (\<lambda>n _. n) (fs_mkdir tmpdir)) (\<lambda>_.
     \<lambda>fs. (case extract_sources ropen link True tmpdir (pq_artifact q) (pq_main_source q) (pq_supplementary q) fs of
             Inl e \<Rightarrow> (Inl e, fs)
           | Inr (repo_path, fs1) \<Rightarrow>
               (case pq_version q of
                  None \<Rightarrow> (Inl TypeErr, fs1)
                | Some version \<Rightarrow>
                    (let (r, s) = pq_work G shell q tmpdir repo_path version (git_init_state fs1) in (r, gs_fs s))))))"

end
