(* ===== verification/BuildPrepare.thy ===== *)
theory BuildPrepare imports Images PatchQueue begin

text \<open>
  \<^verbatim>\<open>fatbuildr/builds/__init__.py\<close>: the preparation of the build of an artifact. The state
  is the file system with the commands that have been run, and the attributes of the build.
  What the formats add, the command that runs the prescript and the path of the archives it
  makes, are arguments. The dates, symbolic links, the content of a tar file and the reading
  of an archive are fields of the record of libraries.
\<close>

section \<open>The build\<close>

record build = sys_state +
  b_id :: string
  b_place :: path
  b_artifact :: string
  b_format :: string
  b_distribution :: string
  b_architectures :: "string list"
  b_derivative :: string
  b_derivatives :: "string list"
  b_author :: string
  b_email :: string
  b_message :: string
  b_input_tarball :: path
  b_sources :: "file_source list"
  b_cache_dir :: path
  b_defs :: "artifact_defs option"
  b_version :: "artifact_version option"
  b_archives :: "file_source list"
  b_patches_dir :: "patches_dir option"
  b_patches :: "path list"
  b_prescript_tarballs :: "file_source list"
  b_env_name :: string
  b_interactive :: bool

record registry_ops =
  ro_path :: path
  ro_source_version :: "node \<Rightarrow> string \<Rightarrow> string \<Rightarrow> string \<Rightarrow> artifact_version option res"
  ro_source_changelog :: "node \<Rightarrow> string \<Rightarrow> string \<Rightarrow> string \<Rightarrow> string res"
  ro_changelog :: "node \<Rightarrow> string \<Rightarrow> string \<Rightarrow> string \<Rightarrow> string \<Rightarrow> changelog_entry list res"
  ro_publish :: "build \<Rightarrow> node res"

record build_world =
  bw_libs :: build_libs
  bw_git :: git_libs
  bw_images :: image_libs
  bw_manager :: images_manager
  bw_registry :: registry_ops
  bw_open :: "string \<Rightarrow> string \<Rightarrow> archive_file res"
  bw_link :: "path \<Rightarrow> string \<Rightarrow> node \<Rightarrow> node res"
  bw_mktar :: "string \<Rightarrow> node \<Rightarrow> string"
  bw_encode :: "archive_file \<Rightarrow> string"
  bw_mktime :: "nat list \<Rightarrow> int"
  bw_day :: string
  bw_date :: string
  bw_key_export :: "string res"

type_synonym 'a bact = "(build, 'a) act"

definition sask :: "('s \<Rightarrow> 'a res) \<Rightarrow> ('s, 'a) act" where
  "sask f s = (f s, s)"

definition sdo :: "('s \<Rightarrow> ('s, 'a) act) \<Rightarrow> ('s, 'a) act" where
  "sdo f s = f s s"

text \<open>An operation of the git repository, on the file system of the build.\<close>

definition with_git :: "git_state \<Rightarrow> (git_state, 'a) act \<Rightarrow> ('a \<times> git_state) bact" where
  "with_git g m b = (let (r, g') = m (g\<lparr>gs_fs := ss_fs b\<rparr>) in (rmap (\<lambda>x. (x, g')) r, b\<lparr>ss_fs := gs_fs g'\<rparr>))"

definition the_version :: "build \<Rightarrow> artifact_version res" where
  "the_version b = (case b_version b of None \<Rightarrow> Inl AttributeErr | Some v \<Rightarrow> Inr v)"

definition the_defs :: "build \<Rightarrow> artifact_defs res" where
  "the_defs b = (case b_defs b of None \<Rightarrow> Inl AttributeErr | Some d \<Rightarrow> Inr d)"

definition the_patches_dir :: "build \<Rightarrow> patches_dir res" where
  "the_patches_dir b = (case b_patches_dir b of None \<Rightarrow> Inl AttributeErr | Some d \<Rightarrow> Inr d)"

section \<open>Archives\<close>

definition build_archive :: "build \<Rightarrow> yaml \<Rightarrow> file_source option" where
  "build_archive b searched_id = List.find (\<lambda>a. so_id a = searched_id) (b_archives b)"

definition main_archive :: "build \<Rightarrow> file_source option" where
  "main_archive b = build_archive b (YStr (b_artifact b))"

definition supplementary_archives :: "build \<Rightarrow> file_source list" where
  "supplementary_archives b = filter (\<lambda>a. \<not> so_is_main (b_artifact b) a) (b_archives b)"

definition archive_in_build_place :: "build \<Rightarrow> file_source \<Rightarrow> bool" where
  "archive_in_build_place b a \<longleftrightarrow> prefix (b_place b) (so_path a)"

definition open_path :: "build_world \<Rightarrow> path \<Rightarrow> node \<Rightarrow> archive_file res" where
  "open_path W p fs = rbind (fs_read fs p) (bw_open W (List.last p))"

section \<open>Patches\<close>

definition patch_selected :: "build \<Rightarrow> deb822 \<Rightarrow> bool res" where
  "patch_selected b meta =
     rbind (if d822_has meta ''Formats'' then in_field meta ''Formats'' (b_format b) else Inr True) (\<lambda>f.
     if \<not> f then Inr False
     else if d822_has meta ''Distributions'' then in_field meta ''Distributions'' (b_distribution b) else Inr True)"

fun filter_res :: "('a \<Rightarrow> bool res) \<Rightarrow> 'a list \<Rightarrow> 'a list res" where
  "filter_res f [] = Inr []"
| "filter_res f (x # xs) = rbind (f x) (\<lambda>k. rmap (\<lambda>ys. if k then x # ys else ys) (filter_res f xs))"

definition selected_patches :: "build_world \<Rightarrow> build \<Rightarrow> path list res" where
  "selected_patches W b =
     rbind (the_patches_dir b) (\<lambda>d. rmap concat (rmapM (\<lambda>sub.
       if \<not> fs_exists (ss_fs b) sub then Inr []
       else rbind (subdir_patches (ss_fs b) sub)
              (filter_res (\<lambda>p. rbind (pf_meta (bw_git W) (ss_fs b) p) (patch_selected b)))) (pd_subdirs d)))"

definition check_image_exists :: "build_world \<Rightarrow> unit bact" where
  "check_image_exists W b =
     ((if image_exists (ss_fs b) (mg_image (bw_manager W) (b_format b)) then Inr () else Inl FatbuildrTaskExecutionError), b)"

text \<open>\<^verbatim>\<open>ArtifactBuild.cruncmd\<close> binds the place of the build, its cache and the registry when
  there is one.\<close>

definition build_cruncmd :: "build_world \<Rightarrow> container_cmd \<Rightarrow> container_args \<Rightarrow> unit bact" where
  "build_cruncmd W cmd a = sdo (\<lambda>b.
     let reg = ro_path (bw_registry W);
         binds = [b_place b, b_cache_dir b] @ (if fs_exists (ss_fs b) reg then [reg] else []) in
     crun (il_run (bw_images W)) (il_user (bw_images W)) (mg_image (bw_manager W) (b_format b)) cmd
       (a\<lparr>ca_init := False, ca_binds := binds\<rparr>))"

definition build_runcmd :: "build_world \<Rightarrow> string list \<Rightarrow> (string \<times> string) list \<Rightarrow> unit bact" where
  "build_runcmd W cmd env = exec_runcmd (il_run (bw_images W)) \<lparr>rn_cmd = cmd, rn_env = env, rn_input = None\<rparr>"

section \<open>Sources\<close>

text \<open>The input archive is extracted in the place of the build, and removed.\<close>

definition prepare_input :: "build_world \<Rightarrow> unit bact" where
  "prepare_input W =
     sbind (sask (\<lambda>b. open_path W (b_input_tarball b) (ss_fs b))) (\<lambda>a.
     sbind (sdo (\<lambda>b. on_sys (\<lambda>fs. rmap snd (ar_extract (b_place b) 0 a fs)))) (\<lambda>_.
     sbind (sdo (\<lambda>b. on_sys (fs_unlink (b_input_tarball b)))) (\<lambda>_.
     sdo (\<lambda>b. on_sys (cache_ensure (b_cache_dir b))))))"

definition prepare_defs :: "build_world \<Rightarrow> unit bact" where
  "prepare_defs W =
     sbind (sask (\<lambda>b. ArtifactDefsFactory_get (bw_libs W) (b_place b) (b_artifact b) (b_format b) (ss_fs b))) (\<lambda>d.
     smodify (\<lambda>b. b\<lparr>b_defs := Some d\<rparr>))"

definition has_no_source :: "build \<Rightarrow> bool res" where
  "has_no_source b =
     (if b_sources b \<noteq> [] then Inr False
      else rbind (the_defs b) (\<lambda>d. case main_source d of None \<Rightarrow> Inl AttributeErr | Some s \<Rightarrow> rmap Not (has_source s)))"

definition default_version :: "build_world \<Rightarrow> build \<Rightarrow> artifact_version res" where
  "default_version W b =
     rbind (the_defs b) (\<lambda>d. rbind (fullversion (bw_libs W) (b_derivative b) d) ArtifactVersion_init)"

definition shutil_move :: "path \<Rightarrow> path \<Rightarrow> node \<Rightarrow> node res" where
  "shutil_move p q fs =
     (if fs_is_dir fs q
      then (if fs_exists fs (q @ [List.last p]) then Inl OSErr else fs_rename p (q @ [List.last p]) fs)
      else fs_rename p q fs)"

definition fs_rmdir :: "path \<Rightarrow> node \<Rightarrow> node res" where
  "fs_rmdir p fs =
     (case lookup p fs of None \<Rightarrow> Inl FileNotFoundErr | Some (Dir []) \<Rightarrow> del p fs | _ \<Rightarrow> Inl OSErr)"

text \<open>A source that came with the request: it is moved, and when it is the main one its name
  gives the version.\<close>

definition use_source :: "build_world \<Rightarrow> file_source \<Rightarrow> unit bact" where
  "use_source W source =
     sdo (\<lambda>b. let name = List.last (so_path source); target = joinpath (b_place b) name in
       sbind (on_sys (shutil_move (so_path source) target)) (\<lambda>_.
       sbind (if so_is_main (b_artifact b) source
              then sbind (sask (\<lambda>b. rbind (the_defs b) (\<lambda>d. rbind (artifact_release (bw_libs W) d) (\<lambda>r.
                     ArtifactVersion_init (version_of_name (b_artifact b) name @ ''-'' @ r)))))
                   (\<lambda>v. smodify (\<lambda>b. b\<lparr>b_version := Some v\<rparr>))
              else sret ()) (\<lambda>_.
       smodify (\<lambda>b. b\<lparr>b_archives := b_archives b @ [\<lparr>so_id = so_id source, so_path = target\<rparr>]\<rparr>))))"

text \<open>The tag of the distribution, which the definition file of the instance gives as a
  string.\<close>

definition dist_of :: "build_world \<Rightarrow> build \<Rightarrow> string option res" where
  "dist_of W b =
     rbind (dist_tag (ri_pipelines (mg_instance (bw_manager W))) (b_distribution b)) (\<lambda>t.
     case t of PStr s \<Rightarrow> Inr (Some s) | PNone \<Rightarrow> Inr None | PInt i \<Rightarrow> Inr (Some (int_str i)) | _ \<Rightarrow> Inl TypeErr)"

definition prepare_version :: "build_world \<Rightarrow> unit bact" where
  "prepare_version W =
     sbind (sdo (\<lambda>b. case b_version b of
         Some _ \<Rightarrow> sret ()
       | None \<Rightarrow> sbind (sask (default_version W)) (\<lambda>v. smodify (\<lambda>b. b\<lparr>b_version := Some v\<rparr>)))) (\<lambda>_.
     sbind (sask (dist_of W)) (\<lambda>t.
     smodify (\<lambda>b. b\<lparr>b_version := map_option (\<lambda>v. v\<lparr>ver_dist := t\<rparr>) (b_version b)\<rparr>)))"

text \<open>A source of the definition file: from the cache, or downloaded to it; its checksums are
  verified in both cases.\<close>

definition cached_path :: "build_world \<Rightarrow> yaml \<Rightarrow> build \<Rightarrow> path res" where
  "cached_path W i b = rbind (the_defs b) (\<lambda>d. cache_archive (bw_libs W) (b_cache_dir b) (b_derivative b) d i)"

definition ensure_cached :: "build_world \<Rightarrow> artifact_source_defs \<Rightarrow> unit bact" where
  "ensure_cached W s =
     sbind (sask (cached_path W (asd_id s))) (\<lambda>p. sdo (\<lambda>b.
     if fs_exists (ss_fs b) p then sret ()
     else sbind (slift (source_url (bw_libs W) (b_derivative b) s)) (\<lambda>url.
          on_sys (dl_file (bw_libs W) url p))))"

definition check_source :: "build_world \<Rightarrow> artifact_source_defs \<Rightarrow> build \<Rightarrow> unit res" where
  "check_source W s b =
     rcatch (rbind (source_checksums (bw_libs W) (b_derivative b) s) (\<lambda>cs.
             rbind (cached_path W (asd_id s) b) (\<lambda>p. verify_checksums (bw_libs W) (ss_fs b) p cs)))
       (\<lambda>e. e = FatbuildrArtifactError) (\<lambda>_. Inl FatbuildrTaskExecutionError)"

definition fetch_source :: "build_world \<Rightarrow> artifact_source_defs \<Rightarrow> unit bact" where
  "fetch_source W s = sdo (\<lambda>b.
     if build_archive b (asd_id s) \<noteq> None then sret ()
     else sbind (ensure_cached W s) (\<lambda>_.
          sbind (sask (check_source W s)) (\<lambda>_.
          sbind (sask (cached_path W (asd_id s))) (\<lambda>p.
          smodify (\<lambda>b. b\<lparr>b_archives := b_archives b @ [\<lparr>so_id = asd_id s, so_path = p\<rparr>]\<rparr>)))))"

section \<open>The tree of the sources in git\<close>

definition prepare_git_build_tree :: "build_world \<Rightarrow> (path \<times> path \<times> git_state) bact" where
  "prepare_git_build_tree W = sdo (\<lambda>b.
     let upstream_dir = joinpath (b_place b) ''upstream'' in
     sbind (on_sys (fs_mkdir upstream_dir)) (\<lambda>_.
     sbind (sask (\<lambda>b. extract_sources (bw_open W) (bw_link W) False upstream_dir (b_artifact b) (main_archive b)
         (supplementary_archives b) (ss_fs b))) (\<lambda>(archive_subdir, fs).
     sbind (smodify (\<lambda>b. b\<lparr>ss_fs := fs\<rparr>)) (\<lambda>_.
     sbind (sask the_patches_dir) (\<lambda>d.
     sbind (with_git (git_init_state (ss_fs b))
         (sbind (GitRepository archive_subdir (b_author b) (b_email b)) (\<lambda>_ g.
            if pd_empty (gs_fs g) d then sret () g else import_patches (bw_git W) d g))) (\<lambda>(_, g).
     sret (upstream_dir, archive_subdir, g)))))))"

text \<open>The write permission is given back to the directories, then the tree is removed.\<close>

definition cleanup_git_build_tree :: "path \<Rightarrow> unit bact" where
  "cleanup_git_build_tree upstream_dir = on_sys (fs_rmtree upstream_dir)"

definition id_str :: "yaml \<Rightarrow> string res" where
  "id_str y = (case y of YStr s \<Rightarrow> Inr s | _ \<Rightarrow> Inl TypeErr)"

definition link_supplementary :: "build_world \<Rightarrow> path \<Rightarrow> file_source \<Rightarrow> unit bact" where
  "link_supplementary W archive_subdir a =
     sbind (slift (id_str (so_id a))) (\<lambda>i.
     sbind (sask (\<lambda>b. open_path W (so_path a) (ss_fs b))) (\<lambda>f.
     on_sys (bw_link W (joinpath archive_subdir i) (sanitized_stem (ar_stem f)))))"

definition supplementary_archives_symlinks_patch :: "build_world \<Rightarrow> unit bact" where
  "supplementary_archives_symlinks_patch W =
     sbind (prepare_git_build_tree W) (\<lambda>(upstream_dir, archive_subdir, g). sdo (\<lambda>b.
     sbind (sfor (link_supplementary W archive_subdir) (supplementary_archives b)) (\<lambda>_.
     sbind (sask the_patches_dir) (\<lambda>d.
     sbind (slift (rmapM (id_str \<circ> so_id) (supplementary_archives b))) (\<lambda>files.
     sbind (with_git g (commit_export (bw_git W) (bw_day W) d (version_subdir d) 9998
         ''fatbuildr-supplementary-sources-symlinks'' (b_author b) (b_email b)
         ''Patch generated by fatbuildr to symlink artifact supplementary source archives subdirectories'' (Some files))) (\<lambda>_.
     cleanup_git_build_tree upstream_dir))))))"

section \<open>The prescript\<close>

definition prescript_path :: "build \<Rightarrow> path" where
  "prescript_path b = joinpath (b_place b) ''pre.sh''"

definition prescript_get_token_lines :: "string \<Rightarrow> string \<Rightarrow> string list list" where
  "prescript_get_token_lines text token =
     filter (\<lambda>items. 2 \<le> length items)
       (map (\<lambda>l. split_on CHR '' '' (str_strip l)) (filter (\<lambda>l. startswith l token) (text_lines text)))"

definition token_values :: "string \<Rightarrow> string \<Rightarrow> string \<Rightarrow> string list" where
  "token_values text token name =
     (case List.find (\<lambda>items. name \<in> set (split_on CHR '','' (split_on CHR '':'' (hd items) ! 1)))
             (prescript_get_token_lines text token) of
        None \<Rightarrow> []
      | Some items \<Rightarrow> drop 1 items)"

definition prescript_token_distribution :: "build \<Rightarrow> string \<Rightarrow> string \<Rightarrow> string list" where
  "prescript_token_distribution b text token =
     token_values text (''#PRESCRIPT_'' @ token @ ''@distributions:'') (b_distribution b)"

definition prescript_token_format :: "build \<Rightarrow> string \<Rightarrow> string \<Rightarrow> string list" where
  "prescript_token_format b text token = token_values text (''#PRESCRIPT_'' @ token @ ''@formats:'') (b_format b)"

definition prescript_token_generic :: "string \<Rightarrow> string \<Rightarrow> string list" where
  "prescript_token_generic text token =
     (case prescript_get_token_lines text (''#PRESCRIPT_'' @ token @ '' '') of [] \<Rightarrow> [] | items # _ \<Rightarrow> drop 1 items)"

definition prescript_token :: "build \<Rightarrow> string \<Rightarrow> string list res" where
  "prescript_token b token =
     (if \<not> fs_exists (ss_fs b) (prescript_path b) then Inr []
      else rmap (\<lambda>text.
        let d = prescript_token_distribution b text token; f = prescript_token_format b text token in
        if d \<noteq> [] then d else if f \<noteq> [] then f else prescript_token_generic text token)
        (fs_read (ss_fs b) (prescript_path b)))"

text \<open>The union of the two lists; the order of the set is left to the caller.\<close>

definition prescript_deps :: "build_world \<Rightarrow> build \<Rightarrow> string list res" where
  "prescript_deps W b =
     rbind (prescript_token b ''DEPS'') (\<lambda>in_file.
     rmap (\<lambda>deps. remdups (deps @ in_file)) (image_prescript_deps (mg_image (bw_manager W) (b_format b))))"

definition defined_prescript_tarballs :: "build \<Rightarrow> string list res" where
  "defined_prescript_tarballs b = prescript_token b ''TARBALLS''"

definition prescript_supp_subdir_renamed :: "build_world \<Rightarrow> build \<Rightarrow> string \<Rightarrow> string" where
  "prescript_supp_subdir_renamed W b subdir =
     sanitized_stem subdir @ ''-'' @ bw_date W @ ''-'' @ take 8 (b_id b)"

text \<open>What a format adds to the prescript: running it in its environment, and the path of a
  supplementary archive.\<close>

record prescript_ops =
  po_in_env :: "path \<Rightarrow> unit bact"
  po_tarball_path :: "string \<Rightarrow> path bact"

definition prescript_supp_tarball :: "build_world \<Rightarrow> prescript_ops \<Rightarrow> path \<Rightarrow> string \<Rightarrow> unit bact" where
  "prescript_supp_tarball W P tarball_subdir subdir = sdo (\<lambda>b.
     let renamed = joinpath tarball_subdir (prescript_supp_subdir_renamed W b subdir) in
     sbind (po_tarball_path P subdir) (\<lambda>p.
     sbind (on_sys (\<lambda>fs. if fs_exists fs p then Inl FileExistsErr
        else case lookup renamed fs of
               None \<Rightarrow> Inl FileNotFoundErr
             | Some n \<Rightarrow> fs_write p (bw_mktar W (List.last renamed) n) fs)) (\<lambda>_.
     smodify (\<lambda>b. b\<lparr>b_prescript_tarballs := b_prescript_tarballs b @ [\<lparr>so_id = YStr subdir, so_path = p\<rparr>]\<rparr>))))"

text \<open>A subdirectory gets a unique name, and a relative link from its old place.\<close>

definition rename_subdir :: "build_world \<Rightarrow> path \<Rightarrow> string \<Rightarrow> unit bact" where
  "rename_subdir W archive_subdir subdir = sdo (\<lambda>b.
     let subdir_path = joinpath archive_subdir subdir;
         target = joinpath archive_subdir (prescript_supp_subdir_renamed W b subdir) in
     sbind (on_sys (fs_rename subdir_path target)) (\<lambda>_.
     on_sys (bw_link W subdir_path
       (str_join ''/'' (replicate (length (path_parts subdir) - 1) ''..'' @ [List.last target])))))"

definition prescript :: "build_world \<Rightarrow> prescript_ops \<Rightarrow> unit bact" where
  "prescript W P = sdo (\<lambda>b.
     if \<not> fs_exists (ss_fs b) (prescript_path b) then sret ()
     else sbind (prepare_git_build_tree W) (\<lambda>(upstream_dir, archive_subdir, g).
       sbind (po_in_env P archive_subdir) (\<lambda>_.
       sbind (sask defined_prescript_tarballs) (\<lambda>subdirs.
       sbind (sask the_patches_dir) (\<lambda>d.
       sbind (if subdirs \<noteq> []
          then sbind (sfor (rename_subdir W archive_subdir) subdirs) (\<lambda>_.
               sbind (sfor (prescript_supp_tarball W P archive_subdir) subdirs) (\<lambda>_.
               with_git g (commit_export (bw_git W) (bw_day W) d (version_subdir d) 9999
                 ''fatbuildr-prescript-symlinks'' (b_author b) (b_email b)
                 ''Patch generated by fatbuildr to symlink prescript supplementary tarballs subdirectories'' (Some subdirs))))
          else with_git g (commit_export (bw_git W) (bw_day W) d (version_subdir d) 9999
                 ''fatbuildr-prescript'' (b_author b) (b_email b) ''Patch generated by artifact pre-script.'' None)) (\<lambda>_.
       cleanup_git_build_tree upstream_dir))))))"

section \<open>Templates\<close>

definition with_patch_git :: "(git_state, unit) act \<Rightarrow> unit bact" where
  "with_patch_git m = sdo (\<lambda>b. sbind (with_git (git_init_state (ss_fs b)) m) (\<lambda>_. sret ()))"

definition render_patch :: "build_world \<Rightarrow> path \<Rightarrow> unit bact" where
  "render_patch W p =
     sbind (sask (\<lambda>b. pf_template (bw_git W) (ss_fs b) p)) (\<lambda>t.
     if t then sbind (sask the_version) (\<lambda>v. with_patch_git (pf_render (bw_libs W) v p)) else sret ())"

text \<open>The destination is opened, and emptied, before the template is rendered.\<close>

definition render_file :: "build_world \<Rightarrow> path \<Rightarrow> path \<Rightarrow> unit bact" where
  "render_file W tpl dest =
     sbind (on_sys (fs_write dest [])) (\<lambda>_.
     sbind (sask (\<lambda>b. rbind (fs_read (ss_fs b) tpl) (\<lambda>t. rbind (the_version b) (lib_frender (bw_libs W) t)))) (\<lambda>text.
     on_sys (fs_write dest text)))"

text \<open>A rule of the rename index: two words; anything else is skipped.\<close>

definition rename_rule :: "path \<Rightarrow> string \<Rightarrow> node \<Rightarrow> node res" where
  "rename_rule place line fs =
     (case split_on CHR '' '' (str_strip line) of
        [src, dest] \<Rightarrow> if fs_exists fs (joinpath place src)
                      then fs_rename (joinpath place src) (joinpath place dest) fs else Inr fs
      | _ \<Rightarrow> Inr fs)"

definition apply_renames :: "build_world \<Rightarrow> unit bact" where
  "apply_renames W = sdo (\<lambda>b.
     let idx = joinpath (b_place b) ''rename''; tpl = path_with_suffix idx ''.j2'' in
     sbind (if fs_exists (ss_fs b) tpl then render_file W tpl idx else sret ()) (\<lambda>_. sdo (\<lambda>b.
     if \<not> fs_exists (ss_fs b) idx then sret ()
     else sbind (sask (\<lambda>b. fs_read (ss_fs b) idx)) (\<lambda>text.
          sfor (\<lambda>line. on_sys (rename_rule (b_place b) line)) (text_lines text)))))"

text \<open>The paths below a directory, itself excepted.\<close>

lemma node_below_size: "(x, n) \<in> set es \<Longrightarrow> size n < size (Dir es)"
  by (induction es) auto

function tree_paths :: "node \<Rightarrow> path list" where
  "tree_paths (File c) = []"
| "tree_paths (Dir es) = concat (map (\<lambda>(x, n). [x] # map ((#) x) (tree_paths n)) es)"
  by pat_completeness auto

termination
  by (relation "measure size") (auto dest: node_below_size)

definition templates_below :: "path \<Rightarrow> node \<Rightarrow> path list" where
  "templates_below p fs =
     (case lookup p fs of
        None \<Rightarrow> []
      | Some n \<Rightarrow> sort (map ((@) p) (filter (\<lambda>q. endswith (List.last q) ''.j2'') (tree_paths n))))"

definition render_templates :: "build_world \<Rightarrow> unit bact" where
  "render_templates W = sdo (\<lambda>b.
     sfor (\<lambda>tpl. render_file W tpl (path_with_suffix tpl []))
       (templates_below (joinpath (b_place b) (b_format b)) (ss_fs b)))"

section \<open>Preparation\<close>

definition prepare_sources :: "build_world \<Rightarrow> unit bact" where
  "prepare_sources W = sdo (\<lambda>b.
     sbind (sfor (use_source W) (b_sources b)) (\<lambda>_.
     sbind (on_sys (fs_rmdir (butlast (b_input_tarball b)))) (\<lambda>_.
     sbind (prepare_version W) (\<lambda>_.
     sbind (sask the_defs) (\<lambda>d. sfor (fetch_source W) (ad_sources d))))))"

definition prepare_patches :: "build_world \<Rightarrow> prescript_ops option \<Rightarrow> unit bact" where
  "prepare_patches W P =
     sbind (sask the_version) (\<lambda>v.
     sbind (smodify (\<lambda>b. b\<lparr>b_patches_dir := Some (PatchesDir (b_place b) (ver_main v))\<rparr>)) (\<lambda>_.
     sbind (sdo (\<lambda>b. if supplementary_archives b \<noteq> [] then supplementary_archives_symlinks_patch W else sret ())) (\<lambda>_.
     sbind (case P of None \<Rightarrow> sret () | Some P \<Rightarrow> prescript W P) (\<lambda>_.
     sbind (sask (selected_patches W)) (\<lambda>ps.
     sbind (smodify (\<lambda>b. b\<lparr>b_patches := ps\<rparr>)) (\<lambda>_. sfor (render_patch W) ps))))))"

text \<open>\<^verbatim>\<open>ArtifactBuild.prepare\<close>; the formats without build environment have no prescript.\<close>

definition prepare :: "build_world \<Rightarrow> prescript_ops option \<Rightarrow> unit bact" where
  "prepare W P =
     sbind (prepare_input W) (\<lambda>_.
     sbind (prepare_defs W) (\<lambda>_.
     sbind (sask has_no_source) (\<lambda>none.
     if none then sbind (sask (default_version W)) (\<lambda>v. smodify (\<lambda>b. b\<lparr>b_version := Some v\<rparr>))
     else sbind (prepare_sources W) (\<lambda>_.
          sbind (prepare_patches W P) (\<lambda>_.
          sbind (apply_renames W) (\<lambda>_. render_templates W))))))"

text \<open>\<^verbatim>\<open>ArtifactBuild.run\<close>, with the building of the format.\<close>

definition build_run :: "build_world \<Rightarrow> prescript_ops option \<Rightarrow> unit bact \<Rightarrow> unit bact" where
  "build_run W P format_build =
     sbind (prepare W P) (\<lambda>_. sbind format_build (\<lambda>_.
     \<lambda>b. (case ro_publish (bw_registry W) b of Inl e \<Rightarrow> (Inl e, b) | Inr fs \<Rightarrow> (Inr (), b\<lparr>ss_fs := fs\<rparr>))))"

section \<open>Build environments\<close>

definition native_env :: "build_world \<Rightarrow> build \<Rightarrow> build_env" where
  "native_env W b = mg_build_env (bw_manager W) (b_format b) (b_env_name b) (il_host_arch (bw_images W))"

definition check_build_env_exists :: "build_world \<Rightarrow> string option \<Rightarrow> unit bact" where
  "check_build_env_exists W architecture b =
     (let e = (case architecture of
                 None \<Rightarrow> native_env W b
               | Some a \<Rightarrow> mg_build_env (bw_manager W) (b_format b) (b_env_name b) a) in
      (rbind (be_exists (bw_images W) (ss_fs b) e) (\<lambda>ok. if ok then Inr () else Inl FatbuildrTaskExecutionError), b))"

definition build_keyring :: "build_world \<Rightarrow> path bact" where
  "build_keyring W = sdo (\<lambda>b.
     let p = joinpath (b_place b) ''keyring.asc'' in
     if fs_exists (ss_fs b) p then sret p
     else sbind (on_sys (fs_write p [])) (\<lambda>_.
          sbind (slift (bw_key_export W)) (\<lambda>k. sbind (on_sys (fs_write p k)) (\<lambda>_. sret p))))"

definition prewrapper_path :: "build_world \<Rightarrow> build \<Rightarrow> path" where
  "prewrapper_path W b = joinpath (im_common_libdir (mg_image (bw_manager W) (b_format b))) ''pre-wrapper.sh''"

definition changelog_task_entry :: "build_world \<Rightarrow> build \<Rightarrow> string" where
  "changelog_task_entry W b = ''Fatbuildr task '' @ b_id b @ ''@'' @ ri_name (mg_instance (bw_manager W))"

end
