(* ===== verification/BuildDeb.thy ===== *)
theory BuildDeb imports BuildPrepare begin

text \<open>
  \<^verbatim>\<open>fatbuildr/builds/formats/deb.py\<close> and \<^verbatim>\<open>fatbuildr/builds/formats/osi.py\<close>: the
  building of Debian packages, source then binaries, and of images of operating systems.
  The commands that are run, \<^verbatim>\<open>debchange\<close>, \<^verbatim>\<open>dpkg-source\<close>, \<^verbatim>\<open>cowbuilder\<close> and \<^verbatim>\<open>mkosi\<close>, are in the
  log of the state, with their arguments.
\<close>

section \<open>Names of the archives\<close>

text \<open>\<^verbatim>\<open>mimetypes.guess_type(path)[1]\<close>, the compression that the extension tells.\<close>

definition guess_encoding :: "string \<Rightarrow> string option" where
  "guess_encoding name =
     (let sfx = (case rsplit_max CHR ''.'' 1 name of [_, x] \<Rightarrow> x | _ \<Rightarrow> []) in
      if sfx \<in> {''gz'', ''tgz'', ''taz'', ''tz'', ''svgz''} then Some ''gzip''
      else if sfx \<in> {''bz2'', ''tbz2''} then Some ''bzip2''
      else if sfx \<in> {''xz'', ''txz''} then Some ''xz''
      else if sfx = ''Z'' then Some ''compress''
      else if sfx = ''br'' then Some ''br'' else None)"

definition tarball_exts :: "(string \<times> string) list" where
  "tarball_exts = [(''bzip2'', ''bz2''), (''gzip'', ''gz''), (''xz'', ''xz'')]"

definition tarball_ext :: "path \<Rightarrow> string res" where
  "tarball_ext p =
     (case guess_encoding (List.last p) of
        None \<Rightarrow> Inl KeyErr
      | Some e \<Rightarrow> (case map_of tarball_exts e of None \<Rightarrow> Inl KeyErr | Some x \<Rightarrow> Inr x))"

definition orig_name :: "build \<Rightarrow> artifact_version \<Rightarrow> string" where
  "orig_name b v = b_artifact b @ ''_'' @ ver_main v @ ''.orig''"

definition deb_supp_tarball_path :: "build_world \<Rightarrow> string \<Rightarrow> path bact" where
  "deb_supp_tarball_path W subdir =
     sask (\<lambda>b. rmap (\<lambda>v. joinpath (b_place b)
       (orig_name b v @ ''-'' @ prescript_supp_subdir_renamed W b subdir @ ''.tar.xz'')) (the_version b))"

section \<open>Source package\<close>

text \<open>Archives in zip format become tarballs in the place of the build.\<close>

definition convert_zip :: "build_world \<Rightarrow> file_source \<Rightarrow> file_source bact" where
  "convert_zip W a =
     sbind (sask (\<lambda>b. open_path W (so_path a) (ss_fs b))) (\<lambda>f.
     if \<not> ar_is_zip f then sret a
     else sdo (\<lambda>b. let p = joinpath (b_place b) (path_stem (List.last (so_path a)) @ ''.tar.xz'') in
       sbind (slift (convert_tar (bw_mktime W) (List.last p) f)) (\<lambda>t.
       sbind (on_sys (fs_write p (bw_encode W t))) (\<lambda>_. sret (a\<lparr>so_path := p\<rparr>)))))"

fun convert_all :: "build_world \<Rightarrow> file_source list \<Rightarrow> file_source list bact" where
  "convert_all W [] = sret []"
| "convert_all W (a # as) = sbind (convert_zip W a) (\<lambda>x. sbind (convert_all W as) (\<lambda>xs. sret (x # xs)))"

definition extract_for_build :: "build_world \<Rightarrow> build \<Rightarrow> (path \<times> node) res" where
  "extract_for_build W b =
     (case main_archive b of
        None \<Rightarrow> Inl FatbuildrTaskExecutionError
      | Some m \<Rightarrow>
          rbind (open_source (bw_open W) (ss_fs b) m) (\<lambda>ma.
          rbind (rmapM (open_source (bw_open W) (ss_fs b)) (supplementary_archives b)) (\<lambda>sas.
          rbind (rmapM (\<lambda>a. open_path W (so_path a) (ss_fs b)) (b_prescript_tarballs b)) (\<lambda>pas.
          extract_artifact_sources_archives (bw_link W) False (b_place b) (b_artifact b) ma sas pas (ss_fs b)))))"

definition fs_copytree :: "path \<Rightarrow> path \<Rightarrow> node \<Rightarrow> node res" where
  "fs_copytree p q fs =
     (case lookup p fs of
        Some (Dir es) \<Rightarrow> if fs_exists fs q then Inl FileExistsErr else put q (Dir es) fs
      | Some (File _) \<Rightarrow> Inl OSErr
      | None \<Rightarrow> Inl FileNotFoundErr)"

definition copy_debian :: "path \<Rightarrow> unit bact" where
  "copy_debian subdir = sdo (\<lambda>b.
     let target = joinpath subdir ''debian'' in
     sbind (on_sys (\<lambda>fs. if fs_exists fs target then fs_rmtree target fs else Inr fs)) (\<lambda>_.
     on_sys (fs_copytree (joinpath (b_place b) ''deb'') target)))"

text \<open>The patches are moved in the packaging directory, and listed in their order.\<close>

definition deb_patches :: "path \<Rightarrow> unit bact" where
  "deb_patches subdir = sdo (\<lambda>b.
     sbind (sask the_patches_dir) (\<lambda>d.
     if pd_empty (ss_fs b) d then sret ()
     else (let patches_to = joinpath (joinpath subdir ''debian'') ''patches'' in
       sbind (on_sys (\<lambda>fs. if fs_exists fs patches_to then fs_rmtree patches_to fs else Inr fs)) (\<lambda>_.
       sbind (on_sys (fs_mkdir patches_to)) (\<lambda>_.
       sbind (sfor (\<lambda>p. on_sys (fs_rename p (patches_to @ [pf_name p]))) (b_patches b)) (\<lambda>_.
       on_sys (fs_write (joinpath patches_to ''series'')
         (concat (map (\<lambda>p. pf_name p @ [CHR 0x0A]) (b_patches b))))))))))"

text \<open>The version of the source package that is published, if there is one: the build
  number of the new one is the next, when the versions are the same.\<close>

definition bump_version :: "artifact_version \<Rightarrow> artifact_version \<Rightarrow> artifact_version" where
  "bump_version existing v = (if version_eq existing v then v\<lparr>ver_build := ver_build existing + 1\<rparr> else v)"

definition existing_version :: "build_world \<Rightarrow> build \<Rightarrow> artifact_version option res" where
  "existing_version W b =
     ro_source_version (bw_registry W) (ss_fs b) (b_distribution b) (b_derivative b) (b_artifact b)"

definition bump_build :: "artifact_version option \<Rightarrow> unit bact" where
  "bump_build existing =
     (case existing of
        None \<Rightarrow> sret ()
      | Some e \<Rightarrow> smodify (\<lambda>b. b\<lparr>b_version := map_option (bump_version e) (b_version b)\<rparr>))"

definition deb_changelog_file :: "build_world \<Rightarrow> path \<Rightarrow> artifact_version option \<Rightarrow> unit bact" where
  "deb_changelog_file W subdir existing = sdo (\<lambda>b.
     let p = joinpath subdir ''debian/changelog'' in
     case existing of
       None \<Rightarrow> sret ()
     | Some _ \<Rightarrow> sbind (on_sys (fs_write p [])) (\<lambda>_.
         sbind (sask (\<lambda>b. ro_source_changelog (bw_registry W) (ss_fs b) (b_distribution b) (b_derivative b) (b_artifact b))) (\<lambda>c.
         on_sys (fs_write p c))))"

definition debchange_cmd :: "build \<Rightarrow> artifact_version \<Rightarrow> bool \<Rightarrow> string list" where
  "debchange_cmd b v create =
     (let cmd = [''debchange'', ''--package'', b_artifact b, ''--newversion'', version_full v, ''--distribution'',
         b_distribution b, ''--force-distribution'', b_message b] in
      if create then insert_second ''--create'' cmd else cmd)"

definition deb_add_changelog_entry :: "build_world \<Rightarrow> path \<Rightarrow> bool \<Rightarrow> unit bact" where
  "deb_add_changelog_entry W subdir create = sdo (\<lambda>b.
     let envs = [''DEBEMAIL='' @ b_email b, ''DEBFULLNAME='' @ b_author b];
         args = default_args\<lparr>ca_chdir := Some (path_str subdir), ca_envs := envs\<rparr> in
     sbind (sask the_version) (\<lambda>v.
     sbind (build_cruncmd W (CmdList (debchange_cmd b v create)) args) (\<lambda>_.
     build_cruncmd W (CmdList [''debchange'', ''--append'', changelog_task_entry W b]) args)))"

text \<open>A link for each archive, relative when the archive is in the place of the build.\<close>

definition orig_tarball_path :: "build_world \<Rightarrow> build \<Rightarrow> file_source \<Rightarrow> path res" where
  "orig_tarball_path W b a =
     rbind (the_version b) (\<lambda>v.
     if so_is_main (b_artifact b) a
     then rmap (\<lambda>x. joinpath (b_place b) (orig_name b v @ ''.tar.'' @ x)) (tarball_ext (so_path a))
     else rbind (open_path W (so_path a) (ss_fs b)) (\<lambda>f.
          rmap (\<lambda>x. joinpath (b_place b) (orig_name b v @ ''-'' @ sanitized_stem (ar_stem f) @ ''.tar.'' @ x))
            (tarball_ext (so_path a))))"

definition orig_link_target :: "build \<Rightarrow> file_source \<Rightarrow> string" where
  "orig_link_target b a =
     (if archive_in_build_place b a then List.last (so_path a) else path_str (so_path a))"

definition link_orig :: "build_world \<Rightarrow> file_source \<Rightarrow> unit bact" where
  "link_orig W a =
     sbind (sask (\<lambda>b. orig_tarball_path W b a)) (\<lambda>p.
     sdo (\<lambda>b. on_sys (bw_link W p (orig_link_target b a))))"

definition deb_build_src :: "build_world \<Rightarrow> unit bact" where
  "deb_build_src W = sdo (\<lambda>b.
     if main_archive b = None then slift (Inl FatbuildrTaskExecutionError)
     else sbind (convert_all W (b_archives b)) (\<lambda>archives.
       sbind (smodify (\<lambda>b. b\<lparr>b_archives := archives\<rparr>)) (\<lambda>_.
       sbind (sask (extract_for_build W)) (\<lambda>(subdir, fs).
       sbind (smodify (\<lambda>b. b\<lparr>ss_fs := fs\<rparr>)) (\<lambda>_.
       sbind (copy_debian subdir) (\<lambda>_.
       sbind (deb_patches subdir) (\<lambda>_.
       sbind (sask (existing_version W)) (\<lambda>existing.
       sbind (deb_changelog_file W subdir existing) (\<lambda>_.
       sbind (bump_build existing) (\<lambda>_.
       sbind (deb_add_changelog_entry W subdir (existing = None)) (\<lambda>_.
       sbind (sfor (link_orig W) archives) (\<lambda>_.
       build_cruncmd W (CmdList [''dpkg-source'', ''--build'', path_str subdir])
         (default_args\<lparr>ca_chdir := Some (path_str (b_place b))\<rparr>)))))))))))))"

section \<open>Binary packages\<close>

definition yes_no :: "bool \<Rightarrow> string" where
  "yes_no x = (if x then ''yes'' else ''no'')"

definition env_path_str :: "path option \<Rightarrow> string res" where
  "env_path_str p = (case p of None \<Rightarrow> Inl TypeErr | Some q \<Rightarrow> Inr (path_str q))"

definition deb_bin_cmd :: "build_world \<Rightarrow> build \<Rightarrow> artifact_version \<Rightarrow> string \<Rightarrow> string \<Rightarrow> string list" where
  "deb_bin_cmd W b v builder env_path =
     (let reg = ro_path (bw_registry W) in
      [builder, ''--build'', ''--hookdir'',
       path_str (joinpath (im_format_libdir (mg_image (bw_manager W) (b_format b))) ''hooks''),
       ''--distribution'', b_distribution b]
      @ (if fs_exists (ss_fs b) reg then [''--bindmounts'', path_str reg] else [])
      @ [''--bindmounts'', path_str (b_place b), ''--basepath'', env_path, ''--buildresult'', path_str (b_place b),
         ''--debbuildopts=-sa'', path_str (joinpath (b_place b) (b_artifact b @ ''_'' @ version_full v @ ''.dsc''))])"

definition deb_bin_envs :: "build_world \<Rightarrow> build \<Rightarrow> path \<Rightarrow> string list" where
  "deb_bin_envs W b keyring =
     [''FATBUILDR_REPO='' @ path_str (ro_path (bw_registry W)), ''FATBUILDR_KEYRING='' @ path_str keyring,
      ''FATBUILDR_SOURCE='' @ ri_name (mg_instance (bw_manager W)),
      ''FATBUILDR_DERIVATIVES='' @ str_join '' '' (rev (b_derivatives b)),
      ''FATBUILDR_INTERACTIVE='' @ yes_no (b_interactive b),
      ''BUILDRESULTUID='' @ int_str (il_uid (bw_images W)), ''BUILDRESULTGID='' @ int_str (il_gid (bw_images W))]"

definition deb_build_bin :: "build_world \<Rightarrow> string \<Rightarrow> unit bact" where
  "deb_build_bin W architecture =
     sbind (check_build_env_exists W (Some architecture)) (\<lambda>_.
     sbind (sask the_version) (\<lambda>v.
     sbind (sask (\<lambda>b. image_builder (mg_image (bw_manager W) (b_format b)))) (\<lambda>builder.
     sbind (sask (\<lambda>b. rbind (be_path (bw_images W) (mg_build_env (bw_manager W) (b_format b) (b_env_name b) architecture))
       env_path_str)) (\<lambda>ep.
     sdo (\<lambda>b. let cmd = deb_bin_cmd W b v builder ep in
       sbind (build_keyring W) (\<lambda>k.
       build_cruncmd W (CmdList cmd) (default_args\<lparr>ca_asroot := True, ca_envs := deb_bin_envs W b k\<rparr>)))))))"

definition deb_build_all :: "build_world \<Rightarrow> unit bact" where
  "deb_build_all W =
     sbind (check_image_exists W) (\<lambda>_.
     sbind (deb_build_src W) (\<lambda>_.
     sdo (\<lambda>b. sfor (deb_build_bin W) (b_architectures b))))"

section \<open>Prescript\<close>

definition deb_prescript_cmd :: "build_world \<Rightarrow> build \<Rightarrow> string \<Rightarrow> string \<Rightarrow> string list" where
  "deb_prescript_cmd W b builder env_path =
     (let i = mg_image (bw_manager W) (b_format b) in
      [builder, ''--execute'', ''--hookdir'', path_str (joinpath (im_format_libdir i) ''hooks''), ''--distribution'',
       b_distribution b, ''--bindmounts'', path_str (b_place b), ''--bindmounts'', path_str (im_common_libdir i),
       ''--bindmounts'', path_str (ro_path (bw_registry W)), ''--basepath'', env_path, ''--'',
       path_str (joinpath (im_common_libdir i) ''pre-stage1-deb.sh''), path_str (prewrapper_path W b),
       path_str (prescript_path b)])"

definition deb_prescript_envs :: "build_world \<Rightarrow> build \<Rightarrow> path \<Rightarrow> string list \<Rightarrow> path \<Rightarrow> string list" where
  "deb_prescript_envs W b keyring deps archive_subdir =
     [''FATBUILDR_REPO='' @ path_str (ro_path (bw_registry W)), ''FATBUILDR_KEYRING='' @ path_str keyring,
      ''FATBUILDR_SOURCE='' @ ri_name (mg_instance (bw_manager W)),
      ''FATBUILDR_PRESCRIPT_DEPS='' @ str_join '' '' deps,
      ''FATBUILDR_DERIVATIVES='' @ str_join '' '' (rev (b_derivatives b)),
      ''FATBUILDR_SOURCE_DIR='' @ path_str archive_subdir, ''FATBUILDR_USER='' @ il_user (bw_images W),
      ''FATBUILDR_UID='' @ int_str (il_uid (bw_images W)), ''FATBUILDR_GID='' @ int_str (il_gid (bw_images W))]"

definition deb_prescript_in_env :: "build_world \<Rightarrow> path \<Rightarrow> unit bact" where
  "deb_prescript_in_env W archive_subdir =
     sbind (sask (\<lambda>b. image_builder (mg_image (bw_manager W) (b_format b)))) (\<lambda>builder.
     sbind (sask (\<lambda>b. rbind (be_path (bw_images W) (native_env W b)) env_path_str)) (\<lambda>ep.
     sbind (build_keyring W) (\<lambda>k.
     sbind (sask (prescript_deps W)) (\<lambda>deps.
     sdo (\<lambda>b. build_cruncmd W (CmdList (deb_prescript_cmd W b builder ep))
       (default_args\<lparr>ca_asroot := True, ca_envs := deb_prescript_envs W b k deps archive_subdir\<rparr>))))))"

definition deb_prescript :: "build_world \<Rightarrow> prescript_ops" where
  "deb_prescript W = \<lparr>po_in_env = deb_prescript_in_env W, po_tarball_path = deb_supp_tarball_path W\<rparr>"

definition ArtifactBuildDeb_run :: "build_world \<Rightarrow> unit bact" where
  "ArtifactBuildDeb_run W = build_run W (Some (deb_prescript W)) (deb_build_all W)"

section \<open>Images of operating systems\<close>

text \<open>The environment of the command out of a container: the identifier of the user and the
  path.\<close>

definition osi_cmd :: "build \<Rightarrow> string \<Rightarrow> path \<Rightarrow> artifact_version \<Rightarrow> string list" where
  "osi_cmd b builder def_path v =
     [builder, ''--directory'', path_str (joinpath (b_place b) (b_format b)), ''--package-cache-dir'',
      path_str (b_cache_dir b), ''--workspace-dir'', path_str (b_place b), ''--include'', path_str def_path,
      ''--output-dir'', path_str (b_place b), ''--image-id'', b_artifact b, ''--image-version'', ver_main v,
      ''--checksum'', ''build'']"

definition osi_build_all :: "build_world \<Rightarrow> string \<Rightarrow> unit bact" where
  "osi_build_all W path_env =
     sbind (sask (\<lambda>b. rmap (\<lambda>c. case c of OsiConf _ containerized \<Rightarrow> Inr containerized | _ \<Rightarrow> Inl AttributeErr)
       (image_conf (mg_image (bw_manager W) (b_format b))))) (\<lambda>c.
     sbind (slift c) (\<lambda>containerized.
     sbind (if containerized then check_image_exists W else sret ()) (\<lambda>_. sdo (\<lambda>b.
     let def_path = joinpath (joinpath (b_place b) (b_format b)) (b_artifact b @ ''.mkosi'') in
     if \<not> fs_exists (ss_fs b) def_path then slift (Inl RuntimeErr)
     else sbind (sask (\<lambda>b. image_builder (mg_image (bw_manager W) (b_format b)))) (\<lambda>builder.
          sbind (sask the_version) (\<lambda>v.
          if containerized then build_cruncmd W (CmdList (osi_cmd b builder def_path v)) default_args
          else build_runcmd W (osi_cmd b builder def_path v)
            [(''SUDO_UID'', int_str (il_uid (bw_images W))), (''PATH'', path_env @ '':/bin:/sbin'')]))))))"

definition ArtifactBuildOsi_run :: "build_world \<Rightarrow> string \<Rightarrow> unit bact" where
  "ArtifactBuildOsi_run W path_env = build_run W None (osi_build_all W path_env)"

end
