(* ===== verification/BuildRpm.thy ===== *)
theory BuildRpm imports BuildDeb begin

text \<open>
  \<^verbatim>\<open>fatbuildr/builds/formats/rpm.py\<close>: the building of RPM packages. The texts that the
  templates of the module make, the declarations of the sources and of the patches, the
  directives that extract them and the changelog, are functions; the spec file is rendered
  with them by the template library. The present time, its text in a changelog and the
  master key are parameters.
\<close>

section \<open>Texts of the spec file\<close>

definition nl :: string where
  "nl = [CHR 0x0A]"

definition source_line :: "nat \<Rightarrow> string \<Rightarrow> string" where
  "source_line i name = ''Source'' @ nat_str i @ '': '' @ name @ nl"

text \<open>\<^verbatim>\<open>SOURCES_DECL_TPL\<close>: the sources are numbered from 0, then the plain files.\<close>

definition numbered :: "nat \<Rightarrow> 'a list \<Rightarrow> (nat \<times> 'a) list" where
  "numbered i xs = zip [i..<i + length xs] xs"

definition sources_decl :: "string list \<Rightarrow> string list \<Rightarrow> string" where
  "sources_decl sources plain_files =
     nl @ concat (map (\<lambda>(i, n). source_line i n) (numbered 0 sources))
        @ concat (map (\<lambda>(i, n). source_line i n) (numbered (length sources) plain_files))"

text \<open>\<^verbatim>\<open>SOURCES_PREP_TPL\<close>: a directive for the main archive, which is taken to be the source
  0, one for each supplementary archive, numbered from 1, then one for each archive of the
  prescript.\<close>

record prep_source =
  ps_single :: bool
  ps_subdir :: string
  ps_stem :: string

definition setup_line :: "string \<Rightarrow> nat \<Rightarrow> string" where
  "setup_line main i = ''%setup -T -D -n '' @ main @ '' -a '' @ nat_str i"

definition supplementary_prep :: "string \<Rightarrow> nat \<times> prep_source \<Rightarrow> string" where
  "supplementary_prep main ia =
     (case ia of (i, a) \<Rightarrow>
        if ps_single a then setup_line main i @ nl @ ''mv '' @ ps_subdir a @ '' '' @ ps_stem a @ nl
        else setup_line main i @ '' -c'' @ nl)"

definition sources_prep :: "string \<Rightarrow> prep_source list \<Rightarrow> nat \<Rightarrow> string" where
  "sources_prep main supplementary prescripts =
     nl @ ''%setup -q -n '' @ main @ nl
     @ concat (map (supplementary_prep main) (numbered 1 supplementary))
     @ concat (map (\<lambda>i. setup_line main i @ nl) [length supplementary + 1..<length supplementary + 1 + prescripts])"

definition patches_decl :: "string list \<Rightarrow> string" where
  "patches_decl names = nl @ concat (map (\<lambda>(i, n). ''Patch'' @ nat_str i @ '': '' @ n @ nl) (numbered 0 names))"

definition patches_prep :: string where
  "patches_prep = nl @ ''%autopatch -p1'' @ nl"

definition changelog_text :: "(int \<Rightarrow> string) \<Rightarrow> changelog_entry list \<Rightarrow> string" where
  "changelog_text rpmdate entries =
     nl @ ''%changelog'' @ nl @ concat (map (\<lambda>e.
       ''* '' @ rpmdate (ce_date e) @ '' '' @ ce_author e @ '' '' @ ce_version e @ nl
       @ concat (map (\<lambda>c. ''- '' @ c @ nl) (ce_changes e)) @ nl) entries)"

section \<open>Paths\<close>

definition spec_basename :: "build \<Rightarrow> string" where
  "spec_basename b = b_artifact b @ ''.spec''"

text \<open>\<^verbatim>\<open>place.glob(...)\<close>, in the order of the directory.\<close>

definition place_files :: "build \<Rightarrow> (string \<Rightarrow> bool) \<Rightarrow> path list" where
  "place_files b P =
     (case fs_iterdir (ss_fs b) (b_place b) of
        Inl _ \<Rightarrow> []
      | Inr names \<Rightarrow> map (\<lambda>n. b_place b @ [n]) (filter P names))"

text \<open>The first source package, None when there is none.\<close>

definition srpm_path :: "build \<Rightarrow> path option" where
  "srpm_path b =
     (case place_files b (\<lambda>n. startswith n (b_artifact b @ ''-'') \<and> endswith n ''.src.rpm''
        \<and> length (b_artifact b) + 9 \<le> length n) of
        [] \<Rightarrow> None | p # _ \<Rightarrow> Some p)"

definition rpm_source_path :: "path bact" where
  "rpm_source_path = sdo (\<lambda>b.
     let p = joinpath (b_place b) ''source'' in
     sbind (on_sys (\<lambda>fs. if fs_exists fs p then Inr fs else fs_mkdir p fs)) (\<lambda>_. sret p))"

definition rpm_supp_tarball_path :: "build_world \<Rightarrow> string \<Rightarrow> path bact" where
  "rpm_supp_tarball_path W subdir =
     sbind rpm_source_path (\<lambda>p. sask (\<lambda>b. rmap (\<lambda>v.
       joinpath p (b_artifact b @ ''_'' @ ver_main v @ ''-'' @ prescript_supp_subdir_renamed W b subdir @ ''.tar.xz''))
       (the_version b)))"

section \<open>Source package\<close>

definition plain_files :: "build \<Rightarrow> path list" where
  "plain_files b =
     (let d = joinpath (b_place b) ''rpm'' in
      case fs_iterdir (ss_fs b) d of
        Inl _ \<Rightarrow> []
      | Inr names \<Rightarrow> filter (fs_is_file (ss_fs b)) (map (\<lambda>n. d @ [n]) (filter (\<lambda>n. n \<noteq> spec_basename b) names)))"

definition prep_source_of :: "build_world \<Rightarrow> build \<Rightarrow> file_source \<Rightarrow> prep_source res" where
  "prep_source_of W b a =
     rbind (open_path W (so_path a) (ss_fs b)) (\<lambda>f.
     if ar_has_single_toplevel f
     then rmap (\<lambda>d. \<lparr>ps_single = True, ps_subdir = d, ps_stem = sanitized_stem (ar_stem f)\<rparr>) (ar_subdir f)
     else Inr \<lparr>ps_single = False, ps_subdir = [], ps_stem = sanitized_stem (ar_stem f)\<rparr>)"

definition rpm_sources :: "build \<Rightarrow> file_source list" where
  "rpm_sources b = b_archives b @ b_prescript_tarballs b"

definition rpm_sources_decl :: "build \<Rightarrow> string" where
  "rpm_sources_decl b = sources_decl (map (\<lambda>a. List.last (so_path a)) (rpm_sources b)) (map List.last (plain_files b))"

definition rpm_sources_prep :: "build_world \<Rightarrow> build \<Rightarrow> string res" where
  "rpm_sources_prep W b =
     (case main_archive b of
        None \<Rightarrow> Inl FatbuildrTaskExecutionError
      | Some m \<Rightarrow>
          rbind (rbind (open_path W (so_path m) (ss_fs b)) ar_subdir) (\<lambda>main.
          rmap (\<lambda>sup. sources_prep main sup (length (b_prescript_tarballs b)))
            (rmapM (prep_source_of W b) (supplementary_archives b))))"

text \<open>The patches are moved among the sources.\<close>

definition rpm_patches :: "(string \<times> string) bact" where
  "rpm_patches = sdo (\<lambda>b.
     sbind (sask the_patches_dir) (\<lambda>d.
     if pd_empty (ss_fs b) d then sret ([], [])
     else sbind (sfor (\<lambda>p. sbind rpm_source_path (\<lambda>q. on_sys (fs_rename p (q @ [pf_name p])))) (b_patches b)) (\<lambda>_.
          sret (patches_decl (map pf_name (b_patches b)), patches_prep))))"

record rpm_params =
  rp_now :: int
  rp_date :: "int \<Rightarrow> string"
  rp_masterkey_userid :: string
  rp_gnupghome :: string
  rp_load_agent :: "node \<Rightarrow> node res"

definition new_changelog :: "build_world \<Rightarrow> rpm_params \<Rightarrow> build \<Rightarrow> artifact_version \<Rightarrow> changelog_entry list \<Rightarrow> changelog_entry list" where
  "new_changelog W K b v existing =
     \<lparr>ce_version = version_full v, ce_author = b_author b @ '' <'' @ b_email b @ ''>'', ce_date = rp_now K,
      ce_changes = [b_message b, changelog_task_entry W b]\<rparr> # existing"

definition existing_changelog :: "build_world \<Rightarrow> artifact_version option \<Rightarrow> build \<Rightarrow> changelog_entry list res" where
  "existing_changelog W existing b =
     (case existing of
        None \<Rightarrow> Inr []
      | Some _ \<Rightarrow> ro_changelog (bw_registry W) (ss_fs b) (b_distribution b) (b_derivative b) ''src'' (b_artifact b))"

definition spec_vars :: "artifact_version \<Rightarrow> string \<Rightarrow> string \<Rightarrow> string \<Rightarrow> string \<Rightarrow> string \<Rightarrow> (string \<times> pyval) list" where
  "spec_vars v decl prep pdecl pprep changelog =
     [(''version'', PStr (ver_main v)), (''release'', PStr (version_fullrelease v)), (''sources'', PStr decl),
      (''prep_sources'', PStr prep), (''patches'', PStr pdecl), (''prep_patches'', PStr pprep),
      (''prep'', PStr (prep @ pprep)), (''changelog'', PStr changelog)]"

text \<open>The template has the attributes of the build too, as the variable \<^verbatim>\<open>pkg\<close>; here it has its
  artifact.\<close>

definition write_spec :: "build_world \<Rightarrow> path \<Rightarrow> (string \<times> pyval) list \<Rightarrow> unit bact" where
  "write_spec W spec_path vars = sdo (\<lambda>b.
     let tpl = joinpath (joinpath (b_place b) ''rpm'') (spec_basename b) in
     if \<not> fs_exists (ss_fs b) tpl then slift (Inl RuntimeErr)
     else sbind (on_sys (fs_write spec_path [])) (\<lambda>_.
          sbind (sask (\<lambda>b. rbind (fs_read (ss_fs b) tpl) (\<lambda>t.
            il_render (bw_images W) t ((''pkg'', PStr (b_artifact b)) # vars)))) (\<lambda>text.
          on_sys (fs_write spec_path text))))"

text \<open>An archive of the cache is linked among the sources, one of the place of the build is
  moved; the answer is the archive with its new path, and whether the cache is needed.\<close>

definition place_source :: "build_world \<Rightarrow> file_source \<Rightarrow> (file_source \<times> bool) bact" where
  "place_source W a =
     sbind rpm_source_path (\<lambda>p. sdo (\<lambda>b.
     let target = joinpath p (List.last (so_path a)) in
     if \<not> archive_in_build_place b a
     then sbind (on_sys (bw_link W target (path_str (so_path a)))) (\<lambda>_. sret (a, True))
     else sbind (on_sys (fs_rename (so_path a) target)) (\<lambda>_. sret (a\<lparr>so_path := target\<rparr>, False))))"

fun place_sources :: "build_world \<Rightarrow> file_source list \<Rightarrow> (file_source list \<times> bool) bact" where
  "place_sources W [] = sret ([], False)"
| "place_sources W (a # as) =
     sbind (place_source W a) (\<lambda>(x, n). sbind (place_sources W as) (\<lambda>(xs, m). sret (x # xs, n \<or> m)))"

definition place_plain_file :: "path \<Rightarrow> unit bact" where
  "place_plain_file f = sbind rpm_source_path (\<lambda>p. on_sys (fs_rename f (joinpath p (List.last f))))"

definition chroot_gid :: "build_world \<Rightarrow> string" where
  "chroot_gid W = ''chrootgid='' @ int_str (il_gid (bw_images W))"

definition bind_option :: "path list \<Rightarrow> string" where
  "bind_option ps =
     (let dq = [CHR 0x22] in
      ''bind_mount:dirs=['' @ str_join '','' (map (\<lambda>p. ''('' @ dq @ path_str p @ dq @ '','' @ dq @ path_str p @ dq @ '')'') ps) @ '']'')"

definition srpm_cmd :: "build_world \<Rightarrow> build \<Rightarrow> string \<Rightarrow> bool \<Rightarrow> path \<Rightarrow> path \<Rightarrow> string list" where
  "srpm_cmd W b builder bind_cache source_path spec_path =
     [builder, ''--root'', be_name (native_env W b)]
     @ (if bind_cache then [''--plugin-option'', bind_option [b_cache_dir b]] else [])
     @ [''--config-opts'', chroot_gid W, ''--buildsrpm'', ''--sources'', path_str source_path, ''--spec'', path_str spec_path,
        ''--resultdir'', path_str (b_place b)]"

definition rpm_build_src :: "build_world \<Rightarrow> rpm_params \<Rightarrow> unit bact" where
  "rpm_build_src W K =
     sbind (check_build_env_exists W None) (\<lambda>_. sdo (\<lambda>b0.
     if main_archive b0 = None then slift (Inl FatbuildrTaskExecutionError)
     else let plain = plain_files b0 in
       sbind (sask (rpm_sources_prep W)) (\<lambda>prep.
       sbind rpm_patches (\<lambda>(pdecl, pprep).
       sbind (sask (existing_version W)) (\<lambda>existing.
       sbind (sask (existing_changelog W existing)) (\<lambda>old.
       sbind (bump_build existing) (\<lambda>_.
       sbind (sask the_version) (\<lambda>v. sdo (\<lambda>b.
       let spec_path = joinpath (b_place b) (spec_basename b);
           changelog = changelog_text (rp_date K) (new_changelog W K b v old) in
       sbind (write_spec W spec_path (spec_vars v (rpm_sources_decl b0) prep pdecl pprep changelog)) (\<lambda>_.
       sbind (place_sources W (b_archives b)) (\<lambda>(archives, bind_cache).
       sbind (smodify (\<lambda>b. b\<lparr>b_archives := archives\<rparr>)) (\<lambda>_.
       sbind (sfor place_plain_file plain) (\<lambda>_.
       sbind (sask (\<lambda>b. image_builder (mg_image (bw_manager W) (b_format b)))) (\<lambda>builder.
       sbind rpm_source_path (\<lambda>source_path.
       build_cruncmd W (CmdList (srpm_cmd W b builder bind_cache source_path spec_path)) default_args)))))))))))))))"

section \<open>Binary packages\<close>

definition derivatives_options :: "build_world \<Rightarrow> build \<Rightarrow> path \<Rightarrow> string list" where
  "derivatives_options W b keyring =
     [''--enable-plugin'', ''fatbuildr_derivatives'',
      ''--plugin-option'', ''fatbuildr_derivatives:repo='' @ path_str (ro_path (bw_registry W)),
      ''--plugin-option'', ''fatbuildr_derivatives:distribution='' @ b_distribution b,
      ''--plugin-option'', ''fatbuildr_derivatives:derivatives='' @ str_join '','' (b_derivatives b),
      ''--plugin-option'', ''fatbuildr_derivatives:keyring='' @ path_str keyring]"

definition rpm_bin_cmd :: "build_world \<Rightarrow> build \<Rightarrow> string \<Rightarrow> string \<Rightarrow> path \<Rightarrow> path \<Rightarrow> string list" where
  "rpm_bin_cmd W b builder env_name keyring srpm =
     [builder, ''--root'', env_name, ''--config-opts'', chroot_gid W]
     @ derivatives_options W b keyring
     @ [''--enable-plugin'', ''fatbuildr_interactive'',
        ''--plugin-option'', ''fatbuildr_interactive:enabled='' @ yes_no (b_interactive b),
        ''--enable-plugin'', ''fatbuildr_list'', ''--resultdir'', path_str (b_place b), ''--rebuild'', path_str srpm]"

definition rpmsign_cmd :: "rpm_params \<Rightarrow> path \<Rightarrow> string list" where
  "rpmsign_cmd K p =
     [''rpmsign'', ''--define'', ''%__gpg /usr/bin/gpg'', ''--define'', ''%_gpg_name '' @ rp_masterkey_userid K,
      ''--addsign'', path_str p]"

text \<open>Without a source package the command has None for an argument.\<close>

definition rpm_build_bin :: "build_world \<Rightarrow> rpm_params \<Rightarrow> string \<Rightarrow> unit bact" where
  "rpm_build_bin W K architecture =
     sbind (check_build_env_exists W (Some architecture)) (\<lambda>_.
     sbind (sask (\<lambda>b. image_builder (mg_image (bw_manager W) (b_format b)))) (\<lambda>builder.
     sbind (build_keyring W) (\<lambda>keyring.
     sbind (sask (\<lambda>b. rbind (the_defs b) (\<lambda>d. rbind (has_buildargs d) (\<lambda>h. if h then defs_buildargs d else Inr [])))) (\<lambda>buildargs.
     sdo (\<lambda>b. case srpm_path b of
         None \<Rightarrow> slift (Inl TypeErr)
       | Some srpm \<Rightarrow>
           sbind (build_cruncmd W (CmdList (rpm_bin_cmd W b builder
              (be_name (mg_build_env (bw_manager W) (b_format b) (b_env_name b) architecture)) keyring srpm @ buildargs)) default_args) (\<lambda>_.
           sbind (on_sys (rp_load_agent K)) (\<lambda>_. sdo (\<lambda>b.
           sfor (\<lambda>p. build_runcmd W (rpmsign_cmd K p) [(''GNUPGHOME'', rp_gnupghome K)])
             (place_files b (\<lambda>n. endswith n ''.rpm'')))))))))) "

definition rpm_static_check :: "build_world \<Rightarrow> unit bact" where
  "rpm_static_check W = sdo (\<lambda>b.
     build_cruncmd W (CmdList ([''rpmlint'', ''--info'', ''--permissive'']
       @ map path_str (place_files b (\<lambda>n. endswith n ''.rpm'')))) default_args)"

definition rpm_build_all :: "build_world \<Rightarrow> rpm_params \<Rightarrow> unit bact" where
  "rpm_build_all W K =
     sbind (check_image_exists W) (\<lambda>_.
     sbind (rpm_build_src W K) (\<lambda>_.
     sbind (sdo (\<lambda>b. sfor (rpm_build_bin W K) (b_architectures b))) (\<lambda>_.
     rpm_static_check W)))"

section \<open>Prescript\<close>

definition mock_overlay_cmd :: "build_world \<Rightarrow> string list \<Rightarrow> unit bact" where
  "mock_overlay_cmd W cmd =
     sbind (sask (\<lambda>b. image_builder (mg_image (bw_manager W) (b_format b)))) (\<lambda>builder. sdo (\<lambda>b.
     build_cruncmd W (CmdList ([builder, ''--root'', be_name (native_env W b), ''--enable-plugin'', ''overlayfs'',
       ''--disable-plugin'', ''root_cache'', ''--plugin-option'', ''overlayfs:base_dir=/var/lib/snapshots''] @ cmd)) default_args))"

definition mock_dnf_cmd :: "build_world \<Rightarrow> string list \<Rightarrow> unit bact" where
  "mock_dnf_cmd W args =
     sbind (sask (\<lambda>b. image_builder (mg_image (bw_manager W) (b_format b)))) (\<lambda>builder.
     sbind (build_keyring W) (\<lambda>keyring. sdo (\<lambda>b.
     build_cruncmd W (CmdList ([builder, ''--root'', be_name (native_env W b)] @ derivatives_options W b keyring
       @ [''--enable-network'', ''--dnf-cmd''] @ args)) default_args)))"

definition module_deps :: "string list \<Rightarrow> string list" where
  "module_deps deps = map (drop 7) (filter (\<lambda>d. startswith d ''module:'') deps)"

definition package_deps :: "string list \<Rightarrow> string list" where
  "package_deps deps = filter (\<lambda>d. \<not> startswith d ''module:'') deps"

definition rpm_prescript_cmd :: "build_world \<Rightarrow> build \<Rightarrow> string \<Rightarrow> path \<Rightarrow> string list" where
  "rpm_prescript_cmd W b builder archive_subdir =
     (let libdir = im_common_libdir (mg_image (bw_manager W) (b_format b)) in
      [builder, ''--root'', be_name (native_env W b), ''--config-opts'', ''chrootuid='' @ int_str (il_uid (bw_images W)),
       ''--config-opts'', chroot_gid W, ''--plugin-option'', bind_option [b_place b, libdir], ''--shell'', ''--'',
       ''FATBUILDR_SOURCE_DIR='' @ path_str archive_subdir, ''/bin/bash'', path_str (joinpath libdir ''pre-stage1-rpm.sh''),
       path_str (prewrapper_path W b), path_str (prescript_path b)])"

text \<open>What is tried in the snapshot.\<close>

definition rpm_prescript_body :: "build_world \<Rightarrow> string list \<Rightarrow> path \<Rightarrow> unit bact" where
  "rpm_prescript_body W deps archive_subdir =
     sbind (if package_deps deps \<noteq> [] then mock_dnf_cmd W (''install'' # package_deps deps) else sret ()) (\<lambda>_.
     sbind (if module_deps deps \<noteq> [] then mock_dnf_cmd W ([''module'', ''install''] @ module_deps deps) else sret ()) (\<lambda>_.
     sbind (sask (\<lambda>b. image_builder (mg_image (bw_manager W) (b_format b)))) (\<lambda>builder. sdo (\<lambda>b.
     build_cruncmd W (CmdList (rpm_prescript_cmd W b builder archive_subdir)) default_args))))"

text \<open>The handler and the cleaning: a \<^verbatim>\<open>RuntimeError\<close> is kept, the snapshot is removed in any case,
  then the error is raised. Another error goes through the same cleaning.\<close>

definition rpm_prescript_in_env :: "build_world \<Rightarrow> path \<Rightarrow> unit bact" where
  "rpm_prescript_in_env W archive_subdir =
     sbind (sdo (\<lambda>b. mock_overlay_cmd W [''--snapshot'', b_id b])) (\<lambda>_.
     sbind (sask (prescript_deps W)) (\<lambda>deps.
     \<lambda>b. (let (r, b1) = rpm_prescript_body W deps archive_subdir b;
              cleanup = sbind (mock_overlay_cmd W [''--clean'']) (\<lambda>_. mock_overlay_cmd W [''--scrub'', ''overlayfs''])
          in (case cleanup b1 of
                (Inl e, b2) \<Rightarrow> (Inl e, b2)
              | (Inr _, b2) \<Rightarrow>
                  (case r of
                     Inr _ \<Rightarrow> (Inr (), b2)
                   | Inl e \<Rightarrow> (if is_a e RuntimeErr then Inl RuntimeErr else Inl e, b2))))))"

definition rpm_prescript :: "build_world \<Rightarrow> prescript_ops" where
  "rpm_prescript W = \<lparr>po_in_env = rpm_prescript_in_env W, po_tarball_path = rpm_supp_tarball_path W\<rparr>"

definition ArtifactBuildRpm_run :: "build_world \<Rightarrow> rpm_params \<Rightarrow> unit bact" where
  "ArtifactBuildRpm_run W K = build_run W (Some (rpm_prescript W)) (rpm_build_all W K)"

end
