(* ===== verification/BuildExamples.thy ===== *)
theory BuildExamples imports BuildPrepare begin

text \<open>
  A small world in which the properties of builds are exercised: an instance with one
  distribution of each format, an artifact with two sources, of which the supplementary one
  is declared first and is in the cache, while the main one is downloaded.
\<close>

definition demo_pipelines :: pipelines where
  "demo_pipelines = \<lparr>pl_architectures = [''x86_64''],
     pl_formats = [(''deb'', [[(''name'', PStr ''sid''), (''env'', PStr ''sid''), (''tag'', PStr ''sid1'')]]),
                   (''rpm'', [[(''name'', PStr ''el8''), (''env'', PStr ''rocky8''), (''tag'', PStr ''el8'')]])],
     pl_derivatives = None\<rparr>"

definition demo_env_conf :: "string \<Rightarrow> env_conf" where
  "demo_env_conf builder = \<lparr>fb_builder = builder, fb_img_update_cmds = ''update && upgrade'', fb_img_create_use_sysusersd = True,
     fb_env_path = ''envs/{{ name }}'', fb_init_cmds = ''create'', fb_shell_cmd = ''shell'', fb_exec_cmd = ''exec'',
     fb_exec_tmpfile = False, fb_env_update_cmds = ''refresh'', fb_env_as_root = True, fb_prescript_deps = [''wget'']\<rparr>"

definition demo_conf :: "unit runtime_conf" where
  "demo_conf = \<lparr>rc_run = (),
     rc_dirs = \<lparr>cd_instances = [''etc''], cd_registry = [''reg''], cd_cache = [''cache''], cd_tmp = [''tmp'']\<rparr>,
     rc_images = \<lparr>ci_storage = [''images''], ci_defs = [''defs''], ci_formats = [''deb'', ''rpm''], ci_create_cmd = ''mkosi''\<rparr>,
     rc_registry = [''reg''],
     rc_tasks = \<lparr>ct_workspaces = [''tasks''], ct_purge_policy = ''older'', ct_purge_value = Some ''7d'', ct_hook = None\<rparr>,
     rc_containers = \<lparr>cc_exec = [''usr'', ''bin'', ''systemd-nspawn''], cc_init_opts = None, cc_opts = None, cc_seccomp = True\<rparr>,
     rc_keyring = \<lparr>ck_storage = [''keys''], ck_type = ''rsa'', ck_size = 2048, ck_expires = None, ck_seeder = ''none''\<rparr>,
     rc_tokens = \<lparr>cn_storage = [''tokens''], cn_duration = 30, cn_algorithm = ''HS256'', cn_audience = ''fatbuildr''\<rparr>,
     rc_deb = DebConf (demo_env_conf ''cowbuilder'') ''mirror'' ''main'', rc_rpm = RpmConf (demo_env_conf ''mock'') [],
     rc_osi = OsiConf \<lparr>fb_builder = ''mkosi'', fb_img_update_cmds = [], fb_img_create_use_sysusersd = True\<rparr> True\<rparr>"

definition demo_manager :: images_manager where
  "demo_manager = \<lparr>mg_conf = demo_conf, mg_instance = \<lparr>ri_id = ''default'', ri_name = ''Demo'', ri_gpg_name = ''Demo'',
     ri_gpg_email = ''demo@x'', ri_pipelines = demo_pipelines\<rparr>\<rparr>"

definition demo_libs :: build_libs where
  "demo_libs = \<lparr>lib_load = (\<lambda>_. Inl ValueErr), lib_srender = (\<lambda>y _. case y of YStr s \<Rightarrow> Inr s | _ \<Rightarrow> Inl TypeErr),
     lib_frender = (\<lambda>t _. Inr t), lib_repr = (\<lambda>_. []), lib_sha1 = (\<lambda>s. ''1:'' @ s), lib_sha256 = (\<lambda>s. ''256:'' @ s),
     lib_get = (\<lambda>url. if url = ''http://x/foo-1.0.tar.xz'' then Inr (200, ''main'') else Inr (404, ''Not Found''))\<rparr>"

definition demo_git :: git_libs where
  "demo_git = \<lparr>gl_diff = (\<lambda>_ _. []), gl_patch = (\<lambda>_ t. t), gl_parse = (\<lambda>_. []), gl_dump = (\<lambda>_. [])\<rparr>"

definition demo_image_libs :: image_libs where
  "demo_image_libs = \<lparr>il_run = (\<lambda>c fs. (if ''false'' \<in> set (rn_cmd c) then 1 else 0, fs)), il_render = (\<lambda>t _. Inr t),
     il_tar = (\<lambda>_. ''tar''), il_shlex_join = str_join '' '', il_user = ''fatbuildr'', il_group = ''fatbuildr'',
     il_uid = 990, il_gid = 990, il_host_arch = ''x86_64'', il_tmpfile = [''tmp'', ''cmd'']\<rparr>"

definition demo_world :: build_world where
  "demo_world = \<lparr>bw_libs = demo_libs, bw_git = demo_git, bw_images = demo_image_libs, bw_manager = demo_manager,
     bw_registry = \<lparr>ro_path = [''reg''], ro_source_version = (\<lambda>_ _ _ _. Inr None), ro_source_changelog = (\<lambda>_ _ _ _. Inr []),
       ro_changelog = (\<lambda>_ _ _ _ _. Inr []), ro_publish = (\<lambda>b. Inr (ss_fs b))\<rparr>,
     bw_open = (\<lambda>_ _. Inl ValueErr), bw_link = (\<lambda>p _ fs. fs_write p [] fs), bw_mktar = (\<lambda>_ _. ''tar''), bw_encode = (\<lambda>_. ''tar''),
     bw_mktime = (\<lambda>_. 0), bw_day = ''2023-01-01'', bw_date = ''20230101'', bw_key_export = Inr ''key''\<rparr>"

definition demo_source :: "string \<Rightarrow> string \<Rightarrow> yaml \<times> yaml" where
  "demo_source i v = (YStr i, YMap [(YStr v, YMap [(YStr ''sha256'', YStr (''256:'' @ (if i = ''foo'' then ''main'' else ''data'')))])])"

definition demo_yaml :: yaml where
  "demo_yaml = YMap [
     (YStr ''versions'', YMap [(YStr ''foo-data'', YStr ''1.0''), (YStr ''foo'', YStr ''1.0'')]),
     (YStr ''sources'', YMap [(YStr ''foo-data'', YStr ''http://x/data-1.0.tar.xz''), (YStr ''foo'', YStr ''http://x/foo-1.0.tar.xz'')]),
     (YStr ''checksums'', YMap [demo_source ''foo-data'' ''1.0'', demo_source ''foo'' ''1.0'']),
     (YStr ''rpm'', YMap [(YStr ''release'', YInt 1)])]"

definition demo_defs :: artifact_defs where
  "demo_defs = \<lparr>ad_class = RpmDefs, ad_place = [''place''], ad_artifact = ''foo'', ad_format = ''rpm'',
     ad_sources = [ArtifactSourceDefs (YStr ''foo-data'') demo_yaml, ArtifactSourceDefs (YStr ''foo'') demo_yaml],
     ad_defs = demo_yaml\<rparr>"

definition demo_fs :: node where
  "demo_fs = Dir [(''cache'', Dir [(''foo'', Dir [(''data-1.0.tar.xz'', File ''data'')])]), (''place'', Dir []),
     (''tmp'', Dir [(''sub'', Dir [])])]"

definition demo_build :: build where
  "demo_build = \<lparr>ss_fs = demo_fs, ss_log = [], b_id = ''42'', b_place = [''place''], b_artifact = ''foo'', b_format = ''rpm'',
     b_distribution = ''el8'', b_architectures = [''x86_64''], b_derivative = ''main'', b_derivatives = [''main''],
     b_author = ''Ann'', b_email = ''a@x'', b_message = ''msg'', b_input_tarball = [''tmp'', ''sub'', ''foo.tar.xz''],
     b_sources = [], b_cache_dir = [''cache'', ''foo''], b_defs = Some demo_defs, b_version = None, b_archives = [],
     b_patches_dir = None, b_patches = [], b_prescript_tarballs = [], b_env_name = ''rocky8'', b_interactive = False\<rparr>"

lemma demo_prepared: "fst (prepare_sources demo_world demo_build) = Inr ()"
  by code_simp

end
