(* ===== verification/Frames.thy ===== *)
theory Frames imports Prelude begin

text \<open>
  What an action leaves as it was: a reflexive and transitive relation between the state
  before and the state after, which sequences, loops and handlers inherit from their parts.
  The locale is interpreted where the parts are known, once for each relation.
\<close>

definition keeping :: "('s \<Rightarrow> 's \<Rightarrow> bool) \<Rightarrow> ('s, 'a) act \<Rightarrow> bool" where
  "keeping R m \<longleftrightarrow> (\<forall>s. R s (snd (m s)))"

lemma keepingI: "(\<And>s. R s (snd (m s))) \<Longrightarrow> keeping R m"
  by (simp add: keeping_def)

lemma keepingD: "keeping R m \<Longrightarrow> m s = (r, t) \<Longrightarrow> R s t"
  by (metis keeping_def snd_conv)

locale framed =
  fixes R :: "'s \<Rightarrow> 's \<Rightarrow> bool"
  assumes R_refl: "R s s"
    and R_trans: "R s t \<Longrightarrow> R t u \<Longrightarrow> R s u"
begin

lemma kept_sret [intro!, simp]: "keeping R (sret x)"
  by (simp add: keeping_def sret_def R_refl)

lemma kept_slift [intro!, simp]: "keeping R (slift r)"
  by (simp add: keeping_def slift_def R_refl)

lemma kept_at_sbind:
  assumes "R s (snd (m s))" and "\<And>x t. m s = (Inr x, t) \<Longrightarrow> R t (snd (f x t))"
  shows "R s (snd (sbind m f s))"
proof (cases "m s")
  case (Pair r t)
  then show ?thesis
    using assms R_trans [of s t] by (cases r) (auto simp: sbind_def)
qed

lemma kept_sbind: "keeping R m \<Longrightarrow> (\<And>x. keeping R (f x)) \<Longrightarrow> keeping R (sbind m f)"
  by (rule keepingI, rule kept_at_sbind) (auto simp: keeping_def)

lemma kept_sfor: "(\<And>x. x \<in> set xs \<Longrightarrow> keeping R (f x)) \<Longrightarrow> keeping R (sfor f xs)"
  by (induction xs) (auto intro: kept_sbind)

lemma kept_scatch: "keeping R m \<Longrightarrow> (\<And>e. keeping R (h e)) \<Longrightarrow> keeping R (scatch m p h)"
  unfolding keeping_def scatch_def
  by (auto split: sum.splits prod.splits) (metis R_trans snd_conv)+

lemma kept_if: "keeping R m \<Longrightarrow> keeping R m' \<Longrightarrow> keeping R (if c then m else m')"
  by simp

end

end
