(* ===== verification/BuildSources.thy ===== *)
theory BuildSources imports BuildExamples Frames begin

text \<open>
  The sources of a build: what the preparation of an artifact guarantees of the archives it
  takes from the cache and from the network, and the cases it does not handle.
\<close>

section \<open>What fetching leaves as it was\<close>

lemma lookup_put_new:
  assumes "put p m n = Inr n'" "lookup p n = None" "lookup q n = Some (File c)"
  shows "lookup q n' = Some (File c)"
proof -
  have "\<not> prefix p q"
  proof
    assume "prefix p q"
    then obtain r where "q = p @ r" by (auto simp: prefix_def)
    with assms(2,3) show False by (simp add: lookup_append)
  qed
  moreover have "\<not> prefix q p"
  proof
    assume "prefix q p"
    then obtain r where r: "p = q @ r" by (auto simp: prefix_def)
    with assms(2,3) obtain x xs where "r = x # xs" by (cases r) auto
    then have "lookup p n = None" using assms(3) r by (simp add: lookup_append)
    have "\<And>n. lookup q n = Some (File c) \<Longrightarrow> put (q @ x # xs) m n \<noteq> Inr n'" for n'
    proof (induction q arbitrary: n')
      case (Cons y q)
      then show ?case
        by (cases n; cases q) (auto simp: rmap_Inr_conv split: option.splits)
    qed simp
    with assms(1,3) r \<open>r = x # xs\<close> show False by blast
  qed
  ultimately show ?thesis
    using lookup_put_apart [OF assms(1)] assms(3) by (simp add: apart_def)
qed

definition files_kept :: "build \<Rightarrow> build \<Rightarrow> bool" where
  "files_kept b b' \<longleftrightarrow> (\<forall>p c. fs_read (ss_fs b) p = Inr c \<longrightarrow> fs_read (ss_fs b') p = Inr c)"

definition request_kept :: "build \<Rightarrow> build \<Rightarrow> bool" where
  "request_kept b b' \<longleftrightarrow> b_defs b' = b_defs b \<and> b_cache_dir b' = b_cache_dir b \<and> b_derivative b' = b_derivative b
     \<and> b_artifact b' = b_artifact b \<and> prefix (b_archives b) (b_archives b')"

interpretation fk: framed files_kept
  by unfold_locales (auto simp: files_kept_def)

interpretation rk: framed request_kept
  by unfold_locales (auto simp: request_kept_def)

lemma fs_read_lookup: "fs_read n p = Inr c \<longleftrightarrow> lookup p n = Some (File c)"
  by (auto simp: fs_read_def split: option.splits node.splits)

lemma download_files_kept: "\<not> fs_exists (ss_fs b) p \<Longrightarrow> files_kept b (snd (on_sys (dl_file L url p) b))"
  unfolding files_kept_def on_sys_def spart_def dl_file_def fs_exists_def fs_read_lookup
  by (auto simp: rbind_Inr_conv split: sum.splits dest!: write_Inr_put intro: lookup_put_new)

lemma ensure_cached_files: "keeping files_kept (ensure_cached W s)"
  unfolding ensure_cached_def sdo_def
  by (rule fk.kept_sbind)
    (auto simp: keeping_def sask_def fk.R_refl sret_def slift_def intro!: fk.kept_at_sbind download_files_kept)

lemma on_sys_request: "request_kept b (snd (on_sys f b))"
  by (simp add: on_sys_def spart_def request_kept_def split: sum.split)

lemma ensure_cached_request: "keeping request_kept (ensure_cached W s)"
  unfolding ensure_cached_def sdo_def
  by (rule rk.kept_sbind)
    (auto simp: keeping_def sask_def rk.R_refl sret_def slift_def intro!: rk.kept_at_sbind on_sys_request)

interpretation ak: framed "\<lambda>b b'. b_archives b' = b_archives b"
  by unfold_locales auto

lemma ensure_cached_archives: "keeping (\<lambda>b b'. b_archives b' = b_archives b) (ensure_cached W s)"
proof -
  have a: "b_archives (snd (on_sys f b)) = b_archives b" for f b
    by (simp add: on_sys_def spart_def split: sum.split)
  show ?thesis
    unfolding ensure_cached_def sdo_def
    by (rule ak.kept_sbind)
      (auto simp: keeping_def sask_def sret_def slift_def a intro!: ak.kept_at_sbind)
qed

lemma cached_path_kept: "request_kept b b' \<Longrightarrow> cached_path W i b' = cached_path W i b"
  by (simp add: request_kept_def cached_path_def the_defs_def)

lemma verify_checksums_kept:
  "files_kept b b' \<Longrightarrow> verify_checksums L (ss_fs b) p cs = Inr () \<Longrightarrow> verify_checksums L (ss_fs b') p cs = Inr ()"
  unfolding verify_checksums_def
  by (induction cs) (auto simp: verify_checksum_def rbind_Inr_conv files_kept_def split: if_splits)

text \<open>What a source that has been fetched is.\<close>

definition fetched :: "build_world \<Rightarrow> artifact_source_defs \<Rightarrow> build \<Rightarrow> build \<Rightarrow> bool" where
  "fetched W s b b' \<longleftrightarrow>
     (\<exists>p cs. cached_path W (asd_id s) b = Inr p \<and> source_checksums (bw_libs W) (b_derivative b) s = Inr cs
        \<and> verify_checksums (bw_libs W) (ss_fs b') p cs = Inr ()
        \<and> \<lparr>so_id = asd_id s, so_path = p\<rparr> \<in> set (b_archives b'))"

lemma fetched_kept: "fetched W s b b' \<Longrightarrow> files_kept b' b'' \<Longrightarrow> request_kept b' b'' \<Longrightarrow> fetched W s b b''"
  unfolding fetched_def using verify_checksums_kept by (auto simp: request_kept_def prefix_def)

lemma fetched_before: "fetched W s b b' \<Longrightarrow> request_kept b0 b \<Longrightarrow> fetched W s b0 b'"
  by (simp add: fetched_def cached_path_def the_defs_def request_kept_def)

lemma fetch_source_ok:
  assumes "fetch_source W s b = (Inr (), b')" and "build_archive b (asd_id s) = None"
  shows "fetched W s b b' \<and> (\<exists>a. b_archives b' = b_archives b @ [a] \<and> so_id a = asd_id s)"
proof -
  obtain b1 p where e: "ensure_cached W s b = (Inr (), b1)" and c: "check_source W s b1 = Inr ()"
    and p: "cached_path W (asd_id s) b1 = Inr p"
    and b': "b' = b1\<lparr>b_archives := b_archives b1 @ [\<lparr>so_id = asd_id s, so_path = p\<rparr>]\<rparr>"
    using assms by (auto simp: fetch_source_def sdo_def sbind_Inr_conv sask_def smodify_def)
  have k: "request_kept b b1"
    using ensure_cached_request e by (rule keepingD)
  obtain cs where cs: "source_checksums (bw_libs W) (b_derivative b1) s = Inr cs"
    and v: "verify_checksums (bw_libs W) (ss_fs b1) p cs = Inr ()"
    using c p by (auto simp: check_source_def rcatch_def rbind_Inr_conv split: sum.splits if_splits)
  have "b_archives b1 = b_archives b"
    using ensure_cached_archives e by (rule keepingD)
  then show ?thesis
    using b' cs v p k unfolding fetched_def
    by (auto simp: cached_path_kept [OF k] request_kept_def)
qed

lemma fetch_source_keeps: "keeping files_kept (fetch_source W s)" "keeping request_kept (fetch_source W s)"
proof -
  have a: "files_kept t (snd (smodify (\<lambda>b. b\<lparr>b_archives := b_archives b @ [a]\<rparr>) t))" for a t
    by (simp add: files_kept_def smodify_def)
  have r: "request_kept t (snd (smodify (\<lambda>b. b\<lparr>b_archives := b_archives b @ [a]\<rparr>) t))" for a t
    by (simp add: request_kept_def smodify_def)
  have e: "files_kept t (snd (ensure_cached W s t))" "request_kept t (snd (ensure_cached W s t))" for t
    using ensure_cached_files ensure_cached_request by (auto simp: keeping_def)
  show "keeping files_kept (fetch_source W s)" "keeping request_kept (fetch_source W s)"
    unfolding fetch_source_def sdo_def keeping_def
    by (auto simp: sret_def fk.R_refl rk.R_refl sask_def a r e intro!: fk.kept_at_sbind rk.kept_at_sbind)
qed

lemma sources_fetched:
  assumes "sfor (fetch_source W) ss b = (Inr (), b')" and "distinct (map asd_id ss)" and "s \<in> set ss"
    and "build_archive b (asd_id s) = None"
  shows "fetched W s b b'"
  using assms
proof (induction ss arbitrary: b)
  case (Cons x ss)
  obtain b1 where x: "fetch_source W x b = (Inr (), b1)" and rest: "sfor (fetch_source W) ss b1 = (Inr (), b')"
    using Cons.prems(1) by (auto simp: sbind_Inr_conv)
  have k: "request_kept b b1" "files_kept b1 b'" "request_kept b1 b'"
    using keepingD [OF fetch_source_keeps(2) x] keepingD [OF fk.kept_sfor rest] keepingD [OF rk.kept_sfor rest]
      fetch_source_keeps by blast+
  show ?case
  proof (cases "s = x")
    case True
    then show ?thesis
      using fetch_source_ok x Cons.prems(4) k fetched_kept by blast
  next
    case False
    then have s: "s \<in> set ss" "asd_id s \<noteq> asd_id x"
      using Cons.prems(2,3) by (auto simp: image_iff)
    have "build_archive b1 (asd_id s) = None"
    proof (cases "build_archive b (asd_id x)")
      case None
      then show ?thesis
        using fetch_source_ok [OF x] Cons.prems(4) s(2) by (auto simp: build_archive_def find_None_iff)
    next
      case (Some a)
      then have "b1 = b"
        using x by (simp add: fetch_source_def sdo_def sret_def)
      then show ?thesis
        using Cons.prems(4) by simp
    qed
    then show ?thesis
      using Cons.IH [OF rest] Cons.prems(2) s(1) fetched_before k(1) by auto
  qed
qed simp

section \<open>The order of the archives\<close>

lemma smodify_archives: "b_archives (snd (smodify (\<lambda>b. b\<lparr>b_archives := b_archives b @ xs\<rparr>) t)) = b_archives t @ xs"
  by (simp add: smodify_def)

lemma on_sys_archives: "on_sys f b = (r, b') \<Longrightarrow> b_archives b' = b_archives b \<and> request_kept b b'"
  using on_sys_request [of b f] by (auto simp: on_sys_def spart_def split: sum.splits)

lemma use_source_ok:
  assumes "use_source W source b = (Inr (), b')"
  shows "request_kept b b' \<and> map so_id (b_archives b') = map so_id (b_archives b) @ [so_id source]"
proof -
  obtain b1 b2 where 1: "on_sys (shutil_move (so_path source) (joinpath (b_place b) (List.last (so_path source)))) b = (Inr (), b1)"
    and 2: "(if so_is_main (b_artifact b) source
              then sbind (sask (\<lambda>b. rbind (the_defs b) (\<lambda>d. rbind (artifact_release (bw_libs W) d) (\<lambda>r.
                     ArtifactVersion_init (version_of_name (b_artifact b) (List.last (so_path source)) @ ''-'' @ r)))))
                   (\<lambda>v. smodify (\<lambda>b. b\<lparr>b_version := Some v\<rparr>))
              else sret ()) b1 = (Inr (), b2)"
    and 3: "b' = b2\<lparr>b_archives := b_archives b2 @ [\<lparr>so_id = so_id source,
              so_path = joinpath (b_place b) (List.last (so_path source))\<rparr>]\<rparr>"
    using assms by (auto simp: use_source_def sdo_def Let_def sbind_Inr_conv smodify_def)
  have "b_archives b2 = b_archives b1 \<and> request_kept b1 b2"
    using 2 by (auto simp: sbind_Inr_conv sask_def smodify_def sret_def request_kept_def split: if_splits)
  then show ?thesis
    using on_sys_archives [OF 1] 3 by (auto simp: request_kept_def)
qed

lemma use_sources_ok:
  "sfor (use_source W) ss b = (Inr (), b') \<Longrightarrow>
     request_kept b b' \<and> map so_id (b_archives b') = map so_id (b_archives b) @ map so_id ss"
proof (induction ss arbitrary: b)
  case Nil
  then show ?case by (simp add: sret_def rk.R_refl)
next
  case (Cons s ss)
  then obtain b1 where "use_source W s b = (Inr (), b1)" "sfor (use_source W) ss b1 = (Inr (), b')"
    by (auto simp: sbind_Inr_conv)
  then show ?case
    using use_source_ok Cons.IH rk.R_trans by fastforce
qed

lemma prepare_version_ok: "prepare_version W b = (Inr (), b') \<Longrightarrow> request_kept b b' \<and> b_archives b' = b_archives b"
  by (auto simp: prepare_version_def sdo_def sbind_Inr_conv sask_def smodify_def sret_def request_kept_def split: option.splits)

text \<open>The steps of \<open>prepare_sources\<close>: the state before the loop over the declared sources.\<close>

lemma prepare_sources_steps:
  assumes "prepare_sources W b = (Inr (), b')" and "b_defs b = Some d"
  obtains b1 where "request_kept b b1" "map so_id (b_archives b1) = map so_id (b_archives b) @ map so_id (b_sources b)"
    "sfor (fetch_source W) (ad_sources d) b1 = (Inr (), b')"
proof -
  obtain c1 c2 c3 c4 d' where 1: "sfor (use_source W) (b_sources b) b = (Inr (), c1)"
    and 2: "on_sys (fs_rmdir (butlast (b_input_tarball b))) c1 = (Inr (), c2)"
    and 3: "prepare_version W c2 = (Inr (), c3)" and d': "sask the_defs c3 = (Inr d', c4)"
    and 4: "sfor (fetch_source W) (ad_sources d') c4 = (Inr (), b')"
    using assms(1) by (auto simp: prepare_sources_def sdo_def sbind_Inr_conv)
  have k: "request_kept b c3"
    using use_sources_ok [OF 1] on_sys_archives [OF 2] prepare_version_ok [OF 3] rk.R_trans by blast
  then have "b_defs c3 = Some d"
    using assms(2) by (simp add: request_kept_def)
  then have "d' = d" "c4 = c3"
    using d' by (auto simp: sask_def the_defs_def)
  then show ?thesis
    using that [OF k] 4 use_sources_ok [OF 1] on_sys_archives [OF 2] prepare_version_ok [OF 3] by simp
qed

lemma build_archive_Some: "build_archive b i = Some a \<Longrightarrow> i \<in> so_id ` set (b_archives b)"
  by (auto simp: build_archive_def find_Some_iff)

lemma fetch_loop_ids:
  "sfor (fetch_source W) ss b = (Inr (), b') \<Longrightarrow> distinct (map asd_id ss) \<Longrightarrow>
     map so_id (b_archives b') = map so_id (b_archives b) @ filter (\<lambda>i. i \<notin> so_id ` set (b_archives b)) (map asd_id ss)"
proof (induction ss arbitrary: b)
  case (Cons s ss)
  obtain b1 where s: "fetch_source W s b = (Inr (), b1)" and rest: "sfor (fetch_source W) ss b1 = (Inr (), b')"
    using Cons.prems(1) by (auto simp: sbind_Inr_conv)
  show ?case
  proof (cases "build_archive b (asd_id s)")
    case None
    obtain a where a: "b_archives b1 = b_archives b @ [a]" "so_id a = asd_id s"
      using fetch_source_ok [OF s None] by blast
    have "filter (\<lambda>i. i \<notin> so_id ` set (b_archives b1)) (map asd_id ss)
        = filter (\<lambda>i. i \<notin> so_id ` set (b_archives b)) (map asd_id ss)"
      using Cons.prems(2) a by (intro filter_cong) (auto simp: image_iff)
    then show ?thesis
      using Cons.IH [OF rest] Cons.prems(2) a None by (auto simp: build_archive_def find_None_iff)
  next
    case (Some a)
    then have "b1 = b" "asd_id s \<in> so_id ` set (b_archives b)"
      using s build_archive_Some by (auto simp: fetch_source_def sdo_def sret_def)
    then show ?thesis
      using Cons.IH [OF rest] Cons.prems(2) by simp
  qed
qed (simp add: sret_def)

text \<open>The archives of a build are the ones that came with the request, in their order, then
  the declared sources that did not come with it, in the order of the definition file. The main
  archive can then be at any place.\<close>

theorem archives_order:
  assumes "prepare_sources W b = (Inr (), b')" and "b_defs b = Some d" and "distinct (map asd_id (ad_sources d))"
    and "b_archives b = []"
  shows "map so_id (b_archives b') = map so_id (b_sources b)
     @ filter (\<lambda>i. i \<notin> so_id ` set (b_sources b)) (map asd_id (ad_sources d))"
proof -
  obtain b1 where "map so_id (b_archives b1) = map so_id (b_sources b)"
    and "sfor (fetch_source W) (ad_sources d) b1 = (Inr (), b')"
    using prepare_sources_steps [OF assms(1,2)] assms(4) by auto
  then show ?thesis
    using fetch_loop_ids assms(3) by (metis list.set_map)
qed

text \<open>C4. When the sources of a build are prepared, each source of the definition file that did not
  come with the request is an archive of the build, found in the cache, and its content has the
  digests that the definition file declares for its version. A later download does not
  change it.\<close>

theorem sources_verified:
  assumes "prepare_sources W b = (Inr (), b')" and "b_defs b = Some d" and "distinct (map asd_id (ad_sources d))"
    and "b_archives b = []" and "s \<in> set (ad_sources d)" and "asd_id s \<notin> so_id ` set (b_sources b)"
  shows "\<exists>p cs. cached_path W (asd_id s) b = Inr p \<and> source_checksums (bw_libs W) (b_derivative b) s = Inr cs
     \<and> verify_checksums (bw_libs W) (ss_fs b') p cs = Inr () \<and> \<lparr>so_id = asd_id s, so_path = p\<rparr> \<in> set (b_archives b')"
proof -
  obtain b1 where k: "request_kept b b1" and ids: "map so_id (b_archives b1) = map so_id (b_sources b)"
    and run: "sfor (fetch_source W) (ad_sources d) b1 = (Inr (), b')"
    using prepare_sources_steps [OF assms(1,2)] assms(4) by auto
  have "asd_id s \<notin> so_id ` set (b_archives b1)"
    using ids assms(6) by (metis list.set_map)
  then have "build_archive b1 (asd_id s) = None"
    by (auto simp: build_archive_def find_None_iff image_iff)
  then have "fetched W s b b'"
    using sources_fetched [OF run assms(3,5)] fetched_before [OF _ k] by blast
  then show ?thesis
    by (simp add: fetched_def)
qed

lemma demo_sources:
  "b_defs demo_build = Some demo_defs" "distinct (map asd_id (ad_sources demo_defs))" "b_archives demo_build = []"
  "b_sources demo_build = []" "ArtifactSourceDefs (YStr ''foo'') demo_yaml \<in> set (ad_sources demo_defs)"
  by (simp_all add: demo_build_def demo_defs_def ArtifactSourceDefs_def)

lemma demo_sources_run: "prepare_sources demo_world demo_build = (Inr (), snd (prepare_sources demo_world demo_build))"
  using demo_prepared by (metis prod.collapse)

lemma archives_order_witness:
  "map so_id (b_archives (snd (prepare_sources demo_world demo_build))) = map so_id (b_sources demo_build)
     @ filter (\<lambda>i. i \<notin> so_id ` set (b_sources demo_build)) (map asd_id (ad_sources demo_defs))"
  by (rule archives_order [OF demo_sources_run demo_sources(1-3)])

lemma sources_verified_witness:
  "\<exists>p cs. cached_path demo_world (YStr ''foo'') demo_build = Inr p
     \<and> source_checksums (bw_libs demo_world) (b_derivative demo_build) (ArtifactSourceDefs (YStr ''foo'') demo_yaml) = Inr cs
     \<and> verify_checksums (bw_libs demo_world) (ss_fs (snd (prepare_sources demo_world demo_build))) p cs = Inr ()
     \<and> \<lparr>so_id = YStr ''foo'', so_path = p\<rparr> \<in> set (b_archives (snd (prepare_sources demo_world demo_build)))"
  using sources_verified [OF demo_sources_run demo_sources(1-3,5)]
  by (simp add: demo_sources(4) ArtifactSourceDefs_def)

section \<open>A bad download stays\<close>

definition with_network :: "build_world \<Rightarrow> (string \<Rightarrow> (nat \<times> string) res) \<Rightarrow> build_world" where
  "with_network W g = W\<lparr>bw_libs := (bw_libs W)\<lparr>lib_get := g\<rparr>\<rparr>"

lemma yaml_str_network [simp]: "yaml_str (L\<lparr>lib_get := g\<rparr>) = yaml_str L"
  by (rule ext) (simp add: yaml_str_def split: yaml.split)

lemma source_version_network [simp]: "source_version (L\<lparr>lib_get := g\<rparr>) dv s = source_version L dv s"
  by (simp add: source_version_def)

lemma source_checksums_network [simp]: "source_checksums (L\<lparr>lib_get := g\<rparr>) dv s = source_checksums L dv s"
  by (simp add: source_checksums_def)

lemma rendered_source_network [simp]: "rendered_source (L\<lparr>lib_get := g\<rparr>) dv s = rendered_source L dv s"
  by (simp add: rendered_source_def)

lemma verify_checksums_network [simp]: "verify_checksums (L\<lparr>lib_get := g\<rparr>) fs p cs = verify_checksums L fs p cs"
  by (simp add: verify_checksums_def verify_checksum_def hasher_def cong: if_cong)

lemma source_filename_network [simp]: "source_filename (L\<lparr>lib_get := g\<rparr>) = source_filename L"
  by (intro ext) (simp add: source_filename_def)

lemma cached_path_network [simp]: "cached_path (with_network W g) i b = cached_path W i b"
  by (simp add: cached_path_def with_network_def cache_archive_def cong: option.case_cong)

lemma check_source_network [simp]: "check_source (with_network W g) s b = check_source W s b"
  by (simp add: check_source_def) (simp add: with_network_def)

lemma fetch_bad_cached:
  assumes "build_archive b (asd_id s) = None" and "cached_path W (asd_id s) b = Inr p" and "fs_exists (ss_fs b) p"
    and "check_source W s b = Inl e"
  shows "fetch_source W s b = (Inl e, b)"
  using assms by (simp add: fetch_source_def sdo_def ensure_cached_def sask_def act_simps sbind_def)

lemma check_source_error:
  assumes "cached_path W (asd_id s) b = Inr p" and "source_checksums (bw_libs W) (b_derivative b) s = Inr cs"
    and "verify_checksums (bw_libs W) (ss_fs b) p cs \<noteq> Inr ()"
  shows "\<exists>e. check_source W s b = Inl e"
  using assms by (cases "verify_checksums (bw_libs W) (ss_fs b) p cs") (auto simp: check_source_def rcatch_def)


definition broken_world :: build_world where
  "broken_world = with_network demo_world (\<lambda>_. Inr (503, ''Service Unavailable''))"


end
