(* ===== verification/RpmSpec.thy ===== *)
theory RpmSpec imports BuildRpm BuildSources begin

text \<open>
  RPM packages: the numbers of the sources in the spec file, and the snapshot of the build
  environment in which the prescript runs.
\<close>

section \<open>The numbers of the sources\<close>

lemma in_numbered: "(i, x) \<in> set (numbered k xs) \<longleftrightarrow> (\<exists>j < length xs. i = k + j \<and> x = xs ! j)"
  unfolding numbered_def in_set_zip by (auto simp: nth_upt) (metis add.commute nth_upt nat_add_left_cancel_less)

text \<open>The directive of each supplementary archive, \<^verbatim>\<open>%setup -a i\<close>, names the archive that is
  declared as \<^verbatim>\<open>Source i\<close>.\<close>

definition setup_matches :: "build \<Rightarrow> bool" where
  "setup_matches b \<longleftrightarrow> set (numbered 1 (supplementary_archives b)) \<subseteq> set (numbered 0 (rpm_sources b))"

lemma setup_matches_nth:
  "setup_matches b \<longleftrightarrow> (\<forall>j < length (supplementary_archives b). Suc j < length (rpm_sources b) \<and>
     rpm_sources b ! Suc j = supplementary_archives b ! j)"
proof -
  have "setup_matches b \<longleftrightarrow> (\<forall>i a. (i, a) \<in> set (numbered 1 (supplementary_archives b)) \<longrightarrow> (i, a) \<in> set (numbered 0 (rpm_sources b)))"
    by (auto simp: setup_matches_def)
  then show ?thesis
    by (auto simp: in_numbered)
qed

lemma main_archive_split:
  assumes "main_archive b \<noteq> None" and "distinct (map so_id (b_archives b))"
  obtains us m vs where "b_archives b = us @ m # vs" "so_is_main (b_artifact b) m"
    "supplementary_archives b = us @ vs" "\<forall>a \<in> set (us @ vs). \<not> so_is_main (b_artifact b) a"
proof -
  obtain m where "m \<in> set (b_archives b)" "so_id m = YStr (b_artifact b)"
    using assms(1) by (auto simp: main_archive_def build_archive_def find_None_iff)
  then obtain us vs where b: "b_archives b = us @ m # vs" "so_is_main (b_artifact b) m"
    by (metis split_list so_is_main_def)
  have others: "\<forall>a \<in> set (us @ vs). \<not> so_is_main (b_artifact b) a"
    using assms(2) b \<open>so_id m = _\<close> by (auto simp: so_is_main_def image_iff)
  then have "supplementary_archives b = us @ vs"
    using b by (simp add: supplementary_archives_def filter_id_conv)
  with b others that show ?thesis by blast
qed



section \<open>The snapshot\<close>

text \<open>The commands that have been run are only added to.\<close>

definition log_grows :: "build \<Rightarrow> build \<Rightarrow> bool" where
  "log_grows b b' \<longleftrightarrow> prefix (ss_log b) (ss_log b')"

interpretation lg: framed log_grows
  by unfold_locales (auto simp: log_grows_def)

lemma on_sys_log: "keeping log_grows (on_sys f)"
  by (rule keepingI) (simp add: log_grows_def on_sys_def spart_def split: sum.split)

lemma sask_log [intro!, simp]: "keeping log_grows (sask f)"
  by (simp add: keeping_def sask_def lg.R_refl)

lemma sdo_log: "(\<And>b. keeping log_grows (f b)) \<Longrightarrow> keeping log_grows (sdo f)"
  by (simp add: keeping_def sdo_def)

lemma crun_log: "keeping log_grows (crun X u i cmd a)"
  unfolding crun_def
  by (intro lg.kept_sbind lg.kept_slift)
    (auto simp: keeping_def ask_sys_def exec_runcmd_def log_grows_def split: prod.split)

lemma build_cruncmd_log: "keeping log_grows (build_cruncmd W cmd a)"
  unfolding build_cruncmd_def Let_def by (intro sdo_log crun_log)

lemma build_keyring_log: "keeping log_grows (build_keyring W)"
  unfolding build_keyring_def Let_def
  by (intro sdo_log) (auto intro!: lg.kept_sbind on_sys_log)

lemma mock_dnf_log: "keeping log_grows (mock_dnf_cmd W args)"
  unfolding mock_dnf_cmd_def by (intro lg.kept_sbind sdo_log build_cruncmd_log build_keyring_log sask_log)

lemma prescript_body_log: "keeping log_grows (rpm_prescript_body W deps d)"
  unfolding rpm_prescript_body_def
  by (intro lg.kept_sbind sdo_log build_cruncmd_log sask_log) (auto intro: mock_dnf_log)

text \<open>The arguments of a command of the log end with the given ones.\<close>

definition ran :: "string list \<Rightarrow> build \<Rightarrow> bool" where
  "ran args b \<longleftrightarrow> (\<exists>c \<in> set (ss_log b). suffix args (rn_cmd c))"

lemma ran_grows: "ran args b \<Longrightarrow> log_grows b b' \<Longrightarrow> ran args b'"
  unfolding ran_def log_grows_def using set_mono_prefix by blast

lemma crun_ran: "ran ws (snd (crun X u i (CmdList ws) a b))"
  by (simp add: crun_def sbind_def ask_sys_def slift_def cmd_words_def exec_runcmd_def ran_def suffix_def split: prod.split)

lemma ran_suffix: "ran args b \<Longrightarrow> suffix args' args \<Longrightarrow> ran args' b"
  unfolding ran_def using suffix_order.trans by blast

lemma overlay_ran:
  assumes "image_builder (mg_image (bw_manager W) (b_format b)) = Inr x"
  shows "ran args (snd (mock_overlay_cmd W args b))"
  using assms
  by (simp add: mock_overlay_cmd_def sbind_def sask_def sdo_def build_cruncmd_def Let_def)
    (auto intro!: ran_suffix [OF crun_ran] simp: suffix_def)

lemma overlay_log: "keeping log_grows (mock_overlay_cmd W args)"
  unfolding mock_overlay_cmd_def by (intro lg.kept_sbind sdo_log build_cruncmd_log sask_log)

text \<open>The format of a build, which tells the builder, does not change.\<close>

definition format_kept :: "build \<Rightarrow> build \<Rightarrow> bool" where
  "format_kept b b' \<longleftrightarrow> b_format b' = b_format b"

interpretation fmt: framed format_kept
  by unfold_locales (auto simp: format_kept_def)

lemma crun_format: "keeping format_kept (crun X u i cmd a)"
  unfolding crun_def
  by (intro fmt.kept_sbind fmt.kept_slift)
    (auto simp: keeping_def ask_sys_def exec_runcmd_def format_kept_def split: prod.split)

lemma sdo_format: "(\<And>b. keeping format_kept (f b)) \<Longrightarrow> keeping format_kept (sdo f)"
  by (simp add: keeping_def sdo_def)

lemma sask_format [intro!, simp]: "keeping format_kept (sask f)"
  by (simp add: keeping_def sask_def fmt.R_refl)

lemma on_sys_format: "keeping format_kept (on_sys f)"
  by (rule keepingI) (simp add: format_kept_def on_sys_def spart_def split: sum.split)

lemma build_cruncmd_format: "keeping format_kept (build_cruncmd W cmd a)"
  unfolding build_cruncmd_def Let_def by (intro sdo_format crun_format)

lemma build_keyring_format: "keeping format_kept (build_keyring W)"
  unfolding build_keyring_def Let_def
  by (intro sdo_format) (auto intro!: fmt.kept_sbind on_sys_format)

lemma mock_dnf_format: "keeping format_kept (mock_dnf_cmd W args)"
  unfolding mock_dnf_cmd_def by (intro fmt.kept_sbind sdo_format build_cruncmd_format build_keyring_format sask_format)

lemma prescript_body_format: "keeping format_kept (rpm_prescript_body W deps d)"
  unfolding rpm_prescript_body_def
  by (intro fmt.kept_sbind sdo_format build_cruncmd_format sask_format) (auto intro: mock_dnf_format)

lemma overlay_format: "keeping format_kept (mock_overlay_cmd W args)"
  unfolding mock_overlay_cmd_def by (intro fmt.kept_sbind sdo_format build_cruncmd_format sask_format)

text \<open>C14. Once the snapshot of the build environment has been made and the dependencies of the
  prescript are known, the command that removes the snapshot is run, whatever becomes of the
  prescript; and when the prescript fails the build fails with an error, after the
  cleaning.\<close>

theorem snapshot_cleaned:
  assumes "mock_overlay_cmd W [''--snapshot'', b_id b] b = (Inr (), b1)" and "prescript_deps W b1 = Inr deps"
    and "image_builder (mg_image (bw_manager W) (b_format b)) = Inr x"
  shows "ran [''--clean''] (snd (rpm_prescript_in_env W d b))
     \<and> (fst (rpm_prescript_body W deps d b1) \<noteq> Inr () \<longrightarrow> fst (rpm_prescript_in_env W d b) \<noteq> Inr ())"
proof -
  let ?B = "rpm_prescript_body W deps d b1"
  let ?C = "sbind (mock_overlay_cmd W [''--clean'']) (\<lambda>_. mock_overlay_cmd W [''--scrub'', ''overlayfs''])"
  have "b_format (snd ?B) = b_format b"
    using keepingD [OF overlay_format assms(1)] prescript_body_format by (auto simp: format_kept_def keeping_def)
  then have clean: "ran [''--clean''] (snd (mock_overlay_cmd W [''--clean''] (snd ?B)))"
    using overlay_ran assms(3) by simp
  have "ran [''--clean''] (snd (?C (snd ?B)))"
    using clean overlay_log ran_grows
    by (cases "mock_overlay_cmd W [''--clean''] (snd ?B)") (auto simp: sbind_def keeping_def split: sum.split)
  moreover have "snd (rpm_prescript_in_env W d b) = snd (?C (snd ?B))"
    "fst ?B \<noteq> Inr () \<Longrightarrow> fst (rpm_prescript_in_env W d b) \<noteq> Inr ()"
    using assms(1,2)
    by (auto simp: rpm_prescript_in_env_def sbind_def sdo_def sask_def split: sum.splits prod.splits)
  ultimately show ?thesis by simp
qed

definition failing_world :: build_world where
  "failing_world = demo_world\<lparr>bw_images := demo_image_libs\<lparr>il_run := (\<lambda>c fs. (if ''install'' \<in> set (rn_cmd c) then 1 else 0, fs))\<rparr>\<rparr>"

lemma snapshot_cleaned_witness:
  "ran [''--clean''] (snd (rpm_prescript_in_env failing_world [''place'', ''upstream''] demo_build))
     \<and> fst (rpm_prescript_in_env failing_world [''place'', ''upstream''] demo_build) \<noteq> Inr ()"
proof -
  let ?b1 = "snd (mock_overlay_cmd failing_world [''--snapshot'', ''42''] demo_build)"
  have "fst (mock_overlay_cmd failing_world [''--snapshot'', ''42''] demo_build) = Inr ()"
    "prescript_deps failing_world ?b1 = Inr [''wget'']"
    "image_builder (mg_image (bw_manager failing_world) (b_format demo_build)) = Inr ''mock''"
    "fst (rpm_prescript_body failing_world [''wget''] [''place'', ''upstream''] ?b1) \<noteq> Inr ()" "b_id demo_build = ''42''"
    by code_simp+
  then show ?thesis
    using snapshot_cleaned [of failing_world demo_build ?b1 "[''wget'']" "''mock''" "[''place'', ''upstream'']"]
    by (metis prod.collapse)
qed

end
