(* ===== verification/BuildFailures.thy ===== *)
theory BuildFailures imports BuildSources begin

text \<open>
  What builds leave behind and what they refuse: the temporary directory of a submission
  without sources, and the checksums of a version that is not written as a string.
\<close>

section \<open>Directories that stay\<close>

lemma put_new_keeps_dir:
  "put p m n = Inr n' \<Longrightarrow> lookup p n = None \<Longrightarrow> fs_is_dir n q \<Longrightarrow> fs_is_dir n' q"
proof (induction p m n arbitrary: q n' rule: put.induct)
  case (3 x m es)
  then show ?case
    by (cases q) (auto simp: fs_is_dir_lookup map_of_dict_set split: option.splits)
next
  case (4 x y ys m es)
  then obtain k k' where k: "map_of es x = Some k" "put (y # ys) m k = Inr k'" and n': "n' = Dir (dict_set es x k')"
    by (auto simp: rmap_Inr_conv split: option.splits)
  show ?case
  proof (cases q)
    case Nil
    then show ?thesis using n' by (simp add: fs_is_dir_def)
  next
    case (Cons z zs)
    then show ?thesis
      using "4.IH" [OF k] "4.prems"(2,3) k(1) n'
      by (auto simp: fs_is_dir_lookup map_of_dict_set split: option.splits)
  qed
qed auto

lemma cache_ensure_keeps_dir: "cache_ensure p n = Inr n' \<Longrightarrow> fs_is_dir n q \<Longrightarrow> fs_is_dir n' q"
  by (auto simp: cache_ensure_def fs_mkdir_def fs_exists_def split: if_splits intro: put_new_keeps_dir)

lemma unlink_keeps_parent:
  assumes "fs_unlink (p @ [x]) n = Inr n'" and "fs_is_dir n p"
  shows "fs_is_dir n' p"
proof -
  obtain es where es: "lookup p n = Some (Dir es)"
    using assms(2) by (auto simp: fs_is_dir_lookup)
  have d: "del (p @ [x]) n = Inr n'"
    using assms(1) by (rule unlink_Inr_del)
  have "dict_has es x"
    using del_child_missing [OF es] d by fastforce
  then show ?thesis
    using del_child [OF es, of x] d by (fastforce simp: fs_is_dir_lookup)
qed

lemma on_sys_Inr: "on_sys f b = (Inr (), b') \<longleftrightarrow> (\<exists>fs. f (ss_fs b) = Inr fs \<and> b' = b\<lparr>ss_fs := fs\<rparr>)"
  by (auto simp: on_sys_def spart_def split: sum.splits)

lemma prepare_input_keeps_dir:
  assumes "prepare_input W b = (Inr (), b1)" and "b_input_tarball b = sub @ [x]" and "fs_is_dir (ss_fs b) sub"
    and "apart (b_place b) sub"
  shows "fs_is_dir (ss_fs b1) sub"
proof -
  obtain a d fs1 fs2 where 1: "ar_extract (b_place b) 0 a (ss_fs b) = Inr (d, fs1)"
    and 2: "fs_unlink (sub @ [x]) fs1 = Inr fs2" and 3: "cache_ensure (b_cache_dir b) fs2 = Inr (ss_fs b1)"
    using assms(1,2)
    by (auto simp: prepare_input_def sbind_Inr_conv sask_def sdo_def on_sys_Inr rmap_Inr_conv)
  have "fs_is_dir fs1 sub"
    using ar_extract_touches [OF 1] assms(3,4) by (simp add: touches_def fs_is_dir_def)
  then show ?thesis
    using unlink_keeps_parent [OF 2] cache_ensure_keeps_dir [OF 3] by blast
qed

text \<open>A build without any source, of an image of an operating system for example, returns from
  its preparation before the temporary directory of the submission is removed: the directory
  stays, whatever the preparation answers.\<close>

theorem sourceless_keeps_submission:
  assumes "prepare_input W b = (Inr (), b1)" and "prepare_defs W b1 = (Inr (), b2)" and "has_no_source b2 = Inr True"
    and "b_input_tarball b = sub @ [x]" and "fs_is_dir (ss_fs b) sub" and "apart (b_place b) sub"
  shows "fs_is_dir (ss_fs (snd (prepare W P b))) sub"
proof -
  have "ss_fs b2 = ss_fs b1"
    using assms(2) by (auto simp: prepare_defs_def sbind_Inr_conv sask_def smodify_def)
  moreover have "ss_fs (snd (prepare W P b)) = ss_fs b2"
    using assms(1-3) by (simp add: prepare_def sbind_def sask_def smodify_def split: sum.split)
  ultimately show ?thesis
    using prepare_input_keeps_dir [OF assms(1,4-6)] by simp
qed

definition osi_yaml :: yaml where
  "osi_yaml = YMap [(YStr ''version'', YStr ''1.0''), (YStr ''osi'', YMap [])]"

definition osi_world :: build_world where
  "osi_world = demo_world\<lparr>bw_libs := demo_libs\<lparr>lib_load := (\<lambda>_. Inr osi_yaml)\<rparr>,
     bw_open := (\<lambda>n c. Inr (ArchiveFileTar n [\<lparr>ti_name = ''.'', ti_isdir = True, ti_mode = 493, ti_mtime = 0, ti_content = []\<rparr>,
        \<lparr>ti_name = ''artifact.yml'', ti_isdir = False, ti_mode = 420, ti_mtime = 0, ti_content = ''x''\<rparr>,
        \<lparr>ti_name = ''osi'', ti_isdir = True, ti_mode = 493, ti_mtime = 0, ti_content = []\<rparr>]))\<rparr>"

definition sourceless_build :: build where
  "sourceless_build = demo_build\<lparr>b_format := ''osi'', b_defs := None,
     ss_fs := Dir [(''cache'', Dir []), (''place'', Dir []), (''tmp'', Dir [(''sub'', Dir [(''foo.tar.xz'', File ''t'')])])]\<rparr>"

lemma sourceless_keeps_submission_witness:
  "fs_is_dir (ss_fs (snd (prepare osi_world None sourceless_build))) [''tmp'', ''sub'']"
proof (rule sourceless_keeps_submission)
  let ?b1 = "snd (prepare_input osi_world sourceless_build)"
  have "fst (prepare_input osi_world sourceless_build) = Inr ()" "fst (prepare_defs osi_world ?b1) = Inr ()"
    "has_no_source (snd (prepare_defs osi_world ?b1)) = Inr True"
    by code_simp+
  then show "prepare_input osi_world sourceless_build = (Inr (), ?b1)"
    "prepare_defs osi_world ?b1 = (Inr (), snd (prepare_defs osi_world ?b1))"
    "has_no_source (snd (prepare_defs osi_world ?b1)) = Inr True"
    by (metis prod.collapse)+
qed (simp_all add: sourceless_build_def demo_build_def fs_is_dir_def apart_def)

section \<open>Versions that are not strings\<close>

definition string_key :: "yaml \<Rightarrow> bool" where
  "string_key y = (case y of YStr _ \<Rightarrow> True | _ \<Rightarrow> False)"

lemma map_of_no_string_key: "\<forall>(k, x) \<in> set es. \<not> string_key k \<Longrightarrow> map_of es (YStr v) = None"
  by (fastforce simp: map_of_eq_None_iff string_key_def)

text \<open>The version of a definition file may be a number, its text is taken; but the same text
  without quotes as a key of the checksums is a number too, and does not match: every such
  definition file is refused.\<close>

theorem number_keys_refused:
  assumes "asd_defs s = YMap es" and "map_of es (YStr ''derivatives'') = None" and "map_of es (YStr ''sources'') = None"
    and "map_of es (YStr ''version'') = Some y" and "map_of es (YStr ''checksums'') = Some (YMap cs)"
    and "\<forall>(k, x) \<in> set cs. \<not> string_key k"
  shows "source_version L dv s = Inr (yaml_str L y) \<and> source_checksums L dv s = Inl FatbuildrArtifactError"
proof -
  have v: "source_version L dv s = Inr (yaml_str L y)"
    using assms(1-4) by (simp add: source_version_def has_derivatives_def has_multisources_def yaml_path_def or_artifact_error_def rcatch_def)
  then show ?thesis
    using assms map_of_no_string_key [OF assms(6)]
    by (simp add: source_checksums_def has_multisources_def yaml_path_def rcatch_def)
qed

definition number_yaml :: "(yaml \<times> yaml) list" where
  "number_yaml = [(YStr ''version'', YScalar ''1.0''),
     (YStr ''checksums'', YMap [(YScalar ''1.0'', YMap [(YStr ''sha256'', YStr ''00'')])])]"

lemma number_keys_refused_witness:
  "source_version demo_libs ''main'' (ArtifactSourceDefs (YStr ''foo'') (YMap number_yaml)) = Inr ''1.0''
     \<and> source_checksums demo_libs ''main'' (ArtifactSourceDefs (YStr ''foo'') (YMap number_yaml)) = Inl FatbuildrArtifactError"
  using number_keys_refused [where es = number_yaml and L = demo_libs and dv = "''main''"
      and y = "YScalar ''1.0''" and cs = "[(YScalar ''1.0'', YMap [(YStr ''sha256'', YStr ''00'')])]"
      and s = "ArtifactSourceDefs (YStr ''foo'') (YMap number_yaml)"]
  by (simp add: number_yaml_def ArtifactSourceDefs_def string_key_def yaml_str_def)

end
