(* ===== verification/ImageSpec.thy ===== *)
theory ImageSpec imports BuildExamples begin

text \<open>
  The directory in which images are created.
\<close>

definition path_component :: "string \<Rightarrow> bool" where
  "path_component s \<longleftrightarrow> path_parts s = [s] \<and> \<not> startswith s ''/''"

lemma joinpath_component: "path_component s \<Longrightarrow> joinpath p s = p @ [s]"
  by (simp add: path_component_def joinpath_def)

lemma image_parent:
  assumes "path_component (ri_id (mg_instance m))" and "path_component fmt"
  shows "butlast (im_path (mg_image m fmt)) = ci_storage (rc_images (mg_conf m)) @ [ri_id (mg_instance m)]"
  using assms by (simp add: mg_image_def Image_def Let_def image_suffix_def joinpath_component butlast_append)

text \<open>The preparation of the creation of an image makes a directory after the name of the
  instance, while the image is created in one after its identifier: when they differ, the
  directory of the image is missing after the preparation if it was before.\<close>

theorem image_directory_missing:
  assumes "mg_prepare m s = (Inr (), s')"
    and "path_component (ri_id (mg_instance m))" and "path_component (ri_name (mg_instance m))" and "path_component fmt"
    and "ri_name (mg_instance m) \<noteq> ri_id (mg_instance m)"
    and "\<not> fs_exists (ss_fs s) (butlast (im_path (mg_image m fmt)))"
  shows "\<not> fs_exists (ss_fs s') (butlast (im_path (mg_image m fmt)))"
proof -
  let ?st = "ci_storage (rc_images (mg_conf m))"
  let ?n = "?st @ [ri_name (mg_instance m)]" and ?i = "?st @ [ri_id (mg_instance m)]"
  have "ss_fs s' = ss_fs s \<or> fs_mkdir ?n (ss_fs s) = Inr (ss_fs s')"
    using assms(1,3)
    by (auto simp: mg_prepare_def Let_def joinpath_component on_sys_def spart_def split: sum.splits if_splits)
  moreover have "apart ?n ?i"
    using assms(5) by simp
  ultimately have "lookup ?i (ss_fs s') = lookup ?i (ss_fs s)"
    using lookup_put_apart mkdir_Inr_put by metis
  then show ?thesis
    using assms(6) by (simp add: image_parent [OF assms(2,4)] fs_exists_def)
qed

definition images_state :: sys_state where
  "images_state = \<lparr>ss_fs = Dir [(''images'', Dir [])], ss_log = []\<rparr>"

lemma image_directory_missing_witness:
  "\<not> fs_exists (ss_fs (snd (mg_prepare demo_manager images_state))) (butlast (im_path (mg_image demo_manager ''rpm'')))"
proof (rule image_directory_missing)
  have "fst (mg_prepare demo_manager images_state) = Inr ()" by code_simp
  then show "mg_prepare demo_manager images_state = (Inr (), snd (mg_prepare demo_manager images_state))"
    by (metis prod.collapse)
  show "\<not> fs_exists (ss_fs images_state) (butlast (im_path (mg_image demo_manager ''rpm'')))" by code_simp
qed (code_simp+)

end
