(* ===== verification/WireReport.thy ===== *)
theory WireReport imports Exports begin

text \<open>
  The reports of \<^verbatim>\<open>fatbuildr/protocols/wire.py\<close>: the lines that are printed for the objects
  that a client has received, whose attributes are an association list. What is printed before a
  missing attribute stays printed. The texts of a date, and of the values that are not
  scalars, are parameters.
\<close>

record wire_texts =
  wt_iso :: "int \<Rightarrow> string"
  wt_repr :: "pyval \<Rightarrow> string"
  wt_shlex_join :: "string list \<Rightarrow> string"

text \<open>The text of a value in a format string.\<close>

definition wire_text :: "wire_texts \<Rightarrow> pyval \<Rightarrow> string" where
  "wire_text T v = (case v of
       PNone \<Rightarrow> ''None'' | PBool b \<Rightarrow> (if b then ''True'' else ''False'') | PInt i \<Rightarrow> int_str i
     | PStr s \<Rightarrow> s | PPath p \<Rightarrow> p | _ \<Rightarrow> wt_repr T v)"

fun attr_path :: "(string \<times> pyval) list \<Rightarrow> string list \<Rightarrow> pyval res" where
  "attr_path attrs [] = Inl AttributeErr"
| "attr_path attrs [n] = getattr attrs n"
| "attr_path attrs (n # m # ns) =
     rbind (getattr attrs n) (\<lambda>v. case v of PObj _ inner \<Rightarrow> attr_path inner (m # ns) | _ \<Rightarrow> Inl AttributeErr)"

text \<open>Printing is an action on the lines that have been printed.\<close>

type_synonym 'a says = "(string list, 'a) act"

definition say :: "string \<Rightarrow> unit says" where
  "say line = smodify (\<lambda>out. out @ [line])"

definition say_attr :: "wire_texts \<Rightarrow> (string \<times> pyval) list \<Rightarrow> string \<times> string list \<Rightarrow> unit says" where
  "say_attr T attrs lp = sbind (slift (attr_path attrs (snd lp))) (\<lambda>v. say (fst lp @ wire_text T v))"

definition say_attrs :: "wire_texts \<Rightarrow> (string \<times> pyval) list \<Rightarrow> (string \<times> string list) list \<Rightarrow> unit says" where
  "say_attrs T attrs lps = sfor (say_attr T attrs) lps"

definition attr_strings :: "(string \<times> pyval) list \<Rightarrow> string \<Rightarrow> string list res" where
  "attr_strings attrs n =
     rbind (getattr attrs n) (\<lambda>v. case v of
       PList xs \<Rightarrow> rmapM (\<lambda>x. case x of PStr s \<Rightarrow> Inr s | _ \<Rightarrow> Inl TypeErr) xs
     | PStr s \<Rightarrow> Inr (map (\<lambda>c. [c]) s)
     | _ \<Rightarrow> Inl TypeErr)"

text \<open>The sign of the empty set.\<close>

definition no_items :: string where
  "no_items = [CHR 0xE2, CHR 0x88, CHR 0x85]"

definition say_archives :: "wire_texts \<Rightarrow> (string \<times> pyval) list \<Rightarrow> unit says" where
  "say_archives T attrs =
     sbind (slift (getattr attrs ''archives'')) (\<lambda>v. case v of
       PList [] \<Rightarrow> say (''  archives: '' @ no_items)
     | PList as \<Rightarrow> sbind (say ''  archives:'') (\<lambda>_. sfor (\<lambda>a. case a of
           PObj _ inner \<Rightarrow> say_attrs T inner [(''  - id: '', [''id'']), (''    path: '', [''path''])]
         | _ \<Rightarrow> slift (Inl AttributeErr)) as)
     | _ \<Rightarrow> slift (Inl TypeErr))"

definition report_build :: "wire_texts \<Rightarrow> (string \<times> pyval) list \<Rightarrow> unit says" where
  "report_build T attrs =
     sbind (say_archives T attrs) (\<lambda>_.
     sbind (say_attrs T attrs [(''  author: '', [''author'']), (''  email: '', [''email'']), (''  distribution: '', [''distribution''])]) (\<lambda>_.
     sbind (slift (attr_strings attrs ''architectures'')) (\<lambda>archs.
     sbind (say (''  architectures: '' @ str_join '' '' archs)) (\<lambda>_.
     say_attrs T attrs [(''  derivative: '', [''derivative'']), (''  format: '', [''format'']), (''  artifact: '', [''artifact'']),
       (''  message: '', [''message''])]))))"

definition report_command :: "wire_texts \<Rightarrow> (string \<times> pyval) list \<Rightarrow> unit says" where
  "report_command T attrs =
     sbind (slift (attr_strings attrs ''command'')) (\<lambda>ws.
     say (''  command: '' @ (if ws = [] then no_items else wt_shlex_join T ws)))"

definition report_specific :: "wire_texts \<Rightarrow> (string \<times> pyval) list \<Rightarrow> pyval \<Rightarrow> unit says" where
  "report_specific T attrs name =
     (if name = PStr ''artifact build'' then report_build T attrs
      else if name = PStr ''artifact deletion''
      then sbind (say ''  artifact:'') (\<lambda>_. say_attrs T attrs [(''    name: '', [''artifact'', ''name'']),
             (''    architecture: '', [''artifact'', ''architecture'']), (''    version: '', [''artifact'', ''version''])])
      else if name = PStr ''image creation'' then say_attrs T attrs [(''  format: '', [''format'']), (''  force: '', [''force''])]
      else if name = PStr ''image update'' then say_attrs T attrs [(''  format: '', [''format''])]
      else if name = PStr ''image build environment creation'' \<or> name = PStr ''image build environment update''
      then say_attrs T attrs [(''  format: '', [''format'']), (''  environment: '', [''environment'']),
             (''  architecture: '', [''architecture''])]
      else if name = PStr ''image shell'' \<or> name = PStr ''image build environment shell'' then report_command T attrs
      else if name = PStr ''keyring renewal'' then say_attrs T attrs [(''  duration: '', [''duration''])]
      else sret ())"

definition report_submission :: "wire_texts \<Rightarrow> (string \<times> pyval) list \<Rightarrow> unit says" where
  "report_submission T attrs =
     sbind (slift (getattr attrs ''submission'')) (\<lambda>v. case v of
       PTime t \<Rightarrow> say (''  submission:  '' @ wt_iso T t) | _ \<Rightarrow> slift (Inl AttributeErr))"

definition task_report :: "wire_texts \<Rightarrow> (string \<times> pyval) list \<Rightarrow> unit says" where
  "task_report T attrs =
     sbind (say_attrs T attrs [(''- id: '', [''id'']), (''  user: '', [''user'']), (''  name: '', [''name'']),
       (''  state: '', [''state'']), (''  result: '', [''result'']), (''  place: '', [''place''])]) (\<lambda>_.
     sbind (report_submission T attrs) (\<lambda>_.
     sbind (say ''  io:'') (\<lambda>_.
     sbind (say_attrs T attrs [(''    interactive: '', [''io'', ''interactive'']), (''    console: '', [''io'', ''console'']),
       (''    journal: '', [''io'', ''journal'', ''path''])]) (\<lambda>_.
     sbind (slift (getattr attrs ''name'')) (report_specific T attrs)))))"

definition artifact_report :: "wire_texts \<Rightarrow> (string \<times> pyval) list \<Rightarrow> unit says" where
  "artifact_report T attrs = say_attrs T attrs [(''- name: '', [''name'']), (''  architecture: '', [''architecture'']),
     (''  version: '', [''version'']), (''  size: '', [''size''])]"

definition keyring_report :: "wire_texts \<Rightarrow> (string \<times> pyval) list \<Rightarrow> unit says" where
  "keyring_report T attrs =
     sbind (say ''masterkey:'') (\<lambda>_.
     sbind (say_attrs T attrs [(''  userid: '', [''userid'']), (''  id: '', [''id'']), (''  fingerprint: '', [''fingerprint'']),
       (''  algo: '', [''algo'']), (''  expires: '', [''expires'']), (''  creation: '', [''creation'']),
       (''  last update: '', [''last_update''])]) (\<lambda>_.
     sbind (say ''  subkey:'') (\<lambda>_.
     say_attrs T attrs [(''    fingerprint: '', [''subkey'', ''fingerprint'']), (''    algo: '', [''subkey'', ''algo'']),
       (''    expires: '', [''subkey'', ''expires'']), (''    creation: '', [''subkey'', ''creation''])])))"

end
