(* ===== verification/Keyring.thy ===== *)
theory Keyring imports Images PyRegex begin

text \<open>
  \<^verbatim>\<open>fatbuildr/keyring.py\<close>: the keyring of an instance. GnuPG and its Python binding are the
  record \<open>gpg_libs\<close>: a directory of the file system holds keys, which are listed, created,
  edited and exported. The state has what the daemon keeps in memory of them.
\<close>

section \<open>Keys\<close>

record gpg_subkey =
  sk_fpr :: string
  sk_keygrip :: string
  sk_keyid :: string
  sk_algo :: string
  sk_expires :: int
  sk_timestamp :: int

record gpg_key =
  gk_uids :: "string list"
  gk_last_update :: int
  gk_subkeys :: "gpg_subkey list"

record gpg_libs =
  gp_keylist :: "path \<Rightarrow> node \<Rightarrow> gpg_key list res"
  gp_get_key :: "path \<Rightarrow> string \<Rightarrow> node \<Rightarrow> gpg_key res"
  gp_create_key :: "path \<Rightarrow> string \<Rightarrow> string \<Rightarrow> bool \<Rightarrow> int \<Rightarrow> string \<Rightarrow> node \<Rightarrow> string res \<times> node"
  gp_create_subkey :: "path \<Rightarrow> gpg_key \<Rightarrow> string \<Rightarrow> bool \<Rightarrow> int \<Rightarrow> string \<Rightarrow> node \<Rightarrow> string res \<times> node"
  gp_export :: "path \<Rightarrow> string \<Rightarrow> node \<Rightarrow> string res"
  gp_interact :: "path \<Rightarrow> gpg_key \<Rightarrow> (string \<Rightarrow> nat \<Rightarrow> string option res \<times> nat) \<Rightarrow> string \<Rightarrow> node \<Rightarrow> unit res \<times> node"
  gp_isoformat :: "int \<Rightarrow> string"
  gp_choice :: "nat \<Rightarrow> nat"
  gp_run :: runner

record keyring_state = sys_state +
  km_master :: "gpg_key option"
  km_key :: "gpg_subkey option"
  km_sub :: "gpg_subkey option"

record instance_keyring =
  ik_homedir :: path
  ik_passphrase_path :: path
  ik_algorithm :: string
  ik_expires :: bool
  ik_expires_in :: int
  ik_userid :: string
  ik_seeder :: string

definition InstanceKeyring :: "conf_keyring \<Rightarrow> running_instance \<Rightarrow> instance_keyring" where
  "InstanceKeyring c i =
     (let homedir = joinpath (ck_storage c) (ri_id i) in
      \<lparr>ik_homedir = homedir, ik_passphrase_path = joinpath homedir ''passphrase'',
       ik_algorithm = ck_type c @ int_str (ck_size c),
       ik_expires = (ck_expires c \<noteq> None), ik_expires_in = (case ck_expires c of None \<Rightarrow> 0 | Some n \<Rightarrow> n),
       ik_userid = userid i, ik_seeder = ck_seeder c\<rparr>)"

definition attr_of :: "'a option \<Rightarrow> 'a res" where
  "attr_of x = (case x of None \<Rightarrow> Inl AttributeErr | Some y \<Rightarrow> Inr y)"

definition key_fingerprint :: "gpg_subkey option \<Rightarrow> string res" where
  "key_fingerprint k = rmap sk_fpr (attr_of k)"

definition key_keygrip :: "gpg_subkey option \<Rightarrow> string res" where
  "key_keygrip k = rmap sk_keygrip (attr_of k)"

definition key_expires :: "gpg_libs \<Rightarrow> gpg_subkey option \<Rightarrow> string res" where
  "key_expires G k = rmap (\<lambda>k. if sk_expires k = 0 then ''never'' else gp_isoformat G (sk_expires k)) (attr_of k)"

definition key_creation :: "gpg_libs \<Rightarrow> gpg_subkey option \<Rightarrow> string res" where
  "key_creation G k = rmap (\<lambda>k. gp_isoformat G (sk_timestamp k)) (attr_of k)"

definition master_userid :: "gpg_key option \<Rightarrow> string res" where
  "master_userid m = rbind (attr_of m) (\<lambda>m. case gk_uids m of [u] \<Rightarrow> Inr u | _ \<Rightarrow> Inl ValueErr)"

definition master_last_update :: "gpg_libs \<Rightarrow> gpg_key option \<Rightarrow> string res" where
  "master_last_update G m =
     rmap (\<lambda>m. if gk_last_update m = 0 then ''never'' else gp_isoformat G (gk_last_update m)) (attr_of m)"

section \<open>Durations\<close>

definition RENEW_REGEX :: regex where
  "RENEW_REGEX = RSeq (Plus is_digit) (RSeq (Opt (One (\<lambda>c. c \<in> {CHR ''w'', CHR ''m'', CHR ''y''}))) Eos)"

definition valid_duration :: "string \<Rightarrow> bool" where
  "valid_duration duration \<longleftrightarrow> re_match RENEW_REGEX duration \<noteq> None"

section \<open>Loading\<close>

type_synonym 'a kact = "(keyring_state, 'a) act"

definition kask :: "(keyring_state \<Rightarrow> 'a res) \<Rightarrow> 'a kact" where
  "kask f s = (f s, s)"

text \<open>An operation of the library that changes the files even when it fails.\<close>

definition kfiles :: "(node \<Rightarrow> 'a res \<times> node) \<Rightarrow> 'a kact" where
  "kfiles f s = (let (r, fs) = f (ss_fs s) in (r, s\<lparr>ss_fs := fs\<rparr>))"

definition load_from_keyring :: "gpg_libs \<Rightarrow> instance_keyring \<Rightarrow> unit kact" where
  "load_from_keyring G K =
     sbind (kask (\<lambda>s. gp_keylist G (ik_homedir K) (ss_fs s))) (\<lambda>keys.
     case keys of
       [] \<Rightarrow> sbind (smodify (\<lambda>s. s\<lparr>km_master := None\<rparr>)) (\<lambda>_. slift (Inl FatbuildrKeyringError))
     | k # others \<Rightarrow>
         sbind (smodify (\<lambda>s. s\<lparr>km_master := Some k\<rparr>)) (\<lambda>_.
         case gk_subkeys k of
           [a, b] \<Rightarrow> sbind (smodify (\<lambda>s. s\<lparr>km_key := Some a, km_sub := Some b\<rparr>)) (\<lambda>_.
                    if others \<noteq> [] then slift (Inl FatbuildrKeyringError) else sret ())
         | _ \<Rightarrow> slift (Inl FatbuildrKeyringError)))"

text \<open>The error is logged.\<close>

definition keyring_load :: "gpg_libs \<Rightarrow> instance_keyring \<Rightarrow> unit kact" where
  "keyring_load G K = scatch (load_from_keyring G K) (\<lambda>e. e = FatbuildrKeyringError) (\<lambda>_. sret ())"

definition keyring_export :: "gpg_libs \<Rightarrow> instance_keyring \<Rightarrow> string kact" where
  "keyring_export G K =
     sbind (load_from_keyring G K) (\<lambda>_.
     sbind (kask (\<lambda>s. key_fingerprint (km_key s))) (\<lambda>fpr.
     kask (\<lambda>s. gp_export G (ik_homedir K) fpr (ss_fs s))))"

section \<open>Creation\<close>

definition passphrase_alphabet :: string where
  "passphrase_alphabet = ''abcdefghijklmnopqrstuvwxyzABCDEFGHIJKLMNOPQRSTUVWXYZ0123456789''"

definition new_passphrase :: "gpg_libs \<Rightarrow> string" where
  "new_passphrase G = map (\<lambda>i. passphrase_alphabet ! (gp_choice G i mod length passphrase_alphabet)) [0..<32]"

definition keyring_passphrase :: "instance_keyring \<Rightarrow> string kact" where
  "keyring_passphrase K = kask (\<lambda>s. fs_read (ss_fs s) (ik_passphrase_path K))"

definition nth_subkey :: "nat \<Rightarrow> gpg_key \<Rightarrow> gpg_subkey res" where
  "nth_subkey i k = list_item (gk_subkeys k) i"

definition master_create :: "gpg_libs \<Rightarrow> instance_keyring \<Rightarrow> unit kact" where
  "master_create G K =
     sbind (keyring_passphrase K) (\<lambda>pass.
     sbind (kfiles (gp_create_key G (ik_homedir K) (ik_userid K) (ik_algorithm K) (ik_expires K) (ik_expires_in K) pass)) (\<lambda>fpr.
     sbind (kask (\<lambda>s. gp_get_key G (ik_homedir K) fpr (ss_fs s))) (\<lambda>k.
     sbind (smodify (\<lambda>s. s\<lparr>km_master := Some k\<rparr>)) (\<lambda>_.
     sbind (slift (nth_subkey 0 k)) (\<lambda>a. smodify (\<lambda>s. s\<lparr>km_key := Some a\<rparr>))))))"

definition subkey_create :: "gpg_libs \<Rightarrow> instance_keyring \<Rightarrow> unit kact" where
  "subkey_create G K =
     sbind (kask (\<lambda>s. attr_of (km_master s))) (\<lambda>m.
     sbind (keyring_passphrase K) (\<lambda>pass.
     sbind (kfiles (gp_create_subkey G (ik_homedir K) m (ik_algorithm K) (ik_expires K) (ik_expires_in K) pass)) (\<lambda>fpr.
     sbind (kask (\<lambda>s. gp_get_key G (ik_homedir K) fpr (ss_fs s))) (\<lambda>k.
     sbind (slift (nth_subkey 1 k)) (\<lambda>b. smodify (\<lambda>s. s\<lparr>km_sub := Some b\<rparr>))))))"

definition ensure_homedir :: "instance_keyring \<Rightarrow> unit kact" where
  "ensure_homedir K = on_sys (\<lambda>fs. if fs_exists fs (ik_homedir K) then Inr fs else fs_mkdir (ik_homedir K) fs)"

definition keyring_create :: "gpg_libs \<Rightarrow> instance_keyring \<Rightarrow> unit kact" where
  "keyring_create G K =
     sbind (ensure_homedir K) (\<lambda>_.
     sbind (kask (\<lambda>s. gp_keylist G (ik_homedir K) (ss_fs s))) (\<lambda>keys.
     if keys \<noteq> [] then slift (Inl FatbuildrKeyringError)
     else sbind (on_sys (fs_write (ik_passphrase_path K) (new_passphrase G))) (\<lambda>_.
       sbind (master_create G K) (\<lambda>_.
       sbind (kask (\<lambda>s. master_userid (km_master s))) (\<lambda>_.
       subkey_create G K)))))"

section \<open>Renewal\<close>

definition renew_commands :: "string \<Rightarrow> bool \<Rightarrow> string list" where
  "renew_commands duration subkey = (if subkey then [''key 1''] else []) @ [''expire'', duration, ''save'', ''quit'']"

text \<open>The answer to a prompt, and the number of the next command. The index that is out of
  range is not the error that is handled.\<close>

definition edit_fnc :: "string list \<Rightarrow> string \<Rightarrow> nat \<Rightarrow> string option res \<times> nat" where
  "edit_fnc commands keyword cmd_id =
     (if \<not> str_in ''GET'' keyword then (Inr None, cmd_id)
      else case list_item commands cmd_id of
             Inl e \<Rightarrow> (Inl e, cmd_id)
           | Inr cmd \<Rightarrow> (Inr (Some cmd), cmd_id + 1))"

definition renew_key :: "gpg_libs \<Rightarrow> instance_keyring \<Rightarrow> gpg_key \<Rightarrow> string \<Rightarrow> bool \<Rightarrow> unit kact" where
  "renew_key G K key duration subkey =
     sbind (keyring_passphrase K) (\<lambda>pass.
     kfiles (gp_interact G (ik_homedir K) key (edit_fnc (renew_commands duration subkey)) pass))"

definition keyring_renew :: "gpg_libs \<Rightarrow> instance_keyring \<Rightarrow> string \<Rightarrow> unit kact" where
  "keyring_renew G K duration =
     (if \<not> valid_duration duration then slift (Inl FatbuildrKeyringError)
      else sbind (kask (\<lambda>s. gp_keylist G (ik_homedir K) (ss_fs s))) (\<lambda>keys.
        case keys of
          [key] \<Rightarrow> sbind (renew_key G K key duration False) (\<lambda>_.
                   sbind (renew_key G K key duration True) (\<lambda>_. keyring_load G K))
        | _ \<Rightarrow> slift (Inl FatbuildrKeyringError)))"

section \<open>The agent\<close>

definition gpgconf_kill :: "instance_keyring \<Rightarrow> run_call" where
  "gpgconf_kill K = \<lparr>rn_cmd = [''gpgconf'', ''--kill'', ''--homedir'', path_str (ik_homedir K), ''gpg-agent''],
     rn_env = [], rn_input = None\<rparr>"

definition agent_start :: "instance_keyring \<Rightarrow> run_call" where
  "agent_start K = \<lparr>rn_cmd = [''gpg-agent'', ''--homedir'', path_str (ik_homedir K), ''--allow-preset-passphrase'', ''--daemon''],
     rn_env = [], rn_input = None\<rparr>"

definition agent_preset :: "instance_keyring \<Rightarrow> string \<Rightarrow> string \<Rightarrow> run_call" where
  "agent_preset K keygrip pass = \<lparr>rn_cmd = [ik_seeder K, ''--preset'', keygrip],
     rn_env = [(''GNUPGHOME'', path_str (ik_homedir K))], rn_input = Some pass\<rparr>"

definition load_agent :: "gpg_libs \<Rightarrow> instance_keyring \<Rightarrow> unit kact" where
  "load_agent G K =
     sbind (\<lambda>s. (if fs_exists (ss_fs s) (joinpath (ik_homedir K) ''S.gpg-agent'')
                 then exec_runcmd (gp_run G) (gpgconf_kill K) s else sret () s)) (\<lambda>_.
     sbind (exec_runcmd (gp_run G) (agent_start K)) (\<lambda>_.
     sbind (kask (\<lambda>s. key_keygrip (km_sub s))) (\<lambda>grip.
     sbind (keyring_passphrase K) (\<lambda>pass.
     exec_runcmd (gp_run G) (agent_preset K grip pass)))))"

section \<open>Tasks\<close>

definition as_task_error :: "'a kact \<Rightarrow> 'a kact" where
  "as_task_error m = scatch m (\<lambda>e. e = FatbuildrKeyringError) (\<lambda>_. slift (Inl FatbuildrTaskExecutionError))"

definition KeyringCreationTask_run :: "gpg_libs \<Rightarrow> instance_keyring \<Rightarrow> unit kact" where
  "KeyringCreationTask_run G K = as_task_error (keyring_create G K)"

definition KeyringRenewalTask_run :: "gpg_libs \<Rightarrow> instance_keyring \<Rightarrow> string \<Rightarrow> unit kact" where
  "KeyringRenewalTask_run G K duration = as_task_error (keyring_renew G K duration)"

section \<open>Properties\<close>

lemma runs_digits: "t \<in> set (runs is_digit s) \<longleftrightarrow> (\<exists>a. a \<noteq> [] \<and> s = a @ t \<and> list_all is_digit a)"
proof
  show "t \<in> set (runs is_digit s) \<Longrightarrow> \<exists>a. a \<noteq> [] \<and> s = a @ t \<and> list_all is_digit a"
    by (rule runs_suffix)
  have "a \<noteq> [] \<Longrightarrow> list_all is_digit a \<Longrightarrow> t \<in> set (runs is_digit (a @ t))" for a
  proof (induction a)
    case (Cons c cs)
    then show ?case by (cases cs) auto
  qed simp
  then show "\<exists>a. a \<noteq> [] \<and> s = a @ t \<and> list_all is_digit a \<Longrightarrow> t \<in> set (runs is_digit s)"
    by blast
qed

lemma runs_digits_ex:
  "(\<exists>t \<in> set (runs is_digit s). P t) \<longleftrightarrow> (\<exists>ds t. ds \<noteq> [] \<and> s = ds @ t \<and> list_all is_digit ds \<and> P t)"
  unfolding Bex_def runs_digits by blast

text \<open>The durations of a renewal are the numbers, with an optional unit; a line feed at the end is
  accepted too.\<close>

theorem valid_duration_iff:
  "valid_duration s \<longleftrightarrow> (\<exists>ds u e. s = ds @ u @ e \<and> ds \<noteq> [] \<and> list_all is_digit ds
     \<and> u \<in> {[], ''w'', ''m'', ''y''} \<and> e \<in> {[], [CHR 0x0A]})"
proof -
  let ?tail = "\<lambda>t. t = [] \<or> t = [CHR 0x0A]"
  let ?ok = "\<lambda>t. ?tail t \<or> (\<exists>c t'. t = c # t' \<and> c \<in> {CHR ''w'', CHR ''m'', CHR ''y''} \<and> ?tail t')"
  have r: "rx (RSeq (Opt (One (\<lambda>c. c \<in> {CHR ''w'', CHR ''m'', CHR ''y''}))) Eos) (g, t) \<noteq> [] \<longleftrightarrow> ?ok t" for g t
    by (cases t) auto
  have parts: "(\<exists>ds t. ds \<noteq> [] \<and> s = ds @ t \<and> list_all is_digit ds \<and> (\<exists>u \<in> U. \<exists>e \<in> E. t = u @ e))
      \<longleftrightarrow> (\<exists>ds u e. s = ds @ u @ e \<and> ds \<noteq> [] \<and> list_all is_digit ds \<and> u \<in> U \<and> e \<in> E)"
    (is "?L \<longleftrightarrow> ?R") for U E
  proof
    assume ?L
    then obtain ds t u e where "ds \<noteq> []" "s = ds @ t" "list_all is_digit ds" "u \<in> U" "e \<in> E" "t = u @ e"
      by (elim exE conjE bexE)
    then show ?R
      by (intro exI [of _ ds] exI [of _ u] exI [of _ e]) simp
  next
    assume ?R
    then obtain ds u e where "s = ds @ u @ e" "ds \<noteq> []" "list_all is_digit ds" "u \<in> U" "e \<in> E"
      by (elim exE conjE)
    then show ?L
      by (intro exI [of _ ds] exI [of _ "u @ e"] conjI bexI [of _ u] bexI [of _ e]) simp_all
  qed
  have ok: "?ok t \<longleftrightarrow> (\<exists>u \<in> {[], ''w'', ''m'', ''y''}. \<exists>e \<in> {[], [CHR 0x0A]}. t = u @ e)" for t
    by (cases t) auto
  let ?r = "RSeq (Opt (One (\<lambda>c. c \<in> {CHR ''w'', CHR ''m'', CHR ''y''}))) Eos"
  have "valid_duration s \<longleftrightarrow> rx RENEW_REGEX ([], s) \<noteq> []"
    by (simp add: valid_duration_def re_match_def split: list.split)
  also have "\<dots> \<longleftrightarrow> (\<exists>t \<in> set (runs is_digit s). rx ?r ([], t) \<noteq> [])"
    unfolding RENEW_REGEX_def rx.simps(6) [of "Plus is_digit"] rx.simps(3) by simp
  also have "\<dots> \<longleftrightarrow> (\<exists>t \<in> set (runs is_digit s). ?ok t)"
    unfolding r ..
  also have "\<dots> \<longleftrightarrow> (\<exists>ds t. ds \<noteq> [] \<and> s = ds @ t \<and> list_all is_digit ds \<and> ?ok t)"
    by (rule runs_digits_ex)
  also have "\<dots> \<longleftrightarrow> (\<exists>ds u e. s = ds @ u @ e \<and> ds \<noteq> [] \<and> list_all is_digit ds
     \<and> u \<in> {[], ''w'', ''m'', ''y''} \<and> e \<in> {[], [CHR 0x0A]})"
    unfolding ok by (rule parts)
  finally show ?thesis .
qed

text \<open>A keyring whose signing subkey could not be created, the master key being there, is stuck:
  it cannot be created again, the public key cannot be exported, and the loading, which
  logs the error, leaves the subkey as it was, without which the agent cannot sign.\<close>

theorem half_created_stuck:
  assumes "gp_keylist G (ik_homedir K) (ss_fs s) = Inr [k]" and "length (gk_subkeys k) = 1"
    and "fs_exists (ss_fs s) (ik_homedir K)"
  shows "fst (keyring_create G K s) = Inl FatbuildrKeyringError \<and> fst (keyring_export G K s) = Inl FatbuildrKeyringError
     \<and> keyring_load G K s = (Inr (), s\<lparr>km_master := Some k\<rparr>)"
proof -
  obtain a where "gk_subkeys k = [a]"
    using assms(2) by (auto simp: length_Suc_conv)
  then show ?thesis
    using assms(1,3)
    by (simp add: keyring_create_def keyring_export_def keyring_load_def load_from_keyring_def ensure_homedir_def scatch_def
        sbind_def kask_def smodify_def slift_def sret_def on_sys_def spart_def)
qed

text \<open>The dialog of a renewal: the prompts are answered with the commands in their order, and a
  prompt too many is an error that is not the one the code handles.\<close>

fun dialog :: "(string \<Rightarrow> nat \<Rightarrow> string option res \<times> nat) \<Rightarrow> string list \<Rightarrow> nat \<Rightarrow> string option res list" where
  "dialog f [] i = []"
| "dialog f (q # qs) i = (case f q i of (r, j) \<Rightarrow> r # dialog f qs j)"

lemma dialog_gets:
  "\<forall>q \<in> set qs. str_in ''GET'' q \<Longrightarrow> i + length qs \<le> length cs \<Longrightarrow>
     dialog (edit_fnc cs) qs i = map (\<lambda>c. Inr (Some c)) (take (length qs) (drop i cs))"
proof (induction qs arbitrary: i)
  case (Cons q qs)
  then have "i < length cs" by simp
  then show ?case
    using Cons by (simp add: edit_fnc_def list_item_def Cons_nth_drop_Suc [symmetric])
qed simp

theorem renewal_answers:
  assumes "\<forall>q \<in> set qs. str_in ''GET'' q" and "length qs = length (renew_commands duration subkey)" and "str_in ''GET'' q"
  shows "dialog (edit_fnc (renew_commands duration subkey)) (qs @ [q]) 0
     = map (\<lambda>c. Inr (Some c)) (renew_commands duration subkey) @ [Inl IndexErr]"
proof -
  let ?f = "edit_fnc (renew_commands duration subkey)"
  have app: "dialog ?f (xs @ ys) i = dialog ?f xs i @ dialog ?f ys (i + length xs)"
    if "\<forall>q \<in> set xs. str_in ''GET'' q" "i + length xs \<le> length (renew_commands duration subkey)" for xs ys i
    using that by (induction xs arbitrary: i) (auto simp: edit_fnc_def list_item_def)
  show ?thesis
    using app [OF assms(1), of 0 "[q]"] dialog_gets [OF assms(1), of 0] assms(2,3)
    by (simp add: edit_fnc_def list_item_def)
qed

definition half_key :: gpg_key where
  "half_key = \<lparr>gk_uids = [''Demo <demo@x>''], gk_last_update = 0,
     gk_subkeys = [\<lparr>sk_fpr = ''F0'', sk_keygrip = ''G0'', sk_keyid = ''K0'', sk_algo = ''rsa2048'', sk_expires = 0, sk_timestamp = 1\<rparr>]\<rparr>"

definition half_gpg :: gpg_libs where
  "half_gpg = \<lparr>gp_keylist = (\<lambda>p fs. if fs_exists fs (p @ [''pubring'']) then Inr [half_key] else Inr []),
     gp_get_key = (\<lambda>_ _ _. Inr half_key),
     gp_create_key = (\<lambda>p _ _ _ _ _ fs. case fs_write (p @ [''pubring'']) ''K'' fs of Inl e \<Rightarrow> (Inl e, fs) | Inr fs' \<Rightarrow> (Inr ''F0'', fs')),
     gp_create_subkey = (\<lambda>_ _ _ _ _ _ fs. (Inl RuntimeErr, fs)), gp_export = (\<lambda>_ _ _. Inr ''armor''),
     gp_interact = (\<lambda>_ _ _ _ fs. (Inr (), fs)), gp_isoformat = (\<lambda>_. ''date''), gp_choice = (\<lambda>i. i), gp_run = (\<lambda>_ fs. (0, fs))\<rparr>"

definition demo_keyring :: instance_keyring where
  "demo_keyring = \<lparr>ik_homedir = [''keys''], ik_passphrase_path = [''keys'', ''passphrase''], ik_algorithm = ''rsa2048'',
     ik_expires = False, ik_expires_in = 0, ik_userid = ''Demo <demo@x>'', ik_seeder = ''preset''\<rparr>"

definition empty_keyring :: keyring_state where
  "empty_keyring = \<lparr>ss_fs = Dir [], ss_log = [], km_master = None, km_key = None, km_sub = None\<rparr>"

lemma half_created_stuck_witness:
  "let s = snd (keyring_create half_gpg demo_keyring empty_keyring) in
     fst (keyring_create half_gpg demo_keyring s) = Inl FatbuildrKeyringError \<and> fst (keyring_export half_gpg demo_keyring s) = Inl FatbuildrKeyringError
     \<and> keyring_load half_gpg demo_keyring s = (Inr (), s\<lparr>km_master := Some half_key\<rparr>)"
  unfolding Let_def
proof (rule half_created_stuck)
  let ?s = "snd (keyring_create half_gpg demo_keyring empty_keyring)"
  have "fs_exists (ss_fs ?s) [''keys'', ''pubring'']" by code_simp
  then show "gp_keylist half_gpg (ik_homedir demo_keyring) (ss_fs ?s) = Inr [half_key]"
    by (simp add: half_gpg_def demo_keyring_def)
  show "fs_exists (ss_fs ?s) (ik_homedir demo_keyring)" by code_simp
qed (simp add: half_key_def)

lemma renewal_answers_witness:
  "dialog (edit_fnc (renew_commands ''2y'' True)) (replicate 5 ''GET_LINE'' @ [''GET_BOOL'']) 0
     = map (\<lambda>c. Inr (Some c)) (renew_commands ''2y'' True) @ [Inl IndexErr]"
proof -
  have "str_in ''GET'' ''GET_LINE''" "str_in ''GET'' ''GET_BOOL''" "length (renew_commands ''2y'' True) = 5"
    by code_simp+
  then show ?thesis
    using renewal_answers [of "replicate 5 ''GET_LINE''" "''2y''" True "''GET_BOOL''"] by simp
qed

end
