(* ===== verification/Ctl.thy ===== *)
theory Ctl imports WireReport Keyring PatchQueue Tokens DBusClient begin

text \<open>
  \<^verbatim>\<open>fatbuildr/cli/fatbuildrctl.py\<close>, first part: the state of the command, its options, the
  connection it works with, the archives it makes and what it chooses before it submits tasks. The
  parsing of the command line is the library's. The connection is a record of operations on the
  world of the server; \<open>CtlBus\<close> has the one of the D-Bus client. Messages of the log are
  left out, lines that are printed are in the state.
\<close>

section \<open>State\<close>

record 'w ctl =
  cu_world :: 'w
  cu_files :: node
  cu_out :: "string list"

type_synonym ('w, 'a) cuact = "('w ctl, 'a) act"

definition cu_say :: "'a says \<Rightarrow> ('w, 'a) cuact" where
  "cu_say m u = (let (r, out) = m (cu_out u) in (r, u\<lparr>cu_out := out\<rparr>))"

definition cu_conn :: "('w, 'a) act \<Rightarrow> ('w, 'a) cuact" where
  "cu_conn m u = (let (r, w) = m (cu_world u) in (r, u\<lparr>cu_world := w\<rparr>))"

definition cu_file :: "(node \<Rightarrow> node res) \<Rightarrow> ('w, unit) cuact" where
  "cu_file f = spart cu_files (\<lambda>fs u. u\<lparr>cu_files := fs\<rparr>) f"

definition cu_ask :: "('w ctl \<Rightarrow> 'a res) \<Rightarrow> ('w, 'a) cuact" where
  "cu_ask f u = (f u, u)"

text \<open>\<^verbatim>\<open>sys.exit(1)\<close>.\<close>

definition cu_exit :: "('w, 'a) cuact" where
  "cu_exit = slift (Inl (SystemExit 1))"

definition cu_check :: "bool \<Rightarrow> ('w, unit) cuact" where
  "cu_check ok = (if ok then sret () else cu_exit)"

section \<open>Options\<close>

record ctl_args =
  op_operation :: string
  op_uri :: "string option"
  op_format :: "string option"
  op_distribution :: "string option"
  op_architecture :: "string option"
  op_derivative :: string
  op_artifact :: "string option"
  op_batch :: bool
  op_force :: bool
  op_interactive :: bool
  op_include_untracked :: bool
  op_command :: "string list"
  op_duration :: "string option"
  op_basedir :: "string option"
  op_subdir :: "string option"
  op_name :: "string option"
  op_email :: "string option"
  op_msg :: "string option"
  op_sources :: "string list"
  op_task :: "string option"

text \<open>An option that is given: the empty string is false.\<close>

definition truthy :: "string option \<Rightarrow> string option" where
  "truthy x = (case x of None \<Rightarrow> None | Some s \<Rightarrow> if s = [] then None else Some s)"

record 'w ctl_conn =
  cn_scheme :: string
  cn_formats :: "('w, string list) act"
  cn_architectures :: "('w, string list) act"
  cn_format_distributions :: "string \<Rightarrow> ('w, string list) act"
  cn_distribution_format :: "string \<Rightarrow> ('w, string) act"
  cn_distribution_environment :: "string \<Rightarrow> ('w, string option) act"
  cn_derivative_formats :: "string \<Rightarrow> ('w, string list) act"
  cn_artifacts :: "string \<Rightarrow> string \<Rightarrow> string \<Rightarrow> ('w, obj list) act"
  cn_delete_artifact :: "string \<Rightarrow> string \<Rightarrow> string \<Rightarrow> obj \<Rightarrow> ('w, string) act"
  cn_build :: "build_args \<Rightarrow> obj list \<Rightarrow> ('w, string) act"
  cn_queue :: "('w, obj list) act"
  cn_running :: "('w, obj option) act"
  cn_history :: "int \<Rightarrow> ('w, obj list) act"
  cn_history_purge :: "('w, string) act"
  cn_keyring_create :: "('w, string) act"
  cn_keyring_renew :: "string \<Rightarrow> ('w, string) act"
  cn_keyring :: "('w, obj option) act"
  cn_keyring_export :: "('w, string option) act"
  cn_image_create :: "string \<Rightarrow> bool \<Rightarrow> ('w, string) act"
  cn_image_update :: "string \<Rightarrow> ('w, string) act"
  cn_image_shell :: "string \<Rightarrow> string \<Rightarrow> string list \<Rightarrow> ('w, string) act"
  cn_image_environment_create :: "string \<Rightarrow> string \<Rightarrow> string \<Rightarrow> ('w, string) act"
  cn_image_environment_update :: "string \<Rightarrow> string \<Rightarrow> string \<Rightarrow> ('w, string) act"
  cn_image_environment_shell :: "string \<Rightarrow> string \<Rightarrow> string \<Rightarrow> string \<Rightarrow> string list \<Rightarrow> ('w, string) act"
  cn_token_generate :: "('w, string) act"
  cn_get :: "string \<Rightarrow> ('w, obj) act"
  cn_watch :: "obj \<Rightarrow> ('w, unit) act"
  cn_attach :: "obj \<Rightarrow> ('w, unit) act"

record 'w ctl_env =
  ce_conn :: "'w ctl_conn"
  ce_prefs :: user_preferences
  ce_uri_env :: "string option"
  ce_term :: string
  ce_stdin :: string
  ce_texts :: wire_texts
  ce_libs :: build_libs
  ce_jwt :: jwt_lib
  ce_cwd :: path
  ce_tempdir :: path
  ce_candidate :: string
  ce_mktar :: "string \<Rightarrow> node option \<Rightarrow> string"
  ce_ignored :: "path \<Rightarrow> string \<Rightarrow> bool"
  ce_pq_run :: "patch_queue \<Rightarrow> (node, unit) act"

definition DEFAULT_URI :: string where
  "DEFAULT_URI = ''dbus://system/default''"

definition instance_uri :: "'w ctl_env \<Rightarrow> ctl_args \<Rightarrow> string" where
  "instance_uri E a =
     (case op_uri a of
        Some u \<Rightarrow> u
      | None \<Rightarrow> (case ce_uri_env E of
          Some u \<Rightarrow> u
        | None \<Rightarrow> (case up_uri (ce_prefs E) of Some u \<Rightarrow> u | None \<Rightarrow> DEFAULT_URI)))"

text \<open>An option, or the preference, or a message and the end.\<close>

definition option_or_pref :: "string option \<Rightarrow> string option \<Rightarrow> string \<Rightarrow> ('w, string) cuact" where
  "option_or_pref opt pref message =
     (case opt of
        Some v \<Rightarrow> sret v
      | None \<Rightarrow> (case pref of Some v \<Rightarrow> sret v | None \<Rightarrow> sbind (cu_say (say message)) (\<lambda>_. cu_exit)))"

definition get_basedir :: "'w ctl_env \<Rightarrow> ctl_args \<Rightarrow> ('w, string) cuact" where
  "get_basedir E a = option_or_pref (op_basedir a) (up_basedir (ce_prefs E))
     ''Base directory must be defined for build operations, either with --basedir argument or through user preferences file.''"

definition get_subdir :: "ctl_args \<Rightarrow> string option" where
  "get_subdir a = (case op_subdir a of None \<Rightarrow> op_artifact a | Some s \<Rightarrow> Some s)"

definition required :: "string option \<Rightarrow> ('w, string) cuact" where
  "required x = (case x of None \<Rightarrow> slift (Inl TypeErr) | Some s \<Rightarrow> sret s)"

definition get_apath :: "'w ctl_env \<Rightarrow> ctl_args \<Rightarrow> ('w, path) cuact" where
  "get_apath E a =
     sbind (get_basedir E a) (\<lambda>base. sbind (required (get_subdir a)) (\<lambda>sub.
     sret (joinpath (joinpath (ce_cwd E) base) sub)))"

definition get_user_name :: "'w ctl_env \<Rightarrow> ctl_args \<Rightarrow> ('w, string) cuact" where
  "get_user_name E a = option_or_pref (op_name a) (up_user_name (ce_prefs E))
     ''The user name be defined for build operations, either with --name argument or through user preferences file.''"

definition get_user_email :: "'w ctl_env \<Rightarrow> ctl_args \<Rightarrow> ('w, string) cuact" where
  "get_user_email E a = option_or_pref (op_email a) (up_user_email (ce_prefs E))
     ''The user email must be defined for build operations, either with --email argument or through user preferences file.''"

definition get_message :: "'w ctl_env \<Rightarrow> ctl_args \<Rightarrow> ('w, string) cuact" where
  "get_message E a = option_or_pref (op_msg a) (up_message (ce_prefs E))
     ''The build message must be defined for build operations, either with --msg argument or through user preferences file.''"

section \<open>Archives\<close>

definition tarballs_base :: "'w ctl_env \<Rightarrow> bool \<Rightarrow> ('w, path) cuact" where
  "tarballs_base E rundir =
     (if rundir
      then let base = [''run'', ''fatbuildr'', ce_candidate E] in sbind (cu_file (fs_mkdir base)) (\<lambda>_. sret base)
      else sret (ce_tempdir E))"

text \<open>\<^verbatim>\<open>tarfile.open(tarball, 'x:xz')\<close> with the addition of a directory, or of nothing.\<close>

definition make_tar :: "'w ctl_env \<Rightarrow> path \<Rightarrow> string \<Rightarrow> node option \<Rightarrow> ('w, unit) cuact" where
  "make_tar E tarball arcname n =
     cu_file (\<lambda>fs. if fs_exists fs tarball then Inl FileExistsErr else fs_write tarball (ce_mktar E arcname n) fs)"

definition prepare_tarball :: "'w ctl_env \<Rightarrow> path \<Rightarrow> path \<Rightarrow> ('w, path) cuact" where
  "prepare_tarball E apath base =
     (let tarball = joinpath base ''fatbuildr-artifact.tar.xz'' in
      sbind (cu_ask (\<lambda>u. case lookup apath (cu_files u) of None \<Rightarrow> Inl RuntimeErr | Some n \<Rightarrow> Inr n)) (\<lambda>n.
      sbind (make_tar E tarball ''.'' (Some n)) (\<lambda>_. sret tarball)))"

text \<open>The filter of the members: the name in the archive without its first component, or the whole
  name of the top one.\<close>

definition source_kept :: "(string \<Rightarrow> bool) \<Rightarrow> string \<Rightarrow> bool" where
  "source_kept ignored filename \<longleftrightarrow>
     \<not> startswith filename ''.git'' \<and> filename \<noteq> ''debian'' \<and> \<not> startswith filename ''debian/'' \<and> \<not> ignored filename"

text \<open>\<^verbatim>\<open>tar.add\<close> leaves out a member that the filter refuses, with all that is below.\<close>

lemma entry_size: "(x, n) \<in> set es \<Longrightarrow> size n < size (Dir es)"
  by (induction es) auto

function tar_filter :: "(string \<Rightarrow> bool) \<Rightarrow> path \<Rightarrow> node \<Rightarrow> node" where
  "tar_filter keep p (File c) = File c"
| "tar_filter keep p (Dir es) =
     Dir (map (\<lambda>(x, n). (x, tar_filter keep (p @ [x]) n)) (filter (\<lambda>(x, n). keep (str_join ''/'' (p @ [x]))) es))"
  by pat_completeness auto

termination
  by (relation "measure (\<lambda>(k, p, n). size n)") (auto dest: entry_size)

definition prepare_source_tarball ::
  "'w ctl_env \<Rightarrow> string \<Rightarrow> path \<Rightarrow> string \<Rightarrow> path \<Rightarrow> bool \<Rightarrow> ('w, path) cuact" where
  "prepare_source_tarball E artifact p version base include_git_untracked =
     sbind (cu_ask (\<lambda>u. Inr (lookup p (cu_files u)))) (\<lambda>tree. case tree of
       None \<Rightarrow> cu_exit
     | Some n \<Rightarrow>
         (let subdir = artifact @ ''-'' @ version; tarball = joinpath base (subdir @ ''.tar.xz'');
              repo = fs_exists n [''.git''];
              keep = source_kept (\<lambda>f. repo \<and> \<not> include_git_untracked \<and> ce_ignored E p f) in
          sbind (cu_file (\<lambda>fs. if fs_exists fs tarball then fs_unlink tarball fs else Inr fs)) (\<lambda>_.
          sbind (make_tar E tarball subdir (if keep subdir then Some (tar_filter keep [] n) else None)) (\<lambda>_.
          sret tarball))))"

section \<open>Local sources\<close>

definition source_spec :: "string \<Rightarrow> string \<Rightarrow> string \<times> string" where
  "source_spec artifact source =
     (if CHR ''#'' \<in> set source
      then (split_max CHR ''#'' 1 source ! 0, split_max CHR ''#'' 1 source ! 1)
      else (artifact, source))"

definition source_version_dir :: "build_libs \<Rightarrow> artifact_defs \<Rightarrow> string \<Rightarrow> string \<Rightarrow> string \<Rightarrow> (string \<times> string) res" where
  "source_version_dir L d derivative source_id version_path =
     (if CHR ''@'' \<in> set version_path
      then Inr (split_max CHR ''@'' 1 version_path ! 0, split_max CHR ''@'' 1 version_path ! 1)
      else case defs_source d (YStr source_id) of
             None \<Rightarrow> Inl AttributeErr
           | Some s \<Rightarrow> rmap (\<lambda>v. (v, version_path)) (SourceDefs.source_version L derivative s))"

fun build_local_sources ::
  "'w ctl_env \<Rightarrow> artifact_defs \<Rightarrow> string \<Rightarrow> string \<Rightarrow> path \<Rightarrow> bool \<Rightarrow> file_source list \<Rightarrow> string list \<Rightarrow>
   ('w, file_source list) cuact" where
  "build_local_sources E d artifact derivative base untracked results [] = sret results"
| "build_local_sources E d artifact derivative base untracked results (source # sources) =
     (case source_spec artifact source of (source_id, version_path) \<Rightarrow>
        if YStr source_id \<notin> set (defined_sources d) then slift (Inl FatbuildrRuntimeError)
        else if YStr source_id \<in> so_id ` set results then slift (Inl FatbuildrRuntimeError)
        else sbind (slift (source_version_dir (ce_libs E) d derivative source_id version_path)) (\<lambda>(version, dir).
             sbind (prepare_source_tarball E source_id (joinpath (ce_cwd E) dir) version base untracked) (\<lambda>p.
             build_local_sources E d artifact derivative base untracked
               (results @ [\<lparr>so_id = YStr source_id, so_path = p\<rparr>]) sources)))"

section \<open>Format and distribution\<close>

text \<open>The format that the options and the definition file tell. Without a distribution, a format
  that is given is not taken.\<close>

definition chosen_format :: "'w ctl_env \<Rightarrow> artifact_defs \<Rightarrow> ctl_args \<Rightarrow> ('w, string option) cuact" where
  "chosen_format E d a =
     (case truthy (op_distribution a) of
        Some dist \<Rightarrow>
          sbind (cu_conn (cn_distribution_format (ce_conn E) dist)) (\<lambda>dist_fmt.
          sbind (cu_check (case truthy (op_format a) of None \<Rightarrow> True | Some f \<Rightarrow> f = dist_fmt)) (\<lambda>_. sret (Some dist_fmt)))
      | None \<Rightarrow>
          if op_format a = None
          then sbind (slift (supported_formats d)) (\<lambda>fmts.
               sbind (cu_check (length fmts \<le> 1)) (\<lambda>_.
               sret (case fmts of YStr f # _ \<Rightarrow> Some f | _ \<Rightarrow> None)))
          else sret None)"

definition chosen_distribution :: "'w ctl_env \<Rightarrow> ctl_args \<Rightarrow> string \<Rightarrow> ('w, string) cuact" where
  "chosen_distribution E a fmt =
     (case truthy (op_distribution a) of
        Some dist \<Rightarrow> sret dist
      | None \<Rightarrow>
          sbind (cu_conn (cn_format_distributions (ce_conn E) fmt)) (\<lambda>dists.
          sbind (cu_check (length dists \<le> 1)) (\<lambda>_. slift (list_item dists 0))))"

definition get_format_distribution :: "'w ctl_env \<Rightarrow> artifact_defs \<Rightarrow> ctl_args \<Rightarrow> ('w, string \<times> string) cuact" where
  "get_format_distribution E d a =
     sbind (chosen_format E d a) (\<lambda>f. case truthy f of
       None \<Rightarrow> cu_exit
     | Some fmt \<Rightarrow>
         sbind (chosen_distribution E a fmt) (\<lambda>dist.
         sbind (slift (supported_formats d)) (\<lambda>fmts.
         sbind (cu_check (YStr fmt \<in> set fmts)) (\<lambda>_.
         sbind (slift (defs_derivatives d)) (\<lambda>dvs.
         sbind (cu_check (YStr (op_derivative a) \<in> set dvs)) (\<lambda>_.
         sbind (cu_conn (cn_derivative_formats (ce_conn E) (op_derivative a))) (\<lambda>dfmts.
         sbind (cu_check (fmt \<in> set dfmts)) (\<lambda>_. sret (fmt, dist)))))))))"

end
