(* ===== verification/CtlRun.thy ===== *)
theory CtlRun imports Ctl begin

text \<open>
  \<^verbatim>\<open>fatbuildr/cli/fatbuildrctl.py\<close>, second part: the submission and the watch of tasks and the
  actions of the command. The watch of a pending task polls the server; the number of polls is
  bounded by a fuel, and the answer of an action tells whether it ended within it.
\<close>

section \<open>Tasks\<close>

text \<open>The task when it is no longer pending, None when the fuel is used up.\<close>

fun wait_task :: "nat \<Rightarrow> 'w ctl_env \<Rightarrow> string \<Rightarrow> obj \<Rightarrow> ('w, obj option) cuact" where
  "wait_task 0 E task_id task = sret None"
| "wait_task (Suc n) E task_id task =
     sbind (slift (getattr task ''state'')) (\<lambda>state.
     if state = PStr ''pending''
     then sbind (cu_conn (cn_get (ce_conn E) task_id)) (wait_task n E task_id)
     else sret (Some task))"

definition watch_task :: "nat \<Rightarrow> 'w ctl_env \<Rightarrow> string \<Rightarrow> bool \<Rightarrow> ('w, bool) cuact" where
  "watch_task n E task_id interactive =
     sbind (cu_conn (cn_get (ce_conn E) task_id)) (\<lambda>task.
     sbind (wait_task n E task_id task) (\<lambda>r. case r of
       None \<Rightarrow> sret False
     | Some t \<Rightarrow> sbind (cu_conn ((if interactive then cn_attach else cn_watch) (ce_conn E) t)) (\<lambda>_. sret True)))"

definition submit_task ::
  "nat \<Rightarrow> 'w ctl_env \<Rightarrow> ('w, string) act \<Rightarrow> string \<Rightarrow> bool \<Rightarrow> bool \<Rightarrow> ('w, bool) cuact" where
  "submit_task n E caller task_name batch interactive =
     sbind (cu_conn caller) (\<lambda>task_id.
     sbind (cu_say (say (''Submitted '' @ task_name @ '' task '' @ task_id))) (\<lambda>_.
     if batch then sret True else watch_task n E task_id interactive))"

fun submit_each :: "('a \<Rightarrow> ('s, bool) act) \<Rightarrow> 'a list \<Rightarrow> ('s, bool) act" where
  "submit_each f [] = sret True"
| "submit_each f (x # xs) = sbind (f x) (\<lambda>ok. if ok then submit_each f xs else sret False)"

section \<open>Images\<close>

definition select_formats :: "'w ctl_env \<Rightarrow> ctl_args \<Rightarrow> ('w, string list) cuact" where
  "select_formats E a =
     sbind (cu_conn (cn_formats (ce_conn E))) (\<lambda>supported.
     case truthy (op_distribution a) of
       Some dist \<Rightarrow>
         sbind (cu_conn (cn_distribution_format (ce_conn E) dist)) (\<lambda>dist_fmt.
         sbind (cu_check (case truthy (op_format a) of None \<Rightarrow> True | Some f \<Rightarrow> f = dist_fmt)) (\<lambda>_. sret [dist_fmt]))
     | None \<Rightarrow>
         (case truthy (op_format a) of
            Some f \<Rightarrow> sbind (cu_check (f \<in> set supported)) (\<lambda>_. sret [f])
          | None \<Rightarrow> sret supported))"

fun dist_envs :: "'w ctl_env \<Rightarrow> string list \<Rightarrow> ('w, string list) cuact" where
  "dist_envs E [] = sret []"
| "dist_envs E (d # ds) =
     sbind (cu_conn (cn_distribution_environment (ce_conn E) d)) (\<lambda>env.
     sbind (dist_envs E ds) (\<lambda>envs. sret (case env of None \<Rightarrow> envs | Some e \<Rightarrow> e # envs)))"

definition select_build_environments :: "'w ctl_env \<Rightarrow> ctl_args \<Rightarrow> string \<Rightarrow> ('w, string list) cuact" where
  "select_build_environments E a fmt =
     sbind (case truthy (op_distribution a) of
              Some dist \<Rightarrow> sret [dist]
            | None \<Rightarrow> cu_conn (cn_format_distributions (ce_conn E) fmt)) (dist_envs E)"

definition select_architectures :: "'w ctl_env \<Rightarrow> ctl_args \<Rightarrow> ('w, string list) cuact" where
  "select_architectures E a =
     sbind (cu_conn (cn_architectures (ce_conn E))) (\<lambda>available.
     case truthy (op_architecture a) of
       Some x \<Rightarrow> sbind (cu_check (x \<in> set available)) (\<lambda>_. sret [x])
     | None \<Rightarrow> sret available)"

text \<open>The only one of the list, or the end of the program.\<close>

definition the_only :: "string list \<Rightarrow> ('w, string) cuact" where
  "the_only xs = (case xs of [x] \<Rightarrow> sret x | _ \<Rightarrow> cu_exit)"

definition each_environment ::
  "'w ctl_env \<Rightarrow> ctl_args \<Rightarrow> (string \<Rightarrow> string \<Rightarrow> string \<Rightarrow> ('w, bool) cuact) \<Rightarrow> ('w, bool) cuact" where
  "each_environment E a f =
     sbind (select_formats E a) (submit_each (\<lambda>fmt.
     sbind (select_build_environments E a fmt) (submit_each (\<lambda>env.
     sbind (select_architectures E a) (submit_each (f fmt env))))))"

definition run_env_shell :: "nat \<Rightarrow> 'w ctl_env \<Rightarrow> ctl_args \<Rightarrow> ('w, bool) cuact" where
  "run_env_shell n E a =
     sbind (select_formats E a) (\<lambda>formats0.
     sbind (case truthy (op_distribution a) of
              Some dist \<Rightarrow>
                sbind (cu_conn (cn_distribution_format (ce_conn E) dist)) (\<lambda>dist_fmt.
                sbind (cu_check (case truthy (op_format a) of None \<Rightarrow> True | Some f \<Rightarrow> f = dist_fmt)) (\<lambda>_. sret [dist_fmt]))
            | None \<Rightarrow> sret formats0) (\<lambda>formats.
     sbind (the_only formats) (\<lambda>fmt.
     sbind (select_build_environments E a fmt) (\<lambda>envs.
     sbind (the_only envs) (\<lambda>env.
     sbind (select_architectures E a) (\<lambda>archs.
     sbind (the_only archs) (\<lambda>arch.
     submit_task n E (cn_image_environment_shell (ce_conn E) fmt env arch (ce_term E) (op_command a))
       (fmt @ '' '' @ env @ ''-'' @ arch @ '' build environment shell'') False True)))))))"

definition run_images :: "nat \<Rightarrow> 'w ctl_env \<Rightarrow> ctl_args \<Rightarrow> ('w, bool) cuact" where
  "run_images n E a =
     (let c = ce_conn E in
      if op_operation a = ''create''
      then sbind (select_formats E a) (submit_each (\<lambda>fmt.
             submit_task n E (cn_image_create c fmt (op_force a)) (fmt @ '' image creation'') (op_batch a) False))
      else if op_operation a = ''update''
      then sbind (select_formats E a) (submit_each (\<lambda>fmt.
             submit_task n E (cn_image_update c fmt) (fmt @ '' image update'') (op_batch a) False))
      else if op_operation a = ''shell''
      then sbind (select_formats E a) (\<lambda>formats. sbind (the_only formats) (\<lambda>fmt.
             submit_task n E (cn_image_shell c fmt (ce_term E) (op_command a)) (fmt @ '' image shell'') False True))
      else if op_operation a = ''env-create''
      then each_environment E a (\<lambda>fmt env arch. submit_task n E (cn_image_environment_create c fmt env arch)
             (fmt @ '' '' @ env @ ''-'' @ arch @ '' build environment creation'') (op_batch a) False)
      else if op_operation a = ''env-update''
      then each_environment E a (\<lambda>fmt env arch. submit_task n E (cn_image_environment_update c fmt env arch)
             (fmt @ '' '' @ env @ ''-'' @ arch @ '' build environment update'') (op_batch a) False)
      else if op_operation a = ''env-shell'' then run_env_shell n E a
      else sret True)"

section \<open>Keyring, history, registry and tokens\<close>

definition run_keyring :: "nat \<Rightarrow> 'w ctl_env \<Rightarrow> ctl_args \<Rightarrow> ('w, bool) cuact" where
  "run_keyring n E a =
     (let c = ce_conn E in
      if op_operation a = ''create'' then submit_task n E (cn_keyring_create c) ''keyring creation'' (op_batch a) False
      else if op_operation a = ''renew''
      then (case truthy (op_duration a) of
              None \<Rightarrow> cu_exit
            | Some d \<Rightarrow> sbind (cu_check (valid_duration d)) (\<lambda>_.
                submit_task n E (cn_keyring_renew c d) ''keyring renewal'' (op_batch a) False))
      else if op_operation a = ''show''
      then sbind (cu_conn (cn_keyring c)) (\<lambda>k. case k of
              Some k \<Rightarrow> sbind (cu_say (keyring_report (ce_texts E) k)) (\<lambda>_. sret True)
            | None \<Rightarrow> sbind (cu_say (say (''No keyring available on URI '' @ instance_uri E a))) (\<lambda>_. sret True))
      else if op_operation a = ''export''
      then sbind (cu_conn (cn_keyring_export c)) (\<lambda>k.
              sbind (cu_say (say (case k of None \<Rightarrow> ''None'' | Some s \<Rightarrow> s))) (\<lambda>_. sret True))
      else sret True)"

definition run_history :: "nat \<Rightarrow> 'w ctl_env \<Rightarrow> ctl_args \<Rightarrow> ('w, bool) cuact" where
  "run_history n E a =
     (if op_operation a = ''list''
      then sbind (cu_conn (cn_history (ce_conn E) 10)) (\<lambda>tasks.
             if tasks = [] then sbind (cu_say (say ''No task found in history'')) (\<lambda>_. sret True)
             else sbind (cu_say (sbind (say ''Tasks history:'') (\<lambda>_. sfor (task_report (ce_texts E)) tasks))) (\<lambda>_. sret True))
      else if op_operation a = ''purge''
      then submit_task n E (cn_history_purge (ce_conn E)) ''tasks history purge'' (op_batch a) False
      else sret True)"

text \<open>The artifacts whose name has the given one as a part.\<close>

definition artifact_selected :: "ctl_args \<Rightarrow> obj \<Rightarrow> bool res" where
  "artifact_selected a x =
     (case truthy (op_artifact a) of
        None \<Rightarrow> Inr True
      | Some name \<Rightarrow> rbind (getattr x ''name'') (\<lambda>v. case v of PStr s \<Rightarrow> Inr (str_in name s) | _ \<Rightarrow> Inl TypeErr))"

fun selected_artifacts :: "ctl_args \<Rightarrow> obj list \<Rightarrow> obj list res" where
  "selected_artifacts a [] = Inr []"
| "selected_artifacts a (x # xs) =
     rbind (artifact_selected a x) (\<lambda>k. rmap (\<lambda>ys. if k then x # ys else ys) (selected_artifacts a xs))"

definition delete_selected :: "'w ctl_env \<Rightarrow> ctl_args \<Rightarrow> string \<Rightarrow> string \<Rightarrow> obj \<Rightarrow> ('w, unit) cuact" where
  "delete_selected E a fmt dist x =
     sbind (cu_conn (cn_delete_artifact (ce_conn E) fmt dist (op_derivative a) x)) (\<lambda>task_id.
     sbind (slift (getattr x ''name'')) (\<lambda>v.
     cu_say (say (''Submitted artifact '' @ wire_text (ce_texts E) v @ '' deletion task '' @ task_id))))"

definition run_registry :: "'w ctl_env \<Rightarrow> ctl_args \<Rightarrow> ('w, bool) cuact" where
  "run_registry E a =
     sbind (required (op_distribution a)) (\<lambda>dist.
     sbind (cu_conn (cn_distribution_format (ce_conn E) dist)) (\<lambda>fmt.
     sbind (cu_conn (cn_artifacts (ce_conn E) fmt dist (op_derivative a))) (\<lambda>all.
     sbind (slift (selected_artifacts a all)) (\<lambda>artifacts.
     let place = fmt @ '' distribution '' @ dist @ '' derivative '' @ op_derivative a in
     if artifacts = [] then sbind (cu_say (say (''No artifact found in '' @ place))) (\<lambda>_. sret True)
     else if op_operation a = ''list''
     then sbind (cu_say (sbind (say (''Artifacts found for '' @ place @ '':'')) (\<lambda>_. sfor (artifact_report (ce_texts E)) artifacts)))
            (\<lambda>_. sret True)
     else if op_operation a = ''delete'' then sbind (sfor (delete_selected E a fmt dist) artifacts) (\<lambda>_. sret True)
     else sret True))))"

definition token_text :: "wire_texts \<Rightarrow> client_token \<Rightarrow> string" where
  "token_text T t =
     (let nl = [CHR 0x0A]; p = ct_payload t in
      str_join nl [''path: '' @ path_str (ct_path t), ''uri: '' @ ct_uri t, ''user: '' @ jp_sub p, ''issued at: '' @ wt_iso T (jp_iat p),
        ''expiration: '' @ wt_iso T (jp_exp p), ''audience: '' @ jp_aud p])"

definition indented_token :: "wire_texts \<Rightarrow> client_token \<Rightarrow> string" where
  "indented_token T t =
     (let nl = [CHR 0x0A] in
      ''token:'' @ nl @ ''  '' @ str_join (nl @ ''  '') (split_on CHR 0x0A (token_text T t)))"

definition read_line :: "string \<Rightarrow> string" where
  "read_line s = (let l = takeWhile (\<lambda>c. c \<noteq> CHR 0x0A) s in if length l < length s then l @ [CHR 0x0A] else l)"

definition run_tokens :: "'w ctl_env \<Rightarrow> ctl_args \<Rightarrow> ('w, bool) cuact" where
  "run_tokens E a =
     (let dir = path_parts (up_tokens_dir (ce_prefs E));
          operation = (if op_operation a = [] then ''list'' else op_operation a) in
      if operation = ''list''
      then sbind (cu_ask (\<lambda>u. client_tokens (ce_jwt E) dir (cu_files u))) (\<lambda>ts.
             sbind (cu_say (sfor (\<lambda>t. say (indented_token (ce_texts E) t)) ts)) (\<lambda>_. sret True))
      else if operation = ''generate''
      then sbind (cu_conn (cn_token_generate (ce_conn E))) (\<lambda>t. sbind (cu_say (say t)) (\<lambda>_. sret True))
      else if operation = ''save''
      then (if truthy (op_uri a) = None then cu_exit
            else sbind (cu_file (client_token_save dir (instance_uri E a) (read_line (ce_stdin E)))) (\<lambda>_. sret True))
      else sret True)"

section \<open>Lists and watch\<close>

text \<open>Runtime errors are caught here, and end the program.\<close>

definition exit_on_runtime :: "('w, 'a) cuact \<Rightarrow> ('w, 'a) cuact" where
  "exit_on_runtime m = scatch m (\<lambda>e. is_a e FatbuildrRuntimeError) (\<lambda>_. cu_exit)"

definition run_list :: "'w ctl_env \<Rightarrow> ('w, bool) cuact" where
  "run_list E = exit_on_runtime (
     sbind (cu_conn (cn_running (ce_conn E))) (\<lambda>running.
     sbind (case running of
              Some t \<Rightarrow> cu_say (sbind (say ''Running tasks:'') (\<lambda>_. task_report (ce_texts E) t))
            | None \<Rightarrow> cu_say (say ''No running task'')) (\<lambda>_.
     sbind (cu_conn (cn_queue (ce_conn E))) (\<lambda>queue.
     sbind (if queue = [] then sret ()
            else cu_say (sbind (say ''Pending tasks:'') (\<lambda>_. sfor (task_report (ce_texts E)) queue))) (\<lambda>_. sret True)))))"

definition run_watch :: "nat \<Rightarrow> 'w ctl_env \<Rightarrow> ctl_args \<Rightarrow> ('w, bool) cuact" where
  "run_watch n E a =
     (case truthy (op_task a) of
        Some task_id \<Rightarrow> watch_task n E task_id False
      | None \<Rightarrow>
          sbind (cu_conn (cn_running (ce_conn E))) (\<lambda>running. case running of
            None \<Rightarrow> cu_exit
          | Some t \<Rightarrow> sbind (slift (getattr t ''id'')) (\<lambda>v. case v of
              PStr task_id \<Rightarrow> watch_task n E task_id False | _ \<Rightarrow> slift (Inl TypeErr))))"

section \<open>Patches and builds\<close>

definition run_patches :: "'w ctl_env \<Rightarrow> ctl_args \<Rightarrow> ('w, bool) cuact" where
  "run_patches E a =
     sbind (get_apath E a) (\<lambda>apath.
     sbind (required (op_artifact a)) (\<lambda>artifact.
     sbind (cu_ask (\<lambda>u. ArtifactDefs (ce_libs E) GenericDefs apath artifact [] (cu_files u))) (\<lambda>d.
     sbind (get_user_name E a) (\<lambda>name.
     sbind (get_user_email E a) (\<lambda>email.
     sbind (tarballs_base E False) (\<lambda>base.
     sbind (build_local_sources E d artifact (op_derivative a) base (op_include_untracked a) [] (op_sources a)) (\<lambda>sources.
     sbind (\<lambda>u. (let (r, fs) = ce_pq_run E \<lparr>pq_apath = apath, pq_derivative = op_derivative a, pq_artifact = artifact, pq_defs = d,
         pq_user = name, pq_email = email, pq_version = None, pq_sources = sources, pq_main_source = None,
         pq_supplementary = []\<rparr> (cu_files u) in (r, u\<lparr>cu_files := fs\<rparr>))) (\<lambda>_.
     sbind (sfor (\<lambda>s. cu_file (fs_unlink (so_path s))) sources) (\<lambda>_. sret True)))))))))"

definition source_obj :: "file_source \<Rightarrow> obj" where
  "source_obj s = [(''id'', case so_id s of YStr i \<Rightarrow> PStr i | _ \<Rightarrow> PNone), (''path'', PPath (path_str (so_path s)))]"

definition selected_architectures :: "'w ctl_env \<Rightarrow> path \<Rightarrow> string \<Rightarrow> string \<Rightarrow> string list \<Rightarrow> ('w, string list) cuact" where
  "selected_architectures E apath artifact fmt architectures =
     sbind (cu_ask (\<lambda>u. rbind (ArtifactDefsFactory_get (ce_libs E) apath artifact fmt (cu_files u))
       (\<lambda>d. architecture_dependent d (cu_files u)))) (\<lambda>arch_dependent.
     if arch_dependent then sret architectures else sbind (slift (list_item architectures 0)) (\<lambda>x. sret [x]))"

definition run_build :: "nat \<Rightarrow> 'w ctl_env \<Rightarrow> ctl_args \<Rightarrow> ('w, bool) cuact" where
  "run_build n E a =
     (let c = ce_conn E; interactive = (op_interactive a \<and> cn_scheme c = ''dbus'');
          batch = (op_batch a \<and> \<not> interactive) in
      sbind (get_apath E a) (\<lambda>apath.
      sbind (required (op_artifact a)) (\<lambda>artifact.
      sbind (cu_ask (\<lambda>u. ArtifactDefs (ce_libs E) GenericDefs apath artifact [] (cu_files u))) (\<lambda>d.
      sbind (get_user_name E a) (\<lambda>name.
      sbind (get_user_email E a) (\<lambda>email.
      sbind (get_message E a) (\<lambda>msg.
      sbind (get_format_distribution E d a) (\<lambda>(fmt, dist).
      sbind (cu_conn (cn_architectures c)) (\<lambda>architectures.
      sbind (selected_architectures E apath artifact fmt architectures) (\<lambda>archs.
      sbind (tarballs_base E (cn_scheme c = ''dbus'')) (\<lambda>base.
      sbind (build_local_sources E d artifact (op_derivative a) base (op_include_untracked a) [] (op_sources a)) (\<lambda>sources.
      exit_on_runtime (
        sbind (prepare_tarball E apath base) (\<lambda>tarball.
        submit_task n E (cn_build c \<lparr>ba_format = fmt, ba_distribution = dist, ba_architectures = archs,
            ba_derivative = op_derivative a, ba_artifact = artifact, ba_author = name, ba_email = email, ba_message = msg,
            ba_tarball = path_str tarball, ba_sources = [], ba_interactive = interactive\<rparr> (map source_obj sources))
          (artifact @ '' build'') batch interactive))))))))))))))"

section \<open>The command\<close>

datatype ctl_action = ActImages | ActKeyring | ActBuild | ActList | ActPatches | ActWatch | ActHistory | ActRegistry | ActTokens

fun run_action :: "nat \<Rightarrow> 'w ctl_env \<Rightarrow> ctl_args \<Rightarrow> ctl_action \<Rightarrow> ('w, bool) cuact" where
  "run_action n E a ActImages = run_images n E a"
| "run_action n E a ActKeyring = run_keyring n E a"
| "run_action n E a ActBuild = run_build n E a"
| "run_action n E a ActList = run_list E"
| "run_action n E a ActPatches = run_patches E a"
| "run_action n E a ActWatch = run_watch n E a"
| "run_action n E a ActHistory = run_history n E a"
| "run_action n E a ActRegistry = run_registry E a"
| "run_action n E a ActTokens = run_tokens E a"

text \<open>The errors that end the program with a message.\<close>

definition ctl_handled :: "exn \<Rightarrow> bool" where
  "ctl_handled e \<longleftrightarrow> is_a e FatbuildrServerError \<or> is_a e FatbuildrArtifactError \<or> is_a e FatbuildrRuntimeError"

definition Fatbuildrctl :: "nat \<Rightarrow> 'w ctl_env \<Rightarrow> ctl_args \<Rightarrow> ctl_action option \<Rightarrow> ('w, bool) cuact" where
  "Fatbuildrctl n E a action =
     (case action of
        None \<Rightarrow> cu_exit
      | Some x \<Rightarrow> scatch (run_action n E a x) ctl_handled (\<lambda>_. cu_exit))"

end
