(* ===== verification/CtlBus.thy ===== *)
theory CtlBus imports CtlRun HttpFlow Frames begin

text \<open>
  The command connected to the D-Bus service: the operations of its connection are those of
  \<^verbatim>\<open>fatbuildr/protocols/dbus/client.py\<close>, and its world is the state of the server. The server
  works between two reads of a poll, as \<open>step1\<close> and \<open>step2\<close> tell; the console that is shown and the
  one that is attached are parameters.
\<close>

definition bus_conn ::
  "connection \<Rightarrow> (dbus_server \<Rightarrow> dbus_server) \<Rightarrow> (dbus_server \<Rightarrow> dbus_server) \<Rightarrow>
   (console_source \<Rightarrow> unit cact) \<Rightarrow> (obj \<Rightarrow> unit cact) \<Rightarrow> dbus_server ctl_conn" where
  "bus_conn C step1 step2 render attach =
     \<lparr>cn_scheme = ''dbus'', cn_formats = client_pipelines_formats C, cn_architectures = client_pipelines_architectures C,
      cn_format_distributions = client_pipelines_format_distributions C,
      cn_distribution_format = client_pipelines_distribution_format C,
      cn_distribution_environment = client_pipelines_distribution_environment C,
      cn_derivative_formats = client_pipelines_derivative_formats C,
      cn_artifacts = client_artifacts C, cn_delete_artifact = client_delete_artifact C, cn_build = client_build C,
      cn_queue = client_queue C, cn_running = client_running C, cn_history = client_history C,
      cn_history_purge = client_history_purge C, cn_keyring_create = client_keyring_create C,
      cn_keyring_renew = client_keyring_renew C, cn_keyring = client_keyring C, cn_keyring_export = client_keyring_export C,
      cn_image_create = client_image_create C, cn_image_update = client_image_update C, cn_image_shell = client_image_shell C,
      cn_image_environment_create = client_image_environment_create C,
      cn_image_environment_update = client_image_environment_update C,
      cn_image_environment_shell = client_image_environment_shell C, cn_token_generate = client_token_generate C,
      cn_get = (\<lambda>i. client_get C i step1 step2),
      cn_watch = (\<lambda>t. sbind (slift (client_watch t False)) render), cn_attach = attach\<rparr>"

lemmas bus_conn_ops [simp] = bus_conn_def

section \<open>What is read changes nothing\<close>

definition server_kept :: "dbus_server ctl \<Rightarrow> dbus_server ctl \<Rightarrow> bool" where
  "server_kept u u' \<longleftrightarrow> ds_instances (cu_world u') = ds_instances (cu_world u)"

interpretation sk: framed server_kept
  by unfold_locales (auto simp: server_kept_def)

named_theorems quiet "actions of the command that change no instance of the server"

lemma quiet_conn [quiet]: "bus_keeps m \<Longrightarrow> keeping server_kept (cu_conn m)"
  by (simp add: keeping_def server_kept_def cu_conn_def bus_keeps_def split: prod.split) (metis snd_conv)

lemma quiet_basic [quiet]:
  "keeping server_kept (sret x)" "keeping server_kept (slift r)" "keeping server_kept (cu_ask f)"
  "keeping server_kept (cu_say m)" "keeping server_kept (cu_file g)" "keeping server_kept cu_exit"
  "keeping server_kept (cu_check b)" "keeping server_kept (required x0)"
  by (auto simp: keeping_def server_kept_def sret_def slift_def cu_ask_def cu_say_def cu_file_def spart_def cu_exit_def
      cu_check_def required_def split: sum.split prod.split option.split)

lemma quiet_bind [quiet]: "keeping server_kept m \<Longrightarrow> (\<And>x. keeping server_kept (f x)) \<Longrightarrow> keeping server_kept (sbind m f)"
  by (rule sk.kept_sbind)

lemma quiet_reads [quiet]:
  "keeping server_kept (cu_conn (client_pipelines_formats C))"
  "keeping server_kept (cu_conn (client_pipelines_architectures C))"
  "keeping server_kept (cu_conn (client_pipelines_format_distributions C fmt))"
  "keeping server_kept (cu_conn (client_pipelines_derivative_formats C dv))"
  "keeping server_kept (cu_conn (client_pipelines_distribution_format C d))"
proof -
  have "bus_keeps (client_pipelines_distribution_format C d)"
    unfolding client_pipelines_distribution_format_def client_call_def by (rule bus_keeps_try) simp
  then show "keeping server_kept (cu_conn (client_pipelines_distribution_format C d))" by (rule quiet_conn)
qed (intro quiet_conn bus_keeps_reads)+

lemma quiet_pref [quiet]: "keeping server_kept (option_or_pref x y m)"
  unfolding option_or_pref_def by (auto intro: quiet split: option.split)

lemma quiet_values [quiet]:
  "keeping server_kept (get_apath E a)" "keeping server_kept (get_user_name E a)" "keeping server_kept (get_user_email E a)"
  "keeping server_kept (get_message E a)"
  unfolding get_apath_def get_basedir_def get_user_name_def get_user_email_def get_message_def by (intro quiet)+

lemma quiet_tar [quiet]:
  "keeping server_kept (tarballs_base E b)" "keeping server_kept (make_tar E p s n)" "keeping server_kept (prepare_tarball E q base)"
  "keeping server_kept (prepare_source_tarball E i p v base k)"
  unfolding tarballs_base_def make_tar_def prepare_tarball_def prepare_source_tarball_def Let_def
  by (auto intro!: quiet split: option.split)

lemma quiet_sources [quiet]: "keeping server_kept (build_local_sources E d artifact dv base k results ss)"
proof (induction ss arbitrary: results)
  case (Cons s ss)
  then show ?case
    by (auto intro!: quiet split: prod.split)
qed (simp add: quiet)

lemma quiet_format [quiet]:
  assumes "ce_conn E = bus_conn C step1 step2 render attach"
  shows "keeping server_kept (get_format_distribution E d a)"
proof -
  have "keeping server_kept (chosen_format E d a)"
    using assms by (auto simp: chosen_format_def intro!: quiet split: option.split)
  moreover have "keeping server_kept (chosen_distribution E a fmt)" for fmt
    using assms by (auto simp: chosen_distribution_def intro!: quiet split: option.split)
  ultimately show ?thesis
    using assms by (auto simp: get_format_distribution_def intro!: quiet split: option.split)
qed

lemma quiet_architectures [quiet]: "keeping server_kept (selected_architectures E apath artifact fmt archs)"
  unfolding selected_architectures_def by (auto intro!: quiet)

end
