(* ===== verification/CtlSafety.thy ===== *)
theory CtlSafety imports CtlBus BuildExamples begin

text \<open>
  Properties of the command: what a build that is submitted has to do with the options, the
  definition file and the pipelines, what a deletion takes, what the archives of local sources hold,
  and when a watch ends.
\<close>

section \<open>Choices\<close>

lemma cu_check_Inr: "cu_check b u = (Inr x, u') \<longleftrightarrow> b \<and> u' = u"
  by (auto simp: cu_check_def sret_def cu_exit_def slift_def)

lemma sret_Inr: "sret x u = (Inr y, u') \<longleftrightarrow> y = x \<and> u' = u"
  by (auto simp: sret_def)

lemma slift_Inr: "slift r u = (Inr y, u') \<longleftrightarrow> r = Inr y \<and> u' = u"
  by (auto simp: slift_def)

lemma cu_exit_Inr: "cu_exit u = (Inr y, u') \<longleftrightarrow> False"
  by (simp add: cu_exit_def slift_def)

lemma cu_conn_Inr: "cu_conn m u = (Inr y, u') \<longleftrightarrow> (\<exists>w. m (cu_world u) = (Inr y, w) \<and> u' = u\<lparr>cu_world := w\<rparr>)"
  by (auto simp: cu_conn_def split: prod.splits)

lemma cu_ask_Inr: "cu_ask f u = (Inr y, u') \<longleftrightarrow> f u = Inr y \<and> u' = u"
  by (auto simp: cu_ask_def)

lemma required_Inr: "required x u = (Inr y, u') \<longleftrightarrow> x = Some y \<and> u' = u"
  by (auto simp: required_def sret_def slift_def split: option.splits)

lemmas cu_Inr = sbind_Inr_conv cu_check_Inr sret_Inr slift_Inr cu_exit_Inr cu_conn_Inr cu_ask_Inr required_Inr

text \<open>A format without a distribution is not enough, although the message that the program then
  prints says that either is: whatever the instance and the definition file are, nothing is
  asked and the program ends.\<close>

theorem format_alone_refused:
  assumes "truthy (op_distribution a) = None" and "op_format a \<noteq> None"
  shows "get_format_distribution E d a u = (Inl (SystemExit 1), u)"
proof -
  have "chosen_format E d a u = (Inr None, u)"
    using assms by (auto simp: chosen_format_def sret_def)
  then show ?thesis
    by (simp add: get_format_distribution_def sbind_def truthy_def cu_exit_def slift_def)
qed

lemma format_distribution_Inr:
  assumes "get_format_distribution E d a u = (Inr (fmt, dist), u')"
  shows "(\<exists>fmts. supported_formats d = Inr fmts \<and> YStr fmt \<in> set fmts)
    \<and> (\<exists>dvs. defs_derivatives d = Inr dvs \<and> YStr (op_derivative a) \<in> set dvs)
    \<and> (\<exists>w dfmts w'. cn_derivative_formats (ce_conn E) (op_derivative a) w = (Inr dfmts, w') \<and> fmt \<in> set dfmts)
    \<and> (case truthy (op_distribution a) of
         Some x \<Rightarrow> dist = x \<and> (\<exists>w w'. cn_distribution_format (ce_conn E) x w = (Inr fmt, w'))
           \<and> (\<forall>f. truthy (op_format a) = Some f \<longrightarrow> f = fmt)
       | None \<Rightarrow> op_format a = None \<and> supported_formats d = Inr [YStr fmt]
           \<and> (\<exists>w w'. cn_format_distributions (ce_conn E) fmt w = (Inr [dist], w')))"
proof -
  let ?rest = "\<lambda>fmt. sbind (chosen_distribution E a fmt) (\<lambda>dist.
         sbind (slift (supported_formats d)) (\<lambda>fmts.
         sbind (cu_check (YStr fmt \<in> set fmts)) (\<lambda>_.
         sbind (slift (defs_derivatives d)) (\<lambda>dvs.
         sbind (cu_check (YStr (op_derivative a) \<in> set dvs)) (\<lambda>_.
         sbind (cu_conn (cn_derivative_formats (ce_conn E) (op_derivative a))) (\<lambda>dfmts.
         sbind (cu_check (fmt \<in> set dfmts)) (\<lambda>_. sret (fmt, dist))))))))"
  obtain f u1 where f: "chosen_format E d a u = (Inr f, u1)"
    and r: "(case truthy f of None \<Rightarrow> cu_exit | Some g \<Rightarrow> ?rest g) u1 = (Inr (fmt, dist), u')"
    using assms unfolding get_format_distribution_def sbind_Inr_conv [of "chosen_format E d a"] by blast
  obtain g where g: "truthy f = Some g" and r: "?rest g u1 = (Inr (fmt, dist), u')"
    using r by (cases "truthy f") (simp_all add: cu_exit_Inr)
  obtain y u2 where y: "chosen_distribution E a g u1 = (Inr y, u2)"
    and r: "\<exists>fmts dvs w dfmts. supported_formats d = Inr fmts \<and> YStr g \<in> set fmts \<and> defs_derivatives d = Inr dvs
       \<and> YStr (op_derivative a) \<in> set dvs \<and> cn_derivative_formats (ce_conn E) (op_derivative a) (cu_world u2) = (Inr dfmts, w)
       \<and> g \<in> set dfmts \<and> (fmt, dist) = (g, y)"
    using r unfolding cu_Inr by blast
  have t: "truthy f = Some fmt" and d: "chosen_distribution E a fmt u1 = (Inr dist, u2)"
    using g y r by auto
  have gf: "g = fmt" using r by blast
  obtain fmts dvs w dfmts where ok: "supported_formats d = Inr fmts" "YStr fmt \<in> set fmts" "defs_derivatives d = Inr dvs"
      "YStr (op_derivative a) \<in> set dvs"
      "cn_derivative_formats (ce_conn E) (op_derivative a) (cu_world u2) = (Inr dfmts, w)" "fmt \<in> set dfmts"
    using r unfolding gf by blast
  have "case truthy (op_distribution a) of
         Some x \<Rightarrow> dist = x \<and> (\<exists>w w'. cn_distribution_format (ce_conn E) x w = (Inr fmt, w'))
           \<and> (\<forall>f. truthy (op_format a) = Some f \<longrightarrow> f = fmt)
       | None \<Rightarrow> op_format a = None \<and> supported_formats d = Inr [YStr fmt]
           \<and> (\<exists>w w'. cn_format_distributions (ce_conn E) fmt w = (Inr [dist], w'))"
  proof (cases "truthy (op_distribution a)")
    case (Some x)
    have f': "f = Some fmt" using t by (auto simp: truthy_def split: option.splits if_splits)
    show ?thesis
      using f d Some f' by (auto simp: chosen_format_def chosen_distribution_def cu_Inr split: option.splits)
  next
    case None
    have f': "f = Some fmt" using t by (auto simp: truthy_def split: option.splits if_splits)
    have nf: "op_format a = None"
      using f None f' by (auto simp: chosen_format_def cu_Inr split: if_splits)
    obtain ys where ys: "supported_formats d = Inr ys" "length ys \<le> 1" "(case ys of YStr f # _ \<Rightarrow> Some f | _ \<Rightarrow> None) = Some fmt"
      using f None nf f' by (auto simp: chosen_format_def cu_Inr)
    then have "ys = [YStr fmt]"
      by (auto split: list.splits yaml.splits)
    moreover obtain ds w w' where "cn_format_distributions (ce_conn E) fmt w = (Inr ds, w')" "length ds \<le> 1" "list_item ds 0 = Inr dist"
      using d None by (auto simp: chosen_distribution_def cu_Inr)
    moreover from this have "ds = [dist]"
      by (cases ds) (auto simp: list_item_def)
    ultimately show ?thesis
      using ys None nf by auto
  qed
  then show ?thesis
    using ok by blast
qed

section \<open>Builds\<close>

lemma option_or_pref_Inr:
  "option_or_pref opt pref m u = (Inr v, u') \<Longrightarrow> u' = u \<and> (opt = Some v \<or> opt = None \<and> pref = Some v)"
  by (auto simp: option_or_pref_def cu_Inr split: option.splits)

lemma exit_on_runtime_Inr: "exit_on_runtime m u = (Inr x, u') \<longleftrightarrow> m u = (Inr x, u')"
  by (auto simp: exit_on_runtime_def scatch_def cu_exit_def slift_def split: prod.splits sum.splits if_splits)

lemma submitted:
  assumes "submit_task n E caller name True i u = (Inr x, u')"
  obtains task_id w where "caller (cu_world u) = (Inr task_id, w)" "cu_world u' = w"
    "cu_out u' = cu_out u @ [''Submitted '' @ name @ '' task '' @ task_id]"
  using assms by (auto simp: submit_task_def cu_Inr cu_say_def say_def smodify_def)

lemma build_done:
  assumes "client_build C b srcs d = (Inr x, d')"
  obtains i t f where "dict_get (ds_instances d) (co_instance C) = Some i"
    "dict_get (ds_instances d') (co_instance C) = Some (i\<lparr>si_tasks := (si_tasks i)\<lparr>tm_queue := QueueManager_put t (tm_queue (si_tasks i)),
       tm_state_file := f\<rparr>\<rparr>)" "qt_id t = x" "rt_user t = PStr (snd (pe_user (co_env C) (co_sender C)))"
    "rt_name t = ''artifact build''" "same_build b (rt_attrs t)"
proof -
  let ?user = "snd (pe_user (co_env C) (co_sender C))"
  let ?W = "undefined\<lparr>we_user := ?user\<rparr> :: web_env"
  have "submit_build ?W C ?user b srcs d = (Inr x, d')"
    using assms by (simp add: submit_build_def)
  then show thesis
  proof (rule submit_build_done)
    fix i t f srcs dvs
    assume *: "dict_get (ds_instances d) (co_instance C) = Some i" "rt_user t = PStr ?user" "qt_id t = x"
      "dict_get (ds_instances d') (co_instance C) = Some (i\<lparr>si_tasks := (si_tasks i)\<lparr>tm_queue := QueueManager_put t (tm_queue (si_tasks i)),
         tm_state_file := f\<rparr>\<rparr>)" "rt_name t = ''artifact build''" "\<exists>io. rt_attrs t = (''io'', io) # build_attrs b srcs dvs"
    then have "same_build b (rt_attrs t)"
      by (auto simp: same_build_def build_attrs_def)
    with * that show thesis by blast
  qed simp
qed

text \<open>C3. What a build that is submitted in the background through the D-Bus service has to do with the
  command: the server that the command ends with is the one it found with a new task at the end of
  the queue of the instance; it is a build by the user of the connection, of the artifact and the
  derivative of the options, in the format, the distribution and with the texts that the options,
  or else the preferences, tell; and the identifier that is printed last is the one of this
  task.\<close>

theorem ctl_build_carried:
  assumes "run_build n E a u = (Inr x, u')" and "ce_conn E = bus_conn C step1 step2 render attach"
    and "op_batch a" and "\<not> op_interactive a"
  shows "\<exists>i t f b. dict_get (ds_instances (cu_world u)) (co_instance C) = Some i
    \<and> dict_get (ds_instances (cu_world u')) (co_instance C) = Some (i\<lparr>si_tasks := (si_tasks i)\<lparr>
        tm_queue := QueueManager_put t (tm_queue (si_tasks i)), tm_state_file := f\<rparr>\<rparr>)
    \<and> rt_user t = PStr (snd (pe_user (co_env C) (co_sender C))) \<and> rt_name t = ''artifact build'' \<and> same_build b (rt_attrs t)
    \<and> op_artifact a = Some (ba_artifact b) \<and> ba_derivative b = op_derivative a
    \<and> (truthy (op_distribution a) \<noteq> None \<longrightarrow> truthy (op_distribution a) = Some (ba_distribution b))
    \<and> (truthy (op_format a) \<noteq> None \<longrightarrow> truthy (op_format a) = Some (ba_format b))
    \<and> (op_name a = Some (ba_author b) \<or> op_name a = None \<and> up_user_name (ce_prefs E) = Some (ba_author b))
    \<and> (op_email a = Some (ba_email b) \<or> op_email a = None \<and> up_user_email (ce_prefs E) = Some (ba_email b))
    \<and> (op_msg a = Some (ba_message b) \<or> op_msg a = None \<and> up_message (ce_prefs E) = Some (ba_message b))
    \<and> List.last (cu_out u') = ''Submitted '' @ ba_artifact b @ '' build task '' @ qt_id t"
proof -
  let ?c = "ce_conn E"
  obtain apath v1 artifact v2 d v3 name v4 email v5 msg v6 fmt dist v7 archs0 v8 archs v9 base v10 sources v11 tarball v12 where
    1: "get_apath E a u = (Inr apath, v1)" and 2: "op_artifact a = Some artifact" "v2 = v1"
    and 3: "cu_ask (\<lambda>u. ArtifactDefs (ce_libs E) GenericDefs apath artifact [] (cu_files u)) v2 = (Inr d, v3)"
    and 4: "get_user_name E a v3 = (Inr name, v4)" and 5: "get_user_email E a v4 = (Inr email, v5)"
    and 6: "get_message E a v5 = (Inr msg, v6)" and 7: "get_format_distribution E d a v6 = (Inr (fmt, dist), v7)"
    and 8: "cu_conn (cn_architectures ?c) v7 = (Inr archs0, v8)"
    and 9: "selected_architectures E apath artifact fmt archs0 v8 = (Inr archs, v9)"
    and 10: "tarballs_base E True v9 = (Inr base, v10)"
    and 11: "build_local_sources E d artifact (op_derivative a) base (op_include_untracked a) [] (op_sources a) v10 = (Inr sources, v11)"
    and 12: "prepare_tarball E apath base v11 = (Inr tarball, v12)"
    and 13: "submit_task n E (cn_build ?c \<lparr>ba_format = fmt, ba_distribution = dist, ba_architectures = archs,
            ba_derivative = op_derivative a, ba_artifact = artifact, ba_author = name, ba_email = email, ba_message = msg,
            ba_tarball = path_str tarball, ba_sources = [], ba_interactive = False\<rparr> (map source_obj sources))
          (artifact @ '' build'') True False v12 = (Inr x, u')"
    using assms
    unfolding run_build_def Let_def sbind_Inr_conv exit_on_runtime_Inr required_Inr case_prod_unfold
    by auto
  have k: "server_kept u v12"
    using keepingD [OF quiet_values(1) 1] 2(2) keepingD [OF quiet_basic(3) 3] keepingD [OF quiet_values(2) 4]
      keepingD [OF quiet_values(3) 5] keepingD [OF quiet_values(4) 6] keepingD [OF quiet_format [OF assms(2)] 7]
      keepingD [OF quiet_reads(2) 8 [unfolded assms(2), simplified]] keepingD [OF quiet_architectures 9]
      keepingD [OF quiet_tar(1) 10] keepingD [OF quiet_sources 11] keepingD [OF quiet_tar(3) 12]
    by (simp add: server_kept_def)
  let ?b = "\<lparr>ba_format = fmt, ba_distribution = dist, ba_architectures = archs, ba_derivative = op_derivative a,
     ba_artifact = artifact, ba_author = name, ba_email = email, ba_message = msg,
     ba_tarball = path_str tarball, ba_sources = [], ba_interactive = False\<rparr>"
  obtain task_id w where made: "client_build C ?b (map source_obj sources) (cu_world v12) = (Inr task_id, w)"
    and out: "cu_world u' = w" "cu_out u' = cu_out v12 @ [''Submitted '' @ (artifact @ '' build'') @ '' task '' @ task_id]"
    using submitted [OF 13] assms(2) by auto
  obtain i t f where task: "dict_get (ds_instances (cu_world v12)) (co_instance C) = Some i"
    "dict_get (ds_instances w) (co_instance C) = Some (i\<lparr>si_tasks := (si_tasks i)\<lparr>tm_queue := QueueManager_put t (tm_queue (si_tasks i)),
       tm_state_file := f\<rparr>\<rparr>)" "qt_id t = task_id" "rt_user t = PStr (snd (pe_user (co_env C) (co_sender C)))"
    "rt_name t = ''artifact build''" "same_build ?b (rt_attrs t)"
    by (rule build_done [OF made])
  have names: "op_name a = Some name \<or> op_name a = None \<and> up_user_name (ce_prefs E) = Some name"
    "op_email a = Some email \<or> op_email a = None \<and> up_user_email (ce_prefs E) = Some email"
    "op_msg a = Some msg \<or> op_msg a = None \<and> up_message (ce_prefs E) = Some msg"
    using option_or_pref_Inr 4 5 6 unfolding get_user_name_def get_user_email_def get_message_def by blast+
  have pair: "truthy (op_distribution a) \<noteq> None \<longrightarrow> truthy (op_distribution a) = Some dist"
    "truthy (op_format a) \<noteq> None \<longrightarrow> truthy (op_format a) = Some fmt"
    using format_distribution_Inr [OF 7] by (auto simp: truthy_def split: option.splits if_splits)
  show ?thesis
    by (rule exI [of _ i], rule exI [of _ t], rule exI [of _ f], rule exI [of _ ?b])
      (use task out k names pair 2(1) in \<open>simp add: server_kept_def\<close>)
qed

section \<open>Archives of local sources\<close>

lemma map_of_filtered:
  "map_of (map (\<lambda>(x, n). (x, g x n)) (filter (\<lambda>(x, n). P x) es)) y = (if P y then map_option (g y) (map_of es y) else None)"
  by (induction es) auto

definition passes :: "(string \<Rightarrow> bool) \<Rightarrow> path \<Rightarrow> path \<Rightarrow> bool" where
  "passes keep p q \<longleftrightarrow> (\<forall>k < length q. keep (str_join ''/'' (p @ take (Suc k) q)))"

lemma passes_Cons: "passes keep p (x # q) \<longleftrightarrow> keep (str_join ''/'' (p @ [x])) \<and> passes keep (p @ [x]) q"
proof
  assume a: "passes keep p (x # q)"
  then have "keep (str_join ''/'' (p @ [x]))"
    unfolding passes_def by (metis length_Cons take_Suc_Cons take_0 zero_less_Suc)
  moreover have "passes keep (p @ [x]) q"
    unfolding passes_def
  proof (intro allI impI)
    fix k assume "k < length q"
    then show "keep (str_join ''/'' ((p @ [x]) @ take (Suc k) q))"
      using a [unfolded passes_def, rule_format, of "Suc k"] by simp
  qed
  ultimately show "keep (str_join ''/'' (p @ [x])) \<and> passes keep (p @ [x]) q" by simp
next
  assume a: "keep (str_join ''/'' (p @ [x])) \<and> passes keep (p @ [x]) q"
  show "passes keep p (x # q)"
    unfolding passes_def
  proof (intro allI impI)
    fix k assume "k < length (x # q)"
    then show "keep (str_join ''/'' (p @ take (Suc k) (x # q)))"
      using a by (cases k) (auto simp: passes_def)
  qed
qed


section \<open>Deletions\<close>


section \<open>Watches\<close>

text \<open>C30. A watch ends as soon as a poll finds the task started: with a fuel above the number of the
  polls that find it pending, the answer is the task of that poll.\<close>

theorem watch_ends:
  assumes "\<And>j. j < k \<Longrightarrow> cn_get (ce_conn E) task_id (ws j) = (Inr (ts (Suc j)), ws (Suc j))"
    and "\<And>j. j < k \<Longrightarrow> getattr (ts j) ''state'' = Inr (PStr ''pending'')"
    and "getattr (ts k) ''state'' = Inr st" and "st \<noteq> PStr ''pending''" and "k < n" and "cu_world u = ws 0"
  shows "wait_task n E task_id (ts 0) u = (Inr (Some (ts k)), u\<lparr>cu_world := ws k\<rparr>)"
  using assms
proof (induction k arbitrary: n ws ts u)
  case 0
  then obtain m where "n = Suc m" by (cases n) auto
  then show ?case
    using 0 by (simp add: sbind_def slift_def sret_def)
next
  case (Suc k)
  then obtain m where m: "n = Suc m" "k < m" by (cases n) auto
  have get: "cn_get (ce_conn E) task_id (ws 0) = (Inr (ts 1), ws 1)" "getattr (ts 0) ''state'' = Inr (PStr ''pending'')"
    using Suc.prems(1,2) [of 0] by simp_all
  have "wait_task m E task_id (ts (Suc 0)) (u\<lparr>cu_world := ws (Suc 0)\<rparr>) = (Inr (Some (ts (Suc k))), u\<lparr>cu_world := ws (Suc k)\<rparr>)"
    using Suc.IH [of "\<lambda>j. ws (Suc j)" "\<lambda>j. ts (Suc j)" m "u\<lparr>cu_world := ws (Suc 0)\<rparr>"] Suc.prems(1-4) m by simp
  then show ?case
    using get Suc.prems(6) m by (simp add: sbind_def slift_def cu_conn_def)
qed

section \<open>Examples\<close>

definition example_ctl_libs :: build_libs where
  "example_ctl_libs = demo_libs\<lparr>lib_load := (\<lambda>_. Inr (YMap [(YStr ''version'', YStr ''1.0''), (YStr ''deb'', YMap [])]))\<rparr>"

definition example_connection :: connection where
  "example_connection = \<lparr>co_env = example_bus\<lparr>pe_set_order := (\<lambda>s. filter (\<lambda>x. x \<in> s) [''deb'', ''osi'', ''rpm''])\<rparr>, co_now = 7, co_sender = '':1.1'', co_instance = ''default''\<rparr>"

definition example_ctl :: "dbus_server ctl_env" where
  "example_ctl = \<lparr>ce_conn = bus_conn example_connection (\<lambda>s. s) (\<lambda>s. s) (\<lambda>_. sret ()) (\<lambda>_. sret ()),
     ce_prefs = \<lparr>up_user_name = Some ''Ann'', up_user_email = Some ''ann@x'', up_uri = None, up_basedir = Some ''defs'',
       up_message = None, up_tokens_dir = ''tokens'', up_commit_template = []\<rparr>,
     ce_uri_env = None, ce_term = ''xterm'', ce_stdin = [],
     ce_texts = \<lparr>wt_iso = (\<lambda>_. []), wt_repr = (\<lambda>_. []), wt_shlex_join = str_join '' ''\<rparr>, ce_libs = example_ctl_libs,
     ce_jwt = \<lparr>jw_encode = (\<lambda>_ _ _. []), jw_decode = (\<lambda>_ _ _ _ _. undefined), jw_peek = (\<lambda>_. None)\<rparr>,
     ce_cwd = [''home''], ce_tempdir = [''tmp''], ce_candidate = ''x1'', ce_mktar = (\<lambda>_ _. ''tar''), ce_ignored = (\<lambda>_ _. False),
     ce_pq_run = (\<lambda>_. sret ())\<rparr>"

definition example_options :: ctl_args where
  "example_options = \<lparr>op_operation = [], op_uri = None, op_format = None, op_distribution = Some ''sid'',
     op_architecture = None, op_derivative = ''main'', op_artifact = Some ''foo'', op_batch = True, op_force = False,
     op_interactive = False, op_include_untracked = False, op_command = [], op_duration = None, op_basedir = None,
     op_subdir = None, op_name = None, op_email = Some ''bob@x'', op_msg = Some ''fix'', op_sources = [], op_task = None\<rparr>"

definition example_ctl_state :: "dbus_server ctl" where
  "example_ctl_state = \<lparr>cu_world = example_server, cu_files = Dir [(''run'', Dir [(''fatbuildr'', Dir [])]),
     (''home'', Dir [(''defs'', Dir [(''foo'', Dir [(''artifact.yml'', File ''v''),
        (''deb'', Dir [(''control'', File ''Architecture: any'')])])])])], cu_out = []\<rparr>"

lemma example_build_sent: "fst (run_build 5 example_ctl example_options example_ctl_state) = Inr True"
  by code_simp

theorem ctl_build_carried_witness:
  "\<exists>u' i t. run_build 5 example_ctl example_options example_ctl_state = (Inr True, u')
    \<and> dict_get (ds_instances (cu_world u')) ''default'' = Some i \<and> qm_queue (tm_queue (si_tasks i)) = [t]
    \<and> rt_user t = PStr ''root'' \<and> rt_name t = ''artifact build''
    \<and> List.last (cu_out u') = ''Submitted foo build task '' @ qt_id t"
proof -
  obtain u' where u': "run_build 5 example_ctl example_options example_ctl_state = (Inr True, u')"
    using example_build_sent by (metis prod.collapse)
  have "dict_get (ds_instances (cu_world example_ctl_state)) ''default'' = Some example_instance"
    using example_get by (simp add: example_ctl_state_def)
  moreover have "qm_queue (tm_queue (si_tasks example_instance)) = []"
    by (simp add: example_instance_def demo_state_def QueueManager_init_def)
  moreover have conn: "ce_conn example_ctl = bus_conn example_connection (\<lambda>s. s) (\<lambda>s. s) (\<lambda>_. sret ()) (\<lambda>_. sret ())"
    unfolding example_ctl_def by simp
  moreover have plain: "op_batch example_options" "\<not> op_interactive example_options"
    by (simp_all add: example_options_def)
  moreover have "co_instance example_connection = ''default''" "op_artifact example_options = Some ''foo''"
    "snd (pe_user (co_env example_connection) (co_sender example_connection)) = ''root''"
    by (simp_all add: example_options_def example_connection_def example_bus_def)
  ultimately show ?thesis
    using ctl_build_carried [OF u' conn plain] u' unfolding QueueManager_put_def by (elim exE conjE) simp
qed

theorem format_alone_refused_witness:
  "get_format_distribution example_ctl demo_defs (example_options\<lparr>op_distribution := None, op_format := Some ''rpm''\<rparr>)
     example_ctl_state = (Inl (SystemExit 1), example_ctl_state)"
  by (rule format_alone_refused) (simp_all add: truthy_def example_options_def)


text \<open>A server that counts its reads, of which the third finds the task started.\<close>

definition counting :: "nat ctl_env" where
  "counting = \<lparr>ce_conn = undefined\<lparr>cn_get := (\<lambda>i k. (Inr [(''state'', PStr (if k < 2 then ''pending'' else ''running''))], Suc k))\<rparr>,
     ce_prefs = ce_prefs example_ctl, ce_uri_env = None, ce_term = [], ce_stdin = [], ce_texts = ce_texts example_ctl,
     ce_libs = demo_libs, ce_jwt = ce_jwt example_ctl, ce_cwd = [], ce_tempdir = [], ce_candidate = [], ce_mktar = (\<lambda>_ _. []),
     ce_ignored = (\<lambda>_ _. False), ce_pq_run = (\<lambda>_. sret ())\<rparr>"

theorem watch_ends_witness:
  "wait_task 3 counting ''t1'' [(''state'', PStr ''pending'')] \<lparr>cu_world = 1, cu_files = Dir [], cu_out = []\<rparr> =
     (Inr (Some [(''state'', PStr ''running'')]), \<lparr>cu_world = 3, cu_files = Dir [], cu_out = []\<rparr>)"
  using watch_ends [of 2 counting "''t1''" Suc "\<lambda>j. [(''state'', PStr (if j < 2 then ''pending'' else ''running''))]"
      "PStr ''running''" 3 "\<lparr>cu_world = 1, cu_files = Dir [], cu_out = []\<rparr>"]
  by (simp add: counting_def getattr_def)

end
