(* ===== verification/Logging.thy ===== *)
theory Logging imports Dispatch begin

text \<open>
  \<^verbatim>\<open>fatbuildr/log/\<close>: the root logger with its handlers, the filter on threads that keeps the logs of
  tasks apart, the formatters, and \<^verbatim>\<open>emit_log\<close>, which frames an entry for the console. The part of the
  standard module \<^verbatim>\<open>logging\<close> that decides which handler gets a record is in \<open>handle_record\<close>. A handler
  is an object that is known by a key; records have no exception attached.
\<close>

section \<open>Levels and styles\<close>

definition CRITICAL :: int where "CRITICAL = 50"
definition ERROR :: int where "ERROR = 40"
definition WARNING :: int where "WARNING = 30"
definition INFO :: int where "INFO = 20"
definition DEBUG :: int where "DEBUG = 10"
definition NOTSET :: int where "NOTSET = 0"
definition TASK_LOG :: int where "TASK_LOG = 99"

lemmas level_defs = CRITICAL_def ERROR_def WARNING_def INFO_def DEBUG_def NOTSET_def TASK_LOG_def

definition level_names :: "(int, string) dict" where
  "level_names = [(CRITICAL, ''CRITICAL''), (ERROR, ''ERROR''), (WARNING, ''WARNING''), (INFO, ''INFO''),
     (DEBUG, ''DEBUG''), (NOTSET, ''NOTSET'')]"

definition getLevelName :: "int \<Rightarrow> string" where
  "getLevelName l = (case dict_get level_names l of Some n \<Rightarrow> n | None \<Rightarrow> ''Level '' @ int_str l)"

record ansi_style =
  as_fg :: nat
  as_bg :: "nat option"

definition style_start :: "ansi_style \<Rightarrow> string" where
  "style_start s =
     (case as_bg s of None \<Rightarrow> [] | Some b \<Rightarrow> [CHR 0x1B] @ ''[48;5;'' @ nat_str b @ ''m'')
     @ [CHR 0x1B] @ ''[38;5;'' @ nat_str (as_fg s) @ ''m''"

definition style_end :: string where
  "style_end = [CHR 0x1B] @ ''[0;0m''"

definition LOG_LEVEL_ANSI_STYLES :: "(int, ansi_style) dict" where
  "LOG_LEVEL_ANSI_STYLES =
     [(CRITICAL, \<lparr>as_fg = 15, as_bg = Some 160\<rparr>), (ERROR, \<lparr>as_fg = 160, as_bg = None\<rparr>),
      (WARNING, \<lparr>as_fg = 208, as_bg = None\<rparr>), (INFO, \<lparr>as_fg = 28, as_bg = None\<rparr>), (DEBUG, \<lparr>as_fg = 62, as_bg = None\<rparr>),
      (NOTSET, \<lparr>as_fg = 8, as_bg = None\<rparr>), (TASK_LOG, \<lparr>as_fg = 242, as_bg = None\<rparr>)]"

section \<open>Records and formatters\<close>

record log_record =
  lr_name :: string
  lr_levelno :: int
  lr_msg :: string
  lr_lineno :: nat
  lr_thread :: string

datatype log_formatter = TTYFormatter bool | DaemonFormatter bool | ConsoleFormatter

text \<open>The format specification \<^verbatim>\<open>:ns\<close>.\<close>

definition pad_right :: "nat \<Rightarrow> string \<Rightarrow> string" where
  "pad_right n s = s @ replicate (n - length s) CHR '' ''"

definition tty_prefix :: "bool \<Rightarrow> log_record \<Rightarrow> string" where
  "tty_prefix debug r =
     (let level = getLevelName (lr_levelno r) in
      if debug
      then pad_right 8 ([CHR 0x5B] @ level @ [CHR 0x5D]) @ [CHR 0xE2, CHR 0xB8, CHR 0xAC]
        @ pad_right 30 (lr_name r @ '':'' @ nat_str (lr_lineno r)) @ '' '' @ [CHR 0xE2, CHR 0x86, CHR 0xA6] @ '' ''
      else if INFO < lr_levelno r then level @ '' '' @ [CHR 0xE2, CHR 0xB8, CHR 0xAC] @ '' ''
      else [])"

fun log_format :: "log_formatter \<Rightarrow> log_record \<Rightarrow> string res" where
  "log_format (TTYFormatter debug) r =
     rmap (\<lambda>style. style_start style @ tty_prefix debug r @ lr_msg r @ style_end)
       (dict_item LOG_LEVEL_ANSI_STYLES (lr_levelno r))"
| "log_format (DaemonFormatter debug) r =
     Inr (lr_thread r @ '': ['' @ getLevelName (lr_levelno r) @ ''] '' @ (if debug then lr_name r @ '' '' else []) @ lr_msg r)"
| "log_format ConsoleFormatter r = Inr (int_str (lr_levelno r) @ '':'' @ lr_msg r)"

text \<open>\<^verbatim>\<open>Log.formatter\<close>.\<close>

definition module_formatter :: "string \<Rightarrow> bool \<Rightarrow> log_formatter res" where
  "module_formatter name debug =
     (if name \<in> {''fatbuildr.cli.fatbuildrd'', ''fatbuildr.cli.fatbuildrweb'', ''fatbuildr.wsgi''} then Inr (DaemonFormatter debug)
      else if name = ''fatbuildr.cli.fatbuildrctl'' then Inr (TTYFormatter debug)
      else Inl RuntimeErr)"

section \<open>Handlers\<close>

datatype log_filter = NameFilter string | ThreadFilter string

fun filter_passes :: "log_filter \<Rightarrow> log_record \<Rightarrow> bool" where
  "filter_passes (NameFilter n) r \<longleftrightarrow> lr_name r = n \<or> startswith (lr_name r) (n @ ''.'')"
| "filter_passes (ThreadFilter t) r \<longleftrightarrow> lr_thread r = t"

text \<open>What a handler does with an entry: the standard stream gets the line, the console of a task the
  framed message, in the pipe of its logs.\<close>

datatype log_sink = StreamSink | ConsoleSink

record log_handler =
  hd_sink :: log_sink
  hd_level :: int
  hd_filters :: "log_filter list"
  hd_formatter :: log_formatter
  hd_written :: string

record root_logger =
  lg_level :: int
  lg_handlers :: "nat list"
  lg_objects :: "nat \<Rightarrow> log_handler"

definition StreamHandler :: log_handler where
  "StreamHandler = \<lparr>hd_sink = StreamSink, hd_level = NOTSET, hd_filters = [], hd_formatter = ConsoleFormatter, hd_written = []\<rparr>"

text \<open>\<^verbatim>\<open>RemoteConsoleHandler(fd)\<close> with its formatter, as \<^verbatim>\<open>TaskIO.plug_logger\<close> makes it.\<close>

definition RemoteConsoleHandler :: log_handler where
  "RemoteConsoleHandler = \<lparr>hd_sink = ConsoleSink, hd_level = NOTSET, hd_filters = [], hd_formatter = ConsoleFormatter, hd_written = []\<rparr>"

definition emit_log :: "string \<Rightarrow> string res" where
  "emit_log entry = raw (ConsoleMessage CMD_LOG (Some entry))"

text \<open>\<^verbatim>\<open>emit\<close>: an error of the formatting is reported by \<^verbatim>\<open>handleError\<close>, which does not raise.\<close>

definition handler_emit :: "log_record \<Rightarrow> log_handler \<Rightarrow> log_handler" where
  "handler_emit r h =
     (case rbind (log_format (hd_formatter h) r) (case hd_sink h of
              StreamSink \<Rightarrow> (\<lambda>line. Inr (line @ [CHR 0x0A])) | ConsoleSink \<Rightarrow> emit_log) of
        Inl e \<Rightarrow> h
      | Inr out \<Rightarrow> h\<lparr>hd_written := hd_written h @ out\<rparr>)"

definition handler_takes :: "log_record \<Rightarrow> log_handler \<Rightarrow> bool" where
  "handler_takes r h \<longleftrightarrow> hd_level h \<le> lr_levelno r \<and> list_all (\<lambda>f. filter_passes f r) (hd_filters h)"

fun emit_all :: "log_record \<Rightarrow> nat list \<Rightarrow> (nat \<Rightarrow> log_handler) \<Rightarrow> nat \<Rightarrow> log_handler" where
  "emit_all r [] objs = objs"
| "emit_all r (k # ks) objs =
     emit_all r ks (if handler_takes r (objs k) then objs(k := handler_emit r (objs k)) else objs)"

definition handle_record :: "log_record \<Rightarrow> root_logger \<Rightarrow> root_logger" where
  "handle_record r g =
     (if lg_level g \<le> lr_levelno r then g\<lparr>lg_objects := emit_all r (lg_handlers g) (lg_objects g)\<rparr> else g)"

section \<open>The root logger\<close>

definition addHandler :: "nat \<Rightarrow> root_logger \<Rightarrow> root_logger" where
  "addHandler k g = g\<lparr>lg_handlers := add_new k (lg_handlers g)\<rparr>"

definition removeHandler :: "nat \<Rightarrow> root_logger \<Rightarrow> root_logger" where
  "removeHandler k g = g\<lparr>lg_handlers := remove1 k (lg_handlers g)\<rparr>"

definition set_object :: "nat \<Rightarrow> (log_handler \<Rightarrow> log_handler) \<Rightarrow> root_logger \<Rightarrow> root_logger" where
  "set_object k f g = g\<lparr>lg_objects := (lg_objects g)(k := f (lg_objects g k))\<rparr>"

text \<open>\<^verbatim>\<open>Log.setup\<close>, where the new handler gets the key \<open>k\<close>.\<close>

definition log_setup :: "string \<Rightarrow> nat \<Rightarrow> bool \<Rightarrow> bool \<Rightarrow> root_logger \<Rightarrow> root_logger res" where
  "log_setup name k debug fulldebug g =
     (let level = (if debug then DEBUG else INFO) in
      rmap (\<lambda>fmt. addHandler k (set_object k (\<lambda>_. StreamHandler\<lparr>hd_level := level, hd_formatter := fmt,
               hd_filters := (if fulldebug then [] else [NameFilter ''fatbuildr''])\<rparr>) (g\<lparr>lg_level := level\<rparr>)))
        (module_formatter name debug))"

definition ensure_debug :: "string \<Rightarrow> root_logger \<Rightarrow> root_logger res" where
  "ensure_debug name g =
     (if lg_level g \<le> DEBUG then Inr g
      else rmap (\<lambda>fmt. (fold (\<lambda>k. set_object k (\<lambda>h. h\<lparr>hd_level := DEBUG, hd_formatter := fmt\<rparr>)) (lg_handlers g)
             (g\<lparr>lg_level := DEBUG\<rparr>))) (module_formatter name True))"

text \<open>A loop that removes each element it meets from the list it goes through: the next position then
  holds the element after the next.\<close>

function drop_met :: "nat \<Rightarrow> 'a list \<Rightarrow> 'a list" where
  "drop_met i xs = (if i < length xs then drop_met (Suc i) (take i xs @ drop (Suc i) xs) else xs)"
  by auto

termination
  by (relation "measure (\<lambda>(i, xs). length xs - i)") auto

declare drop_met.simps [simp del]

definition ensure_fulldebug :: "root_logger \<Rightarrow> root_logger" where
  "ensure_fulldebug g = fold (\<lambda>k. set_object k (\<lambda>h. h\<lparr>hd_filters := drop_met 0 (hd_filters h)\<rparr>)) (lg_handlers g) g"

definition add_thread_handler :: "nat \<Rightarrow> string \<Rightarrow> root_logger \<Rightarrow> root_logger" where
  "add_thread_handler k thread g =
     addHandler k (set_object k (\<lambda>h. h\<lparr>hd_filters := hd_filters h @ [ThreadFilter thread]\<rparr>) g)"

definition remove_handler :: "nat \<Rightarrow> root_logger \<Rightarrow> root_logger" where
  "remove_handler = removeHandler"

definition mute_handler :: "nat \<Rightarrow> root_logger \<Rightarrow> root_logger" where
  "mute_handler = removeHandler"

definition unmute_handler :: "nat \<Rightarrow> root_logger \<Rightarrow> root_logger" where
  "unmute_handler = addHandler"

text \<open>The part that tasks have in it, as \<^verbatim>\<open>TaskIO\<close> calls it, and the records that threads log.\<close>

datatype log_op = PlugLogger nat string | UnplugLogger nat | MuteLog nat | UnmuteLog nat | LogRecord log_record

fun log_op_step :: "log_op \<Rightarrow> root_logger \<Rightarrow> root_logger" where
  "log_op_step (PlugLogger k thread) g = add_thread_handler k thread (set_object k (\<lambda>_. RemoteConsoleHandler) g)"
| "log_op_step (UnplugLogger k) g = remove_handler k g"
| "log_op_step (MuteLog k) g = mute_handler k g"
| "log_op_step (UnmuteLog k) g = unmute_handler k g"
| "log_op_step (LogRecord r) g = handle_record r g"

definition log_run :: "log_op list \<Rightarrow> root_logger \<Rightarrow> root_logger" where
  "log_run ops g = fold log_op_step ops g"

end
