(* ===== verification/LoggingSafety.thy ===== *)
theory LoggingSafety imports Logging begin

text \<open>
  What a console gets from the logs: the entries of its own task, in their order, between the plugging
  and the unplugging of its handler and not while it is muted; and the loop that should remove
  all filters.
\<close>

section \<open>One handler among others\<close>

definition console_entry :: "log_record \<Rightarrow> string" where
  "console_entry r = int_str (lr_levelno r) @ '':'' @ lr_msg r"

definition log_message :: "log_record \<Rightarrow> console_message" where
  "log_message r = ConsoleMessage CMD_LOG (Some (console_entry r))"

text \<open>An entry of more than four gigabytes does not fit the header of a message.\<close>

definition entry_fits :: "log_record \<Rightarrow> bool" where
  "entry_fits r \<longleftrightarrow> length (console_entry r) < 2 ^ 32"

lemma console_format: "log_format ConsoleFormatter r = Inr (console_entry r)"
  by (simp add: console_entry_def)

lemma log_message_wf: "entry_fits r \<Longrightarrow> wf_message (log_message r)"
  by (simp add: entry_fits_def log_message_def wf_message_def ConsoleMessage_def cm_size_def data_bytes_def CMD_LOG_def console_entry_def)

lemma emit_log_frame: "entry_fits r \<Longrightarrow> emit_log (console_entry r) = Inr (frame (log_message r))"
  using raw_frame [OF log_message_wf] by (simp add: emit_log_def log_message_def)

text \<open>The handler of the console of a task, and what else it has not.\<close>

definition task_handler :: "string \<Rightarrow> string \<Rightarrow> log_handler" where
  "task_handler thread out = RemoteConsoleHandler\<lparr>hd_filters := [ThreadFilter thread], hd_written := out\<rparr>"

lemma task_handler_takes: "handler_takes r (task_handler t out) \<longleftrightarrow> 0 \<le> lr_levelno r \<and> lr_thread r = t"
  by (simp add: handler_takes_def task_handler_def RemoteConsoleHandler_def NOTSET_def)

lemma task_handler_emit:
  "entry_fits r \<Longrightarrow> handler_emit r (task_handler t out) = task_handler t (out @ frame (log_message r))"
  by (simp add: handler_emit_def task_handler_def RemoteConsoleHandler_def console_format emit_log_frame
      del: log_format.simps)

lemma emit_all_one:
  "distinct ks \<Longrightarrow> emit_all r ks objs k = (if k \<in> set ks \<and> handler_takes r (objs k) then handler_emit r (objs k) else objs k)"
  by (induction ks arbitrary: objs) auto

text \<open>The records that the console of a thread shows: the flag tells whether its handler is attached.\<close>

fun log_view :: "nat \<Rightarrow> string \<Rightarrow> int \<Rightarrow> bool \<Rightarrow> log_op list \<Rightarrow> log_record list" where
  "log_view k t level on [] = []"
| "log_view k t level on (LogRecord r # ops) =
     (if on \<and> level \<le> lr_levelno r \<and> lr_thread r = t then [r] else []) @ log_view k t level on ops"
| "log_view k t level on (MuteLog j # ops) = log_view k t level (on \<and> j \<noteq> k) ops"
| "log_view k t level on (UnplugLogger j # ops) = log_view k t level (on \<and> j \<noteq> k) ops"
| "log_view k t level on (UnmuteLog j # ops) = log_view k t level (on \<or> j = k) ops"
| "log_view k t level on (PlugLogger j s # ops) = log_view k t level on ops"

definition console_at :: "nat \<Rightarrow> string \<Rightarrow> int \<Rightarrow> bool \<Rightarrow> string \<Rightarrow> root_logger \<Rightarrow> bool" where
  "console_at k t level on out g \<longleftrightarrow> distinct (lg_handlers g) \<and> lg_level g = level \<and> (k \<in> set (lg_handlers g) \<longleftrightarrow> on)
     \<and> lg_objects g k = task_handler t out"

lemma frames_simps: "frames [] = []" "frames (m # ms) = frame m @ frames ms"
  by (simp_all add: frames_def)

lemma console_step:
  assumes "console_at k t level on out g" and "0 \<le> level"
    and "\<forall>s. x \<noteq> PlugLogger k s" and "\<forall>r. x = LogRecord r \<longrightarrow> entry_fits r"
  obtains on' out' where "console_at k t level on' out' (log_op_step x g)"
    "\<And>ops. out @ frames (map log_message (log_view k t level on (x # ops))) = out' @ frames (map log_message (log_view k t level on' ops))"
proof (cases x)
  case (PlugLogger j s)
  then show thesis
    using that [of on out] assms(1,3)
    by (simp add: console_at_def add_thread_handler_def addHandler_def set_object_def)
next
  case (UnplugLogger j)
  then show thesis
    using that [of "on \<and> j \<noteq> k" out] assms(1)
    by (auto simp: console_at_def remove_handler_def removeHandler_def)
next
  case (MuteLog j)
  then show thesis
    using that [of "on \<and> j \<noteq> k" out] assms(1)
    by (auto simp: console_at_def mute_handler_def removeHandler_def)
next
  case (UnmuteLog j)
  then show thesis
    using that [of "on \<or> j = k" out] assms(1)
    by (simp add: console_at_def unmute_handler_def addHandler_def) blast
next
  case (LogRecord r)
  have r: "entry_fits r" using assms(4) LogRecord by simp
  show thesis
  proof (cases "on \<and> level \<le> lr_levelno r \<and> lr_thread r = t")
    case True
    then have "console_at k t level on (out @ frame (log_message r)) (log_op_step x g)"
      using assms(1,2) LogRecord by (simp add: console_at_def handle_record_def emit_all_one task_handler_takes task_handler_emit [OF r])
    with True LogRecord show thesis
      using that [of on "out @ frame (log_message r)"] by (simp add: frames_simps)
  next
    case False
    then have "console_at k t level on out (log_op_step x g)"
      using assms(1) LogRecord by (auto simp: console_at_def handle_record_def emit_all_one task_handler_takes)
    moreover have "log_view k t level on (x # ops) = log_view k t level on ops" for ops
      using False LogRecord by auto
    ultimately show thesis
      using that [of on out] by simp
  qed
qed

lemma console_run:
  assumes "console_at k t level on out g" and "0 \<le> level"
    and "\<forall>s. PlugLogger k s \<notin> set ops" and "\<forall>r. LogRecord r \<in> set ops \<longrightarrow> entry_fits r"
  shows "hd_written (lg_objects (log_run ops g) k) = out @ frames (map log_message (log_view k t level on ops))"
  using assms
proof (induction ops arbitrary: on out g)
  case Nil
  then show ?case
    by (simp add: log_run_def console_at_def task_handler_def frames_simps RemoteConsoleHandler_def)
next
  case (Cons x ops)
  have "\<forall>s. x \<noteq> PlugLogger k s" "\<forall>r. x = LogRecord r \<longrightarrow> entry_fits r"
    using Cons.prems(3,4) by auto
  from console_step [OF Cons.prems(1,2) this] obtain on' out' where
    at: "console_at k t level on' out' (log_op_step x g)"
    and eq: "out @ frames (map log_message (log_view k t level on (x # ops)))
      = out' @ frames (map log_message (log_view k t level on' ops))"
    by metis
  have "hd_written (lg_objects (log_run ops (log_op_step x g)) k) = out' @ frames (map log_message (log_view k t level on' ops))"
    using Cons.IH [OF at Cons.prems(2)] Cons.prems(3,4) by simp
  then show ?case
    using eq by (simp add: log_run_def)
qed

text \<open>C19. The console of a task gets the entries that the thread of the task logs at the level of the
  program or above, framed and in their order, while its handler is attached and not muted: whatever
  the other threads log and whatever the handlers of the other tasks do.\<close>

theorem task_log_isolated:
  assumes "k \<notin> set (lg_handlers g)" and "distinct (lg_handlers g)" and "0 \<le> lg_level g"
    and "\<forall>s. PlugLogger k s \<notin> set ops" and "\<forall>r. LogRecord r \<in> set ops \<longrightarrow> entry_fits r"
  shows "hd_written (lg_objects (log_run (PlugLogger k thread # ops) g) k) =
    frames (map log_message (log_view k thread (lg_level g) True ops))"
proof -
  have "console_at k thread (lg_level g) True [] (log_op_step (PlugLogger k thread) g)"
    using assms(1,2)
    by (simp add: console_at_def add_thread_handler_def addHandler_def set_object_def task_handler_def RemoteConsoleHandler_def)
  from console_run [OF this assms(3-5)] show ?thesis
    by (simp add: log_run_def)
qed

section \<open>The loop that removes filters\<close>

text \<open>The elements at odd positions stay.\<close>

fun odd_ones :: "'a list \<Rightarrow> 'a list" where
  "odd_ones [] = []"
| "odd_ones [x] = []"
| "odd_ones (x # y # ys) = y # odd_ones ys"

lemma drop_met_app: "i = length xs \<Longrightarrow> drop_met i (xs @ ys) = xs @ odd_ones ys"
proof (induction ys arbitrary: i xs rule: odd_ones.induct)
  case (3 x y ys)
  have "drop_met i (xs @ x # y # ys) = drop_met (Suc i) ((xs @ [y]) @ ys)"
    using 3(2) by (subst drop_met.simps) simp
  also have "\<dots> = (xs @ [y]) @ odd_ones ys"
    using 3 by (intro "3.IH") simp
  finally show ?case by simp
qed (subst drop_met.simps, simp add: drop_met.simps)+

lemma drop_met_odd: "drop_met 0 xs = odd_ones xs"
  using drop_met_app [of 0 "[]" xs] by simp

text \<open>\<^verbatim>\<open>ensure_fulldebug\<close> lets every handler the second, the fourth filter, and so on: with the one filter
  that the set-up of the program gives it, a handler has none left, with two it keeps the second.\<close>

theorem fulldebug_keeps_odd:
  assumes "distinct (lg_handlers g)"
  shows "lg_objects (ensure_fulldebug g) k =
    (if k \<in> set (lg_handlers g) then (lg_objects g k)\<lparr>hd_filters := odd_ones (hd_filters (lg_objects g k))\<rparr> else lg_objects g k)"
proof -
  let ?f = "\<lambda>h :: log_handler. h\<lparr>hd_filters := drop_met 0 (hd_filters h)\<rparr>"
  have "lg_objects (fold (\<lambda>k. set_object k ?f) ks h) k = (if k \<in> set ks then ?f (lg_objects h k) else lg_objects h k)"
    if "distinct ks" for ks h
    using that by (induction ks arbitrary: h) (auto simp: set_object_def)
  then show ?thesis
    using assms by (simp add: ensure_fulldebug_def drop_met_odd)
qed

section \<open>Witnesses\<close>

definition demo_record :: "string \<Rightarrow> string \<Rightarrow> log_record" where
  "demo_record thread msg = \<lparr>lr_name = ''fatbuildr.tasks'', lr_levelno = INFO, lr_msg = msg, lr_lineno = 1, lr_thread = thread\<rparr>"

definition demo_root :: root_logger where
  "demo_root = \<lparr>lg_level = INFO, lg_handlers = [0], lg_objects = (\<lambda>_. StreamHandler)\<rparr>"

definition demo_logs :: "log_op list" where
  "demo_logs = [LogRecord (demo_record ''w1'' ''a''), LogRecord (demo_record ''w2'' ''other''), PlugLogger 2 ''w2'',
     MuteLog 1, LogRecord (demo_record ''w1'' ''hidden''), UnmuteLog 1, LogRecord (demo_record ''w2'' ''b''),
     LogRecord (demo_record ''w1'' ''Task succeeded''), UnplugLogger 1, LogRecord (demo_record ''w1'' ''late'')]"

theorem task_log_isolated_witness:
  "hd_written (lg_objects (log_run (PlugLogger 1 ''w1'' # demo_logs) demo_root) 1) =
     frames [ConsoleMessage CMD_LOG (Some ''20:a''), ConsoleMessage CMD_LOG (Some ''20:Task succeeded'')]"
proof -
  have "hd_written (lg_objects (log_run (PlugLogger 1 ''w1'' # demo_logs) demo_root) 1) =
      frames (map log_message (log_view 1 ''w1'' (lg_level demo_root) True demo_logs))"
    by (rule task_log_isolated)
      (auto simp: demo_root_def demo_logs_def demo_record_def level_defs entry_fits_def console_entry_def int_str_def nat_str.simps)
  also have "map log_message (log_view 1 ''w1'' (lg_level demo_root) True demo_logs) =
      [ConsoleMessage CMD_LOG (Some ''20:a''), ConsoleMessage CMD_LOG (Some ''20:Task succeeded'')]"
    by code_simp
  finally show ?thesis .
qed

theorem fulldebug_keeps_odd_witness:
  "hd_filters (lg_objects (ensure_fulldebug (demo_root\<lparr>lg_objects := (\<lambda>_. StreamHandler\<lparr>hd_filters :=
     [NameFilter ''fatbuildr'', ThreadFilter ''w1'']\<rparr>)\<rparr>)) 0) = [ThreadFilter ''w1'']"
  using fulldebug_keeps_odd [of "demo_root\<lparr>lg_objects := (\<lambda>_. StreamHandler\<lparr>hd_filters :=
     [NameFilter ''fatbuildr'', ThreadFilter ''w1'']\<rparr>)\<rparr>" 0]
  by (simp add: demo_root_def)

end
