(* ===== verification/Attach.thy ===== *)
theory Attach imports LoggingSafety begin

text \<open>
  The client of the console of a task in \<^verbatim>\<open>fatbuildr/console/client.py\<close>: what is printed of the messages,
  by \<^verbatim>\<open>tty_console_renderer\<close> for a task that is watched and by \<^verbatim>\<open>tty_client_console\<close> for one the terminal
  is attached to, with the settings of this terminal. The loop is a fold over the events that
  \<^verbatim>\<open>epoll\<close> delivers; the bytes of the socket come in segments, and what is sent is taken.
\<close>

declare tty_loop.simps [code del]

text \<open>The reads of the socket, segment by segment.\<close>

lemma tty_loop_segments [code]:
  "tty_loop n data [] = (if n \<le> length data then Some (data, []) else None)"
  "tty_loop n data (c # cs) =
     (if n \<le> length data then Some (data, c # cs)
      else if n - length data < length c then Some (data @ take (n - length data) c, drop (n - length data) c # cs)
      else tty_loop n (data @ c) cs)"
proof -
  show "tty_loop n data [] = (if n \<le> length data then Some (data, []) else None)"
  proof (cases "n \<le> length data")
    case True
    then show ?thesis by (subst tty_loop.simps) simp
  next
    case False
    then show ?thesis using tty_loop_some [of n data "[]"] by (cases "tty_loop n data []") auto
  qed
  have ready: "n \<le> length d \<Longrightarrow> tty_loop n d xs = Some (d, xs)" for d xs
    by (subst tty_loop.simps) simp
  show "tty_loop n data (c # cs) =
     (if n \<le> length data then Some (data, c # cs)
      else if n - length data < length c then Some (data @ take (n - length data) c, drop (n - length data) c # cs)
      else tty_loop n (data @ c) cs)"
    using ready by (subst tty_loop.simps) auto
qed

section \<open>Printing\<close>

definition render_log :: "bool \<Rightarrow> string \<Rightarrow> string res" where
  "render_log debug entry =
     (case split_max CHR '':'' 1 entry of
        [l, msg] \<Rightarrow> rbind (py_int l) (\<lambda>level.
          if \<not> debug \<and> level = DEBUG then Inr []
          else rbind (dict_item LOG_LEVEL_ANSI_STYLES TASK_LOG) (\<lambda>log_style.
               rmap (\<lambda>level_style.
                   style_start log_style @ '' '' @ [CHR 0xE2, CHR 0x9A, CHR 0xAC] @ '' '' @ style_end
                   @ style_start level_style @ getLevelName level @ style_end
                   @ style_start log_style @ '': '' @ msg @ style_end @ [CHR 0x0A])
                 (dict_item LOG_LEVEL_ANSI_STYLES level)))
      | _ \<Rightarrow> Inl ValueErr)"

definition render_message :: "bool \<Rightarrow> console_message \<Rightarrow> string res" where
  "render_message debug m =
     (if IS_BYTES m then (case cm_data m of None \<Rightarrow> Inl TypeErr | Some d \<Rightarrow> Inr d)
      else if IS_LOG m then (case cm_data m of None \<Rightarrow> Inl AttributeErr | Some d \<Rightarrow> render_log debug d)
      else Inr [])"

text \<open>What is printed of the messages of a generator, and how it ends.\<close>

fun tty_console_renderer :: "bool \<Rightarrow> console_message list \<times> unit res \<Rightarrow> string \<times> unit res" where
  "tty_console_renderer debug ([], r) = ([], r)"
| "tty_console_renderer debug (m # ms, r) =
     (case render_message debug m of
        Inl e \<Rightarrow> ([], Inl e)
      | Inr t \<Rightarrow> (let (out, r') = tty_console_renderer debug (ms, r) in (t @ out, r')))"

section \<open>The attached terminal\<close>

record attach_env =
  ae_rows :: nat
  ae_cols :: nat
  ae_debug :: bool

record attach_state =
  at_in :: "string list"
  at_sent :: "string list"
  at_raw :: bool
  at_exit :: bool
  at_out :: string

text \<open>A hang-up of any descriptor, or bytes to read: of the pipe of signals, of the standard input, of the
  socket.\<close>

datatype attach_event = AttHup | AttSignal string | AttInput string | AttRemote

datatype attach_end = Goes | Terminated | Raised exn

definition SIGWINCH :: nat where "SIGWINCH = 28"

definition pack_HH :: "nat \<Rightarrow> nat \<Rightarrow> string res" where
  "pack_HH a b = (if a < 2 ^ 16 \<and> b < 2 ^ 16 then Inr (le_bytes 2 a @ le_bytes 2 b) else Inl StructErr)"

definition get_term_size :: "attach_env \<Rightarrow> string res" where
  "get_term_size E = pack_HH (ae_rows E) (ae_cols E)"

definition set_raw :: "attach_state \<Rightarrow> attach_state" where
  "set_raw st = st\<lparr>at_exit := True, at_raw := True\<rparr>"

definition unset_raw :: "attach_state \<Rightarrow> attach_state" where
  "unset_raw st = st\<lparr>at_raw := False, at_exit := False\<rparr>"

text \<open>What is registered runs when the program ends.\<close>

definition at_program_exit :: "attach_state \<Rightarrow> attach_state" where
  "at_program_exit st = (if at_exit st then st\<lparr>at_raw := False\<rparr> else st)"

definition attach_send :: "console_message res \<Rightarrow> attach_state \<Rightarrow> attach_end \<times> attach_state" where
  "attach_send m st = (case rbind m raw of Inl e \<Rightarrow> (Raised e, st) | Inr b \<Rightarrow> (Goes, st\<lparr>at_sent := at_sent st @ [b]\<rparr>))"

definition send_size :: "attach_env \<Rightarrow> attach_state \<Rightarrow> attach_end \<times> attach_state" where
  "send_size E = attach_send (rmap (\<lambda>d. ConsoleMessage CMD_WINCH (Some d)) (get_term_size E))"

text \<open>\<^verbatim>\<open>ConsoleMessage.read\<close> with the reader of the client, which returns once it has all it was asked for, and
  else not at all, which is \<^const>\<open>None\<close>.\<close>

definition tty_message :: "string list \<Rightarrow> (console_message res \<times> string list) option" where
  "tty_message cs =
     (case tty_reader 8 cs of
        None \<Rightarrow> None
      | Some (buffer, cs1) \<Rightarrow>
          (case unpack_HI buffer of
             Inl e \<Rightarrow> Some (Inl e, cs1)
           | Inr (cmd, sz) \<Rightarrow>
               if sz = 0 then Some (Inr (ConsoleMessage cmd None), cs1)
               else (case tty_reader sz cs1 of
                       None \<Rightarrow> None
                     | Some (data, cs2) \<Rightarrow> Some (Inr (ConsoleMessage cmd (Some data)), cs2))))"

definition attach_print :: "string res \<Rightarrow> attach_state \<Rightarrow> attach_end \<times> attach_state" where
  "attach_print t st = (case t of Inl e \<Rightarrow> (Raised e, st) | Inr s \<Rightarrow> (Goes, st\<lparr>at_out := at_out st @ s\<rparr>))"

definition attach_log :: "attach_env \<Rightarrow> string \<Rightarrow> attach_state \<Rightarrow> attach_end \<times> attach_state" where
  "attach_log E entry st =
     (case attach_print (render_log (ae_debug E) entry) st of
        (Goes, st') \<Rightarrow> (case is_task_end_log_entry entry of
            Inl e \<Rightarrow> (Raised e, st') | Inr True \<Rightarrow> (Terminated, st') | Inr False \<Rightarrow> (Goes, st'))
      | x \<Rightarrow> x)"

definition attach_message :: "attach_env \<Rightarrow> console_message \<Rightarrow> attach_state \<Rightarrow> attach_end \<times> attach_state" where
  "attach_message E m st =
     (if IS_RAW_ENABLE m then send_size E (set_raw st)
      else if IS_RAW_DISABLE m then (Goes, unset_raw st)
      else if IS_BYTES m then attach_print (case cm_data m of None \<Rightarrow> Inl TypeErr | Some d \<Rightarrow> Inr d) st
      else if IS_LOG m then (case cm_data m of None \<Rightarrow> (Raised AttributeErr, st) | Some d \<Rightarrow> attach_log E d st)
      else (Goes, st))"

fun attach_step :: "attach_env \<Rightarrow> attach_event \<Rightarrow> attach_state \<Rightarrow> (attach_end \<times> attach_state) option" where
  "attach_step E AttHup st = Some (Raised RuntimeErr, st)"
| "attach_step E (AttSignal data) st =
     Some (if le_val (take 100 data) = SIGWINCH then send_size E st else (Goes, st))"
| "attach_step E (AttInput data) st = Some (attach_send (Inr (ConsoleMessage CMD_BYTES (Some (take 100 data)))) st)"
| "attach_step E AttRemote st =
     (case tty_message (at_in st) of
        None \<Rightarrow> None
      | Some (Inl e, cs) \<Rightarrow> Some (Raised e, st\<lparr>at_in := cs\<rparr>)
      | Some (Inr m, cs) \<Rightarrow> Some (attach_message E m (st\<lparr>at_in := cs\<rparr>)))"

text \<open>The loop: it waits for more events, or a read does not return, or it is left, by an exception that
  nothing catches when it is no \<^verbatim>\<open>RuntimeError\<close>.\<close>

datatype attach_run = Waiting attach_state | Blocked | Left "unit res" attach_state

fun tty_client_console :: "attach_env \<Rightarrow> attach_event list \<Rightarrow> attach_state \<Rightarrow> attach_run" where
  "tty_client_console E [] st = Waiting st"
| "tty_client_console E (ev # evs) st =
     (case attach_step E ev st of
        None \<Rightarrow> Blocked
      | Some (Goes, st') \<Rightarrow> tty_client_console E evs st'
      | Some (Terminated, st') \<Rightarrow> Left (Inr ()) st'
      | Some (Raised e, st') \<Rightarrow> if is_a e RuntimeErr then Left (Inr ()) (unset_raw st') else Left (Inl e) st')"

definition attached :: "string list \<Rightarrow> attach_state" where
  "attached segments = \<lparr>at_in = segments, at_sent = [], at_raw = False, at_exit = False, at_out = []\<rparr>"

end
