(* ===== verification/AttachSafety.thy ===== *)
theory AttachSafety imports Attach begin

text \<open>
  What the attached terminal guarantees: it prints what a watch of the task prints, what is typed gets to
  the command that the task runs, and the settings of the terminal are back when the program
  ends; and the input that is empty, which the server does not expect.
\<close>

section \<open>The settings of the terminal\<close>

definition restorable :: "attach_state \<Rightarrow> bool" where
  "restorable st \<longleftrightarrow> (at_raw st \<longrightarrow> at_exit st)"

lemma restorable_send: "restorable st \<Longrightarrow> restorable (snd (attach_send m st))"
  by (auto simp: restorable_def attach_send_def split: sum.split)

lemma restorable_print: "restorable st \<Longrightarrow> restorable (snd (attach_print t st))"
  by (auto simp: restorable_def attach_print_def split: sum.split)

lemma restorable_log: "restorable st \<Longrightarrow> restorable (snd (attach_log E d st))"
  using restorable_print [of st "render_log (ae_debug E) d"]
  by (auto simp: attach_log_def split: prod.split attach_end.split sum.split bool.split)

lemma restorable_set: "restorable (set_raw st)" "restorable (unset_raw st)"
  by (simp_all add: restorable_def set_raw_def unset_raw_def)

lemma restorable_message: "restorable st \<Longrightarrow> restorable (snd (attach_message E m st))"
  by (auto simp: attach_message_def send_size_def restorable_send restorable_print restorable_log restorable_set
      split: option.split)

lemma restorable_step:
  assumes "restorable st" and "attach_step E ev st = Some (x, st')"
  shows "restorable st'"
proof (cases ev)
  case AttRemote
  have "restorable (st\<lparr>at_in := cs\<rparr>)" for cs
    using assms(1) by (simp add: restorable_def)
  then show ?thesis
    using assms(2) AttRemote restorable_message
    by (auto split: option.splits sum.splits) (metis snd_conv)
next
  case (AttSignal d)
  then show ?thesis
    using assms restorable_send [OF assms(1)] by (auto simp: send_size_def split: if_splits) (metis snd_conv)
next
  case (AttInput d)
  then show ?thesis
    using assms restorable_send [OF assms(1)] by auto (metis snd_conv)
qed (use assms in auto)

text \<open>C29. However the console is left, by the end of the task, a hang-up or an error that nothing catches, the
  terminal has the settings of the user once the program has ended.\<close>

theorem attach_restores:
  assumes "tty_client_console E evs (attached segments) = Left r st"
  shows "\<not> at_raw (at_program_exit st)"
proof -
  have "tty_client_console E evs s = Left r st \<Longrightarrow> restorable s \<Longrightarrow> restorable st" for s
  proof (induction evs arbitrary: s)
    case (Cons ev evs)
    from Cons.prems(1) obtain x s' where x: "attach_step E ev s = Some (x, s')"
      by (cases "attach_step E ev s") auto
    note s' = restorable_step [OF Cons.prems(2) x]
    show ?case
    proof (cases x)
      case Goes
      then show ?thesis using Cons.IH Cons.prems(1) x s' by simp
    next
      case Terminated
      then show ?thesis using Cons.prems(1) x s' by simp
    next
      case (Raised e)
      then show ?thesis using Cons.prems(1) x s' restorable_set(2) by (auto split: if_splits)
    qed
  qed simp
  from this [OF assms] have "restorable st"
    by (simp add: restorable_def attached_def)
  then show ?thesis
    by (auto simp: restorable_def at_program_exit_def)
qed

section \<open>What is printed\<close>

lemma tty_loop_kept:
  assumes "tty_loop n data cs = Some (d, cs')"
  shows "d @ concat cs' = data @ concat cs \<and> ([] \<notin> set cs \<longrightarrow> [] \<notin> set cs')"
proof -
  have "fst y @ concat (snd y) = data @ concat cs \<and> ([] \<notin> set cs \<longrightarrow> [] \<notin> set (snd y))"
    if "tty_loop n data cs = Some y" for n data cs y
  proof (rule tty_loop.raw_induct [where P = "\<lambda>n data cs y. fst y @ concat (snd y) = data @ concat cs
        \<and> ([] \<notin> set cs \<longrightarrow> [] \<notin> set (snd y))", OF _ that])
    fix f :: "nat \<Rightarrow> string \<Rightarrow> string list \<Rightarrow> (string \<times> string list) option" and n data cs y
    assume IH: "\<And>n data cs y. f n data cs = Some y \<Longrightarrow> fst y @ concat (snd y) = data @ concat cs
        \<and> ([] \<notin> set cs \<longrightarrow> [] \<notin> set (snd y))"
      and body: "(if length data < n then f n (data @ fst (recv (n - length data) cs)) (snd (recv (n - length data) cs))
        else Some (data, cs)) = Some y"
    show "fst y @ concat (snd y) = data @ concat cs \<and> ([] \<notin> set cs \<longrightarrow> [] \<notin> set (snd y))"
    proof (cases "length data < n")
      case True
      have "[] \<notin> set cs \<longrightarrow> [] \<notin> set (snd (recv (n - length data) cs))"
        by (cases cs) auto
      then show ?thesis
        using IH [of n "data @ fst (recv (n - length data) cs)" "snd (recv (n - length data) cs)" y] body True
          recv_join [of "n - length data" cs] by simp
    next
      case False
      then show ?thesis using body by auto
    qed
  qed
  from this [OF assms] show ?thesis by simp
qed

lemma tty_reader_enough:
  assumes "[] \<notin> set cs" and "0 < n" and "concat cs = d @ t" and "length d = n"
  obtains cs' where "tty_reader n cs = Some (d, cs')" "concat cs' = t" "[] \<notin> set cs'"
proof -
  obtain cs' where r: "tty_reader n cs = Some (take n (concat cs), cs')"
    using tty_reader_blocks [OF assms(1,2)] assms(3,4) by auto
  have "[] \<notin> set (snd (recv n cs))"
    using assms(1) by (cases cs) auto
  then have "take n (concat cs) @ concat cs' = concat cs" "[] \<notin> set cs'"
    using tty_loop_kept [OF r [unfolded tty_reader_def]] recv_join [of n cs] by simp_all
  then show thesis
    using that [of cs'] r assms(3,4) by simp
qed

lemma tty_message_frame:
  assumes "[] \<notin> set cs" and "wf_message m" and "concat cs = frame m @ t"
  obtains cs' where "tty_message cs = Some (Inr m, cs')" "concat cs' = t" "[] \<notin> set cs'"
proof -
  let ?h = "header (cm_cmd m) (cm_size m)"
  obtain c1 where c1: "tty_reader 8 cs = Some (?h, c1)" "concat c1 = data_bytes m @ t" "[] \<notin> set c1"
    using tty_reader_enough [OF assms(1), of 8 ?h "data_bytes m @ t"] assms(3) by (auto simp: frame_header)
  show thesis
  proof (cases "cm_data m")
    case None
    then have "m = ConsoleMessage (cm_cmd m) None" "cm_size m = 0" "concat c1 = t"
      using c1(2) by (simp_all add: ConsoleMessage_def cm_size_def data_bytes_def)
    then show thesis
      using that c1 unpack_header [OF assms(2)] by (simp add: tty_message_def)
  next
    case (Some d)
    then have d: "m = ConsoleMessage (cm_cmd m) (Some d)" "cm_size m = length d" "0 < length d" "concat c1 = d @ t"
      using assms(2) c1(2) by (auto simp: ConsoleMessage_def cm_size_def data_bytes_def wf_message_def)
    obtain c2 where "tty_reader (length d) c1 = Some (d, c2)" "concat c2 = t" "[] \<notin> set c2"
      using tty_reader_enough [OF c1(3) d(3,4) refl] by blast
    then show thesis
      using that [of c2] c1 d unpack_header [OF assms(2)] by (simp add: tty_message_def)
  qed
qed

text \<open>A terminal whose size the header of the protocol can tell.\<close>

definition small_terminal :: "attach_env \<Rightarrow> bool" where
  "small_terminal E \<longleftrightarrow> ae_rows E < 2 ^ 16 \<and> ae_cols E < 2 ^ 16"

definition size_message :: "attach_env \<Rightarrow> console_message" where
  "size_message E = ConsoleMessage CMD_WINCH (Some (le_bytes 2 (ae_rows E) @ le_bytes 2 (ae_cols E)))"

lemma le_bytes_two: "le_bytes 2 n \<noteq> []"
  by (simp add: numeral_2_eq_2)

lemma size_message_wf: "wf_message (size_message E)"
  by (simp add: le_bytes_two size_message_def wf_message_def ConsoleMessage_def cm_size_def data_bytes_def CMD_WINCH_def)

lemma send_size_frame: "small_terminal E \<Longrightarrow> send_size E st = (Goes, st\<lparr>at_sent := at_sent st @ [frame (size_message E)]\<rparr>)"
  using raw_frame [OF size_message_wf, of E]
  by (simp add: send_size_def attach_send_def get_term_size_def pack_HH_def small_terminal_def size_message_def)

lemmas message_kinds = IS_LOG_def IS_BYTES_def IS_RAW_ENABLE_def IS_RAW_DISABLE_def
  CMD_LOG_def CMD_BYTES_def CMD_RAW_ENABLE_def CMD_RAW_DISABLE_def

lemma render_log_errors: "render_log debug d = Inl e \<Longrightarrow> \<not> is_a e RuntimeErr"
  by (auto simp: render_log_def rbind_Inl_conv rmap_def py_int_def dict_item_def is_a_def Let_def
      split: list.splits if_splits option.splits sum.splits)

lemma attach_message_prints:
  assumes "small_terminal E" and "is_task_end_msg m = Inr b"
  obtains e st' where "render_message (ae_debug E) m = Inl e" "attach_message E m st = (Raised e, st')" "at_out st' = at_out st"
      "\<not> is_a e RuntimeErr"
  | t st' where "render_message (ae_debug E) m = Inr t" "attach_message E m st = (if b then Terminated else Goes, st')"
      "at_out st' = at_out st @ t" "at_in st' = at_in st"
proof -
  consider (log) "IS_LOG m" | (bytes) "IS_BYTES m" | (other) "\<not> IS_LOG m" "\<not> IS_BYTES m" by blast
  then show thesis
  proof cases
    case log
    then obtain d where d: "cm_data m = Some d" "is_task_end_log_entry d = Inr b"
      using assms(2) by (auto simp: is_task_end_msg_def split: option.splits)
    have m: "render_message (ae_debug E) m = render_log (ae_debug E) d" "attach_message E m st = attach_log E d st"
      using log d by (simp_all add: render_message_def attach_message_def message_kinds)
    show thesis
    proof (cases "render_log (ae_debug E) d")
      case (Inl e)
      then show thesis
        using that(1) [of e st] m render_log_errors by (simp add: attach_log_def attach_print_def)
    next
      case (Inr t)
      then show thesis
        using that(2) [of t "st\<lparr>at_out := at_out st @ t\<rparr>"] m d(2)
        by (simp add: attach_log_def attach_print_def split: bool.split)
    qed
  next
    case bytes
    then have "b = False"
      using assms(2) by (simp add: is_task_end_msg_def message_kinds)
    with bytes show thesis
      using that(1) [of TypeErr st] that(2) [of "the (cm_data m)" "st\<lparr>at_out := at_out st @ the (cm_data m)\<rparr>"]
      by (cases "cm_data m") (simp_all add: render_message_def attach_message_def attach_print_def message_kinds is_a_def)
  next
    case other
    then have "b = False"
      using assms(2) by (simp add: is_task_end_msg_def)
    moreover have "render_message (ae_debug E) m = Inr []"
      using other by (simp add: render_message_def)
    moreover obtain st' where "attach_message E m st = (Goes, st')" "at_out st' = at_out st" "at_in st' = at_in st"
    proof (cases "IS_RAW_ENABLE m")
      case True
      then show thesis
        using that [of "(set_raw st)\<lparr>at_sent := at_sent st @ [frame (size_message E)]\<rparr>"] send_size_frame [OF assms(1)]
        by (simp add: attach_message_def set_raw_def)
    next
      case False
      then show thesis
        using that [of "if IS_RAW_DISABLE m then unset_raw st else st"] other by (simp add: attach_message_def unset_raw_def)
    qed
    ultimately show thesis
      using that(2) by simp
  qed
qed

text \<open>C26. The terminal that is attached to a task prints what a watch of this task prints: the same messages
  in the same form, however the bytes are cut in segments, and it is left as the watch ends.\<close>

theorem attach_shows_watch:
  assumes "good_stream ms" and "\<exists>m \<in> set ms. is_task_end_msg m = Inr True" and "length ms < fuel"
    and "[] \<notin> set segments" and "concat segments = frames ms" and "small_terminal E"
  shows "\<exists>st. tty_client_console E (replicate (length ms) AttRemote) (attached segments)
      = Left (snd (tty_console_renderer (ae_debug E) (console_generator fuel unix_reader segments))) st
    \<and> at_out st = fst (tty_console_renderer (ae_debug E) (console_generator fuel unix_reader segments))"
proof -
  have "\<exists>st. tty_client_console E (replicate (length ms) AttRemote) s
      = Left (snd (tty_console_renderer (ae_debug E) (until_end ms, Inr ()))) st
    \<and> at_out st = at_out s @ fst (tty_console_renderer (ae_debug E) (until_end ms, Inr ()))"
    if "good_stream ms" "\<exists>m \<in> set ms. is_task_end_msg m = Inr True" "[] \<notin> set (at_in s)" "concat (at_in s) = frames ms" for s
    using that
  proof (induction ms arbitrary: s)
    case (Cons m ms)
    obtain b where b: "is_task_end_msg m = Inr b" and wf: "wf_message m"
      using Cons.prems(1) by (auto simp: good_stream_def)
    obtain cs where cs: "tty_message (at_in s) = Some (Inr m, cs)" "concat cs = frames ms" "[] \<notin> set cs"
      using tty_message_frame [OF Cons.prems(3) wf] Cons.prems(4) by (auto simp: frames_simps)
    show ?case
    proof (rule attach_message_prints [OF assms(6) b, of "s\<lparr>at_in := cs\<rparr>"])
      fix e st'
      assume "render_message (ae_debug E) m = Inl e" "attach_message E m (s\<lparr>at_in := cs\<rparr>) = (Raised e, st')"
        "at_out st' = at_out (s\<lparr>at_in := cs\<rparr>)" "\<not> is_a e RuntimeErr"
      then show ?thesis
        using cs(1) by simp
    next
      fix t st'
      assume t: "render_message (ae_debug E) m = Inr t"
        "attach_message E m (s\<lparr>at_in := cs\<rparr>) = (if b then Terminated else Goes, st')"
        "at_out st' = at_out (s\<lparr>at_in := cs\<rparr>) @ t" "at_in st' = at_in (s\<lparr>at_in := cs\<rparr>)"
      show ?thesis
      proof (cases b)
        case True
        then show ?thesis using cs(1) t b by simp
      next
        case False
        then have "good_stream ms" "\<exists>m \<in> set ms. is_task_end_msg m = Inr True"
          using Cons.prems(1,2) b by (auto simp: good_stream_def)
        from Cons.IH [OF this, of st'] cs(2,3) t(4) show ?thesis
          using cs(1) t b False by (auto split: prod.split)
      qed
    qed
  qed simp
  from this [of "attached segments"] show ?thesis
    using assms(1,2,4,5) unix_io.generator_frames [of ms segments fuel] assms(3)
    by (simp add: attached_def good_stream_def)
qed

section \<open>What is typed\<close>

text \<open>The bytes that the terminal reads of its input.\<close>

fun typed :: "attach_event list \<Rightarrow> string" where
  "typed [] = []"
| "typed (AttInput d # evs) = take 100 d @ typed evs"
| "typed (_ # evs) = typed evs"

definition client_message :: "attach_env \<Rightarrow> console_message \<Rightarrow> bool" where
  "client_message E m \<longleftrightarrow> m = size_message E \<or> (\<exists>d. m = ConsoleMessage CMD_BYTES (Some d) \<and> d \<noteq> [] \<and> length d \<le> 100)"

definition message_bytes :: "console_message \<Rightarrow> string" where
  "message_bytes m = (if IS_BYTES m then data_bytes m else [])"

lemma client_message_wf: "client_message E m \<Longrightarrow> wf_message m"
  using size_message_wf by (auto simp: client_message_def wf_message_def ConsoleMessage_def cm_size_def data_bytes_def CMD_BYTES_def)

lemma message_bytes_simps: "message_bytes (size_message E) = []" "message_bytes (ConsoleMessage CMD_BYTES (Some d)) = d"
  by (simp_all add: message_bytes_def size_message_def ConsoleMessage_def IS_BYTES_def CMD_BYTES_def CMD_WINCH_def data_bytes_def)

text \<open>One event adds the messages \<open>ms\<close> to what is sent.\<close>

definition adds :: "attach_env \<Rightarrow> string \<Rightarrow> attach_state \<Rightarrow> attach_state \<Rightarrow> bool" where
  "adds E d st st' \<longleftrightarrow> (\<exists>ms. at_sent st' = at_sent st @ map frame ms \<and> (\<forall>m \<in> set ms. client_message E m)
     \<and> concat (map message_bytes ms) = d)"

lemma adds_none: "at_sent st' = at_sent st \<Longrightarrow> adds E [] st st'"
  unfolding adds_def by (rule exI [of _ "[]"]) simp

lemma adds_size: "at_sent st' = at_sent st @ [frame (size_message E)] \<Longrightarrow> adds E [] st st'"
  unfolding adds_def by (rule exI [of _ "[size_message E]"]) (simp add: client_message_def message_bytes_simps)

lemma adds_trans:
  assumes "adds E d st st1" and "adds E d' st1 st2"
  shows "adds E (d @ d') st st2"
proof -
  obtain ms ms' where "at_sent st1 = at_sent st @ map frame ms" "\<forall>m \<in> set ms. client_message E m"
    "concat (map message_bytes ms) = d" "at_sent st2 = at_sent st1 @ map frame ms'" "\<forall>m \<in> set ms'. client_message E m"
    "concat (map message_bytes ms') = d'"
    using assms unfolding adds_def by auto
  then show ?thesis
    unfolding adds_def by (intro exI [of _ "ms @ ms'"]) auto
qed

lemma adds_message:
  assumes "small_terminal E" and "attach_message E m st = (Goes, st')"
  shows "adds E [] st st'"
proof (cases "IS_RAW_ENABLE m")
  case True
  then show ?thesis
    using assms(2) send_size_frame [OF assms(1)] by (intro adds_size) (auto simp: attach_message_def set_raw_def)
next
  case False
  have "attach_print t st = (x, st1) \<Longrightarrow> at_sent st1 = at_sent st" for t x st1
    by (auto simp: attach_print_def split: sum.splits)
  moreover have "attach_log E d st = (Goes, st') \<Longrightarrow> at_sent st' = at_sent st" for d
    by (auto simp: attach_log_def attach_print_def split: sum.splits bool.splits)
  ultimately show ?thesis
    using assms(2) False by (intro adds_none) (auto simp: attach_message_def unset_raw_def split: if_splits option.splits)
qed

lemma adds_step:
  assumes "small_terminal E" and "attach_step E ev st = Some (Goes, st')" and "ev \<noteq> AttInput []"
  shows "adds E (typed [ev]) st st'"
proof (cases ev)
  case (AttInput d)
  let ?m = "ConsoleMessage CMD_BYTES (Some (take 100 d))"
  have m: "client_message E ?m"
    using AttInput assms(3) by (auto simp: client_message_def)
  then have "at_sent st' = at_sent st @ [frame ?m]"
    using assms(2) AttInput raw_frame [OF client_message_wf [OF m]] by (auto simp: attach_send_def)
  with m show ?thesis
    using AttInput unfolding adds_def by (intro exI [of _ "[?m]"]) (simp add: message_bytes_simps)
next
  case AttRemote
  then obtain m cs where "attach_message E m (st\<lparr>at_in := cs\<rparr>) = (Goes, st')"
    using assms(2) by (auto split: option.splits sum.splits)
  from adds_message [OF assms(1) this] show ?thesis
    using AttRemote by (simp add: adds_def)
next
  case (AttSignal d)
  then show ?thesis
    using assms(2) send_size_frame [OF assms(1)] adds_none adds_size by (auto split: if_splits)
qed (use assms(2) in simp)

lemma adds_run:
  assumes "small_terminal E" and "AttInput [] \<notin> set evs" and "tty_client_console E evs st = Waiting st'"
  shows "adds E (typed evs) st st'"
  using assms(2,3)
proof (induction evs arbitrary: st)
  case Nil
  then show ?case by (simp add: adds_none)
next
  case (Cons ev evs)
  from Cons.prems(2) obtain x st1 where x: "attach_step E ev st = Some (x, st1)"
    by (cases "attach_step E ev st") auto
  then have "x = Goes" and nx: "tty_client_console E evs st1 = Waiting st'"
    using Cons.prems(2) by (auto split: attach_end.splits if_splits)
  moreover have "ev \<noteq> AttInput []" using Cons.prems(1) by auto
  ultimately have "adds E (typed [ev] @ typed evs) st st'"
    using adds_trans [OF adds_step [OF assms(1)] Cons.IH [OF _ nx]] x Cons.prems(1) by simp
  moreover have "typed [ev] @ typed evs = typed (ev # evs)"
    by (cases ev) simp_all
  ultimately show ?case by simp
qed

text \<open>What the server reads of its input pipe, message by message.\<close>

definition input_event :: "string \<Rightarrow> tty_event" where
  "input_event b = \<lparr>ev_fd = FdInput, ev_hup = False, ev_data = b\<rparr>"

lemma unpack_size: "small_terminal E \<Longrightarrow> unpack_HH (cm_data (size_message E)) = Inr (ae_rows E, ae_cols E)"
  using le_val_bytes [of "ae_rows E" 2] le_val_bytes [of "ae_cols E" 2]
  by (simp add: size_message_def ConsoleMessage_def unpack_HH_def small_terminal_def)

lemma server_takes:
  assumes "small_terminal E" and "client_message E m"
  obtains t' where "tty_event_step (input_event (frame m)) t = Inr t'" "tt_pty t' = tt_pty t @ message_bytes m"
    "tt_out t' = tt_out t" "tt_winsz t' = tt_winsz t \<or> tt_winsz t' = Some (ae_rows E, ae_cols E)"
proof -
  obtain r where read: "ConsoleMessage_read file_reader (frame m) = (Inr (Some m), r)"
    using file_io.read_message [OF client_message_wf [OF assms(2)], of "frame m" "[]"] by auto
  show thesis
  proof (cases "m = size_message E")
    case True
    then have "IS_WINCH m" by (simp add: size_message_def ConsoleMessage_def IS_WINCH_def)
    then show thesis
      using that [of "t\<lparr>tt_winsz := Some (ae_rows E, ae_cols E)\<rparr>"] read True unpack_size [OF assms(1)]
      by (simp add: tty_event_step_def input_event_def message_bytes_simps split: prod.split)
  next
    case False
    then obtain d where d: "m = ConsoleMessage CMD_BYTES (Some d)"
      using assms(2) by (auto simp: client_message_def)
    then have "\<not> IS_WINCH m" "IS_BYTES m" "cm_data m = Some d"
      by (simp_all add: ConsoleMessage_def IS_WINCH_def IS_BYTES_def CMD_BYTES_def CMD_WINCH_def)
    then show thesis
      using that [of "t\<lparr>tt_pty := tt_pty t @ d\<rparr>"] read d
      by (simp add: tty_event_step_def input_event_def message_bytes_simps split: prod.split)
  qed
qed

lemma server_takes_all:
  assumes "small_terminal E" and "\<forall>m \<in> set ms. client_message E m"
  shows "\<exists>t'. tty_loop_events (map (\<lambda>m. input_event (frame m)) ms) t = Inr t' \<and> tt_pty t' = tt_pty t @ concat (map message_bytes ms)
    \<and> tt_out t' = tt_out t \<and> (tt_winsz t' = tt_winsz t \<or> tt_winsz t' = Some (ae_rows E, ae_cols E))"
  using assms(2)
proof (induction ms arbitrary: t)
  case (Cons m ms)
  obtain t1 where t1: "tty_event_step (input_event (frame m)) t = Inr t1" "tt_pty t1 = tt_pty t @ message_bytes m"
    "tt_out t1 = tt_out t" "tt_winsz t1 = tt_winsz t \<or> tt_winsz t1 = Some (ae_rows E, ae_cols E)"
    using server_takes [OF assms(1), of m t] Cons.prems by auto
  obtain t2 where "tty_loop_events (map (\<lambda>m. input_event (frame m)) ms) t1 = Inr t2" "tt_pty t2 = tt_pty t1 @ concat (map message_bytes ms)"
    "tt_out t2 = tt_out t1" "tt_winsz t2 = tt_winsz t1 \<or> tt_winsz t2 = Some (ae_rows E, ae_cols E)"
    using Cons.IH [of t1] Cons.prems by auto
  with t1 show ?case by auto
qed simp


text \<open>The end of the input is an empty read, which is sent: the command that is run or that is run next ends
  with an error that its caller does not expect.\<close>

theorem empty_input_breaks:
  "\<exists>b. attach_step E (AttInput []) st = Some (Goes, st\<lparr>at_sent := at_sent st @ [b]\<rparr>) \<and> tty_runcmd (input_event b # evs) = Inl TypeErr"
proof -
  let ?b = "header CMD_BYTES 0"
  have b: "raw (ConsoleMessage CMD_BYTES (Some [])) = Inr ?b"
    by (simp add: raw_def pack_HI_def ConsoleMessage_def cm_size_def data_bytes_def header_def CMD_BYTES_def)
  have "ConsoleMessage_read file_reader ?b = (Inr (Some (ConsoleMessage CMD_BYTES None)), [])"
    by code_simp
  then have "tty_event_step (input_event ?b) t = Inl TypeErr" for t
    by (simp add: tty_event_step_def input_event_def ConsoleMessage_def IS_WINCH_def IS_BYTES_def CMD_BYTES_def CMD_WINCH_def)
  moreover have "raw (ConsoleMessage CMD_RAW_ENABLE None) = Inr (header CMD_RAW_ENABLE 0)"
    by (simp add: raw_def pack_HI_def ConsoleMessage_def cm_size_def data_bytes_def header_def CMD_RAW_ENABLE_def)
  ultimately have "tty_runcmd (input_event ?b # evs) = Inl TypeErr"
    by (simp add: tty_runcmd_def tty_write_def is_a_def)
  with b show ?thesis
    by (intro exI [of _ ?b]) (simp add: attach_send_def)
qed

section \<open>Witnesses\<close>

definition demo_terminal :: attach_env where
  "demo_terminal = \<lparr>ae_rows = 24, ae_cols = 80, ae_debug = False\<rparr>"

lemma demo_small: "small_terminal demo_terminal"
  by (simp add: small_terminal_def demo_terminal_def)

lemma demo_enters_raw:
  obtains st where "attach_step demo_terminal AttRemote (attached [frame (ConsoleMessage CMD_RAW_ENABLE None)]) = Some (Goes, st)"
    "at_raw st" "at_sent st = [frame (size_message demo_terminal)]"
proof -
  let ?m = "ConsoleMessage CMD_RAW_ENABLE None"
  have "wf_message ?m" "frame ?m \<noteq> []"
    by (simp_all add: wf_message_def ConsoleMessage_def cm_size_def data_bytes_def CMD_RAW_ENABLE_def frame_def)
  then obtain cs where "tty_message [frame ?m] = Some (Inr ?m, cs)"
    using tty_message_frame [of "[frame ?m]" ?m "[]"] by auto
  moreover have "IS_RAW_ENABLE ?m"
    by (simp add: IS_RAW_ENABLE_def ConsoleMessage_def)
  ultimately show thesis
    using that by (simp add: attached_def attach_message_def send_size_frame [OF demo_small] set_raw_def)
qed

theorem attach_restores_witness:
  "\<exists>st. tty_client_console demo_terminal [AttRemote, AttHup] (attached [frame (ConsoleMessage CMD_RAW_ENABLE None)]) = Left (Inr ()) st
    \<and> \<not> at_raw (at_program_exit st)"
proof -
  obtain st where st: "attach_step demo_terminal AttRemote (attached [frame (ConsoleMessage CMD_RAW_ENABLE None)]) = Some (Goes, st)"
    by (rule demo_enters_raw)
  then have "tty_client_console demo_terminal [AttRemote, AttHup] (attached [frame (ConsoleMessage CMD_RAW_ENABLE None)])
      = Left (Inr ()) (unset_raw st)"
    by (simp add: is_a_def)
  from attach_restores [OF this] this show ?thesis by blast
qed

theorem attach_shows_watch_witness:
  "\<exists>st. tty_client_console demo_terminal [AttRemote, AttRemote] (attached [frames demo_messages])
      = Left (snd (tty_console_renderer False (console_generator 3 unix_reader [frames demo_messages]))) st
    \<and> at_out st = fst (tty_console_renderer False (console_generator 3 unix_reader [frames demo_messages]))"
proof -
  have "\<exists>m \<in> set demo_messages. is_task_end_msg m = Inr True" "[] \<notin> set [frames demo_messages]"
    "length demo_messages = 2"
    by code_simp+
  moreover have "ae_debug demo_terminal = False"
    by (simp add: demo_terminal_def)
  ultimately show ?thesis
    using attach_shows_watch [OF demo_messages_good, of 3 "[frames demo_messages]" demo_terminal] demo_small
    by (simp add: numeral_2_eq_2)
qed


end
