(* ===== verification/Argparse.thy ===== *)
theory Argparse imports PyStr begin

text \<open>
  The part of the standard module \<^verbatim>\<open>argparse\<close> that the commands use: options that store a string, a list
  or a flag, one positional argument at most or sub-commands in each parser, choices, defaults and
  required options, with the abbreviations, the joined forms and the errors of the module. Help and
  version end the program with the status 0, errors with the status 2.
\<close>

section \<open>Parsers\<close>

datatype arg_val = VNone | VBool bool | VStr string | VList "string list" | VFunc string

datatype arg_action = ActStore | ActStoreList | ActStoreTrue | ActShow

datatype arg_nargs = NOptional | NStar

text \<open>An option with its strings, and a positional argument. Help and version are options that show
  something.\<close>

record arg_option =
  ao_flags :: "string list"
  ao_dest :: string
  ao_action :: arg_action
  ao_required :: bool
  ao_default :: arg_val

record arg_positional =
  ap_dest :: string
  ap_nargs :: arg_nargs
  ap_choices :: "string list option"
  ap_default :: arg_val

record arg_level =
  al_options :: "arg_option list"
  al_positional :: "arg_positional option"
  al_defaults :: "(string \<times> arg_val) list"

text \<open>A parser and its sub-commands, if any: the name of the attribute that gets the one that is
  chosen, and whether there must be one.\<close>

datatype arg_parser = Parser (ps_level: arg_level) (ps_subs: "(string \<times> bool \<times> (string \<times> arg_parser) list) option")

type_synonym namespace = "(string, arg_val) dict"

abbreviation usage_error :: "'a res" where
  "usage_error \<equiv> Inl (SystemExit 2)"

definition option_for :: "arg_level \<Rightarrow> string \<Rightarrow> arg_option option" where
  "option_for l s = List.find (\<lambda>o1. s \<in> set (ao_flags o1)) (al_options l)"

section \<open>Classification\<close>

text \<open>What an argument is for a parser: a plain one, the mark \<^verbatim>\<open>--\<close>, or an option, which may be
  unknown, with the argument that is joined to it.\<close>

datatype arg_token =
    TPlain string
  | TMark
  | TOption string "arg_option option" string "string option"

fun tok_text :: "arg_token \<Rightarrow> string" where
  "tok_text (TPlain s) = s"
| "tok_text TMark = ''--''"
| "tok_text (TOption s k o1 e) = s"

definition is_option :: "arg_token \<Rightarrow> bool" where
  "is_option t \<longleftrightarrow> (case t of TOption s k o1 e \<Rightarrow> True | _ \<Rightarrow> False)"

definition is_plain :: "arg_token \<Rightarrow> bool" where
  "is_plain t \<longleftrightarrow> (case t of TPlain s \<Rightarrow> True | _ \<Rightarrow> False)"

definition starts_dash :: "string \<Rightarrow> bool" where
  "starts_dash s \<longleftrightarrow> s \<noteq> [] \<and> hd s = CHR ''-''"

text \<open>\<^verbatim>\<open>^-\d+$|^-\d*\.\d+$\<close>, where the mark of the end also matches before a last line break.\<close>

definition looks_negative :: "string \<Rightarrow> bool" where
  "looks_negative s0 =
     (let s = (if s0 \<noteq> [] \<and> List.last s0 = CHR 0x0A then butlast s0 else s0);
          t = tl s; a = takeWhile (\<lambda>c. c \<noteq> CHR ''.'') t; b = drop (length a) t in
      starts_dash s \<and>
      (t \<noteq> [] \<and> list_all is_digit t \<or> list_all is_digit a \<and> length b > 1 \<and> list_all is_digit (tl b)))"

definition all_flags :: "arg_level \<Rightarrow> (arg_option \<times> string) list" where
  "all_flags l = concat (map (\<lambda>o1. map (\<lambda>s. (o1, s)) (ao_flags o1)) (al_options l))"

text \<open>\<^verbatim>\<open>_get_option_tuples\<close>: the options that an argument can be short for.\<close>

definition option_tuples :: "arg_level \<Rightarrow> string \<Rightarrow> (arg_option \<times> string \<times> string option) list" where
  "option_tuples l s =
     (if starts_dash (tl s)
      then let parts = split_max CHR ''='' 1 s; prefix = hd parts;
               e = (if length parts = 2 then Some (parts ! 1) else None) in
           map (\<lambda>(o1, f). (o1, f, e)) (filter (\<lambda>(o1, f). startswith f prefix) (all_flags l))
      else concat (map (\<lambda>(o1, f). if f = take 2 s then [(o1, f, Some (drop 2 s))]
                                 else if startswith f s then [(o1, f, None)] else []) (all_flags l)))"

text \<open>\<^verbatim>\<open>_parse_optional\<close>.\<close>

definition parse_optional :: "arg_level \<Rightarrow> string \<Rightarrow> arg_token res" where
  "parse_optional l s =
     (if \<not> starts_dash s then Inr (TPlain s)
      else case option_for l s of
        Some o1 \<Rightarrow> Inr (TOption s (Some o1) s None)
      | None \<Rightarrow>
          if length s = 1 then Inr (TPlain s)
          else let parts = split_max CHR ''='' 1 s in
            case (if length parts = 2 then option_for l (hd parts) else None) of
              Some o1 \<Rightarrow> Inr (TOption s (Some o1) (hd parts) (Some (parts ! 1)))
            | None \<Rightarrow>
                (case option_tuples l s of
                   [(o1, f, e)] \<Rightarrow> Inr (TOption s (Some o1) f e)
                 | _ # _ # _ \<Rightarrow> usage_error
                 | [] \<Rightarrow> if looks_negative s \<or> CHR '' '' \<in> set s then Inr (TPlain s) else Inr (TOption s None s None)))"

fun classify :: "arg_level \<Rightarrow> string list \<Rightarrow> arg_token list res" where
  "classify l [] = Inr []"
| "classify l (s # ss) =
     (if s = ''--'' then Inr (TMark # map TPlain ss)
      else rbind (parse_optional l s) (\<lambda>t. rmap (\<lambda>ts. t # ts) (classify l ss)))"

section \<open>One level\<close>

text \<open>What a parser has found: its attributes, the options it has seen, the arguments that nothing
  takes, whether its positional arguments are still to come, and the sub-command with its
  arguments.\<close>

record level_state =
  ls_ns :: namespace
  ls_seen :: "arg_option list"
  ls_extras :: "string list"
  ls_waits :: bool
  ls_sub :: "(string \<times> string list) option"

definition store :: "string \<Rightarrow> arg_val \<Rightarrow> level_state \<Rightarrow> level_state" where
  "store k v st = st\<lparr>ls_ns := dict_set (ls_ns st) k v\<rparr>"

definition take_option :: "arg_option \<Rightarrow> string list \<Rightarrow> level_state \<Rightarrow> level_state res" where
  "take_option o1 args st =
     (let st' = st\<lparr>ls_seen := o1 # ls_seen st\<rparr> in
      case ao_action o1 of
        ActStore \<Rightarrow> (case args of [a] \<Rightarrow> Inr (store (ao_dest o1) (VStr a) st') | _ \<Rightarrow> usage_error)
      | ActStoreList \<Rightarrow> Inr (store (ao_dest o1) (VList args) st')
      | ActStoreTrue \<Rightarrow> Inr (store (ao_dest o1) (VBool True) st')
      | ActShow \<Rightarrow> Inl (SystemExit 0))"

text \<open>An option with an argument that is joined to it: a flag of one letter is followed by other
  letters, whose number bounds the steps.\<close>

fun take_joined :: "nat \<Rightarrow> arg_level \<Rightarrow> arg_option \<Rightarrow> string \<Rightarrow> string \<Rightarrow> (arg_option \<times> string list) list
    \<Rightarrow> ((arg_option \<times> string list) list \<times> arg_option option) res" where
  "take_joined 0 l o1 f e acc = usage_error"
| "take_joined (Suc n) l o1 f e acc =
     (if ao_action o1 \<in> {ActStore, ActStoreList} then Inr (acc @ [(o1, [e])], None)
      else if \<not> starts_dash (tl f) then
        (if e = [] then Inl IndexErr
         else case option_for l [CHR ''-'', hd e] of
           None \<Rightarrow> usage_error
         | Some o2 \<Rightarrow>
             if tl e = [] then Inr (acc @ [(o1, [])], Some o2)
             else take_joined n l o2 [CHR ''-'', hd e] (tl e) (acc @ [(o1, [])]))
      else usage_error)"

text \<open>How many of the arguments that follow an option takes.\<close>

definition plain_args :: "arg_option \<Rightarrow> arg_token list \<Rightarrow> string list res" where
  "plain_args o1 ts =
     (case ao_action o1 of
        ActStore \<Rightarrow> (case ts of TPlain a # _ \<Rightarrow> Inr [a] | _ \<Rightarrow> usage_error)
      | ActStoreList \<Rightarrow> Inr (map tok_text (takeWhile is_plain ts))
      | _ \<Rightarrow> Inr [])"

definition consume_optional ::
  "arg_level \<Rightarrow> string \<Rightarrow> arg_option option \<Rightarrow> string \<Rightarrow> string option \<Rightarrow> arg_token list \<Rightarrow> level_state
   \<Rightarrow> (arg_token list \<times> level_state) res" where
  "consume_optional l s k f e ts st =
     (case k of
        None \<Rightarrow> Inr (ts, st\<lparr>ls_extras := ls_extras st @ [s]\<rparr>)
      | Some o1 \<Rightarrow>
          rbind (case e of None \<Rightarrow> Inr ([], Some o1) | Some x \<Rightarrow> take_joined (Suc (length x)) l o1 f x []) (\<lambda>(pre, fin).
          rbind (case fin of None \<Rightarrow> Inr ([], 0) | Some o2 \<Rightarrow> rmap (\<lambda>as. ([(o2, as)], length as)) (plain_args o2 ts)) (\<lambda>(post, n).
          rmap (\<lambda>st'. (drop n ts, st')) (rfold (\<lambda>(o2, as). take_option o2 as) (pre @ post) st))))"

definition check_choice :: "string list option \<Rightarrow> string \<Rightarrow> unit res" where
  "check_choice c s = (case c of None \<Rightarrow> Inr () | Some cs \<Rightarrow> if s \<in> set cs then Inr () else usage_error)"

text \<open>The positional argument at the beginning of the tokens, or the sub-command, which takes all
  that follows.\<close>

definition without_mark :: "arg_token list \<Rightarrow> string list" where
  "without_mark ts = map tok_text (filter (\<lambda>t. t \<noteq> TMark) ts)"

definition optional_part :: "arg_token list \<Rightarrow> arg_token list" where
  "optional_part ts =
     (let a = takeWhile (\<lambda>t. t = TMark) ts; r = drop (length a) ts;
          b = (case r of TPlain s # _ \<Rightarrow> [TPlain s] | _ \<Rightarrow> []); r' = drop (length b) r in
      a @ b @ takeWhile (\<lambda>t. t = TMark) r')"

definition consume_positionals ::
  "arg_parser \<Rightarrow> arg_token list \<Rightarrow> level_state \<Rightarrow> (arg_token list \<times> level_state) res" where
  "consume_positionals p ts st =
     (if \<not> ls_waits st then Inr (ts, st)
      else case ps_subs p of
        Some (dest, req, subs) \<Rightarrow>
          (case dropWhile (\<lambda>t. t = TMark) ts of
             TPlain s # rest \<Rightarrow>
               let args = map tok_text ts; name = hd args in
               (if name \<in> fst ` set subs
                then Inr ([], (store dest (VStr name) st)\<lparr>ls_waits := False, ls_sub := Some (name, tl args)\<rparr>)
                else usage_error)
           | _ \<Rightarrow> Inr (ts, st))
      | None \<Rightarrow>
          (case al_positional (ps_level p) of
             None \<Rightarrow> Inr (ts, st\<lparr>ls_waits := False\<rparr>)
           | Some a \<Rightarrow>
               let part = (case ap_nargs a of NOptional \<Rightarrow> optional_part ts | NStar \<Rightarrow> takeWhile (\<lambda>t. \<not> is_option t) ts);
                   args = without_mark part;
                   st' = st\<lparr>ls_waits := False\<rparr> in
               (case ap_nargs a of
                  NOptional \<Rightarrow>
                    (case args of
                       s # _ \<Rightarrow> rmap (\<lambda>_. (drop (length part) ts, store (ap_dest a) (VStr s) st')) (check_choice (ap_choices a) s)
                     | [] \<Rightarrow> rmap (\<lambda>_. (drop (length part) ts, store (ap_dest a) (ap_default a) st'))
                         (case ap_default a of VStr s \<Rightarrow> check_choice (ap_choices a) s | _ \<Rightarrow> Inr ()))
                | NStar \<Rightarrow>
                    Inr (drop (length part) ts, store (ap_dest a) (if args = [] \<and> ap_default a \<noteq> VNone then ap_default a else VList args) st'))))"

text \<open>The loop over the tokens: positional arguments before each option, what is left of them is of no use, then
  the option.\<close>

definition level_step :: "arg_parser \<Rightarrow> arg_token list \<Rightarrow> level_state \<Rightarrow> (arg_token list \<times> level_state) res" where
  "level_step p ts st =
     (case ts of
        TOption s k f e # rest \<Rightarrow> consume_optional (ps_level p) s k f e rest st
      | _ \<Rightarrow>
          rmap (\<lambda>(ts', st').
              if length ts' < length ts then (ts', st')
              else (dropWhile (\<lambda>t. \<not> is_option t) ts,
                    st'\<lparr>ls_extras := ls_extras st' @ map tok_text (takeWhile (\<lambda>t. \<not> is_option t) ts)\<rparr>))
            (consume_positionals p ts st))"

lemma consume_optional_le: "consume_optional l s k f e ts st = Inr (ts', st') \<Longrightarrow> length ts' \<le> length ts"
  by (auto simp: consume_optional_def rbind_Inr_conv rmap_Inr_conv split: option.splits)

lemma drop_plain_less: "\<not> is_option t \<Longrightarrow> length (dropWhile (\<lambda>t. \<not> is_option t) (t # ts)) < length (t # ts)"
  using length_dropWhile_le [of "\<lambda>t. \<not> is_option t" ts] by simp

lemma level_step_less:
  assumes "level_step p ts st = Inr (ts', st')" and "ts \<noteq> []"
  shows "length ts' < length ts"
proof (cases "is_option (hd ts)")
  case True
  then obtain s k f e rest where "ts = TOption s k f e # rest"
    using assms(2) by (cases ts) (auto simp: is_option_def split: arg_token.splits)
  then show ?thesis
    using assms(1) consume_optional_le [of "ps_level p" s k f e rest st ts' st'] by (simp add: level_step_def)
next
  case False
  with assms(2) obtain t r where t: "ts = t # r" "\<not> is_option t" by (cases ts) auto
  then have "level_step p (t # r) st = rmap (\<lambda>(ts', st').
              if length ts' < length (t # r) then (ts', st')
              else (dropWhile (\<lambda>t. \<not> is_option t) (t # r),
                    st'\<lparr>ls_extras := ls_extras st' @ map tok_text (takeWhile (\<lambda>t. \<not> is_option t) (t # r))\<rparr>))
            (consume_positionals p (t # r) st)"
    by (simp add: level_step_def is_option_def split: arg_token.splits)
  with assms(1) show ?thesis
    using drop_plain_less [OF t(2), of r] unfolding t(1) by (auto simp: rmap_Inr_conv split: if_splits)
qed

function parse_level :: "arg_parser \<Rightarrow> arg_token list \<Rightarrow> level_state \<Rightarrow> level_state res" where
  "parse_level p ts st =
     (if list_ex is_option ts
      then rbind (level_step p ts st) (\<lambda>x. parse_level p (fst x) (snd x))
      else rmap (\<lambda>(ts', st'). st'\<lparr>ls_extras := ls_extras st' @ map tok_text ts'\<rparr>) (consume_positionals p ts st))"
  by pat_completeness auto

termination
proof (relation "measure (\<lambda>(p, ts, st). length ts)", goal_cases)
  case (2 p ts st x)
  then have "ts \<noteq> []" by auto
  with 2 show ?case
    using level_step_less [of p ts st "fst x" "snd x"] by (simp add: case_prod_beta)
qed simp

declare parse_level.simps [simp del]

section \<open>All levels\<close>

text \<open>The attributes before the arguments are read: the defaults of the arguments, then those of the
  parser, none of which replaces another.\<close>

definition add_missing :: "(string \<times> arg_val) list \<Rightarrow> namespace \<Rightarrow> namespace" where
  "add_missing ds ns = fold (\<lambda>(k, v) ns. if dict_has ns k then ns else dict_set ns k v) ds ns"

definition level_defaults :: "arg_parser \<Rightarrow> (string \<times> arg_val) list" where
  "level_defaults p =
     (let l = ps_level p in
      map (\<lambda>o1. (ao_dest o1, ao_default o1)) (filter (\<lambda>o1. ao_action o1 \<noteq> ActShow) (al_options l))
      @ (case al_positional l of None \<Rightarrow> [] | Some a \<Rightarrow> [(ap_dest a, ap_default a)])
      @ (case ps_subs p of None \<Rightarrow> [] | Some (dest, req, subs) \<Rightarrow> [(dest, VNone)])
      @ al_defaults l)"

definition level_start :: "arg_parser \<Rightarrow> level_state" where
  "level_start p = \<lparr>ls_ns = add_missing (level_defaults p) [], ls_seen = [], ls_extras = [], ls_waits = True, ls_sub = None\<rparr>"

text \<open>What is required and was not given.\<close>

definition level_complete :: "arg_parser \<Rightarrow> level_state \<Rightarrow> bool" where
  "level_complete p st \<longleftrightarrow>
     list_all (\<lambda>o1. \<not> ao_required o1 \<or> o1 \<in> set (ls_seen st)) (al_options (ps_level p))
     \<and> (case ps_subs p of Some (dest, True, subs) \<Rightarrow> ls_sub st \<noteq> None | _ \<Rightarrow> True)"

definition copy_all :: "namespace \<Rightarrow> namespace \<Rightarrow> namespace" where
  "copy_all sub ns = fold (\<lambda>(k, v) ns. dict_set ns k v) sub ns"

lemma sub_size: "map_of subs name = Some q \<Longrightarrow> size q < size_list (size_prod (\<lambda>x. 0) size) subs"
  by (induction subs) (auto split: if_splits)

text \<open>\<^verbatim>\<open>parse_known_args\<close>: the parser of the sub-command starts with attributes of its own, which are then
  copied over those of the parser above.\<close>

function parse_known_args :: "arg_parser \<Rightarrow> string list \<Rightarrow> (namespace \<times> string list) res" where
  "parse_known_args (Parser l sb) args =
     rbind (classify l args) (\<lambda>ts.
     rbind (parse_level (Parser l sb) ts (level_start (Parser l sb))) (\<lambda>st.
     rbind (case sb of
              None \<Rightarrow> Inr (ls_ns st, ls_extras st)
            | Some (dest, req, subs) \<Rightarrow>
                (case ls_sub st of
                   None \<Rightarrow> Inr (ls_ns st, ls_extras st)
                 | Some (name, rest) \<Rightarrow>
                     (case map_of subs name of
                        None \<Rightarrow> usage_error
                      | Some q \<Rightarrow> rmap (\<lambda>(ns, extras). (copy_all ns (ls_ns st), ls_extras st @ extras)) (parse_known_args q rest)))) (\<lambda>r.
     if level_complete (Parser l sb) st then Inr r else usage_error)))"
  by pat_completeness auto

termination
  by (relation "measure (\<lambda>(p, args). size p)") (auto dest!: sub_size)

declare parse_known_args.simps [simp del]

definition parse_args :: "arg_parser \<Rightarrow> string list \<Rightarrow> namespace res" where
  "parse_args p args = rbind (parse_known_args p args) (\<lambda>(ns, extras). if extras = [] then Inr ns else usage_error)"

end
