(* ===== verification/ArgparseSafety.thy ===== *)
theory ArgparseSafety imports Argparse begin

text \<open>
  What a parser promises of the attributes it returns: each is one that some level declares, the
  defaults are there, each value has the type its declaration tells, and those of the
  sub-command replace those above.
\<close>

section \<open>Attributes\<close>

type_synonym arg_types = "string \<Rightarrow> arg_val set"

definition ns_typed :: "arg_types \<Rightarrow> namespace \<Rightarrow> bool" where
  "ns_typed T ns \<longleftrightarrow> distinct (dict_keys ns) \<and> (\<forall>k v. dict_get ns k = Some v \<longrightarrow> v \<in> T k)"

definition ns_keys :: "namespace \<Rightarrow> string set" where
  "ns_keys ns = set (dict_keys ns)"

lemma ns_keys_get: "k \<in> ns_keys ns \<longleftrightarrow> dict_get ns k \<noteq> None"
  using dict_has_keys [of ns k] by (simp add: ns_keys_def dict_has_def dict_get_def)

lemma ns_typed_Nil [simp]: "ns_typed T []"
  by (simp add: ns_typed_def dict_keys_def dict_get_def)

lemma ns_keys_simps [simp]: "ns_keys [] = {}" "ns_keys (dict_set ns k v) = insert k (ns_keys ns)"
  by (simp_all add: ns_keys_def set_keys_dict_set, simp add: dict_keys_def)

lemma ns_typed_set: "ns_typed T ns \<Longrightarrow> v \<in> T k \<Longrightarrow> ns_typed T (dict_set ns k v)"
  by (auto simp: ns_typed_def distinct_dict_set split: if_splits)

lemma add_missing_typed:
  "ns_typed T ns \<Longrightarrow> \<forall>(k, v) \<in> set ds. v \<in> T k \<Longrightarrow> ns_typed T (add_missing ds ns) \<and> ns_keys (add_missing ds ns) = fst ` set ds \<union> ns_keys ns"
proof (induction ds arbitrary: ns)
  case (Cons d ds)
  obtain k v where d: "d = (k, v)" by (cases d)
  show ?case
  proof (cases "dict_has ns k")
    case True
    then have "k \<in> ns_keys ns" by (simp add: ns_keys_get dict_has_def dict_get_def)
    then show ?thesis using Cons True d by (auto simp: add_missing_def)
  next
    case False
    then show ?thesis
      using Cons.IH [OF ns_typed_set [OF Cons.prems(1), of v k]] Cons.prems(2) d by (auto simp: add_missing_def)
  qed
qed (simp add: add_missing_def)

lemma copy_all_get:
  "distinct (dict_keys sub) \<Longrightarrow> dict_get (copy_all sub ns) k = (case dict_get sub k of Some v \<Rightarrow> Some v | None \<Rightarrow> dict_get ns k)"
proof (induction sub arbitrary: ns)
  case (Cons d sub)
  obtain k' v' where d: "d = (k', v')" by (cases d)
  have "dict_get sub k' = None"
    using Cons.prems d by (simp add: dict_get_def dict_keys_def map_of_eq_None_iff)
  then show ?case
    using Cons d by (auto simp: copy_all_def dict_keys_def dict_get_def [of "_ # _"] dict_get_def [of sub] split: option.split)
qed (simp add: copy_all_def dict_get_def)

lemma copy_all_distinct: "distinct (dict_keys ns) \<Longrightarrow> distinct (dict_keys (copy_all sub ns))"
  by (induction sub arbitrary: ns) (auto simp: copy_all_def distinct_dict_set)

lemma copy_all_typed: "ns_typed T sub \<Longrightarrow> ns_typed T ns \<Longrightarrow> ns_typed T (copy_all sub ns)"
  by (auto simp: ns_typed_def copy_all_distinct copy_all_get split: option.splits)

lemma copy_all_keys: "ns_typed T sub \<Longrightarrow> ns_keys (copy_all sub ns) = ns_keys sub \<union> ns_keys ns"
  by (auto simp: ns_keys_get ns_typed_def copy_all_get split: option.splits)

section \<open>One level\<close>

definition option_ok :: "arg_types \<Rightarrow> arg_option \<Rightarrow> bool" where
  "option_ok T o1 \<longleftrightarrow> (case ao_action o1 of
       ActStore \<Rightarrow> range VStr \<subseteq> T (ao_dest o1) | ActStoreList \<Rightarrow> range VList \<subseteq> T (ao_dest o1)
     | ActStoreTrue \<Rightarrow> VBool True \<in> T (ao_dest o1) | ActShow \<Rightarrow> True)"

definition positional_ok :: "arg_types \<Rightarrow> arg_positional \<Rightarrow> bool" where
  "positional_ok T a \<longleftrightarrow> ap_default a \<in> T (ap_dest a)
     \<and> (case ap_nargs a of NOptional \<Rightarrow> range VStr \<subseteq> T (ap_dest a) | NStar \<Rightarrow> range VList \<subseteq> T (ap_dest a))
   \<or> ap_nargs a = NStar \<and> ap_default a = VNone \<and> range VList \<subseteq> T (ap_dest a)"

text \<open>The attribute of the sub-command or of the positional argument is none of the others of the level.\<close>

definition level_ok :: "arg_types \<Rightarrow> arg_parser \<Rightarrow> bool" where
  "level_ok T p \<longleftrightarrow>
     (\<forall>o1 \<in> set (al_options (ps_level p)). option_ok T o1)
     \<and> (\<forall>a. al_positional (ps_level p) = Some a \<longrightarrow> positional_ok T a)
     \<and> (\<forall>(k, v) \<in> set (level_defaults p). v \<in> T k)
     \<and> (\<forall>dest req subs. ps_subs p = Some (dest, req, subs) \<longrightarrow> range VStr \<subseteq> T dest
          \<and> (\<forall>o1 \<in> set (al_options (ps_level p)). ao_dest o1 \<noteq> dest))
     \<and> (\<forall>a. al_positional (ps_level p) = Some a \<longrightarrow> (\<forall>o1 \<in> set (al_options (ps_level p)). ao_dest o1 \<noteq> ap_dest a))"

text \<open>The values of a positional argument once it is taken.\<close>

definition positional_values :: "arg_positional \<Rightarrow> arg_val set" where
  "positional_values a =
     (case ap_nargs a of NOptional \<Rightarrow> insert (ap_default a) (range VStr)
      | NStar \<Rightarrow> range VList \<union> (if ap_default a = VNone then {} else {ap_default a}))"

definition positional_done :: "arg_parser \<Rightarrow> level_state \<Rightarrow> bool" where
  "positional_done p st \<longleftrightarrow> ls_waits st \<or> ps_subs p \<noteq> None
     \<or> (\<forall>a. al_positional (ps_level p) = Some a \<longrightarrow> (\<exists>v \<in> positional_values a. dict_get (ls_ns st) (ap_dest a) = Some v))"

definition state_ok :: "arg_types \<Rightarrow> arg_parser \<Rightarrow> level_state \<Rightarrow> bool" where
  "state_ok T p st \<longleftrightarrow> ns_typed T (ls_ns st) \<and> positional_done p st \<and> fst ` set (level_defaults p) \<subseteq> ns_keys (ls_ns st)
     \<and> (\<forall>name rest. ls_sub st = Some (name, rest) \<longrightarrow> (\<exists>dest req subs. ps_subs p = Some (dest, req, subs)
          \<and> name \<in> fst ` set subs \<and> dict_get (ls_ns st) dest = Some (VStr name)))"

definition token_ok :: "arg_level \<Rightarrow> arg_token \<Rightarrow> bool" where
  "token_ok l t \<longleftrightarrow> (\<forall>s o1 f e. t = TOption s (Some o1) f e \<longrightarrow> o1 \<in> set (al_options l))"

lemma option_for_in: "option_for l s = Some o1 \<Longrightarrow> o1 \<in> set (al_options l)"
  by (auto simp: option_for_def find_Some_iff)

lemma option_tuples_in: "(o1, f, e) \<in> set (option_tuples l s) \<Longrightarrow> o1 \<in> set (al_options l)"
  by (auto simp: option_tuples_def all_flags_def Let_def split: if_splits)

lemma parse_optional_ok:
  assumes "parse_optional l s = Inr t"
  shows "token_ok l t"
proof -
  have tup: "option_tuples l s = [(o1, f, e)] \<Longrightarrow> o1 \<in> set (al_options l)" for o1 f e
    using option_tuples_in [of o1 f e l s] by simp
  show ?thesis
    using assms unfolding parse_optional_def Let_def token_ok_def
    by (auto dest: option_for_in tup split: if_splits option.splits list.splits prod.splits)
qed

lemma classify_ok: "classify l ss = Inr ts \<Longrightarrow> \<forall>t \<in> set ts. token_ok l t"
proof (induction ss arbitrary: ts)
  case (Cons s ss)
  show ?case
  proof (cases "s = ''--''")
    case True
    then show ?thesis using Cons.prems by (auto simp: token_ok_def)
  next
    case False
    then obtain t us where "parse_optional l s = Inr t" "classify l ss = Inr us" "ts = t # us"
      using Cons.prems by (auto simp: rbind_Inr_conv rmap_Inr_conv)
    then show ?thesis using Cons.IH parse_optional_ok by simp
  qed
qed simp

lemma state_ok_store:
  assumes "state_ok T p st" and "v \<in> T k" and "\<And>dest req subs. ps_subs p = Some (dest, req, subs) \<Longrightarrow> k \<noteq> dest"
    and "\<And>a. al_positional (ps_level p) = Some a \<Longrightarrow> k \<noteq> ap_dest a"
  shows "state_ok T p (store k v st)"
  unfolding state_ok_def
proof (intro conjI allI impI)
  fix name rest assume "ls_sub (store k v st) = Some (name, rest)"
  then obtain dest req subs where "ps_subs p = Some (dest, req, subs)" "name \<in> fst ` set subs"
    "dict_get (ls_ns st) dest = Some (VStr name)"
    using assms(1) unfolding state_ok_def store_def by auto
  then show "\<exists>dest req subs. ps_subs p = Some (dest, req, subs) \<and> name \<in> fst ` set subs
      \<and> dict_get (ls_ns (store k v st)) dest = Some (VStr name)"
    using assms(3) by (intro exI [of _ dest] exI [of _ req] exI [of _ subs]) (simp add: store_def)
qed (use assms(1,2,4) in \<open>auto simp: state_ok_def store_def ns_typed_set positional_done_def\<close>)

lemma state_ok_seen: "state_ok T p (st\<lparr>ls_seen := x\<rparr>) = state_ok T p st" "state_ok T p (st\<lparr>ls_extras := y\<rparr>) = state_ok T p st"
  by (simp_all add: state_ok_def positional_done_def)

lemma take_option_ok:
  assumes "level_ok T p" and "o1 \<in> set (al_options (ps_level p))" and "take_option o1 as st = Inr st'" and "state_ok T p st"
  shows "state_ok T p st'"
proof -
  have "option_ok T o1" "\<And>dest req subs. ps_subs p = Some (dest, req, subs) \<Longrightarrow> ao_dest o1 \<noteq> dest"
    "\<And>a. al_positional (ps_level p) = Some a \<Longrightarrow> ao_dest o1 \<noteq> ap_dest a"
    using assms(1,2) by (auto simp: level_ok_def)
  then show ?thesis
    using assms(3,4)
    by (auto simp: take_option_def option_ok_def Let_def split: arg_action.splits list.splits
        intro!: state_ok_store simp: state_ok_seen)
qed

lemma take_joined_ok:
  "take_joined n l o1 f e acc = Inr (pre, fin) \<Longrightarrow> o1 \<in> set (al_options l) \<Longrightarrow> \<forall>(o2, as) \<in> set acc. o2 \<in> set (al_options l)
     \<Longrightarrow> (\<forall>(o2, as) \<in> set pre. o2 \<in> set (al_options l)) \<and> (\<forall>o2. fin = Some o2 \<longrightarrow> o2 \<in> set (al_options l))"
proof (induction n l o1 f e acc rule: take_joined.induct)
  case (2 n l o1 f e acc)
  show ?case
  proof (cases "ao_action o1 \<in> {ActStore, ActStoreList}")
    case True
    then show ?thesis using 2(2-) by auto
  next
    case False
    then obtain o2 where o2: "option_for l [CHR ''-'', hd e] = Some o2" "\<not> starts_dash (tl f)" "e \<noteq> []"
      using 2(2) by (auto split: if_splits option.splits)
    note o2in = option_for_in [OF o2(1)]
    show ?thesis
    proof (cases "tl e = []")
      case True
      then show ?thesis using 2(2-) False o2 o2in by auto
    next
      case nt: False
      then have "take_joined n l o2 [CHR ''-'', hd e] (tl e) (acc @ [(o1, [])]) = Inr (pre, fin)"
        using 2(2) False o2 by auto
      from 2(1) [OF False o2(2,3) o2(1) nt this o2in] 2(3,4) show ?thesis by auto
    qed
  qed
qed simp

lemma consume_optional_ok:
  assumes "level_ok T p" and "consume_optional (ps_level p) s k f e ts st = Inr (ts', st')"
    and "\<forall>o1. k = Some o1 \<longrightarrow> o1 \<in> set (al_options (ps_level p))" and "state_ok T p st"
  shows "state_ok T p st' \<and> set ts' \<subseteq> set ts"
proof (cases k)
  case None
  then show ?thesis using assms(2,4) by (auto simp: consume_optional_def state_ok_seen)
next
  case (Some o1)
  let ?opts = "set (al_options (ps_level p))"
  obtain pre fin post n where
    a: "(case e of None \<Rightarrow> Inr ([], Some o1) | Some x \<Rightarrow> take_joined (Suc (length x)) (ps_level p) o1 f x []) = Inr (pre, fin)"
    and b: "(case fin of None \<Rightarrow> Inr ([], 0) | Some o2 \<Rightarrow> rmap (\<lambda>as. ([(o2, as)], length as)) (plain_args o2 ts)) = Inr (post, n)"
    and c: "rfold (\<lambda>(o2, as). take_option o2 as) (pre @ post) st = Inr st'" and d: "ts' = drop n ts"
    using assms(2) Some by (auto simp: consume_optional_def rbind_Inr_conv rmap_Inr_conv)
  have pre: "(\<forall>(o2, as) \<in> set pre. o2 \<in> ?opts) \<and> (\<forall>o2. fin = Some o2 \<longrightarrow> o2 \<in> ?opts)"
  proof (cases e)
    case None
    then show ?thesis using a assms(3) Some by auto
  next
    case e: (Some x)
    then have "take_joined (Suc (length x)) (ps_level p) o1 f x [] = Inr (pre, fin)"
      using a by simp
    from take_joined_ok [OF this] show ?thesis
      using assms(3) Some by simp
  qed
  then have opts: "(o2, as) \<in> set (pre @ post) \<Longrightarrow> o2 \<in> ?opts" for o2 as
    using b by (auto simp: rmap_Inr_conv split: option.splits)
  have "state_ok T p st'"
  proof (rule rfold_invariant [OF c, of "state_ok T p", OF assms(4)])
    fix x s t assume "x \<in> set (pre @ post)" "(case x of (o2, as) \<Rightarrow> take_option o2 as) s = Inr t" "state_ok T p s"
    moreover obtain o2 as where "x = (o2, as)" by (cases x)
    ultimately show "state_ok T p t"
      using take_option_ok [OF assms(1) opts [of o2 as]] by auto
  qed
  then show ?thesis
    using d by (auto dest: in_set_dropD)
qed

lemma consume_positionals_ok:
  assumes "level_ok T p" and "consume_positionals p ts st = Inr (ts', st')" and "state_ok T p st"
  shows "state_ok T p st' \<and> set ts' \<subseteq> set ts"
proof (cases "ps_subs p")
  case None
  show ?thesis
  proof (cases "al_positional (ps_level p)")
    case p: None
    then show ?thesis
      using assms(2,3) None by (auto simp: consume_positionals_def state_ok_def positional_done_def split: if_splits)
  next
    case (Some a)
    then have a: "positional_ok T a" using assms(1) by (simp add: level_ok_def)
    have st: "state_ok T p (store (ap_dest a) v (st\<lparr>ls_waits := False\<rparr>))" if "v \<in> T (ap_dest a)" "v \<in> positional_values a" for v
      using that assms(3) None Some unfolding state_ok_def positional_done_def store_def by (auto simp: ns_typed_set)
    show ?thesis
      using assms(2,3) None Some a st
      by (auto simp: consume_positionals_def positional_ok_def positional_values_def Let_def rmap_Inr_conv image_subset_iff
          split: if_splits arg_nargs.splits list.splits dest: in_set_dropD)
  qed
next
  case (Some x)
  obtain dest req subs where x: "x = (dest, req, subs)" by (cases x)
  have T: "range VStr \<subseteq> T dest" using assms(1) Some x by (auto simp: level_ok_def)
  have ok: "ns_typed T (ls_ns st)" "fst ` set (level_defaults p) \<subseteq> ns_keys (ls_ns st)"
    using assms(3) by (simp_all add: state_ok_def)
  have "name \<in> fst ` set subs \<Longrightarrow> state_ok T p ((store dest (VStr name) st)\<lparr>ls_waits := False, ls_sub := Some (name, r)\<rparr>)" for name r
    using ok T Some x ns_typed_set [OF ok(1), of "VStr name" dest] by (auto simp: state_ok_def store_def image_subset_iff positional_done_def)
  then show ?thesis
    using assms(2,3) Some x
    by (auto simp: consume_positionals_def Let_def split: if_splits list.splits arg_token.splits)
qed

lemma level_step_ok:
  assumes "level_ok T p" and "level_step p ts st = Inr (ts', st')" and "\<forall>t \<in> set ts. token_ok (ps_level p) t" and "state_ok T p st"
  shows "state_ok T p st' \<and> set ts' \<subseteq> set ts"
proof (cases "\<exists>s k f e rest. ts = TOption s k f e # rest")
  case True
  then obtain s k f e rest where t: "ts = TOption s k f e # rest" by blast
  then have "\<forall>o1. k = Some o1 \<longrightarrow> o1 \<in> set (al_options (ps_level p))"
    using assms(3) by (simp add: token_ok_def)
  from consume_optional_ok [OF assms(1) _ this assms(4), of s f e rest ts' st'] show ?thesis
    using assms(2) t by (auto simp: level_step_def)
next
  case False
  then obtain ts1 st1 where "consume_positionals p ts st = Inr (ts1, st1)"
    "(ts', st') = (if length ts1 < length ts then (ts1, st1) else (dropWhile (\<lambda>t. \<not> is_option t) ts,
        st1\<lparr>ls_extras := ls_extras st1 @ map tok_text (takeWhile (\<lambda>t. \<not> is_option t) ts)\<rparr>))"
    using assms(2) by (auto simp: level_step_def rmap_Inr_conv split: list.splits arg_token.splits)
  with consume_positionals_ok [OF assms(1) this(1) assms(4)] show ?thesis
    by (auto simp: state_ok_seen split: if_splits dest: set_dropWhileD)
qed

lemma parse_level_ok:
  assumes "level_ok T p" and "parse_level p ts st = Inr st'" and "\<forall>t \<in> set ts. token_ok (ps_level p) t" and "state_ok T p st"
  shows "state_ok T p st'"
  using assms
proof (induction p ts st rule: parse_level.induct)
  case (1 p ts st)
  show ?case
  proof (cases "list_ex is_option ts")
    case True
    then obtain ts1 st1 where step: "level_step p ts st = Inr (ts1, st1)" and rest: "parse_level p ts1 st1 = Inr st'"
      using 1(3) by (subst (asm) parse_level.simps) (auto simp: rbind_Inr_conv)
    have "state_ok T p st1 \<and> set ts1 \<subseteq> set ts"
      by (rule level_step_ok [OF 1(2) step 1(4,5)])
    then show ?thesis
      using 1(1) [OF True step] 1(2) rest 1(4) by auto
  next
    case False
    then obtain ts1 st1 where "consume_positionals p ts st = Inr (ts1, st1)" "st' = st1\<lparr>ls_extras := ls_extras st1 @ map tok_text ts1\<rparr>"
      using 1(3) by (subst (asm) parse_level.simps) (auto simp: rmap_Inr_conv)
    then show ?thesis
      using consume_positionals_ok [OF 1(2) _ 1(5)] by (auto simp: state_ok_seen)
  qed
qed

lemma positionals_taken: "ps_subs p = None \<Longrightarrow> consume_positionals p ts st = Inr (ts', st') \<Longrightarrow> \<not> ls_waits st'"
  by (auto simp: consume_positionals_def Let_def rmap_Inr_conv store_def split: if_splits option.splits arg_nargs.splits list.splits)

lemma parse_level_done: "parse_level p ts st = Inr st' \<Longrightarrow> ps_subs p = None \<Longrightarrow> \<not> ls_waits st'"
proof (induction p ts st rule: parse_level.induct)
  case (1 p ts st)
  show ?case
  proof (cases "list_ex is_option ts")
    case True
    then obtain x where "level_step p ts st = Inr x" "parse_level p (fst x) (snd x) = Inr st'"
      using 1(2) by (subst (asm) parse_level.simps) (auto simp: rbind_Inr_conv)
    then show ?thesis using 1(1) True 1(3) by blast
  next
    case False
    then show ?thesis
      using 1(2,3) positionals_taken by (subst (asm) parse_level.simps) (auto simp: rmap_Inr_conv)
  qed
qed

section \<open>All levels\<close>

lemma level_start_ok: "level_ok T p \<Longrightarrow> state_ok T p (level_start p)"
  using add_missing_typed [of T "[]" "level_defaults p"] by (auto simp: state_ok_def level_start_def level_ok_def positional_done_def)

text \<open>What a parser returns: the attributes of its level, and, when there is a sub-command, those of this
  one over them.\<close>

lemma parse_known_args_ok:
  assumes "parse_known_args (Parser l sb) args = Inr (ns, extras)"
  obtains st where "\<And>T. level_ok T (Parser l sb) \<Longrightarrow> state_ok T (Parser l sb) st" "level_complete (Parser l sb) st"
      "ls_sub st = None \<or> sb = None" "ns = ls_ns st" "sb = None \<longrightarrow> \<not> ls_waits st"
    | st dest req subs name q rest ns' extras' where "\<And>T. level_ok T (Parser l sb) \<Longrightarrow> state_ok T (Parser l sb) st"
      "sb = Some (dest, req, subs)" "map_of subs name = Some q" "ls_sub st = Some (name, rest)"
      "parse_known_args q rest = Inr (ns', extras')" "ns = copy_all ns' (ls_ns st)"
proof -
  obtain ts st where ts: "classify l args = Inr ts" and st: "parse_level (Parser l sb) ts (level_start (Parser l sb)) = Inr st"
    and complete: "level_complete (Parser l sb) st"
    and r: "(case sb of
              None \<Rightarrow> Inr (ls_ns st, ls_extras st)
            | Some (dest, req, subs) \<Rightarrow>
                (case ls_sub st of
                   None \<Rightarrow> Inr (ls_ns st, ls_extras st)
                 | Some (name, rest) \<Rightarrow>
                     (case map_of subs name of
                        None \<Rightarrow> usage_error
                      | Some q \<Rightarrow> rmap (\<lambda>(ns, extras). (copy_all ns (ls_ns st), ls_extras st @ extras)) (parse_known_args q rest))))
        = Inr (ns, extras)"
    using assms by (subst (asm) parse_known_args.simps) (auto simp: rbind_Inr_conv split: if_splits)
  have ok: "state_ok T (Parser l sb) st" if "level_ok T (Parser l sb)" for T
    using parse_level_ok [OF that st _ level_start_ok [OF that]] classify_ok [OF ts] by simp
  show thesis
  proof (cases "sb = None \<or> ls_sub st = None")
    case True
    then have "ns = ls_ns st" using r by (auto split: option.splits)
    moreover have "sb = None \<longrightarrow> \<not> ls_waits st"
      using parse_level_done [OF st] by simp
    ultimately show thesis using that(1) ok complete True by blast
  next
    case False
    then obtain dest req subs name rest where s: "sb = Some (dest, req, subs)" "ls_sub st = Some (name, rest)"
      by (cases sb, simp, cases "ls_sub st") auto
    then obtain q ns' extras' where "map_of subs name = Some q" "parse_known_args q rest = Inr (ns', extras')"
      "ns = copy_all ns' (ls_ns st)"
      using r by (auto simp: rmap_Inr_conv split: option.splits)
    then show thesis using that(2) ok s by blast
  qed
qed

lemma state_ok_ns:
  "state_ok T p st \<Longrightarrow> ns_typed T (ls_ns st) \<and> fst ` set (level_defaults p) \<subseteq> ns_keys (ls_ns st)"
  by (simp add: state_ok_def)

lemma state_ok_sub:
  assumes "state_ok T (Parser l (Some (dest, req, subs))) st" and "ls_sub st = Some (name, rest)"
  shows "dict_get (ls_ns st) dest = Some (VStr name)"
  using assms by (auto simp: state_ok_def)

lemma state_ok_positional:
  assumes "state_ok T (Parser l None) st" and "\<not> ls_waits st" and "al_positional l = Some a"
  shows "\<exists>v \<in> positional_values a. dict_get (ls_ns st) (ap_dest a) = Some v"
  using assms by (simp add: state_ok_def positional_done_def)

text \<open>The attributes of a parser without sub-commands.\<close>

lemma leaf_attributes:
  assumes "parse_known_args (Parser l None) args = Inr (ns, extras)" and "level_ok T (Parser l None)"
  shows "ns_typed T ns" "fst ` set (level_defaults (Parser l None)) \<subseteq> ns_keys ns"
    "\<And>a. al_positional l = Some a \<Longrightarrow> \<exists>v \<in> positional_values a. dict_get ns (ap_dest a) = Some v"
proof -
  obtain st where st: "state_ok T (Parser l None) st" "ns = ls_ns st" "\<not> ls_waits st"
    using assms(2) by (rule_tac parse_known_args_ok [OF assms(1)]) auto
  show "ns_typed T ns" "fst ` set (level_defaults (Parser l None)) \<subseteq> ns_keys ns"
    using state_ok_ns [OF st(1)] st(2) by simp_all
  show "\<exists>v \<in> positional_values a. dict_get ns (ap_dest a) = Some v" if "al_positional l = Some a" for a
    using state_ok_positional [OF st(1,3) that] st(2) by simp
qed

end
