(* ===== verification/CtlArgs.thy ===== *)
theory CtlArgs imports ArgparseSafety CtlRun begin

text \<open>
  The command line of \<^verbatim>\<open>fatbuildr/cli/fatbuildrctl.py\<close>: the parsers that \<^verbatim>\<open>Fatbuildrctl.__init__\<close> declares, the
  attributes that each action reads, which raise \<^verbatim>\<open>AttributeError\<close> when no parser has set them, and the
  program from its arguments. The path of the preferences is a parameter, as is their content.
\<close>

section \<open>Declarations\<close>

definition opt :: "string list \<Rightarrow> string \<Rightarrow> arg_option" where
  "opt flags dest = \<lparr>ao_flags = flags, ao_dest = dest, ao_action = ActStore, ao_required = False, ao_default = VNone\<rparr>"

definition flag :: "string list \<Rightarrow> string \<Rightarrow> arg_option" where
  "flag flags dest = \<lparr>ao_flags = flags, ao_dest = dest, ao_action = ActStoreTrue, ao_required = False, ao_default = VBool False\<rparr>"

definition show_opt :: "string list \<Rightarrow> string \<Rightarrow> arg_option" where
  "show_opt flags dest = \<lparr>ao_flags = flags, ao_dest = dest, ao_action = ActShow, ao_required = False, ao_default = VNone\<rparr>"

definition help_opt :: arg_option where
  "help_opt = show_opt [''-h'', ''--help''] ''help''"

definition batch_opt :: arg_option where
  "batch_opt = flag [''--batch''] ''batch''"

definition format_opt :: arg_option where
  "format_opt = opt [''-f'', ''--format''] ''format''"

definition distribution_opt :: arg_option where
  "distribution_opt = opt [''-d'', ''--distribution''] ''distribution''"

definition derivative_opt :: arg_option where
  "derivative_opt = (opt [''--derivative''] ''derivative'')\<lparr>ao_default := VStr ''main''\<rparr>"

definition architecture_opt :: arg_option where
  "architecture_opt = opt [''-a'', ''--architecture''] ''architecture''"

definition artifact_opt :: arg_option where
  "artifact_opt = opt [''-a'', ''--artifact''] ''artifact''"

definition sources_opt :: arg_option where
  "sources_opt = \<lparr>ao_flags = [''--sources''], ao_dest = ''sources'', ao_action = ActStoreList, ao_required = False, ao_default = VList []\<rparr>"

definition untracked_opt :: arg_option where
  "untracked_opt = flag [''--include-git-untracked''] ''include_git_untracked''"

definition command_arg :: arg_positional where
  "command_arg = \<lparr>ap_dest = ''command'', ap_nargs = NStar, ap_choices = None, ap_default = VNone\<rparr>"

definition operation_arg :: "string list \<Rightarrow> string \<Rightarrow> arg_positional" where
  "operation_arg choices d = \<lparr>ap_dest = ''operation'', ap_nargs = NOptional, ap_choices = Some choices, ap_default = VStr d\<rparr>"

definition leaf :: "arg_option list \<Rightarrow> arg_positional option \<Rightarrow> (string \<times> arg_val) list \<Rightarrow> arg_parser" where
  "leaf os a ds = Parser \<lparr>al_options = help_opt # os, al_positional = a, al_defaults = ds\<rparr> None"

definition images_operations :: "(string \<times> arg_parser) list" where
  "images_operations =
     [(''create'', leaf [format_opt, flag [''--force''] ''force'', batch_opt] None []),
      (''update'', leaf [format_opt, batch_opt] None []),
      (''shell'', leaf [format_opt] (Some command_arg) []),
      (''env-create'', leaf [format_opt, distribution_opt, architecture_opt, batch_opt] None []),
      (''env-update'', leaf [format_opt, distribution_opt, architecture_opt, batch_opt] None []),
      (''env-shell'', leaf [format_opt, distribution_opt, architecture_opt] (Some command_arg) [])]"

definition parser_images :: arg_parser where
  "parser_images = Parser \<lparr>al_options = [help_opt], al_positional = None, al_defaults = [(''func'', VFunc ''images'')]\<rparr>
     (Some (''operation'', True, images_operations))"

definition parser_keyring :: arg_parser where
  "parser_keyring = leaf [opt [''--duration''] ''duration'', batch_opt]
     (Some (operation_arg [''show'', ''export'', ''create'', ''renew''] ''show'')) [(''func'', VFunc ''keyring'')]"

definition parser_build :: arg_parser where
  "parser_build = leaf
     [artifact_opt\<lparr>ao_required := True\<rparr>, distribution_opt, format_opt, derivative_opt, opt [''-b'', ''--basedir''] ''basedir'',
      opt [''-s'', ''--subdir''] ''subdir'', sources_opt, untracked_opt, opt [''-n'', ''--name''] ''name'',
      opt [''-e'', ''--email''] ''email'', opt [''-m'', ''--msg''] ''msg'', batch_opt, flag [''-i'', ''--interactive''] ''interactive'']
     None [(''func'', VFunc ''build'')]"

definition parser_list :: arg_parser where
  "parser_list = leaf [] None [(''func'', VFunc ''list'')]"

definition parser_patches :: arg_parser where
  "parser_patches = leaf
     [artifact_opt\<lparr>ao_required := True\<rparr>, derivative_opt, opt [''-b'', ''--basedir''] ''basedir'', opt [''-s'', ''--subdir''] ''subdir'',
      opt [''-n'', ''--name''] ''name'', opt [''-e'', ''--email''] ''email'', sources_opt, untracked_opt]
     None [(''func'', VFunc ''patches'')]"

definition parser_watch :: arg_parser where
  "parser_watch = leaf [] (Some \<lparr>ap_dest = ''task'', ap_nargs = NOptional, ap_choices = None, ap_default = VNone\<rparr>)
     [(''func'', VFunc ''watch'')]"

definition parser_history :: arg_parser where
  "parser_history = leaf [batch_opt] (Some (operation_arg [''purge'', ''list''] ''list'')) [(''func'', VFunc ''history'')]"

definition parser_registry :: arg_parser where
  "parser_registry = leaf [distribution_opt\<lparr>ao_required := True\<rparr>, derivative_opt, artifact_opt]
     (Some (operation_arg [''list'', ''delete''] ''list'')) [(''func'', VFunc ''registry'')]"

definition tokens_operations :: "(string \<times> arg_parser) list" where
  "tokens_operations = [(''list'', leaf [] None []), (''generate'', leaf [] None []), (''save'', leaf [opt [''--uri''] ''uri''] None [])]"

definition parser_tokens :: arg_parser where
  "parser_tokens = Parser \<lparr>al_options = [help_opt], al_positional = None, al_defaults = [(''func'', VFunc ''tokens'')]\<rparr>
     (Some (''operation'', False, tokens_operations))"

definition ctl_actions :: "(string \<times> arg_parser) list" where
  "ctl_actions = [(''images'', parser_images), (''keyring'', parser_keyring), (''build'', parser_build), (''list'', parser_list),
     (''patches'', parser_patches), (''watch'', parser_watch), (''history'', parser_history), (''registry'', parser_registry),
     (''tokens'', parser_tokens)]"

definition ctl_options :: "string \<Rightarrow> arg_option list" where
  "ctl_options preferences =
     [help_opt, show_opt [''-v'', ''--version''] ''version'', flag [''--debug''] ''debug'', flag [''--fulldebug''] ''fulldebug'',
      (opt [''--preferences''] ''preferences'')\<lparr>ao_default := VStr preferences\<rparr>, opt [''--uri''] ''uri'']"

definition ctl_parser :: "string \<Rightarrow> arg_parser" where
  "ctl_parser preferences = Parser \<lparr>al_options = ctl_options preferences, al_positional = None, al_defaults = []\<rparr>
     (Some (''action'', True, ctl_actions))"

section \<open>Attributes that are read\<close>

definition ns_attr :: "namespace \<Rightarrow> string \<Rightarrow> arg_val res" where
  "ns_attr ns k = (case dict_get ns k of None \<Rightarrow> Inl AttributeErr | Some v \<Rightarrow> Inr v)"

definition str_attr :: "namespace \<Rightarrow> string \<Rightarrow> string option res" where
  "str_attr ns k = rbind (ns_attr ns k) (\<lambda>v. case v of VNone \<Rightarrow> Inr None | VStr s \<Rightarrow> Inr (Some s) | _ \<Rightarrow> Inl TypeErr)"

definition bool_attr :: "namespace \<Rightarrow> string \<Rightarrow> bool res" where
  "bool_attr ns k = rbind (ns_attr ns k) (\<lambda>v. case v of VBool b \<Rightarrow> Inr b | _ \<Rightarrow> Inl TypeErr)"

definition list_attr :: "namespace \<Rightarrow> string \<Rightarrow> string list res" where
  "list_attr ns k = rbind (ns_attr ns k) (\<lambda>v. case v of VList l \<Rightarrow> Inr l | _ \<Rightarrow> Inl TypeErr)"

definition plain_str :: "string option \<Rightarrow> string" where
  "plain_str x = (case x of None \<Rightarrow> [] | Some s \<Rightarrow> s)"

definition no_args :: ctl_args where
  "no_args = \<lparr>op_operation = [], op_uri = None, op_format = None, op_distribution = None, op_architecture = None,
     op_derivative = [], op_artifact = None, op_batch = False, op_force = False, op_interactive = False,
     op_include_untracked = False, op_command = [], op_duration = None, op_basedir = None, op_subdir = None, op_name = None,
     op_email = None, op_msg = None, op_sources = [], op_task = None\<rparr>"

text \<open>A field that is read from an attribute.\<close>

definition reads :: "(namespace \<Rightarrow> string \<Rightarrow> 'a res) \<Rightarrow> string \<Rightarrow> ('a \<Rightarrow> ctl_args \<Rightarrow> ctl_args) \<Rightarrow> namespace \<Rightarrow> ctl_args \<Rightarrow> ctl_args res" where
  "reads get k upd ns a = rmap (\<lambda>v. upd v a) (get ns k)"

fun reads_all :: "(namespace \<Rightarrow> ctl_args \<Rightarrow> ctl_args res) list \<Rightarrow> namespace \<Rightarrow> ctl_args \<Rightarrow> ctl_args res" where
  "reads_all [] ns a = Inr a"
| "reads_all (r # rs) ns a = rbind (r ns a) (reads_all rs ns)"

type_synonym ctl_read = "namespace \<Rightarrow> ctl_args \<Rightarrow> ctl_args res"

definition r_uri :: ctl_read where "r_uri = reads str_attr ''uri'' (\<lambda>v a. a\<lparr>op_uri := v\<rparr>)"
definition r_operation :: ctl_read where "r_operation = reads str_attr ''operation'' (\<lambda>v a. a\<lparr>op_operation := plain_str v\<rparr>)"
definition r_format :: ctl_read where "r_format = reads str_attr ''format'' (\<lambda>v a. a\<lparr>op_format := v\<rparr>)"
definition r_distribution :: ctl_read where "r_distribution = reads str_attr ''distribution'' (\<lambda>v a. a\<lparr>op_distribution := v\<rparr>)"
definition r_architecture :: ctl_read where "r_architecture = reads str_attr ''architecture'' (\<lambda>v a. a\<lparr>op_architecture := v\<rparr>)"
definition r_derivative :: ctl_read where "r_derivative = reads str_attr ''derivative'' (\<lambda>v a. a\<lparr>op_derivative := plain_str v\<rparr>)"
definition r_artifact :: ctl_read where "r_artifact = reads str_attr ''artifact'' (\<lambda>v a. a\<lparr>op_artifact := v\<rparr>)"
definition r_batch :: ctl_read where "r_batch = reads bool_attr ''batch'' (\<lambda>v a. a\<lparr>op_batch := v\<rparr>)"
definition r_force :: ctl_read where "r_force = reads bool_attr ''force'' (\<lambda>v a. a\<lparr>op_force := v\<rparr>)"
definition r_interactive :: ctl_read where "r_interactive = reads bool_attr ''interactive'' (\<lambda>v a. a\<lparr>op_interactive := v\<rparr>)"
definition r_untracked :: ctl_read where
  "r_untracked = reads bool_attr ''include_git_untracked'' (\<lambda>v a. a\<lparr>op_include_untracked := v\<rparr>)"
definition r_command :: ctl_read where "r_command = reads list_attr ''command'' (\<lambda>v a. a\<lparr>op_command := v\<rparr>)"
definition r_duration :: ctl_read where "r_duration = reads str_attr ''duration'' (\<lambda>v a. a\<lparr>op_duration := v\<rparr>)"
definition r_basedir :: ctl_read where "r_basedir = reads str_attr ''basedir'' (\<lambda>v a. a\<lparr>op_basedir := v\<rparr>)"
definition r_subdir :: ctl_read where "r_subdir = reads str_attr ''subdir'' (\<lambda>v a. a\<lparr>op_subdir := v\<rparr>)"
definition r_name :: ctl_read where "r_name = reads str_attr ''name'' (\<lambda>v a. a\<lparr>op_name := v\<rparr>)"
definition r_email :: ctl_read where "r_email = reads str_attr ''email'' (\<lambda>v a. a\<lparr>op_email := v\<rparr>)"
definition r_msg :: ctl_read where "r_msg = reads str_attr ''msg'' (\<lambda>v a. a\<lparr>op_msg := v\<rparr>)"
definition r_sources :: ctl_read where "r_sources = reads list_attr ''sources'' (\<lambda>v a. a\<lparr>op_sources := v\<rparr>)"
definition r_task :: ctl_read where "r_task = reads str_attr ''task'' (\<lambda>v a. a\<lparr>op_task := v\<rparr>)"

lemmas r_defs = r_uri_def r_operation_def r_format_def r_distribution_def r_architecture_def r_derivative_def r_artifact_def
  r_batch_def r_force_def r_interactive_def r_untracked_def r_command_def r_duration_def r_basedir_def r_subdir_def
  r_name_def r_email_def r_msg_def r_sources_def r_task_def

text \<open>The attributes that the actions read, those on images by their operation. Only the selection of
  formats asks whether there is a distribution.\<close>

definition images_reads :: "string \<Rightarrow> ctl_read list" where
  "images_reads op1 =
     (if op1 = ''create'' then [r_format, r_batch, r_force]
      else if op1 = ''update'' then [r_format, r_batch]
      else if op1 = ''shell'' then [r_format, r_command]
      else if op1 = ''env-create'' \<or> op1 = ''env-update'' then [r_distribution, r_format, r_architecture, r_batch]
      else if op1 = ''env-shell'' then [r_distribution, r_format, r_architecture, r_command]
      else [])"

fun action_reads :: "ctl_action \<Rightarrow> ctl_read list" where
  "action_reads ActImages = [r_operation, (\<lambda>ns a. reads_all (images_reads (op_operation a)) ns a)]"
| "action_reads ActKeyring = [r_operation, r_batch, r_duration]"
| "action_reads ActBuild = [r_artifact, r_interactive, r_basedir, r_subdir, r_name, r_email, r_msg, r_distribution, r_format,
     r_derivative, r_sources, r_untracked, r_batch]"
| "action_reads ActList = []"
| "action_reads ActPatches = [r_basedir, r_subdir, r_artifact, r_name, r_email, r_derivative, r_sources, r_untracked]"
| "action_reads ActWatch = [r_task]"
| "action_reads ActHistory = [r_operation, r_batch]"
| "action_reads ActRegistry = [r_distribution, r_derivative, r_artifact, r_operation]"
| "action_reads ActTokens = [r_operation]"

definition ctl_functions :: "(string \<times> ctl_action) list" where
  "ctl_functions = [(''images'', ActImages), (''keyring'', ActKeyring), (''build'', ActBuild), (''list'', ActList),
     (''patches'', ActPatches), (''watch'', ActWatch), (''history'', ActHistory), (''registry'', ActRegistry), (''tokens'', ActTokens)]"

text \<open>The options and the action; no action when the parser set no function.\<close>

definition ctl_command :: "namespace \<Rightarrow> (ctl_args \<times> ctl_action option) res" where
  "ctl_command ns =
     rbind (r_uri ns no_args) (\<lambda>a0.
     case dict_get ns ''func'' of
       None \<Rightarrow> Inr (a0, None)
     | Some (VFunc f) \<Rightarrow>
         (case map_of ctl_functions f of
            None \<Rightarrow> Inl AttributeErr
          | Some act \<Rightarrow> rmap (\<lambda>a. (a, Some act)) (reads_all (action_reads act) ns a0))
     | Some _ \<Rightarrow> Inl TypeErr)"

definition fatbuildrctl :: "nat \<Rightarrow> 'w ctl_env \<Rightarrow> string \<Rightarrow> string list \<Rightarrow> ('w, bool) cuact" where
  "fatbuildrctl n E preferences argv =
     sbind (slift (rbind (parse_args (ctl_parser preferences) argv) ctl_command)) (\<lambda>(a, act). Fatbuildrctl n E a act)"

end
