(* ===== verification/CtlArgsSafety.thy ===== *)
theory CtlArgsSafety imports CtlArgs begin

text \<open>
  The command line of \<^verbatim>\<open>fatbuildrctl\<close>: whatever the arguments are, the attributes that the chosen action
  reads are there, with the types it takes them for; and an address that is given before the
  sub-command which declares the same option is lost.
\<close>

section \<open>Types of attributes\<close>

definition bool_keys :: "string set" where
  "bool_keys = {''batch'', ''force'', ''interactive'', ''include_git_untracked'', ''debug'', ''fulldebug''}"

definition list_keys :: "string set" where
  "list_keys = {''sources'', ''command''}"

definition ctl_types :: "string \<Rightarrow> arg_types" where
  "ctl_types f k =
     (if k = ''func'' then {VFunc f} else if k \<in> bool_keys then range VBool
      else if k = ''sources'' then range VList else if k = ''command'' then insert VNone (range VList)
      else insert VNone (range VStr))"

lemmas declarations = opt_def flag_def show_opt_def help_opt_def batch_opt_def format_opt_def distribution_opt_def derivative_opt_def
  architecture_opt_def artifact_opt_def sources_opt_def untracked_opt_def command_arg_def operation_arg_def

lemmas level_checks = level_ok_def option_ok_def positional_ok_def level_defaults_def ctl_types_def bool_keys_def

lemma main_ok: "level_ok (ctl_types f) (ctl_parser preferences)"
  by (simp add: ctl_parser_def ctl_options_def level_checks declarations subset_iff rangeI)

lemma leaves_ok:
  "level_ok (ctl_types ''keyring'') parser_keyring" "level_ok (ctl_types ''build'') parser_build"
  "level_ok (ctl_types ''list'') parser_list" "level_ok (ctl_types ''patches'') parser_patches"
  "level_ok (ctl_types ''watch'') parser_watch" "level_ok (ctl_types ''history'') parser_history"
  "level_ok (ctl_types ''registry'') parser_registry"
  "level_ok (ctl_types ''images'') parser_images" "level_ok (ctl_types ''tokens'') parser_tokens"
  by (simp_all add: parser_keyring_def parser_build_def parser_list_def parser_patches_def parser_watch_def parser_history_def
      parser_registry_def parser_images_def parser_tokens_def leaf_def level_checks declarations subset_iff rangeI)

lemma operations_all_ok:
  "list_all (\<lambda>(n, q). level_ok (ctl_types f) q) images_operations" "list_all (\<lambda>(n, q). level_ok (ctl_types f) q) tokens_operations"
  by (simp_all add: images_operations_def tokens_operations_def leaf_def level_checks declarations subset_iff rangeI)

lemma operations_ok:
  "map_of images_operations op1 = Some q \<Longrightarrow> level_ok (ctl_types f) q"
  "map_of tokens_operations op1 = Some q \<Longrightarrow> level_ok (ctl_types f) q"
  using operations_all_ok [of f] map_of_SomeD [of images_operations op1 q] map_of_SomeD [of tokens_operations op1 q]
  unfolding list_all_iff by fastforce+

text \<open>None of them has an attribute named as the one for their name.\<close>

lemma operations_no_name:
  "map_of images_operations op1 = Some q \<Longrightarrow> level_ok ((ctl_types f)(''operation'' := {})) q"
proof -
  have "list_all (\<lambda>(n, q). level_ok ((ctl_types f)(''operation'' := {})) q) images_operations"
    by (simp add: images_operations_def leaf_def level_checks declarations subset_iff rangeI)
  then show "map_of images_operations op1 = Some q \<Longrightarrow> level_ok ((ctl_types f)(''operation'' := {})) q"
    using map_of_SomeD [of images_operations op1 q] unfolding list_all_iff by fastforce
qed

section \<open>Reads\<close>

definition readable :: "namespace \<Rightarrow> ctl_read \<Rightarrow> bool" where
  "readable ns r \<longleftrightarrow> (\<forall>a. \<exists>a'. r ns a = Inr a')"

lemma reads_all_ok: "\<forall>r \<in> set rs. readable ns r \<Longrightarrow> \<exists>a'. reads_all rs ns a = Inr a'"
proof (induction rs arbitrary: a)
  case (Cons r rs)
  then have "readable ns r" by simp
  then obtain a1 where "r ns a = Inr a1" unfolding readable_def by blast
  with Cons show ?case by simp
qed simp

lemma str_readable:
  assumes "ns_typed (ctl_types f) ns" and "k \<in> ns_keys ns" and "k \<notin> bool_keys" and "k \<notin> list_keys" and "k \<noteq> ''func''"
  shows "readable ns (reads str_attr k upd)"
proof -
  obtain v where "dict_get ns k = Some v" "v \<in> ctl_types f k"
    using assms(1,2) by (auto simp: ns_typed_def ns_keys_get)
  then show ?thesis
    using assms(3-5) by (auto simp: readable_def reads_def str_attr_def ns_attr_def ctl_types_def list_keys_def)
qed

lemma bool_readable:
  assumes "ns_typed (ctl_types f) ns" and "k \<in> ns_keys ns" and "k \<in> bool_keys"
  shows "readable ns (reads bool_attr k upd)"
proof -
  obtain v where "dict_get ns k = Some v" "v \<in> ctl_types f k"
    using assms(1,2) by (auto simp: ns_typed_def ns_keys_get)
  then show ?thesis
    using assms(3) by (auto simp: readable_def reads_def bool_attr_def ns_attr_def ctl_types_def bool_keys_def)
qed

lemma sources_readable:
  assumes "ns_typed (ctl_types f) ns" and "''sources'' \<in> ns_keys ns"
  shows "readable ns r_sources"
proof -
  obtain v where "dict_get ns ''sources'' = Some v" "v \<in> ctl_types f ''sources''"
    using assms by (auto simp: ns_typed_def ns_keys_get)
  then show ?thesis
    by (auto simp: readable_def r_sources_def reads_def list_attr_def ns_attr_def ctl_types_def bool_keys_def)
qed

text \<open>The attributes that \<open>r\<close> can read are those of the set \<open>K\<close>, with their types.\<close>

definition has_attributes :: "string \<Rightarrow> string set \<Rightarrow> namespace \<Rightarrow> bool" where
  "has_attributes f K ns \<longleftrightarrow> ns_typed (ctl_types f) ns \<and> K \<subseteq> ns_keys ns"

lemma has_readable:
  assumes "has_attributes f K ns"
  shows "''uri'' \<in> K \<Longrightarrow> readable ns r_uri" "''operation'' \<in> K \<Longrightarrow> readable ns r_operation"
    "''format'' \<in> K \<Longrightarrow> readable ns r_format" "''distribution'' \<in> K \<Longrightarrow> readable ns r_distribution"
    "''architecture'' \<in> K \<Longrightarrow> readable ns r_architecture" "''derivative'' \<in> K \<Longrightarrow> readable ns r_derivative"
    "''artifact'' \<in> K \<Longrightarrow> readable ns r_artifact" "''batch'' \<in> K \<Longrightarrow> readable ns r_batch" "''force'' \<in> K \<Longrightarrow> readable ns r_force"
    "''interactive'' \<in> K \<Longrightarrow> readable ns r_interactive" "''include_git_untracked'' \<in> K \<Longrightarrow> readable ns r_untracked"
    "''duration'' \<in> K \<Longrightarrow> readable ns r_duration" "''basedir'' \<in> K \<Longrightarrow> readable ns r_basedir" "''subdir'' \<in> K \<Longrightarrow> readable ns r_subdir"
    "''name'' \<in> K \<Longrightarrow> readable ns r_name" "''email'' \<in> K \<Longrightarrow> readable ns r_email" "''msg'' \<in> K \<Longrightarrow> readable ns r_msg"
    "''sources'' \<in> K \<Longrightarrow> readable ns r_sources" "''task'' \<in> K \<Longrightarrow> readable ns r_task"
proof -
  have str: "k \<in> K \<Longrightarrow> k \<notin> bool_keys \<union> list_keys \<union> {''func''} \<Longrightarrow> readable ns (reads str_attr k upd)" for k upd
    using assms str_readable [of f ns k upd] by (auto simp: has_attributes_def)
  have bool: "k \<in> K \<Longrightarrow> k \<in> bool_keys \<Longrightarrow> readable ns (reads bool_attr k upd)" for k upd
    using assms bool_readable [of f ns k upd] by (auto simp: has_attributes_def)
  show "''sources'' \<in> K \<Longrightarrow> readable ns r_sources"
    using assms sources_readable by (auto simp: has_attributes_def)
  show "''uri'' \<in> K \<Longrightarrow> readable ns r_uri" "''operation'' \<in> K \<Longrightarrow> readable ns r_operation" "''format'' \<in> K \<Longrightarrow> readable ns r_format" "''distribution'' \<in> K \<Longrightarrow> readable ns r_distribution" "''architecture'' \<in> K \<Longrightarrow> readable ns r_architecture" "''derivative'' \<in> K \<Longrightarrow> readable ns r_derivative" "''artifact'' \<in> K \<Longrightarrow> readable ns r_artifact" "''duration'' \<in> K \<Longrightarrow> readable ns r_duration" "''basedir'' \<in> K \<Longrightarrow> readable ns r_basedir" "''subdir'' \<in> K \<Longrightarrow> readable ns r_subdir" "''name'' \<in> K \<Longrightarrow> readable ns r_name" "''email'' \<in> K \<Longrightarrow> readable ns r_email" "''msg'' \<in> K \<Longrightarrow> readable ns r_msg" "''task'' \<in> K \<Longrightarrow> readable ns r_task"
    unfolding r_defs by (rule str, assumption, simp add: bool_keys_def list_keys_def)+
  show "''batch'' \<in> K \<Longrightarrow> readable ns r_batch" "''force'' \<in> K \<Longrightarrow> readable ns r_force" "''interactive'' \<in> K \<Longrightarrow> readable ns r_interactive" "''include_git_untracked'' \<in> K \<Longrightarrow> readable ns r_untracked"
    unfolding r_defs by (rule bool, assumption, simp add: bool_keys_def list_keys_def)+
qed

section \<open>Levels\<close>

text \<open>A level with a required sub-command has the attributes of the sub-command over its own.\<close>

lemma level_with_sub:
  assumes "parse_known_args (Parser l (Some (dest, req, subs))) args = Inr (ns, extras)"
    and "level_ok (ctl_types f) (Parser l (Some (dest, req, subs)))"
  obtains (none) "\<not> req" "has_attributes f (fst ` set (level_defaults (Parser l (Some (dest, req, subs))))) ns"
    | (sub) name q rest ns' extras' ns1 where "map_of subs name = Some q" "parse_known_args q rest = Inr (ns', extras')"
      "ns = copy_all ns' ns1" "has_attributes f (fst ` set (level_defaults (Parser l (Some (dest, req, subs))))) ns1"
      "dict_get ns1 dest = Some (VStr name)"
proof (rule parse_known_args_ok [OF assms(1)], goal_cases)
  case (1 st)
  then show thesis
    using state_ok_ns [OF 1(3) [OF assms(2)]] none
    by (auto simp: level_complete_def has_attributes_def split: bool.splits)
next
  case (2 st dest' req' subs' name q rest ns' extras')
  then show thesis
    using state_ok_ns [OF 2(3) [OF assms(2)]] state_ok_sub [OF 2(3) [OF assms(2)], of name rest] sub
    by (auto simp: has_attributes_def)
qed

lemma has_attributes_copy:
  "has_attributes f K ns' \<Longrightarrow> has_attributes f K1 ns1 \<Longrightarrow> has_attributes f (K \<union> K1) (copy_all ns' ns1)"
  unfolding has_attributes_def using copy_all_typed copy_all_keys by blast

lemma has_attributes_mono: "has_attributes f K ns \<Longrightarrow> K' \<subseteq> K \<Longrightarrow> has_attributes f K' ns"
  by (auto simp: has_attributes_def)

lemma copied_get: "has_attributes f K ns' \<Longrightarrow> dict_get ns' k = Some v \<Longrightarrow> dict_get (copy_all ns' ns1) k = Some v"
  by (simp add: has_attributes_def ns_typed_def copy_all_get)

lemma copied_get_other: "has_attributes f K ns' \<Longrightarrow> dict_get ns' k = None \<Longrightarrow> dict_get (copy_all ns' ns1) k = dict_get ns1 k"
  by (simp add: has_attributes_def ns_typed_def copy_all_get)

text \<open>The attributes each action is run with.\<close>

definition leaf_keys :: "arg_parser \<Rightarrow> string set" where
  "leaf_keys p = fst ` set (level_defaults p)"

lemma leaf_has:
  assumes "parse_known_args (leaf os a ds) args = Inr (ns, extras)" and "level_ok (ctl_types f) (leaf os a ds)"
  shows "has_attributes f (leaf_keys (leaf os a ds)) ns"
    "\<And>x. a = Some x \<Longrightarrow> \<exists>v \<in> positional_values x. dict_get ns (ap_dest x) = Some v"
  using leaf_attributes [OF assms [unfolded leaf_def]] by (auto simp: has_attributes_def leaf_keys_def leaf_def)

definition action_runs :: "string \<Rightarrow> namespace \<Rightarrow> bool" where
  "action_runs f ns \<longleftrightarrow> dict_get ns ''func'' = Some (VFunc f) \<and>
     (\<exists>act a. map_of ctl_functions f = Some act \<and> reads_all (r_uri # action_reads act) ns no_args = Inr a)"

lemma func_get: "has_attributes f K ns \<Longrightarrow> ''func'' \<in> K \<Longrightarrow> dict_get ns ''func'' = Some (VFunc f)"
  by (auto simp: has_attributes_def ns_typed_def ns_keys_get subset_iff ctl_types_def) fastforce

lemma runsI:
  assumes "has_attributes f K ns" and "{''func'', ''uri''} \<subseteq> K" and "map_of ctl_functions f = Some act"
    and "\<forall>r \<in> set (action_reads act). readable ns r"
  shows "action_runs f ns"
  using func_get [OF assms(1)] has_readable(1) [OF assms(1)] assms(2-4) reads_all_ok [of "r_uri # action_reads act" ns no_args]
  unfolding action_runs_def by auto

section \<open>Every action\<close>

text \<open>The attributes that reach an action: those of its parser over those of the main one.\<close>

lemma main_over:
  assumes "has_attributes f K ns'" and "has_attributes f (leaf_keys (ctl_parser preferences)) ns1"
  shows "has_attributes f (K \<union> {''uri'', ''debug'', ''fulldebug'', ''preferences'', ''action''}) (copy_all ns' ns1)"
  using has_attributes_copy [OF assms]
  by (rule has_attributes_mono) (auto simp: leaf_keys_def ctl_parser_def ctl_options_def level_defaults_def declarations)

lemmas key_sets = leaf_keys_def leaf_def level_defaults_def declarations

text \<open>The parsers without sub-commands.\<close>

lemma leaf_runs:
  assumes "parse_known_args q rest = Inr (ns', extras)" and "has_attributes f (leaf_keys (ctl_parser preferences)) ns1"
    and "q = leaf os a ds" and "level_ok (ctl_types f) q" and "map_of ctl_functions f = Some act" and "''func'' \<in> leaf_keys q"
    and "\<And>ns. has_attributes f (leaf_keys q \<union> {''uri''}) ns \<Longrightarrow> \<forall>r \<in> set (action_reads act). readable ns r"
  shows "action_runs f (copy_all ns' ns1)"
proof -
  have "has_attributes f (leaf_keys q) ns'"
    using leaf_has(1) assms(1,3,4) by simp
  from main_over [OF this assms(2)] have has: "has_attributes f (leaf_keys q \<union> {''uri''}) (copy_all ns' ns1)"
    by (rule has_attributes_mono) auto
  show ?thesis
    by (rule runsI [OF has _ assms(5) assms(7) [OF has]]) (use assms(6) in auto)
qed

lemma keyring_reads: "has_attributes f (leaf_keys parser_keyring \<union> {''uri''}) ns \<Longrightarrow> \<forall>r \<in> set (action_reads ActKeyring). readable ns r"
  using has_readable [of f "leaf_keys parser_keyring \<union> {''uri''}" ns] by (simp add: parser_keyring_def key_sets)

lemma build_reads: "has_attributes f (leaf_keys parser_build \<union> {''uri''}) ns \<Longrightarrow> \<forall>r \<in> set (action_reads ActBuild). readable ns r"
  using has_readable [of f "leaf_keys parser_build \<union> {''uri''}" ns] by (simp add: parser_build_def key_sets)

lemma patches_reads: "has_attributes f (leaf_keys parser_patches \<union> {''uri''}) ns \<Longrightarrow> \<forall>r \<in> set (action_reads ActPatches). readable ns r"
  using has_readable [of f "leaf_keys parser_patches \<union> {''uri''}" ns] by (simp add: parser_patches_def key_sets)

lemma watch_reads: "has_attributes f (leaf_keys parser_watch \<union> {''uri''}) ns \<Longrightarrow> \<forall>r \<in> set (action_reads ActWatch). readable ns r"
  using has_readable [of f "leaf_keys parser_watch \<union> {''uri''}" ns] by (simp add: parser_watch_def key_sets)

lemma history_reads: "has_attributes f (leaf_keys parser_history \<union> {''uri''}) ns \<Longrightarrow> \<forall>r \<in> set (action_reads ActHistory). readable ns r"
  using has_readable [of f "leaf_keys parser_history \<union> {''uri''}" ns] by (simp add: parser_history_def key_sets)

lemma registry_reads: "has_attributes f (leaf_keys parser_registry \<union> {''uri''}) ns \<Longrightarrow> \<forall>r \<in> set (action_reads ActRegistry). readable ns r"
  using has_readable [of f "leaf_keys parser_registry \<union> {''uri''}" ns] by (simp add: parser_registry_def key_sets)

lemma leaf_func: "''func'' \<in> leaf_keys parser_keyring" "''func'' \<in> leaf_keys parser_build" "''func'' \<in> leaf_keys parser_list"
  "''func'' \<in> leaf_keys parser_patches" "''func'' \<in> leaf_keys parser_watch" "''func'' \<in> leaf_keys parser_history"
  "''func'' \<in> leaf_keys parser_registry"
  by (simp_all add: key_sets parser_keyring_def parser_build_def parser_list_def parser_patches_def parser_watch_def
      parser_history_def parser_registry_def)

text \<open>The operations on images, where the ones that run a command have its list.\<close>

lemma images_operation_reads:
  assumes "map_of images_operations op1 = Some q" and "parse_known_args q rest = Inr (ns', extras)"
    and "has_attributes f (leaf_keys q) ns" and "\<And>k v. dict_get ns' k = Some v \<Longrightarrow> dict_get ns k = Some v"
  shows "\<forall>r \<in> set (images_reads op1). readable ns r"
proof -
  have cmd: "readable ns r_command" if "q = leaf os (Some command_arg) ds" for os ds
  proof -
    have "level_ok (ctl_types f) q" by (rule operations_ok(1) [OF assms(1)])
    then have "\<exists>v \<in> positional_values command_arg. dict_get ns' (ap_dest command_arg) = Some v"
      using leaf_has(2) [OF assms(2) [unfolded that]] that by simp
    then obtain l where "dict_get ns' ''command'' = Some (VList l)"
      by (auto simp: positional_values_def command_arg_def)
    from assms(4) [OF this] show ?thesis
      by (simp add: readable_def r_command_def reads_def list_attr_def ns_attr_def)
  qed
  show ?thesis
    using assms(1) has_readable [OF assms(3)] cmd
    by (simp add: images_operations_def split: if_splits) (auto simp: key_sets images_reads_def)
qed

lemma images_runs:
  assumes "parse_known_args parser_images rest = Inr (ns', extras)" and "has_attributes ''images'' (leaf_keys (ctl_parser preferences)) ns1"
  shows "action_runs ''images'' (copy_all ns' ns1)"
proof -
  let ?p = "parser_images" and ?f = "''images''" and ?ns = "copy_all ns' ns1"
  have ok: "level_ok (ctl_types ?f) ?p" by (rule leaves_ok)
  note split = level_with_sub [OF assms(1) [unfolded parser_images_def] ok [unfolded parser_images_def], folded parser_images_def leaf_keys_def]
  show ?thesis
  proof (rule split, goal_cases)
    case 1
    then show ?case by simp
  next
    case (2 op1 q rest2 ns2 extras2 ns3)
    obtain os a ds where q: "q = leaf os a ds"
      using 2(1) by (auto simp: images_operations_def split: if_splits)
    have sub: "has_attributes ?f (leaf_keys q) ns2"
      using leaf_has(1) [of os a ds rest2 ns2 extras2 ?f] 2(2) operations_ok(1) [OF 2(1)] q by simp
    have images: "has_attributes ?f (leaf_keys q \<union> leaf_keys ?p) ns'"
      using has_attributes_copy [OF sub 2(4)] 2(3) by simp
    note has = main_over [OF images assms(2)]
    have "ns_typed ((ctl_types ?f)(''operation'' := {})) ns2"
      using leaf_attributes(1) [OF 2(2) [unfolded q leaf_def]] operations_no_name [OF 2(1), of ?f] q by (simp add: leaf_def)
    then have "dict_get ns2 ''operation'' = None"
      unfolding ns_typed_def by (metis empty_iff fun_upd_same not_None_eq)
    then have "dict_get ns' ''operation'' = Some (VStr op1)"
      using copied_get_other [OF sub, of "''operation''" ns3] 2(3,5) by simp
    from copied_get [OF images this] have op1: "r_operation ?ns b = Inr (b\<lparr>op_operation := op1\<rparr>)" for b
      by (simp add: r_operation_def reads_def str_attr_def ns_attr_def plain_str_def)
    have "\<forall>r \<in> set (images_reads op1). readable ?ns r"
    proof (rule images_operation_reads [OF 2(1,2)])
      show "has_attributes ?f (leaf_keys q) ?ns"
        by (rule has_attributes_mono [OF has]) blast
      show "dict_get ns2 k = Some v \<Longrightarrow> dict_get ?ns k = Some v" for k v
        using copied_get [OF images, of k v ns1] copied_get [OF sub, of k v ns3] 2(3) by simp
    qed
    then have reads: "\<exists>c. reads_all (images_reads op1) ?ns b = Inr c" for b
      using reads_all_ok by blast
    have "''func'' \<in> leaf_keys ?p"
      by (simp add: leaf_keys_def parser_images_def level_defaults_def declarations)
    then have func: "dict_get ?ns ''func'' = Some (VFunc ?f)" and "readable ?ns r_uri"
      using func_get [OF has] has_readable(1) [OF has] by auto
    then obtain a0 where a0: "r_uri ?ns no_args = Inr a0"
      unfolding readable_def by blast
    obtain c where "reads_all (images_reads op1) ?ns (a0\<lparr>op_operation := op1\<rparr>) = Inr c"
      using reads by blast
    then have "reads_all (r_uri # action_reads ActImages) ?ns no_args = Inr c"
      using op1 a0 by simp
    then show ?case
      using func unfolding action_runs_def by (auto simp: ctl_functions_def simp del: reads_all.simps action_reads.simps)
  qed
qed

lemma tokens_runs:
  assumes "parse_known_args parser_tokens rest = Inr (ns', extras)" and "has_attributes ''tokens'' (leaf_keys (ctl_parser preferences)) ns1"
  shows "action_runs ''tokens'' (copy_all ns' ns1)"
proof -
  let ?p = "parser_tokens" and ?f = "''tokens''"
  have ok: "level_ok (ctl_types ?f) ?p" by (rule leaves_ok)
  note split = level_with_sub [OF assms(1) [unfolded parser_tokens_def] ok [unfolded parser_tokens_def], folded parser_tokens_def leaf_keys_def]
  have "has_attributes ?f (leaf_keys ?p) ns'"
  proof (rule split, goal_cases)
    case (2 op1 q rest2 ns2 extras2 ns3)
    obtain os a ds where q: "q = leaf os a ds"
      using 2(1) by (auto simp: tokens_operations_def split: if_splits)
    have "has_attributes ?f (leaf_keys q) ns2"
      using leaf_has(1) [of os a ds rest2 ns2 extras2 ?f] 2(2) operations_ok(2) [OF 2(1)] q by simp
    then show ?case
      using has_attributes_copy [OF _ 2(4)] 2(3) has_attributes_mono by blast
  qed
  from main_over [OF this assms(2)] have has: "has_attributes ?f (leaf_keys ?p \<union> {''uri''}) (copy_all ns' ns1)"
    by (rule has_attributes_mono) auto
  show ?thesis
    by (rule runsI [OF has])
      (use has_readable(2) [OF has] in \<open>auto simp: ctl_functions_def leaf_keys_def parser_tokens_def level_defaults_def declarations\<close>)
qed

lemma single_runs:
  assumes "parse_known_args q rest = Inr (ns', extras)" and "\<And>f. has_attributes f (leaf_keys (ctl_parser preferences)) ns1"
  shows "q = parser_keyring \<Longrightarrow> action_runs ''keyring'' (copy_all ns' ns1)"
    and "q = parser_build \<Longrightarrow> action_runs ''build'' (copy_all ns' ns1)"
    and "q = parser_list \<Longrightarrow> action_runs ''list'' (copy_all ns' ns1)"
    and "q = parser_patches \<Longrightarrow> action_runs ''patches'' (copy_all ns' ns1)"
    and "q = parser_watch \<Longrightarrow> action_runs ''watch'' (copy_all ns' ns1)"
    and "q = parser_history \<Longrightarrow> action_runs ''history'' (copy_all ns' ns1)"
    and "q = parser_registry \<Longrightarrow> action_runs ''registry'' (copy_all ns' ns1)"
proof -
  show "action_runs ''keyring'' (copy_all ns' ns1)" if "q = parser_keyring"
    by (rule leaf_runs [OF assms, where act = ActKeyring])
      (use that leaves_ok leaf_func keyring_reads in \<open>simp_all add: parser_keyring_def ctl_functions_def\<close>)
  show "action_runs ''build'' (copy_all ns' ns1)" if "q = parser_build"
    by (rule leaf_runs [OF assms, where act = ActBuild])
      (use that leaves_ok leaf_func build_reads in \<open>simp_all add: parser_build_def ctl_functions_def\<close>)
  show "action_runs ''list'' (copy_all ns' ns1)" if "q = parser_list"
    by (rule leaf_runs [OF assms, where act = ActList])
      (use that leaves_ok leaf_func in \<open>simp_all add: parser_list_def ctl_functions_def\<close>)
  show "action_runs ''patches'' (copy_all ns' ns1)" if "q = parser_patches"
    by (rule leaf_runs [OF assms, where act = ActPatches])
      (use that leaves_ok leaf_func patches_reads in \<open>simp_all add: parser_patches_def ctl_functions_def\<close>)
  show "action_runs ''watch'' (copy_all ns' ns1)" if "q = parser_watch"
    by (rule leaf_runs [OF assms, where act = ActWatch])
      (use that leaves_ok leaf_func watch_reads in \<open>simp_all add: parser_watch_def ctl_functions_def\<close>)
  show "action_runs ''history'' (copy_all ns' ns1)" if "q = parser_history"
    by (rule leaf_runs [OF assms, where act = ActHistory])
      (use that leaves_ok leaf_func history_reads in \<open>simp_all add: parser_history_def ctl_functions_def\<close>)
  show "action_runs ''registry'' (copy_all ns' ns1)" if "q = parser_registry"
    by (rule leaf_runs [OF assms, where act = ActRegistry])
      (use that leaves_ok leaf_func registry_reads in \<open>simp_all add: parser_registry_def ctl_functions_def\<close>)
qed

text \<open>C25. Whatever the arguments of the command are, when they are accepted the action that is named is run
  and finds every attribute it reads, with a value of the type it takes it for: no argument makes the program
  end with an error of its own on a missing attribute.\<close>

theorem options_always_read:
  assumes "parse_args (ctl_parser preferences) argv = Inr ns"
  shows "\<exists>a act. ctl_command ns = Inr (a, Some act)"
proof -
  obtain extras where known: "parse_known_args (ctl_parser preferences) argv = Inr (ns, extras)"
    using assms by (auto simp: parse_args_def rbind_Inr_conv split: if_splits)
  have "\<exists>f. action_runs f ns"
  proof (rule parse_known_args_ok [OF known [unfolded ctl_parser_def]], goal_cases)
    case (1 st)
    then show ?case by (simp add: level_complete_def)
  next
    case (2 st dest req subs name q rest ns' extras')
    have main: "has_attributes f (leaf_keys (ctl_parser preferences)) (ls_ns st)" for f
      using state_ok_ns [OF 2(1), of "ctl_types f"] main_ok [of f preferences]
      by (simp add: has_attributes_def leaf_keys_def ctl_parser_def)
    have q: "map_of ctl_actions name = Some q" and ns: "ns = copy_all ns' (ls_ns st)"
      using 2(2,3,6) by simp_all
    have "action_runs ''images'' (copy_all ns' (ls_ns st))" if "q = parser_images"
      by (rule images_runs [OF 2(5) [unfolded that] main])
    moreover have "action_runs ''tokens'' (copy_all ns' (ls_ns st))" if "q = parser_tokens"
      by (rule tokens_runs [OF 2(5) [unfolded that] main])
    moreover have "q \<in> {parser_images, parser_keyring, parser_build, parser_list, parser_patches, parser_watch, parser_history,
        parser_registry, parser_tokens}"
      using q by (simp add: ctl_actions_def split: if_splits)
    ultimately show ?case
      using single_runs [OF 2(5) main] unfolding ns by blast
  qed
  then obtain f where "action_runs f ns" by blast
  then show ?thesis
    unfolding action_runs_def ctl_command_def by (auto simp: rbind_Inr_conv)
qed

section \<open>The address of tokens\<close>

lemma parse_plain: "\<not> starts_dash u \<Longrightarrow> parse_optional l u = Inr (TPlain u)"
  by (simp add: parse_optional_def)

lemma dash_simps: "starts_dash (c # s) \<longleftrightarrow> c = CHR ''-''" "starts_dash [] = False"
  by (simp_all add: starts_dash_def)

lemmas parse_simps = parse_known_args.simps parse_level.simps level_step_def consume_optional_def consume_positionals_def
  plain_args_def take_option_def store_def is_option_def level_start_def add_missing_def level_defaults_def
  level_complete_def option_for_def copy_all_def dict_has_def

lemma save_parsed:
  assumes "\<not> starts_dash u"
  shows "parse_known_args parser_tokens [''save''] = Inr ([(''operation'', VStr ''save''), (''func'', VFunc ''tokens''), (''uri'', VNone)], [])"
    "parse_known_args parser_tokens [''save'', ''--uri'', u] =
       Inr ([(''operation'', VStr ''save''), (''func'', VFunc ''tokens''), (''uri'', VStr u)], [])"
proof -
  have "u \<noteq> ''--''" using assms by (auto simp: starts_dash_def)
  moreover have "\<not> looks_negative ''--uri''" "split_max CHR ''='' 1 ''--uri'' = [''--uri'']" by code_simp+
  ultimately show "parse_known_args parser_tokens [''save''] = Inr ([(''operation'', VStr ''save''), (''func'', VFunc ''tokens''), (''uri'', VNone)], [])"
    "parse_known_args parser_tokens [''save'', ''--uri'', u] =
       Inr ([(''operation'', VStr ''save''), (''func'', VFunc ''tokens''), (''uri'', VStr u)], [])"
  using assms
  by (simp_all add: parser_tokens_def tokens_operations_def leaf_def parse_simps parse_plain dash_simps parse_optional_def
      option_tuples_def all_flags_def startswith_def declarations Let_def)
qed

lemma main_saves:
  assumes "\<not> starts_dash u"
  shows "parse_args (ctl_parser preferences) [''--uri'', u, ''tokens'', ''save''] =
      Inr [(''debug'', VBool False), (''fulldebug'', VBool False), (''preferences'', VStr preferences), (''uri'', VNone),
        (''action'', VStr ''tokens''), (''operation'', VStr ''save''), (''func'', VFunc ''tokens'')]"
    "parse_args (ctl_parser preferences) [''tokens'', ''save'', ''--uri'', u] =
      Inr [(''debug'', VBool False), (''fulldebug'', VBool False), (''preferences'', VStr preferences), (''uri'', VStr u),
        (''action'', VStr ''tokens''), (''operation'', VStr ''save''), (''func'', VFunc ''tokens'')]"
proof -
  have "u \<noteq> ''--''" using assms by (auto simp: starts_dash_def)
  then show "parse_args (ctl_parser preferences) [''--uri'', u, ''tokens'', ''save''] =
      Inr [(''debug'', VBool False), (''fulldebug'', VBool False), (''preferences'', VStr preferences), (''uri'', VNone),
        (''action'', VStr ''tokens''), (''operation'', VStr ''save''), (''func'', VFunc ''tokens'')]"
    "parse_args (ctl_parser preferences) [''tokens'', ''save'', ''--uri'', u] =
      Inr [(''debug'', VBool False), (''fulldebug'', VBool False), (''preferences'', VStr preferences), (''uri'', VStr u),
        (''action'', VStr ''tokens''), (''operation'', VStr ''save''), (''func'', VFunc ''tokens'')]"
    using assms save_parsed [OF assms]
    by (simp_all add: parse_args_def ctl_parser_def ctl_options_def ctl_actions_def parse_simps parse_plain dash_simps
        parse_optional_def declarations Let_def)
qed

text \<open>The address a token is saved for has to come after the operation, whose own option of this name
  replaces the general one with its default: given before, the program refuses, after, the token that is read
  is saved for it.\<close>

theorem save_needs_late_uri:
  assumes "\<not> starts_dash u" and "u \<noteq> []"
  shows "fatbuildrctl n E preferences [''--uri'', u, ''tokens'', ''save''] cu = (Inl (SystemExit 1), cu)
    \<and> fatbuildrctl n E preferences [''tokens'', ''save'', ''--uri'', u] cu =
      scatch (sbind (cu_file (client_token_save (path_parts (up_tokens_dir (ce_prefs E))) u (read_line (ce_stdin E)))) (\<lambda>_. sret True))
        ctl_handled (\<lambda>_. cu_exit) cu"
  using assms(2)
  by (simp add: fatbuildrctl_def main_saves [OF assms(1)] ctl_command_def r_uri_def r_operation_def reads_def str_attr_def ns_attr_def
      dict_get_def ctl_functions_def no_args_def plain_str_def Fatbuildrctl_def run_tokens_def truthy_def instance_uri_def
      sbind_def slift_def scatch_def cu_exit_def ctl_handled_def is_a_def Let_def)

section \<open>Witnesses\<close>

theorem options_always_read_witness:
  "\<exists>a act. rbind (parse_args (ctl_parser ''p'') [''--debug'', ''build'', ''-afoo'', ''-i'', ''--dist=sid'', ''--sources'', ''a'', ''b'', ''--batch''])
     ctl_command = Inr (a, Some act)"
proof -
  let ?argv = "[''--debug'', ''build'', ''-afoo'', ''-i'', ''--dist=sid'', ''--sources'', ''a'', ''b'', ''--batch'']"
  have "case parse_args (ctl_parser ''p'') ?argv of Inr _ \<Rightarrow> True | Inl _ \<Rightarrow> False"
    by code_simp
  then obtain ns where "parse_args (ctl_parser ''p'') ?argv = Inr ns"
    by (cases "parse_args (ctl_parser ''p'') ?argv") auto
  from options_always_read [OF this] this show ?thesis by simp
qed

theorem save_needs_late_uri_witness:
  "\<forall>(E :: unit ctl_env) cu. fst (fatbuildrctl 1 E ''p'' [''--uri'', ''https://x'', ''tokens'', ''save''] cu) = Inl (SystemExit 1)"
proof (intro allI)
  fix E :: "unit ctl_env" and cu
  show "fst (fatbuildrctl 1 E ''p'' [''--uri'', ''https://x'', ''tokens'', ''save''] cu) = Inl (SystemExit 1)"
    using save_needs_late_uri [of "''https://x''" 1 E "''p''" cu] by (simp add: starts_dash_def)
qed

end
