(* ===== verification/ConfDump.thy ===== *)
theory ConfDump imports Config Registry Logging begin

text \<open>
  What \<^verbatim>\<open>fatbuildr/conf.py\<close> logs of the settings it has loaded, section by section, when debug logs
  are on. The representation of a string in a list is a parameter, as are the numbers of the lines
  that log.
\<close>

section \<open>Values\<close>

definition show_bool :: "bool \<Rightarrow> string" where
  "show_bool b = (if b then ''True'' else ''False'')"

definition show_list :: "(string \<Rightarrow> string) \<Rightarrow> string list \<Rightarrow> string" where
  "show_list srepr xs = [CHR 0x5B] @ str_join '', '' (map srepr xs) @ [CHR 0x5D]"

definition show_some :: "('a \<Rightarrow> string) \<Rightarrow> 'a option \<Rightarrow> string" where
  "show_some f x = (case x of None \<Rightarrow> ''None'' | Some y \<Rightarrow> f y)"

definition item :: "string \<Rightarrow> string \<Rightarrow> string" where
  "item k v = ''  '' @ k @ '': '' @ v"

definition header_line :: "string \<Rightarrow> string" where
  "header_line sect = [CHR 0x5B] @ sect @ [CHR 0x5D]"

section \<open>Sections\<close>

definition dump_dirs :: "conf_dirs \<Rightarrow> string list" where
  "dump_dirs c = [header_line ''dirs'', item ''instances'' (path_str (cd_instances c)), item ''registry'' (path_str (cd_registry c)),
     item ''cache'' (path_str (cd_cache c)), item ''tmp'' (path_str (cd_tmp c))]"

definition dump_images :: "conf_images \<Rightarrow> string list" where
  "dump_images c = [header_line ''images'', item ''storage'' (path_str (ci_storage c)), item ''defs'' (path_str (ci_defs c)),
     item ''create_cmd'' (ci_create_cmd c)]"

definition dump_registry :: "path \<Rightarrow> string list" where
  "dump_registry c = [header_line ''registry'', item ''conf'' (path_str c)]"

definition dump_tasks :: "conf_tasks \<Rightarrow> string list" where
  "dump_tasks c = [header_line ''tasks'', item ''workspaces'' (path_str (ct_workspaces c)), ''  purge:'',
     ''  '' @ item ''policy'' (ct_purge_policy c), ''  '' @ item ''value'' (show_some (\<lambda>v. v) (ct_purge_value c)),
     item ''hook'' (show_some path_str (ct_hook c))]"

definition dump_containers :: "(string \<Rightarrow> string) \<Rightarrow> conf_containers \<Rightarrow> string list" where
  "dump_containers srepr c = [header_line ''containers'', item ''exec'' (path_str (cc_exec c)),
     item ''init_opts'' (show_some (show_list srepr) (cc_init_opts c)), item ''opts'' (show_some (show_list srepr) (cc_opts c)),
     item ''seccomp'' (show_bool (cc_seccomp c))]"

text \<open>An expiration that is not enabled is \<^verbatim>\<open>False\<close>.\<close>

definition dump_keyring :: "conf_keyring \<Rightarrow> string list" where
  "dump_keyring c = [header_line ''keyring'', item ''storage'' (path_str (ck_storage c)), item ''type'' (ck_type c),
     item ''size'' (int_str (ck_size c)), item ''expires'' (case ck_expires c of None \<Rightarrow> show_bool False | Some n \<Rightarrow> int_str n),
     item ''seeder'' (ck_seeder c)]"

definition dump_tokens :: "conf_tokens \<Rightarrow> string list" where
  "dump_tokens c = [header_line ''tokens'', item ''storage'' (path_str (cn_storage c)), item ''duration'' (int_str (cn_duration c)),
     item ''algorithm'' (cn_algorithm c), item ''audience'' (cn_audience c)]"

text \<open>What the sections of the formats with environments have in common, up to what is peculiar to
  each of them.\<close>

definition dump_env :: "string \<Rightarrow> env_conf \<Rightarrow> string list" where
  "dump_env sect e = [header_line sect, item ''builder'' (fb_builder e), item ''env_path'' (fb_env_path e),
     item ''init_cmds'' (fb_init_cmds e), item ''shell_cmd'' (fb_shell_cmd e), item ''exec_cmd'' (fb_exec_cmd e),
     item ''exec_tmpfile'' (show_bool (fb_exec_tmpfile e)), item ''img_update_cmds'' (fb_img_update_cmds e),
     item ''img_create_use_sysusersd'' (show_bool (fb_img_create_use_sysusersd e)), item ''env_update_cmds'' (fb_env_update_cmds e),
     item ''env_as_root'' (show_bool (fb_env_as_root e))]"

definition dump_deb :: "(string \<Rightarrow> string) \<Rightarrow> env_conf \<Rightarrow> string \<Rightarrow> string \<Rightarrow> string list" where
  "dump_deb srepr e mirror components =
     dump_env ''format:deb'' e @ [item ''env_default_mirror'' mirror, item ''env_default_components'' components,
       item ''prescript_deps'' (show_list srepr (fb_prescript_deps e))]"

definition dump_rpm :: "(string \<Rightarrow> string) \<Rightarrow> env_conf \<Rightarrow> string list \<Rightarrow> string list" where
  "dump_rpm srepr e modules =
     dump_env ''format:rpm'' e @ [item ''env_default_modules'' (show_list srepr modules),
       item ''prescript_deps'' (show_list srepr (fb_prescript_deps e))]"

definition dump_osi :: "base_conf \<Rightarrow> bool \<Rightarrow> string list" where
  "dump_osi b containerized =
     [header_line ''format:osi'', item ''builder'' (fb_builder b), item ''img_update_cmds'' (fb_img_update_cmds b),
      item ''img_create_use_sysusersd'' (show_bool (fb_img_create_use_sysusersd b)), item ''containerized'' (show_bool containerized)]"

definition dump_format :: "(string \<Rightarrow> string) \<Rightarrow> format_conf \<Rightarrow> string list" where
  "dump_format srepr c =
     (case c of DebConf e m cs \<Rightarrow> dump_deb srepr e m cs | RpmConf e ms \<Rightarrow> dump_rpm srepr e ms | OsiConf b x \<Rightarrow> dump_osi b x)"

definition dump_daemon :: "conf_daemon \<Rightarrow> string list" where
  "dump_daemon c = [header_line ''daemon'', item ''debug'' (show_bool (dm_debug c)), item ''fulldebug'' (show_bool (dm_fulldebug c))]"

definition dump_web :: "conf_web \<Rightarrow> string list" where
  "dump_web c = [header_line ''web'', item ''debug'' (show_bool (wb_debug c)), item ''host'' (wb_host c), item ''port'' (int_str (wb_port c)),
     item ''instance'' (wb_instance c), item ''listing'' (show_bool (wb_listing c)),
     item ''vendor_templates'' (wb_vendor_templates c), item ''static'' (wb_static c),
     item ''vendor_policy'' (path_str (wb_vendor_policy c)), item ''policy'' (path_str (wb_policy c))]"

section \<open>The dump\<close>

definition dump_lines :: "(string \<Rightarrow> string) \<Rightarrow> ('r \<Rightarrow> string list) \<Rightarrow> 'r runtime_conf \<Rightarrow> string list" where
  "dump_lines srepr dump_run c =
     dump_run (rc_run c) @ dump_dirs (rc_dirs c) @ dump_images (rc_images c) @ dump_registry (rc_registry c) @ dump_tasks (rc_tasks c)
     @ dump_containers srepr (rc_containers c) @ dump_keyring (rc_keyring c) @ dump_tokens (rc_tokens c)
     @ dump_format srepr (rc_deb c) @ dump_format srepr (rc_rpm c) @ dump_format srepr (rc_osi c)"

definition has_debug :: "root_logger \<Rightarrow> bool" where
  "has_debug g \<longleftrightarrow> lg_level g \<le> DEBUG"

definition conf_record :: "string \<Rightarrow> nat \<Rightarrow> string \<Rightarrow> log_record" where
  "conf_record thread lineno msg =
     \<lparr>lr_name = ''fatbuildr.conf'', lr_levelno = DEBUG, lr_msg = msg, lr_lineno = lineno, lr_thread = thread\<rparr>"

definition RuntimeConf_dump ::
  "(string \<Rightarrow> string) \<Rightarrow> (string \<Rightarrow> nat) \<Rightarrow> ('r \<Rightarrow> string list) \<Rightarrow> 'r runtime_conf \<Rightarrow> root_logger \<Rightarrow> root_logger" where
  "RuntimeConf_dump srepr line_of dump_run c g =
     (if \<not> has_debug g then g
      else fold handle_record (map (\<lambda>l. conf_record ''MainThread'' (line_of l) l) (dump_lines srepr dump_run c)) g)"

section \<open>Lemmas\<close>

text \<open>Logging a record changes what handlers have written, nothing else.\<close>

definition same_setup :: "root_logger \<Rightarrow> root_logger \<Rightarrow> bool" where
  "same_setup g g' \<longleftrightarrow> lg_level g' = lg_level g \<and> lg_handlers g' = lg_handlers g \<and>
     (\<forall>k. \<exists>w. lg_objects g' k = (lg_objects g k)\<lparr>hd_written := w\<rparr>)"

lemma same_setup_refl: "same_setup g g"
  unfolding same_setup_def by (metis (full_types) log_handler.surjective log_handler.update_convs(5))

lemma same_setup_trans: "same_setup g g' \<Longrightarrow> same_setup g' g'' \<Longrightarrow> same_setup g g''"
  unfolding same_setup_def by (metis log_handler.fold_congs(5) log_handler.surjective log_handler.update_convs(5))

lemma emit_written: "\<exists>w. handler_emit r h = h\<lparr>hd_written := w\<rparr>"
  by (cases h) (auto simp: handler_emit_def split: sum.splits)

lemma emit_all_written: "\<exists>w. emit_all r ks objs k = (objs k)\<lparr>hd_written := w\<rparr>"
proof (induction ks arbitrary: objs)
  case Nil
  show ?case by (cases "objs k") auto
next
  case (Cons j js)
  obtain w where w: "handler_emit r (objs j) = (objs j)\<lparr>hd_written := w\<rparr>" using emit_written by blast
  show ?case
    using Cons [of "if handler_takes r (objs j) then objs(j := handler_emit r (objs j)) else objs"] w
    by (auto split: if_splits)
qed

lemma handle_record_setup: "same_setup g (handle_record r g)"
  using emit_all_written same_setup_refl by (simp add: handle_record_def same_setup_def)

lemma handle_records_setup: "same_setup g (fold handle_record rs g)"
  by (induction rs arbitrary: g) (auto simp: same_setup_refl intro: same_setup_trans handle_record_setup)

lemma dump_setup: "same_setup g (RuntimeConf_dump srepr line_of dump_run c g)"
  by (simp add: RuntimeConf_dump_def same_setup_refl handle_records_setup)

end
