(* ===== verification/Startup.thy ===== *)
theory Startup imports ConfDump CtlArgs Keyring Tokens Daemon begin

text \<open>
  How the applications start: the arguments of \<^verbatim>\<open>cli/fatbuildrd.py\<close> and \<^verbatim>\<open>cli/fatbuildrweb.py\<close>, the log and the
  configuration, \<^verbatim>\<open>cli/__init__.py\<close>, the instances and their keys, \<^verbatim>\<open>instances.py\<close>, and the messages to the
  service manager, \<^verbatim>\<open>services.py\<close>. What the other modules log meanwhile is left out. The texts of the
  definitions of instances are read by a parameter, and random keys are another.
\<close>

section \<open>Configuration\<close>

definition load_conf :: "'c res \<Rightarrow> 'c res" where
  "load_conf r = rcatch r (\<lambda>e. is_a e ValueErr) (\<lambda>_. Inl (SystemExit 1))"

section \<open>Instances\<close>

record started_instance =
  si_running :: running_instance
  si_key :: string
  si_keyring :: keyring_state

text \<open>The parts that a start needs: the libraries, the text of definitions, the architecture of the host,
  the random key of an instance.\<close>

record start_env =
  se_gpg :: gpg_libs
  se_yaml :: "string \<Rightarrow> instance_defs res"
  se_host :: string
  se_random :: "string \<Rightarrow> string"

definition tokens_settings :: "conf_tokens \<Rightarrow> tokens_conf" where
  "tokens_settings c = \<lparr>tc_storage = cn_storage c, tc_audience = cn_audience c, tc_algorithm = cn_algorithm c, tc_duration = cn_duration c\<rparr>"

definition unloaded_keyring :: "node \<Rightarrow> keyring_state" where
  "unloaded_keyring fs = \<lparr>ss_fs = fs, ss_log = [], km_master = None, km_key = None, km_sub = None\<rparr>"

text \<open>\<^verbatim>\<open>RunningInstance.__init__\<close>: of the managers, those of tokens and keys read files.\<close>

definition RunningInstance_init :: "start_env \<Rightarrow> 'r runtime_conf \<Rightarrow> running_instance \<Rightarrow> (node, started_instance) act" where
  "RunningInstance_init E c i fs =
     (case tokens_load (tokens_settings (rc_tokens c)) (ri_id i) True (se_random E (ri_id i)) fs of
        Inl e \<Rightarrow> (Inl e, fs)
      | Inr (key, fs1) \<Rightarrow>
          (case keyring_load (se_gpg E) (InstanceKeyring (rc_keyring c) i) (unloaded_keyring fs1) of
             (Inl e, s) \<Rightarrow> (Inl e, ss_fs s)
           | (Inr u, s) \<Rightarrow> (Inr \<lparr>si_running = i, si_key = key, si_keyring = s\<rparr>, ss_fs s)))"

definition instance_from_file :: "start_env \<Rightarrow> 'r runtime_conf \<Rightarrow> path \<Rightarrow> (node, started_instance) act" where
  "instance_from_file E c p =
     sbind (\<lambda>fs. (fs_read fs p, fs)) (\<lambda>text1.
     sbind (slift (se_yaml E text1)) (\<lambda>defs.
     RunningInstance_init E c (RunningInstance_load (se_host E) (path_stem (List.last p)) defs)))"

text \<open>\<^verbatim>\<open>glob("*.yml")\<close>, in the order of the directory, none when there is no directory.\<close>

definition instance_files :: "node \<Rightarrow> path \<Rightarrow> path list" where
  "instance_files fs dir =
     (case fs_iterdir fs dir of Inl _ \<Rightarrow> [] | Inr names \<Rightarrow> map (\<lambda>n. dir @ [n]) (filter (\<lambda>n. endswith n ''.yml'') names))"

fun load_instances ::
  "start_env \<Rightarrow> 'r runtime_conf \<Rightarrow> path list \<Rightarrow> (string, started_instance) dict \<Rightarrow> (node, (string, started_instance) dict) act" where
  "load_instances E c [] d = sret d"
| "load_instances E c (p # ps) d =
     sbind (instance_from_file E c p) (\<lambda>i. load_instances E c ps (dict_set d (path_stem (List.last p)) i))"

definition Instances_load :: "start_env \<Rightarrow> 'r runtime_conf \<Rightarrow> (node, (string, started_instance) dict) act" where
  "Instances_load E c fs = load_instances E c (instance_files fs (cd_instances (rc_dirs c))) [] fs"

section \<open>The daemon\<close>

definition version_opt :: arg_option where
  "version_opt = show_opt [''-v'', ''--version''] ''version''"

definition fatbuildrd_parser :: arg_parser where
  "fatbuildrd_parser = leaf [version_opt, flag [''--debug''] ''debug''] None []"

text \<open>\<^verbatim>\<open>Fatbuildrd.load\<close>, before the instances: the settings and the log, which has the handler of the
  standard error under the key \<open>k\<close>.\<close>

definition daemon_logs :: "string \<Rightarrow> conf_daemon \<Rightarrow> root_logger \<Rightarrow> root_logger res" where
  "daemon_logs name c g =
     rmap (\<lambda>g. if dm_fulldebug c then ensure_fulldebug g else g)
       (if dm_debug c \<or> dm_fulldebug c then ensure_debug name g else Inr g)"

definition Fatbuildrd_setup ::
  "(string \<Rightarrow> string) \<Rightarrow> (string \<Rightarrow> nat) \<Rightarrow> ini res \<Rightarrow> ini res \<Rightarrow> nat \<Rightarrow> string list \<Rightarrow> root_logger
   \<Rightarrow> (conf_daemon runtime_conf \<times> root_logger) res" where
  "Fatbuildrd_setup srepr line_of vendor site k argv g =
     (let name = ''fatbuildr.cli.fatbuildrd'' in
      rbind (parse_args fatbuildrd_parser argv) (\<lambda>ns.
      rbind (bool_attr ns ''debug'') (\<lambda>debug.
      rbind (log_setup name k debug False g) (\<lambda>g.
      rbind (load_conf (RuntimeConf_load load_daemon vendor site)) (\<lambda>c.
      rmap (\<lambda>g. (c, RuntimeConf_dump srepr line_of dump_daemon c g)) (daemon_logs name (rc_run c) g))))))"

definition Fatbuildrd_start ::
  "start_env \<Rightarrow> (string \<Rightarrow> string) \<Rightarrow> (string \<Rightarrow> nat) \<Rightarrow> ini res \<Rightarrow> ini res \<Rightarrow> nat \<Rightarrow> string list \<Rightarrow> root_logger
   \<Rightarrow> (node, conf_daemon runtime_conf \<times> (string, started_instance) dict \<times> root_logger) act" where
  "Fatbuildrd_start E srepr line_of vendor site k argv g =
     sbind (slift (Fatbuildrd_setup srepr line_of vendor site k argv g)) (\<lambda>(c, g').
     sbind (Instances_load E c) (\<lambda>is. sret (c, is, g')))"

section \<open>The web application\<close>

definition fatbuildrweb_parser :: arg_parser where
  "fatbuildrweb_parser = leaf [version_opt, flag [''--debug''] ''debug'', flag [''--full-debug''] ''full_debug'',
     opt [''-i'', ''--instance''] ''instance''] None []"

text \<open>\<^verbatim>\<open>FatbuildrWeb.load\<close>: what the arguments replace.\<close>

definition web_settings :: "bool \<Rightarrow> string option \<Rightarrow> conf_web \<Rightarrow> conf_web" where
  "web_settings debug inst c =
     (let c1 = (if debug then c\<lparr>wb_debug := True\<rparr> else c) in
      case inst of None \<Rightarrow> c1 | Some i \<Rightarrow> c1\<lparr>wb_instance := i\<rparr>)"

definition FatbuildrWeb_setup ::
  "(string \<Rightarrow> string) \<Rightarrow> (string \<Rightarrow> nat) \<Rightarrow> ini res \<Rightarrow> ini res \<Rightarrow> nat \<Rightarrow> string list \<Rightarrow> root_logger
   \<Rightarrow> (conf_web runtime_conf \<times> root_logger) res" where
  "FatbuildrWeb_setup srepr line_of vendor site k argv g =
     rbind (parse_args fatbuildrweb_parser argv) (\<lambda>ns.
     rbind (bool_attr ns ''debug'') (\<lambda>debug.
     rbind (bool_attr ns ''full_debug'') (\<lambda>full_debug.
     rbind (log_setup ''fatbuildr.cli.fatbuildrweb'' k debug full_debug g) (\<lambda>g.
     rbind (load_conf (RuntimeConf_load load_web vendor site)) (\<lambda>c.
     rmap (\<lambda>inst. let c' = c\<lparr>rc_run := web_settings debug inst (rc_run c)\<rparr> in (c', RuntimeConf_dump srepr line_of dump_web c' g))
       (str_attr ns ''instance''))))))"

section \<open>The service manager\<close>

definition set_status :: "string \<Rightarrow> string" where
  "set_status status = ''STATUS='' @ status"

definition notify_error :: string where "notify_error = ''WATCHDOG=trigger''"
definition notify_watchdog :: string where "notify_watchdog = ''WATCHDOG=1''"
definition notify_stop :: string where "notify_stop = ''STOPPING=1''"

definition worker_alive :: "daemon \<Rightarrow> string \<Rightarrow> bool" where
  "worker_alive s i \<longleftrightarrow> dm_worker s i \<noteq> Stopped \<and> (\<forall>t. dm_worker s i \<noteq> Crashed t)"

text \<open>What one turn of the timer thread sends, for the workers in their order, and what it sends when it leaves
  the loop.\<close>

definition watch_notifies :: "string list \<Rightarrow> daemon \<Rightarrow> string list" where
  "watch_notifies ids s =
     (let dead = filter (\<lambda>i. \<not> worker_alive s i) ids in
      concat (map (\<lambda>i. [set_status (''Worker thread worker-'' @ i @ '' failed''), notify_error]) dead)
      @ (if dead = [] then [notify_watchdog] else []))"

definition timer_notifies :: "string list \<Rightarrow> daemon \<Rightarrow> string list" where
  "timer_notifies ids s =
     (if dm_timer_pc s \<noteq> Watching then []
      else if timer_over (dm_now s) (dm_timer s) then [notify_stop] else watch_notifies ids s)"

end
