(* ===== verification/StartupSafety.thy ===== *)
theory StartupSafety imports Startup BuildSources begin

text \<open>
  What a start keeps and what it makes visible: the encryption keys of the tokens are the same after a
  restart, the log has the records that the arguments and the settings ask for, and the service manager is
  not told that the daemon is alive once a worker has died.
\<close>

section \<open>Keys\<close>

text \<open>Files stay as they are, new ones may come.\<close>

definition files_stay :: "node \<Rightarrow> node \<Rightarrow> bool" where
  "files_stay fs fs' \<longleftrightarrow> (\<forall>p c. lookup p fs = Some (File c) \<longrightarrow> lookup p fs' = Some (File c))"

interpretation fst: framed files_stay
  by unfold_locales (auto simp: files_stay_def)

lemma put_stays: "put p m fs = Inr fs' \<Longrightarrow> \<not> fs_exists fs p \<Longrightarrow> files_stay fs fs'"
  by (auto simp: files_stay_def fs_exists_def intro: lookup_put_new)

definition token_key_path :: "'r runtime_conf \<Rightarrow> string \<Rightarrow> path" where
  "token_key_path c i = cn_storage (rc_tokens c) @ [i, ''key'']"

lemma tokens_load_stays:
  assumes "tokens_load tc i True random fs = Inr (key, fs')"
  shows "files_stay fs fs' \<and> lookup (tc_storage tc @ [i, ''key'']) fs' = Some (File key)"
proof -
  let ?d = "tc_storage tc @ [i]" and ?p = "tc_storage tc @ [i, ''key'']"
  from assms obtain fs1 where fs1: "(if \<not> fs_exists fs ?d then fs_mkdir ?d fs else Inr fs) = Inr fs1"
    and fs2: "(if \<not> fs_exists fs1 ?p then fs_write ?p random fs1 else Inr fs1) = Inr fs'"
    and key: "fs_read fs' ?p = Inr key"
    by (auto simp: tokens_load_def Let_def rbind_Inr_conv rmap_Inr_conv cong: if_cong simp del: if_split)
  have "files_stay fs fs1"
    using fs1 by (auto split: if_splits dest!: mkdir_Inr_put intro: put_stays fst.R_refl)
  moreover have "files_stay fs1 fs'"
    using fs2 by (auto split: if_splits dest!: write_Inr_put intro: put_stays fst.R_refl)
  ultimately show ?thesis
    using key fst.R_trans by (auto simp: fs_read_lookup)
qed

lemma keyring_load_files: "ss_fs (snd (keyring_load G K s)) = ss_fs s"
  unfolding keyring_load_def load_from_keyring_def
  by (auto simp: scatch_def sbind_def kask_def smodify_def slift_def sret_def split: sum.splits list.splits)

lemma init_stays: "keeping files_stay (RunningInstance_init E c i)"
proof (rule keepingI)
  fix fs
  let ?K = "InstanceKeyring (rc_keyring c) i"
  show "files_stay fs (snd (RunningInstance_init E c i fs))"
    using tokens_load_stays keyring_load_files [of "se_gpg E" ?K]
    by (auto simp: RunningInstance_init_def unloaded_keyring_def fst.R_refl split: sum.splits prod.splits unit.splits)
      (metis keyring_state.select_convs(1) snd_conv sys_state.select_convs(1))+
qed

text \<open>Every instance that is loaded has its key in its file.\<close>

definition keys_in_files :: "'r runtime_conf \<Rightarrow> (string, started_instance) dict \<Rightarrow> node \<Rightarrow> bool" where
  "keys_in_files c d fs \<longleftrightarrow> (\<forall>i s. dict_get d i = Some s \<longrightarrow> lookup (token_key_path c i) fs = Some (File (si_key s)))"

lemma instance_from_file_stays: "keeping files_stay (instance_from_file E c p)"
  unfolding instance_from_file_def
  by (intro fst.kept_sbind init_stays fst.kept_slift) (simp add: keeping_def fst.R_refl)

lemma init_done:
  assumes "RunningInstance_init E c i fs = (Inr s, fs')"
  obtains fs1 ks where "tokens_load (tokens_settings (rc_tokens c)) (ri_id i) True (se_random E (ri_id i)) fs = Inr (si_key s, fs1)"
    "keyring_load (se_gpg E) (InstanceKeyring (rc_keyring c) i) (unloaded_keyring fs1) = (Inr (), ks)" "fs' = ss_fs ks"
proof (cases "tokens_load (tokens_settings (rc_tokens c)) (ri_id i) True (se_random E (ri_id i)) fs")
  case (Inl e)
  with assms show thesis by (simp add: RunningInstance_init_def)
next
  case (Inr a)
  obtain key fs1 where a: "a = (key, fs1)" by (cases a)
  obtain r ks where r: "keyring_load (se_gpg E) (InstanceKeyring (rc_keyring c) i) (unloaded_keyring fs1) = (r, ks)"
    by (rule prod.exhaust)
  show thesis
  proof (cases r)
    case (Inl e)
    with Inr a r assms show thesis by (simp add: RunningInstance_init_def)
  next
    case (Inr u)
    with assms \<open>tokens_load _ _ _ _ _ = _\<close> a r have "s = \<lparr>si_running = i, si_key = key, si_keyring = ks\<rparr>" "fs' = ss_fs ks"
      by (simp_all add: RunningInstance_init_def)
    with \<open>tokens_load _ _ _ _ _ = _\<close> a r Inr show thesis
      by (intro that [of fs1 ks]) simp_all
  qed
qed

lemma instance_from_file_key:
  assumes "instance_from_file E c p fs = (Inr s, fs')"
  shows "lookup (token_key_path c (path_stem (List.last p))) fs' = Some (File (si_key s))"
proof -
  obtain t defs where init: "RunningInstance_init E c (RunningInstance_load (se_host E) (path_stem (List.last p)) defs) t = (Inr s, fs')"
    using assms by (auto simp: instance_from_file_def sbind_Inr_conv slift_def)
  let ?i = "RunningInstance_load (se_host E) (path_stem (List.last p)) defs"
  obtain t1 ks where t1: "tokens_load (tokens_settings (rc_tokens c)) (ri_id ?i) True (se_random E (ri_id ?i)) t = Inr (si_key s, t1)"
    and ks: "keyring_load (se_gpg E) (InstanceKeyring (rc_keyring c) ?i) (unloaded_keyring t1) = (Inr (), ks)" and "fs' = ss_fs ks"
    by (rule init_done [OF init]) blast
  then have "fs' = t1"
    using keyring_load_files [of "se_gpg E" "InstanceKeyring (rc_keyring c) ?i" "unloaded_keyring t1"] by (simp add: unloaded_keyring_def)
  then show ?thesis
    using tokens_load_stays [OF t1] by (simp add: token_key_path_def tokens_settings_def RunningInstance_load_def)
qed

lemma load_instances_keys:
  "load_instances E c ps d fs = (Inr d', fs') \<Longrightarrow> keys_in_files c d fs \<Longrightarrow> files_stay fs fs' \<and> keys_in_files c d' fs'"
proof (induction ps arbitrary: d fs)
  case Nil
  then show ?case by (simp add: sret_def fst.R_refl)
next
  case (Cons p ps)
  then obtain s t where s: "instance_from_file E c p fs = (Inr s, t)"
    and rest: "load_instances E c ps (dict_set d (path_stem (List.last p)) s) t = (Inr d', fs')"
    by (auto simp: sbind_Inr_conv)
  have t: "files_stay fs t" by (rule keepingD [OF instance_from_file_stays s])
  then have "keys_in_files c (dict_set d (path_stem (List.last p)) s) t"
    using Cons.prems(2) instance_from_file_key [OF s] by (auto simp: keys_in_files_def files_stay_def)
  from Cons.IH [OF rest this] t show ?case using fst.R_trans by blast
qed

lemma Instances_load_keys:
  "Instances_load E c fs = (Inr d, fs') \<Longrightarrow> files_stay fs fs' \<and> keys_in_files c d fs'"
  unfolding Instances_load_def
  by (rule load_instances_keys, assumption, simp add: keys_in_files_def dict_get_def)

text \<open>C20. A restart of the daemon keeps the encryption key of every instance, so that the tokens it has given stay
  valid, whatever random keys and libraries the second start has, as long as the file of the key is left
  alone in between.\<close>

theorem restart_keeps_keys:
  assumes "Instances_load E c fs = (Inr is, fs1)" and "Instances_load E' c fs2 = (Inr is', fs3)"
    and "dict_get is i = Some s" and "dict_get is' i = Some s'"
    and "lookup (token_key_path c i) fs2 = lookup (token_key_path c i) fs1"
  shows "si_key s' = si_key s"
proof -
  have "lookup (token_key_path c i) fs2 = Some (File (si_key s))"
    using Instances_load_keys [OF assms(1)] assms(3,5) by (simp add: keys_in_files_def)
  then have "lookup (token_key_path c i) fs3 = Some (File (si_key s))"
    using Instances_load_keys [OF assms(2)] by (simp add: files_stay_def)
  then show ?thesis
    using Instances_load_keys [OF assms(2)] assms(4) by (simp add: keys_in_files_def)
qed

section \<open>Logs\<close>

definition fresh_root :: root_logger where
  "fresh_root = \<lparr>lg_level = WARNING, lg_handlers = [], lg_objects = (\<lambda>_. StreamHandler)\<rparr>"

lemma daemon_arguments:
  "rbind (parse_args fatbuildrd_parser (if d then [''--debug''] else [])) (\<lambda>ns. bool_attr ns ''debug'') = Inr d"
proof -
  have "rbind (parse_args fatbuildrd_parser [''--debug'']) (\<lambda>ns. bool_attr ns ''debug'') = Inr True"
    and "rbind (parse_args fatbuildrd_parser []) (\<lambda>ns. bool_attr ns ''debug'') = Inr False"
    by code_simp+
  then show ?thesis by simp
qed

lemma drop_met_one: "drop_met 0 [x] = []"
  by (simp add: drop_met.simps)

text \<open>The handler of the standard error after the start, but for what it has written.\<close>

lemma daemon_handler:
  assumes "Fatbuildrd_setup srepr line_of vendor site k (if d then [''--debug''] else []) fresh_root = Inr (c, g)"
  defines "debug \<equiv> d \<or> dm_debug (rc_run c) \<or> dm_fulldebug (rc_run c)"
  shows "lg_level g = (if debug then DEBUG else INFO) \<and> lg_handlers g = [k] \<and> hd_level (lg_objects g k) = lg_level g
    \<and> hd_filters (lg_objects g k) = (if dm_fulldebug (rc_run c) then [] else [NameFilter ''fatbuildr''])"
proof -
  let ?name = "''fatbuildr.cli.fatbuildrd''"
  obtain g1 g2 where g1: "log_setup ?name k d False fresh_root = Inr g1"
    and g2: "daemon_logs ?name (rc_run c) g1 = Inr g2" and g: "g = RuntimeConf_dump srepr line_of dump_daemon c g2"
    using assms(1) daemon_arguments [of d]
    by (auto simp: Fatbuildrd_setup_def Let_def rbind_Inr_conv rmap_Inr_conv simp del: if_split)
  obtain objs where g1_eq: "g1 = \<lparr>lg_level = if d then DEBUG else INFO, lg_handlers = [k], lg_objects = objs\<rparr>"
    and "hd_level (objs k) = (if d then DEBUG else INFO)" and "hd_filters (objs k) = [NameFilter ''fatbuildr'']"
    using g1 by (auto simp: log_setup_def module_formatter_def fresh_root_def addHandler_def add_new_def set_object_def Let_def)
  then have "lg_level g2 = (if debug then DEBUG else INFO) \<and> lg_handlers g2 = [k] \<and> hd_level (lg_objects g2 k) = lg_level g2
    \<and> hd_filters (lg_objects g2 k) = (if dm_fulldebug (rc_run c) then [] else [NameFilter ''fatbuildr''])"
    using g2 unfolding g1_eq
    by (cases d; cases "dm_debug (rc_run c)"; cases "dm_fulldebug (rc_run c)")
      (auto simp: set_object_def daemon_logs_def module_formatter_def ensure_debug_def ensure_fulldebug_def drop_met_one level_defs debug_def)
  moreover have "same_setup g2 g" unfolding g by (rule dump_setup)
  moreover from this obtain w where "lg_objects g k = (lg_objects g2 k)\<lparr>hd_written := w\<rparr>"
    unfolding same_setup_def by blast
  ultimately show ?thesis by (simp add: same_setup_def)
qed

text \<open>Once the daemon has started, a record reaches its standard error when its level is at least that of the
  debug logs, if the argument or one of the two settings asks for them, else of information, and it comes
  from a module of Fatbuildr, or from any when the settings ask for full debug.\<close>

theorem daemon_log_reach:
  assumes "Fatbuildrd_setup srepr line_of vendor site k (if d then [''--debug''] else []) fresh_root = Inr (c, g)"
  shows "(lg_level g \<le> lr_levelno r \<and> k \<in> set (lg_handlers g) \<and> handler_takes r (lg_objects g k)) =
    ((if d \<or> dm_debug (rc_run c) \<or> dm_fulldebug (rc_run c) then DEBUG else INFO) \<le> lr_levelno r
     \<and> (dm_fulldebug (rc_run c) \<or> lr_name r = ''fatbuildr'' \<or> startswith (lr_name r) ''fatbuildr.''))"
  using daemon_handler [OF assms] by (auto simp: handler_takes_def)

section \<open>The watch\<close>

lemma dead_step: "\<not> worker_alive s i \<Longrightarrow> daemon_step I s s' \<Longrightarrow> \<not> worker_alive s' i"
  unfolding worker_alive_def by (erule daemon_stepE) (auto simp: worker_simps)

lemma dead_stays: "daemon_runs I s s' \<Longrightarrow> \<not> worker_alive s i \<Longrightarrow> \<not> worker_alive s' i"
  by (rule daemon_invariant) (auto dest: dead_step)

text \<open>C37. Once the worker of an instance has died, the daemon never again reports to the service manager that it is
  alive; at each turn of its watch it reports the error, until it decides to stop.\<close>

theorem dead_worker_reported:
  assumes "\<not> worker_alive s i" and "daemon_runs (set ids) s s'" and "i \<in> set ids"
  shows "notify_watchdog \<notin> set (timer_notifies ids s')
    \<and> (dm_timer_pc s' = Watching \<longrightarrow> notify_error \<in> set (timer_notifies ids s') \<or> notify_stop \<in> set (timer_notifies ids s'))"
proof -
  have "i \<in> set (filter (\<lambda>i. \<not> worker_alive s' i) ids)"
    using dead_stays [OF assms(2,1)] assms(3) by simp
  then have "filter (\<lambda>i. \<not> worker_alive s' i) ids \<noteq> []" and "\<exists>j \<in> set ids. \<not> worker_alive s' j"
    by (fastforce simp: filter_empty_conv)+
  then show ?thesis
    by (auto simp: timer_notifies_def watch_notifies_def Let_def notify_watchdog_def notify_error_def notify_stop_def set_status_def)
qed

section \<open>Witnesses\<close>

text \<open>Settings with short values, as the two files together give them.\<close>

definition demo_env_section :: "(string, string) dict" where
  "demo_env_section = map (\<lambda>k. (k, ''x'')) [''builder'', ''env_path'', ''init_cmds'', ''shell_cmd'', ''exec_cmd'', ''img_update_cmds'',
       ''env_update_cmds'', ''env_default_mirror'', ''env_default_components'', ''env_default_modules'', ''prescript_deps'']
     @ map (\<lambda>k. (k, ''no'')) [''exec_tmpfile'', ''img_create_use_sysusersd'', ''env_as_root'', ''containerized'']"

definition demo_ini :: ini where
  "demo_ini =
     [(''daemon'', [(''debug'', ''no''), (''fulldebug'', ''yes'')]),
      (''dirs'', map (\<lambda>k. (k, ''/'' @ k)) [''instances'', ''registry'', ''cache'', ''tmp'']),
      (''images'', [(''storage'', ''/i''), (''defs'', ''/d''), (''formats'', ''deb,rpm''), (''create_cmd'', ''x'')]),
      (''registry'', [(''conf'', ''/r'')]),
      (''tasks'', [(''workspaces'', ''/w''), (''purge'', ''days:3'')]),
      (''containers'', [(''exec'', ''/x''), (''init_opts'', []), (''opts'', ''a b''), (''seccomp'', ''no'')]),
      (''keyring'', [(''storage'', ''/k''), (''type'', ''rsa''), (''size'', ''4''), (''expires'', ''no''), (''seeder'', ''x'')]),
      (''tokens'', [(''storage'', ''/t''), (''duration'', ''6''), (''algorithm'', ''a''), (''audience'', ''b'')]),
      (''format:deb'', demo_env_section), (''format:rpm'', demo_env_section), (''format:osi'', demo_env_section)]"

definition demo_settings :: "conf_daemon runtime_conf res" where
  "demo_settings = RuntimeConf_load load_daemon (Inr demo_ini) (Inr [])"

definition demo_gpg :: gpg_libs where
  "demo_gpg = \<lparr>gp_keylist = (\<lambda>_ _. Inr []), gp_get_key = (\<lambda>_ _ _. Inl OSErr), gp_create_key = (\<lambda>_ _ _ _ _ _ fs. (Inl OSErr, fs)),
     gp_create_subkey = (\<lambda>_ _ _ _ _ _ fs. (Inl OSErr, fs)), gp_export = (\<lambda>_ _ _. Inl OSErr),
     gp_interact = (\<lambda>_ _ _ _ fs. (Inl OSErr, fs)), gp_isoformat = (\<lambda>_. []), gp_choice = (\<lambda>i. i), gp_run = (\<lambda>_ fs. (0, fs))\<rparr>"

definition demo_start :: "string \<Rightarrow> start_env" where
  "demo_start key = \<lparr>se_gpg = demo_gpg,
     se_yaml = (\<lambda>t. Inr \<lparr>id_name = t, id_gpg_name = ''n'', id_gpg_email = ''e'', id_architectures = None, id_formats = [], id_derivatives = None\<rparr>),
     se_host = ''x86_64'', se_random = (\<lambda>_. key)\<rparr>"

definition demo_tree :: node where
  "demo_tree = Dir [(''instances'', Dir [(''a.yml'', File ''A''), (''b.yml'', File ''B''), (''README'', File [])]), (''t'', Dir [])]"

definition demo_loaded :: "string \<Rightarrow> node \<Rightarrow> (string, started_instance) dict res \<times> node" where
  "demo_loaded key fs = (case demo_settings of Inl e \<Rightarrow> (Inl e, fs) | Inr c \<Rightarrow> Instances_load (demo_start key) c fs)"

lemma good_result: "(case r of Inr x \<Rightarrow> P x | Inl _ \<Rightarrow> False) \<Longrightarrow> \<exists>x. r = Inr x \<and> P x"
  by (cases r) auto

lemma demo_settings_load: "\<exists>c. demo_settings = Inr c \<and> rc_run c = \<lparr>dm_debug = False, dm_fulldebug = True\<rparr>"
  by (rule good_result) code_simp

definition demo_key :: "(string, started_instance) dict res \<Rightarrow> string option" where
  "demo_key r = (case r of Inl _ \<Rightarrow> None | Inr d \<Rightarrow> map_option si_key (dict_get d ''a''))"

lemma demo_key_Some: "demo_key r = Some k \<Longrightarrow> \<exists>d s. r = Inr d \<and> dict_get d ''a'' = Some s \<and> si_key s = k"
  by (auto simp: demo_key_def split: sum.splits)

theorem restart_keeps_keys_witness:
  "demo_key (fst (demo_loaded ''1'' demo_tree)) = Some ''1''
    \<and> demo_key (fst (demo_loaded ''2'' (snd (demo_loaded ''1'' demo_tree)))) = Some ''1''"
proof -
  let ?r = "demo_loaded ''1'' demo_tree"
  let ?q = "demo_loaded ''2'' (snd ?r)"
  obtain c where c: "demo_settings = Inr c" using demo_settings_load by blast
  have first: "demo_key (fst ?r) = Some ''1''" by code_simp
  then obtain d s where d: "fst ?r = Inr d" "dict_get d ''a'' = Some s" "si_key s = ''1''"
    using demo_key_Some by blast
  have "demo_key (fst ?q) \<noteq> None" by code_simp
  then obtain d' s' where d': "fst ?q = Inr d'" "dict_get d' ''a'' = Some s'" "demo_key (fst ?q) = Some (si_key s')"
    using demo_key_Some by (metis option.exhaust)
  have "Instances_load (demo_start ''1'') c demo_tree = (Inr d, snd ?r)"
    and "Instances_load (demo_start ''2'') c (snd ?r) = (Inr d', snd ?q)"
    using d(1) d'(1) unfolding demo_loaded_def c by (simp_all add: prod_eq_iff)
  from restart_keeps_keys [OF this d(2) d'(2)] first d d' show ?thesis by simp
qed

theorem daemon_log_reach_witness:
  "\<exists>c g. Fatbuildrd_setup (\<lambda>s. s) length (Inr demo_ini) (Inr []) 0 [] fresh_root = Inr (c, g) \<and> dm_fulldebug (rc_run c)
     \<and> handler_takes \<lparr>lr_name = ''gi'', lr_levelno = DEBUG, lr_msg = [], lr_lineno = 1, lr_thread = ''server''\<rparr> (lg_objects g 0)"
proof -
  let ?r = "\<lparr>lr_name = ''gi'', lr_levelno = DEBUG, lr_msg = [], lr_lineno = 1, lr_thread = ''server''\<rparr>"
  let ?go = "\<lambda>c g1. rmap (\<lambda>g. (c, RuntimeConf_dump (\<lambda>s. s) length dump_daemon c g)) (daemon_logs ''fatbuildr.cli.fatbuildrd'' (rc_run c) g1)"
  obtain c where c: "demo_settings = Inr c" "rc_run c = \<lparr>dm_debug = False, dm_fulldebug = True\<rparr>" using demo_settings_load by blast
  have "rbind (parse_args fatbuildrd_parser []) (\<lambda>ns. bool_attr ns ''debug'') = Inr False"
    using daemon_arguments [of False] by simp
  then obtain ns where ns: "parse_args fatbuildrd_parser [] = Inr ns" "bool_attr ns ''debug'' = Inr False"
    by (auto simp: rbind_Inr_conv)
  obtain g1 where g1: "log_setup ''fatbuildr.cli.fatbuildrd'' 0 False False fresh_root = Inr g1"
    by (simp add: log_setup_def module_formatter_def)
  obtain g where "?go c g1 = Inr (c, g)"
    by (cases "lg_level g1 \<le> DEBUG") (simp_all add: daemon_logs_def ensure_debug_def module_formatter_def c)
  then have up: "Fatbuildrd_setup (\<lambda>s. s) length (Inr demo_ini) (Inr []) 0 (if False then [''--debug''] else []) fresh_root = Inr (c, g)"
    using ns g1 c(1) [unfolded demo_settings_def] by (simp add: Fatbuildrd_setup_def Let_def load_conf_def)
  from daemon_log_reach [OF this, of ?r] up c(2) show ?thesis by (auto simp: level_defs)
qed

theorem dead_worker_reported_witness:
  "notify_watchdog \<notin> set (timer_notifies [''default''] (idle_exit ''default'' 5))"
proof -
  have "\<not> worker_alive (idle_exit ''default'' 5) ''default''" by (simp add: worker_alive_def idle_exit_def)
  from dead_worker_reported [OF this daemon_runs.start, of "[''default'']"] show ?thesis by simp
qed

end
