(* ===== verification/MockPlugins.thy ===== *)
theory MockPlugins imports BuildRpm begin

text \<open>
  The plugins of mock that the RPM builds enable, \<^verbatim>\<open>conf/images/rpm/mock/\<close>: the repositories of the
  derivatives in the configuration of dnf, the shell after a failure and the listing of packages. The
  paths of the chroot are a parameter, as mock computes them; a plugin finds its options in a dictionary.
\<close>

record mock_buildroot =
  mr_bootstrap :: bool
  mr_mounts :: "(path \<times> path) list"
  mr_dnf_conf :: string
  mr_result :: string
  mr_builddir :: string

type_synonym plugin_opts = "(string, string) dict"

section \<open>Derivatives\<close>

definition dnf_lines :: "string list \<Rightarrow> string" where
  "dnf_lines = str_join nl"

definition dnf_section :: "string \<Rightarrow> string \<Rightarrow> path \<Rightarrow> path \<Rightarrow> int \<Rightarrow> string" where
  "dnf_section distribution derivative repos_dir keyring priority =
     dnf_lines [[CHR 0x5B] @ ''fatbuildr-'' @ distribution @ ''-'' @ derivative @ [CHR 0x5D],
       ''name=Fatbuildr-'' @ distribution @ ''-'' @ derivative,
       ''baseurl=file://'' @ path_str repos_dir @ ''/$basearch'',
       ''enabled=1'',
       ''priority='' @ int_str priority,
       ''gpgkey=file://'' @ path_str keyring,
       ''gpgcheck=1'',
       ''skip_if_unavailable=False'',
       []]"

definition repos_dir :: "path \<Rightarrow> string \<Rightarrow> string \<Rightarrow> path" where
  "repos_dir repo distribution derivative = joinpath (joinpath repo distribution) derivative"

definition has_metadata :: "node \<Rightarrow> path \<Rightarrow> bool" where
  "has_metadata fs dir \<longleftrightarrow> fs_exists fs (dir @ [''source'', ''repodata'', ''repomd.xml''])"

text \<open>The loop over the derivatives: those without metadata are skipped and keep the priority.\<close>

fun dnf_sections :: "node \<Rightarrow> string \<Rightarrow> path \<Rightarrow> path \<Rightarrow> int \<Rightarrow> string list \<Rightarrow> string" where
  "dnf_sections fs d repo keyring priority [] = []"
| "dnf_sections fs d repo keyring priority (dv # dvs) =
     (if \<not> has_metadata fs (repos_dir repo d dv) then dnf_sections fs d repo keyring priority dvs
      else dnf_section d dv (repos_dir repo d dv) keyring priority @ dnf_sections fs d repo keyring (priority - 1) dvs)"

definition bind_if_exists :: "node \<Rightarrow> path \<Rightarrow> path \<Rightarrow> (string list \<Rightarrow> path) \<Rightarrow> mock_buildroot \<Rightarrow> mock_buildroot" where
  "bind_if_exists fs tested src chroot r =
     (if fs_exists fs tested then r\<lparr>mr_mounts := mr_mounts r @ [(src, chroot [path_str src])]\<rparr> else r)"

definition derivatives_preinit ::
  "(string list \<Rightarrow> path) \<Rightarrow> node \<Rightarrow> plugin_opts \<Rightarrow> mock_buildroot \<Rightarrow> mock_buildroot res" where
  "derivatives_preinit chroot fs opts r =
     rbind (dict_item opts ''repo'') (\<lambda>repo_s. let repo = path_parts repo_s in
     rbind (dict_item opts ''keyring'') (\<lambda>keyring_s. let keyring = path_parts keyring_s in
     if mr_bootstrap r
     then Inr (bind_if_exists fs keyring (butlast keyring) chroot (bind_if_exists fs repo repo chroot r))
     else rbind (dict_item opts ''derivatives'') (\<lambda>derivatives.
          rmap (\<lambda>d. r\<lparr>mr_dnf_conf := mr_dnf_conf r @ dnf_sections fs d repo keyring 50 (rev (split_on CHR '','' derivatives))\<rparr>)
            (dict_item opts ''distribution''))))"

section \<open>After the build\<close>

text \<open>What the plugins have mock do: install packages, run a shell in the chroot, print a title, run a command
  in the chroot.\<close>

datatype mock_call = MockInstall "string list" | MockShell | MockPrint string | MockChroot "string list"

definition interactive_postbuild :: "plugin_opts \<Rightarrow> mock_buildroot \<Rightarrow> mock_call list res" where
  "interactive_postbuild opts r =
     (if mr_result r \<noteq> ''fail'' then Inr []
      else rmap (\<lambda>enabled. if enabled \<noteq> ''yes'' then [] else [MockInstall [''vim'', ''less''], MockShell]) (dict_item opts ''enabled''))"

definition list_query :: string where
  "list_query = [CHR 0x5B] @ ''%{FILEMODES:perms} %8{FILEUSERNAME}/%-8{FILEGROUPNAME} %7{FILESIZES:humansi} %-36{FILENAMES}'' @ nl @ [CHR 0x5D]"

definition relative_to :: "path \<Rightarrow> path \<Rightarrow> string res" where
  "relative_to p base = (if prefix base p then Inr (str_join ''/'' (drop (length base) p)) else Inl ValueErr)"

definition list_package :: "path \<Rightarrow> path \<Rightarrow> string \<Rightarrow> (mock_call list, unit) act" where
  "list_package root rpm_dir name =
     sbind (smodify (\<lambda>calls. calls @ [MockPrint (nl @ ''-- Content of RPM packages '' @ name)])) (\<lambda>_.
     sbind (slift (relative_to (rpm_dir @ [name]) root)) (\<lambda>rel.
     smodify (\<lambda>calls. calls @ [MockChroot [''rpm'', ''--query'', ''--queryformat'', list_query, ''--package'', rel]])))"

definition list_postbuild :: "(string list \<Rightarrow> path) \<Rightarrow> node \<Rightarrow> mock_buildroot \<Rightarrow> (mock_call list, unit) act" where
  "list_postbuild chroot fs r =
     (if mr_result r \<noteq> ''success'' then sret ()
      else let rpm_dir = chroot [mr_builddir r, ''RPMS'']; root = chroot [] in
        sfor (list_package root rpm_dir)
          (case fs_iterdir fs rpm_dir of Inl _ \<Rightarrow> [] | Inr names \<Rightarrow> filter (\<lambda>n. endswith n ''.rpm'') names))"

section \<open>Chains of derivatives\<close>

text \<open>The chain of a derivative does not depend on the bound of the recursion, and none comes twice in it.\<close>

lemma chain_unique:
  "recursive_derivatives n p dv = Inr c \<Longrightarrow> recursive_derivatives m p dv = Inr c' \<Longrightarrow> c = c'"
proof (induction n arbitrary: dv c m c')
  case (Suc n)
  then obtain k where m: "m = Suc k" by (cases m) auto
  show ?case
  proof (cases "dv = ''main''")
    case True
    with Suc.prems m show ?thesis by (simp add: recursive_derivatives.simps)
  next
    case False
    then show ?thesis
      using recursive_derivatives_step [OF False, THEN iffD1, OF Suc.prems(1)]
        recursive_derivatives_step [OF False, THEN iffD1, OF Suc.prems(2) [unfolded m]] Suc.IH by fastforce
  qed
qed simp

lemma chain_member:
  "recursive_derivatives n p dv = Inr c \<Longrightarrow> x \<in> set c \<Longrightarrow> \<exists>m c'. recursive_derivatives m p x = Inr c' \<and> length c' \<le> length c"
proof (induction n arbitrary: dv c)
  case (Suc n)
  show ?case
  proof (cases "dv = ''main''")
    case True
    with Suc.prems have "c = [''main'']" by (simp add: recursive_derivatives.simps)
    with Suc.prems True have "x = dv" by simp
    with Suc.prems(1) show ?thesis by blast
  next
    case False
    then obtain e c1 where e: "recursive_derivatives n p e = Inr c1" "c = dv # c1"
      using recursive_derivatives_step [OF False, THEN iffD1, OF Suc.prems(1)] by blast
    show ?thesis
    proof (cases "x = dv")
      case True
      with Suc.prems(1) show ?thesis by blast
    next
      case x: False
      with Suc.prems(2) e(2) have "x \<in> set c1" by simp
      from Suc.IH [OF e(1) this] e(2) show ?thesis by (auto intro: le_SucI)
    qed
  qed
qed simp

lemma chain_distinct: "recursive_derivatives n p dv = Inr c \<Longrightarrow> distinct c"
proof (induction n arbitrary: dv c)
  case (Suc n)
  show ?case
  proof (cases "dv = ''main''")
    case True
    with Suc.prems show ?thesis by (auto simp: recursive_derivatives.simps)
  next
    case False
    then obtain e c1 where e: "recursive_derivatives n p e = Inr c1" "c = dv # c1"
      using recursive_derivatives_step [OF False, THEN iffD1, OF Suc.prems] by blast
    have "dv \<notin> set c1"
    proof
      assume "dv \<in> set c1"
      from chain_member [OF e(1) this] obtain m c' where "recursive_derivatives m p dv = Inr c'" "length c' \<le> length c1" by blast
      with chain_unique [OF Suc.prems, of m c'] e(2) show False by (metis Suc_n_not_le_n length_Cons)
    qed
    with Suc.IH [OF e(1)] e(2) show ?thesis by simp
  qed
qed simp

end
