(* ===== verification/MockSafety.thy ===== *)
theory MockSafety imports MockPlugins HttpSafety BuildExamples begin

text \<open>
  The repositories that an RPM build sees: of two derivatives that offer a package, the one that is nearer to
  the derivative of the build wins.
\<close>

text \<open>The options of the plugin, as the command of the build gives them.\<close>

definition given_opts :: "build_world \<Rightarrow> build \<Rightarrow> path \<Rightarrow> plugin_opts" where
  "given_opts W b keyring =
     [(''repo'', path_str (ro_path (bw_registry W))), (''distribution'', b_distribution b),
      (''derivatives'', str_join '','' (b_derivatives b)), (''keyring'', path_str keyring)]"

definition plugin_option :: "string \<Rightarrow> string \<times> string \<Rightarrow> string list" where
  "plugin_option plugin o1 = [''--plugin-option'', plugin @ '':'' @ fst o1 @ ''='' @ snd o1]"

lemma options_given:
  "derivatives_options W b keyring =
     [''--enable-plugin'', ''fatbuildr_derivatives''] @ concat (map (plugin_option ''fatbuildr_derivatives'') (given_opts W b keyring))"
  by (simp add: derivatives_options_def given_opts_def plugin_option_def)

section \<open>Priorities\<close>

text \<open>The priority of a derivative: as many below the first one as it has published ancestors.\<close>

definition repo_priority :: "(string \<Rightarrow> bool) \<Rightarrow> int \<Rightarrow> string list \<Rightarrow> string \<Rightarrow> int" where
  "repo_priority published first ds x = first - int (length (filter published (tl (dropWhile (\<lambda>y. y \<noteq> x) ds))))"

abbreviation published_in :: "node \<Rightarrow> path \<Rightarrow> string \<Rightarrow> string \<Rightarrow> bool" where
  "published_in fs repo d \<equiv> \<lambda>x. has_metadata fs (repos_dir repo d x)"

lemma dnf_sections_append:
  "dnf_sections fs d repo keyring prio (xs @ ys) =
     dnf_sections fs d repo keyring prio xs
     @ dnf_sections fs d repo keyring (prio - int (length (filter (published_in fs repo d) xs))) ys"
  by (induction xs arbitrary: prio) (simp_all add: algebra_simps)

lemma dnf_sections_priorities:
  "distinct ds \<Longrightarrow> dnf_sections fs d repo keyring prio (rev ds) =
     concat (map (\<lambda>x. if published_in fs repo d x
        then dnf_section d x (repos_dir repo d x) keyring (repo_priority (published_in fs repo d) prio ds x) else []) (rev ds))"
proof (induction ds)
  case (Cons a ds)
  have "repo_priority P prio (a # ds) x = repo_priority P prio ds x" if "x \<in> set ds" for P x
    using that Cons.prems by (auto simp: repo_priority_def)
  then have eq: "map (\<lambda>x. if published_in fs repo d x
        then dnf_section d x (repos_dir repo d x) keyring (repo_priority (published_in fs repo d) prio (a # ds) x) else []) (rev ds) =
      map (\<lambda>x. if published_in fs repo d x
        then dnf_section d x (repos_dir repo d x) keyring (repo_priority (published_in fs repo d) prio ds x) else []) (rev ds)"
    by simp
  then show ?case
    using Cons.IH Cons.prems
    by (simp add: dnf_sections_append eq) (simp add: repo_priority_def rev_filter [symmetric])
qed simp

lemma filter_drop_less:
  "i < j \<Longrightarrow> j < length ds \<Longrightarrow> P (ds ! j) \<Longrightarrow> length (filter P (drop (Suc j) ds)) < length (filter P (drop (Suc i) ds))"
proof -
  assume ij: "i < j" "j < length ds" "P (ds ! j)"
  have "drop (Suc i) ds = take (j - Suc i) (drop (Suc i) ds) @ ds ! j # drop (Suc j) ds"
    using ij id_take_nth_drop [of "j - Suc i" "drop (Suc i) ds"] by simp
  then have "filter P (drop (Suc i) ds) = filter P (take (j - Suc i) (drop (Suc i) ds)) @ ds ! j # filter P (drop (Suc j) ds)"
    using ij(3) by (metis filter.simps(2) filter_append)
  then show ?thesis by simp
qed

lemma priority_nth:
  assumes "distinct ds" and "i < length ds"
  shows "repo_priority P prio ds (ds ! i) = prio - int (length (filter P (drop (Suc i) ds)))"
proof -
  have ds: "ds = take i ds @ ds ! i # drop (Suc i) ds" by (rule id_take_nth_drop [OF assms(2)])
  with assms(1) have "ds ! i \<notin> set (take i ds)" by (metis distinct_append disjoint_iff list.set_intros(1))
  then have "dropWhile (\<lambda>y. y \<noteq> ds ! i) (take i ds @ ds ! i # drop (Suc i) ds) = ds ! i # drop (Suc i) ds"
    by (subst dropWhile_append2) auto
  with ds show ?thesis by (simp add: repo_priority_def)
qed

lemma chain_ne: "recursive_derivatives n p dv = Inr c \<Longrightarrow> c \<noteq> []"
  using recursive_derivatives_step [of dv "n - 1" p c]
  by (cases n; cases "dv = ''main''") (auto simp: recursive_derivatives.simps(1), auto simp: recursive_derivatives.simps)

text \<open>C15. In the chroot of a build, the repositories of the derivatives that are published, and of no other, are added to the
  settings of dnf, the derivative of the build and those it extends; the nearer one to the derivative of the build has the
  lower number, which is what dnf prefers.\<close>

theorem derivative_precedence:
  assumes "recursive_derivatives n p dv = Inr (b_derivatives b)" and "\<forall>x \<in> set (b_derivatives b). CHR '','' \<notin> set x"
    and "\<not> mr_bootstrap r" and "repo = ro_path (bw_registry W)" and "repo \<noteq> []" and "plain_parts repo"
    and "keyring \<noteq> []" and "plain_parts keyring"
  shows "\<exists>prio. derivatives_preinit chroot fs (given_opts W b keyring) r =
      Inr (r\<lparr>mr_dnf_conf := mr_dnf_conf r @ concat (map (\<lambda>x. if has_metadata fs (repos_dir repo (b_distribution b) x)
         then dnf_section (b_distribution b) x (repos_dir repo (b_distribution b) x) keyring (prio x) else []) (rev (b_derivatives b)))\<rparr>)
    \<and> (\<forall>i j. i < j \<and> j < length (b_derivatives b) \<and> has_metadata fs (repos_dir repo (b_distribution b) (b_derivatives b ! j))
         \<longrightarrow> prio (b_derivatives b ! i) < prio (b_derivatives b ! j))"
proof -
  let ?ds = "b_derivatives b" and ?d = "b_distribution b"
  let ?prio = "repo_priority (published_in fs repo ?d) 50 ?ds"
  have dist: "distinct ?ds" by (rule chain_distinct [OF assms(1)])
  have "path_parts (path_str q) = q" if "q \<noteq> []" "plain_parts q" for q
    using parts_join [OF that] by (simp add: path_str_def path_parts_def)
  moreover have "split_on CHR '','' (str_join '','' ?ds) = ?ds"
    using split_on_join [OF chain_ne [OF assms(1)], of "CHR '',''"] assms(2) by simp
  ultimately have "derivatives_preinit chroot fs (given_opts W b keyring) r =
      Inr (r\<lparr>mr_dnf_conf := mr_dnf_conf r @ dnf_sections fs ?d repo keyring 50 (rev ?ds)\<rparr>)"
    using assms(3-8) by (simp add: derivatives_preinit_def given_opts_def dict_item_def dict_get_def)
  moreover have "?prio (?ds ! i) < ?prio (?ds ! j)" if "i < j" "j < length ?ds" "published_in fs repo ?d (?ds ! j)" for i j
    using filter_drop_less [of i j ?ds "published_in fs repo ?d"] that by (simp add: priority_nth [OF dist])
  ultimately show ?thesis
    unfolding dnf_sections_priorities [OF dist] by blast
qed

section \<open>Witness\<close>

definition demo_registry_tree :: node where
  "demo_registry_tree =
     (let repodata = Dir [(''source'', Dir [(''repodata'', Dir [(''repomd.xml'', File [])])])] in
      Dir [(''reg'', Dir [(''el9'', Dir [(''main'', repodata), (''b'', repodata)])])])"

definition demo_derived :: build where
  "demo_derived = demo_build\<lparr>b_derivatives := [''b'', ''a'', ''main''], b_distribution := ''el9''\<rparr>"

definition demo_chroot :: mock_buildroot where
  "demo_chroot = \<lparr>mr_bootstrap = False, mr_mounts = [], mr_dnf_conf = [], mr_result = [], mr_builddir = ''/builddir''\<rparr>"

theorem derivative_precedence_witness:
  "\<exists>prio r. derivatives_preinit (\<lambda>_. []) demo_registry_tree (given_opts demo_world demo_derived [''k'']) demo_chroot = Inr r
    \<and> mr_dnf_conf r = dnf_section ''el9'' ''main'' [''reg'', ''el9'', ''main''] [''k''] (prio ''main'')
        @ dnf_section ''el9'' ''b'' [''reg'', ''el9'', ''b''] [''k''] (prio ''b'')
    \<and> prio ''b'' < prio ''main''"
proof -
  let ?P = "\<lambda>x. has_metadata demo_registry_tree (repos_dir [''reg''] ''el9'' x)"
  have eqs: "b_derivatives demo_derived = [''b'', ''a'', ''main'']" "b_distribution demo_derived = ''el9''" "\<not> mr_bootstrap demo_chroot"
    "mr_dnf_conf demo_chroot = []" "ro_path (bw_registry demo_world) = [''reg'']"
    by (simp_all add: demo_derived_def demo_chroot_def demo_world_def)
  have pubs: "?P ''b''" "\<not> ?P ''a''" "?P ''main''" by code_simp+
  have dirs: "repos_dir [''reg''] ''el9'' ''b'' = [''reg'', ''el9'', ''b'']" "repos_dir [''reg''] ''el9'' ''main'' = [''reg'', ''el9'', ''main'']"
    by code_simp+
  have chain: "recursive_derivatives 5 example_pipelines ''b'' = Inr (b_derivatives demo_derived)"
    unfolding eqs by code_simp
  have names: "\<forall>x \<in> set (b_derivatives demo_derived). CHR '','' \<notin> set x"
    and paths: "plain_parts [''reg'']" "plain_parts [''k'']" "[''reg''] \<noteq> []" "[''k''] \<noteq> []"
    by (simp_all add: eqs plain_parts_def)
  from derivative_precedence [OF chain names eqs(3) eqs(5) [symmetric] paths(3,1,4,2), of "\<lambda>_. []" demo_registry_tree]
  obtain prio where pre: "derivatives_preinit (\<lambda>_. []) demo_registry_tree (given_opts demo_world demo_derived [''k'']) demo_chroot =
      Inr (demo_chroot\<lparr>mr_dnf_conf := concat (map (\<lambda>x. if ?P x
         then dnf_section ''el9'' x (repos_dir [''reg''] ''el9'' x) [''k''] (prio x) else []) [''main'', ''a'', ''b''])\<rparr>)"
    and prio: "\<forall>i j. i < j \<and> j < length [''b'', ''a'', ''main''] \<and> ?P ([''b'', ''a'', ''main''] ! j)
         \<longrightarrow> prio ([''b'', ''a'', ''main''] ! i) < prio ([''b'', ''a'', ''main''] ! j)"
    unfolding eqs by (auto simp del: concat.simps list.map nth_Cons_0 nth_Cons' nth_Cons_Suc length_Cons list.size)
  from pubs have "concat (map (\<lambda>x. if ?P x
         then dnf_section ''el9'' x (repos_dir [''reg''] ''el9'' x) [''k''] (prio x) else []) [''main'', ''a'', ''b'']) =
     dnf_section ''el9'' ''main'' [''reg'', ''el9'', ''main''] [''k''] (prio ''main'')
        @ dnf_section ''el9'' ''b'' [''reg'', ''el9'', ''b''] [''k''] (prio ''b'')"
    by (simp add: dirs)
  moreover have "prio ''b'' < prio ''main''" using prio [rule_format, of 0 2] pubs(3) by simp
  ultimately show ?thesis unfolding pre by auto
qed

end
