(* ===== verification/Cleanup.thy ===== *)
theory Cleanup imports PatchQueue BuildExamples begin

text \<open>
  \<^verbatim>\<open>fatbuildr/cleanup.py\<close>: the temporary directories that are registered and removed when the program ends,
  as the patch queue of \<^verbatim>\<open>fatbuildr/patches.py\<close> registers its own. The state is the file tree with the
  registry.
\<close>

section \<open>The registry\<close>

type_synonym cleanup_state = "node \<times> path list"

definition add_tmpdir :: "path \<Rightarrow> (cleanup_state, unit) act" where
  "add_tmpdir d = smodify (\<lambda>(fs, ds). (fs, ds @ [d]))"

definition del_tmpdir :: "path \<Rightarrow> (cleanup_state, unit) act" where
  "del_tmpdir d = spart snd (\<lambda>ds (fs, _). (fs, ds)) (list_remove d)"

text \<open>A directory that is gone is logged.\<close>

definition clean :: "(cleanup_state, unit) act" where
  "clean s = sfor (\<lambda>d. spart fst (\<lambda>fs (_, ds). (fs, ds)) (\<lambda>fs. if fs_exists fs d then fs_rmtree d fs else Inr fs)) (snd s) s"

section \<open>The patch queue\<close>

text \<open>An action on files only.\<close>

definition on_files :: "(node, 'a) act \<Rightarrow> (cleanup_state, 'a) act" where
  "on_files m s = (case m (fst s) of (r, fs) \<Rightarrow> (r, (fs, snd s)))"

text \<open>\<^verbatim>\<open>PatchQueue.run\<close>, from the extraction to the removal of the directory.\<close>

definition pq_in_tmpdir ::
  "git_libs \<Rightarrow> (string \<Rightarrow> string \<Rightarrow> archive_file res) \<Rightarrow> (path \<Rightarrow> string \<Rightarrow> node \<Rightarrow> node res) \<Rightarrow> path
   \<Rightarrow> (git_state \<Rightarrow> git_state) option \<Rightarrow> patch_queue \<Rightarrow> (node, unit) act" where
  "pq_in_tmpdir G ropen link tmpdir shell q fs =
     (case extract_sources ropen link True tmpdir (pq_artifact q) (pq_main_source q) (pq_supplementary q) fs of
        Inl e \<Rightarrow> (Inl e, fs)
      | Inr (repo_path, fs1) \<Rightarrow>
          (case pq_version q of
             None \<Rightarrow> (Inl TypeErr, fs1)
           | Some version \<Rightarrow>
               (let (r, s) = pq_work G shell q tmpdir repo_path version (git_init_state fs1) in (r, gs_fs s))))"

definition pq_run_registered ::
  "build_libs \<Rightarrow> git_libs \<Rightarrow> (string \<Rightarrow> string \<Rightarrow> archive_file res) \<Rightarrow> (path \<Rightarrow> string \<Rightarrow> node \<Rightarrow> node res) \<Rightarrow>
   path \<Rightarrow> path \<Rightarrow> (git_state \<Rightarrow> git_state) option \<Rightarrow> patch_queue \<Rightarrow> (cleanup_state, unit) act" where
  "pq_run_registered L G ropen link cache_dir tmpdir shell q =
     sbind (on_files (load_sources L cache_dir (ad_sources (pq_defs q)) (load_given q))) (\<lambda>q.
     sbind (on_files (spart (\<lambda>fs. fs) (\<lambda>n _. n) (fs_mkdir tmpdir))) (\<lambda>_.
     sbind (add_tmpdir tmpdir) (\<lambda>_.
     sbind (on_files (pq_in_tmpdir G ropen link tmpdir shell q)) (\<lambda>_.
     del_tmpdir tmpdir))))"

text \<open>The program: the action, then what is registered for its end, whatever the action raises.\<close>

definition at_exit_clean :: "(cleanup_state, unit) act \<Rightarrow> (cleanup_state, unit) act" where
  "at_exit_clean m s = clean (snd (m s))"

section \<open>Lemmas\<close>

text \<open>The queue is the one of \<open>PatchQueue\<close>, with the registry beside it.\<close>

lemma pq_run_in_tmpdir:
  "pq_run L G ropen link cache_dir tmpdir shell q =
     sbind (load_sources L cache_dir (ad_sources (pq_defs q)) (load_given q)) (\<lambda>q.
     sbind (spart (\<lambda>fs. fs) (\<lambda>n _. n) (fs_mkdir tmpdir)) (\<lambda>_. pq_in_tmpdir G ropen link tmpdir shell q))"
  by (simp add: pq_run_def pq_in_tmpdir_def [abs_def])

lemma on_files_sbind: "on_files (sbind m f) = sbind (on_files m) (\<lambda>x. on_files (f x))"
  by (auto simp: fun_eq_iff on_files_def sbind_def split: prod.splits sum.splits)

lemma del_tmpdir_last: "del_tmpdir d (fs, [d]) = (Inr (), fs, [])"
  by (simp add: del_tmpdir_def spart_def list_remove_def)

lemma clean_one: "clean (fs, [d]) = (if fs_exists fs d then (case fs_rmtree d fs of Inl e \<Rightarrow> (Inl e, fs, [d]) | Inr fs' \<Rightarrow> (Inr (), fs', [d])) else (Inr (), fs, [d]))"
  by (simp add: clean_def sbind_def spart_def sret_def split: sum.splits)

lemma clean_none: "clean (fs, []) = (Inr (), fs, [])"
  by (simp add: clean_def sret_def)

lemma git_fs_Inr: "git_fs f s = (Inr u, t) \<Longrightarrow> \<exists>fs. f (gs_fs s) = Inr fs \<and> gs_fs t = fs"
  by (auto simp: git_fs_def spart_def split: sum.splits)

lemma pq_in_tmpdir_removes:
  assumes "pq_in_tmpdir G ropen link tmpdir shell q fs = (Inr (), fs')"
  shows "lookup tmpdir fs' = None"
proof -
  obtain repo_path fs1 version s where "pq_work G shell q tmpdir repo_path version (git_init_state fs1) = (Inr (), s)" "fs' = gs_fs s"
    using assms by (auto simp: pq_in_tmpdir_def split: sum.splits option.splits prod.splits)
  then have "\<exists>fs1. fs_rmtree tmpdir fs1 = Inr fs'"
    by (auto simp: pq_work_def Let_def sbind_Inr_conv dest!: git_fs_Inr)
  then show ?thesis using rmtree_Inr_del lookup_del_same by blast
qed

lemma clean_registered:
  assumes "\<not> fs_is_file fs d" and "d \<noteq> []"
  shows "\<exists>s. clean (fs, [d]) = (Inr (), s) \<and> \<not> fs_exists (fst s) d"
proof (cases "fs_exists fs d")
  case True
  with assms(1) have "fs_is_dir fs d"
    by (auto simp: fs_exists_def fs_is_file_def fs_is_dir_def split: option.splits node.splits)
  with assms(2) obtain fs' where "fs_rmtree d fs = Inr fs'" using rmtree_ok by blast
  moreover from this have "lookup d fs' = None" using rmtree_Inr_del lookup_del_same by blast
  ultimately show ?thesis using True by (simp add: clean_one fs_exists_def)
qed (simp add: clean_one)

section \<open>The end of the program\<close>

text \<open>C32. Whether the patch queue ends, fails or is left by its user in any state, the temporary directory is not there once the
  program has ended, provided its name was free, and it is no file at the end.\<close>

theorem no_tmpdir_left:
  assumes "\<not> fs_exists (snd (load_sources L cache_dir (ad_sources (pq_defs q)) (load_given q) fs)) tmpdir" and "tmpdir \<noteq> []"
    and "\<not> fs_is_file (snd (pq_run L G ropen link cache_dir tmpdir shell q fs)) tmpdir"
  shows "\<exists>s. at_exit_clean (pq_run_registered L G ropen link cache_dir tmpdir shell q) (fs, []) = (Inr (), s) \<and> \<not> fs_exists (fst s) tmpdir"
proof (cases "load_sources L cache_dir (ad_sources (pq_defs q)) (load_given q) fs")
  case (Pair r fs1)
  show ?thesis
  proof (cases r)
    case (Inl e)
    then show ?thesis
      using Pair assms(1) by (simp add: at_exit_clean_def pq_run_registered_def sbind_def on_files_def clean_none)
  next
    case (Inr q1)
    show ?thesis
    proof (cases "fs_mkdir tmpdir fs1")
      case (Inl e)
      then show ?thesis
        using Pair \<open>r = Inr q1\<close> assms(1) by (simp add: at_exit_clean_def pq_run_registered_def sbind_def on_files_def spart_def clean_none)
    next
      case (Inr fs2)
      obtain r3 fs3 where work: "pq_in_tmpdir G ropen link tmpdir shell q1 fs2 = (r3, fs3)" by (rule prod.exhaust)
      then have end1: "snd (pq_run L G ropen link cache_dir tmpdir shell q fs) = fs3"
        using Pair \<open>r = Inr q1\<close> Inr by (simp add: pq_run_in_tmpdir sbind_def spart_def)
      have state: "snd (pq_run_registered L G ropen link cache_dir tmpdir shell q (fs, [])) =
          (fs3, case r3 of Inl _ \<Rightarrow> [tmpdir] | Inr _ \<Rightarrow> [])"
        using Pair \<open>r = Inr q1\<close> Inr work
        by (auto simp: pq_run_registered_def sbind_def on_files_def spart_def add_tmpdir_def smodify_def del_tmpdir_last split: sum.split)
      show ?thesis
      proof (cases r3)
        case (Inl e)
        then show ?thesis
          using clean_registered [of fs3 tmpdir] assms(2,3) end1 by (simp add: at_exit_clean_def state)
      next
        case (Inr u)
        then show ?thesis
          using pq_in_tmpdir_removes [of G ropen link tmpdir shell q1 fs2 fs3] work
          by (simp add: at_exit_clean_def state clean_none fs_exists_def)
      qed
    qed
  qed
qed

section \<open>Witness\<close>

definition demo_pq :: patch_queue where
  "demo_pq = \<lparr>pq_apath = [''foo''], pq_derivative = ''main'', pq_artifact = ''foo'', pq_defs = demo_defs\<lparr>ad_sources := []\<rparr>,
     pq_user = ''Ann'', pq_email = ''a@x'', pq_version = None, pq_sources = [\<lparr>so_id = YStr ''foo'', so_path = [''gone'', ''foo-1.0.tar.xz'']\<rparr>],
     pq_main_source = None, pq_supplementary = []\<rparr>"

definition demo_pq_run :: "(node, unit) act" where
  "demo_pq_run = pq_run demo_libs demo_git (\<lambda>_ _. Inl ValueErr) (\<lambda>_ _ fs. Inr fs) [''cache''] [''tmp'', ''pq''] None demo_pq"

theorem no_tmpdir_left_witness:
  "fs_is_dir (snd (demo_pq_run demo_fs)) [''tmp'', ''pq''] \<and>
   (\<exists>s. at_exit_clean (pq_run_registered demo_libs demo_git (\<lambda>_ _. Inl ValueErr) (\<lambda>_ _ fs. Inr fs) [''cache''] [''tmp'', ''pq''] None demo_pq)
      (demo_fs, []) = (Inr (), s) \<and> \<not> fs_exists (fst s) [''tmp'', ''pq''])"
proof -
  have left: "fs_is_dir (snd (demo_pq_run demo_fs)) [''tmp'', ''pq'']" by code_simp
  have "\<not> fs_exists (snd (load_sources demo_libs [''cache''] (ad_sources (pq_defs demo_pq)) (load_given demo_pq) demo_fs)) [''tmp'', ''pq'']"
    by code_simp
  from no_tmpdir_left [OF this, of demo_git "\<lambda>_ _. Inl ValueErr" "\<lambda>_ _ fs. Inr fs" None] left show ?thesis
    by (auto simp: demo_pq_run_def fs_is_dir_def fs_is_file_def split: option.splits node.splits)
qed

end
