(* ===== verification/Templates.thy ===== *)
theory Templates imports SourceDefs begin

text \<open>
  \<^verbatim>\<open>fatbuildr/templates.py\<close>: the filters of the templates, and what is made of the errors of Jinja2, whose
  rendering is a parameter. Times are whole seconds; the offset of the local time is a parameter, the
  calendar is the one of \<^verbatim>\<open>datetime\<close>.
\<close>

section \<open>Versions\<close>

definition filter_gittag :: "string \<Rightarrow> string" where
  "filter_gittag value1 = replace_char CHR ''~'' CHR ''-'' value1"

definition filter_rpm_version :: "string \<Rightarrow> string" where
  "filter_rpm_version value1 = replace_char CHR ''-'' CHR ''~'' value1"

text \<open>A version that is written for one of them is got back by the other.\<close>

lemma gittag_rpm: "CHR ''~'' \<notin> set v \<Longrightarrow> filter_gittag (filter_rpm_version v) = v"
  by (induction v) (auto simp: filter_gittag_def filter_rpm_version_def replace_char_def)

lemma filters_clean: "CHR ''~'' \<notin> set (filter_gittag v)" "CHR ''-'' \<notin> set (filter_rpm_version v)"
  by (auto simp: filter_gittag_def filter_rpm_version_def replace_char_def)

section \<open>Times\<close>

text \<open>The year, the month and the day of the days since 1970, in years that begin in March and cycles of 400
  years.\<close>

definition civil_date :: "int \<Rightarrow> int \<times> nat \<times> nat" where
  "civil_date days =
     (let z = days + 719468; era = z div 146097; doe = z mod 146097;
          yoe = (doe - doe div 1460 + doe div 36524 - doe div 146096) div 365;
          doy = doe - (365 * yoe + yoe div 4 - yoe div 100);
          mp = (5 * doy + 2) div 153;
          m = (if mp < 10 then mp + 3 else mp - 9)
      in (yoe + era * 400 + (if m \<le> 2 then 1 else 0), nat m, nat (doy - (153 * mp + 2) div 5 + 1)))"

definition local_days :: "(int \<Rightarrow> int) \<Rightarrow> int \<Rightarrow> int" where
  "local_days offset t = (t + offset t) div 86400"

definition local_seconds :: "(int \<Rightarrow> int) \<Rightarrow> int \<Rightarrow> int" where
  "local_seconds offset t = (t + offset t) mod 86400"

definition pad_zeros :: "nat \<Rightarrow> string \<Rightarrow> string" where
  "pad_zeros n s = replicate (n - length s) CHR ''0'' @ s"

definition day_names :: "string list" where
  "day_names = [''Sun'', ''Mon'', ''Tue'', ''Wed'', ''Thu'', ''Fri'', ''Sat'']"

definition month_names :: "string list" where
  "month_names = [''Jan'', ''Feb'', ''Mar'', ''Apr'', ''May'', ''Jun'', ''Jul'', ''Aug'', ''Sep'', ''Oct'', ''Nov'', ''Dec'']"

text \<open>The day of the week, from Sunday; the first of January 1970 was a Thursday.\<close>

definition week_day :: "int \<Rightarrow> nat" where
  "week_day days = nat ((days + 4) mod 7)"

definition timestamp_rpmdate :: "(int \<Rightarrow> int) \<Rightarrow> int \<Rightarrow> string" where
  "timestamp_rpmdate offset t =
     (let days = local_days offset t; (y, m, d) = civil_date days in
      str_join '' '' [day_names ! week_day days, month_names ! (m - 1), pad_zeros 2 (nat_str d), int_str y])"

definition timestamp_iso :: "(int \<Rightarrow> int) \<Rightarrow> int \<Rightarrow> string" where
  "timestamp_iso offset t =
     (let (y, m, d) = civil_date (local_days offset t); s = local_seconds offset t in
      str_join ''-'' [pad_zeros 4 (int_str y), pad_zeros 2 (nat_str m), pad_zeros 2 (nat_str d)] @ '' ''
      @ str_join '':'' (map (\<lambda>n. pad_zeros 2 (int_str n)) [s div 3600, s mod 3600 div 60, s mod 60]))"

text \<open>The dates that the tests of the repository check, and the end of a leap day.\<close>

lemma rpmdate_example: "timestamp_rpmdate (\<lambda>_. 0) 949536000 = ''Thu Feb 03 2000''"
  by code_simp

lemma iso_example: "timestamp_iso (\<lambda>_. 0) 949550706 = ''2000-02-03 04:05:06'' \<and> timestamp_iso (\<lambda>_. 3600) 1709247599 = ''2024-02-29 23:59:59''"
  by code_simp

lemma week_day_index: "week_day days < length day_names"
  by (simp add: week_day_def day_names_def nat_less_iff)

section \<open>Rendering\<close>

text \<open>What rendering a text gives: the result, an error of the syntax of the template, or another exception.\<close>

datatype jinja_result = Rendered string | TemplateSyntaxError | JinjaRaised exn

definition jinja_translated :: "jinja_result \<Rightarrow> string res" where
  "jinja_translated r = (case r of Rendered s \<Rightarrow> Inr s | TemplateSyntaxError \<Rightarrow> Inl RuntimeErr | JinjaRaised e \<Rightarrow> Inl e)"

definition Templeter_srender :: "(string \<Rightarrow> 'v \<Rightarrow> jinja_result) \<Rightarrow> string \<Rightarrow> 'v \<Rightarrow> string res" where
  "Templeter_srender render1 str1 vars = jinja_translated (render1 str1 vars)"

text \<open>A template that is missing is an error of the library.\<close>

definition Templeter_frender :: "(string \<Rightarrow> 'v \<Rightarrow> jinja_result) \<Rightarrow> (path \<Rightarrow> exn) \<Rightarrow> node \<Rightarrow> path \<Rightarrow> 'v \<Rightarrow> string res" where
  "Templeter_frender render1 missing fs p vars =
     (case lookup p fs of Some (File text1) \<Rightarrow> jinja_translated (render1 text1 vars) | _ \<Rightarrow> Inl (missing p))"

end
