(* ===== verification/TaskBodies.thy ===== *)
theory TaskBodies imports TasksManager Registries begin

text \<open>
  What the tasks on the history and on the registry do: \<^verbatim>\<open>tasks/history.py\<close> and \<^verbatim>\<open>tasks/registry.py\<close>, which call
  the managers of their instance. A purge asks the tasks manager for the tasks that it must leave alone.
\<close>

definition HistoryPurgeTask_run ::
  "(string \<Rightarrow> pyval res) \<Rightarrow> int \<Rightarrow> string \<Rightarrow> string \<Rightarrow> tasks_manager \<Rightarrow> purge_state res" where
  "HistoryPurgeTask_run yaml_load now policy value1 s =
     history_purge yaml_load (map qt_id (tm_fullqueue s)) (tm_workspaces s) now policy value1 (tm_fs s)"

definition RegistryArtifactDeletionTask_run ::
  "registry_env \<Rightarrow> string \<Rightarrow> string \<Rightarrow> string \<Rightarrow> registry_artifact \<Rightarrow> repo_state \<Rightarrow> repo_state res" where
  "RegistryArtifactDeletionTask_run E fmt distribution derivative artifact s =
     mgr_delete_artifact E fmt distribution derivative artifact s"

lemma full_queue_ids:
  "qt_id ` set (tm_fullqueue s) = qt_id ` set (QueueManager_dump (tm_queue s)) \<union> set_option (map_option qt_id (tm_running s))"
  by (cases "tm_running s")
    (auto simp: tm_fullqueue_def fullqueue_merge_def queued_task.defs image_iff split: if_splits)

text \<open>C31. A purge that runs leaves the workspace of every task in the queue as it was, and its own: what is below their
  directories is not changed, whatever the policy is and whatever the workspaces contain.\<close>

theorem purge_task_spares:
  assumes "HistoryPurgeTask_run yaml_load now policy value1 s = Inr st" and "dir_ok (tm_fs s) (tm_workspaces s)"
    and "t \<in> set (QueueManager_dump (tm_queue s)) \<or> tm_running s = Some t"
  shows "lookup (tm_workspaces s @ qt_id t # rest) (ps_fs st) = lookup (tm_workspaces s @ qt_id t # rest) (tm_fs s)"
proof -
  have "qt_id t \<in> qt_id ` set (tm_fullqueue s)" unfolding full_queue_ids using assms(3) by auto
  then show ?thesis
    using purge_spares_queue [OF assms(1) [unfolded HistoryPurgeTask_run_def] assms(2)] by simp
qed

section \<open>Witness\<close>

definition purging_task :: runnable where
  "purging_task = RunnableTask_init ''history purge'' ''t3'' (PStr ''u'') [''w'', ''t3''] 5 []"

definition purging_manager :: tasks_manager where
  "purging_manager = \<lparr>tm_fs = hist_fs, tm_workspaces = [''w''], tm_queue = QueueManager_init, tm_state_file = NoFile,
     tm_running = Some purging_task, tm_hooks = []\<rparr>"

lemma purging_run:
  "HistoryPurgeTask_run hist_yaml 0 ''last'' ''1'' purging_manager = history_purge hist_yaml [''t3''] [''w''] 0 ''last'' ''1'' hist_fs"
  by (simp add: HistoryPurgeTask_run_def purging_manager_def tm_fullqueue_def fullqueue_merge_def QueueManager_dump_def QueueManager_init_def
      purging_task_def RunnableTask_init_def queued_task.defs)

theorem purge_task_spares_witness:
  "\<exists>st. HistoryPurgeTask_run hist_yaml 0 ''last'' ''1'' purging_manager = Inr st \<and> ps_removed st = 1
     \<and> lookup [''w'', ''t3'', ''log''] (ps_fs st) = lookup [''w'', ''t3'', ''log''] hist_fs"
proof -
  obtain st where st: "HistoryPurgeTask_run hist_yaml 0 ''last'' ''1'' purging_manager = Inr st" "ps_removed st = 1"
    using hist_purge_example unfolding purging_run by auto
  have man: "tm_fs purging_manager = hist_fs" "tm_workspaces purging_manager = [''w'']" "tm_running purging_manager = Some purging_task"
    "qt_id purging_task = ''t3''"
    by (simp_all add: purging_manager_def purging_task_def RunnableTask_init_def)
  have "dir_ok (tm_fs purging_manager) (tm_workspaces purging_manager)"
    by (simp add: man dir_ok_def hist_fs_def)
  from purge_task_spares [OF st(1) this, of purging_task "[''log'']"] st show ?thesis by (simp add: man)
qed

end
