(* ===== verification/Spec2Isabelle.thy ===== *)
theory Spec2Isabelle
  imports Specifics Versions Wire History Dispatch Archive HttpFlow Daemon GitRoundtrip RpmSpec BuildFailures ImageSpec CtlSafety AttachSafety CtlArgsSafety StartupSafety MockSafety
    Cleanup Templates TaskBodies
begin

text \<open>
  A verification library of Fatbuildr, a service that builds packages for several Linux distributions
  and manages their repositories. The paths below are under \<^verbatim>\<open>src/fatbuildr/\<close>.

  The parts and how they interact. \<^verbatim>\<open>fatbuildrd\<close> loads the configuration and the instances and runs,
  for each instance, a worker that takes tasks from a queue and runs them in a workspace. Tasks
  are submitted over D-Bus, by the command \<^verbatim>\<open>fatbuildrctl\<close> or by the web server \<^verbatim>\<open>fatbuildrweb\<close>, whose
  REST interface has its own client; both clients offer the same operations. A build extracts the
  definition of the artifact it got, finds or downloads its sources, prepares patches and templates,
  runs commands in containers and publishes what they made in the registry of its format. Keyrings
  sign packages, images hold the build environments, the history keeps the workspaces of tasks, and a
  console protocol shows their output.

  Foundations.
  \<^item> \<open>Prelude\<close>: the exceptions of \<^verbatim>\<open>errors.py\<close> as values, results \<open>exn + 'a\<close>, actions on a state \<open>'s \<Rightarrow> ('a
    res) \<times> 's\<close> with sequence, loop and handler, dictionaries and dynamic values; \<open>PyStr\<close>, \<open>PyRegex\<close>: the methods of
    strings and a backtracking matcher for the patterns the code uses; \<open>FileSys\<close>: file trees and the
    laws of lookups after writes, as the locale \<open>file_store\<close>; \<open>Frames\<close>: what an action leaves as it was,
    as the locale \<open>framed\<close>, interpreted for each relation.

  The data and the services.
  \<^item> \<open>Specifics\<close>, \<open>Versions\<close>: architecture names and versions (\<^verbatim>\<open>specifics.py\<close>, \<^verbatim>\<open>registry/formats/__init__.py\<close>).
  \<^item> \<open>Registry\<close>, \<open>RegistryDeb\<close>, \<open>RegistryRpm\<close>, \<open>Registries\<close>: repositories of images, deb and RPM packages behind one
    interface (locale \<open>registry_backend\<close>); what a publication or a deletion changes.
  \<^item> \<open>Pipelines\<close>: distributions and derivatives of an instance (\<^verbatim>\<open>instances.py\<close>); the inheritance of derivatives
    is defined with a fuel of Python's recursion limit, and it is shown when that limit is reached.
  \<^item> \<open>Tasks\<close>, \<open>TaskQueue\<close>, \<open>TasksManager\<close>: the declarations of tasks, the queue with its locks as a step relation
    (\<^verbatim>\<open>tasks/manager.py\<close>; locale \<open>fifo_queue\<close>) and the life of a task; \<open>PurgePolicies\<close>, \<open>History\<close>: saved forms, the
    listing and the four purges (\<^verbatim>\<open>history.py\<close>; locale \<open>purge_policy\<close>).
  \<^item> \<open>ConsoleProto\<close>, \<open>Dispatch\<close>: messages, readers (locale \<open>byte_reader\<close>) and the event loop of the server side; \<open>Attach\<close>,
    \<open>AttachSafety\<close>: the attached client (\<^verbatim>\<open>console/client.py\<close>), its terminal and what it shows; \<open>Logging\<close>, \<open>LoggingSafety\<close>: the
    loggers, their levels and the handlers of the threads of tasks (\<^verbatim>\<open>log/\<close>).
  \<^item> \<open>Timer\<close>, \<open>Daemon\<close>: the threads of \<^verbatim>\<open>cli/fatbuildrd.py\<close> as a step relation, with invariants by rule induction.
  \<^item> \<open>TaskBodies\<close>: the purge and the deletion that tasks run (\<^verbatim>\<open>tasks/history.py\<close>, \<^verbatim>\<open>tasks/registry.py\<close>).
  \<^item> \<open>Config\<close>: the two layers of configuration files, their interpolation (depth 10, as in \<^verbatim>\<open>configparser\<close>) and the
    preferences (\<^verbatim>\<open>conf.py\<close>, \<^verbatim>\<open>prefs.py\<close>); \<open>ConfDump\<close>: what is logged of them. \<open>Startup\<close>, \<open>StartupSafety\<close>: the start of the daemon and of
    the web application, with the instances and their keys, and what is told to the service manager
    (\<^verbatim>\<open>cli/\<close>, \<^verbatim>\<open>instances.py\<close>, \<^verbatim>\<open>services.py\<close>). \<open>Keyring\<close>: the key of an instance (\<^verbatim>\<open>keyring.py\<close>).
  \<^item> \<open>Archive\<close>: members of archives, their extraction and conversion (\<^verbatim>\<open>archive.py\<close>, \<^verbatim>\<open>utils.py\<close>).

  Protocols.
  \<^item> \<open>Exports\<close>, \<open>Wire\<close>, \<open>WireReport\<close>: exported fields, their two encodings and the reports; round trips of a task over D-Bus
    and JSON. \<open>TaskListing\<close>: which tasks can be listed.
  \<^item> \<open>DBusServer\<close>, \<open>DBusClient\<close>: every call with its authorization and its effect on an instance.
  \<^item> \<open>Policy\<close>, \<open>Tokens\<close>, \<open>WebApp\<close>, \<open>HttpServer\<close>, \<open>HttpSafety\<close>: the web server; \<open>HttpRoutes\<close>, \<open>HttpClient\<close>, \<open>HttpFlow\<close>: its client, and the
    refinement from a request of the client to the queue of the instance.
  \<^item> \<open>Ctl\<close>, \<open>CtlRun\<close>, \<open>CtlBus\<close>, \<open>CtlSafety\<close>: the actions of \<^verbatim>\<open>cli/fatbuildrctl.py\<close> over an abstract connection, the one of the
    D-Bus client, and the refinement from the options of the command to the task in the queue.
  \<^item> \<open>Argparse\<close>, \<open>ArgparseSafety\<close>, \<open>CtlArgs\<close>, \<open>CtlArgsSafety\<close>: the part of \<^verbatim>\<open>argparse\<close> that the commands use, with its abbreviations and
    joined forms, the arguments \<^verbatim>\<open>fatbuildrctl\<close> declares, and the attributes its actions find.

  Builds.
  \<^item> \<open>SourceDefs\<close>: the definition files of artifacts and the cache (\<^verbatim>\<open>artifact.py\<close>, \<^verbatim>\<open>cache.py\<close>).
  \<^item> \<open>GitRepo\<close>, \<open>GitQueue\<close>, \<open>GitRoundtrip\<close>, \<open>PatchQueue\<close>: patch files, the queue in a git repository, and its round trip
    (\<^verbatim>\<open>git.py\<close>, \<^verbatim>\<open>patches.py\<close>).
  \<^item> \<open>Images\<close>, \<open>ImageSpec\<close>: images, environments and the commands run in containers (\<^verbatim>\<open>images.py\<close>, \<^verbatim>\<open>containers.py\<close>).
  \<^item> \<open>BuildPrepare\<close>, \<open>BuildSources\<close>, \<open>BuildDeb\<close>, \<open>BuildRpm\<close>, \<open>RpmSpec\<close>, \<open>BuildFailures\<close>: the preparation of builds and the three
    formats (\<^verbatim>\<open>builds/\<close>), as actions on a state that has the file tree and the log of the commands; \<open>BuildExamples\<close>
    is the world in which their properties are exercised. \<open>MockPlugins\<close>, \<open>MockSafety\<close>: the plugins that the RPM
    builds give to mock (\<^verbatim>\<open>../conf/images/rpm/mock/\<close>).
  \<^item> \<open>Templates\<close>: the filters of templates (\<^verbatim>\<open>templates.py\<close>). \<open>Cleanup\<close>: temporary directories at the end of a program (\<^verbatim>\<open>cleanup.py\<close>).

  What is shown. Invariants: the queue and its semaphore, the accounting of the tasks of the daemon, the
  life of a task. Refinements: the queue to a list, a request of either client to the task of a build.
  Round trips: the wire formats, the saved forms, the console messages, the tokens, the patch queue.
  Safety: who a call is authorized for and what it changes, what an extraction can write, which sources a
  build takes. Termination and bounds: derivatives, purges, the expiration of tokens, the end of a watch. Errors: the
  cases the code does not handle are stated as it behaves.

  Bounds. Where Python recurses, the limit of its interpreter is an argument (1000 in the examples), and
  running out of it is the error the interpreter raises. The polls of a watch are bounded by a fuel;
  \<open>watch_ends\<close> shows that a fuel above the number of the polls that find the task pending is enough.

  Parameters. What is not in the repository is an argument: D-Bus, polkit and the event loop, PyJWT,
  PyYAML, Jinja2, GnuPG, pygit2 and the tools of patches, the readers and writers of archive formats,
  the metadata of repositories, the commands that are run (with their effect on the file tree), the
  quoting and the matching of addresses, clocks and random names. The sections of configuration files are given as
  parsed text.

  Not modelled: the settings of terminals, of which the mode is a flag; the sockets of the service manager and of
  the consoles, beyond what is sent; the registration of objects on the bus and the start of the web server, which
  only call their libraries; file modes, owners and links; HTML templates, of which the views give the name and the
  variables; what modules log, beyond the routing of records and the dump of the settings; the small wrappers and the
  tests outside \<^verbatim>\<open>src/fatbuildr/\<close>.
\<close>

end
